(* ===== verification/Colab_Prelude.thy ===== *)
theory Colab_Prelude
  imports Main
begin

text \<open>
  What every service model of the repository shares: the clock and identifiers of the
  Python code, the text renderings its keys are built from, the exceptions it raises, and
  an SQLAlchemy session as explicit state (committed tables, working tables, the messages
  already handed to the broker). A handler is a computation over a session that returns a
  value or an exception together with the session it leaves behind.
  Two locales state the interfaces the services rely on: a table with a unique key
  (\<open>unique_rows\<close>) and a life cycle with final states (\<open>lifecycle\<close>, \<open>ranked_lifecycle\<close>).
\<close>

named_theorems comp_simps \<open>unfolding rules that run a session computation\<close>
named_theorems row_simps \<open>facts on tables as lists of rows\<close>

section \<open>Time, identifiers and text\<close>

text \<open>
  A timezone-aware \<open>datetime\<close> is its number of microseconds since 1970-01-01 UTC; a
  \<open>timedelta\<close> is a number of microseconds. A \<open>uuid.UUID\<close> is its 128-bit integer.
\<close>

type_synonym datetime = int
type_synonym uuid = nat

definition days :: "int \<Rightarrow> int" where
  "days n = n * 86400000000"

definition from_seconds :: "int \<Rightarrow> datetime" where
  "from_seconds n = n * 1000000"

definition from_millis :: "int \<Rightarrow> datetime" where
  "from_millis n = n * 1000"

lemma days_add: "days a + days b = days (a + b)"
  by (simp add: days_def)

lemma days_mono [simp]: "days a \<le> days b \<longleftrightarrow> a \<le> b"
  by (simp add: days_def)

lemma days_nonneg [simp]: "0 \<le> days a \<longleftrightarrow> 0 \<le> a"
  by (simp add: days_def)

definition hex_digit :: "nat \<Rightarrow> char" where
  "hex_digit d = (if d < 10 then char_of (48 + d) else char_of (87 + d))"

primrec hex_digits :: "nat \<Rightarrow> nat \<Rightarrow> string" where
  "hex_digits 0 n = []"
| "hex_digits (Suc k) n = hex_digits k (n div 16) @ [hex_digit (n mod 16)]"

text \<open>\<open>str(uuid)\<close>: 32 hexadecimal digits in groups of 8, 4, 4, 4 and 12.\<close>

definition str_uuid :: "uuid \<Rightarrow> string" where
  "str_uuid u =
     (let h = hex_digits 32 u in
      take 8 h @ ''-'' @ take 4 (drop 8 h) @ ''-'' @ take 4 (drop 12 h) @ ''-''
        @ take 4 (drop 16 h) @ ''-'' @ drop 20 h)"

fun str_nat :: "nat \<Rightarrow> string" where
  "str_nat n = (if n < 10 then [char_of (48 + n)] else str_nat (n div 10) @ [char_of (48 + n mod 10)])"

declare str_nat.simps [simp del]

definition str_int :: "int \<Rightarrow> string" where
  "str_int i = (if i < 0 then ''-'' @ str_nat (nat (- i)) else str_nat (nat i))"

definition pad0 :: "nat \<Rightarrow> string \<Rightarrow> string" where
  "pad0 k s = replicate (k - length s) (CHR ''0'') @ s"

text \<open>
  \<open>t.date()\<close> of a UTC datetime is a day number; \<open>isoformat()\<close> renders it in the proleptic
  Gregorian calendar as YYYY-MM-DD.
\<close>

definition date_of :: "datetime \<Rightarrow> int" where
  "date_of t = t div 86400000000"

definition civil_from_days :: "int \<Rightarrow> int \<times> int \<times> int" where
  "civil_from_days z =
     (let z1 = z + 719468;
          era = z1 div 146097;
          doe = z1 mod 146097;
          yoe = (doe - doe div 1460 + doe div 36524 - doe div 146096) div 365;
          doy = doe - (365 * yoe + yoe div 4 - yoe div 100);
          mp = (5 * doy + 2) div 153;
          d = doy - (153 * mp + 2) div 5 + 1;
          m = (if mp < 10 then mp + 3 else mp - 9)
      in (yoe + era * 400 + (if m \<le> 2 then 1 else 0), m, d))"

definition iso_date :: "int \<Rightarrow> string" where
  "iso_date z = (case civil_from_days z of (y, m, d) \<Rightarrow>
     pad0 4 (str_int y) @ ''-'' @ pad0 2 (str_int m) @ ''-'' @ pad0 2 (str_int d))"

lemma iso_date_example: "iso_date 20584 = ''2026-05-11''"
  by code_simp

text \<open>\<open>isoformat()\<close> of a UTC datetime; the microseconds appear only when they are not zero.\<close>

definition iso_datetime :: "datetime \<Rightarrow> string" where
  "iso_datetime t =
     (let sec = t div 1000000; us = t mod 1000000; sod = sec mod 86400 in
      iso_date (date_of t) @ ''T'' @ pad0 2 (str_int (sod div 3600)) @ '':''
        @ pad0 2 (str_int (sod div 60 mod 60)) @ '':'' @ pad0 2 (str_int (sod mod 60))
        @ (if us = 0 then [] else ''.'' @ pad0 6 (str_int us)) @ ''+00:00'')"

lemma iso_datetime_example: "iso_datetime 1778457600000250 = ''2026-05-11T00:00:00.000250+00:00''"
  by code_simp

text \<open>ASCII lower-casing and substring test, as \<open>s.lower()\<close> and \<open>t in s\<close> compute them.\<close>

definition lower_char :: "char \<Rightarrow> char" where
  "lower_char c = (let n = of_char c :: nat in if 65 \<le> n \<and> n \<le> 90 then char_of (n + 32) else c)"

definition upper_char :: "char \<Rightarrow> char" where
  "upper_char c = (let n = of_char c :: nat in if 97 \<le> n \<and> n \<le> 122 then char_of (n - 32) else c)"

fun starts_with :: "string \<Rightarrow> string \<Rightarrow> bool" where
  "starts_with [] s = True"
| "starts_with (c # cs) [] = False"
| "starts_with (c # cs) (d # ds) = (c = d \<and> starts_with cs ds)"

fun contains :: "string \<Rightarrow> string \<Rightarrow> bool" where
  "contains t [] = (t = [])"
| "contains t (c # cs) = (starts_with t (c # cs) \<or> contains t cs)"

fun split_on :: "char \<Rightarrow> string \<Rightarrow> string list" where
  "split_on c [] = [[]]"
| "split_on c (d # ds) =
     (if d = c then [] # split_on c ds
      else case split_on c ds of [] \<Rightarrow> [[d]] | w # ws \<Rightarrow> (d # w) # ws)"

text \<open>\<open>sep.join(words)\<close>.\<close>

fun join :: "string \<Rightarrow> string list \<Rightarrow> string" where
  "join sep [] = []"
| "join sep [x] = x"
| "join sep (x # y # ys) = x @ sep @ join sep (y # ys)"

section \<open>Values and messages\<close>

datatype json = JNull | JBool bool | JInt int | JStr string | JList "json list"
  | JObj "(string \<times> json) list"

definition truthy :: "json \<Rightarrow> bool" where
  "truthy v = (case v of JNull \<Rightarrow> False | JBool b \<Rightarrow> b | JInt i \<Rightarrow> i \<noteq> 0 | JStr s \<Rightarrow> s \<noteq> []
     | JList xs \<Rightarrow> xs \<noteq> [] | JObj kvs \<Rightarrow> kvs \<noteq> [])"

datatype message = Message (routing_key: string) (payload: "(string \<times> json) list")

text \<open>
  What a service's HTTP call to the entitlements endpoint of billing-svc brings back: no usable answer, or a status with the
  \<open>axes\<close> object of the body (None when the body has none).
\<close>

datatype billing_reply = Billing_Down | Billing_Reply nat "(string \<times> json) list option"

text \<open>The exceptions the modelled code raises, or lets a library call raise.\<close>

datatype exn =
    IntegrityError
  | MultipleResultsFound
  | NoResultFound
  | MissingGreenlet
  | TypeError
  | KeyError string
  | ValueError
  | AuthError string
  | NotFoundError string
  | ValidationError string
  | StripeError
  | InsufficientCreditsError int int
  | InvalidTransitionError string string
  | SynopsisFlagged string
  | RenderError
  | AttributeError string
  | UnboundLocalError string
  | RateLimitError int
  | ForbiddenError string
  | ConflictError string
  | DataError
  | HTTPStatusError nat
  | ConnectError
  | EntitlementError
  | LibraryError string
  | HTTPException nat string

section \<open>Database sessions as state\<close>

text \<open>
  \<open>committed\<close> holds the tables as the last commit left them, \<open>work\<close> the tables as the
  running transaction sees them, \<open>outbox\<close> the messages already published (publishing is not
  transactional), \<open>clock\<close> what \<open>datetime.now(UTC)\<close> reads during the request and
  \<open>next_uuid\<close> the next identifier \<open>uuid.uuid4()\<close> hands out.
\<close>

record 'db sess =
  committed :: 'db
  work :: 'db
  outbox :: "message list"
  clock :: datetime
  next_uuid :: uuid

type_synonym ('db, 'a) comp = "'db sess \<Rightarrow> (exn + 'a) \<times> 'db sess"

definition ret :: "'a \<Rightarrow> ('db, 'a) comp" where
  "ret a = (\<lambda>s. (Inr a, s))"

definition raise :: "exn \<Rightarrow> ('db, 'a) comp" where
  "raise e = (\<lambda>s. (Inl e, s))"

definition bind_c :: "('db, 'a) comp \<Rightarrow> ('a \<Rightarrow> ('db, 'b) comp) \<Rightarrow> ('db, 'b) comp" where
  "bind_c m f = (\<lambda>s. case m s of (Inl e, s1) \<Rightarrow> (Inl e, s1) | (Inr a, s1) \<Rightarrow> f a s1)"

definition seq_c :: "('db, 'a) comp \<Rightarrow> ('db, 'b) comp \<Rightarrow> ('db, 'b) comp" where
  "seq_c m k = bind_c m (\<lambda>_. k)"

definition when_c :: "bool \<Rightarrow> ('db, unit) comp \<Rightarrow> ('db, unit) comp" where
  "when_c b m = (if b then m else ret ())"

text \<open>\<open>try: m except IntegrityError: h\<close>.\<close>

definition catch_integrity :: "('db, 'a) comp \<Rightarrow> ('db, 'a) comp \<Rightarrow> ('db, 'a) comp" where
  "catch_integrity m h = (\<lambda>s. case m s of
     (Inl IntegrityError, s1) \<Rightarrow> h s1 | (r, s1) \<Rightarrow> (r, s1))"

fun for_c :: "'x list \<Rightarrow> ('x \<Rightarrow> ('db, unit) comp) \<Rightarrow> ('db, unit) comp" where
  "for_c [] f = ret ()"
| "for_c (x # xs) f = seq_c (f x) (for_c xs f)"

definition now_c :: "('db, datetime) comp" where
  "now_c = (\<lambda>s. (Inr (clock s), s))"

definition uuid4 :: "('db, uuid) comp" where
  "uuid4 = (\<lambda>s. (Inr (next_uuid s), s\<lparr>next_uuid := Suc (next_uuid s)\<rparr>))"

definition commit_c :: "('db, unit) comp" where
  "commit_c = (\<lambda>s. (Inr (), s\<lparr>committed := work s\<rparr>))"

definition rollback_c :: "('db, unit) comp" where
  "rollback_c = (\<lambda>s. (Inr (), s\<lparr>work := committed s\<rparr>))"

definition publish_c :: "message \<Rightarrow> ('db, unit) comp" where
  "publish_c m = (\<lambda>s. (Inr (), s\<lparr>outbox := outbox s @ [m]\<rparr>))"

text \<open>
  Queries: \<open>scalars().all()\<close>, \<open>scalars().first()\<close>, \<open>scalar_one_or_none()\<close> (which raises
  when several rows match) and \<open>scalar_one()\<close>.
\<close>

definition select_all :: "('db \<Rightarrow> 'r list) \<Rightarrow> ('r \<Rightarrow> bool) \<Rightarrow> ('db, 'r list) comp" where
  "select_all tbl P = (\<lambda>s. (Inr (filter P (tbl (work s))), s))"

definition one_or_none :: "'r list \<Rightarrow> exn + 'r option" where
  "one_or_none rs = (case rs of [] \<Rightarrow> Inr None | [r] \<Rightarrow> Inr (Some r) | _ \<Rightarrow> Inl MultipleResultsFound)"

definition scalar_one_or_none :: "('db \<Rightarrow> 'r list) \<Rightarrow> ('r \<Rightarrow> bool) \<Rightarrow> ('db, 'r option) comp" where
  "scalar_one_or_none tbl P = (\<lambda>s. (one_or_none (filter P (tbl (work s))), s))"

definition scalar_one :: "('db \<Rightarrow> 'r list) \<Rightarrow> ('r \<Rightarrow> bool) \<Rightarrow> ('db, 'r) comp" where
  "scalar_one tbl P = bind_c (scalar_one_or_none tbl P)
     (\<lambda>r. case r of None \<Rightarrow> raise NoResultFound | Some x \<Rightarrow> ret x)"

definition first_of :: "'r list \<Rightarrow> 'r option" where
  "first_of rs = (case rs of [] \<Rightarrow> None | r # _ \<Rightarrow> Some r)"

text \<open>
  Writes: \<open>upd\<close> is the record update of the table. An insert fails with IntegrityError when
  the row breaks a CHECK constraint or clashes with a row of the table on a unique key.
\<close>

definition modify_table ::
  "(('r list \<Rightarrow> 'r list) \<Rightarrow> 'db \<Rightarrow> 'db) \<Rightarrow> ('db \<Rightarrow> 'r list) \<Rightarrow> ('r list \<Rightarrow> 'r list) \<Rightarrow> ('db, unit) comp" where
  "modify_table upd tbl f = (\<lambda>s. (Inr (), s\<lparr>work := upd (\<lambda>_. f (tbl (work s))) (work s)\<rparr>))"

definition db_insert ::
  "(('r list \<Rightarrow> 'r list) \<Rightarrow> 'db \<Rightarrow> 'db) \<Rightarrow> ('db \<Rightarrow> 'r list) \<Rightarrow> ('r \<Rightarrow> bool) \<Rightarrow> ('r \<Rightarrow> 'r \<Rightarrow> bool) \<Rightarrow> 'r \<Rightarrow> ('db, unit) comp" where
  "db_insert upd tbl check clash r = (\<lambda>s.
     if check r \<and> \<not> list_ex (clash r) (tbl (work s))
     then (Inr (), s\<lparr>work := upd (\<lambda>_. tbl (work s) @ [r]) (work s)\<rparr>)
     else (Inl IntegrityError, s))"

definition update_where :: "('r \<Rightarrow> bool) \<Rightarrow> ('r \<Rightarrow> 'r) \<Rightarrow> 'r list \<Rightarrow> 'r list" where
  "update_where P f rs = map (\<lambda>r. if P r then f r else r) rs"

text \<open>
  A request runs in its own session: it starts from the committed tables and whatever it has
  not committed when the session closes is rolled back.
\<close>

definition in_session :: "('db, 'a) comp \<Rightarrow> ('db, 'a) comp" where
  "in_session m = (\<lambda>s. case m (s\<lparr>work := committed s\<rparr>) of
     (r, s1) \<Rightarrow> (r, s1\<lparr>work := committed s1\<rparr>))"

definition committing :: "('db, 'a) comp \<Rightarrow> ('db, 'a) comp" where
  "committing m = in_session (bind_c m (\<lambda>a. seq_c commit_c (ret a)))"

lemmas comp_defs = ret_def raise_def bind_c_def seq_c_def when_c_def catch_integrity_def
  now_c_def uuid4_def commit_c_def rollback_c_def publish_c_def select_all_def
  scalar_one_or_none_def scalar_one_def modify_table_def db_insert_def in_session_def

section \<open>Facts on computations\<close>

lemma ret_run [comp_simps]: "ret a s = (Inr a, s)"
  by (simp add: ret_def)

lemma raise_run [comp_simps]: "raise e s = (Inl e, s)"
  by (simp add: raise_def)

lemma bind_run [comp_simps]:
  "bind_c m f s = (case m s of (Inl e, s1) \<Rightarrow> (Inl e, s1) | (Inr a, s1) \<Rightarrow> f a s1)"
  by (simp add: bind_c_def)

lemma seq_run [comp_simps]:
  "seq_c m k s = (case m s of (Inl e, s1) \<Rightarrow> (Inl e, s1) | (Inr a, s1) \<Rightarrow> k s1)"
  by (simp add: seq_c_def bind_c_def)

lemma when_run [comp_simps]: "when_c b m s = (if b then m s else (Inr (), s))"
  by (simp add: when_c_def ret_def)

lemma now_run [comp_simps]: "now_c s = (Inr (clock s), s)"
  by (simp add: now_c_def)

lemma uuid4_run [comp_simps]: "uuid4 s = (Inr (next_uuid s), s\<lparr>next_uuid := Suc (next_uuid s)\<rparr>)"
  by (simp add: uuid4_def)

lemma commit_run [comp_simps]: "commit_c s = (Inr (), s\<lparr>committed := work s\<rparr>)"
  by (simp add: commit_c_def)

lemma rollback_run [comp_simps]: "rollback_c s = (Inr (), s\<lparr>work := committed s\<rparr>)"
  by (simp add: rollback_c_def)

lemma publish_run [comp_simps]: "publish_c m s = (Inr (), s\<lparr>outbox := outbox s @ [m]\<rparr>)"
  by (simp add: publish_c_def)

lemma select_run [comp_simps]: "select_all tbl P s = (Inr (filter P (tbl (work s))), s)"
  by (simp add: select_all_def)

lemma modify_run [comp_simps]:
  "modify_table upd tbl f s = (Inr (), s\<lparr>work := upd (\<lambda>_. f (tbl (work s))) (work s)\<rparr>)"
  by (simp add: modify_table_def)

lemma insert_run [comp_simps]:
  "db_insert upd tbl check clash r s =
     (if check r \<and> \<not> list_ex (clash r) (tbl (work s))
      then (Inr (), s\<lparr>work := upd (\<lambda>_. tbl (work s) @ [r]) (work s)\<rparr>)
      else (Inl IntegrityError, s))"
  by (simp add: db_insert_def)

lemma scalar_run [comp_simps]:
  "scalar_one_or_none tbl P s = (one_or_none (filter P (tbl (work s))), s)"
  by (simp add: scalar_one_or_none_def)

lemma one_or_none_simps [simp]:
  "one_or_none [] = Inr None"
  "one_or_none [r] = Inr (Some r)"
  "one_or_none (r # r2 # rs) = Inl MultipleResultsFound"
  by (simp_all add: one_or_none_def)

lemma one_or_none_cases:
  obtains (none) "rs = []" "one_or_none rs = Inr None"
  | (one) r where "rs = [r]" "one_or_none rs = Inr (Some r)"
  | (many) "1 < length rs" "one_or_none rs = Inl MultipleResultsFound"
  by (cases rs rule: remdups_adj.cases) auto

lemma one_or_none_SomeD: "one_or_none rs = Inr (Some r) \<Longrightarrow> rs = [r]"
  by (cases rs rule: remdups_adj.cases) auto

lemma one_or_none_NoneD: "one_or_none rs = Inr None \<Longrightarrow> rs = []"
  by (cases rs rule: remdups_adj.cases) auto

text \<open>
  A predicate kept by a computation whatever it returns, and how it composes. An invariant of
  a service is proved operation by operation with these rules.
\<close>

definition keeps :: "('db sess \<Rightarrow> bool) \<Rightarrow> ('db, 'a) comp \<Rightarrow> bool" where
  "keeps I m \<longleftrightarrow> (\<forall>s. I s \<longrightarrow> I (snd (m s)))"

lemma keepsI [intro?]: "(\<And>s. I s \<Longrightarrow> I (snd (m s))) \<Longrightarrow> keeps I m"
  by (simp add: keeps_def)

lemma keepsD: "keeps I m \<Longrightarrow> I s \<Longrightarrow> I (snd (m s))"
  by (simp add: keeps_def)

lemma keeps_ret [simp]: "keeps I (ret a)"
  by (simp add: keeps_def ret_def)

lemma keeps_raise [simp]: "keeps I (raise e)"
  by (simp add: keeps_def raise_def)

lemma keeps_bind:
  assumes "keeps I m" and "\<And>a. keeps I (f a)"
  shows "keeps I (bind_c m f)"
proof
  fix s assume "I s"
  then have "I (snd (m s))" by (rule keepsD [OF assms(1)])
  then show "I (snd (bind_c m f s))"
    using keepsD [OF assms(2)]
    by (auto simp: bind_c_def split: prod.split sum.split)
qed

lemma keeps_seq: "keeps I m \<Longrightarrow> keeps I k \<Longrightarrow> keeps I (seq_c m k)"
  by (simp add: seq_c_def keeps_bind)

lemma keeps_when: "keeps I m \<Longrightarrow> keeps I (when_c b m)"
  by (simp add: when_c_def)

lemma catch_integrity_run [comp_simps]:
  "catch_integrity m h s =
     (if fst (m s) = Inl IntegrityError then h (snd (m s)) else m s)"
  by (auto simp: catch_integrity_def split: prod.split sum.split exn.split)

lemma keeps_catch: "keeps I m \<Longrightarrow> keeps I h \<Longrightarrow> keeps I (catch_integrity m h)"
  by (auto simp: keeps_def catch_integrity_run)

lemma keeps_for: "(\<And>x. x \<in> set xs \<Longrightarrow> keeps I (f x)) \<Longrightarrow> keeps I (for_c xs f)"
  by (induction xs) (auto intro: keeps_seq)

lemma keeps_select [simp]: "keeps I (select_all tbl P)"
  by (simp add: keeps_def select_all_def)

lemma keeps_scalar [simp]: "keeps I (scalar_one_or_none tbl P)"
  by (simp add: keeps_def scalar_one_or_none_def)

lemma keeps_scalar_one [simp]: "keeps I (scalar_one tbl P)"
  by (auto simp: scalar_one_def intro!: keeps_bind split: option.split)

lemma keeps_now [simp]: "keeps I now_c"
  by (simp add: keeps_def now_c_def)

lemmas keeps_intros = keeps_bind keeps_seq keeps_when keeps_catch keeps_for

text \<open>A request that commits when its handler returns and is rolled back when it raises.\<close>

lemma committing_run:
  "committing m s =
     (case m (s\<lparr>work := committed s\<rparr>) of
        (Inl e, s1) \<Rightarrow> (Inl e, s1\<lparr>work := committed s1\<rparr>)
      | (Inr a, s1) \<Rightarrow> (Inr a, s1\<lparr>committed := work s1\<rparr>))"
  by (simp add: committing_def in_session_def bind_run seq_run commit_run ret_run split: prod.split sum.split)

section \<open>Facts on tables\<close>

lemma update_where_Nil [simp, row_simps]: "update_where P f [] = []"
  by (simp add: update_where_def)

lemma update_where_Cons [simp, row_simps]:
  "update_where P f (r # rs) = (if P r then f r else r) # update_where P f rs"
  by (simp add: update_where_def)

lemma update_where_append [simp, row_simps]:
  "update_where P f (xs @ ys) = update_where P f xs @ update_where P f ys"
  by (simp add: update_where_def)

lemma length_update_where [simp]: "length (update_where P f rs) = length rs"
  by (simp add: update_where_def)

lemma map_update_where:
  "(\<And>r. P r \<Longrightarrow> key (f r) = key r) \<Longrightarrow> map key (update_where P f rs) = map key rs"
  by (induction rs) auto

lemma image_update_where:
  assumes "\<And>r. P r \<Longrightarrow> key (f r) = key r"
  shows "key ` set (update_where P f rs) = key ` set rs"
  using map_update_where [of P key f rs] assms by (metis list.set_map)

lemma filter_update_where_other:
  "(\<And>r. P r \<Longrightarrow> \<not> Q r \<and> \<not> Q (f r)) \<Longrightarrow> filter Q (update_where P f rs) = filter Q rs"
  by (induction rs) auto

lemma filter_update_where_same:
  "(\<And>r. key (f r) = key r) \<Longrightarrow> filter (\<lambda>r. key r = i) (update_where (\<lambda>r. key r = i) f rs) = map f (filter (\<lambda>r. key r = i) rs)"
  by (induction rs) simp_all

lemma set_update_where: "set (update_where P f rs) = f ` {r \<in> set rs. P r} \<union> {r \<in> set rs. \<not> P r}"
  by (induction rs) auto

lemma update_where_none: "(\<And>r. r \<in> set rs \<Longrightarrow> \<not> P r) \<Longrightarrow> update_where P f rs = rs"
  by (induction rs) auto

definition sum_by :: "('r \<Rightarrow> bool) \<Rightarrow> ('r \<Rightarrow> int) \<Rightarrow> 'r list \<Rightarrow> int" where
  "sum_by P f rs = sum_list (map f (filter P rs))"

lemma sum_by_Nil [simp]: "sum_by P f [] = 0"
  by (simp add: sum_by_def)

lemma sum_by_Cons [simp]: "sum_by P f (r # rs) = (if P r then f r else 0) + sum_by P f rs"
  by (simp add: sum_by_def)

lemma sum_by_append [simp]: "sum_by P f (xs @ ys) = sum_by P f xs + sum_by P f ys"
  by (simp add: sum_by_def)

text \<open>Updating the only row that matches moves the sum by the difference on that row.\<close>

lemma sum_by_update_key:
  assumes "distinct (map key rs)" and "r \<in> set rs"
  shows "sum_by P f (update_where (\<lambda>x. key x = key r) g rs) =
         sum_by P f rs - (if P r then f r else 0) + (if P (g r) then f (g r) else 0)"
  using assms
proof (induction rs)
  case Nil
  then show ?case by simp
next
  case (Cons x xs)
  show ?case
  proof (cases "r = x")
    case True
    with Cons.prems have "\<And>y. y \<in> set xs \<Longrightarrow> key y \<noteq> key r"
      by (metis distinct.simps(2) image_eqI list.simps(9) list.set_map)
    then have "update_where (\<lambda>y. key y = key r) g xs = xs" by (rule update_where_none)
    with True show ?thesis by simp
  next
    case False
    with Cons.prems have "r \<in> set xs" and "key x \<noteq> key r" by auto
    with Cons show ?thesis by simp
  qed
qed

lemma filter_key_none: "k \<notin> key ` set rs \<Longrightarrow> filter (\<lambda>x. key x = k) rs = []"
  by (auto simp: filter_empty_conv)

lemma filter_key_unique:
  "distinct (map key rs) \<Longrightarrow> r \<in> set rs \<Longrightarrow> filter (\<lambda>x. key x = key r) rs = [r]"
proof (induction rs)
  case (Cons x xs)
  show ?case
  proof (cases "x = r")
    case True
    with Cons.prems show ?thesis by (simp add: filter_key_none)
  next
    case False
    with Cons show ?thesis by auto
  qed
qed simp

lemma filter_key_at_most_one:
  assumes "distinct (map key rs)"
  shows "length (filter (\<lambda>x. key x = k) rs) \<le> 1"
proof (cases "k \<in> key ` set rs")
  case True
  then obtain r where "r \<in> set rs" "k = key r" by auto
  with assms show ?thesis by (simp add: filter_key_unique)
next
  case False
  then show ?thesis by (simp add: filter_key_none)
qed

section \<open>Tables that only grow\<close>

text \<open>
  \<open>grows R xs ys\<close>: every row of \<open>xs\<close> is still in its place in \<open>ys\<close>, changed at most as \<open>R\<close> allows,
  and new rows come after them.
\<close>

definition grows :: "('r \<Rightarrow> 'r \<Rightarrow> bool) \<Rightarrow> 'r list \<Rightarrow> 'r list \<Rightarrow> bool" where
  "grows R xs ys \<longleftrightarrow> length xs \<le> length ys \<and> (\<forall>k < length xs. R (xs ! k) (ys ! k))"

lemma grows_refl: "(\<And>r. R r r) \<Longrightarrow> grows R xs xs"
  by (simp add: grows_def)

lemma grows_trans: "(\<And>a b c. R a b \<Longrightarrow> R b c \<Longrightarrow> R a c) \<Longrightarrow> grows R xs ys \<Longrightarrow> grows R ys zs \<Longrightarrow> grows R xs zs"
  unfolding grows_def by (meson le_trans less_le_trans)

lemma grows_append: "(\<And>r. R r r) \<Longrightarrow> grows R xs (xs @ ys)"
  by (simp add: grows_def nth_append)

lemma filter_same: "distinct xs \<Longrightarrow> x \<in> set xs \<Longrightarrow> filter (\<lambda>y. y = x) xs = [x]"
proof (induction xs)
  case (Cons y ys)
  then show ?case by (cases "x = y") (auto simp: filter_empty_conv)
qed simp

lemma grows_member:
  assumes "r \<in> set xs" and "grows R xs ys" obtains r' where "r' \<in> set ys" and "R r r'"
  using assms unfolding grows_def by (metis in_set_conv_nth less_le_trans)

lemma grows_update:
  "(\<And>r. r \<in> set xs \<Longrightarrow> P r \<Longrightarrow> R r (f r)) \<Longrightarrow> (\<And>r. R r r) \<Longrightarrow> grows R xs (update_where P f xs)"
  by (auto simp: grows_def update_where_def)

section \<open>Interface: a table with a unique key\<close>

text \<open>
  What the services rely on when they insert under a unique constraint: an insert of a row
  whose key is new appends it, an insert under a key the table holds is refused and changes
  nothing. The client's facts: keys stay distinct, a row that went in is found under its key,
  and a replayed insert is refused.
\<close>

locale unique_rows =
  fixes rows :: "'db sess \<Rightarrow> 'r list"
    and key :: "'r \<Rightarrow> 'k"
    and ok :: "'r \<Rightarrow> bool"
    and ins :: "'r \<Rightarrow> ('db, unit) comp"
  assumes ins_new: "ok r \<Longrightarrow> key r \<notin> key ` set (rows s) \<Longrightarrow>
      fst (ins r s) = Inr () \<and> rows (snd (ins r s)) = rows s @ [r]"
    and ins_dup: "\<not> ok r \<or> key r \<in> key ` set (rows s) \<Longrightarrow> ins r s = (Inl IntegrityError, s)"
begin

lemma ins_cases:
  obtains (fresh) "ok r" "key r \<notin> key ` set (rows s)" "fst (ins r s) = Inr ()"
      "rows (snd (ins r s)) = rows s @ [r]"
  | (refused) "\<not> ok r \<or> key r \<in> key ` set (rows s)" "ins r s = (Inl IntegrityError, s)"
  using ins_new ins_dup by blast

lemma ins_distinct: "distinct (map key (rows s)) \<Longrightarrow> distinct (map key (rows (snd (ins r s))))"
  by (rule ins_cases [of r s]) auto

lemma ins_subset: "set (rows s) \<subseteq> set (rows (snd (ins r s)))"
  by (rule ins_cases [of r s]) auto

lemma ins_stored: "fst (ins r s) = Inr () \<Longrightarrow> r \<in> set (rows (snd (ins r s)))"
  by (rule ins_cases [of r s]) auto

lemma ins_twice:
  assumes "fst (ins r s) = Inr ()" and "key r2 = key r"
  shows "ins r2 (snd (ins r s)) = (Inl IntegrityError, snd (ins r s))"
  using ins_stored [OF assms(1)] assms(2) by (intro ins_dup) force

lemma ins_lookup:
  assumes "distinct (map key (rows s))" and "fst (ins r s) = Inr ()"
  shows "filter (\<lambda>x. key x = key r) (rows (snd (ins r s))) = [r]"
  by (rule filter_key_unique [OF ins_distinct [OF assms(1)] ins_stored [OF assms(2)]])

end

section \<open>Interface: a life cycle with final states\<close>

text \<open>
  A status machine of the code: \<open>step q e\<close> is the next status, or None where the code refuses
  the event. \<open>run_events\<close> feeds it a sequence of events, a refused one leaving the status.
\<close>

fun run_events :: "('st \<Rightarrow> 'ev \<Rightarrow> 'st option) \<Rightarrow> 'st \<Rightarrow> 'ev list \<Rightarrow> 'st" where
  "run_events step q [] = q"
| "run_events step q (e # es) =
     run_events step (case step q e of None \<Rightarrow> q | Some q2 \<Rightarrow> q2) es"

fun taken_steps :: "('st \<Rightarrow> 'ev \<Rightarrow> 'st option) \<Rightarrow> 'st \<Rightarrow> 'ev list \<Rightarrow> nat" where
  "taken_steps step q [] = 0"
| "taken_steps step q (e # es) =
     (case step q e of None \<Rightarrow> taken_steps step q es | Some q2 \<Rightarrow> Suc (taken_steps step q2 es))"

locale lifecycle =
  fixes step :: "'st \<Rightarrow> 'ev \<Rightarrow> 'st option"
    and final :: "'st \<Rightarrow> bool"
  assumes final_refuses: "final q \<Longrightarrow> step q e = None"
begin

lemma final_run: "final q \<Longrightarrow> run_events step q es = q"
  by (induction es) (simp_all add: final_refuses)

lemma run_append: "run_events step q (xs @ ys) = run_events step (run_events step q xs) ys"
  by (induction xs arbitrary: q) auto

lemma final_stays: "final (run_events step q xs) \<Longrightarrow> run_events step q (xs @ ys) = run_events step q xs"
  by (simp add: run_append final_run)

end

text \<open>A life cycle that only moves forward: every accepted event raises a bounded rank.\<close>

locale ranked_lifecycle = lifecycle +
  fixes rank :: "'a \<Rightarrow> nat" and top :: nat
  assumes step_rank: "step q e = Some q2 \<Longrightarrow> rank q < rank q2"
    and rank_top: "rank q \<le> top"
begin

lemma run_rank: "rank q + taken_steps step q es \<le> rank (run_events step q es)"
proof (induction es arbitrary: q)
  case Nil
  show ?case by simp
next
  case (Cons e es)
  show ?case
  proof (cases "step q e")
    case None
    then show ?thesis using Cons [of q] by simp
  next
    case (Some q2)
    then show ?thesis using Cons [of q2] step_rank [OF Some] by simp
  qed
qed

lemma steps_bounded: "taken_steps step q es \<le> top - rank q"
  using run_rank [of q es] rank_top [of "run_events step q es"] by linarith

end

end
