(* ===== verification/Billing_Data.thy ===== *)
theory Billing_Data
  imports Colab_Prelude
begin

text \<open>
  The tables of billing-svc (services/billing-svc/app/models/billing.py): one record per ORM
  class with its columns, one datatype per column restricted by a CHECK constraint, and the
  unique constraints as clash predicates on pairs of rows. \<open>billing_db\<close> is the schema.
\<close>

section \<open>Column types\<close>

datatype sub_source = Src_Stripe | Src_Revenuecat
datatype gateway = Gw_Stripe | Gw_Apple | Gw_Google | Gw_Paddle_In
datatype tier = Free | Premium | Pro
datatype sub_status = Trialing | Active | Past_Due | Grace | Paused | Canceled | Expired
datatype billing_period = Month | Year
datatype ent_source = Es_Default | Es_Promo | Es_Subscription | Es_Family_Share | Es_Grant
datatype tx_status = Reserved | Committed | Released | Reversed
datatype invoice_status = Inv_Draft | Inv_Open | Inv_Paid | Inv_Uncollectible | Inv_Void
  | Inv_Refunded | Inv_Partial_Refund
datatype refund_kind = Rk_Subscription | Rk_Credit_Purchase
datatype refund_status = Rr_Auto_Approved | Rr_Pending | Rr_Approved | Rr_Denied
  | Rr_Routed_To_Apple | Rr_Routed_To_Google
datatype provider = Pv_Stripe | Pv_Revenuecat
datatype ledger_status = Wl_Received | Wl_Processing | Wl_Done | Wl_Retry | Wl_Dead
datatype dunning_state = Day0 | Day3 | Day7 | Day10_Canceled | Day30_Grace_Expired | Recovered

section \<open>Rows\<close>

record customer =
  cu_id :: uuid
  cu_user_id :: uuid
  cu_stripe_customer_id :: "string option"
  cu_revenuecat_user_id :: string
  cu_preferred_currency :: string
  cu_country :: string
  cu_tax_id :: "string option"
  cu_tax_id_type :: "string option"
  cu_created_at :: datetime
  cu_updated_at :: datetime

record subscription =
  sub_id :: uuid
  sub_user_id :: uuid
  sub_source :: sub_source
  sub_gateway :: gateway
  sub_tier :: tier
  sub_status :: sub_status
  store_subscription_id :: "string option"
  store_product_id :: string
  sub_billing_period :: billing_period
  current_period_start :: datetime
  current_period_end :: datetime
  cancel_at_period_end :: bool
  trial_end :: "datetime option"
  started_at :: datetime
  canceled_at :: "datetime option"
  ended_at :: "datetime option"
  paused_reason :: "string option"
  paused_at :: "datetime option"
  sub_metadata :: json
  sub_created_at :: datetime
  sub_updated_at :: datetime

record entitlement_snapshot =
  es_id :: uuid
  es_user_id :: uuid
  es_axis_key :: string
  es_value :: json
  es_source :: ent_source
  es_source_ref :: "uuid option"
  es_expires_at :: "datetime option"
  es_updated_at :: datetime
  es_created_at :: datetime

record credit_wallet =
  cw_user_id :: uuid
  cw_balance :: int
  cw_updated_at :: datetime

record credit_transaction =
  ct_id :: uuid
  ct_user_id :: uuid
  ct_delta :: int
  ct_reason :: string
  ct_reference_kind :: string
  ct_reference_id :: string
  ct_idempotency_key :: string
  ct_status :: tx_status
  ct_created_at :: datetime
  ct_committed_at :: "datetime option"

record invoice =
  iv_id :: uuid
  iv_user_id :: uuid
  iv_stripe_invoice_id :: "string option"
  iv_rc_event_id :: "string option"
  iv_amount_minor :: int
  iv_currency :: string
  iv_tax_minor :: int
  iv_status :: invoice_status
  iv_period_start :: "datetime option"
  iv_period_end :: "datetime option"
  iv_hosted_invoice_url :: "string option"
  iv_pdf_url :: "string option"
  iv_created_at :: datetime
  iv_updated_at :: datetime

record refund_request =
  rr_id :: uuid
  rr_user_id :: uuid
  rr_kind :: refund_kind
  rr_subscription_id :: "uuid option"
  rr_transaction_id :: "uuid option"
  rr_invoice_id :: "uuid option"
  rr_requested_at :: datetime
  rr_within_14d :: bool
  rr_reason_user :: "string option"
  rr_reason_internal :: "string option"
  rr_status :: refund_status
  rr_decided_at :: "datetime option"
  rr_decided_by :: "uuid option"
  rr_refund_amount_minor :: "int option"
  rr_refund_currency :: "string option"
  rr_stripe_refund_id :: "string option"
  rr_created_at :: datetime
  rr_updated_at :: datetime

record webhook_event =
  wl_id :: nat
  wl_provider :: provider
  wl_provider_event_id :: string
  wl_event_type :: string
  wl_event_timestamp :: datetime
  wl_payload :: json
  wl_signature_valid :: bool
  wl_status :: ledger_status
  wl_attempts :: int
  wl_last_error :: "string option"
  wl_received_at :: datetime
  wl_processed_at :: "datetime option"

record dunning_case =
  dc_id :: uuid
  dc_user_id :: uuid
  dc_subscription_id :: uuid
  dc_opened_at :: datetime
  dc_state :: dunning_state
  dc_last_attempt_at :: "datetime option"
  dc_last_attempt_result :: "string option"
  dc_last_email_sent_at :: "datetime option"
  dc_recovered_at :: "datetime option"
  dc_closed_at :: "datetime option"

record billing_db =
  customers :: "customer list"
  subscriptions :: "subscription list"
  snapshots :: "entitlement_snapshot list"
  wallets :: "credit_wallet list"
  transactions :: "credit_transaction list"
  invoices :: "invoice list"
  refund_requests :: "refund_request list"
  ledger :: "webhook_event list"
  dunning_cases :: "dunning_case list"

definition empty_billing_db :: billing_db where
  "empty_billing_db = \<lparr>customers = [], subscriptions = [], snapshots = [], wallets = [],
     transactions = [], invoices = [], refund_requests = [], ledger = [], dunning_cases = []\<rparr>"

type_synonym billing_sess = "billing_db sess"
type_synonym 'a billing = "(billing_db, 'a) comp"

section \<open>Constraints\<close>

definition cu_clash :: "customer \<Rightarrow> customer \<Rightarrow> bool" where
  "cu_clash r x \<longleftrightarrow> cu_id x = cu_id r \<or> cu_user_id x = cu_user_id r
     \<or> (cu_stripe_customer_id r \<noteq> None \<and> cu_stripe_customer_id x = cu_stripe_customer_id r)"

definition ct_reason_ok :: "credit_transaction \<Rightarrow> bool" where
  "ct_reason_ok t \<longleftrightarrow> ct_reason t \<in> set [''purchase'', ''admin_grant'', ''subscription_grant'',
     ''consume'', ''reserve'', ''release'', ''refund'', ''expire'']"

definition ct_clash :: "credit_transaction \<Rightarrow> credit_transaction \<Rightarrow> bool" where
  "ct_clash r x \<longleftrightarrow> ct_idempotency_key x = ct_idempotency_key r"

definition iv_clash :: "invoice \<Rightarrow> invoice \<Rightarrow> bool" where
  "iv_clash r x \<longleftrightarrow>
     (iv_stripe_invoice_id r \<noteq> None \<and> iv_stripe_invoice_id x = iv_stripe_invoice_id r)
     \<or> (iv_rc_event_id r \<noteq> None \<and> iv_rc_event_id x = iv_rc_event_id r)"

definition es_clash :: "entitlement_snapshot \<Rightarrow> entitlement_snapshot \<Rightarrow> bool" where
  "es_clash r x \<longleftrightarrow> es_source_ref r \<noteq> None \<and> es_user_id x = es_user_id r
     \<and> es_axis_key x = es_axis_key r \<and> es_source x = es_source r \<and> es_source_ref x = es_source_ref r"

definition wl_key :: "webhook_event \<Rightarrow> provider \<times> string" where
  "wl_key e = (wl_provider e, wl_provider_event_id e)"

text \<open>
  \<open>updated_at\<close> carries \<open>onupdate=func.now()\<close>: flushing a changed row stamps it, an unchanged
  object emits no UPDATE.
\<close>

definition save_subscription :: "subscription \<Rightarrow> subscription \<Rightarrow> unit billing" where
  "save_subscription old new = bind_c now_c (\<lambda>now.
     when_c (new \<noteq> old)
       (modify_table subscriptions_update subscriptions
          (update_where (\<lambda>r. sub_id r = sub_id old) (\<lambda>_. new\<lparr>sub_updated_at := now\<rparr>))))"

end
