(* ===== verification/Billing_Credits.thy ===== *)
theory Billing_Credits
  imports Billing_Data
begin

text \<open>
  The credit wallet of billing-svc (services/billing-svc/app/services/credits.py): the
  reserve / commit / release pattern over the wallet row and the append-only ledger of credit
  transactions, purchases, subscription grants and admin adjustments. The wallet invariant
  says that the denormalised balance is the sum of the settled ledger rows and that nobody
  spends credits they do not have.
\<close>

section \<open>Operations\<close>

definition get_or_create_wallet :: "uuid \<Rightarrow> credit_wallet billing" where
  "get_or_create_wallet user_id =
     bind_c (scalar_one_or_none wallets (\<lambda>w. cw_user_id w = user_id)) (\<lambda>result.
       case result of
         Some wallet \<Rightarrow> ret wallet
       | None \<Rightarrow> bind_c now_c (\<lambda>now.
           let wallet = \<lparr>cw_user_id = user_id, cw_balance = 0, cw_updated_at = now\<rparr>
           in seq_c (db_insert wallets_update wallets (\<lambda>_. True)
                      (\<lambda>r x. cw_user_id x = cw_user_id r) wallet)
                (ret wallet)))"

definition sum_reserved :: "uuid \<Rightarrow> int billing" where
  "sum_reserved user_id = bind_c
     (select_all transactions (\<lambda>t. ct_user_id t = user_id \<and> ct_status t = Reserved))
     (\<lambda>rows. ret (sum_list (map ct_delta rows)))"

definition insert_tx :: "credit_transaction \<Rightarrow> unit billing" where
  "insert_tx = db_insert transactions_update transactions ct_reason_ok ct_clash"

definition find_by_key :: "string \<Rightarrow> credit_transaction billing" where
  "find_by_key key = scalar_one transactions (\<lambda>t. ct_idempotency_key t = key)"

definition add_balance :: "uuid \<Rightarrow> int \<Rightarrow> datetime \<Rightarrow> unit billing" where
  "add_balance user_id d now = modify_table wallets_update wallets
     (update_where (\<lambda>w. cw_user_id w = user_id)
        (\<lambda>w. w\<lparr>cw_balance := cw_balance w + d, cw_updated_at := now\<rparr>))"

definition reserve_tx :: "uuid \<Rightarrow> uuid \<Rightarrow> int \<Rightarrow> string \<Rightarrow> string \<Rightarrow> string \<Rightarrow> datetime \<Rightarrow> credit_transaction" where
  "reserve_tx tx_id user_id amount reference_kind reference_id idempotency_key now =
     \<lparr>ct_id = tx_id, ct_user_id = user_id, ct_delta = - amount, ct_reason = ''reserve'',
      ct_reference_kind = reference_kind, ct_reference_id = reference_id,
      ct_idempotency_key = idempotency_key, ct_status = Reserved,
      ct_created_at = now, ct_committed_at = None\<rparr>"

definition settled_tx :: "uuid \<Rightarrow> uuid \<Rightarrow> int \<Rightarrow> string \<Rightarrow> string \<Rightarrow> string \<Rightarrow> string \<Rightarrow> datetime \<Rightarrow> credit_transaction" where
  "settled_tx tx_id user_id d reason reference_kind reference_id idempotency_key now =
     \<lparr>ct_id = tx_id, ct_user_id = user_id, ct_delta = d, ct_reason = reason,
      ct_reference_kind = reference_kind, ct_reference_id = reference_id,
      ct_idempotency_key = idempotency_key, ct_status = Committed,
      ct_created_at = now, ct_committed_at = Some now\<rparr>"

definition reserve_credits :: "uuid \<Rightarrow> int \<Rightarrow> string \<Rightarrow> string \<Rightarrow> string \<Rightarrow> uuid billing" where
  "reserve_credits user_id amount reference_kind reference_id idempotency_key =
     bind_c (get_or_create_wallet user_id) (\<lambda>wallet.
     bind_c (sum_reserved user_id) (\<lambda>reserved_total.
       let available = cw_balance wallet + reserved_total in
       if available < amount then raise (InsufficientCreditsError available amount)
       else
         bind_c uuid4 (\<lambda>tx_id. bind_c now_c (\<lambda>now.
           catch_integrity
             (seq_c (insert_tx (reserve_tx tx_id user_id amount reference_kind reference_id
                  idempotency_key now))
               (ret tx_id))
             (seq_c rollback_c
               (bind_c (find_by_key idempotency_key) (\<lambda>existing. ret (ct_id existing))))))))"

text \<open>
  \<open>commit_reservation\<close> and \<open>release_reservation\<close> select the row by id; a missing row or one
  that is no longer reserved is logged and left alone.
\<close>

definition commit_reservation :: "uuid \<Rightarrow> unit billing" where
  "commit_reservation reservation_id =
     bind_c (scalar_one_or_none transactions (\<lambda>t. ct_id t = reservation_id)) (\<lambda>result.
       case result of
         None \<Rightarrow> ret ()
       | Some tx \<Rightarrow>
           if ct_status tx \<noteq> Reserved then ret ()
           else bind_c now_c (\<lambda>now.
             seq_c (modify_table transactions_update transactions
                 (update_where (\<lambda>t. ct_id t = reservation_id)
                    (\<lambda>t. t\<lparr>ct_status := Committed, ct_committed_at := Some now\<rparr>)))
             (bind_c (get_or_create_wallet (ct_user_id tx)) (\<lambda>wallet.
                add_balance (ct_user_id tx) (ct_delta tx) now))))"

definition release_key :: "uuid \<Rightarrow> string" where
  "release_key tx_id = ''release:'' @ str_uuid tx_id"

definition release_reservation :: "uuid \<Rightarrow> string \<Rightarrow> unit billing" where
  "release_reservation reservation_id reason =
     bind_c (scalar_one_or_none transactions (\<lambda>t. ct_id t = reservation_id)) (\<lambda>result.
       case result of
         None \<Rightarrow> ret ()
       | Some tx \<Rightarrow>
           if ct_status tx \<noteq> Reserved then ret ()
           else bind_c now_c (\<lambda>now. bind_c uuid4 (\<lambda>comp_id.
             seq_c (modify_table transactions_update transactions
                 (update_where (\<lambda>t. ct_id t = reservation_id) (\<lambda>t. t\<lparr>ct_status := Released\<rparr>)))
             (insert_tx (settled_tx comp_id (ct_user_id tx) (- ct_delta tx) reason
                ''credit_transaction'' (str_uuid (ct_id tx)) (release_key (ct_id tx)) now)))))"

definition credit_purchase ::
  "uuid \<Rightarrow> int \<Rightarrow> string \<Rightarrow> string \<Rightarrow> string \<Rightarrow> credit_transaction billing" where
  "credit_purchase user_id amount reference_kind reference_id idempotency_key =
     bind_c (get_or_create_wallet user_id) (\<lambda>wallet. bind_c uuid4 (\<lambda>tx_id. bind_c now_c (\<lambda>now.
       let tx = settled_tx tx_id user_id amount ''purchase'' reference_kind reference_id
                  idempotency_key now in
       bind_c (catch_integrity (seq_c (insert_tx tx) (ret None))
           (seq_c rollback_c (bind_c (find_by_key idempotency_key) (\<lambda>e. ret (Some e)))))
         (\<lambda>existing. case existing of
             Some e \<Rightarrow> ret e
           | None \<Rightarrow> seq_c (add_balance user_id amount now) (ret tx)))))"

definition grant_key :: "uuid \<Rightarrow> datetime \<Rightarrow> string" where
  "grant_key subscription_id period_start =
     ''grant:'' @ str_uuid subscription_id @ '':'' @ iso_date (date_of period_start)"

definition grant_subscription_credits ::
  "uuid \<Rightarrow> int \<Rightarrow> uuid \<Rightarrow> datetime \<Rightarrow> credit_transaction option billing" where
  "grant_subscription_credits user_id amount subscription_id period_start =
     bind_c (get_or_create_wallet user_id) (\<lambda>wallet. bind_c uuid4 (\<lambda>tx_id. bind_c now_c (\<lambda>now.
       let tx = settled_tx tx_id user_id amount ''subscription_grant'' ''subscription''
                  (str_uuid subscription_id) (grant_key subscription_id period_start) now in
       bind_c (catch_integrity (seq_c (insert_tx tx) (ret True)) (seq_c rollback_c (ret False)))
         (\<lambda>inserted. if inserted then seq_c (add_balance user_id amount now) (ret (Some tx))
           else ret None))))"

definition admin_adjust_credits :: "uuid \<Rightarrow> int \<Rightarrow> string \<Rightarrow> string \<Rightarrow> credit_transaction billing" where
  "admin_adjust_credits user_id delta reason admin_action_id =
     bind_c (get_or_create_wallet user_id) (\<lambda>wallet. bind_c uuid4 (\<lambda>tx_id. bind_c now_c (\<lambda>now.
       let tx = settled_tx tx_id user_id delta ''admin_grant'' ''admin_action'' admin_action_id
                  (''admin:'' @ admin_action_id) now
       in seq_c (insert_tx tx) (seq_c (add_balance user_id delta now) (ret tx)))))"

text \<open>
  The service-to-service endpoints (routers/internal.py): each runs in its own session and
  commits; the reserve endpoint derives the key when the caller gives none and answers 402
  when credits are missing. The request schema restricts the reserved amount to positive
  integers (422 otherwise).
\<close>

definition reserve_credits_endpoint ::
  "uuid \<Rightarrow> int \<Rightarrow> string \<Rightarrow> string \<Rightarrow> string option \<Rightarrow> uuid billing" where
  "reserve_credits_endpoint user_id amount reference_kind reference_id key =
     (if amount \<le> 0 then raise (HTTPException 422 ''amount'')
      else
        let idem_key = (case key of Some k \<Rightarrow> if k = [] then ''reserve:'' @ str_uuid user_id @ '':'' @ reference_id else k
                        | None \<Rightarrow> ''reserve:'' @ str_uuid user_id @ '':'' @ reference_id) in
        in_session (\<lambda>s.
          case bind_c (reserve_credits user_id amount reference_kind reference_id idem_key)
                 (\<lambda>rid. seq_c commit_c (ret rid)) s of
            (Inl (InsufficientCreditsError b r), s1) \<Rightarrow> (Inl (HTTPException 402 ''insufficient_credits''), s1)
          | (x, s1) \<Rightarrow> (x, s1)))"

definition commit_credits_endpoint :: "uuid \<Rightarrow> unit billing" where
  "commit_credits_endpoint reservation_id = committing (commit_reservation reservation_id)"

definition release_credits_endpoint :: "uuid \<Rightarrow> string \<Rightarrow> unit billing" where
  "release_credits_endpoint reservation_id reason =
     committing (release_reservation reservation_id reason)"

text \<open>\<open>GET /billing/credits/balance\<close>: 0 where there is no wallet row.\<close>

definition get_credit_balance :: "uuid \<Rightarrow> int billing" where
  "get_credit_balance uid = bind_c (scalar_one_or_none wallets (\<lambda>w. cw_user_id w = uid))
     (\<lambda>r. ret (case r of Some w \<Rightarrow> cw_balance w | None \<Rightarrow> 0))"


section \<open>The wallet invariant\<close>

definition settled :: "uuid \<Rightarrow> credit_transaction \<Rightarrow> bool" where
  "settled u t \<longleftrightarrow> ct_user_id t = u \<and> (ct_status t = Committed \<or> ct_status t = Released)"

definition pending_for :: "uuid \<Rightarrow> credit_transaction \<Rightarrow> bool" where
  "pending_for u t \<longleftrightarrow> ct_user_id t = u \<and> ct_status t = Reserved"

definition balance_of :: "billing_db \<Rightarrow> uuid \<Rightarrow> int" where
  "balance_of db u = sum_by (\<lambda>w. cw_user_id w = u) cw_balance (wallets db)"

definition reserved_of :: "billing_db \<Rightarrow> uuid \<Rightarrow> int" where
  "reserved_of db u = sum_by (pending_for u) ct_delta (transactions db)"

definition available_of :: "billing_db \<Rightarrow> uuid \<Rightarrow> int" where
  "available_of db u = balance_of db u + reserved_of db u"

definition wallet_inv :: "billing_db \<Rightarrow> bool" where
  "wallet_inv db \<longleftrightarrow> distinct (map cw_user_id (wallets db))
     \<and> distinct (map ct_idempotency_key (transactions db))
     \<and> distinct (map ct_id (transactions db))
     \<and> (\<forall>u. balance_of db u = sum_by (settled u) ct_delta (transactions db))"

definition credits_inv :: "billing_sess \<Rightarrow> bool" where
  "credits_inv s \<longleftrightarrow> wallet_inv (committed s) \<and> wallet_inv (work s)
     \<and> (\<forall>t \<in> set (transactions (committed s)) \<union> set (transactions (work s)). ct_id t < next_uuid s)"

text \<open>
  The wallet of a user is found or created with balance 0: the row the code works with and the
  wallet table it leaves.
\<close>

definition new_wallet :: "uuid \<Rightarrow> datetime \<Rightarrow> credit_wallet" where
  "new_wallet u now = \<lparr>cw_user_id = u, cw_balance = 0, cw_updated_at = now\<rparr>"

definition wallet_row :: "uuid \<Rightarrow> datetime \<Rightarrow> credit_wallet list \<Rightarrow> credit_wallet" where
  "wallet_row u now ws = (case filter (\<lambda>w. cw_user_id w = u) ws of [] \<Rightarrow> new_wallet u now | w # _ \<Rightarrow> w)"

definition with_wallet :: "uuid \<Rightarrow> datetime \<Rightarrow> credit_wallet list \<Rightarrow> credit_wallet list" where
  "with_wallet u now ws = (if u \<in> cw_user_id ` set ws then ws else ws @ [new_wallet u now])"

lemma with_wallet_facts:
  assumes "distinct (map cw_user_id ws)"
  shows "distinct (map cw_user_id (with_wallet u now ws))"
    and "u \<in> cw_user_id ` set (with_wallet u now ws)"
    and "sum_by (\<lambda>x. cw_user_id x = v) cw_balance (with_wallet u now ws)
       = sum_by (\<lambda>x. cw_user_id x = v) cw_balance ws"
  using assms by (auto simp: with_wallet_def new_wallet_def)

lemma wallet_row_balance:
  assumes "distinct (map cw_user_id (wallets db))"
  shows "cw_balance (wallet_row u now (wallets db)) = balance_of db u"
proof (cases "filter (\<lambda>w. cw_user_id w = u) (wallets db)")
  case Nil
  then show ?thesis by (simp add: wallet_row_def balance_of_def sum_by_def new_wallet_def)
next
  case (Cons w rest)
  with filter_key_at_most_one [OF assms, of u] have "rest = []" by simp
  with Cons show ?thesis by (simp add: wallet_row_def balance_of_def sum_by_def)
qed

lemma wallet_run:
  assumes "distinct (map cw_user_id (wallets (work s)))"
  shows "get_or_create_wallet u s = (Inr (wallet_row u (clock s) (wallets (work s))),
     s\<lparr>work := (work s)\<lparr>wallets := with_wallet u (clock s) (wallets (work s))\<rparr>\<rparr>)"
proof (cases "u \<in> cw_user_id ` set (wallets (work s))")
  case True
  then obtain w where "w \<in> set (wallets (work s))" "cw_user_id w = u" by auto
  then have "filter (\<lambda>x. cw_user_id x = u) (wallets (work s)) = [w]"
    using filter_key_unique [OF assms] by blast
  with True show ?thesis
    by (simp add: get_or_create_wallet_def comp_simps wallet_row_def with_wallet_def)
next
  case False
  then have "filter (\<lambda>x. cw_user_id x = u) (wallets (work s)) = []"
    by (rule filter_key_none)
  moreover from False have "\<not> list_ex (\<lambda>x. cw_user_id x = u) (wallets (work s))"
    by (auto simp: list_ex_iff)
  ultimately show ?thesis using False
    by (simp add: get_or_create_wallet_def comp_simps wallet_row_def with_wallet_def new_wallet_def Let_def)
qed

lemma insert_tx_run [comp_simps]:
  "insert_tx t s =
     (if ct_reason_ok t \<and> ct_idempotency_key t \<notin> ct_idempotency_key ` set (transactions (work s))
      then (Inr (), s\<lparr>work := (work s)\<lparr>transactions := transactions (work s) @ [t]\<rparr>\<rparr>)
      else (Inl IntegrityError, s))"
  by (auto simp: insert_tx_def comp_simps ct_clash_def list_ex_iff image_iff eq_commute)

lemma add_balance_run [comp_simps]:
  "add_balance u d now s = (Inr (), s\<lparr>work := (work s)\<lparr>wallets :=
     update_where (\<lambda>w. cw_user_id w = u)
       (\<lambda>w. w\<lparr>cw_balance := cw_balance w + d, cw_updated_at := now\<rparr>) (wallets (work s))\<rparr>\<rparr>)"
  by (simp add: add_balance_def comp_simps)

text \<open>The idempotency key of the credit ledger is an instance of the unique-key interface.\<close>

interpretation tx_rows: unique_rows
  "\<lambda>s. transactions (work s)" ct_idempotency_key ct_reason_ok insert_tx
  by unfold_locales (auto simp: insert_tx_run)

lemma add_balance_sum:
  assumes "distinct (map cw_user_id ws)" and "u \<in> cw_user_id ` set ws"
  shows "sum_by (\<lambda>x. cw_user_id x = v) cw_balance
           (update_where (\<lambda>w. cw_user_id w = u)
              (\<lambda>w. w\<lparr>cw_balance := cw_balance w + d, cw_updated_at := n\<rparr>) ws)
         = sum_by (\<lambda>x. cw_user_id x = v) cw_balance ws + (if v = u then d else 0)"
proof -
  from assms(2) obtain w where w: "w \<in> set ws" "u = cw_user_id w" by auto
  then show ?thesis
    using sum_by_update_key [OF assms(1) w(1), of "\<lambda>x. cw_user_id x = v" cw_balance] by auto
qed

lemma wallet_inv_post:
  assumes inv: "wallet_inv db"
    and key: "ct_idempotency_key t \<notin> ct_idempotency_key ` set (transactions db)"
    and id: "ct_id t \<notin> ct_id ` set (transactions db)"
    and ws: "distinct (map cw_user_id ws)"
    and bal: "\<And>v. sum_by (\<lambda>x. cw_user_id x = v) cw_balance ws
        = balance_of db v + (if settled v t then ct_delta t else 0)"
  shows "wallet_inv (db\<lparr>wallets := ws, transactions := transactions db @ [t]\<rparr>)"
  using assms unfolding wallet_inv_def balance_of_def by auto

lemma credits_invD:
  assumes "credits_inv s"
  shows "wallet_inv (committed s)" "wallet_inv (work s)"
    "distinct (map cw_user_id (wallets (work s)))"
    "t \<in> set (transactions (work s)) \<Longrightarrow> ct_id t < next_uuid s"
    "t \<in> set (transactions (committed s)) \<Longrightarrow> ct_id t < next_uuid s"
  using assms by (auto simp: credits_inv_def wallet_inv_def)

definition key_lookup :: "billing_db \<Rightarrow> string \<Rightarrow> exn + credit_transaction" where
  "key_lookup db key = (case filter (\<lambda>t. ct_idempotency_key t = key) (transactions db) of
     [] \<Rightarrow> Inl NoResultFound | t # _ \<Rightarrow> Inr t)"

lemma find_by_key_run:
  assumes "wallet_inv (work s)"
  shows "find_by_key key s = (key_lookup (work s) key, s)"
proof -
  have "length (filter (\<lambda>t. ct_idempotency_key t = key) (transactions (work s))) \<le> 1"
    using assms by (intro filter_key_at_most_one) (simp add: wallet_inv_def)
  then show ?thesis
    by (rule_tac rs = "filter (\<lambda>t. ct_idempotency_key t = key) (transactions (work s))" in one_or_none_cases)
       (simp_all add: find_by_key_def scalar_one_def comp_simps key_lookup_def)
qed

lemma tx_row_simps [simp]:
  "ct_reason_ok (reserve_tx i u a k r key n)"
  "ct_idempotency_key (reserve_tx i u a k r key n) = key"
  "ct_id (reserve_tx i u a k r key n) = i"
  "ct_delta (reserve_tx i u a k r key n) = - a"
  "ct_user_id (reserve_tx i u a k r key n) = u"
  "ct_status (reserve_tx i u a k r key n) = Reserved"
  "ct_idempotency_key (settled_tx i u d reason k r key n) = key"
  "ct_id (settled_tx i u d reason k r key n) = i"
  "ct_delta (settled_tx i u d reason k r key n) = d"
  "ct_user_id (settled_tx i u d reason k r key n) = u"
  "ct_status (settled_tx i u d reason k r key n) = Committed"
  "ct_reason_ok (settled_tx i u d ''purchase'' k r key n)"
  "ct_reason_ok (settled_tx i u d ''subscription_grant'' k r key n)"
  "ct_reason_ok (settled_tx i u d ''admin_grant'' k r key n)"
  "ct_reason_ok (settled_tx i u d ''release'' k r key n)"
  by (simp_all add: reserve_tx_def settled_tx_def ct_reason_ok_def)

lemma sum_reserved_run: "sum_reserved u s = (Inr (reserved_of (work s) u), s)"
  by (simp add: sum_reserved_def comp_simps reserved_of_def sum_by_def pending_for_def [abs_def])

lemma db_wallets_simps [simp]:
  "reserved_of (db\<lparr>wallets := ws\<rparr>) u = reserved_of db u"
  "balance_of (db\<lparr>transactions := ts\<rparr>) u = balance_of db u"
  by (simp_all add: reserved_of_def balance_of_def)

abbreviation "tx_keys db \<equiv> ct_idempotency_key ` set (transactions db)"

text \<open>The reservation on every branch: refused, recorded, or replayed after a rollback.\<close>

lemma reserve_run:
  fixes u :: uuid
  assumes inv: "credits_inv s"
  defines "ws \<equiv> with_wallet u (clock s) (wallets (work s))"
  shows "reserve_credits u a k r key s =
     (if available_of (work s) u < a
      then (Inl (InsufficientCreditsError (available_of (work s) u) a), s\<lparr>work := (work s)\<lparr>wallets := ws\<rparr>\<rparr>)
      else if key \<notin> tx_keys (work s)
      then (Inr (next_uuid s), s\<lparr>next_uuid := Suc (next_uuid s),
              work := (work s)\<lparr>wallets := ws, transactions := transactions (work s)
                 @ [reserve_tx (next_uuid s) u a k r key (clock s)]\<rparr>\<rparr>)
      else (map_sum id ct_id (key_lookup (committed s) key),
              s\<lparr>next_uuid := Suc (next_uuid s), work := committed s\<rparr>))"
proof -
  note W = wallet_run [OF credits_invD(3) [OF inv]]
  have F: "find_by_key key (s\<lparr>next_uuid := Suc (next_uuid s), work := committed s\<rparr>) =
      (key_lookup (committed s) key, s\<lparr>next_uuid := Suc (next_uuid s), work := committed s\<rparr>)"
    using find_by_key_run [of "s\<lparr>next_uuid := Suc (next_uuid s), work := committed s\<rparr>" key]
      credits_invD(1) [OF inv] by simp
  show ?thesis
    by (auto simp: reserve_credits_def comp_simps W sum_reserved_run F Let_def ws_def
        available_of_def wallet_row_balance [OF credits_invD(3) [OF inv]] split: sum.split)
qed

lemma wallet_inv_wallets:
  "wallet_inv db \<Longrightarrow> distinct (map cw_user_id ws)
    \<Longrightarrow> (\<And>v. sum_by (\<lambda>x. cw_user_id x = v) cw_balance ws = balance_of db v)
    \<Longrightarrow> wallet_inv (db\<lparr>wallets := ws\<rparr>)"
  by (simp add: wallet_inv_def balance_of_def)

text \<open>A transaction row under a fresh id and key, with the wallets moved by its settled delta.\<close>

lemma credits_inv_post:
  assumes inv: "credits_inv s"
    and key: "ct_idempotency_key t \<notin> tx_keys (work s)"
    and id: "ct_id t = next_uuid s"
    and ws: "distinct (map cw_user_id ws)"
    and bal: "\<And>v. sum_by (\<lambda>x. cw_user_id x = v) cw_balance ws
        = balance_of (work s) v + (if settled v t then ct_delta t else 0)"
  shows "credits_inv (s\<lparr>next_uuid := Suc (next_uuid s),
    work := (work s)\<lparr>wallets := ws, transactions := transactions (work s) @ [t]\<rparr>\<rparr>)"
proof -
  have "ct_id t \<notin> ct_id ` set (transactions (work s))"
    using credits_invD(4) [OF inv] id by fastforce
  then have "wallet_inv ((work s)\<lparr>wallets := ws, transactions := transactions (work s) @ [t]\<rparr>)"
    using wallet_inv_post [OF credits_invD(2) [OF inv] key _ ws bal] by blast
  then show ?thesis
    using inv id by (auto simp: credits_inv_def less_Suc_eq)
qed

lemma credits_inv_reserve: "keeps credits_inv (reserve_credits u a k r key)"
proof
  fix s assume inv: "credits_inv s"
  note ws = with_wallet_facts [OF credits_invD(3) [OF inv], where u = u and now = "clock s"]
  have "credits_inv (s\<lparr>work := (work s)\<lparr>wallets := with_wallet u (clock s) (wallets (work s))\<rparr>\<rparr>)"
    using inv wallet_inv_wallets [OF credits_invD(2) [OF inv] ws(1)] ws(3)
    by (auto simp: credits_inv_def balance_of_def)
  moreover have "credits_inv (s\<lparr>next_uuid := Suc (next_uuid s), work := committed s\<rparr>)"
    using inv by (auto simp: credits_inv_def less_Suc_eq)
  moreover have "key \<notin> tx_keys (work s) \<Longrightarrow> credits_inv (s\<lparr>next_uuid := Suc (next_uuid s),
              work := (work s)\<lparr>wallets := with_wallet u (clock s) (wallets (work s)), transactions := transactions (work s)
                 @ [reserve_tx (next_uuid s) u a k r key (clock s)]\<rparr>\<rparr>)"
    by (rule credits_inv_post [OF inv _ _ ws(1)]) (auto simp: ws(3) balance_of_def settled_def)
  ultimately show "credits_inv (snd (reserve_credits u a k r key s))"
    by (simp add: reserve_run [OF inv])
qed

lemma tx_by_id:
  assumes "credits_inv s" and "tx \<in> set (transactions (work s))"
  shows "filter (\<lambda>t. ct_id t = ct_id tx) (transactions (work s)) = [tx]"
  using assms by (intro filter_key_unique) (auto simp: credits_inv_def wallet_inv_def)

text \<open>A reservation that is not pending any more (or never was) is left alone.\<close>

definition pending_id :: "billing_db \<Rightarrow> uuid \<Rightarrow> bool" where
  "pending_id db rid \<longleftrightarrow> list_ex (\<lambda>t. ct_id t = rid \<and> ct_status t = Reserved) (transactions db)"

lemma not_pending_run:
  assumes inv: "credits_inv s" and np: "\<not> pending_id (work s) rid"
  shows "commit_reservation rid s = (Inr (), s)" "release_reservation rid reason s = (Inr (), s)"
proof -
  have "filter (\<lambda>t. ct_id t = rid) (transactions (work s)) = []
      \<or> (\<exists>t. filter (\<lambda>t. ct_id t = rid) (transactions (work s)) = [t] \<and> ct_status t \<noteq> Reserved)"
  proof (cases "\<exists>t \<in> set (transactions (work s)). ct_id t = rid")
    case True
    then obtain t where t: "t \<in> set (transactions (work s))" "ct_id t = rid" by auto
    with np have "ct_status t \<noteq> Reserved" by (auto simp: pending_id_def list_ex_iff)
    with tx_by_id [OF inv t(1)] t(2) show ?thesis by auto
  qed (auto simp: filter_empty_conv)
  then show "commit_reservation rid s = (Inr (), s)" "release_reservation rid reason s = (Inr (), s)"
    by (auto simp: commit_reservation_def release_reservation_def comp_simps)
qed

definition mark_committed :: "uuid \<Rightarrow> datetime \<Rightarrow> credit_transaction list \<Rightarrow> credit_transaction list" where
  "mark_committed rid now = update_where (\<lambda>t. ct_id t = rid)
     (\<lambda>t. t\<lparr>ct_status := Committed, ct_committed_at := Some now\<rparr>)"

definition mark_released :: "uuid \<Rightarrow> credit_transaction list \<Rightarrow> credit_transaction list" where
  "mark_released rid = update_where (\<lambda>t. ct_id t = rid) (\<lambda>t. t\<lparr>ct_status := Released\<rparr>)"

definition moved_wallets :: "uuid \<Rightarrow> int \<Rightarrow> datetime \<Rightarrow> credit_wallet list \<Rightarrow> credit_wallet list" where
  "moved_wallets u d now ws = update_where (\<lambda>w. cw_user_id w = u)
     (\<lambda>w. w\<lparr>cw_balance := cw_balance w + d, cw_updated_at := now\<rparr>) (with_wallet u now ws)"

lemma moved_wallets_facts:
  assumes "distinct (map cw_user_id ws)"
  shows "distinct (map cw_user_id (moved_wallets u d now ws))"
    and "sum_by (\<lambda>x. cw_user_id x = v) cw_balance (moved_wallets u d now ws)
      = sum_by (\<lambda>x. cw_user_id x = v) cw_balance ws + (if v = u then d else 0)"
  using with_wallet_facts [OF assms] 
  by (simp_all add: moved_wallets_def map_update_where add_balance_sum)

lemma commit_tx_run:
  assumes inv: "credits_inv s" and tx: "tx \<in> set (transactions (work s))" "ct_status tx = Reserved"
  shows "commit_reservation (ct_id tx) s = (Inr (), s\<lparr>work := (work s)
     \<lparr>transactions := mark_committed (ct_id tx) (clock s) (transactions (work s)),
      wallets := moved_wallets (ct_user_id tx) (ct_delta tx) (clock s) (wallets (work s))\<rparr>\<rparr>)"
  using wallet_run [of "s\<lparr>work := (work s)\<lparr>transactions := mark_committed (ct_id tx) (clock s) (transactions (work s))\<rparr>\<rparr>"]
    credits_invD(3) [OF inv] tx(2) tx_by_id [OF inv tx(1)]
  by (simp add: commit_reservation_def comp_simps moved_wallets_def mark_committed_def)

lemma release_run:
  fixes reason :: string
  assumes inv: "credits_inv s" and tx: "tx \<in> set (transactions (work s))" "ct_status tx = Reserved"
  defines "undo \<equiv> settled_tx (next_uuid s) (ct_user_id tx) (- ct_delta tx) reason
                ''credit_transaction'' (str_uuid (ct_id tx)) (release_key (ct_id tx)) (clock s)"
  shows "release_reservation (ct_id tx) reason s =
     (let released = mark_released (ct_id tx) (transactions (work s)) in
      if ct_reason_ok undo \<and> release_key (ct_id tx) \<notin> tx_keys (work s)
      then (Inr (), s\<lparr>next_uuid := Suc (next_uuid s), work := (work s)\<lparr>transactions := released @ [undo]\<rparr>\<rparr>)
      else (Inl IntegrityError,
            s\<lparr>next_uuid := Suc (next_uuid s), work := (work s)\<lparr>transactions := released\<rparr>\<rparr>))"
proof -
  have K: "ct_idempotency_key ` set (mark_released (ct_id tx) (transactions (work s))) = tx_keys (work s)"
    unfolding mark_released_def by (rule image_update_where) simp
  show ?thesis
    using tx_by_id [OF inv tx(1)] tx(2) K
    by (simp add: release_reservation_def comp_simps mark_released_def undo_def Let_def)
qed

lemma purchase_run:
  fixes u :: uuid and a :: int and k r key :: string
  assumes inv: "credits_inv s"
  defines "tx \<equiv> settled_tx (next_uuid s) u a ''purchase'' k r key (clock s)"
  shows "credit_purchase u a k r key s =
     (if key \<notin> tx_keys (work s)
      then (Inr tx, s\<lparr>next_uuid := Suc (next_uuid s), work := (work s)
              \<lparr>wallets := moved_wallets u a (clock s) (wallets (work s)),
               transactions := transactions (work s) @ [tx]\<rparr>\<rparr>)
      else (key_lookup (committed s) key, s\<lparr>next_uuid := Suc (next_uuid s), work := committed s\<rparr>))"
proof -
  have F: "find_by_key key (s\<lparr>next_uuid := Suc (next_uuid s), work := committed s\<rparr>) =
      (key_lookup (committed s) key, s\<lparr>next_uuid := Suc (next_uuid s), work := committed s\<rparr>)"
    using find_by_key_run [of "s\<lparr>next_uuid := Suc (next_uuid s), work := committed s\<rparr>" key]
      credits_invD(1) [OF inv] by simp
  show ?thesis
    by (auto simp: credit_purchase_def comp_simps wallet_run [OF credits_invD(3) [OF inv]] F Let_def
        tx_def moved_wallets_def key_lookup_def split: sum.split list.split)
qed

lemma grant_run:
  fixes u sid :: uuid and a :: int and ps :: datetime
  assumes inv: "credits_inv s"
  defines "tx \<equiv> settled_tx (next_uuid s) u a ''subscription_grant'' ''subscription''
      (str_uuid sid) (grant_key sid ps) (clock s)"
  shows "grant_subscription_credits u a sid ps s =
     (if grant_key sid ps \<notin> tx_keys (work s)
      then (Inr (Some tx), s\<lparr>next_uuid := Suc (next_uuid s), work := (work s)
              \<lparr>wallets := moved_wallets u a (clock s) (wallets (work s)),
               transactions := transactions (work s) @ [tx]\<rparr>\<rparr>)
      else (Inr None, s\<lparr>next_uuid := Suc (next_uuid s), work := committed s\<rparr>))"
  by (simp add: grant_subscription_credits_def comp_simps wallet_run [OF credits_invD(3) [OF inv]]
      Let_def tx_def moved_wallets_def)

lemma adjust_run:
  fixes u :: uuid and d :: int and aid :: string
  assumes inv: "credits_inv s"
  defines "tx \<equiv> settled_tx (next_uuid s) u d ''admin_grant'' ''admin_action'' aid (''admin:'' @ aid) (clock s)"
  shows "admin_adjust_credits u d reason aid s =
     (if ''admin:'' @ aid \<notin> tx_keys (work s)
      then (Inr tx, s\<lparr>next_uuid := Suc (next_uuid s), work := (work s)
              \<lparr>wallets := moved_wallets u d (clock s) (wallets (work s)),
               transactions := transactions (work s) @ [tx]\<rparr>\<rparr>)
      else (Inl IntegrityError, s\<lparr>next_uuid := Suc (next_uuid s), work := (work s)
              \<lparr>wallets := with_wallet u (clock s) (wallets (work s))\<rparr>\<rparr>))"
  by (simp add: admin_adjust_credits_def comp_simps wallet_run [OF credits_invD(3) [OF inv]]
      Let_def tx_def moved_wallets_def)

section \<open>The invariant holds in every reachable state\<close>

definition credits_ok :: "billing_sess \<Rightarrow> bool" where
  "credits_ok s \<longleftrightarrow> wallet_inv (committed s)
     \<and> (\<forall>t \<in> set (transactions (committed s)). ct_id t < next_uuid s)"

lemma credits_ok_start: "credits_ok s \<Longrightarrow> credits_inv (s\<lparr>work := committed s\<rparr>)"
  by (simp add: credits_ok_def credits_inv_def)

lemma credits_inv_commits: "credits_inv s \<Longrightarrow> credits_ok (s\<lparr>committed := work s\<rparr>)"
  and credits_inv_closes: "credits_inv s \<Longrightarrow> credits_ok (s\<lparr>work := committed s\<rparr>)"
  by (simp_all add: credits_ok_def credits_inv_def)

lemma wallet_inv_commit:
  assumes inv: "wallet_inv db" and tx: "tx \<in> set (transactions db)" "ct_status tx = Reserved"
  shows "wallet_inv (db\<lparr>transactions := mark_committed (ct_id tx) now (transactions db),
      wallets := moved_wallets (ct_user_id tx) (ct_delta tx) now (wallets db)\<rparr>)"
proof -
  have ids: "distinct (map ct_id (transactions db))" and ws: "distinct (map cw_user_id (wallets db))"
    using inv by (simp_all add: wallet_inv_def)
  have "sum_by (settled u) ct_delta (mark_committed (ct_id tx) now (transactions db))
      = sum_by (settled u) ct_delta (transactions db) + (if ct_user_id tx = u then ct_delta tx else 0)" for u
    unfolding mark_committed_def sum_by_update_key [OF ids tx(1)] using tx(2) by (auto simp: settled_def)
  then show ?thesis
    using inv by (auto simp: wallet_inv_def balance_of_def moved_wallets_facts [OF ws]
        mark_committed_def map_update_where)
qed

lemma wallet_inv_release:
  assumes inv: "wallet_inv db" and tx: "tx \<in> set (transactions db)" "ct_status tx = Reserved"
    and undo: "ct_idempotency_key t \<notin> tx_keys db" "ct_id t \<notin> ct_id ` set (transactions db)"
      "ct_user_id t = ct_user_id tx" "ct_delta t = - ct_delta tx" "ct_status t = Committed"
  shows "wallet_inv (db\<lparr>transactions := mark_released (ct_id tx) (transactions db) @ [t]\<rparr>)"
proof -
  have ids: "distinct (map ct_id (transactions db))" using inv by (simp add: wallet_inv_def)
  have "sum_by (settled u) ct_delta (mark_released (ct_id tx) (transactions db))
      = sum_by (settled u) ct_delta (transactions db) + (if ct_user_id tx = u then ct_delta tx else 0)" for u
    unfolding mark_released_def sum_by_update_key [OF ids tx(1)] using tx(2) by (auto simp: settled_def)
  moreover have "tx_keys (db\<lparr>transactions := mark_released (ct_id tx) (transactions db)\<rparr>) = tx_keys db"
    "ct_id ` set (mark_released (ct_id tx) (transactions db)) = ct_id ` set (transactions db)"
    unfolding mark_released_def by (simp_all add: image_update_where)
  ultimately show ?thesis
    using inv undo by (auto simp: wallet_inv_def mark_released_def map_update_where settled_def)
qed

lemma ids_below:
  fixes n :: nat
  assumes "key ` set xs = key ` set ys" and "\<And>t. t \<in> set ys \<Longrightarrow> key t < n" and "t \<in> set xs"
  shows "key t < n"
proof -
  from assms(1,3) obtain y where "y \<in> set ys" "key t = key y" by (metis imageE imageI)
  then show ?thesis using assms(2) by simp
qed

lemma mark_ids:
  "ct_id ` set (mark_committed rid n ts) = ct_id ` set ts"
  "ct_id ` set (mark_released rid ts) = ct_id ` set ts"
  unfolding mark_committed_def mark_released_def by (simp_all add: image_update_where)

lemma credits_inv_commit: "keeps credits_inv (commit_reservation rid)"
proof
  fix s assume inv: "credits_inv s"
  show "credits_inv (snd (commit_reservation rid s))"
  proof (cases "pending_id (work s) rid")
    case False
    then show ?thesis using not_pending_run(1) [OF inv] inv by simp
  next
    case True
    then obtain tx where tx: "tx \<in> set (transactions (work s))" "ct_status tx = Reserved" "ct_id tx = rid"
      by (auto simp: pending_id_def list_ex_iff)
    have "\<forall>t \<in> set (mark_committed rid (clock s) (transactions (work s))). ct_id t < next_uuid s"
      using ids_below [OF mark_ids(1) credits_invD(4) [OF inv]] by blast
    then show ?thesis
      using commit_tx_run [OF inv tx(1,2)] wallet_inv_commit [OF credits_invD(2) [OF inv] tx(1,2)] inv tx(3)
      by (auto simp: credits_inv_def)
  qed
qed

lemma credits_ok_release:
  assumes ok: "credits_ok s"
  shows "credits_ok (snd (release_credits_endpoint rid reason s))"
proof -
  let ?s = "s\<lparr>work := committed s\<rparr>"
  have inv: "credits_inv ?s" using ok by (rule credits_ok_start)
  show ?thesis
  proof (cases "pending_id (committed s) rid")
    case False
    then show ?thesis
      using not_pending_run(2) [OF inv] ok
      by (simp add: release_credits_endpoint_def committing_run credits_ok_def)
  next
    case True
    then obtain tx where tx: "tx \<in> set (transactions (work ?s))" "ct_status tx = Reserved" "ct_id tx = rid"
      by (auto simp: pending_id_def list_ex_iff)
    have lt: "\<forall>t \<in> set (mark_released rid (transactions (committed s))). ct_id t < next_uuid s"
      using ids_below [OF mark_ids(2), of "transactions (committed s)" "next_uuid s"] ok
      unfolding credits_ok_def by blast
    have nin: "next_uuid s \<notin> ct_id ` set (transactions (work ?s))"
      using credits_invD(4) [OF inv] by fastforce
    show ?thesis
      using release_run [OF inv tx(1,2), of reason] lt ok tx(3)
        wallet_inv_release [OF credits_invD(2) [OF inv] tx(1,2), of "settled_tx (next_uuid s) (ct_user_id tx)
          (- ct_delta tx) reason ''credit_transaction'' (str_uuid rid) (release_key rid) (clock s)"] nin
      by (auto simp: release_credits_endpoint_def committing_run credits_ok_def Let_def less_Suc_eq)
  qed
qed


lemma credits_inv_post_run:
  assumes inv: "credits_inv s"
    and t: "ct_idempotency_key t \<notin> tx_keys (work s)" "ct_id t = next_uuid s" "settled u t"
  shows "credits_inv (s\<lparr>next_uuid := Suc (next_uuid s), work := (work s)
     \<lparr>wallets := moved_wallets u (ct_delta t) now (wallets (work s)),
      transactions := transactions (work s) @ [t]\<rparr>\<rparr>)"
  by (rule credits_inv_post [OF inv t(1,2)])
     (use t(3) in \<open>auto simp: moved_wallets_facts [OF credits_invD(3) [OF inv]] balance_of_def settled_def\<close>)

lemma credits_inv_undo: "credits_inv s \<Longrightarrow> credits_inv (s\<lparr>next_uuid := Suc (next_uuid s), work := committed s\<rparr>)"
  by (auto simp: credits_inv_def less_Suc_eq)

lemma credits_inv_wallet:
  assumes inv: "credits_inv s"
  shows "credits_inv (s\<lparr>next_uuid := Suc (next_uuid s), work := (work s)\<lparr>wallets := with_wallet u now (wallets (work s))\<rparr>\<rparr>)"
  using inv wallet_inv_wallets [OF credits_invD(2) [OF inv], of "with_wallet u now (wallets (work s))"]
    with_wallet_facts [OF credits_invD(3) [OF inv]]
  by (auto simp: credits_inv_def balance_of_def less_Suc_eq)

lemma credits_inv_purchase: "keeps credits_inv (credit_purchase u a k r key)"
  by (rule keepsI) (auto simp: purchase_run credits_inv_undo
      intro: credits_inv_post_run [where t = "settled_tx _ u a ''purchase'' k r key _", simplified] simp: settled_def)

lemma credits_inv_grant: "keeps credits_inv (grant_subscription_credits u a sid ps)"
  by (rule keepsI) (auto simp: grant_run credits_inv_undo
      intro: credits_inv_post_run [where t = "settled_tx _ u a ''subscription_grant'' _ _ (grant_key sid ps) _", simplified] simp: settled_def)

lemma credits_inv_adjust: "keeps credits_inv (admin_adjust_credits u d reason aid)"
  by (rule keepsI) (auto simp: adjust_run credits_inv_wallet
      intro: credits_inv_post_run [where t = "settled_tx _ u d ''admin_grant'' _ _ (''admin:'' @ aid) _", simplified] simp: settled_def)

end
