(* ===== verification/Billing_Entitlements.thy ===== *)
theory Billing_Entitlements
  imports Billing_Data "HOL-Library.AList"
begin

text \<open>
  The entitlement resolver of billing-svc (services/billing-svc/app/services/entitlements.py):
  the axis registry, the tier tables, the comparison of two values of an axis, the resolver
  that merges the snapshots of a user under the precedence of their sources, and the Redis
  cache in front of it. Entitlement values are JSON values compared as Python compares them:
  a comparison of unlike types raises TypeError.
\<close>

section \<open>Python comparison of JSON values\<close>

fun num_of :: "json \<Rightarrow> int option" where
  "num_of (JInt i) = Some i"
| "num_of (JBool b) = Some (if b then 1 else 0)"
| "num_of _ = None"

fun str_less :: "string \<Rightarrow> string \<Rightarrow> bool" where
  "str_less s [] = False"
| "str_less [] (d # ds) = True"
| "str_less (c # cs) (d # ds) =
     ((of_char c :: nat) < of_char d \<or> (c = d \<and> str_less cs ds))"

fun py_eq :: "json \<Rightarrow> json \<Rightarrow> bool"
  and py_eq_list :: "json list \<Rightarrow> json list \<Rightarrow> bool"
  and py_eq_obj :: "(string \<times> json) list \<Rightarrow> (string \<times> json) list \<Rightarrow> bool" where
  "py_eq JNull b = (b = JNull)"
| "py_eq (JStr s) b = (b = JStr s)"
| "py_eq (JInt i) b = (num_of b = Some i)"
| "py_eq (JBool c) b = (num_of b = num_of (JBool c))"
| "py_eq (JList xs) b = (case b of JList ys \<Rightarrow> py_eq_list xs ys | _ \<Rightarrow> False)"
| "py_eq (JObj kvs) b = (case b of JObj ws \<Rightarrow> length kvs = length ws \<and> py_eq_obj kvs ws | _ \<Rightarrow> False)"
| "py_eq_list [] ys = (ys = [])"
| "py_eq_list (x # xs) ys = (case ys of [] \<Rightarrow> False | z # zs \<Rightarrow> py_eq x z \<and> py_eq_list xs zs)"
| "py_eq_obj [] ws = True"
| "py_eq_obj ((k, v) # kvs) ws =
     ((case map_of ws k of Some w \<Rightarrow> py_eq v w | None \<Rightarrow> False) \<and> py_eq_obj kvs ws)"

text \<open>\<open>a < b\<close>, None where Python raises TypeError.\<close>

fun py_less :: "json \<Rightarrow> json \<Rightarrow> bool option"
  and py_less_list :: "json list \<Rightarrow> json list \<Rightarrow> bool option" where
  "py_less (JList xs) b = (case b of JList ys \<Rightarrow> py_less_list xs ys | _ \<Rightarrow> None)"
| "py_less (JStr s) b = (case b of JStr t \<Rightarrow> Some (str_less s t) | _ \<Rightarrow> None)"
| "py_less (JInt i) b = map_option (\<lambda>j. i < j) (num_of b)"
| "py_less (JBool c) b = map_option (\<lambda>j. (if c then 1 else 0) < j) (num_of b)"
| "py_less JNull b = None"
| "py_less (JObj kvs) b = None"
| "py_less_list [] ys = Some (ys \<noteq> [])"
| "py_less_list (x # xs) ys = (case ys of [] \<Rightarrow> Some False
     | z # zs \<Rightarrow> if py_eq x z then py_less_list xs zs else py_less x z)"

definition py_max :: "json \<Rightarrow> json \<Rightarrow> exn + json" where
  "py_max a b = (case py_less a b of None \<Rightarrow> Inl TypeError | Some l \<Rightarrow> Inr (if l then b else a))"

section \<open>Registry and tier tables\<close>

datatype axis_type = Ax_Int | Ax_Bool | Ax_Enum

record axis_meta =
  ax_type :: axis_type
  ax_choices :: "string list"
  ax_default :: json

definition axis_registry :: "(string \<times> axis_meta) list" where
  "axis_registry = [
     (''invites_per_week'', \<lparr>ax_type = Ax_Int, ax_choices = [], ax_default = JInt 5\<rparr>),
     (''ai_credits_per_month'', \<lparr>ax_type = Ax_Int, ax_choices = [], ax_default = JInt 0\<rparr>),
     (''ads_shown'', \<lparr>ax_type = Ax_Bool, ax_choices = [], ax_default = JBool True\<rparr>),
     (''chat_export'', \<lparr>ax_type = Ax_Bool, ax_choices = [], ax_default = JBool False\<rparr>),
     (''hide_from_non_premium'', \<lparr>ax_type = Ax_Bool, ax_choices = [], ax_default = JBool False\<rparr>),
     (''picked_for_you_priority'',
        \<lparr>ax_type = Ax_Enum, ax_choices = [''none'', ''standard'', ''high''], ax_default = JStr ''none''\<rparr>),
     (''mockup_fidelity'',
        \<lparr>ax_type = Ax_Enum, ax_choices = [''off'', ''basic'', ''advanced''], ax_default = JStr ''off''\<rparr>),
     (''portfolio_pdf_export'', \<lparr>ax_type = Ax_Bool, ax_choices = [], ax_default = JBool False\<rparr>),
     (''visibility_boost'', \<lparr>ax_type = Ax_Bool, ax_choices = [], ax_default = JBool False\<rparr>),
     (''support_priority'',
        \<lparr>ax_type = Ax_Enum, ax_choices = [''std'', ''fast'', ''fastest''], ax_default = JStr ''std''\<rparr>),
     (''see_who_saved_you'', \<lparr>ax_type = Ax_Bool, ax_choices = [], ax_default = JBool False\<rparr>),
     (''feed_profiles_per_day'', \<lparr>ax_type = Ax_Int, ax_choices = [], ax_default = JInt 30\<rparr>),
     (''daily_save_cap'', \<lparr>ax_type = Ax_Int, ax_choices = [], ax_default = JInt 50\<rparr>)]"

definition enum_ranks :: "(string \<times> nat) list" where
  "enum_ranks = [(''none'', 0), (''standard'', 1), (''high'', 2),
                 (''off'', 0), (''basic'', 1), (''advanced'', 2),
                 (''std'', 0), (''fast'', 1), (''fastest'', 2)]"

text \<open>
  \<open>TIER_DEFAULTS\<close> is a mutable module-level dictionary (the admin API changes it), so every
  definition that reads it takes the current table; \<open>tier_defaults\<close> is the seed.
\<close>

type_synonym tier_table = "tier \<Rightarrow> (string \<times> json) list"

fun tier_defaults :: tier_table where
  "tier_defaults Free = [
     (''invites_per_week'', JInt 5), (''ai_credits_per_month'', JInt 0), (''ads_shown'', JBool True),
     (''chat_export'', JBool False), (''hide_from_non_premium'', JBool False),
     (''picked_for_you_priority'', JStr ''none''), (''mockup_fidelity'', JStr ''off''),
     (''portfolio_pdf_export'', JBool False), (''visibility_boost'', JBool False),
     (''support_priority'', JStr ''std''), (''see_who_saved_you'', JBool False),
     (''feed_profiles_per_day'', JInt 30), (''daily_save_cap'', JInt 50)]"
| "tier_defaults Premium = [
     (''invites_per_week'', JInt (-1)), (''ai_credits_per_month'', JInt 200), (''ads_shown'', JBool False),
     (''chat_export'', JBool True), (''hide_from_non_premium'', JBool True),
     (''picked_for_you_priority'', JStr ''standard''), (''mockup_fidelity'', JStr ''basic''),
     (''portfolio_pdf_export'', JBool False), (''visibility_boost'', JBool False),
     (''support_priority'', JStr ''fast''), (''see_who_saved_you'', JBool True),
     (''feed_profiles_per_day'', JInt (-1)), (''daily_save_cap'', JInt (-1))]"
| "tier_defaults Pro = [
     (''invites_per_week'', JInt (-1)), (''ai_credits_per_month'', JInt 1000), (''ads_shown'', JBool False),
     (''chat_export'', JBool True), (''hide_from_non_premium'', JBool True),
     (''picked_for_you_priority'', JStr ''high''), (''mockup_fidelity'', JStr ''advanced''),
     (''portfolio_pdf_export'', JBool True), (''visibility_boost'', JBool True),
     (''support_priority'', JStr ''fastest''), (''see_who_saved_you'', JBool True),
     (''feed_profiles_per_day'', JInt (-1)), (''daily_save_cap'', JInt (-1))]"

fun source_priority :: "ent_source \<Rightarrow> nat" where
  "source_priority Es_Default = 0"
| "source_priority Es_Promo = 1"
| "source_priority Es_Subscription = 2"
| "source_priority Es_Family_Share = 3"
| "source_priority Es_Grant = 4"

definition active_status :: "sub_status \<Rightarrow> bool" where
  "active_status q \<longleftrightarrow> q \<in> set [Trialing, Active, Past_Due, Grace]"

fun tier_rank :: "tier \<Rightarrow> nat" where
  "tier_rank Free = 0"
| "tier_rank Premium = 1"
| "tier_rank Pro = 2"

section \<open>Comparison of two values of an axis\<close>

definition enum_rank :: "json \<Rightarrow> nat" where
  "enum_rank v = (case v of
     JStr s \<Rightarrow> (case map_of enum_ranks s of Some r \<Rightarrow> r | None \<Rightarrow> 0) | _ \<Rightarrow> 0)"

definition axis_type_of :: "string \<Rightarrow> axis_type" where
  "axis_type_of axis_key = (case map_of axis_registry axis_key of Some meta \<Rightarrow> ax_type meta | None \<Rightarrow> Ax_Bool)"

definition higher_value :: "string \<Rightarrow> json \<Rightarrow> json \<Rightarrow> exn + json" where
  "higher_value axis_key a b = (case axis_type_of axis_key of
     Ax_Int \<Rightarrow> if py_eq a (JInt (-1)) then Inr a else if py_eq b (JInt (-1)) then Inr b else py_max a b
   | Ax_Bool \<Rightarrow> Inr (if truthy a then a else b)
   | Ax_Enum \<Rightarrow> Inr (if enum_rank a \<ge> enum_rank b then a else b))"

section \<open>The resolver\<close>

record resolved =
  re_axes :: "(string \<times> json) list"
  re_tier :: tier
  re_status :: "sub_status option"
  re_period_end :: "datetime option"

text \<open>
  \<open>max\<close> over the subscriptions ordered by descending period end, keyed by tier rank and period
  end; Python's \<open>max\<close> keeps the first of equal maxima.
\<close>

definition sub_better :: "subscription \<Rightarrow> subscription \<Rightarrow> bool" where
  "sub_better s b \<longleftrightarrow> tier_rank (sub_tier b) < tier_rank (sub_tier s)
     \<or> (tier_rank (sub_tier b) = tier_rank (sub_tier s) \<and> current_period_end b < current_period_end s)"

fun best_subscription :: "subscription list \<Rightarrow> subscription option" where
  "best_subscription [] = None"
| "best_subscription (s # ss) = Some (foldl (\<lambda>b x. if sub_better x b then x else b) s ss)"

definition raw_value :: "json \<Rightarrow> json" where
  "raw_value v = (case v of JObj kvs \<Rightarrow> (case map_of kvs ''v'' of Some w \<Rightarrow> w | None \<Rightarrow> v) | _ \<Rightarrow> v)"

type_synonym resolution = "(string \<times> json \<times> nat) list"

definition merge_snapshot :: "resolution \<Rightarrow> entitlement_snapshot \<Rightarrow> exn + resolution" where
  "merge_snapshot m snap =
     (let prio = source_priority (es_source snap); v = raw_value (es_value snap) in
      case map_of m (es_axis_key snap) of
        None \<Rightarrow> Inr (AList.update (es_axis_key snap) (v, prio) m)
      | Some (old, old_prio) \<Rightarrow>
          if old_prio < prio then Inr (AList.update (es_axis_key snap) (v, prio) m)
          else if prio = old_prio then
            (case higher_value (es_axis_key snap) v old of
               Inl e \<Rightarrow> Inl e
             | Inr better \<Rightarrow> Inr (AList.update (es_axis_key snap) (better, prio) m))
          else Inr m)"

fun merge_snapshots :: "resolution \<Rightarrow> entitlement_snapshot list \<Rightarrow> exn + resolution" where
  "merge_snapshots m [] = Inr m"
| "merge_snapshots m (snap # snaps) =
     (case merge_snapshot m snap of Inl e \<Rightarrow> Inl e | Inr m2 \<Rightarrow> merge_snapshots m2 snaps)"

definition fill_axes :: "resolution \<Rightarrow> (string \<times> json) list \<Rightarrow> (string \<times> json) list" where
  "fill_axes m tier_vals = map (\<lambda>(axis_key, meta). (axis_key,
     case map_of m axis_key of
       Some (v, _) \<Rightarrow> v
     | None \<Rightarrow> (case map_of tier_vals axis_key of Some v \<Rightarrow> v | None \<Rightarrow> ax_default meta))) axis_registry"

definition live_snapshot :: "uuid \<Rightarrow> datetime \<Rightarrow> entitlement_snapshot \<Rightarrow> bool" where
  "live_snapshot user_id now snap \<longleftrightarrow> es_user_id snap = user_id
     \<and> (case es_expires_at snap of None \<Rightarrow> True | Some t \<Rightarrow> now < t)"

definition resolve_entitlements :: "tier_table \<Rightarrow> uuid \<Rightarrow> datetime option \<Rightarrow> resolved billing" where
  "resolve_entitlements td user_id at =
     bind_c now_c (\<lambda>clk.
       let now = (case at of Some t \<Rightarrow> t | None \<Rightarrow> clk) in
     bind_c (select_all subscriptions (\<lambda>s. sub_user_id s = user_id \<and> active_status (sub_status s))) (\<lambda>rows.
       let best = best_subscription (sort_key (\<lambda>s. - current_period_end s) rows);
           winning_tier = (case best of Some b \<Rightarrow> sub_tier b | None \<Rightarrow> Free)
       in bind_c (select_all snapshots (live_snapshot user_id now)) (\<lambda>snaps.
          case merge_snapshots [] snaps of
            Inl e \<Rightarrow> raise e
          | Inr m \<Rightarrow> ret \<lparr>re_axes = fill_axes m (td winning_tier), re_tier = winning_tier,
              re_status = map_option sub_status best,
              re_period_end = map_option current_period_end best\<rparr>)))"

section \<open>The Redis cache\<close>

text \<open>
  A cache entry either parses back to the resolution that was stored (\<open>json.dumps\<close> followed
  by \<open>json.loads\<close>, with the period end through its ISO form) or it does not, and then the
  entry is ignored. Expiry after \<open>REDIS_TTL\<close> is the entry's absence.
\<close>

datatype cache_entry = Cached resolved | Corrupt
type_synonym redis = "string \<Rightarrow> cache_entry option"

definition cache_key :: "uuid \<Rightarrow> string" where
  "cache_key user_id = ''entitlements:'' @ str_uuid user_id"

definition set_cache :: "redis \<Rightarrow> uuid \<Rightarrow> resolved \<Rightarrow> redis" where
  "set_cache redis user_id r = redis(cache_key user_id := Some (Cached r))"

definition invalidate_entitlement_cache :: "redis \<Rightarrow> uuid \<Rightarrow> redis" where
  "invalidate_entitlement_cache redis user_id = redis(cache_key user_id := None)"

definition get_cached_entitlements :: "tier_table \<Rightarrow> redis \<Rightarrow> uuid \<Rightarrow> (resolved \<times> redis) billing" where
  "get_cached_entitlements td redis user_id =
     (case redis (cache_key user_id) of
        Some (Cached r) \<Rightarrow> ret (r, redis)
      | _ \<Rightarrow> bind_c (resolve_entitlements td user_id None) (\<lambda>r. ret (r, set_cache redis user_id r)))"

section \<open>Well-typed values and their order\<close>

text \<open>
  The value an axis may hold by its registry entry, and \<open>as_good k a b\<close>: \<open>a\<close> is at least as
  good as \<open>b\<close> (-1 is unlimited, True beats False, a higher rank beats a lower one).
\<close>

definition axis_ok :: "string \<Rightarrow> json \<Rightarrow> bool" where
  "axis_ok k v = (case map_of axis_registry k of
     None \<Rightarrow> False
   | Some meta \<Rightarrow> (case (ax_type meta, v) of
        (Ax_Int, JInt i) \<Rightarrow> True
      | (Ax_Bool, JBool b) \<Rightarrow> True
      | (Ax_Enum, JStr s) \<Rightarrow> s \<in> set (ax_choices meta)
      | _ \<Rightarrow> False))"

fun as_good :: "string \<Rightarrow> json \<Rightarrow> json \<Rightarrow> bool" where
  "as_good k (JInt i) (JInt j) = (i = -1 \<or> (j \<noteq> -1 \<and> j \<le> i))"
| "as_good k (JBool b) (JBool c) = (c \<longrightarrow> b)"
| "as_good k (JStr s) (JStr t) = (enum_rank (JStr t) \<le> enum_rank (JStr s))"
| "as_good k _ _ = False"

lemma axis_ok_cases:
  assumes "axis_ok k v"
  obtains (int) i where "axis_type_of k = Ax_Int" "v = JInt i"
  | (bool) b where "axis_type_of k = Ax_Bool" "v = JBool b"
  | (enum) t where "axis_type_of k = Ax_Enum" "v = JStr t"
  using assms by (auto simp: axis_ok_def axis_type_of_def split: option.splits axis_type.splits json.splits)

lemma as_good_refl: "axis_ok k v \<Longrightarrow> as_good k v v"
  by (erule axis_ok_cases) auto

lemma as_good_trans:
  assumes "axis_ok k a" "axis_ok k b" "axis_ok k c" "as_good k a b" "as_good k b c"
  shows "as_good k a c"
  using assms(4,5) by (rule_tac axis_ok_cases [OF assms(1)]; rule_tac axis_ok_cases [OF assms(2)];
      rule_tac axis_ok_cases [OF assms(3)]) auto

text \<open>On well-typed values \<open>_higher_value\<close> never raises and returns the better argument.\<close>

lemma higher_value_ok:
  assumes "axis_ok k a" "axis_ok k b"
  obtains c where "higher_value k a b = Inr c" "c = a \<or> c = b" "as_good k c a" "as_good k c b"
proof -
  have "\<exists>c. higher_value k a b = Inr c \<and> (c = a \<or> c = b) \<and> as_good k c a \<and> as_good k c b"
    by (rule axis_ok_cases [OF assms(1)]; rule axis_ok_cases [OF assms(2)])
       (auto simp: higher_value_def py_max_def truthy_def)
  with that show thesis by blast
qed

definition typed_snapshot :: "entitlement_snapshot \<Rightarrow> bool" where
  "typed_snapshot snap \<longleftrightarrow> axis_ok (es_axis_key snap) (raw_value (es_value snap))"

definition typed_table :: "tier_table \<Rightarrow> bool" where
  "typed_table td \<longleftrightarrow> (\<forall>t. \<forall>(k, v) \<in> set (td t). axis_ok k v)"

text \<open>
  The abstract resolver of one axis: the value comes from the highest source that has one, and
  is the best value that source has.
\<close>

definition best_for :: "string \<Rightarrow> entitlement_snapshot list \<Rightarrow> json \<Rightarrow> nat \<Rightarrow> bool" where
  "best_for k snaps v p \<longleftrightarrow>
     (\<exists>s \<in> set snaps. es_axis_key s = k \<and> source_priority (es_source s) = p \<and> raw_value (es_value s) = v)
   \<and> (\<forall>s \<in> set snaps. es_axis_key s = k \<longrightarrow> source_priority (es_source s) \<le> p
        \<and> (source_priority (es_source s) = p \<longrightarrow> as_good k v (raw_value (es_value s))))"

definition entry_ok :: "entitlement_snapshot list \<Rightarrow> resolution \<Rightarrow> string \<Rightarrow> bool" where
  "entry_ok snaps m k = (case map_of m k of
     None \<Rightarrow> (\<forall>s \<in> set snaps. es_axis_key s \<noteq> k)
   | Some (v, p) \<Rightarrow> best_for k snaps v p)"

lemma merge_snapshots_append:
  "merge_snapshots m (xs @ ys) =
     (case merge_snapshots m xs of Inl e \<Rightarrow> Inl e | Inr m2 \<Rightarrow> merge_snapshots m2 ys)"
  by (induction xs arbitrary: m) (auto split: sum.split)

lemma entry_ok_other:
  assumes "entry_ok snaps m k" "es_axis_key snap \<noteq> k"
  shows "entry_ok (snaps @ [snap]) (AList.update (es_axis_key snap) e m) k"
    and "entry_ok (snaps @ [snap]) m k"
  using assms by (auto simp: entry_ok_def best_for_def update_conv' split: option.splits)

lemma merge_snapshot_ok:
  assumes ok: "\<And>k. entry_ok snaps m k" and ty: "typed_snapshot snap" "\<forall>s \<in> set snaps. typed_snapshot s"
  obtains m2 where "merge_snapshot m snap = Inr m2" "\<And>k. entry_ok (snaps @ [snap]) m2 k"
proof -
  let ?k = "es_axis_key snap" and ?p = "source_priority (es_source snap)" and ?v = "raw_value (es_value snap)"
  have here: "entry_ok snaps m ?k" by (rule ok)
  have vok: "axis_ok ?k ?v" using ty(1) by (simp add: typed_snapshot_def)
  have lift: "\<And>k. entry_ok (snaps @ [snap]) (AList.update ?k e m) k"
    if "entry_ok (snaps @ [snap]) (AList.update ?k e m) ?k" for e
    using entry_ok_other(1) [OF ok] that by metis
  show thesis
  proof (cases "map_of m ?k")
    case None
    then have "entry_ok (snaps @ [snap]) (AList.update ?k (?v, ?p) m) ?k"
      using here as_good_refl [OF vok] by (auto simp: entry_ok_def best_for_def update_conv')
    with None lift show ?thesis by (intro that) (auto simp: merge_snapshot_def)
  next
    case (Some vp)
    then obtain old q where vp: "map_of m ?k = Some (old, q)" by (cases vp) auto
    then have best: "best_for ?k snaps old q" using here by (simp add: entry_ok_def)
    then obtain s where s: "s \<in> set snaps" "es_axis_key s = ?k" "raw_value (es_value s) = old"
      by (auto simp: best_for_def)
    with ty(2) have ook: "axis_ok ?k old" by (auto simp: typed_snapshot_def)
    consider (more) "q < ?p" | (same) "q = ?p" | (less) "?p < q" by linarith
    then show ?thesis
    proof cases
      case more
      then have "entry_ok (snaps @ [snap]) (AList.update ?k (?v, ?p) m) ?k"
        using best as_good_refl [OF vok] by (fastforce simp: entry_ok_def best_for_def update_conv')
      with more vp lift show ?thesis by (intro that) (auto simp: merge_snapshot_def)
    next
      case same
      obtain c where c: "higher_value ?k ?v old = Inr c" "c = ?v \<or> c = old" "as_good ?k c ?v" "as_good ?k c old"
        using higher_value_ok [OF vok ook] by metis
      have cok: "axis_ok ?k c" using c(2) vok ook by auto
      have "as_good ?k c (raw_value (es_value t))"
        if "t \<in> set snaps" "es_axis_key t = ?k" "source_priority (es_source t) = q" for t
        using best that c(4) ty(2) as_good_trans [OF cok ook] by (auto simp: best_for_def typed_snapshot_def)
      then have "entry_ok (snaps @ [snap]) (AList.update ?k (c, ?p) m) ?k"
        using best c(2,3) same by (fastforce simp: entry_ok_def best_for_def update_conv')
      with same vp c(1) lift show ?thesis by (intro that) (auto simp: merge_snapshot_def)
    next
      case less
      have "entry_ok (snaps @ [snap]) m k" for k
      proof (cases "?k = k")
        case True
        with less best vp show ?thesis by (fastforce simp: entry_ok_def best_for_def)
      next
        case False
        with entry_ok_other(2) [OF ok] show ?thesis by blast
      qed
      with less vp show ?thesis by (intro that) (auto simp: merge_snapshot_def)
    qed
  qed
qed

lemma merge_snapshots_ok:
  "\<forall>s \<in> set snaps. typed_snapshot s \<Longrightarrow> \<exists>m. merge_snapshots [] snaps = Inr m \<and> (\<forall>k. entry_ok snaps m k)"
proof (induction snaps rule: rev_induct)
  case Nil
  then show ?case by (simp add: entry_ok_def)
next
  case (snoc snap snaps)
  then obtain m where m: "merge_snapshots [] snaps = Inr m" "\<And>k. entry_ok snaps m k" by auto
  obtain m2 where "merge_snapshot m snap = Inr m2" "\<And>k. entry_ok (snaps @ [snap]) m2 k"
    using merge_snapshot_ok [OF m(2), of snap] snoc.prems by auto
  with m(1) show ?case by (auto simp: merge_snapshots_append)
qed

lemma fill_axes_lookup:
  assumes "map_of axis_registry k = Some meta"
  shows "map_of (fill_axes m tv) k = Some (case map_of m k of Some (v, _) \<Rightarrow> v
     | None \<Rightarrow> (case map_of tv k of Some v \<Rightarrow> v | None \<Rightarrow> ax_default meta))"
proof -
  have "map_of (map (\<lambda>(x, y). (x, f x y)) al) k = map_option (f k) (map_of al k)"
    for f :: "string \<Rightarrow> axis_meta \<Rightarrow> json" and al
    by (induction al) auto
  with assms show ?thesis unfolding fill_axes_def by simp
qed

lemma map_fst_fill_axes: "map fst (fill_axes m tv) = map fst axis_registry"
  by (simp add: fill_axes_def case_prod_beta comp_def)

lemma default_ok: "map_of axis_registry k = Some meta \<Longrightarrow> axis_ok k (ax_default meta)"
  by (auto simp: axis_ok_def axis_registry_def split: if_splits)

lemma tier_defaults_typed: "typed_table tier_defaults"
proof -
  have "list_all (\<lambda>t. list_all (\<lambda>(k, v). axis_ok k v) (tier_defaults t)) [Free, Premium, Pro]" by code_simp
  then have "list_all (\<lambda>(k, v). axis_ok k v) (tier_defaults t)" for t by (cases t) simp_all
  then show ?thesis by (simp add: typed_table_def list_all_iff)
qed


lemma best_subscription_max:
  "best_subscription (s # ss) = Some b \<Longrightarrow> b \<in> set (s # ss) \<and> (\<forall>x \<in> set (s # ss). \<not> sub_better x b)"
proof -
  have "foldl (\<lambda>b x. if sub_better x b then x else b) s ss \<in> set (s # ss)
     \<and> (\<forall>x \<in> set (s # ss). \<not> sub_better x (foldl (\<lambda>b x. if sub_better x b then x else b) s ss))"
  proof (induction ss rule: rev_induct)
    case Nil
    then show ?case by (simp add: sub_better_def)
  next
    case (snoc x xs)
    then show ?case by (auto simp: sub_better_def)
  qed
  then show "best_subscription (s # ss) = Some b \<Longrightarrow> ?thesis" by simp
qed

lemma best_subscription_some: "rows \<noteq> [] \<Longrightarrow> \<exists>b. best_subscription rows = Some b"
  by (cases rows) auto

section \<open>Properties\<close>

definition live_snapshots :: "billing_db \<Rightarrow> uuid \<Rightarrow> datetime \<Rightarrow> entitlement_snapshot list" where
  "live_snapshots db u now = filter (live_snapshot u now) (snapshots db)"

definition active_subs :: "billing_db \<Rightarrow> uuid \<Rightarrow> subscription list" where
  "active_subs db u = filter (\<lambda>x. sub_user_id x = u \<and> active_status (sub_status x)) (subscriptions db)"

lemma resolve_run:
  "resolve_entitlements td u at s =
     (let now = (case at of Some t \<Rightarrow> t | None \<Rightarrow> clock s);
          best = best_subscription (sort_key (\<lambda>x. - current_period_end x) (active_subs (work s) u));
          winner = (case best of Some b \<Rightarrow> sub_tier b | None \<Rightarrow> Free)
      in case merge_snapshots [] (live_snapshots (work s) u now) of
           Inl e \<Rightarrow> (Inl e, s)
         | Inr m \<Rightarrow> (Inr \<lparr>re_axes = fill_axes m (td winner), re_tier = winner,
              re_status = map_option sub_status best, re_period_end = map_option current_period_end best\<rparr>, s))"
  by (simp add: resolve_entitlements_def comp_simps live_snapshots_def active_subs_def Let_def split: sum.split)

lemma resolve_typed:
  assumes "\<forall>x \<in> set (live_snapshots (work s) u (case at of Some t \<Rightarrow> t | None \<Rightarrow> clock s)). typed_snapshot x"
  obtains m r where "\<And>k. entry_ok (live_snapshots (work s) u (case at of Some t \<Rightarrow> t | None \<Rightarrow> clock s)) m k"
    "resolve_entitlements td u at s = (Inr r, s)" "re_axes r = fill_axes m (td (re_tier r))"
proof -
  obtain m where "merge_snapshots [] (live_snapshots (work s) u (case at of Some t \<Rightarrow> t | None \<Rightarrow> clock s)) = Inr m"
    and "\<And>k. entry_ok (live_snapshots (work s) u (case at of Some t \<Rightarrow> t | None \<Rightarrow> clock s)) m k"
    using merge_snapshots_ok [OF assms] by auto
  then show thesis by (intro that) (auto simp: resolve_run Let_def)
qed

text \<open>C3. When the tier tables and the user's live snapshots are well-typed, the resolver never
  raises and answers with exactly the 13 registry axes, each well-typed: the best value of the
  highest-priority source that has a live snapshot on the axis, or the winning tier's table
  entry where no source has one.\<close>

theorem resolver_takes_best_of_top_source:
  assumes td: "typed_table td"
    and snaps: "\<forall>x \<in> set (live_snapshots (work s) u (case at of Some t \<Rightarrow> t | None \<Rightarrow> clock s)). typed_snapshot x"
  shows "\<exists>r. resolve_entitlements td u at s = (Inr r, s) \<and> map fst (re_axes r) = map fst axis_registry
     \<and> (\<forall>k v. map_of (re_axes r) k = Some v \<longrightarrow> axis_ok k v \<and>
          (let live = live_snapshots (work s) u (case at of Some t \<Rightarrow> t | None \<Rightarrow> clock s) in
           if \<exists>x \<in> set live. es_axis_key x = k then \<exists>p. best_for k live v p
           else v = (case map_of (td (re_tier r)) k of Some d \<Rightarrow> d
                     | None \<Rightarrow> ax_default (the (map_of axis_registry k)))))"
proof -
  let ?live = "live_snapshots (work s) u (case at of Some t \<Rightarrow> t | None \<Rightarrow> clock s)"
  obtain m r where m: "\<And>k. entry_ok ?live m k" and r: "resolve_entitlements td u at s = (Inr r, s)"
    "re_axes r = fill_axes m (td (re_tier r))"
    using resolve_typed [OF snaps, of td] by blast
  have "axis_ok k v \<and> (if \<exists>x \<in> set ?live. es_axis_key x = k then \<exists>p. best_for k ?live v p
      else v = (case map_of (td (re_tier r)) k of Some d \<Rightarrow> d | None \<Rightarrow> ax_default (the (map_of axis_registry k))))"
    if "map_of (re_axes r) k = Some v" for k v
  proof -
    have "k \<in> fst ` set axis_registry"
      using that map_fst_fill_axes r(2) by (metis list.set_map weak_map_of_SomeI option.distinct(1) map_of_eq_None_iff)
    then obtain meta where meta: "map_of axis_registry k = Some meta"
      by (metis map_of_eq_None_iff not_None_eq)
    note v = fill_axes_lookup [OF meta, of m "td (re_tier r)", folded r(2), unfolded that]
    show ?thesis
    proof (cases "map_of m k")
      case None
      then have "\<not> (\<exists>x \<in> set ?live. es_axis_key x = k)" using m [of k] by (simp add: entry_ok_def)
      moreover have "axis_ok k d" if "map_of (td (re_tier r)) k = Some d" for d
        using td map_of_SomeD [OF that] by (auto simp: typed_table_def)
      ultimately show ?thesis using v None meta default_ok [OF meta] by (auto split: option.splits)
    next
      case (Some vp)
      then obtain p where p: "map_of m k = Some (v, p)" using v by (cases vp) auto
      then have "best_for k ?live v p" using m [of k] by (simp add: entry_ok_def)
      then show ?thesis using snaps by (auto simp: best_for_def typed_snapshot_def)
    qed
  qed
  with r show ?thesis by (auto simp: map_fst_fill_axes Let_def)
qed

text \<open>The winning subscription: with no active subscription the user is on Free; otherwise
  the tier, status and period end are those of an active subscription of the user that no other
  active one beats, first on tier and then on period end.\<close>

theorem resolver_winning_subscription:
  assumes "resolve_entitlements td u at s = (Inr r, s1)"
  shows "if active_subs (work s) u = []
     then re_tier r = Free \<and> re_status r = None \<and> re_period_end r = None
     else \<exists>b \<in> set (active_subs (work s) u). re_tier r = sub_tier b \<and> re_status r = Some (sub_status b)
        \<and> re_period_end r = Some (current_period_end b)
        \<and> (\<forall>x \<in> set (active_subs (work s) u). \<not> sub_better x b)"
proof -
  let ?rows = "sort_key (\<lambda>x. - current_period_end x) (active_subs (work s) u)"
  have r: "re_tier r = (case best_subscription ?rows of Some b \<Rightarrow> sub_tier b | None \<Rightarrow> Free)"
    "re_status r = map_option sub_status (best_subscription ?rows)"
    "re_period_end r = map_option current_period_end (best_subscription ?rows)"
    using assms by (auto simp: resolve_run Let_def split: sum.splits)
  show ?thesis
  proof (cases ?rows)
    case Nil
    then have "active_subs (work s) u = []" by (metis length_sort length_0_conv)
    with r Nil show ?thesis by simp
  next
    case (Cons y ys)
    then have ne: "active_subs (work s) u \<noteq> []" by auto
    have st: "set ?rows = set (active_subs (work s) u)" by simp
    obtain b where b: "best_subscription ?rows = Some b" using best_subscription_some [of ?rows] Cons by auto
    with Cons best_subscription_max [of y ys b] st
    have "b \<in> set (active_subs (work s) u)" "\<forall>x \<in> set (active_subs (work s) u). \<not> sub_better x b" by metis+
    with r b ne show ?thesis by auto
  qed
qed

text \<open>The cache answers with the stored resolution, whatever happens to the database and the
  tier tables, until it is invalidated; after an invalidation the answer is resolved afresh
  and stored.\<close>

theorem cache_until_invalidated:
  assumes "get_cached_entitlements td redis u s = (Inr (r, redis1), s1)"
  shows "get_cached_entitlements td2 redis1 u s2 = (Inr (r, redis1), s2)
    \<and> get_cached_entitlements td2 (invalidate_entitlement_cache redis1 u) u s2 =
           (case resolve_entitlements td2 u None s2 of
              (Inl e, s3) \<Rightarrow> (Inl e, s3)
            | (Inr r2, s3) \<Rightarrow> (Inr (r2, set_cache redis1 u r2), s3))"
  using assms by (auto simp: get_cached_entitlements_def comp_simps set_cache_def
      invalidate_entitlement_cache_def split: option.splits cache_entry.splits prod.splits sum.splits)

section \<open>Witnesses\<close>

definition demo_snap :: "uuid \<Rightarrow> string \<Rightarrow> json \<Rightarrow> ent_source \<Rightarrow> entitlement_snapshot" where
  "demo_snap i k v src = \<lparr>es_id = i, es_user_id = 7, es_axis_key = k, es_value = JObj [(''v'', v)], es_source = src,
     es_source_ref = Some i, es_expires_at = None, es_updated_at = 0, es_created_at = 0\<rparr>"

definition demo_sub :: "uuid \<Rightarrow> tier \<Rightarrow> sub_status \<Rightarrow> datetime \<Rightarrow> subscription" where
  "demo_sub i t q pe = \<lparr>sub_id = i, sub_user_id = 7, sub_source = Src_Stripe, sub_gateway = Gw_Stripe, sub_tier = t,
     sub_status = q, store_subscription_id = Some ''sub_x'', store_product_id = ''p'', sub_billing_period = Month,
     current_period_start = 0, current_period_end = pe, cancel_at_period_end = False, trial_end = None,
     started_at = 0, canceled_at = None, ended_at = None, paused_reason = None, paused_at = None,
     sub_metadata = JObj [], sub_created_at = 0, sub_updated_at = 0\<rparr>"

definition demo_ent_db :: billing_db where
  "demo_ent_db = empty_billing_db
     \<lparr>subscriptions := [demo_sub 1 Premium Active 50, demo_sub 2 Pro Canceled 90, demo_sub 3 Premium Past_Due 70],
      snapshots := [demo_snap 1 ''invites_per_week'' (JInt 100) Es_Promo,
                    demo_snap 2 ''invites_per_week'' (JInt 20) Es_Subscription,
                    demo_snap 3 ''invites_per_week'' (JInt 30) Es_Subscription]\<rparr>"

definition demo_ent :: billing_sess where
  "demo_ent = \<lparr>committed = demo_ent_db, work = demo_ent_db, outbox = [], clock = 10, next_uuid = 1\<rparr>"

definition demo_resolved :: resolved where
  "demo_resolved = (case fst (resolve_entitlements tier_defaults 7 None demo_ent) of Inr r \<Rightarrow> r | Inl _ \<Rightarrow> undefined)"

lemma demo_resolve_run: "resolve_entitlements tier_defaults 7 None demo_ent = (Inr demo_resolved, demo_ent)"
proof -
  have "isl (merge_snapshots [] (live_snapshots (work demo_ent) 7 10)) = False" by code_simp
  moreover have "clock demo_ent = 10" by (simp add: demo_ent_def)
  ultimately show ?thesis unfolding demo_resolved_def
    by (auto simp: resolve_run Let_def split: sum.split)
qed

lemma resolver_takes_best_of_top_source_witness:
  "map_of (re_axes demo_resolved) ''invites_per_week'' = Some (JInt 30)
   \<and> map fst (re_axes demo_resolved) = map fst axis_registry"
proof
  have "\<forall>x \<in> set (live_snapshots (work demo_ent) 7 (clock demo_ent)). typed_snapshot x" by code_simp
  then show "map fst (re_axes demo_resolved) = map fst axis_registry"
    using resolver_takes_best_of_top_source [OF tier_defaults_typed, of demo_ent 7 None] demo_resolve_run by auto
qed code_simp

lemma resolver_winning_subscription_witness:
  "re_tier demo_resolved = Premium \<and> re_period_end demo_resolved = Some 70"
proof -
  have "active_subs (work demo_ent) 7 = [demo_sub 1 Premium Active 50, demo_sub 3 Premium Past_Due 70]" by code_simp
  moreover have "sub_better (demo_sub 3 Premium Past_Due 70) (demo_sub 1 Premium Active 50)" by code_simp
  moreover have "sub_tier (demo_sub 3 Premium Past_Due 70) = Premium" "current_period_end (demo_sub 3 Premium Past_Due 70) = 70" by code_simp+
  ultimately show ?thesis
    using resolver_winning_subscription [OF demo_resolve_run] by auto
qed

lemma cache_until_invalidated_witness:
  "get_cached_entitlements tier_defaults (set_cache (\<lambda>_. None) 7 demo_resolved) 7 demo_ent
     = (Inr (demo_resolved, set_cache (\<lambda>_. None) 7 demo_resolved), demo_ent)"
proof -
  have "get_cached_entitlements tier_defaults (\<lambda>_. None) 7 demo_ent
     = (Inr (demo_resolved, set_cache (\<lambda>_. None) 7 demo_resolved), demo_ent)"
    by (simp add: get_cached_entitlements_def comp_simps demo_resolve_run)
  then show ?thesis by (rule cache_until_invalidated [THEN conjunct1])
qed

end
