(* ===== verification/Billing_Subscriptions.thy ===== *)
theory Billing_Subscriptions
  imports Billing_Entitlements
begin

text \<open>
  Subscription records of billing-svc (services/billing-svc/app/services/subscriptions.py):
  the upserts that mirror Stripe subscription objects and RevenueCat events into the
  subscription table, the entitlement snapshots a subscription writes, and the messages that
  announce a change. An object of a webhook payload is a record with one optional field per
  key the code reads; a missing key is None.
\<close>

section \<open>Payloads\<close>

record stripe_price =
  sp_id :: "string option"
  sp_product :: "string option"
  sp_interval :: "string option"

record stripe_sub =
  ss_id :: "string option"
  ss_customer :: "string option"
  ss_status :: "string option"
  ss_period_start :: "int option"
  ss_period_end :: "int option"
  ss_trial_end :: "int option"
  ss_items :: "stripe_price list option"
  ss_cancel_at_period_end :: "bool option"

record rc_event =
  rc_id :: "string option"
  rc_type :: "string option"
  rc_app_user_id :: "string option"
  rc_product_id :: "string option"
  rc_store :: "string option"
  rc_original_transaction_id :: "string option"
  rc_expiration_at_ms :: "int option"
  rc_purchased_at_ms :: "int option"
  rc_event_timestamp_ms :: "int option"

text \<open>\<open>d.get(k, default)\<close> and \<open>v or default\<close>.\<close>

definition get_or :: "'a option \<Rightarrow> 'a \<Rightarrow> 'a" where
  "get_or v d = (case v of Some x \<Rightarrow> x | None \<Rightarrow> d)"

definition or_zero :: "int option \<Rightarrow> int" where
  "or_zero v = get_or v 0"

section \<open>Status maps and tiers\<close>

definition stripe_status_map :: "(string \<times> sub_status) list" where
  "stripe_status_map = [(''trialing'', Trialing), (''active'', Active), (''past_due'', Past_Due),
     (''canceled'', Canceled), (''unpaid'', Past_Due), (''incomplete'', Past_Due),
     (''incomplete_expired'', Expired), (''paused'', Paused)]"

definition rc_status_map :: "(string \<times> sub_status) list" where
  "rc_status_map = [(''INITIAL_PURCHASE'', Active), (''RENEWAL'', Active), (''CANCELLATION'', Canceled),
     (''EXPIRATION'', Expired), (''BILLING_ISSUE'', Past_Due), (''PRODUCT_CHANGE'', Active),
     (''SUBSCRIPTION_PAUSED'', Paused)]"

definition stripe_status :: "stripe_sub \<Rightarrow> sub_status" where
  "stripe_status obj = get_or (map_of stripe_status_map (get_or (ss_status obj) ''active'')) Active"

definition rc_status :: "string \<Rightarrow> sub_status" where
  "rc_status event_type = get_or (map_of rc_status_map event_type) Active"

definition map_product_to_tier :: "string \<Rightarrow> tier" where
  "map_product_to_tier product_id =
     (let pid = map lower_char product_id in
      if contains ''pro'' pid then Pro else if contains ''premium'' pid then Premium else Free)"

section \<open>Upserts\<close>

text \<open>
  The row a new Stripe subscription gets: the columns the constructor sets, the others at their
  defaults (\<open>created_at\<close> and \<open>updated_at\<close> are set by the server on insert).
\<close>

definition stripe_plan :: "stripe_sub \<Rightarrow> stripe_price" where
  "stripe_plan obj = (case ss_items obj of
     Some (p # ps) \<Rightarrow> p | _ \<Rightarrow> \<lparr>sp_id = None, sp_product = None, sp_interval = None\<rparr>)"

definition stripe_trial_end :: "stripe_sub \<Rightarrow> datetime option" where
  "stripe_trial_end obj = (case ss_trial_end obj of
     Some t \<Rightarrow> if t = 0 then None else Some (from_seconds t) | None \<Rightarrow> None)"

definition new_stripe_row :: "stripe_sub \<Rightarrow> uuid \<Rightarrow> tier \<Rightarrow> uuid \<Rightarrow> datetime \<Rightarrow> subscription" where
  "new_stripe_row obj user_id t i now =
     \<lparr>sub_id = i, sub_user_id = user_id, sub_source = Src_Stripe, sub_gateway = Gw_Stripe, sub_tier = t,
      sub_status = stripe_status obj, store_subscription_id = Some (get_or (ss_id obj) ''''),
      store_product_id = get_or (sp_id (stripe_plan obj)) ''unknown'',
      sub_billing_period = (if get_or (sp_interval (stripe_plan obj)) ''month'' = ''year'' then Year else Month),
      current_period_start = from_seconds (or_zero (ss_period_start obj)),
      current_period_end = from_seconds (or_zero (ss_period_end obj)),
      cancel_at_period_end = get_or (ss_cancel_at_period_end obj) False,
      trial_end = stripe_trial_end obj, started_at = from_seconds (or_zero (ss_period_start obj)),
      canceled_at = None, ended_at = None, paused_reason = None, paused_at = None,
      sub_metadata = JObj [], sub_created_at = now, sub_updated_at = now\<rparr>"

definition stripe_changes :: "stripe_sub \<Rightarrow> tier \<Rightarrow> datetime \<Rightarrow> subscription \<Rightarrow> subscription" where
  "stripe_changes obj t now r =
     (let q = stripe_status obj in
      r\<lparr>sub_tier := t, sub_status := q,
        current_period_start := from_seconds (or_zero (ss_period_start obj)),
        current_period_end := from_seconds (or_zero (ss_period_end obj)),
        cancel_at_period_end := get_or (ss_cancel_at_period_end obj) False,
        trial_end := stripe_trial_end obj,
        canceled_at := (if q \<in> {Canceled, Expired} \<and> canceled_at r = None then Some now else canceled_at r),
        ended_at := (if q = Expired \<and> ended_at r = None then Some now else ended_at r)\<rparr>)"

definition insert_sub :: "subscription \<Rightarrow> unit billing" where
  "insert_sub = db_insert subscriptions_update subscriptions (\<lambda>_. True) (\<lambda>r x. sub_id x = sub_id r)"

text \<open>
  A changed row is flushed with its new \<open>updated_at\<close>; the caller keeps the row it changed.
\<close>

definition upsert_subscription_from_stripe ::
  "stripe_sub \<Rightarrow> uuid \<Rightarrow> tier \<Rightarrow> datetime \<Rightarrow> subscription billing" where
  "upsert_subscription_from_stripe obj user_id t event_timestamp =
     bind_c now_c (\<lambda>now.
     bind_c (scalar_one_or_none subscriptions (\<lambda>r.
         store_subscription_id r = Some (get_or (ss_id obj) '''') \<and> sub_source r = Src_Stripe)) (\<lambda>found.
       case found of
         None \<Rightarrow> bind_c uuid4 (\<lambda>i.
           let row = new_stripe_row obj user_id t i now in seq_c (insert_sub row) (ret row))
       | Some r \<Rightarrow>
           let r2 = (if event_timestamp \<le> sub_updated_at r then stripe_changes obj t now r else r)
           in seq_c (save_subscription r r2) (ret r2)))"

definition rc_gateway :: "rc_event \<Rightarrow> gateway" where
  "rc_gateway ev = (if contains ''APP_STORE'' (get_or (rc_store ev) ''APP_STORE'') then Gw_Apple else Gw_Google)"

definition millis_or :: "int option \<Rightarrow> datetime \<Rightarrow> datetime" where
  "millis_or v d = (case v of Some ms \<Rightarrow> if ms = 0 then d else from_millis ms | None \<Rightarrow> d)"

definition new_rc_row :: "rc_event \<Rightarrow> uuid \<Rightarrow> sub_status \<Rightarrow> string \<Rightarrow> uuid \<Rightarrow> datetime \<Rightarrow> subscription" where
  "new_rc_row ev user_id q original_tx_id i now =
     \<lparr>sub_id = i, sub_user_id = user_id, sub_source = Src_Revenuecat, sub_gateway = rc_gateway ev,
      sub_tier = map_product_to_tier (get_or (rc_product_id ev) ''unknown''), sub_status = q,
      store_subscription_id = Some original_tx_id, store_product_id = get_or (rc_product_id ev) ''unknown'',
      sub_billing_period = Month,
      current_period_start = millis_or (rc_purchased_at_ms ev) now,
      current_period_end = millis_or (rc_expiration_at_ms ev) now,
      cancel_at_period_end = False, trial_end = None, started_at = millis_or (rc_purchased_at_ms ev) now,
      canceled_at = None, ended_at = None, paused_reason = None, paused_at = None,
      sub_metadata = JObj [], sub_created_at = now, sub_updated_at = now\<rparr>"

definition rc_changes :: "rc_event \<Rightarrow> sub_status \<Rightarrow> datetime \<Rightarrow> subscription \<Rightarrow> subscription" where
  "rc_changes ev q now r =
     r\<lparr>sub_status := q, sub_tier := map_product_to_tier (get_or (rc_product_id ev) ''unknown''),
       current_period_start := millis_or (rc_purchased_at_ms ev) now,
       current_period_end := millis_or (rc_expiration_at_ms ev) now,
       canceled_at := (if q \<in> {Canceled, Expired} \<and> canceled_at r = None then Some now else canceled_at r)\<rparr>"

text \<open>
  Python evaluates the default of \<open>rc_event.get("original_transaction_id", str(uuid.uuid4()))\<close>
  whether or not the key is there.
\<close>

definition upsert_subscription_from_rc :: "rc_event \<Rightarrow> uuid \<Rightarrow> string \<Rightarrow> subscription billing" where
  "upsert_subscription_from_rc ev user_id event_type =
     bind_c now_c (\<lambda>now. bind_c uuid4 (\<lambda>fresh.
       let original_tx_id = get_or (rc_original_transaction_id ev) (str_uuid fresh);
           q = rc_status event_type in
       bind_c (scalar_one_or_none subscriptions (\<lambda>r.
           store_subscription_id r = Some original_tx_id \<and> sub_source r = Src_Revenuecat)) (\<lambda>found.
         case found of
           None \<Rightarrow> bind_c uuid4 (\<lambda>i.
             let row = new_rc_row ev user_id q original_tx_id i now in seq_c (insert_sub row) (ret row))
         | Some r \<Rightarrow>
             let r2 = rc_changes ev q now r in seq_c (save_subscription r r2) (ret r2))))"

section \<open>Entitlement snapshots of a subscription\<close>

definition snapshot_row :: "uuid \<Rightarrow> uuid \<Rightarrow> subscription \<Rightarrow> datetime \<Rightarrow> string \<Rightarrow> json \<Rightarrow> entitlement_snapshot" where
  "snapshot_row i user_id sub now axis_key v =
     \<lparr>es_id = i, es_user_id = user_id, es_axis_key = axis_key, es_value = JObj [(''v'', v)],
      es_source = Es_Subscription, es_source_ref = Some (sub_id sub),
      es_expires_at = Some (current_period_end sub), es_updated_at = now, es_created_at = now\<rparr>"

text \<open>INSERT .. ON CONFLICT (user, axis, source, source_ref) DO UPDATE of value, expiry and stamp.\<close>

definition upsert_snapshot :: "entitlement_snapshot \<Rightarrow> entitlement_snapshot list \<Rightarrow> entitlement_snapshot list" where
  "upsert_snapshot row rows =
     (if list_ex (es_clash row) rows
      then update_where (es_clash row)
             (\<lambda>r. r\<lparr>es_value := es_value row, es_expires_at := es_expires_at row, es_updated_at := es_updated_at row\<rparr>) rows
      else rows @ [row])"

definition effective_tier :: "subscription \<Rightarrow> tier" where
  "effective_tier sub = (if active_status (sub_status sub) then sub_tier sub else Free)"

definition write_axis :: "uuid \<Rightarrow> subscription \<Rightarrow> string \<times> json \<Rightarrow> unit billing" where
  "write_axis user_id sub kv = (case kv of (axis_key, v) \<Rightarrow>
     bind_c uuid4 (\<lambda>i. bind_c now_c (\<lambda>now.
       modify_table snapshots_update snapshots (upsert_snapshot (snapshot_row i user_id sub now axis_key v)))))"

definition apply_entitlements_for_user :: "tier_table \<Rightarrow> uuid \<Rightarrow> subscription \<Rightarrow> unit billing" where
  "apply_entitlements_for_user td user_id sub = for_c (td (effective_tier sub)) (write_axis user_id sub)"

section \<open>Messages\<close>

fun str_tier :: "tier \<Rightarrow> string" where
  "str_tier Free = ''free''"
| "str_tier Premium = ''premium''"
| "str_tier Pro = ''pro''"

definition publish_entitlement_changed :: "uuid \<Rightarrow> string list option \<Rightarrow> tier option \<Rightarrow> unit billing" where
  "publish_entitlement_changed user_id axis_keys t =
     publish_c (Message ''entitlement.changed''
       ([(''user_id'', JStr (str_uuid user_id))]
        @ (case axis_keys of Some (k # ks) \<Rightarrow> [(''axis_keys'', JList (map JStr (k # ks)))] | _ \<Rightarrow> [])
        @ (case t of Some x \<Rightarrow> [(''tier'', JStr (str_tier x))] | None \<Rightarrow> [])))"

definition publish_event :: "string \<Rightarrow> (string \<times> json) list \<Rightarrow> unit billing" where
  "publish_event key body = publish_c (Message key body)"

section \<open>What applying a subscription writes\<close>

fun put_rows :: "nat \<Rightarrow> uuid \<Rightarrow> subscription \<Rightarrow> datetime \<Rightarrow> (string \<times> json) list
    \<Rightarrow> entitlement_snapshot list \<Rightarrow> entitlement_snapshot list" where
  "put_rows n u sub now [] rows = rows"
| "put_rows n u sub now ((k, v) # kvs) rows =
     put_rows (Suc n) u sub now kvs (upsert_snapshot (snapshot_row n u sub now k v) rows)"

lemma write_axis_run:
  "write_axis u sub (k, v) s = (Inr (), s\<lparr>next_uuid := Suc (next_uuid s),
     work := (work s)\<lparr>snapshots := upsert_snapshot (snapshot_row (next_uuid s) u sub (clock s) k v) (snapshots (work s))\<rparr>\<rparr>)"
  by (simp add: write_axis_def comp_simps)

lemma for_put_rows:
  "for_c kvs (write_axis u sub) s
   = (Inr (), s\<lparr>next_uuid := next_uuid s + length kvs,
        work := (work s)\<lparr>snapshots := put_rows (next_uuid s) u sub (clock s) kvs (snapshots (work s))\<rparr>\<rparr>)"
proof (induction kvs arbitrary: s)
  case Nil
  then show ?case by (simp add: comp_simps)
next
  case (Cons kv kvs)
  obtain k v where "kv = (k, v)" by (cases kv) auto
  then show ?case by (simp add: comp_simps write_axis_run Cons.IH)
qed

lemma apply_run:
  "apply_entitlements_for_user td u sub s =
     (Inr (), s\<lparr>next_uuid := next_uuid s + length (td (effective_tier sub)),
        work := (work s)\<lparr>snapshots := put_rows (next_uuid s) u sub (clock s) (td (effective_tier sub))
           (snapshots (work s))\<rparr>\<rparr>)"
  unfolding apply_entitlements_for_user_def by (rule for_put_rows)

definition owned :: "uuid \<Rightarrow> subscription \<Rightarrow> string \<Rightarrow> entitlement_snapshot \<Rightarrow> bool" where
  "owned u sub k x \<longleftrightarrow> es_user_id x = u \<and> es_axis_key x = k \<and> es_source x = Es_Subscription
     \<and> es_source_ref x = Some (sub_id sub)"

definition carries :: "subscription \<Rightarrow> json \<Rightarrow> entitlement_snapshot \<Rightarrow> bool" where
  "carries sub v x \<longleftrightarrow> es_value x = JObj [(''v'', v)] \<and> es_expires_at x = Some (current_period_end sub)"

lemma es_clash_snapshot_row: "es_clash (snapshot_row n u sub now k v) = owned u sub k"
  by (auto simp: fun_eq_iff es_clash_def snapshot_row_def owned_def)

lemma owned_snapshot_row: "owned u sub k2 (snapshot_row n u sub now k v) \<longleftrightarrow> k2 = k"
  and carries_snapshot_row: "carries sub v (snapshot_row n u sub now k v)"
  by (auto simp: owned_def carries_def snapshot_row_def)

lemma upsert_snapshot_set:
  "set (upsert_snapshot row rows) =
     (if list_ex (es_clash row) rows
      then (\<lambda>r. r\<lparr>es_value := es_value row, es_expires_at := es_expires_at row, es_updated_at := es_updated_at row\<rparr>)
             ` {r \<in> set rows. es_clash row r} \<union> {r \<in> set rows. \<not> es_clash row r}
      else insert row (set rows))"
  by (simp add: upsert_snapshot_def set_update_where)

lemma owned_update: "owned u sub k (r\<lparr>es_value := a, es_expires_at := b, es_updated_at := c\<rparr>) = owned u sub k r"
  by (simp add: owned_def)

lemma carries_update:
  "carries sub v r0 \<Longrightarrow> carries sub v (r\<lparr>es_value := es_value r0, es_expires_at := es_expires_at r0, es_updated_at := c\<rparr>)"
  by (simp add: carries_def)

lemma owned_unique: "owned u sub k x \<Longrightarrow> owned u sub k2 x \<longleftrightarrow> k2 = k"
  by (auto simp: owned_def)

lemma upsert_owned:
  "\<exists>x \<in> set (upsert_snapshot (snapshot_row n u sub now k v) rows). owned u sub k x"
  "x \<in> set (upsert_snapshot (snapshot_row n u sub now k v) rows) \<Longrightarrow> owned u sub k x \<Longrightarrow> carries sub v x"
  by (simp add: upsert_snapshot_set es_clash_snapshot_row list_ex_iff owned_update owned_snapshot_row bex_Un)
     (auto simp: upsert_snapshot_set es_clash_snapshot_row owned_update owned_snapshot_row
      carries_snapshot_row carries_update list_ex_iff split: if_splits)

lemma upsert_other:
  assumes "k2 \<noteq> k"
  shows "x \<in> set (upsert_snapshot (snapshot_row n u sub now k v) rows) \<and> owned u sub k2 x
     \<longleftrightarrow> x \<in> set rows \<and> owned u sub k2 x"
  using assms by (auto simp: upsert_snapshot_set es_clash_snapshot_row owned_update owned_snapshot_row
      owned_unique [of u sub k _ k2])

lemma upsert_foreign:
  assumes "\<And>k2. \<not> owned u sub k2 x"
  shows "x \<in> set (upsert_snapshot (snapshot_row n u sub now k v) rows) \<longleftrightarrow> x \<in> set rows"
  using assms [of k] by (auto simp: upsert_snapshot_set es_clash_snapshot_row owned_update owned_snapshot_row)

lemma put_rows_foreign:
  assumes "\<And>k2. \<not> owned u sub k2 x"
  shows "x \<in> set (put_rows n u sub now kvs rows) \<longleftrightarrow> x \<in> set rows"
  using assms by (induction n u sub now kvs rows rule: put_rows.induct) (simp_all add: upsert_foreign)

lemma put_rows_other:
  "k \<notin> fst ` set kvs \<Longrightarrow> x \<in> set (put_rows n u sub now kvs rows) \<and> owned u sub k x
     \<longleftrightarrow> x \<in> set rows \<and> owned u sub k x"
  by (induction n u sub now kvs rows rule: put_rows.induct) (auto simp: upsert_other)

lemma put_rows_owned:
  assumes "distinct (map fst kvs)" "map_of kvs k = Some v"
  shows "(\<exists>x \<in> set (put_rows n u sub now kvs rows). owned u sub k x)
    \<and> (\<forall>x \<in> set (put_rows n u sub now kvs rows). owned u sub k x \<longrightarrow> carries sub v x)"
  using assms
proof (induction n u sub now kvs rows rule: put_rows.induct)
  case (2 n u sub now k1 v1 kvs rows)
  show ?case
  proof (cases "k1 = k")
    case True
    with 2 have k: "k \<notin> fst ` set kvs" "v1 = v" by auto
    let ?mid = "upsert_snapshot (snapshot_row n u sub now k v) rows"
    have same: "x \<in> set (put_rows (Suc n) u sub now kvs ?mid) \<and> owned u sub k x \<longleftrightarrow> x \<in> set ?mid \<and> owned u sub k x" for x
      by (rule put_rows_other [OF k(1)])
    from upsert_owned(1) [where u = u and sub = sub and k = k and n = n and now = now and v = v and rows = rows]
      upsert_owned(2) [where u = u and sub = sub and k = k and n = n and now = now and v = v and rows = rows] same
    have "(\<exists>x \<in> set (put_rows (Suc n) u sub now kvs ?mid). owned u sub k x)
      \<and> (\<forall>x \<in> set (put_rows (Suc n) u sub now kvs ?mid). owned u sub k x \<longrightarrow> carries sub v x)" by blast
    with True k(2) show ?thesis by simp
  next
    case False
    with 2 show ?thesis by simp
  qed
qed simp

text \<open>A tier table that names the registry axes in order, as the seeds do.\<close>

definition complete_table :: "tier_table \<Rightarrow> bool" where
  "complete_table td \<longleftrightarrow> (\<forall>t. map fst (td t) = map fst axis_registry)"

lemma registry_distinct: "distinct (map fst axis_registry)"
  by code_simp

lemma tier_defaults_complete: "complete_table tier_defaults"
proof -
  have "map fst (tier_defaults t) = map fst axis_registry" for t
    by (cases t) (simp_all add: axis_registry_def)
  then show ?thesis by (simp add: complete_table_def)
qed

lemma complete_lookup:
  "complete_table td \<Longrightarrow> k \<in> fst ` set axis_registry \<Longrightarrow> \<exists>v. map_of (td t) k = Some v"
  unfolding complete_table_def by (metis list.set_map map_of_eq_None_iff not_None_eq)

lemma applied_rows_carry:
  assumes td: "complete_table td"
    and own: "\<forall>x \<in> set snaps. es_user_id x = u \<longrightarrow> owned u sub (es_axis_key x) x \<and> es_axis_key x \<in> fst ` set axis_registry"
    and x: "x \<in> set (put_rows n u sub now (td (effective_tier sub)) snaps)" "es_user_id x = u"
  shows "\<exists>v. map_of (td (effective_tier sub)) (es_axis_key x) = Some v \<and> carries sub v x"
proof -
  let ?kvs = "td (effective_tier sub)"
  let ?rows = "put_rows n u sub now ?kvs snaps"
  have dist: "distinct (map fst ?kvs)" using td registry_distinct by (simp add: complete_table_def)
  have cover: "\<And>k. k \<in> fst ` set axis_registry \<Longrightarrow> \<exists>v. map_of ?kvs k = Some v"
    by (rule complete_lookup [OF td])
  have keys: "fst ` set ?kvs = fst ` set axis_registry"
    using td unfolding complete_table_def by (metis list.set_map)
  have "owned u sub (es_axis_key x) x \<and> es_axis_key x \<in> fst ` set axis_registry"
  proof (cases "\<exists>k2. owned u sub k2 x")
    case True
    then obtain k2 where k2: "owned u sub k2 x" by blast
    then have e: "es_axis_key x = k2" by (simp add: owned_def)
    have "k2 \<in> fst ` set ?kvs"
    proof (rule ccontr)
      assume "k2 \<notin> fst ` set ?kvs"
      with put_rows_other [of k2 ?kvs x] x(1) k2 have "x \<in> set snaps" by blast
      with own x(2) e keys \<open>k2 \<notin> fst ` set ?kvs\<close> show False by auto
    qed
    with k2 e keys show ?thesis by simp
  next
    case False
    then show ?thesis using put_rows_foreign [of u sub x] x own by auto
  qed
  moreover from this obtain v where "map_of ?kvs (es_axis_key x) = Some v"
    using cover by blast
  ultimately show ?thesis using put_rows_owned [OF dist] x by blast
qed

lemma apply_resolves:
  assumes td: "typed_table td" "complete_table td"
    and own: "\<forall>x \<in> set (snapshots (work s)). es_user_id x = u \<longrightarrow> owned u sub (es_axis_key x) x \<and> es_axis_key x \<in> fst ` set axis_registry"
    and live: "t < current_period_end sub"
    and k: "map_of axis_registry k = Some meta"
  shows "case apply_entitlements_for_user td u sub s of (x, s1) \<Rightarrow> x = Inr ()
     \<and> (\<exists>r. resolve_entitlements td u (Some t) s1 = (Inr r, s1)
        \<and> map_of (re_axes r) k = map_of (td (effective_tier sub)) k)"
proof -
  let ?kvs = "td (effective_tier sub)"
  let ?rows = "put_rows (next_uuid s) u sub (clock s) ?kvs (snapshots (work s))"
  obtain s1 where s1: "apply_entitlements_for_user td u sub s = (Inr (), s1)" "snapshots (work s1) = ?rows"
    by (simp add: apply_run)
  have dist: "distinct (map fst ?kvs)" using td(2) registry_distinct by (simp add: complete_table_def)
  have cover: "\<And>k. k \<in> fst ` set axis_registry \<Longrightarrow> \<exists>v. map_of ?kvs k = Some v"
    by (rule complete_lookup [OF td(2)])
  have good: "\<exists>v. map_of ?kvs (es_axis_key x) = Some v \<and> carries sub v x"
    if x: "x \<in> set ?rows" "es_user_id x = u" for x
    by (rule applied_rows_carry [OF td(2) own x])
  let ?live = "live_snapshots (work s1) u t"
  have raw: "map_of ?kvs (es_axis_key x) = Some (raw_value (es_value x))" if "x \<in> set ?live" for x
    using good [of x] that s1(2) by (auto simp: live_snapshots_def live_snapshot_def carries_def raw_value_def)
  have ty: "\<forall>x \<in> set ?live. typed_snapshot x"
    using raw td(1) map_of_SomeD by (fastforce simp: typed_snapshot_def typed_table_def)
  obtain m r where m: "\<And>k. entry_ok ?live m k" and r: "resolve_entitlements td u (Some t) s1 = (Inr r, s1)"
    "re_axes r = fill_axes m (td (re_tier r))"
    using resolve_typed [of s1 u "Some t" td] ty by auto
  obtain v where v: "map_of ?kvs k = Some v" using cover k by (metis map_of_SomeD image_eqI fst_conv)
  obtain x where x: "x \<in> set ?rows" "owned u sub k x" "carries sub v x" using put_rows_owned [OF dist v] by blast
  then have "x \<in> set ?live" "es_axis_key x = k"
    using live s1(2) by (auto simp: live_snapshots_def live_snapshot_def owned_def carries_def)
  then obtain w p where w: "map_of m k = Some (w, p)" "best_for k ?live w p"
    using m [of k] by (auto simp: entry_ok_def split: option.splits)
  then have "map_of ?kvs k = Some w" using raw by (auto simp: best_for_def)
  with s1 r w(1) show ?thesis by (auto simp: fill_axes_lookup [OF k])
qed

text \<open>C4. Applying a subscription and then resolving, for a user all of whose snapshots were written for
  that subscription (no grant, no other subscription) and at a time before the end of its current period:
  applying succeeds, and the resolver then gives every axis the value of the subscription's tier in the tier
  table while the subscription counts as active, and of the Free tier once it does not. Nothing is said of users
  with other snapshots, nor of the time from the end of the period on.\<close>

theorem apply_then_resolve:
  assumes td: "typed_table td" "complete_table td"
    and own: "\<forall>x \<in> set (snapshots (work s)). es_user_id x = u \<longrightarrow> owned u sub (es_axis_key x) x \<and> es_axis_key x \<in> fst ` set axis_registry"
    and live: "t < current_period_end sub"
    and k: "map_of axis_registry k = Some meta"
  shows "case apply_entitlements_for_user td u sub s of (x, s1) \<Rightarrow> x = Inr ()
     \<and> (\<exists>r. resolve_entitlements td u (Some t) s1 = (Inr r, s1)
        \<and> map_of (re_axes r) k = map_of (td (effective_tier sub)) k)"
  by (rule apply_resolves [OF assms])

definition demo_start_subs :: billing_sess where
  "demo_start_subs = \<lparr>committed = empty_billing_db, work = empty_billing_db, outbox = [], clock = 10, next_uuid = 1\<rparr>"

lemma apply_then_resolve_witness:
  "\<exists>r s1. apply_entitlements_for_user tier_defaults 7 (demo_sub 1 Pro Canceled 50) demo_start_subs = (Inr (), s1)
     \<and> resolve_entitlements tier_defaults 7 (Some 20) s1 = (Inr r, s1)
     \<and> map_of (re_axes r) ''chat_export'' = Some (JBool False)"
proof -
  have "map_of axis_registry ''chat_export'' = Some \<lparr>ax_type = Ax_Bool, ax_choices = [], ax_default = JBool False\<rparr>"
    by (simp add: axis_registry_def)
  moreover have "map_of (tier_defaults (effective_tier (demo_sub 1 Pro Canceled 50))) ''chat_export'' = Some (JBool False)"
    by code_simp
  ultimately show ?thesis
    using apply_then_resolve [OF tier_defaults_typed tier_defaults_complete, of demo_start_subs 7 "demo_sub 1 Pro Canceled 50" 20]
    by (fastforce simp: demo_start_subs_def empty_billing_db_def demo_sub_def split: prod.splits)
qed

section \<open>Upserts on every branch\<close>

definition stripe_row_of :: "stripe_sub \<Rightarrow> subscription \<Rightarrow> bool" where
  "stripe_row_of obj r \<longleftrightarrow> store_subscription_id r = Some (get_or (ss_id obj) []) \<and> sub_source r = Src_Stripe"

definition changed_subs :: "subscription \<Rightarrow> subscription \<Rightarrow> datetime \<Rightarrow> subscription list \<Rightarrow> subscription list" where
  "changed_subs old new now rows =
     (if new \<noteq> old then update_where (\<lambda>r. sub_id r = sub_id old) (\<lambda>_. new\<lparr>sub_updated_at := now\<rparr>) rows else rows)"

lemma save_subscription_run:
  "save_subscription old new s =
     (Inr (), s\<lparr>work := (work s)\<lparr>subscriptions := changed_subs old new (clock s) (subscriptions (work s))\<rparr>\<rparr>)"
  by (simp add: save_subscription_def comp_simps changed_subs_def)

lemma stripe_upsert_existing:
  assumes "filter (stripe_row_of obj) (subscriptions (work s)) = [r]"
  shows "upsert_subscription_from_stripe obj u t ts s =
     (if ts \<le> sub_updated_at r
      then (Inr (stripe_changes obj t (clock s) r), s\<lparr>work := (work s)\<lparr>subscriptions :=
              changed_subs r (stripe_changes obj t (clock s) r) (clock s) (subscriptions (work s))\<rparr>\<rparr>)
      else (Inr r, s))"
proof -
  have "filter (\<lambda>r. store_subscription_id r = Some (get_or (ss_id obj) []) \<and> sub_source r = Src_Stripe)
      (subscriptions (work s)) = [r]"
    using assms by (simp add: stripe_row_of_def [abs_def])
  then show ?thesis
    by (simp add: upsert_subscription_from_stripe_def comp_simps save_subscription_run Let_def changed_subs_def)
qed

lemma stripe_upsert_new:
  assumes "filter (stripe_row_of obj) (subscriptions (work s)) = []"
    and "\<forall>r \<in> set (subscriptions (work s)). sub_id r \<noteq> next_uuid s"
  shows "upsert_subscription_from_stripe obj u t ts s =
     (Inr (new_stripe_row obj u t (next_uuid s) (clock s)), s\<lparr>next_uuid := Suc (next_uuid s),
        work := (work s)\<lparr>subscriptions := subscriptions (work s) @ [new_stripe_row obj u t (next_uuid s) (clock s)]\<rparr>\<rparr>)"
proof -
  have "filter (\<lambda>r. store_subscription_id r = Some (get_or (ss_id obj) []) \<and> sub_source r = Src_Stripe)
      (subscriptions (work s)) = []"
    using assms(1) by (simp add: stripe_row_of_def [abs_def])
  moreover have "\<not> list_ex (\<lambda>x. sub_id x = next_uuid s) (subscriptions (work s))"
    using assms(2) by (simp add: list_ex_iff)
  ultimately show ?thesis
    by (simp add: upsert_subscription_from_stripe_def comp_simps insert_sub_def Let_def new_stripe_row_def)
qed

lemma contains_prefix: "starts_with t s \<Longrightarrow> contains t s"
  by (cases s; cases t) auto

text \<open>Every product id that starts with Stripe's own prefix \<open>prod_\<close> contains \<open>pro\<close>, so each
  of them is mapped to the Pro tier, whatever was bought.\<close>

theorem stripe_product_ids_are_pro: "map_product_to_tier (''prod_'' @ rest) = Pro"
proof -
  have "map lower_char ''prod_'' = ''prod_''" by code_simp
  then have "contains ''pro'' (map lower_char (''prod_'' @ rest))"
    by (intro contains_prefix) simp
  then show ?thesis by (simp add: map_product_to_tier_def Let_def)
qed

end
