(* ===== verification/Billing_Dunning.thy ===== *)
theory Billing_Dunning
  imports Billing_Subscriptions
begin

text \<open>
  The dunning state machine of billing-svc (services/billing-svc/app/services/dunning.py): a
  failed payment opens a case, the periodic tick moves due cases forward one state at a time,
  a successful payment recovers them. The single-case step is an instance of the ranked life
  cycle interface.
\<close>

section \<open>Operations\<close>

fun state_delay :: "dunning_state \<Rightarrow> int option" where
  "state_delay Day0 = Some (days 3)"
| "state_delay Day3 = Some (days 4)"
| "state_delay Day7 = Some (days 3)"
| "state_delay Day10_Canceled = Some (days 20)"
| "state_delay _ = None"

definition terminal_state :: "dunning_state \<Rightarrow> bool" where
  "terminal_state q \<longleftrightarrow> q \<in> {Day30_Grace_Expired, Recovered}"

definition open_case_of :: "uuid \<Rightarrow> dunning_case \<Rightarrow> bool" where
  "open_case_of subscription_id c \<longleftrightarrow> dc_subscription_id c = subscription_id \<and> \<not> terminal_state (dc_state c)"

definition open_dunning_case :: "uuid \<Rightarrow> uuid \<Rightarrow> dunning_case billing" where
  "open_dunning_case user_id subscription_id =
     bind_c (scalar_one_or_none dunning_cases (open_case_of subscription_id)) (\<lambda>existing.
       case existing of
         Some c \<Rightarrow> ret c
       | None \<Rightarrow> bind_c uuid4 (\<lambda>i. bind_c now_c (\<lambda>now.
           let c = \<lparr>dc_id = i, dc_user_id = user_id, dc_subscription_id = subscription_id, dc_opened_at = now,
                    dc_state = Day0, dc_last_attempt_at = Some now,
                    dc_last_attempt_result = Some ''payment_failed'', dc_last_email_sent_at = None,
                    dc_recovered_at = None, dc_closed_at = None\<rparr>
           in seq_c (db_insert dunning_cases_update dunning_cases (\<lambda>_. True) (\<lambda>r x. dc_id x = dc_id r) c)
                (ret c))))"

definition recover_case :: "datetime \<Rightarrow> dunning_case \<Rightarrow> dunning_case" where
  "recover_case now c = c\<lparr>dc_state := Recovered, dc_recovered_at := Some now, dc_closed_at := Some now\<rparr>"

definition mark_recovered :: "uuid \<Rightarrow> dunning_case option billing" where
  "mark_recovered subscription_id =
     bind_c (scalar_one_or_none dunning_cases (open_case_of subscription_id)) (\<lambda>found.
       case found of
         None \<Rightarrow> ret None
       | Some c \<Rightarrow> bind_c now_c (\<lambda>now.
           seq_c (modify_table dunning_cases_update dunning_cases
                    (update_where (\<lambda>r. dc_id r = dc_id c) (\<lambda>_. recover_case now c)))
             (ret (Some (recover_case now c)))))"

fun next_dunning :: "dunning_state \<Rightarrow> (dunning_state \<times> string) option" where
  "next_dunning Day0 = Some (Day3, ''retry_charge'')"
| "next_dunning Day3 = Some (Day7, ''retry_charge'')"
| "next_dunning Day7 = Some (Day10_Canceled, ''cancel_subscription'')"
| "next_dunning Day10_Canceled = Some (Day30_Grace_Expired, ''expire_grace'')"
| "next_dunning _ = None"

record dunning_action =
  da_case_id :: uuid
  da_user_id :: uuid
  da_subscription_id :: uuid
  da_old_state :: dunning_state
  da_new_state :: dunning_state
  da_action :: string

definition reference_time :: "dunning_case \<Rightarrow> datetime" where
  "reference_time c = (case dc_last_attempt_at c of Some t \<Rightarrow> t | None \<Rightarrow> dc_opened_at c)"

text \<open>One iteration of the loop: None where it continues without a change.\<close>

definition advance_case :: "datetime \<Rightarrow> dunning_case \<Rightarrow> (dunning_case \<times> dunning_action) option" where
  "advance_case now c =
     (case state_delay (dc_state c) of
        None \<Rightarrow> None
      | Some delay \<Rightarrow>
          if now < reference_time c + delay then None
          else (case next_dunning (dc_state c) of
              None \<Rightarrow> None
            | Some (new_state, action) \<Rightarrow>
                Some (c\<lparr>dc_state := new_state, dc_last_attempt_at := Some now\<rparr>,
                  \<lparr>da_case_id = dc_id c, da_user_id = dc_user_id c, da_subscription_id = dc_subscription_id c,
                   da_old_state = dc_state c, da_new_state = new_state, da_action = action\<rparr>)))"

definition advanced :: "datetime \<Rightarrow> dunning_case \<Rightarrow> dunning_case" where
  "advanced now c = (case advance_case now c of Some (c2, _) \<Rightarrow> c2 | None \<Rightarrow> c)"

definition actions_of :: "datetime \<Rightarrow> dunning_case list \<Rightarrow> dunning_action list" where
  "actions_of now cs = List.map_filter (\<lambda>c. map_option snd (advance_case now c)) cs"

definition advance_dunning_cases :: "dunning_action list billing" where
  "advance_dunning_cases =
     bind_c now_c (\<lambda>now.
     bind_c (select_all dunning_cases (\<lambda>c. \<not> terminal_state (dc_state c))) (\<lambda>cases.
       seq_c (modify_table dunning_cases_update dunning_cases
                (update_where (\<lambda>c. \<not> terminal_state (dc_state c)) (advanced now)))
         (ret (actions_of now cases))))"

definition cancel_subscription_for_dunning :: "uuid \<Rightarrow> subscription option billing" where
  "cancel_subscription_for_dunning subscription_id =
     bind_c (scalar_one_or_none subscriptions (\<lambda>r. sub_id r = subscription_id)) (\<lambda>found.
       case found of
         None \<Rightarrow> ret None
       | Some sub \<Rightarrow> bind_c now_c (\<lambda>now.
           let sub2 = sub\<lparr>sub_status := Canceled, canceled_at := Some now\<rparr>
           in seq_c (save_subscription sub sub2) (ret (Some sub2))))"

section \<open>The life cycle of one case\<close>

datatype dunning_event = Dn_Tick datetime | Dn_Paid datetime

definition dunning_step :: "dunning_case \<Rightarrow> dunning_event \<Rightarrow> dunning_case option" where
  "dunning_step c e = (case e of
     Dn_Tick now \<Rightarrow> map_option fst (advance_case now c)
   | Dn_Paid now \<Rightarrow> if terminal_state (dc_state c) then None else Some (recover_case now c))"

fun dunning_rank :: "dunning_state \<Rightarrow> nat" where
  "dunning_rank Day0 = 0"
| "dunning_rank Day3 = 1"
| "dunning_rank Day7 = 2"
| "dunning_rank Day10_Canceled = 3"
| "dunning_rank _ = 4"

lemma advance_case_cases:
  assumes "advance_case now c = Some (c2, a)"
  obtains q delay where "state_delay (dc_state c) = Some delay" "reference_time c + delay \<le> now"
    "next_dunning (dc_state c) = Some (q, da_action a)"
    "c2 = c\<lparr>dc_state := q, dc_last_attempt_at := Some now\<rparr>"
  using assms by (auto simp: advance_case_def split: option.splits if_splits prod.splits)

lemma next_dunning_rank: "next_dunning q = Some (q2, a) \<Longrightarrow> dunning_rank q2 = Suc (dunning_rank q) \<and> \<not> terminal_state q"
  by (cases q) (auto simp: terminal_state_def)

lemma next_dunning_open: "\<not> terminal_state q \<Longrightarrow> \<exists>q2 a. next_dunning q = Some (q2, a)"
  by (cases q) (auto simp: terminal_state_def)

lemma terminal_stuck: "terminal_state (dc_state c) \<Longrightarrow> advance_case now c = None"
  by (cases "dc_state c") (auto simp: terminal_state_def advance_case_def)

interpretation dunning: ranked_lifecycle dunning_step "\<lambda>c. terminal_state (dc_state c)"
  "\<lambda>c. dunning_rank (dc_state c)" 4
proof
  fix c e
  show "terminal_state (dc_state c) \<Longrightarrow> dunning_step c e = None"
    by (cases e) (simp_all add: dunning_step_def terminal_stuck)
next
  fix c e c2
  show "dunning_step c e = Some c2 \<Longrightarrow> dunning_rank (dc_state c) < dunning_rank (dc_state c2)"
    by (cases e; cases "dc_state c")
       (auto simp: dunning_step_def recover_case_def terminal_state_def elim!: advance_case_cases split: if_splits)
next
  fix c
  show "dunning_rank (dc_state c) \<le> 4" by (cases "dc_state c") auto
qed

text \<open>Days that must have passed since the case was opened before a state can be reached.\<close>

fun min_days :: "dunning_state \<Rightarrow> int" where
  "min_days Day0 = 0"
| "min_days Day3 = 3"
| "min_days Day7 = 7"
| "min_days Day10_Canceled = 10"
| "min_days Day30_Grace_Expired = 30"
| "min_days Recovered = 0"

definition on_schedule :: "datetime \<Rightarrow> dunning_case \<Rightarrow> bool" where
  "on_schedule t0 c \<longleftrightarrow> dc_state c = Recovered \<or> t0 + days (min_days (dc_state c)) \<le> reference_time c"

lemma schedule_step: "on_schedule t0 c \<Longrightarrow> dunning_step c e = Some c2 \<Longrightarrow> on_schedule t0 c2"
proof (cases e)
  case (Dn_Tick now)
  assume "on_schedule t0 c" "dunning_step c e = Some c2"
  moreover from this Dn_Tick obtain a where "advance_case now c = Some (c2, a)"
    by (auto simp: dunning_step_def)
  ultimately show ?thesis
    by (elim advance_case_cases; cases "dc_state c")
       (auto simp: on_schedule_def reference_time_def days_def split: option.splits)
qed (auto simp: dunning_step_def recover_case_def on_schedule_def split: if_splits)

lemma schedule_run: "on_schedule t0 c \<Longrightarrow> on_schedule t0 (run_events dunning_step c es)"
  by (induction es arbitrary: c) (auto split: option.splits intro: schedule_step)

lemma tick_overdue:
  assumes "\<not> terminal_state (dc_state c)" "reference_time c + days 20 \<le> now"
  obtains c2 where "dunning_step c (Dn_Tick now) = Some c2" "reference_time c2 = now"
    "dunning_rank (dc_state c2) = Suc (dunning_rank (dc_state c))"
proof -
  obtain q a where q: "next_dunning (dc_state c) = Some (q, a)" using next_dunning_open [OF assms(1)] by auto
  then have "\<exists>d. state_delay (dc_state c) = Some d \<and> d \<le> days 20"
    by (cases "dc_state c") auto
  then obtain d where "state_delay (dc_state c) = Some d" "\<not> now < reference_time c + d" using assms(2) by force
  then have "dunning_step c (Dn_Tick now) = Some (c\<lparr>dc_state := q, dc_last_attempt_at := Some now\<rparr>)"
    using q by (simp add: dunning_step_def advance_case_def)
  then show thesis using q by (intro that) (auto simp: reference_time_def next_dunning_rank)
qed

text \<open>Ticks at least 20 days apart, starting 20 days after \<open>t\<close>.\<close>

fun spaced :: "datetime \<Rightarrow> datetime list \<Rightarrow> bool" where
  "spaced t [] = True"
| "spaced t (n # ns) = (t + days 20 \<le> n \<and> spaced n ns)"

lemma spaced_ticks_rank:
  assumes "spaced (reference_time c) nows"
  shows "terminal_state (dc_state (run_events dunning_step c (map Dn_Tick nows)))
     \<or> dunning_rank (dc_state (run_events dunning_step c (map Dn_Tick nows))) \<ge> dunning_rank (dc_state c) + length nows"
  using assms
proof (induction nows arbitrary: c)
  case (Cons n ns)
  show ?case
  proof (cases "terminal_state (dc_state c)")
    case True
    then show ?thesis by (simp only: dunning.final_run simp_thms)
  next
    case False
    obtain c2 where c2: "dunning_step c (Dn_Tick n) = Some c2" "reference_time c2 = n"
        "dunning_rank (dc_state c2) = Suc (dunning_rank (dc_state c))"
      using tick_overdue [OF False] Cons.prems by auto
    with Cons.IH [of c2] Cons.prems show ?thesis by auto
  qed
qed simp

section \<open>One open case per subscription\<close>

definition dunning_inv :: "billing_sess \<Rightarrow> bool" where
  "dunning_inv s \<longleftrightarrow> (\<forall>db \<in> {committed s, work s}.
       distinct (map dc_id (dunning_cases db)) \<and> (\<forall>c \<in> set (dunning_cases db). dc_id c < next_uuid s)
     \<and> (\<forall>sid. length (filter (open_case_of sid) (dunning_cases db)) \<le> 1))"

datatype dunning_request =
    Dr_Failed uuid uuid
  | Dr_Paid uuid
  | Dr_Beat
  | Dr_Clock datetime

fun dunning_exec :: "dunning_request \<Rightarrow> billing_sess \<Rightarrow> billing_sess" where
  "dunning_exec (Dr_Failed u sid) s = snd (committing (open_dunning_case u sid) s)"
| "dunning_exec (Dr_Paid sid) s = snd (committing (mark_recovered sid) s)"
| "dunning_exec Dr_Beat s = snd (committing advance_dunning_cases s)"
| "dunning_exec (Dr_Clock t) s = s\<lparr>clock := t\<rparr>"

inductive dunning_reach :: "billing_sess \<Rightarrow> bool" where
  start: "committed s = empty_billing_db \<Longrightarrow> work s = empty_billing_db \<Longrightarrow> dunning_reach s"
| request: "dunning_reach s \<Longrightarrow> dunning_reach (dunning_exec q s)"

text \<open>Rewriting rows without reopening any keeps the number of open cases down.\<close>

lemma filter_update_shrinks:
  assumes "\<And>r. P r \<Longrightarrow> Q (f r) \<Longrightarrow> Q r"
  shows "length (filter Q (update_where P f rs)) \<le> length (filter Q rs)"
  using assms by (induction rs) (auto intro: le_SucI)

lemma open_run:
  assumes "dunning_inv s"
  shows "dunning_inv (snd (open_dunning_case u sid s))"
proof -
  let ?os = "filter (open_case_of sid) (dunning_cases (work s))"
  let ?c = "\<lparr>dc_id = next_uuid s, dc_user_id = u, dc_subscription_id = sid, dc_opened_at = clock s,
      dc_state = Day0, dc_last_attempt_at = Some (clock s), dc_last_attempt_result = Some ''payment_failed'',
      dc_last_email_sent_at = None, dc_recovered_at = None, dc_closed_at = None\<rparr>"
  show ?thesis
  proof (cases ?os)
    case Nil
    have "\<not> list_ex (\<lambda>x. dc_id x = next_uuid s) (dunning_cases (work s))"
      using assms by (auto simp: dunning_inv_def list_ex_iff)
    then have "snd (open_dunning_case u sid s) = s\<lparr>next_uuid := Suc (next_uuid s),
        work := (work s)\<lparr>dunning_cases := dunning_cases (work s) @ [?c]\<rparr>\<rparr>"
      using Nil by (simp add: open_dunning_case_def comp_simps Let_def)
    moreover have "length (filter (open_case_of q) (dunning_cases (work s) @ [?c])) \<le> 1" for q
      using assms Nil by (cases "q = sid") (auto simp: dunning_inv_def open_case_of_def)
    ultimately show ?thesis using assms
      by (auto simp: dunning_inv_def less_Suc_eq simp del: filter_append)
  next
    case (Cons c cs)
    with assms have "cs = []" by (auto simp: dunning_inv_def dest!: spec [where x = sid])
    with Cons assms show ?thesis by (simp add: open_dunning_case_def comp_simps)
  qed
qed

lemma update_cases_inv:
  assumes inv: "dunning_inv s" and id: "\<And>c. P c \<Longrightarrow> dc_id (f c) = dc_id c"
    and op: "\<And>c sid. P c \<Longrightarrow> open_case_of sid (f c) \<Longrightarrow> open_case_of sid c"
  shows "dunning_inv (s\<lparr>work := (work s)\<lparr>dunning_cases := update_where P f (dunning_cases (work s))\<rparr>\<rparr>)"
proof -
  let ?cs = "dunning_cases (work s)"
  have "map dc_id (update_where P f ?cs) = map dc_id ?cs" using id by (rule map_update_where)
  moreover have "length (filter (open_case_of sid) (update_where P f ?cs)) \<le> 1" for sid
    using filter_update_shrinks [of P "open_case_of sid" f ?cs] op inv
    by (force simp: dunning_inv_def intro: order_trans)
  moreover have "\<forall>c \<in> set (update_where P f ?cs). dc_id c < next_uuid s"
    using inv id by (auto simp: dunning_inv_def set_update_where)
  ultimately show ?thesis using inv by (simp add: dunning_inv_def)
qed

lemma mark_run:
  assumes "dunning_inv s"
  shows "dunning_inv (snd (mark_recovered sid s))"
proof (cases "filter (open_case_of sid) (dunning_cases (work s))")
  case Nil
  with assms show ?thesis by (simp add: mark_recovered_def comp_simps)
next
  case (Cons c cs)
  with assms have "cs = []" by (auto simp: dunning_inv_def dest!: spec [where x = sid])
  with Cons have run: "snd (mark_recovered sid s) = s\<lparr>work := (work s)\<lparr>dunning_cases :=
      update_where (\<lambda>r. dc_id r = dc_id c) (\<lambda>_. recover_case (clock s) c) (dunning_cases (work s))\<rparr>\<rparr>"
    by (simp add: mark_recovered_def comp_simps)
  show ?thesis unfolding run
    by (rule update_cases_inv [OF assms]) (auto simp: recover_case_def open_case_of_def terminal_state_def)
qed

lemma advanced_facts: "dc_id (advanced now c) = dc_id c"
  "\<not> terminal_state (dc_state c) \<Longrightarrow> open_case_of sid (advanced now c) \<Longrightarrow> open_case_of sid c"
  by (auto simp: advanced_def open_case_of_def split: option.splits elim!: advance_case_cases)

lemma advance_case_moves: "advance_case now c = Some (c2, a) \<Longrightarrow> c2 \<noteq> c"
proof (erule advance_case_cases)
  fix q assume q: "next_dunning (dc_state c) = Some (q, da_action a)" and c2: "c2 = c\<lparr>dc_state := q, dc_last_attempt_at := Some now\<rparr>"
  have "dunning_rank q = Suc (dunning_rank (dc_state c))" using next_dunning_rank [OF q] by simp
  then have "q \<noteq> dc_state c" by auto
  moreover have "dc_state c2 = q" using c2 by simp
  ultimately show "c2 \<noteq> c" by auto
qed

lemma action_ids:
  "map da_case_id (actions_of n (filter (\<lambda>c. \<not> terminal_state (dc_state c)) cs))
      = map dc_id (filter (\<lambda>c. advance_case n c \<noteq> None) cs)"
proof (induction cs)
  case (Cons c cs)
  show ?case
  proof (cases "advance_case n c")
    case None
    then show ?thesis using Cons by (simp add: actions_of_def List.map_filter_simps)
  next
    case (Some x)
    obtain c2 a where x: "x = (c2, a)" by (cases x)
    have "\<not> terminal_state (dc_state c)" using Some terminal_stuck [of c n] by auto
    moreover have "da_case_id a = dc_id c"
      using Some x by (auto simp: advance_case_def split: option.splits if_splits)
    ultimately show ?thesis using Cons Some x by (simp add: actions_of_def List.map_filter_simps)
  qed
qed (simp add: actions_of_def List.map_filter_simps)

lemma advance_run:
  "advance_dunning_cases s =
     (Inr (actions_of (clock s) (filter (\<lambda>c. \<not> terminal_state (dc_state c)) (dunning_cases (work s)))),
      s\<lparr>work := (work s)\<lparr>dunning_cases := map (advanced (clock s)) (dunning_cases (work s))\<rparr>\<rparr>)"
proof -
  have "update_where (\<lambda>c. \<not> terminal_state (dc_state c)) (advanced n) cs = map (advanced n) cs" for n cs
    by (induction cs) (auto simp: advanced_def terminal_stuck)
  then show ?thesis by (simp add: advance_dunning_cases_def comp_simps)
qed

lemma advance_inv: "dunning_inv s \<Longrightarrow> dunning_inv (snd (advance_dunning_cases s))"
  using update_cases_inv [of s "\<lambda>_. True" "advanced (clock s)"] advanced_facts
  by (simp add: advance_run update_where_def) (metis (no_types, lifting) advanced_def open_case_of_def option.case(1) terminal_stuck)

lemma committing_inv:
  assumes "\<And>s. dunning_inv s \<Longrightarrow> dunning_inv (snd (m s))" and "dunning_inv s"
  shows "dunning_inv (snd (committing m s))"
proof -
  have "dunning_inv (s\<lparr>work := committed s\<rparr>)" using assms(2) by (simp add: dunning_inv_def)
  from assms(1) [OF this] show ?thesis
    by (cases "m (s\<lparr>work := committed s\<rparr>)") (auto simp: committing_run dunning_inv_def split: sum.split)
qed

lemma dunning_reach_inv: "dunning_reach s \<Longrightarrow> dunning_inv s"
proof (induction rule: dunning_reach.induct)
  case (start s)
  then show ?case by (simp add: dunning_inv_def empty_billing_db_def)
next
  case (request s q)
  then show ?case
    by (cases q) (simp_all add: committing_inv open_run mark_run advance_inv, simp add: dunning_inv_def)
qed

section \<open>Properties\<close>

text \<open>A case opened at \<open>t0\<close> is canceled no earlier than 10 days and its grace period ends no
  earlier than 30 days after that, whatever ticks and payments arrive and in whatever order.\<close>

theorem dunning_respects_schedule:
  assumes "dc_state c = Day0" "dc_last_attempt_at c = Some t0"
    and "run_events dunning_step c es = c2"
  shows "dc_state c2 = Recovered \<or> t0 + days (min_days (dc_state c2)) \<le> reference_time c2"
  using schedule_run [of t0 c es] assms by (simp add: on_schedule_def reference_time_def days_def)

text \<open>C7. A case changes state at most four times, however long the ticks go on; four ticks spaced
  20 days or more bring any open case to a terminal state; and nothing changes a case that has
  reached one.\<close>

theorem dunning_terminates:
  shows "taken_steps dunning_step c es \<le> 4 - dunning_rank (dc_state c)
    \<and> (spaced (reference_time c) nows \<and> 4 \<le> length nows
        \<longrightarrow> terminal_state (dc_state (run_events dunning_step c (map Dn_Tick nows))))
    \<and> (terminal_state (dc_state c) \<longrightarrow> run_events dunning_step c es = c)"
proof -
  have "terminal_state (dc_state (run_events dunning_step c (map Dn_Tick nows)))"
    if "spaced (reference_time c) nows" "4 \<le> length nows"
  proof -
    let ?q = "dc_state (run_events dunning_step c (map Dn_Tick nows))"
    have "terminal_state ?q \<or> 4 \<le> dunning_rank ?q" using spaced_ticks_rank [OF that(1)] that(2) by linarith
    then show ?thesis by (cases ?q) (auto simp: terminal_state_def)
  qed
  then show ?thesis using dunning.steps_bounded [of c es] dunning.final_run [of c es] by blast
qed

text \<open>C6. In every state that failed payments, payments and ticks can reach, a subscription has at
  most one open dunning case.\<close>

theorem one_open_dunning_case:
  assumes "dunning_reach s"
  shows "length (filter (open_case_of sid) (dunning_cases (committed s))) \<le> 1"
  using dunning_reach_inv [OF assms] by (simp add: dunning_inv_def)

text \<open>One tick: a case is moved exactly when it is open and its delay has passed since its last
  attempt, by one state; the reported actions are those of the moved cases, in table order.\<close>

theorem tick_moves_due_cases:
  "case advance_dunning_cases s of (r, s1) \<Rightarrow> (\<exists>acts. r = Inr acts
   \<and> map da_case_id acts = map dc_id (filter (\<lambda>c. advanced (clock s) c \<noteq> c) (dunning_cases (work s))))
   \<and> dunning_cases (work s1) = map (advanced (clock s)) (dunning_cases (work s))
   \<and> (\<forall>c. advanced (clock s) c \<noteq> c \<longleftrightarrow>
        (\<exists>d. state_delay (dc_state c) = Some d \<and> reference_time c + d \<le> clock s))"
proof -
  have due: "advance_case n c \<noteq> None \<longleftrightarrow> (\<exists>d. state_delay (dc_state c) = Some d \<and> reference_time c + d \<le> n)" for n c
    by (cases "dc_state c") (auto simp: advance_case_def)
  have moved: "advanced n c \<noteq> c \<longleftrightarrow> (\<exists>d. state_delay (dc_state c) = Some d \<and> reference_time c + d \<le> n)" for n c
    unfolding due [symmetric] using advance_case_moves [of n c] by (auto simp: advanced_def split: option.split)
  show ?thesis
    by (simp only: advance_run prod.case moved) (simp add: action_ids [unfolded due])
qed

section \<open>Witnesses\<close>

definition demo_case :: dunning_case where
  "demo_case = \<lparr>dc_id = 1, dc_user_id = 7, dc_subscription_id = 3, dc_opened_at = 0, dc_state = Day0,
     dc_last_attempt_at = Some 0, dc_last_attempt_result = None, dc_last_email_sent_at = None,
     dc_recovered_at = None, dc_closed_at = None\<rparr>"

lemma dunning_respects_schedule_witness:
  "0 + days (min_days Day10_Canceled) \<le>
     reference_time (run_events dunning_step demo_case (map Dn_Tick [days 3, days 5, days 7, days 9, days 11]))
   \<and> dc_state (run_events dunning_step demo_case (map Dn_Tick [days 3, days 5, days 7, days 9, days 11])) = Day10_Canceled"
proof -
  have "dc_state (run_events dunning_step demo_case (map Dn_Tick [days 3, days 5, days 7, days 9, days 11])) = Day10_Canceled"
    by code_simp
  then show ?thesis
    using dunning_respects_schedule [of demo_case 0, OF _ _ refl, of "map Dn_Tick [days 3, days 5, days 7, days 9, days 11]"]
    by (auto simp: demo_case_def)
qed

lemma dunning_terminates_witness:
  "terminal_state (dc_state (run_events dunning_step demo_case (map Dn_Tick [days 20, days 40, days 60, days 80])))"
  using dunning_terminates [of demo_case "[]" "[days 20, days 40, days 60, days 80]"]
  by (simp add: demo_case_def reference_time_def days_def)

lemma one_open_dunning_case_witness:
  "length (filter (open_case_of 3) (dunning_cases (committed (dunning_exec (Dr_Failed 7 3) (dunning_exec (Dr_Failed 7 3) demo_start_subs))))) \<le> 1
   \<and> dunning_cases (committed (dunning_exec (Dr_Failed 7 3) (dunning_exec (Dr_Failed 7 3) demo_start_subs))) \<noteq> []"
proof
  have "dunning_reach demo_start_subs" by (rule dunning_reach.start) (simp_all add: demo_start_subs_def)
  then show "length (filter (open_case_of 3) (dunning_cases (committed (dunning_exec (Dr_Failed 7 3) (dunning_exec (Dr_Failed 7 3) demo_start_subs))))) \<le> 1"
    by (intro one_open_dunning_case dunning_reach.request)
qed code_simp

end
