(* ===== verification/Billing_Refunds.thy ===== *)
theory Billing_Refunds
  imports Billing_Subscriptions
begin

text \<open>
  The refund flow of billing-svc (services/billing-svc/app/services/refunds.py): the decision
  matrix of a refund request, the automatic Stripe refund inside the 14-day window, and the
  administrator's decision. The Stripe SDK call is a parameter: a function of the invoice, the
  optional amount and the idempotency key that answers with a refund or an error text.
\<close>

section \<open>The Stripe call\<close>

record stripe_refund =
  rf_id :: string
  rf_amount :: int
  rf_currency :: string

type_synonym refund_api = "string \<Rightarrow> int option \<Rightarrow> string \<Rightarrow> string + stripe_refund"

section \<open>Operations\<close>

definition refund_window_days :: int where
  "refund_window_days = 14"

definition within_14_days :: "subscription \<Rightarrow> datetime \<Rightarrow> bool" where
  "within_14_days sub now \<longleftrightarrow> now \<le> started_at sub + days refund_window_days"

definition days_between :: "datetime \<Rightarrow> datetime \<Rightarrow> int" where
  "days_between a b = (b - a) div days 1"

definition compute_proration :: "subscription \<Rightarrow> datetime \<Rightarrow> int" where
  "compute_proration sub now =
     (let total_days = days_between (current_period_start sub) (current_period_end sub);
          remaining_days = days_between now (current_period_end sub)
      in if total_days \<le> 0 \<or> remaining_days \<le> 0 then 0 else 0)"

definition latest_invoice :: "uuid \<Rightarrow> invoice option billing" where
  "latest_invoice user_id = bind_c (select_all invoices (\<lambda>i. iv_user_id i = user_id))
     (\<lambda>rows. ret (first_of (sort_key (\<lambda>i. - iv_created_at i) rows)))"

definition save_refund :: "refund_request \<Rightarrow> refund_request \<Rightarrow> unit billing" where
  "save_refund old new = bind_c now_c (\<lambda>now.
     when_c (new \<noteq> old)
       (modify_table refund_requests_update refund_requests
          (update_where (\<lambda>r. rr_id r = rr_id old) (\<lambda>_. new\<lparr>rr_updated_at := now\<rparr>))))"

text \<open>The request row after the automatic refund: approved, or left pending for review.\<close>

definition auto_refund_key :: "uuid \<Rightarrow> uuid \<Rightarrow> string" where
  "auto_refund_key subscription_id user_id = ''refund:'' @ str_uuid subscription_id @ '':'' @ str_uuid user_id"

definition auto_approve_stripe_refund ::
  "refund_api \<Rightarrow> refund_request \<Rightarrow> subscription \<Rightarrow> refund_request billing" where
  "auto_approve_stripe_refund api rr sub =
     bind_c (latest_invoice (rr_user_id rr)) (\<lambda>inv.
     bind_c now_c (\<lambda>now.
       let manual = rr\<lparr>rr_status := Rr_Pending,
             rr_reason_internal := Some ''No Stripe invoice found; manual review required.''\<rparr>
       in case inv of
            None \<Rightarrow> ret manual
          | Some i \<Rightarrow> (case iv_stripe_invoice_id i of
              None \<Rightarrow> ret manual
            | Some sid \<Rightarrow>
                if sid = [] then ret manual
                else (case api sid None (auto_refund_key (sub_id sub) (rr_user_id rr)) of
                    Inr refund \<Rightarrow> ret (rr\<lparr>rr_status := Rr_Auto_Approved, rr_stripe_refund_id := Some (rf_id refund),
                        rr_refund_amount_minor := Some (rf_amount refund),
                        rr_refund_currency := Some (map upper_char (rf_currency refund)), rr_decided_at := Some now\<rparr>)
                  | Inl msg \<Rightarrow> ret (rr\<lparr>rr_status := Rr_Pending,
                        rr_reason_internal := Some (''Stripe refund failed: '' @ msg)\<rparr>)))))"

definition new_refund_request ::
  "uuid \<Rightarrow> uuid \<Rightarrow> refund_kind \<Rightarrow> uuid option \<Rightarrow> uuid option \<Rightarrow> string option \<Rightarrow> bool \<Rightarrow> datetime \<Rightarrow> refund_request" where
  "new_refund_request i user_id kind subscription_id transaction_id reason within now =
     \<lparr>rr_id = i, rr_user_id = user_id, rr_kind = kind, rr_subscription_id = subscription_id,
      rr_transaction_id = transaction_id, rr_invoice_id = None, rr_requested_at = now, rr_within_14d = within,
      rr_reason_user = reason, rr_reason_internal = None, rr_status = Rr_Pending, rr_decided_at = None,
      rr_decided_by = None, rr_refund_amount_minor = None, rr_refund_currency = None,
      rr_stripe_refund_id = None, rr_created_at = now, rr_updated_at = now\<rparr>"

definition find_subscription :: "uuid option \<Rightarrow> subscription option billing" where
  "find_subscription subscription_id = (case subscription_id of
     None \<Rightarrow> ret None
   | Some sid \<Rightarrow> scalar_one_or_none subscriptions (\<lambda>r. sub_id r = sid))"

text \<open>The branches on gateway, window and billing period.\<close>

definition decide_on_subscription ::
  "refund_api \<Rightarrow> datetime \<Rightarrow> subscription \<Rightarrow> refund_request \<Rightarrow> refund_request billing" where
  "decide_on_subscription api now x rr =
     (if sub_gateway x = Gw_Apple then ret (rr\<lparr>rr_status := Rr_Routed_To_Apple\<rparr>)
      else if sub_gateway x = Gw_Google then ret (rr\<lparr>rr_status := Rr_Routed_To_Google\<rparr>)
      else if within_14_days x now then auto_approve_stripe_refund api rr x
      else if sub_billing_period x = Month then
        ret (rr\<lparr>rr_status := Rr_Denied,
          rr_reason_internal := Some ''Outside 14-day window; monthly subscription not refundable.'',
          rr_decided_at := Some now\<rparr>)
      else
        (let proration = compute_proration x now in
         ret (rr\<lparr>rr_refund_amount_minor := Some proration, rr_refund_currency := Some ''USD'',
           rr_reason_internal := Some (''Prorated refund computed: '' @ str_int proration
             @ '' minor units. Awaiting admin.'')\<rparr>)))"

definition create_refund_request ::
  "refund_api \<Rightarrow> uuid \<Rightarrow> refund_kind \<Rightarrow> uuid option \<Rightarrow> uuid option \<Rightarrow> string option \<Rightarrow> refund_request billing" where
  "create_refund_request api user_id kind subscription_id transaction_id reason_user =
     bind_c now_c (\<lambda>now.
     bind_c (find_subscription subscription_id) (\<lambda>sub.
     bind_c uuid4 (\<lambda>i.
       let within = (case sub of Some x \<Rightarrow> within_14_days x now | None \<Rightarrow> False);
           rr = new_refund_request i user_id kind subscription_id transaction_id reason_user within now in
       seq_c (db_insert refund_requests_update refund_requests (\<lambda>_. True) (\<lambda>r x. rr_id x = rr_id r) rr)
         (case sub of
            None \<Rightarrow> ret rr
          | Some x \<Rightarrow> bind_c (decide_on_subscription api now x rr)
                (\<lambda>rr2. seq_c (save_refund rr rr2) (ret rr2))))))"

definition admin_refund_key :: "refund_request \<Rightarrow> uuid \<Rightarrow> string" where
  "admin_refund_key rr admin_user_id = ''admin-refund:'' @ str_uuid (rr_id rr) @ '':'' @ str_uuid admin_user_id"

text \<open>The Stripe part of an approval: the row with the refund's data, or the row as it was.\<close>

definition approve_on_stripe :: "refund_api \<Rightarrow> refund_request \<Rightarrow> uuid \<Rightarrow> refund_request billing" where
  "approve_on_stripe api rr admin_user_id =
     bind_c (find_subscription (rr_subscription_id rr)) (\<lambda>sub.
       case sub of
         None \<Rightarrow> ret rr
       | Some x \<Rightarrow>
           if sub_gateway x \<noteq> Gw_Stripe then ret rr
           else bind_c (latest_invoice (rr_user_id rr)) (\<lambda>inv.
             case Option.bind inv iv_stripe_invoice_id of
               None \<Rightarrow> ret rr
             | Some sid \<Rightarrow>
                 if sid = [] then ret rr
                 else
                   let amount = (case rr_refund_amount_minor rr of
                         Some a \<Rightarrow> if a = 0 then None else Some a | None \<Rightarrow> None)
                   in (case api sid amount (admin_refund_key rr admin_user_id) of
                         Inl msg \<Rightarrow> ret rr
                       | Inr refund \<Rightarrow> ret (rr\<lparr>rr_stripe_refund_id := Some (rf_id refund),
                           rr_refund_amount_minor := Some (rf_amount refund),
                           rr_refund_currency := Some (map upper_char (rf_currency refund))\<rparr>))))"

definition admin_decide_refund ::
  "refund_api \<Rightarrow> uuid \<Rightarrow> uuid \<Rightarrow> string \<Rightarrow> string option \<Rightarrow> refund_request billing" where
  "admin_decide_refund api refund_request_id admin_user_id decision internal_note =
     bind_c (scalar_one refund_requests (\<lambda>r. rr_id r = refund_request_id)) (\<lambda>rr.
     bind_c now_c (\<lambda>now.
     bind_c (if decision = ''approve'' \<and> rr_subscription_id rr \<noteq> None
             then approve_on_stripe api rr admin_user_id else ret rr) (\<lambda>rr2.
       let rr3 = rr2\<lparr>rr_status := (if decision = ''approve'' then Rr_Approved else Rr_Denied),
             rr_decided_at := Some now, rr_decided_by := Some admin_user_id,
             rr_reason_internal := (case internal_note of
                Some (c # cs) \<Rightarrow> Some (c # cs) | _ \<Rightarrow> rr_reason_internal rr2)\<rparr>
       in seq_c (save_refund rr rr3) (ret rr3))))"

section \<open>Endpoints\<close>

text \<open>\<open>POST /billing/refund-request\<close>: what the caller sees, and the commit.\<close>

record refund_out =
  ro_request_id :: uuid
  ro_status :: refund_status
  ro_amount_minor :: "int option"
  ro_currency :: "string option"
  ro_routed_to :: "string option"

definition submit_refund_request ::
  "refund_api \<Rightarrow> uuid \<Rightarrow> uuid option \<Rightarrow> uuid option \<Rightarrow> string option \<Rightarrow> refund_out billing" where
  "submit_refund_request api uid subscription_id transaction_id reason =
     (if subscription_id = None \<and> transaction_id = None
      then raise (ValidationError ''Either subscription_id or transaction_id is required.'')
      else
        let kind = (if subscription_id \<noteq> None then Rk_Subscription else Rk_Credit_Purchase) in
        committing (bind_c (create_refund_request api uid kind subscription_id transaction_id reason) (\<lambda>rr.
          ret \<lparr>ro_request_id = rr_id rr, ro_status = rr_status rr, ro_amount_minor = rr_refund_amount_minor rr,
               ro_currency = rr_refund_currency rr,
               ro_routed_to = (if rr_status rr = Rr_Routed_To_Apple then Some ''apple''
                 else if rr_status rr = Rr_Routed_To_Google then Some ''google'' else None)\<rparr>)))"

definition decide_refund :: "refund_api \<Rightarrow> uuid \<Rightarrow> uuid \<Rightarrow> string \<Rightarrow> string option \<Rightarrow> (uuid \<times> refund_status) billing" where
  "decide_refund api refund_id admin_user_id decision internal_note =
     (if decision \<noteq> ''approve'' \<and> decision \<noteq> ''deny'' then raise (HTTPException 422 ''decision'')
      else committing (bind_c (admin_decide_refund api refund_id admin_user_id decision internal_note)
             (\<lambda>rr. ret (rr_id rr, rr_status rr))))"

section \<open>The decision matrix\<close>

text \<open>
  What the service promises for a request on a subscription: a pure table over the gateway, the
  window, the billing period and the answer of Stripe.
\<close>

datatype stripe_answer = No_Invoice | Stripe_Failed string | Stripe_Refunded stripe_refund

fun refund_decision :: "gateway \<Rightarrow> bool \<Rightarrow> billing_period \<Rightarrow> stripe_answer \<Rightarrow> refund_status" where
  "refund_decision Gw_Apple within bp ans = Rr_Routed_To_Apple"
| "refund_decision Gw_Google within bp ans = Rr_Routed_To_Google"
| "refund_decision _ True bp (Stripe_Refunded r) = Rr_Auto_Approved"
| "refund_decision _ True bp _ = Rr_Pending"
| "refund_decision _ False Month ans = Rr_Denied"
| "refund_decision _ False Year ans = Rr_Pending"

definition newest_invoice :: "billing_db \<Rightarrow> uuid \<Rightarrow> invoice option" where
  "newest_invoice db u = first_of (sort_key (\<lambda>i. - iv_created_at i) (filter (\<lambda>i. iv_user_id i = u) (invoices db)))"

definition stripe_answer_for :: "refund_api \<Rightarrow> billing_db \<Rightarrow> uuid \<Rightarrow> string \<Rightarrow> stripe_answer" where
  "stripe_answer_for api db u key = (case newest_invoice db u of
     Some i \<Rightarrow> (case iv_stripe_invoice_id i of
         Some (c # cs) \<Rightarrow> (case api (c # cs) None key of Inl e \<Rightarrow> Stripe_Failed e | Inr r \<Rightarrow> Stripe_Refunded r)
       | _ \<Rightarrow> No_Invoice)
   | None \<Rightarrow> No_Invoice)"

lemma latest_invoice_run: "latest_invoice u s = (Inr (newest_invoice (work s) u), s)"
  by (simp add: latest_invoice_def newest_invoice_def comp_simps)

lemma save_refund_run:
  "save_refund old new s = (Inr (), if new \<noteq> old then s\<lparr>work := (work s)\<lparr>refund_requests :=
      update_where (\<lambda>r. rr_id r = rr_id old) (\<lambda>_. new\<lparr>rr_updated_at := clock s\<rparr>) (refund_requests (work s))\<rparr>\<rparr> else s)"
  by (simp add: save_refund_def comp_simps)

lemma auto_approve_run:
  "\<exists>rr2. auto_approve_stripe_refund api rr sub s = (Inr rr2, s) \<and> rr_id rr2 = rr_id rr
     \<and> rr_status rr2 = (case stripe_answer_for api (work s) (rr_user_id rr) (auto_refund_key (sub_id sub) (rr_user_id rr)) of
          Stripe_Refunded r \<Rightarrow> Rr_Auto_Approved | _ \<Rightarrow> Rr_Pending)
     \<and> (case stripe_answer_for api (work s) (rr_user_id rr) (auto_refund_key (sub_id sub) (rr_user_id rr)) of
          Stripe_Refunded r \<Rightarrow> rr_refund_amount_minor rr2 = Some (rf_amount r) | _ \<Rightarrow> True)"
  by (auto simp: auto_approve_stripe_refund_def comp_simps latest_invoice_run stripe_answer_for_def Let_def
      split: option.split list.split sum.split)

lemma new_refund_simps [simp]:
  "rr_id (new_refund_request i u k sid t reason w n) = i"
  "rr_user_id (new_refund_request i u k sid t reason w n) = u"
  "rr_status (new_refund_request i u k sid t reason w n) = Rr_Pending"
  by (simp_all add: new_refund_request_def)

lemma decide_run:
  assumes "rr_status rr = Rr_Pending"
  obtains rr2 where "decide_on_subscription api now x rr s = (Inr rr2, s)" "rr_id rr2 = rr_id rr"
    "rr_status rr2 = refund_decision (sub_gateway x) (within_14_days x now) (sub_billing_period x)
        (stripe_answer_for api (work s) (rr_user_id rr) (auto_refund_key (sub_id x) (rr_user_id rr)))"
proof -
  let ?ans = "stripe_answer_for api (work s) (rr_user_id rr) (auto_refund_key (sub_id x) (rr_user_id rr))"
  obtain ra where ra: "auto_approve_stripe_refund api rr x s = (Inr ra, s)" "rr_id ra = rr_id rr"
    "rr_status ra = (case ?ans of Stripe_Refunded r \<Rightarrow> Rr_Auto_Approved | _ \<Rightarrow> Rr_Pending)"
    using auto_approve_run [of api rr x s] by auto
  have auto_status: "rr_status ra = refund_decision g True p ?ans" if "g \<noteq> Gw_Apple" "g \<noteq> Gw_Google" for g p
    using that ra(3) by (cases g; cases ?ans) auto
  show thesis
  proof (cases "sub_gateway x")
    case Gw_Stripe
    then show ?thesis using ra auto_status assms
      by (cases "within_14_days x now"; cases "sub_billing_period x")
         (auto simp: decide_on_subscription_def comp_simps Let_def intro!: that)
  next
    case Gw_Paddle_In
    then show ?thesis using ra auto_status assms
      by (cases "within_14_days x now"; cases "sub_billing_period x")
         (auto simp: decide_on_subscription_def comp_simps Let_def intro!: that)
  qed (auto simp: decide_on_subscription_def comp_simps intro!: that)
qed

lemma create_refund_run:
  fixes u sid :: uuid
  assumes sub: "filter (\<lambda>r. sub_id r = sid) (subscriptions (work s)) = [x]"
    and fresh: "\<forall>r \<in> set (refund_requests (work s)). rr_id r \<noteq> next_uuid s"
  obtains rr row where "create_refund_request api u k (Some sid) t reason s = (Inr rr, s\<lparr>next_uuid := Suc (next_uuid s),
      work := (work s)\<lparr>refund_requests := refund_requests (work s) @ [row]\<rparr>\<rparr>)"
    "rr_id rr = next_uuid s" "rr_id row = next_uuid s" "rr_status row = rr_status rr"
    "rr_status rr = refund_decision (sub_gateway x) (within_14_days x (clock s)) (sub_billing_period x)
        (stripe_answer_for api (work s) u (auto_refund_key (sub_id x) u))"
proof -
  let ?rr = "new_refund_request (next_uuid s) u k (Some sid) t reason (within_14_days x (clock s)) (clock s)"
  let ?s1 = "s\<lparr>next_uuid := Suc (next_uuid s), work := (work s)\<lparr>refund_requests := refund_requests (work s) @ [?rr]\<rparr>\<rparr>"
  have ins: "\<not> list_ex (\<lambda>r. rr_id r = next_uuid s) (refund_requests (work s))"
    using fresh by (simp add: list_ex_iff)
  have upd: "update_where (\<lambda>r. rr_id r = next_uuid s) f (refund_requests (work s)) = refund_requests (work s)" for f
    using fresh by (intro update_where_none) auto
  have ans: "stripe_answer_for api (work ?s1) u key = stripe_answer_for api (work s) u key" for key
    by (simp add: stripe_answer_for_def newest_invoice_def)
  obtain rr2 where rr2: "decide_on_subscription api (clock s) x ?rr ?s1 = (Inr rr2, ?s1)" "rr_id rr2 = next_uuid s"
    "rr_status rr2 = refund_decision (sub_gateway x) (within_14_days x (clock s)) (sub_billing_period x)
        (stripe_answer_for api (work s) u (auto_refund_key (sub_id x) u))"
    using decide_run [of ?rr api "clock s" x ?s1] unfolding ans new_refund_simps by blast
  show thesis
    by (rule that [OF _ _ _ _ rr2(3), of "if rr2 = ?rr then rr2 else rr2\<lparr>rr_updated_at := clock s\<rparr>"])
       (use rr2(1,2) in \<open>auto simp: create_refund_request_def find_subscription_def comp_simps sub Let_def ins
          save_refund_run upd\<close>)
qed

section \<open>Properties\<close>

text \<open>C5. The decision matrix: a request on an existing subscription is stored once, with the status
  the matrix gives for the gateway, the 14-day window, the billing period and Stripe's answer;
  in particular nothing is approved automatically outside the window or on a store gateway.\<close>

theorem refund_follows_matrix:
  assumes "filter (\<lambda>r. sub_id r = sid) (subscriptions (work s)) = [x]"
    and "\<forall>r \<in> set (refund_requests (work s)). rr_id r \<noteq> next_uuid s"
  shows "\<exists>rr row s1. create_refund_request api u k (Some sid) t reason s = (Inr rr, s1)
     \<and> refund_requests (work s1) = refund_requests (work s) @ [row] \<and> rr_status row = rr_status rr
     \<and> rr_status rr = refund_decision (sub_gateway x) (within_14_days x (clock s)) (sub_billing_period x)
          (stripe_answer_for api (work s) u (auto_refund_key (sub_id x) u))"
  by (rule create_refund_run [OF assms, of api u k t reason]) fastforce

text \<open>The request does not check whose subscription it names: on a Stripe subscription that
  belongs to somebody else and is still in its window, the caller's own latest invoice is
  refunded automatically, however old it is.\<close>

theorem refund_ignores_owner:
  assumes "filter (\<lambda>r. sub_id r = sid) (subscriptions (work s)) = [x]"
    and "\<forall>r \<in> set (refund_requests (work s)). rr_id r \<noteq> next_uuid s"
    and other: "sub_user_id x \<noteq> u" "sub_gateway x = Gw_Stripe" "clock s \<le> started_at x + days 14"
    and inv: "newest_invoice (work s) u = Some i" "iv_stripe_invoice_id i = Some iid" "iid \<noteq> []"
      "api iid None (auto_refund_key sid u) = Inr refund"
  shows "\<exists>rr s1. create_refund_request api u Rk_Subscription (Some sid) None reason s = (Inr rr, s1)
     \<and> rr_status rr = Rr_Auto_Approved"
proof -
  have "sub_id x = sid" using assms(1) by (metis (mono_tags, lifting) list.set_intros(1) mem_Collect_eq set_filter)
  then have "stripe_answer_for api (work s) u (auto_refund_key (sub_id x) u) = Stripe_Refunded refund"
    using inv by (auto simp: stripe_answer_for_def neq_Nil_conv)
  moreover have "within_14_days x (clock s)" using other by (simp add: within_14_days_def refund_window_days_def)
  ultimately show ?thesis
    using other(2) by (rule_tac create_refund_run [OF assms(1,2), of api u Rk_Subscription None reason]) fastforce
qed

section \<open>Witnesses\<close>

definition demo_invoice :: invoice where
  "demo_invoice = \<lparr>iv_id = 90, iv_user_id = 8, iv_stripe_invoice_id = Some ''in_1'', iv_rc_event_id = None,
     iv_amount_minor = 900, iv_currency = ''USD'', iv_tax_minor = 0, iv_status = Inv_Paid, iv_period_start = None,
     iv_period_end = None, iv_hosted_invoice_url = None, iv_pdf_url = None, iv_created_at = 0, iv_updated_at = 0\<rparr>"

definition demo_refund_db :: billing_db where
  "demo_refund_db = empty_billing_db\<lparr>subscriptions := [demo_sub 1 Premium Active 50], invoices := [demo_invoice]\<rparr>"

definition demo_refund :: billing_sess where
  "demo_refund = \<lparr>committed = demo_refund_db, work = demo_refund_db, outbox = [], clock = days 14, next_uuid = 5\<rparr>"

definition demo_api :: refund_api where
  "demo_api = (\<lambda>iid amount key. if iid = ''in_1'' then Inr \<lparr>rf_id = ''re_1'', rf_amount = 900, rf_currency = ''usd''\<rparr>
     else Inl ''no such invoice'')"

lemma refund_follows_matrix_witness:
  "\<exists>rr row s1. create_refund_request demo_api 7 Rk_Subscription (Some 1) None None demo_refund = (Inr rr, s1)
     \<and> refund_requests (work s1) = refund_requests (work demo_refund) @ [row] \<and> rr_status row = rr_status rr
     \<and> rr_status rr = Rr_Pending"
proof -
  have "filter (\<lambda>r. sub_id r = 1) (subscriptions (work demo_refund)) = [demo_sub 1 Premium Active 50]"
    "refund_requests (work demo_refund) = []"
    by code_simp+
  moreover have "refund_decision (sub_gateway (demo_sub 1 Premium Active 50))
      (within_14_days (demo_sub 1 Premium Active 50) (clock demo_refund)) (sub_billing_period (demo_sub 1 Premium Active 50))
      (stripe_answer_for demo_api (work demo_refund) 7 (auto_refund_key (sub_id (demo_sub 1 Premium Active 50)) 7)) = Rr_Pending"
    by code_simp
  ultimately show ?thesis
    using refund_follows_matrix [of 1 demo_refund "demo_sub 1 Premium Active 50" demo_api 7 Rk_Subscription None None] by simp
qed

lemma refund_ignores_owner_witness:
  "\<exists>rr s1. create_refund_request demo_api 8 Rk_Subscription (Some 1) None None demo_refund = (Inr rr, s1)
     \<and> rr_status rr = Rr_Auto_Approved"
proof (rule refund_ignores_owner [where x = "demo_sub 1 Premium Active 50" and i = demo_invoice and iid = "''in_1''"
      and refund = "\<lparr>rf_id = ''re_1'', rf_amount = 900, rf_currency = ''usd''\<rparr>"])
qed (code_simp | simp add: demo_refund_def demo_refund_db_def empty_billing_db_def demo_sub_def demo_api_def)+

end
