(* ===== verification/Colab_Text.thy ===== *)
theory Colab_Text
  imports Colab_Prelude
begin

text \<open>
  The parts of Python's text handling the services use on untrusted input: \<open>str.strip\<close>,
  \<open>str.replace(t, "")\<close>, \<open>int(s)\<close> and \<open>uuid.UUID(s)\<close>, for ASCII text. \<open>int\<close> and \<open>UUID\<close>
  answer None where Python raises ValueError. Inside \<open>UUID\<close> the 32 remaining characters must
  be hexadecimal digits (the laxity of \<open>int(s, 16)\<close> about signs, blanks and underscores is not
  modelled). Printing an identifier and parsing it back gives the identifier.
\<close>

definition is_space :: "char \<Rightarrow> bool" where
  "is_space c = (let n = of_char c :: nat in (9 \<le> n \<and> n \<le> 13) \<or> (28 \<le> n \<and> n \<le> 32))"

definition strip_chars :: "(char \<Rightarrow> bool) \<Rightarrow> string \<Rightarrow> string" where
  "strip_chars p s = rev (dropWhile p (rev (dropWhile p s)))"

definition is_digit :: "char \<Rightarrow> bool" where
  "is_digit c = (let n = of_char c :: nat in 48 \<le> n \<and> n \<le> 57)"

definition digits_val :: "string \<Rightarrow> int" where
  "digits_val s = foldl (\<lambda>a c. 10 * a + (of_char c - 48)) 0 s"

text \<open>Underscores may separate groups of digits.\<close>

definition py_nat :: "string \<Rightarrow> int option" where
  "py_nat s = (let gs = split_on CHR ''_'' s in
     if list_all (\<lambda>g. g \<noteq> [] \<and> list_all is_digit g) gs then Some (digits_val (concat gs)) else None)"

definition py_int :: "string \<Rightarrow> int option" where
  "py_int s = (case strip_chars is_space s of
     [] \<Rightarrow> None
   | c # cs \<Rightarrow> if c = CHR ''-'' then map_option uminus (py_nat cs)
       else if c = CHR ''+'' then py_nat cs else py_nat (c # cs))"

lemma py_int_examples: "py_int ''100'' = Some 100" "py_int '' -7 '' = Some (-7)" "py_int ''credits'' = None" "py_int [] = None"
  by code_simp+

function remove_all :: "string \<Rightarrow> string \<Rightarrow> string" where
  "remove_all t s = (if t = [] \<or> s = [] then s
     else if starts_with t s then remove_all t (drop (length t) s)
     else hd s # remove_all t (tl s))"
  by auto
termination by (relation "measure (\<lambda>(t, s). length s)") auto

declare remove_all.simps [simp del]

definition hex_value :: "char \<Rightarrow> nat option" where
  "hex_value c = (let n = of_char c :: nat in
     if 48 \<le> n \<and> n \<le> 57 then Some (n - 48)
     else if 97 \<le> n \<and> n \<le> 102 then Some (n - 87)
     else if 65 \<le> n \<and> n \<le> 70 then Some (n - 55) else None)"

fun hex_number :: "nat \<Rightarrow> string \<Rightarrow> nat option" where
  "hex_number a [] = Some a"
| "hex_number a (c # cs) = (case hex_value c of None \<Rightarrow> None | Some d \<Rightarrow> hex_number (16 * a + d) cs)"

definition parse_uuid :: "string \<Rightarrow> uuid option" where
  "parse_uuid s =
     (let h = filter (\<lambda>c. c \<noteq> CHR ''-'')
            (strip_chars (\<lambda>c. c = CHR ''{'' \<or> c = CHR ''}'') (remove_all ''uuid:'' (remove_all ''urn:'' s)))
      in if length h = 32 then hex_number 0 h else None)"

section \<open>Printing and parsing an identifier\<close>

lemma remove_all_absent: "CHR ''u'' \<notin> set s \<Longrightarrow> remove_all (CHR ''u'' # t) s = s"
proof (induction s)
  case (Cons c s)
  then show ?case by (subst remove_all.simps) auto
qed (simp add: remove_all.simps)

lemma hex_digit_facts:
  assumes "d < 16"
  shows "hex_value (hex_digit d) = Some d" "hex_digit d \<notin> {CHR ''-'', CHR ''u'', CHR ''{'', CHR ''}''}"
proof -
  have "d \<in> set [0, 1, 2, 3, 4, 5, 6, 7, 8, 9, 10, 11, 12, 13, 14, 15]" using assms by (simp, presburger)
  moreover have "list_all (\<lambda>d. hex_value (hex_digit d) = Some d)
      [0, 1, 2, 3, 4, 5, 6, 7, 8, 9, 10, 11, 12, 13, 14, 15]"
    by (simp add: hex_value_def hex_digit_def)
  moreover have "list_all (\<lambda>d. hex_digit d \<notin> {CHR ''-'', CHR ''u'', CHR ''{'', CHR ''}''})
      [0, 1, 2, 3, 4, 5, 6, 7, 8, 9, 10, 11, 12, 13, 14, 15]"
    by (simp add: hex_digit_def char_of_def)
  ultimately show "hex_value (hex_digit d) = Some d" "hex_digit d \<notin> {CHR ''-'', CHR ''u'', CHR ''{'', CHR ''}''}"
    unfolding list_all_iff by blast+
qed

lemma length_hex_digits [simp]: "length (hex_digits k n) = k"
  by (induction k arbitrary: n) simp_all

lemma hex_digits_chars: "c \<in> set (hex_digits k n) \<Longrightarrow> c \<notin> {CHR ''-'', CHR ''u'', CHR ''{'', CHR ''}''}"
  using hex_digit_facts(2) by (induction k arbitrary: n) auto

lemma hex_number_append:
  "hex_number a (xs @ ys) = (case hex_number a xs of None \<Rightarrow> None | Some b \<Rightarrow> hex_number b ys)"
  by (induction xs arbitrary: a) (auto split: option.split)

lemma hex_number_digits: "hex_number 0 (hex_digits k n) = Some (n mod 16 ^ k)"
proof (induction k arbitrary: n)
  case (Suc k)
  have "16 * (n div 16 mod 16 ^ k) + n mod 16 = n mod 16 ^ Suc k" by (simp add: mod_mult2_eq)
  then show ?case by (simp add: Suc hex_number_append hex_digit_facts(1))
qed simp

lemma strip_chars_id:
  assumes "\<And>c. c \<in> set s \<Longrightarrow> \<not> p c"
  shows "strip_chars p s = s"
proof -
  have id: "dropWhile p xs = xs" if "set xs \<subseteq> set s" for xs
    using that assms by (cases xs) auto
  show ?thesis by (simp add: strip_chars_def id)
qed

lemma split_groups:
  "take 8 h @ take 4 (drop 8 h) @ take 4 (drop 12 h) @ take 4 (drop 16 h) @ drop 20 h = h"
proof -
  have "take 4 (drop 16 h) @ drop 20 h = drop 16 h" using append_take_drop_id [of 4 "drop 16 h"] by simp
  moreover have "take 4 (drop 12 h) @ drop 16 h = drop 12 h" using append_take_drop_id [of 4 "drop 12 h"] by simp
  moreover have "take 4 (drop 8 h) @ drop 12 h = drop 8 h" using append_take_drop_id [of 4 "drop 8 h"] by simp
  ultimately show ?thesis by simp
qed

lemma parse_str_uuid: "parse_uuid (str_uuid u) = Some (u mod 16 ^ 32)"
proof -
  let ?h = "hex_digits 32 u"
  have chars: "c \<in> set (str_uuid u) \<Longrightarrow> c = CHR ''-'' \<or> c \<in> set ?h" for c
    by (auto simp: str_uuid_def Let_def dest!: in_set_takeD in_set_dropD)
  then have u: "CHR ''u'' \<notin> set (str_uuid u)" using hex_digits_chars by blast
  have "strip_chars (\<lambda>c. c = CHR ''{'' \<or> c = CHR ''}'') (str_uuid u) = str_uuid u"
    using chars hex_digits_chars by (intro strip_chars_id) auto
  moreover have nodash: "filter (\<lambda>c. c \<noteq> CHR ''-'') xs = xs" if "set xs \<subseteq> set ?h" for xs
    using that hex_digits_chars by (intro filter_True) auto
  have "filter (\<lambda>c. c \<noteq> CHR ''-'') (str_uuid u)
      = take 8 ?h @ take 4 (drop 8 ?h) @ take 4 (drop 12 ?h) @ take 4 (drop 16 ?h) @ drop 20 ?h"
    by (simp add: str_uuid_def Let_def nodash set_take_subset set_drop_subset
        subset_trans [OF set_take_subset set_drop_subset])
  then have "filter (\<lambda>c. c \<noteq> CHR ''-'') (str_uuid u) = ?h" by (simp only: split_groups)
  ultimately show ?thesis
    by (simp add: parse_uuid_def remove_all_absent [OF u] hex_number_digits)
qed

end
