(* ===== verification/Colab_Platform.thy ===== *)
theory Colab_Platform
  imports Colab_Prelude
begin

text \<open>
  What the services share at their edges: service-to-service authorization (colab_common/auth.py), what
  \<open>async with\<close> is given (colab_common/db.py), when SQLAlchemy accepts the mapped classes of a service, and
  when PostgreSQL accepts an insert. A service that fails here does so whatever its tables hold.
\<close>

section \<open>Bearer tokens and roles\<close>

type_synonym http_headers = "(string \<times> string) list"

text \<open>\<open>jwt.decode\<close> is an argument: claims, or one of its two families of exceptions.\<close>

datatype jwt_result = Jwt_Claims "(string \<times> json) list" | Jwt_Expired | Jwt_Invalid string

type_synonym jwt_library = "string \<Rightarrow> jwt_result"

record service_user =
  su_user_id :: json
  su_email :: json
  su_roles :: "json list"
  su_tier :: json

definition claim_value :: "(string \<times> json) list \<Rightarrow> string \<Rightarrow> json \<Rightarrow> json" where
  "claim_value claims key otherwise = (case map_of claims key of None \<Rightarrow> otherwise | Some v \<Rightarrow> v)"

definition get_token_from_request :: "http_headers \<Rightarrow> http_headers \<Rightarrow> string option" where
  "get_token_from_request headers cookies =
     (let h = (case map_of headers ''Authorization'' of None \<Rightarrow> [] | Some h \<Rightarrow> h) in
      if take 7 h = ''Bearer '' then Some (drop 7 h)
      else case map_of cookies ''colab-session'' of None \<Rightarrow> None | Some c \<Rightarrow> if c = [] then None else Some c)"

definition decode_service_token :: "jwt_library \<Rightarrow> string \<Rightarrow> exn + (string \<times> json) list" where
  "decode_service_token jwt token = (case jwt token of
     Jwt_Claims claims \<Rightarrow> Inr claims
   | Jwt_Expired \<Rightarrow> Inl (AuthError ''Token has expired.'')
   | Jwt_Invalid why \<Rightarrow> Inl (AuthError (''Invalid token: '' @ why)))"

definition extract_user :: "(string \<times> json) list \<Rightarrow> exn + service_user" where
  "extract_user claims =
     (let user_id = claim_value claims ''sub'' (JStr []); roles = claim_value claims ''roles'' (JList []) in
      if \<not> truthy user_id then Inl (AuthError (''Token missing '' @ CHR 0x27 # ''sub'' @ CHR 0x27 # '' claim.''))
      else Inr \<lparr>su_user_id = user_id, su_email = claim_value claims ''email'' (JStr []),
        su_roles = (case roles of JList rs \<Rightarrow> rs | r \<Rightarrow> [r]), su_tier = claim_value claims ''tier'' (JStr ''free'')\<rparr>)"

definition require_token_user :: "jwt_library \<Rightarrow> http_headers \<Rightarrow> http_headers \<Rightarrow> exn + service_user" where
  "require_token_user jwt headers cookies = (case get_token_from_request headers cookies of
     None \<Rightarrow> Inl (AuthError ''Authorization header required.'')
   | Some token \<Rightarrow> if token = [] then Inl (AuthError ''Authorization header required.'')
       else (case decode_service_token jwt token of Inl e \<Rightarrow> Inl e | Inr claims \<Rightarrow> extract_user claims))"

text \<open>The roles the user has are left out of the message of the error.\<close>

definition require_role :: "string list \<Rightarrow> jwt_library \<Rightarrow> http_headers \<Rightarrow> http_headers \<Rightarrow> exn + service_user" where
  "require_role roles jwt headers cookies = (case require_token_user jwt headers cookies of
     Inl e \<Rightarrow> Inl e
   | Inr u \<Rightarrow> if list_ex (\<lambda>r. JStr r \<in> set (su_roles u)) roles then Inr u
       else Inl (ForbiddenError (''Required role(s): '' @ concat (map (\<lambda>r. r @ '' '') roles))))"

definition service_claims :: "string \<Rightarrow> string \<Rightarrow> int \<Rightarrow> int \<Rightarrow> (string \<times> json) list" where
  "service_claims source_service target_service now ttl_seconds =
     [(''sub'', JStr (''svc:'' @ source_service)), (''aud'', JStr target_service), (''iss'', JStr source_service), (''iat'', JInt now),
      (''exp'', JInt (now + ttl_seconds)), (''roles'', JList [JStr ''service'']), (''tier'', JStr ''internal'')]"

lemma minted_token_admitted:
  assumes "jwt token = Jwt_Claims (service_claims source target now ttl)" "token \<noteq> []" "''service'' \<in> set roles"
  shows "\<exists>u. require_role roles jwt [(''Authorization'', ''Bearer '' @ token)] cookies = Inr u"
  using assms by (auto simp: require_role_def require_token_user_def get_token_from_request_def decode_service_token_def
      extract_user_def service_claims_def claim_value_def truthy_def list_ex_iff Let_def)

lemma no_token_refused:
  "map_of headers ''Authorization'' = None \<Longrightarrow> require_role roles jwt headers [] = Inl (AuthError ''Authorization header required.'')"
  by (simp add: require_role_def require_token_user_def get_token_from_request_def)

text \<open>The status of a refusal (colab_common/errors.py).\<close>

definition refusal_status :: "exn \<Rightarrow> nat" where
  "refusal_status e = (case e of AuthError _ \<Rightarrow> 401 | ForbiddenError _ \<Rightarrow> 403 | HTTPException k _ \<Rightarrow> k | _ \<Rightarrow> 500)"

text \<open>\<open>GET /internal/entitlements/{user_id}\<close> of billing-svc as another service sees it: its headers and a user give an answer.\<close>

type_synonym entitlements_api = "http_headers \<Rightarrow> uuid \<Rightarrow> billing_reply"

section \<open>What \<open>async with\<close> is given\<close>

text \<open>A session maker is called to open a session and is no context manager itself.\<close>

datatype db_object = Session_Maker | Open_Session

definition async_with :: "db_object \<Rightarrow> ('db, 'a) comp \<Rightarrow> ('db, 'a) comp" where
  "async_with x m = (case x of Session_Maker \<Rightarrow> raise TypeError | Open_Session \<Rightarrow> m)"

text \<open>\<open>async_session_factory()\<close> answers the module's session maker.\<close>

definition async_session_factory :: db_object where
  "async_session_factory = Session_Maker"

section \<open>Mapped classes\<close>

text \<open>
  SQLAlchemy configures all mappers of a service before it runs its first statement on a class or makes its
  first object. A relationship without \<open>primaryjoin\<close> needs a foreign key between its two tables.
\<close>

definition mappers_configure :: "(string \<times> string) list \<Rightarrow> (string \<times> string) list \<Rightarrow> bool" where
  "mappers_configure relationships foreign_keys \<longleftrightarrow>
     list_all (\<lambda>(a, b). (a, b) \<in> set foreign_keys \<or> (b, a) \<in> set foreign_keys) relationships"

text \<open>A statement of the ORM in a service whose mappers \<open>ok\<close> tells about.\<close>

definition orm :: "('db \<Rightarrow> bool) \<Rightarrow> ('db, 'a) comp \<Rightarrow> ('db, 'a) comp" where
  "orm ok m = (\<lambda>s. if ok (work s) then m s else (Inl (LibraryError ''NoForeignKeysError''), s))"

lemma keeps_orm: "keeps I m \<Longrightarrow> keeps I (orm ok m)"
  by (simp add: keeps_def orm_def)

lemma orm_run [comp_simps]: "orm ok m s = (if ok (work s) then m s else (Inl (LibraryError ''NoForeignKeysError''), s))"
  by (simp add: orm_def)

section \<open>Inserts\<close>

text \<open>
  \<open>ON CONFLICT ON CONSTRAINT\<close> needs a constraint of that name (a unique index is none), and a generated
  column takes no value.
\<close>

record table_schema =
  ts_constraints :: "string list"
  ts_generated :: "string list"

definition insert_accepted :: "table_schema \<Rightarrow> string \<Rightarrow> string list \<Rightarrow> bool" where
  "insert_accepted ts constraint columns \<longleftrightarrow> constraint \<in> set (ts_constraints ts) \<and> list_all (\<lambda>c. c \<notin> set (ts_generated ts)) columns"

end
