(* ===== verification/Billing_Webhooks.thy ===== *)
theory Billing_Webhooks
  imports Billing_Credits Billing_Dunning Billing_Refunds Colab_Text Colab_Platform
begin

text \<open>
  Webhook ingestion of billing-svc: the event ledger that makes deliveries idempotent
  (services/webhooks.py), the Stripe and RevenueCat handlers (workers/stripe_handlers.py,
  workers/rc_handlers.py), their dispatch, and the two endpoints (routers/webhooks.py) from the
  point where the signature is verified and a session is open. Log output is left out.

  An object that SQLAlchemy loaded before a rollback is expired by it, and reading an attribute
  of it afterwards needs I/O that an AsyncSession refuses: it raises MissingGreenlet.
\<close>

section \<open>Payloads\<close>

text \<open>
  The object of a Stripe event (\<open>event["data"]["object"]\<close>): the keys of a subscription object and
  those the other handlers read. \<open>so_credit_amount\<close> is \<open>metadata.credit_amount\<close>,
  \<open>so_refund_ids\<close> the ids in \<open>refunds.data\<close>.
\<close>

record stripe_object = stripe_sub +
  so_mode :: "string option"
  so_client_reference_id :: "string option"
  so_credit_amount :: "json option"
  so_amount_paid :: "int option"
  so_currency :: "string option"
  so_tax :: "int option"
  so_period_start :: "int option"
  so_period_end :: "int option"
  so_hosted_invoice_url :: "string option"
  so_invoice_pdf :: "string option"
  so_subscription :: "string option"
  so_refund_ids :: "string option list option"
  so_invoice :: "string option"
  so_amount_refunded :: "int option"

record stripe_event =
  se_id :: "string option"
  se_type :: "string option"
  se_created :: "int option"
  se_object :: stripe_object

text \<open>A RevenueCat body is \<open>{"event": {..}}\<close> or the flat event itself.\<close>

record rc_payload =
  rp_event :: "rc_event option"
  rp_flat :: rc_event

section \<open>Ledger\<close>

definition fresh_serial :: "webhook_event list \<Rightarrow> nat" where
  "fresh_serial rows = Suc (foldr (\<lambda>r m. max (wl_id r) m) rows 0)"

definition insert_ledger_event ::
  "provider \<Rightarrow> string \<Rightarrow> string \<Rightarrow> datetime \<Rightarrow> json \<Rightarrow> bool \<Rightarrow> (nat option \<times> bool) billing" where
  "insert_ledger_event prov provider_event_id event_type event_timestamp pl signature_valid =
     bind_c now_c (\<lambda>now.
     bind_c (select_all ledger (\<lambda>_. True)) (\<lambda>rows.
       if list_ex (\<lambda>r. wl_key r = (prov, provider_event_id)) rows then ret (None, False)
       else
         let n = fresh_serial rows;
             row = \<lparr>wl_id = n, wl_provider = prov, wl_provider_event_id = provider_event_id,
                    wl_event_type = event_type, wl_event_timestamp = event_timestamp, wl_payload = pl,
                    wl_signature_valid = signature_valid, wl_status = Wl_Received, wl_attempts = 0,
                    wl_last_error = None, wl_received_at = now, wl_processed_at = None\<rparr>
         in seq_c (modify_table ledger_update ledger (\<lambda>rs. rs @ [row])) (ret (Some n, True))))"

text \<open>RevenueCat sends a static bearer token.\<close>

definition verify_revenuecat_signature :: "string \<Rightarrow> string \<Rightarrow> bool" where
  "verify_revenuecat_signature authorization_header webhook_secret \<longleftrightarrow>
     strip_chars is_space authorization_header = strip_chars is_space webhook_secret"

section \<open>Stripe handlers\<close>

definition stripe_tier_from_product :: "string \<Rightarrow> tier" where
  "stripe_tier_from_product product_id =
     (let pid = map lower_char product_id in
      if contains ''pro'' pid then Pro else if contains ''premium'' pid then Premium else Free)"

definition get_user_id_from_stripe_customer :: "string \<Rightarrow> uuid option billing" where
  "get_user_id_from_stripe_customer cid =
     bind_c (scalar_one_or_none customers (\<lambda>c. cu_stripe_customer_id c = Some cid))
       (\<lambda>r. ret (map_option cu_user_id r))"

definition new_customer :: "uuid \<Rightarrow> uuid \<Rightarrow> string option \<Rightarrow> datetime \<Rightarrow> customer" where
  "new_customer i user_id cid now =
     \<lparr>cu_id = i, cu_user_id = user_id, cu_stripe_customer_id = cid, cu_revenuecat_user_id = str_uuid user_id,
      cu_preferred_currency = ''USD'', cu_country = ''US'', cu_tax_id = None, cu_tax_id_type = None,
      cu_created_at = now, cu_updated_at = now\<rparr>"

definition insert_customer :: "customer \<Rightarrow> unit billing" where
  "insert_customer = db_insert customers_update customers (\<lambda>_. True) cu_clash"

definition some_text :: "string option \<Rightarrow> bool" where
  "some_text v \<longleftrightarrow> (case v of Some (c # cs) \<Rightarrow> True | _ \<Rightarrow> False)"

text \<open>Linking the Stripe customer of an existing row; the column is unique.\<close>

definition link_stripe_customer :: "customer \<Rightarrow> string option \<Rightarrow> unit billing" where
  "link_stripe_customer c cid =
     bind_c now_c (\<lambda>now. bind_c (select_all customers (\<lambda>x. cu_id x \<noteq> cu_id c \<and> cu_stripe_customer_id x = cid)) (\<lambda>others.
       if others \<noteq> [] then raise IntegrityError
       else modify_table customers_update customers (update_where (\<lambda>x. cu_id x = cu_id c)
              (\<lambda>x. x\<lparr>cu_stripe_customer_id := cid, cu_updated_at := now\<rparr>))))"

text \<open>\<open>int(credit_amount)\<close> of a metadata value.\<close>

definition int_of_json :: "json \<Rightarrow> exn + int" where
  "int_of_json v = (case v of
     JInt i \<Rightarrow> Inr i | JBool b \<Rightarrow> Inr (if b then 1 else 0)
   | JStr s \<Rightarrow> (case py_int s of Some i \<Rightarrow> Inr i | None \<Rightarrow> Inl ValueError)
   | _ \<Rightarrow> Inl TypeError)"

definition checkout_customer :: "stripe_object \<Rightarrow> uuid \<Rightarrow> unit billing" where
  "checkout_customer session user_id =
     bind_c (scalar_one_or_none customers (\<lambda>c. cu_user_id c = user_id)) (\<lambda>found.
       case found of
         None \<Rightarrow> bind_c uuid4 (\<lambda>i. bind_c now_c (\<lambda>now.
           insert_customer (new_customer i user_id (ss_customer session) now)))
       | Some c \<Rightarrow> when_c (\<not> some_text (cu_stripe_customer_id c) \<and> some_text (ss_customer session))
           (link_stripe_customer c (ss_customer session)))"

definition checkout_payment :: "stripe_object \<Rightarrow> uuid \<Rightarrow> unit billing" where
  "checkout_payment session user_id =
     (let session_id = get_or (ss_id session) [];
          credit_amount = get_or (so_credit_amount session) (JInt 0)
      in when_c (truthy credit_amount)
           (case int_of_json credit_amount of
              Inl e \<Rightarrow> raise e
            | Inr amount \<Rightarrow>
                bind_c (credit_purchase user_id amount ''stripe_checkout'' session_id (''purchase:'' @ session_id)) (\<lambda>_.
                seq_c (publish_event ''credits.purchased''
                         [(''user_id'', JStr (str_uuid user_id)), (''amount'', credit_amount),
                          (''source'', JStr ''stripe''), (''reference'', JStr session_id)])
                  commit_c)))"

definition handle_checkout_completed :: "stripe_event \<Rightarrow> unit billing" where
  "handle_checkout_completed event =
     (let session = se_object event; client_ref = get_or (so_client_reference_id session) [] in
      if client_ref = [] then ret ()
      else (case parse_uuid client_ref of
          None \<Rightarrow> ret ()
        | Some user_id \<Rightarrow>
            seq_c (checkout_customer session user_id)
              (when_c (so_mode session = Some ''payment'') (checkout_payment session user_id))))"

text \<open>The user of a subscription or invoice object, and the tier of its first item.\<close>

definition sub_product :: "stripe_sub \<Rightarrow> string" where
  "sub_product obj = (case ss_items obj of Some (p # ps) \<Rightarrow> get_or (sp_product p) [] | _ \<Rightarrow> [])"

definition for_stripe_user :: "stripe_event \<Rightarrow> (uuid \<Rightarrow> unit billing) \<Rightarrow> unit billing" where
  "for_stripe_user event k =
     bind_c (get_user_id_from_stripe_customer (get_or (ss_customer (se_object event)) [])) (\<lambda>u.
       case u of None \<Rightarrow> ret () | Some user_id \<Rightarrow> k user_id)"

definition event_time :: "stripe_event \<Rightarrow> datetime" where
  "event_time event = from_seconds (or_zero (se_created event))"

definition handle_sub_created :: "tier_table \<Rightarrow> stripe_event \<Rightarrow> unit billing" where
  "handle_sub_created td event = for_stripe_user event (\<lambda>user_id.
     let obj = stripe_sub.truncate (se_object event); t = stripe_tier_from_product (sub_product obj) in
     bind_c (upsert_subscription_from_stripe obj user_id t (event_time event)) (\<lambda>sub.
     seq_c (apply_entitlements_for_user td user_id sub)
     (seq_c (publish_entitlement_changed user_id None (Some t))
     (seq_c (publish_event ''subscription.activated''
        [(''user_id'', JStr (str_uuid user_id)), (''tier'', JStr (str_tier t)), (''source'', JStr ''stripe'')])
      commit_c))))"

definition handle_sub_updated :: "tier_table \<Rightarrow> stripe_event \<Rightarrow> unit billing" where
  "handle_sub_updated td event = for_stripe_user event (\<lambda>user_id.
     let obj = stripe_sub.truncate (se_object event); t = stripe_tier_from_product (sub_product obj) in
     bind_c (upsert_subscription_from_stripe obj user_id t (event_time event)) (\<lambda>sub.
     seq_c (apply_entitlements_for_user td user_id sub)
     (seq_c (publish_entitlement_changed user_id None (Some t))
      commit_c)))"

definition handle_sub_canceled :: "tier_table \<Rightarrow> stripe_event \<Rightarrow> unit billing" where
  "handle_sub_canceled td event = for_stripe_user event (\<lambda>user_id.
     let obj = stripe_sub.truncate (se_object event) in
     bind_c (upsert_subscription_from_stripe obj user_id Free (event_time event)) (\<lambda>sub.
     seq_c (apply_entitlements_for_user td user_id sub)
     (seq_c (publish_entitlement_changed user_id None (Some Free))
     (seq_c (publish_event ''subscription.canceled''
        [(''user_id'', JStr (str_uuid user_id)), (''tier'', JStr (str_tier (sub_tier sub)))])
      commit_c))))"

text \<open>\<open>TIER_DEFAULTS.get(tier, {}).get("ai_credits_per_month", 0)\<close>, compared with 0.\<close>

definition tier_credits :: "tier_table \<Rightarrow> tier \<Rightarrow> exn + int" where
  "tier_credits td t = (case map_of (td t) ''ai_credits_per_month'' of
     None \<Rightarrow> Inr 0
   | Some v \<Rightarrow> (case num_of v of Some i \<Rightarrow> Inr i | None \<Rightarrow> Inl TypeError))"

definition publish_granted :: "uuid \<Rightarrow> int \<Rightarrow> string \<Rightarrow> unit billing" where
  "publish_granted user_id amount reason = publish_event ''credits.granted''
     [(''user_id'', JStr (str_uuid user_id)), (''amount'', JInt amount), (''reason'', JStr reason)]"

definition nonzero_time :: "int option \<Rightarrow> datetime option" where
  "nonzero_time v = (case v of Some t \<Rightarrow> if t = 0 then None else Some (from_seconds t) | None \<Rightarrow> None)"

definition save_invoice :: "invoice \<Rightarrow> invoice \<Rightarrow> unit billing" where
  "save_invoice old new = bind_c now_c (\<lambda>now.
     when_c (new \<noteq> old) (modify_table invoices_update invoices
       (update_where (\<lambda>r. iv_id r = iv_id old) (\<lambda>_. new\<lparr>iv_updated_at := now\<rparr>))))"

definition mirror_invoice :: "stripe_object \<Rightarrow> uuid \<Rightarrow> unit billing" where
  "mirror_invoice obj user_id =
     (let invoice_id = get_or (ss_id obj) [] in
      bind_c (scalar_one_or_none invoices (\<lambda>i. iv_stripe_invoice_id i = Some invoice_id)) (\<lambda>found.
        case found of
          Some old \<Rightarrow> save_invoice old (old\<lparr>iv_status := Inv_Paid\<rparr>)
        | None \<Rightarrow> bind_c uuid4 (\<lambda>i. bind_c now_c (\<lambda>now.
            db_insert invoices_update invoices (\<lambda>_. True) iv_clash
              \<lparr>iv_id = i, iv_user_id = user_id, iv_stripe_invoice_id = Some invoice_id, iv_rc_event_id = None,
               iv_amount_minor = or_zero (so_amount_paid obj),
               iv_currency = map upper_char (get_or (so_currency obj) ''usd''),
               iv_tax_minor = or_zero (so_tax obj), iv_status = Inv_Paid,
               iv_period_start = nonzero_time (so_period_start obj), iv_period_end = nonzero_time (so_period_end obj),
               iv_hosted_invoice_url = so_hosted_invoice_url obj, iv_pdf_url = so_invoice_pdf obj,
               iv_created_at = now, iv_updated_at = now\<rparr>))))"

text \<open>The subscription an invoice names; an empty or missing key names none.\<close>

definition with_invoice_sub :: "stripe_object \<Rightarrow> (subscription \<Rightarrow> unit billing) \<Rightarrow> unit billing" where
  "with_invoice_sub obj k = (case so_subscription obj of
     None \<Rightarrow> ret ()
   | Some sid \<Rightarrow>
       if sid = [] then ret ()
       else bind_c (scalar_one_or_none subscriptions (\<lambda>r. store_subscription_id r = Some sid)) (\<lambda>found.
         case found of None \<Rightarrow> ret () | Some sub \<Rightarrow> k sub))"

definition handle_invoice_paid :: "tier_table \<Rightarrow> stripe_event \<Rightarrow> unit billing" where
  "handle_invoice_paid td event = for_stripe_user event (\<lambda>user_id.
     let obj = se_object event in
     seq_c (mirror_invoice obj user_id)
     (seq_c (with_invoice_sub obj (\<lambda>sub.
        when_c (sub_tier sub \<noteq> Free)
          (case tier_credits td (sub_tier sub) of
             Inl e \<Rightarrow> raise e
           | Inr credits \<Rightarrow>
               when_c (0 < credits)
                 (seq_c (seq_c (grant_subscription_credits user_id credits (sub_id sub) (current_period_start sub)) (ret ()))
                        (publish_granted user_id credits ''subscription_renewal'')))))
     (seq_c (with_invoice_sub obj (\<lambda>sub. seq_c (mark_recovered (sub_id sub)) (ret ())))
      commit_c)))"

definition handle_invoice_failed :: "stripe_event \<Rightarrow> unit billing" where
  "handle_invoice_failed event = for_stripe_user event (\<lambda>user_id.
     seq_c (with_invoice_sub (se_object event) (\<lambda>sub.
        seq_c (save_subscription sub (sub\<lparr>sub_status := Past_Due\<rparr>))
        (seq_c (open_dunning_case user_id (sub_id sub))
         (publish_event ''subscription.past_due''
            [(''user_id'', JStr (str_uuid user_id)), (''tier'', JStr (str_tier (sub_tier sub)))]))))
      commit_c)"

definition handle_charge_refunded :: "stripe_event \<Rightarrow> unit billing" where
  "handle_charge_refunded event = for_stripe_user event (\<lambda>user_id.
     let obj = se_object event;
         refund_id = (case so_refund_ids obj of Some (r # rs) \<Rightarrow> get_or r [] | _ \<Rightarrow> []) in
     bind_c now_c (\<lambda>now.
     bind_c (scalar_one_or_none refund_requests (\<lambda>r. rr_stripe_refund_id r = Some refund_id \<and> rr_user_id r = user_id)) (\<lambda>found.
     seq_c (case found of
              None \<Rightarrow> ret ()
            | Some rr \<Rightarrow> when_c (rr_status rr \<in> {Rr_Pending, Rr_Auto_Approved})
                (save_refund rr (rr\<lparr>rr_status := Rr_Approved, rr_decided_at := Some now\<rparr>)))
     (seq_c (when_c (some_text (so_invoice obj))
              (bind_c (scalar_one_or_none invoices (\<lambda>i. iv_stripe_invoice_id i = so_invoice obj)) (\<lambda>inv.
                 case inv of None \<Rightarrow> ret () | Some i \<Rightarrow> save_invoice i (i\<lparr>iv_status := Inv_Refunded\<rparr>))))
     (seq_c (publish_event ''refund.granted''
               [(''user_id'', JStr (str_uuid user_id)), (''amount'', JInt (or_zero (so_amount_refunded obj)))])
     (seq_c (publish_entitlement_changed user_id None None)
      commit_c))))))"

section \<open>RevenueCat handlers\<close>

definition extract_rc_event :: "rc_payload \<Rightarrow> rc_event" where
  "extract_rc_event pl = (case rp_event pl of Some e \<Rightarrow> e | None \<Rightarrow> rp_flat pl)"

definition parse_user_id :: "rc_event \<Rightarrow> uuid option" where
  "parse_user_id ev = parse_uuid (get_or (rc_app_user_id ev) [])"

definition for_rc_user :: "rc_payload \<Rightarrow> (rc_event \<Rightarrow> uuid \<Rightarrow> unit billing) \<Rightarrow> unit billing" where
  "for_rc_user pl k = (case parse_user_id (extract_rc_event pl) of
     None \<Rightarrow> ret () | Some user_id \<Rightarrow> k (extract_rc_event pl) user_id)"

definition ensure_customer :: "uuid \<Rightarrow> unit billing" where
  "ensure_customer user_id =
     bind_c (scalar_one_or_none customers (\<lambda>c. cu_user_id c = user_id)) (\<lambda>found.
       case found of
         Some c \<Rightarrow> ret ()
       | None \<Rightarrow> bind_c uuid4 (\<lambda>i. bind_c now_c (\<lambda>now. insert_customer (new_customer i user_id None now))))"

text \<open>
  Granting the credits of a tier: True when the grant rolled the transaction back, which
  expires the subscription object the handler still holds.
\<close>

definition grant_tier_credits :: "tier_table \<Rightarrow> uuid \<Rightarrow> subscription \<Rightarrow> string \<Rightarrow> bool billing" where
  "grant_tier_credits td user_id sub reason =
     (case tier_credits td (sub_tier sub) of
        Inl e \<Rightarrow> raise e
      | Inr credits \<Rightarrow>
          if 0 < credits
          then bind_c (grant_subscription_credits user_id credits (sub_id sub) (current_period_start sub)) (\<lambda>g.
                 seq_c (publish_granted user_id credits reason) (ret (g = None)))
          else ret False)"

definition read_tier :: "bool \<Rightarrow> subscription \<Rightarrow> tier billing" where
  "read_tier expired sub = (if expired then raise MissingGreenlet else ret (sub_tier sub))"

definition handle_rc_initial_purchase :: "tier_table \<Rightarrow> rc_payload \<Rightarrow> unit billing" where
  "handle_rc_initial_purchase td pl = for_rc_user pl (\<lambda>ev user_id.
     seq_c (ensure_customer user_id)
     (bind_c (upsert_subscription_from_rc ev user_id ''INITIAL_PURCHASE'') (\<lambda>sub.
      seq_c (apply_entitlements_for_user td user_id sub)
      (bind_c (grant_tier_credits td user_id sub ''initial_purchase'') (\<lambda>expired.
       bind_c (read_tier expired sub) (\<lambda>t.
       seq_c (publish_entitlement_changed user_id None (Some t))
       (seq_c (publish_event ''subscription.activated''
          [(''user_id'', JStr (str_uuid user_id)), (''tier'', JStr (str_tier t)), (''source'', JStr ''revenuecat'')])
        commit_c)))))))"

definition handle_rc_renewal :: "tier_table \<Rightarrow> rc_payload \<Rightarrow> unit billing" where
  "handle_rc_renewal td pl = for_rc_user pl (\<lambda>ev user_id.
     bind_c (upsert_subscription_from_rc ev user_id ''RENEWAL'') (\<lambda>sub.
     seq_c (apply_entitlements_for_user td user_id sub)
     (seq_c (mark_recovered (sub_id sub))
     (bind_c (grant_tier_credits td user_id sub ''renewal'') (\<lambda>expired.
      bind_c (read_tier expired sub) (\<lambda>t.
      seq_c (publish_entitlement_changed user_id None (Some t))
       commit_c))))))"

definition handle_rc_cancellation :: "tier_table \<Rightarrow> rc_payload \<Rightarrow> unit billing" where
  "handle_rc_cancellation td pl = for_rc_user pl (\<lambda>ev user_id.
     bind_c (upsert_subscription_from_rc ev user_id ''CANCELLATION'') (\<lambda>sub.
     seq_c (apply_entitlements_for_user td user_id sub)
     (seq_c (publish_entitlement_changed user_id None (Some Free))
     (seq_c (publish_event ''subscription.canceled''
        [(''user_id'', JStr (str_uuid user_id)), (''tier'', JStr (str_tier (sub_tier sub)))])
      commit_c))))"

definition handle_rc_expiration :: "tier_table \<Rightarrow> rc_payload \<Rightarrow> unit billing" where
  "handle_rc_expiration td pl = for_rc_user pl (\<lambda>ev user_id.
     bind_c (upsert_subscription_from_rc ev user_id ''EXPIRATION'') (\<lambda>sub.
     seq_c (apply_entitlements_for_user td user_id sub)
     (seq_c (publish_entitlement_changed user_id None (Some Free))
      commit_c)))"

definition handle_rc_billing_issue :: "rc_payload \<Rightarrow> unit billing" where
  "handle_rc_billing_issue pl = for_rc_user pl (\<lambda>ev user_id.
     bind_c (upsert_subscription_from_rc ev user_id ''BILLING_ISSUE'') (\<lambda>sub.
     seq_c (open_dunning_case user_id (sub_id sub))
     (seq_c (publish_event ''subscription.past_due''
        [(''user_id'', JStr (str_uuid user_id)), (''tier'', JStr (str_tier (sub_tier sub)))])
      commit_c)))"

definition parse_credit_amount :: "string \<Rightarrow> int" where
  "parse_credit_amount product_id =
     (case List.map_filter py_int (rev (split_on CHR ''_'' (map lower_char product_id))) of
        [] \<Rightarrow> 0 | n # ns \<Rightarrow> n)"

definition handle_rc_one_off :: "rc_payload \<Rightarrow> unit billing" where
  "handle_rc_one_off pl = for_rc_user pl (\<lambda>ev user_id.
     bind_c uuid4 (\<lambda>fresh.
       let rc_event_id = get_or (rc_id ev) (str_uuid fresh);
           credit_amount = parse_credit_amount (get_or (rc_product_id ev) []) in
       seq_c (when_c (0 < credit_amount)
                (seq_c (seq_c (credit_purchase user_id credit_amount ''rc_event'' rc_event_id
                          (''purchase:'' @ rc_event_id)) (ret ()))
                   (publish_event ''credits.purchased''
                      [(''user_id'', JStr (str_uuid user_id)), (''amount'', JInt credit_amount),
                       (''source'', JStr ''revenuecat''), (''reference'', JStr rc_event_id)])))
        commit_c))"

definition handle_rc_product_change :: "tier_table \<Rightarrow> rc_payload \<Rightarrow> unit billing" where
  "handle_rc_product_change td pl = for_rc_user pl (\<lambda>ev user_id.
     bind_c (upsert_subscription_from_rc ev user_id ''PRODUCT_CHANGE'') (\<lambda>sub.
     seq_c (apply_entitlements_for_user td user_id sub)
     (seq_c (publish_entitlement_changed user_id None (Some (sub_tier sub)))
      commit_c)))"

definition handle_rc_alias_merge :: "rc_payload \<Rightarrow> unit billing" where
  "handle_rc_alias_merge pl = commit_c"

section \<open>Dispatch and endpoints\<close>

definition dispatch_stripe_event :: "tier_table \<Rightarrow> stripe_event \<Rightarrow> unit billing" where
  "dispatch_stripe_event td event =
     (let event_type = get_or (se_type event) [] in
      if event_type = ''checkout.session.completed'' then handle_checkout_completed event
      else if event_type = ''customer.subscription.created'' then handle_sub_created td event
      else if event_type = ''customer.subscription.updated'' then handle_sub_updated td event
      else if event_type = ''customer.subscription.deleted'' then handle_sub_canceled td event
      else if event_type = ''invoice.paid'' then handle_invoice_paid td event
      else if event_type = ''invoice.payment_failed'' then handle_invoice_failed event
      else if event_type = ''charge.refunded'' then handle_charge_refunded event
      else ret ())"

definition rc_event_type :: "rc_payload \<Rightarrow> string" where
  "rc_event_type pl = (case rc_type (rp_flat pl) of
     Some (c # cs) \<Rightarrow> c # cs
   | _ \<Rightarrow> (case rp_event pl of Some e \<Rightarrow> get_or (rc_type e) [] | None \<Rightarrow> []))"

definition dispatch_rc_event :: "tier_table \<Rightarrow> rc_payload \<Rightarrow> unit billing" where
  "dispatch_rc_event td pl =
     (let event_type = rc_event_type pl in
      if event_type = ''INITIAL_PURCHASE'' then handle_rc_initial_purchase td pl
      else if event_type = ''RENEWAL'' then handle_rc_renewal td pl
      else if event_type = ''CANCELLATION'' then handle_rc_cancellation td pl
      else if event_type = ''EXPIRATION'' then handle_rc_expiration td pl
      else if event_type = ''BILLING_ISSUE'' then handle_rc_billing_issue pl
      else if event_type = ''NON_RENEWING_PURCHASE'' then handle_rc_one_off pl
      else if event_type = ''PRODUCT_CHANGE'' then handle_rc_product_change td pl
      else if event_type = ''SUBSCRIBER_ALIAS'' then handle_rc_alias_merge pl
      else ret ())"

datatype webhook_response = Wr_Ok | Wr_Duplicate | Wr_Internal_Error | Wr_Unauthorized

text \<open>
  The block both endpoints run in a session: insert into the ledger, dispatch, and answer. An exception rolls
  back and answers 500; what the handler did not commit is lost when the session closes.
\<close>

definition process_webhook ::
  "provider \<Rightarrow> string \<Rightarrow> string \<Rightarrow> datetime \<Rightarrow> json \<Rightarrow> unit billing \<Rightarrow> webhook_response billing" where
  "process_webhook prov event_id event_type event_ts raw handler = in_session (\<lambda>s.
     case bind_c (insert_ledger_event prov event_id event_type event_ts raw True) (\<lambda>(ledger_id, is_new).
            if \<not> is_new then ret Wr_Duplicate else seq_c handler (ret Wr_Ok)) s of
       (Inl e, s1) \<Rightarrow> seq_c rollback_c (ret Wr_Internal_Error) s1
     | (Inr r, s1) \<Rightarrow> (Inr r, s1))"

definition stripe_block :: "tier_table \<Rightarrow> json \<Rightarrow> stripe_event \<Rightarrow> webhook_response billing" where
  "stripe_block td raw event =
     process_webhook Pv_Stripe (get_or (se_id event) []) (get_or (se_type event) [])
       (event_time event) raw (dispatch_stripe_event td event)"

text \<open>A RevenueCat event without an id gets the address of the payload object, \<open>address\<close>.\<close>

definition revenuecat_block ::
  "tier_table \<Rightarrow> string \<Rightarrow> string \<Rightarrow> string \<Rightarrow> json \<Rightarrow> rc_payload \<Rightarrow> webhook_response billing" where
  "revenuecat_block td secret authorization address raw pl =
     (if \<not> verify_revenuecat_signature authorization secret then ret Wr_Unauthorized
      else
        let inner = extract_rc_event pl in
        process_webhook Pv_Revenuecat (get_or (rc_id inner) address) (get_or (rc_type inner) ''UNKNOWN'')
          (from_millis (or_zero (rc_event_timestamp_ms inner))) raw (dispatch_rc_event td pl))"

text \<open>
  The endpoints: both open their block with \<open>async with async_session_factory()\<close>, which is given the session maker
  and not a session.
\<close>

definition stripe_webhook :: "tier_table \<Rightarrow> json \<Rightarrow> stripe_event \<Rightarrow> webhook_response billing" where
  "stripe_webhook td raw event = async_with async_session_factory (stripe_block td raw event)"

definition revenuecat_webhook ::
  "tier_table \<Rightarrow> string \<Rightarrow> string \<Rightarrow> string \<Rightarrow> json \<Rightarrow> rc_payload \<Rightarrow> webhook_response billing" where
  "revenuecat_webhook td secret authorization address raw pl =
     (if \<not> verify_revenuecat_signature authorization secret then ret Wr_Unauthorized
      else async_with async_session_factory (revenuecat_block td secret authorization address raw pl))"

end
