(* ===== verification/Billing_Wallet.thy ===== *)
theory Billing_Wallet
  imports Billing_Credits
begin

text \<open>
  The credit wallet of billing-svc under arbitrary sequences of requests: the states the
  requests can reach, solvency as an invariant of them, and the properties of the wallet with
  their concrete instances.
\<close>

section \<open>Reachable states\<close>

text \<open>The requests that touch the wallet, each in its own session.\<close>

datatype credit_request =
    Cr_Reserve uuid int string string "string option"
  | Cr_Commit uuid
  | Cr_Release uuid string
  | Cr_Purchase uuid int string string string
  | Cr_Grant uuid int uuid datetime
  | Cr_Adjust uuid int string string
  | Cr_Tick datetime

fun credit_exec :: "credit_request \<Rightarrow> billing_sess \<Rightarrow> billing_sess" where
  "credit_exec (Cr_Reserve u a k r key) s = snd (reserve_credits_endpoint u a k r key s)"
| "credit_exec (Cr_Commit rid) s = snd (commit_credits_endpoint rid s)"
| "credit_exec (Cr_Release rid reason) s = snd (release_credits_endpoint rid reason s)"
| "credit_exec (Cr_Purchase u a k r key) s = snd (committing (credit_purchase u a k r key) s)"
| "credit_exec (Cr_Grant u a sid ps) s = snd (committing (grant_subscription_credits u a sid ps) s)"
| "credit_exec (Cr_Adjust u d reason aid) s = snd (committing (admin_adjust_credits u d reason aid) s)"
| "credit_exec (Cr_Tick t) s = s\<lparr>clock := t\<rparr>"

inductive credit_reach :: "(credit_request \<Rightarrow> bool) \<Rightarrow> billing_sess \<Rightarrow> bool" for allowed where
  start: "committed s = empty_billing_db \<Longrightarrow> credit_reach allowed s"
| request: "credit_reach allowed s \<Longrightarrow> allowed q \<Longrightarrow> credit_reach allowed (credit_exec q s)"

lemma keeps_session:
  assumes "keeps credits_inv m" and "credits_ok s"
  shows "credits_ok (snd (committing m s))"
  using keepsD [OF assms(1) credits_ok_start [OF assms(2)]] credits_inv_commits credits_inv_closes
  by (auto simp: committing_run split: prod.split sum.split)

lemma reserve_endpoint_run:
  "reserve_credits_endpoint u a k r key s =
     (if a \<le> 0 then (Inl (HTTPException 422 ''amount''), s)
      else let idem = (case key of Some k \<Rightarrow> if k = [] then ''reserve:'' @ str_uuid u @ '':'' @ r else k
                        | None \<Rightarrow> ''reserve:'' @ str_uuid u @ '':'' @ r) in
        case reserve_credits u a k r idem (s\<lparr>work := committed s\<rparr>) of
          (Inl (InsufficientCreditsError b q), s1) \<Rightarrow>
             (Inl (HTTPException 402 ''insufficient_credits''), s1\<lparr>work := committed s1\<rparr>)
        | (Inl e, s1) \<Rightarrow> (Inl e, s1\<lparr>work := committed s1\<rparr>)
        | (Inr rid, s1) \<Rightarrow> (Inr rid, s1\<lparr>committed := work s1\<rparr>))"
  by (auto simp: reserve_credits_endpoint_def in_session_def comp_simps Let_def
      split: prod.split sum.split exn.split)

lemma credits_ok_reserve:
  assumes ok: "credits_ok s"
  shows "credits_ok (snd (reserve_credits_endpoint u a k r key s))"
proof (cases "a \<le> 0")
  case True
  with ok show ?thesis by (simp add: reserve_endpoint_run)
next
  case False
  let ?idem = "case key of Some k \<Rightarrow> if k = [] then ''reserve:'' @ str_uuid u @ '':'' @ r else k
                        | None \<Rightarrow> ''reserve:'' @ str_uuid u @ '':'' @ r"
  obtain x s1 where run: "reserve_credits u a k r ?idem (s\<lparr>work := committed s\<rparr>) = (x, s1)"
    by (cases "reserve_credits u a k r ?idem (s\<lparr>work := committed s\<rparr>)")
  have inv: "credits_inv s1"
    using keepsD [OF credits_inv_reserve credits_ok_start [OF ok], of u a k r ?idem] run by simp
  show ?thesis
  proof (cases x)
    case (Inl e)
    then show ?thesis using False run credits_inv_closes [OF inv]
      by (cases e) (simp_all add: reserve_endpoint_run Let_def)
  next
    case (Inr rid)
    then show ?thesis using False run credits_inv_commits [OF inv]
      by (simp add: reserve_endpoint_run Let_def)
  qed
qed

lemma credits_ok_exec: "credits_ok s \<Longrightarrow> credits_ok (credit_exec q s)"
proof (cases q)
  case (Cr_Tick t)
  then show "credits_ok s \<Longrightarrow> credits_ok (credit_exec q s)" by (simp add: credits_ok_def)
qed (simp_all add: commit_credits_endpoint_def credits_ok_reserve credits_ok_release keeps_session
       credits_inv_commit credits_inv_purchase credits_inv_grant credits_inv_adjust)

lemma credit_reach_ok: "credit_reach allowed s \<Longrightarrow> credits_ok s"
proof (induction rule: credit_reach.induct)
  case (start s)
  then show ?case by (simp add: credits_ok_def wallet_inv_def empty_billing_db_def balance_of_def)
qed (rule credits_ok_exec)


section \<open>Nobody spends credits they do not have\<close>

text \<open>
  Solvency: every user's available credits (balance plus the negative pending deltas) are
  non-negative and no pending reservation has a positive delta.
\<close>

definition solvent :: "billing_db \<Rightarrow> bool" where
  "solvent db \<longleftrightarrow> (\<forall>u. 0 \<le> available_of db u)
     \<and> (\<forall>t \<in> set (transactions db). ct_status t = Reserved \<longrightarrow> ct_delta t \<le> 0)"

text \<open>Requests that do not take credits away: positive amounts and adjustments upwards only.\<close>

fun no_debit :: "credit_request \<Rightarrow> bool" where
  "no_debit (Cr_Purchase u a k r key) = (0 \<le> a)"
| "no_debit (Cr_Grant u a sid ps) = (0 \<le> a)"
| "no_debit (Cr_Adjust u d reason aid) = (0 \<le> d)"
| "no_debit _ = True"

lemma available_post:
  assumes "ct_status t \<noteq> Reserved" and "distinct (map cw_user_id (wallets db))"
  shows "available_of (db\<lparr>wallets := moved_wallets u d now (wallets db),
      transactions := transactions db @ [t]\<rparr>) v = available_of db v + (if v = u then d else 0)"
  using assms(1) moved_wallets_facts(2) [OF assms(2)]
  by (simp add: available_of_def balance_of_def reserved_of_def pending_for_def)

lemma solvent_post:
  assumes "solvent db" and "0 \<le> d" "ct_status t \<noteq> Reserved"
    and "distinct (map cw_user_id (wallets db))"
  shows "solvent (db\<lparr>wallets := moved_wallets u d now (wallets db),
      transactions := transactions db @ [t]\<rparr>)"
  using assms by (auto simp: solvent_def available_post)

lemma solvent_wallets:
  assumes "solvent db" and "distinct (map cw_user_id (wallets db))"
  shows "solvent (db\<lparr>wallets := with_wallet u now (wallets db)\<rparr>)"
  using assms with_wallet_facts(3) [OF assms(2)]
  by (auto simp: solvent_def available_of_def balance_of_def reserved_of_def)

lemma solvent_reserve:
  assumes "solvent db" and "distinct (map cw_user_id (wallets db))"
    and "a \<le> available_of db u" "0 \<le> a"
  shows "solvent (db\<lparr>wallets := with_wallet u now (wallets db),
      transactions := transactions db @ [reserve_tx i u a k r key n]\<rparr>)"
  using assms with_wallet_facts(3) [OF assms(2)]
  by (auto simp: solvent_def available_of_def balance_of_def reserved_of_def pending_for_def)

lemma reserved_mark:
  assumes "distinct (map ct_id (transactions db))" "tx \<in> set (transactions db)" "ct_status tx = Reserved"
  shows "sum_by (pending_for u) ct_delta (mark_committed (ct_id tx) now (transactions db))
       = reserved_of db u - (if ct_user_id tx = u then ct_delta tx else 0)"
    and "sum_by (pending_for u) ct_delta (mark_released (ct_id tx) (transactions db))
       = reserved_of db u - (if ct_user_id tx = u then ct_delta tx else 0)"
  using assms(3) unfolding mark_committed_def mark_released_def sum_by_update_key [OF assms(1,2)]
  by (auto simp: pending_for_def reserved_of_def)

lemma mark_status:
  "t \<in> set (mark_committed rid now ts) \<Longrightarrow> ct_status t = Reserved \<Longrightarrow> t \<in> set ts"
  "t \<in> set (mark_released rid ts) \<Longrightarrow> ct_status t = Reserved \<Longrightarrow> t \<in> set ts"
  by (auto simp: mark_committed_def mark_released_def set_update_where)

text \<open>Settling a reservation moves its credits from pending to spent: available credits stay.\<close>

lemma available_commit:
  assumes inv: "wallet_inv db" and tx: "tx \<in> set (transactions db)" "ct_status tx = Reserved"
  shows "available_of (db\<lparr>transactions := mark_committed (ct_id tx) now (transactions db),
      wallets := moved_wallets (ct_user_id tx) (ct_delta tx) now (wallets db)\<rparr>) u = available_of db u"
  using inv reserved_mark(1) [OF _ tx] moved_wallets_facts(2) [of "wallets db"]
  by (auto simp: wallet_inv_def available_of_def balance_of_def reserved_of_def)

text \<open>Releasing one gives them back.\<close>

lemma available_release:
  assumes inv: "wallet_inv db" and tx: "tx \<in> set (transactions db)" "ct_status tx = Reserved"
    and "ct_status t = Committed"
  shows "available_of (db\<lparr>transactions := mark_released (ct_id tx) (transactions db) @ [t]\<rparr>) u
     = available_of db u - (if ct_user_id tx = u then ct_delta tx else 0)"
  using assms reserved_mark(2) [OF _ tx]
  by (auto simp: wallet_inv_def available_of_def balance_of_def reserved_of_def pending_for_def)

text \<open>What a committing session leaves committed.\<close>

lemma committed_session:
  "m (s\<lparr>work := committed s\<rparr>) = (Inr a, s1) \<Longrightarrow> committed (snd (committing m s)) = work s1"
  "m (s\<lparr>work := committed s\<rparr>) = (Inl e, s1) \<Longrightarrow> committed (snd (committing m s)) = committed s1"
  by (simp_all add: committing_run)

lemma solvent_endpoint_reserve:
  assumes ok: "credits_ok s" and sol: "solvent (committed s)"
  shows "solvent (committed (snd (reserve_credits_endpoint u a k r key s)))"
proof (cases "a \<le> 0")
  case True
  with sol show ?thesis by (simp add: reserve_endpoint_run)
next
  case False
  have inv: "credits_inv (s\<lparr>work := committed s\<rparr>)" using ok by (rule credits_ok_start)
  note ws = credits_invD(3) [OF inv]
  show ?thesis
    using False sol solvent_reserve [OF sol, of a u] ws
    by (simp add: reserve_endpoint_run Let_def reserve_run [OF inv] split: sum.split exn.split)
qed

lemma solvent_endpoint_release:
  assumes ok: "credits_ok s" and sol: "solvent (committed s)"
  shows "solvent (committed (snd (release_credits_endpoint rid reason s)))"
proof -
  let ?s = "s\<lparr>work := committed s\<rparr>"
  have inv: "credits_inv ?s" using ok by (rule credits_ok_start)
  show ?thesis
  proof (cases "pending_id (committed s) rid")
    case False
    then show ?thesis using not_pending_run(2) [OF inv] sol
      by (simp add: release_credits_endpoint_def committing_run)
  next
    case True
    then obtain tx where tx: "tx \<in> set (transactions (committed s))" "ct_status tx = Reserved" "ct_id tx = rid"
      by (auto simp: pending_id_def list_ex_iff)
    have "solvent ((committed s)\<lparr>transactions := mark_released (ct_id tx) (transactions (committed s)) @ [t]\<rparr>)"
      if "ct_status t = Committed" for t
      using sol ok available_release [OF _ tx(1,2) that] tx that
      by (auto simp: solvent_def credits_ok_def dest: mark_status(2) intro: order_trans [of "ct_delta tx" 0])
    then show ?thesis
      using release_run [OF inv, of tx reason] tx sol
      by (simp add: release_credits_endpoint_def committing_run Let_def)
  qed
qed

lemma solvent_endpoint_commit:
  assumes ok: "credits_ok s" and sol: "solvent (committed s)"
  shows "solvent (committed (snd (commit_credits_endpoint rid s)))"
proof -
  let ?s = "s\<lparr>work := committed s\<rparr>"
  have inv: "credits_inv ?s" using ok by (rule credits_ok_start)
  show ?thesis
  proof (cases "pending_id (committed s) rid")
    case False
    then show ?thesis using not_pending_run(1) [OF inv] sol
      by (simp add: commit_credits_endpoint_def committing_run)
  next
    case True
    then obtain tx where tx: "tx \<in> set (transactions (committed s))" "ct_status tx = Reserved" "ct_id tx = rid"
      by (auto simp: pending_id_def list_ex_iff)
    have "solvent ((committed s)\<lparr>transactions := mark_committed (ct_id tx) now (transactions (committed s)),
        wallets := moved_wallets (ct_user_id tx) (ct_delta tx) now (wallets (committed s))\<rparr>)" for now
      using sol ok available_commit [OF _ tx(1,2)] 
      by (auto simp: solvent_def credits_ok_def dest: mark_status(1))
    then show ?thesis
      using commit_tx_run [OF inv, of tx] tx
      by (simp add: commit_credits_endpoint_def committing_run)
  qed
qed

lemma solvent_exec:
  assumes ok: "credits_ok s" and sol: "solvent (committed s)" and q: "no_debit q"
  shows "solvent (committed (credit_exec q s))"
proof -
  have inv: "credits_inv (s\<lparr>work := committed s\<rparr>)" using ok by (rule credits_ok_start)
  have ws: "distinct (map cw_user_id (wallets (committed s)))" using credits_invD(3) [OF inv] by simp
  show ?thesis
  proof (cases q)
    case (Cr_Purchase u a k r key)
    with q sol ws show ?thesis
      by (simp add: committing_run purchase_run [OF inv] solvent_post split: sum.split)
  next
    case (Cr_Grant u a sid ps)
    with q sol ws show ?thesis
      by (simp add: committing_run grant_run [OF inv] solvent_post)
  next
    case (Cr_Adjust u d reason aid)
    with q sol ws show ?thesis
      by (simp add: committing_run adjust_run [OF inv] solvent_post)
  qed (simp_all add: solvent_endpoint_reserve [OF ok sol] solvent_endpoint_commit [OF ok sol]
         solvent_endpoint_release [OF ok sol] sol)
qed

lemma credit_reach_solvent: "credit_reach no_debit s \<Longrightarrow> solvent (committed s)"
proof (induction rule: credit_reach.induct)
  case (start s)
  then show ?case by (simp add: solvent_def available_of_def balance_of_def reserved_of_def empty_billing_db_def)
next
  case (request s q)
  then show ?case by (intro solvent_exec credit_reach_ok)
qed


text \<open>On a session at rest the endpoints ignore a reservation that is not pending.\<close>

lemma idle_endpoints:
  assumes "credits_ok s" and "work s = committed s" and "\<not> pending_id (committed s) rid"
  shows "commit_credits_endpoint rid s = (Inr (), s)" "release_credits_endpoint rid reason s = (Inr (), s)"
proof -
  have eq: "s\<lparr>work := committed s\<rparr> = s" "s\<lparr>committed := work s\<rparr> = s" using assms(2) by simp_all
  have inv: "credits_inv s" and np: "\<not> pending_id (work s) rid"
    using assms by (simp_all add: credits_inv_def credits_ok_def)
  show "commit_credits_endpoint rid s = (Inr (), s)" "release_credits_endpoint rid reason s = (Inr (), s)"
    by (simp_all only: commit_credits_endpoint_def release_credits_endpoint_def committing_run
        not_pending_run [OF inv np] eq prod.case sum.case)
qed

section \<open>Properties\<close>

text \<open>C2. As long as no request takes credits away directly (purchases, grants and adjustments
  are non-negative), no user is ever overdrawn: balance minus pending reservations stays
  non-negative in every reachable state, whatever the order of reserve, commit and release.\<close>

theorem never_overspent:
  assumes "credit_reach no_debit s"
  shows "0 \<le> available_of (committed s) u"
  using credit_reach_solvent [OF assms] by (simp add: solvent_def)

text \<open>The reserve endpoint on a fresh key: with enough credits available it answers with the
  new reservation's id, the available credits drop by the amount and the balance stays; with
  too few it answers 402 and nothing is committed.\<close>

theorem reserve_endpoint_effect:
  assumes ok: "credit_reach allowed s" and a: "0 < a" and k: "key \<noteq> []" "key \<notin> tx_keys (committed s)"
  shows "case reserve_credits_endpoint u a kind ref (Some key) s of (r, s1) \<Rightarrow>
      if a \<le> available_of (committed s) u
      then r = Inr (next_uuid s) \<and> pending_id (committed s1) (next_uuid s)
        \<and> balance_of (committed s1) u = balance_of (committed s) u
        \<and> available_of (committed s1) u = available_of (committed s) u - a
      else r = Inl (HTTPException 402 ''insufficient_credits'') \<and> committed s1 = committed s"
proof -
  have inv: "credits_inv (s\<lparr>work := committed s\<rparr>)" using credit_reach_ok [OF ok] by (rule credits_ok_start)
  show ?thesis
    using a k with_wallet_facts(3) [OF credits_invD(3) [OF inv]]
    by (simp add: reserve_endpoint_run Let_def reserve_run [OF inv] available_of_def balance_of_def
        reserved_of_def pending_id_def pending_for_def)
qed

text \<open>Committing a pending reservation moves its (negative) delta into the balance exactly
  once and leaves the available credits alone: a second commit, or a release after the commit,
  changes nothing.\<close>

theorem commit_effect:
  assumes ok: "credit_reach allowed s"
    and tx: "tx \<in> set (transactions (committed s))" "ct_status tx = Reserved"
  shows "case commit_credits_endpoint (ct_id tx) s of (r, s1) \<Rightarrow> r = Inr ()
      \<and> balance_of (committed s1) (ct_user_id tx) = balance_of (committed s) (ct_user_id tx) + ct_delta tx
      \<and> available_of (committed s1) u = available_of (committed s) u
      \<and> commit_credits_endpoint (ct_id tx) s1 = (Inr (), s1)
      \<and> release_credits_endpoint (ct_id tx) reason s1 = (Inr (), s1)"
proof -
  let ?s = "s\<lparr>work := committed s\<rparr>"
  have cok: "credits_ok s" using credit_reach_ok [OF ok] .
  then have inv: "credits_inv ?s" by (rule credits_ok_start)
  obtain r s1 where run: "commit_credits_endpoint (ct_id tx) s = (r, s1)" by fastforce
  have c1: "committed s1 = (committed s)\<lparr>transactions := mark_committed (ct_id tx) (clock s) (transactions (committed s)),
      wallets := moved_wallets (ct_user_id tx) (ct_delta tx) (clock s) (wallets (committed s))\<rparr>"
    and r: "r = Inr ()" and w: "work s1 = committed s1"
    using run commit_tx_run [OF inv, of tx] tx by (auto simp: commit_credits_endpoint_def committing_run)
  have ok1: "credits_ok s1" using credits_ok_exec [OF cok, of "Cr_Commit (ct_id tx)"] run by simp
  have "\<not> pending_id (committed s1) (ct_id tx)"
    by (auto simp: c1 pending_id_def list_ex_iff mark_committed_def set_update_where)
  then show ?thesis
    using run r c1 idle_endpoints [OF ok1 w] available_commit [OF credits_invD(1) [OF inv, simplified] tx]
      moved_wallets_facts(2) [OF credits_invD(3) [OF inv]]
    by (simp add: balance_of_def)
qed

text \<open>Releasing a pending reservation gives its credits back: the available credits grow by
  the reserved amount, the balance stays, the ledger gains the compensating row, and a second
  release or a late commit changes nothing. The compensating key must not have been taken.\<close>

theorem release_effect:
  assumes ok: "credit_reach allowed s"
    and tx: "tx \<in> set (transactions (committed s))" "ct_status tx = Reserved"
    and key: "release_key (ct_id tx) \<notin> tx_keys (committed s)"
  shows "case release_credits_endpoint (ct_id tx) ''release'' s of (r, s1) \<Rightarrow> r = Inr ()
      \<and> balance_of (committed s1) u = balance_of (committed s) u
      \<and> available_of (committed s1) (ct_user_id tx) = available_of (committed s) (ct_user_id tx) - ct_delta tx
      \<and> commit_credits_endpoint (ct_id tx) s1 = (Inr (), s1)
      \<and> release_credits_endpoint (ct_id tx) reason s1 = (Inr (), s1)"
proof -
  let ?s = "s\<lparr>work := committed s\<rparr>"
  let ?undo = "settled_tx (next_uuid s) (ct_user_id tx) (- ct_delta tx) ''release''
                ''credit_transaction'' (str_uuid (ct_id tx)) (release_key (ct_id tx)) (clock s)"
  have cok: "credits_ok s" using credit_reach_ok [OF ok] .
  then have inv: "credits_inv ?s" by (rule credits_ok_start)
  obtain r s1 where run: "release_credits_endpoint (ct_id tx) ''release'' s = (r, s1)" by fastforce
  have c1: "committed s1 = (committed s)\<lparr>transactions := mark_released (ct_id tx) (transactions (committed s)) @ [?undo]\<rparr>"
    and r: "r = Inr ()" and w: "work s1 = committed s1"
    using run release_run [OF inv, of tx "''release''"] tx key
    by (auto simp: release_credits_endpoint_def committing_run Let_def)
  have ok1: "credits_ok s1" using credits_ok_exec [OF cok, of "Cr_Release (ct_id tx) ''release''"] run by simp
  have "ct_id tx < next_uuid s" using cok tx(1) by (simp add: credits_ok_def)
  then have "\<not> pending_id (committed s1) (ct_id tx)"
    by (auto simp: c1 pending_id_def list_ex_iff mark_released_def set_update_where)
  then show ?thesis
    using run r c1 idle_endpoints [OF ok1 w]
      available_release [OF credits_invD(1) [OF inv, simplified] tx, of ?undo "ct_user_id tx"]
    by (simp add: balance_of_def)
qed

text \<open>A purchase is credited exactly once: the first request with a key adds the amount to the
  balance, every later one with the same key returns the same ledger row and changes nothing
  that is committed, whatever amount or user it names.\<close>

theorem purchase_once:
  assumes ok: "credit_reach allowed s" and key: "key \<notin> tx_keys (committed s)"
  shows "case committing (credit_purchase u a k r key) s of (x, s1) \<Rightarrow>
      x = Inr (settled_tx (next_uuid s) u a ''purchase'' k r key (clock s))
        \<and> balance_of (committed s1) v = balance_of (committed s) v + (if v = u then a else 0)
        \<and> (case committing (credit_purchase u' a' k' r' key) s1 of
             (x2, s2) \<Rightarrow> x2 = x \<and> committed s2 = committed s1)"
proof -
  let ?t = "settled_tx (next_uuid s) u a ''purchase'' k r key (clock s)"
  have cok: "credits_ok s" using credit_reach_ok [OF ok] .
  then have inv: "credits_inv (s\<lparr>work := committed s\<rparr>)" by (rule credits_ok_start)
  obtain x s1 where run: "committing (credit_purchase u a k r key) s = (x, s1)" by fastforce
  have x: "x = Inr ?t" and c1: "committed s1 = (committed s)\<lparr>wallets := moved_wallets u a (clock s) (wallets (committed s)),
               transactions := transactions (committed s) @ [?t]\<rparr>"
    using run key by (auto simp: committing_run purchase_run [OF inv])
  have "credits_ok s1" using credits_ok_exec [OF cok, of "Cr_Purchase u a k r key"] run by simp
  then have inv1: "credits_inv (s1\<lparr>work := committed s1\<rparr>)" by (rule credits_ok_start)
  have "key_lookup (committed s1) key = Inr ?t" "key \<in> tx_keys (committed s1)"
    using key filter_key_none [of key ct_idempotency_key "transactions (committed s)"]
    by (simp_all add: c1 key_lookup_def)
  then have "case committing (credit_purchase u' a' k' r' key) s1 of (x2, s2) \<Rightarrow> x2 = Inr ?t \<and> committed s2 = committed s1"
    by (simp add: committing_run purchase_run [OF inv1])
  then show ?thesis
    using run x c1 moved_wallets_facts(2) [OF credits_invD(3) [OF inv]]
    by (simp add: balance_of_def)
qed


text \<open>A subscription's monthly credits are granted exactly once per period start day: the first
  grant adds the amount, a later one for the same subscription and day (at any hour, for any
  user or amount) grants nothing and leaves the committed tables unchanged.\<close>

theorem grant_once:
  assumes ok: "credit_reach allowed s" and key: "grant_key sid ps \<notin> tx_keys (committed s)"
    and day: "date_of ps' = date_of ps"
  shows "case committing (grant_subscription_credits u a sid ps) s of (x, s1) \<Rightarrow>
      (\<exists>t. x = Inr (Some t) \<and> ct_delta t = a)
        \<and> balance_of (committed s1) v = balance_of (committed s) v + (if v = u then a else 0)
        \<and> (case committing (grant_subscription_credits u' a' sid ps') s1 of
             (x2, s2) \<Rightarrow> x2 = Inr None \<and> committed s2 = committed s1)"
proof -
  let ?t = "settled_tx (next_uuid s) u a ''subscription_grant'' ''subscription''
      (str_uuid sid) (grant_key sid ps) (clock s)"
  have cok: "credits_ok s" using credit_reach_ok [OF ok] .
  then have inv: "credits_inv (s\<lparr>work := committed s\<rparr>)" by (rule credits_ok_start)
  obtain x s1 where run: "committing (grant_subscription_credits u a sid ps) s = (x, s1)" by fastforce
  have x: "x = Inr (Some ?t)" and c1: "committed s1 = (committed s)\<lparr>wallets := moved_wallets u a (clock s) (wallets (committed s)),
               transactions := transactions (committed s) @ [?t]\<rparr>"
    using run key by (auto simp: committing_run grant_run [OF inv])
  have "credits_ok s1" using credits_ok_exec [OF cok, of "Cr_Grant u a sid ps"] run by simp
  then have inv1: "credits_inv (s1\<lparr>work := committed s1\<rparr>)" by (rule credits_ok_start)
  have "grant_key sid ps' \<in> tx_keys (committed s1)"
    using day by (simp add: c1 grant_key_def)
  then have "case committing (grant_subscription_credits u' a' sid ps') s1 of (x2, s2) \<Rightarrow> x2 = Inr None \<and> committed s2 = committed s1"
    by (simp add: committing_run grant_run [OF inv1])
  then show ?thesis
    using run x c1 moved_wallets_facts(2) [OF credits_invD(3) [OF inv]]
    by (simp add: balance_of_def)
qed

text \<open>Replaying a reserve request under its own key: the committed tables do not change, but
  the answer depends on what is left. With another \<open>a\<close> credits available the caller gets the
  original reservation; otherwise it gets 402 although the reservation exists, because the
  availability check comes before the key is looked up.\<close>

theorem reserve_replay:
  assumes ok: "credit_reach allowed s" and a: "0 < a" "a \<le> available_of (committed s) u"
    and k: "key \<noteq> []" "key \<notin> tx_keys (committed s)"
  shows "case reserve_credits_endpoint u a kind ref (Some key) s of (r, s1) \<Rightarrow>
      (case reserve_credits_endpoint u a kind ref (Some key) s1 of (r2, s2) \<Rightarrow>
        r = Inr (next_uuid s) \<and> committed s2 = committed s1
        \<and> r2 = (if 2 * a \<le> available_of (committed s) u then r
                else Inl (HTTPException 402 ''insufficient_credits'')))"
proof -
  let ?t = "reserve_tx (next_uuid s) u a kind ref key (clock s)"
  have cok: "credits_ok s" using credit_reach_ok [OF ok] .
  then have inv: "credits_inv (s\<lparr>work := committed s\<rparr>)" by (rule credits_ok_start)
  obtain r s1 where run: "reserve_credits_endpoint u a kind ref (Some key) s = (r, s1)" by fastforce
  have r: "r = Inr (next_uuid s)" and c1: "committed s1 = (committed s)
      \<lparr>wallets := with_wallet u (clock s) (wallets (committed s)), transactions := transactions (committed s) @ [?t]\<rparr>"
    using run a k by (auto simp: reserve_endpoint_run Let_def reserve_run [OF inv])
  have "credits_ok s1" using credits_ok_exec [OF cok, of "Cr_Reserve u a kind ref (Some key)"] run by simp
  then have inv1: "credits_inv (s1\<lparr>work := committed s1\<rparr>)" by (rule credits_ok_start)
  have "available_of (committed s1) u = available_of (committed s) u - a"
    using with_wallet_facts(3) [OF credits_invD(3) [OF inv]]
    by (simp add: c1 available_of_def balance_of_def reserved_of_def pending_for_def)
  moreover have "key_lookup (committed s1) key = Inr ?t" "key \<in> tx_keys (committed s1)"
    using k filter_key_none [of key ct_idempotency_key "transactions (committed s)"]
    by (simp_all add: c1 key_lookup_def)
  ultimately show ?thesis
    using run r a k by (simp add: reserve_endpoint_run Let_def reserve_run [OF inv1])
qed

section \<open>Witnesses\<close>

definition demo_start :: billing_sess where
  "demo_start = \<lparr>committed = empty_billing_db, work = empty_billing_db, outbox = [], clock = 1000, next_uuid = 1\<rparr>"

definition demo_bought :: billing_sess where
  "demo_bought = credit_exec (Cr_Purchase 7 10 ''ppi'' ''pi_1'' ''pk1'') demo_start"

definition demo_reserved :: billing_sess where
  "demo_reserved = credit_exec (Cr_Reserve 7 6 ''ai'' ''run1'' (Some ''rk1'')) demo_bought"

lemma demo_credit_reach:
  "credit_reach no_debit demo_start" "credit_reach no_debit demo_bought" "credit_reach no_debit demo_reserved"
proof -
  show a: "credit_reach no_debit demo_start" by (rule credit_reach.start) (simp add: demo_start_def)
  show b: "credit_reach no_debit demo_bought" unfolding demo_bought_def by (rule credit_reach.request [OF a]) simp
  show "credit_reach no_debit demo_reserved" unfolding demo_reserved_def by (rule credit_reach.request [OF b]) simp
qed

lemma demo_pending_row:
  "transactions (committed demo_reserved) = [settled_tx 1 7 10 ''purchase'' ''ppi'' ''pi_1'' ''pk1'' 1000,
     reserve_tx 2 7 6 ''ai'' ''run1'' ''rk1'' 1000]"
  by code_simp

lemma never_overspent_witness:
  "0 \<le> available_of (committed demo_reserved) 7 \<and> available_of (committed demo_reserved) 7 = 4"
  by (rule conjI [OF never_overspent [OF demo_credit_reach(3)]]) code_simp

lemma reserve_endpoint_effect_witness:
  "fst (reserve_credits_endpoint 7 6 ''ai'' ''run1'' (Some ''rk1'') demo_bought) = Inr 2"
proof -
  have "6 \<le> available_of (committed demo_bought) 7" "''rk1'' \<notin> tx_keys (committed demo_bought)"
    "next_uuid demo_bought = 2" by code_simp+
  then show ?thesis
    using reserve_endpoint_effect [OF demo_credit_reach(2), of 6 "''rk1''" 7 "''ai''" "''run1''"]
    by (auto split: prod.splits)
qed

lemma commit_effect_witness:
  "balance_of (committed (snd (commit_credits_endpoint 2 demo_reserved))) 7 = 4"
proof -
  have "balance_of (committed demo_reserved) 7 = 10" by code_simp
  then show ?thesis
    using commit_effect [OF demo_credit_reach(3), of "reserve_tx 2 7 6 ''ai'' ''run1'' ''rk1'' 1000" 7 "''release''"]
    by (auto simp: demo_pending_row split: prod.splits)
qed

lemma release_effect_witness:
  "available_of (committed (snd (release_credits_endpoint 2 ''release'' demo_reserved))) 7 = 10"
proof -
  have "available_of (committed demo_reserved) 7 = 4" "release_key 2 \<notin> tx_keys (committed demo_reserved)" by code_simp+
  then show ?thesis
    using release_effect [OF demo_credit_reach(3), of "reserve_tx 2 7 6 ''ai'' ''run1'' ''rk1'' 1000" 7 "''release''"]
    by (auto simp: demo_pending_row split: prod.splits)
qed

lemma purchase_once_witness:
  "balance_of (committed (snd (committing (credit_purchase 7 10 ''ppi'' ''pi_1'' ''pk1'') demo_start))) 7 = 10"
proof -
  have "''pk1'' \<notin> tx_keys (committed demo_start)" "balance_of (committed demo_start) 7 = 0" by code_simp+
  then show ?thesis
    using purchase_once [OF demo_credit_reach(1), where key = "''pk1''" and u = 7 and a = 10 and v = 7
      and k = "''ppi''" and r = "''pi_1''" and u' = 7 and a' = 10 and k' = "''ppi''" and r' = "''pi_1''"]
    by (auto split: prod.splits)
qed

lemma grant_once_witness:
  "balance_of (committed (snd (committing (grant_subscription_credits 7 50 3 0) demo_start))) 7 = 50"
proof -
  have "grant_key 3 0 \<notin> tx_keys (committed demo_start)" "balance_of (committed demo_start) 7 = 0" by code_simp+
  then show ?thesis
    using grant_once [OF demo_credit_reach(1) _ refl, where sid = 3 and ps = 0 and u = 7 and a = 50 and v = 7 and u' = 7 and a' = 50]
    by (auto split: prod.splits)
qed

lemma reserve_replay_witness:
  "fst (reserve_credits_endpoint 7 6 ''ai'' ''run1'' (Some ''rk1'') demo_reserved)
     = Inl (HTTPException 402 ''insufficient_credits'')"
proof -
  have "available_of (committed demo_bought) 7 = 10" "''rk1'' \<notin> tx_keys (committed demo_bought)" by code_simp+
  then show ?thesis
    using reserve_replay [OF demo_credit_reach(2), of 6 7 "''rk1''" "''ai''" "''run1''"]
    by (auto simp: demo_reserved_def split: prod.splits)
qed

end
