(* ===== verification/Billing_Checkout.thy ===== *)
theory Billing_Checkout
  imports Billing_Webhooks
begin

text \<open>
  The endpoints of billing-svc that write customers and entitlements outside the webhooks: the web checkout
  (app/routers/billing.py) and the grants an administrator makes (app/routers/admin.py). Stripe is a parameter.
\<close>

text \<open>\<open>stripe.Customer.create\<close> answers an id, \<open>stripe.checkout.Session.create\<close> a URL and an id.\<close>

record checkout_api =
  ca_customer :: "uuid \<Rightarrow> exn + string"
  ca_session :: "uuid \<Rightarrow> string option \<Rightarrow> string \<Rightarrow> exn + string \<times> string"

definition lazy_stripe_customer :: "checkout_api \<Rightarrow> uuid \<Rightarrow> customer option \<Rightarrow> string option billing" where
  "lazy_stripe_customer api uid c = (case ca_customer api uid of
     Inl e \<Rightarrow> raise e
   | Inr i \<Rightarrow> seq_c (case c of
         None \<Rightarrow> bind_c uuid4 (\<lambda>k. bind_c now_c (\<lambda>now. insert_customer (new_customer k uid (Some i) now)))
       | Some x \<Rightarrow> link_stripe_customer x (Some i))
       (ret (Some i)))"

text \<open>The subscriptions the user has are selected and do not matter.\<close>

definition create_checkout_web :: "checkout_api \<Rightarrow> uuid \<Rightarrow> string \<Rightarrow> (string \<times> string) billing" where
  "create_checkout_web api uid price_id =
     (if price_id = [] then raise (ValidationError ''price_id is required.'')
      else committing
        (bind_c (select_all subscriptions (\<lambda>x. sub_user_id x = uid \<and> sub_status x \<in> {Trialing, Active}
                   \<and> sub_source x = Src_Stripe)) (\<lambda>existing_subs.
         bind_c (scalar_one_or_none customers (\<lambda>c. cu_user_id c = uid)) (\<lambda>c.
         bind_c (case c of
             Some x \<Rightarrow> if some_text (cu_stripe_customer_id x) then ret (cu_stripe_customer_id x) else lazy_stripe_customer api uid c
           | None \<Rightarrow> lazy_stripe_customer api uid c) (\<lambda>cid.
         case ca_session api uid cid price_id of Inl e \<Rightarrow> raise e | Inr answer \<Rightarrow> ret answer)))))"

definition grant_row :: "uuid \<Rightarrow> uuid \<Rightarrow> uuid \<Rightarrow> string \<Rightarrow> json \<Rightarrow> datetime option \<Rightarrow> datetime \<Rightarrow> entitlement_snapshot" where
  "grant_row i admin_id user_id axis_key v expires now =
     \<lparr>es_id = i, es_user_id = user_id, es_axis_key = axis_key, es_value = JObj [(''v'', v)], es_source = Es_Grant,
      es_source_ref = Some admin_id, es_expires_at = expires, es_updated_at = now, es_created_at = now\<rparr>"

text \<open>
  A bundle of credits is sold with a session of its own, for the customer as far as there is one. Nothing is written.
\<close>

definition purchase_credits_web :: "checkout_api \<Rightarrow> uuid \<Rightarrow> string \<Rightarrow> (string \<times> string) billing" where
  "purchase_credits_web api uid price_id = committing
     (bind_c (scalar_one_or_none customers (\<lambda>c. cu_user_id c = uid)) (\<lambda>c.
      case ca_session api uid (case c of None \<Rightarrow> None | Some x \<Rightarrow> cu_stripe_customer_id x) price_id of
        Inl e \<Rightarrow> raise e | Inr answer \<Rightarrow> ret answer))"

text \<open>
  \<open>api\<close> is \<open>stripe.Subscription.cancel\<close> or \<open>modify\<close>. The snapshots of the entitlements stay as they are, only their
  cache entry is dropped.
\<close>

definition cancel_web :: "(bool \<Rightarrow> string option \<Rightarrow> exn + unit) \<Rightarrow> redis \<Rightarrow> uuid \<Rightarrow> uuid \<Rightarrow> bool \<Rightarrow> redis billing" where
  "cancel_web api redis uid subscription_id immediate = committing
     (bind_c (scalar_one_or_none subscriptions (\<lambda>x. sub_id x = subscription_id \<and> sub_user_id x = uid \<and> sub_source x = Src_Stripe)) (\<lambda>found.
      case found of
        None \<Rightarrow> raise (NotFoundError ''Subscription not found.'')
      | Some x \<Rightarrow> (case api immediate (store_subscription_id x) of
          Inl e \<Rightarrow> raise e
        | Inr _ \<Rightarrow> bind_c now_c (\<lambda>now.
            seq_c (save_subscription x (if immediate then x\<lparr>sub_status := Canceled, canceled_at := Some now\<rparr>
                     else x\<lparr>cancel_at_period_end := True\<rparr>))
           (seq_c (publish_entitlement_changed uid None None)
             (ret (invalidate_entitlement_cache redis uid)))))))"

text \<open>The cache entry of the user is dropped before the commit.\<close>

definition create_entitlement_grant ::
  "redis \<Rightarrow> uuid \<Rightarrow> uuid \<Rightarrow> string \<Rightarrow> json \<Rightarrow> datetime option \<Rightarrow> (uuid \<times> redis) billing" where
  "create_entitlement_grant redis admin_id user_id axis_key v expires =
     (if axis_key \<notin> fst ` set axis_registry then raise (ValidationError (''Unknown axis_key: '' @ axis_key))
      else committing
        (bind_c uuid4 (\<lambda>i. bind_c now_c (\<lambda>now.
           seq_c (db_insert snapshots_update snapshots (\<lambda>_. True) es_clash (grant_row i admin_id user_id axis_key v expires now))
          (seq_c (publish_entitlement_changed user_id (Some [axis_key]) None)
             (ret (i, invalidate_entitlement_cache redis user_id)))))))"

text \<open>An administrator grants an axis to a user once: the second row breaks the unique constraint.\<close>

lemma granted_twice_clashes:
  "es_clash (grant_row i a u k v e now) (grant_row i2 a u k v2 e2 now2)"
  by (simp add: es_clash_def grant_row_def)

end
