(* ===== verification/Billing_Frame.thy ===== *)
theory Billing_Frame
  imports Billing_Webhooks Billing_Wallet Billing_Checkout
begin

text \<open>
  What the webhook handlers and the refund flow of billing-svc leave alone: the frame interface
  for predicates on sessions that no operation outside the wallet breaks, proved once for every
  operation and handler, and its two instances, the wallet invariant and the committed state.
  With it the wallet invariant holds in every state that the credit endpoints, the webhooks and
  the refund endpoints can reach together.
\<close>

section \<open>Interface: predicates the billing operations keep\<close>

text \<open>
  A predicate on sessions that no write outside the wallet breaks: it may be about the committed
  state, or about the wallet, but not about the tables the subscription side writes. Every
  operation the handlers are built from keeps it; with \<open>commit\<close> the handlers keep it too.
\<close>

locale session_frame =
  fixes I :: "billing_sess \<Rightarrow> bool"
  assumes customers_kept: "I s \<Longrightarrow> I (s\<lparr>work := customers_update (\<lambda>_. a) (work s)\<rparr>)"
    and subscriptions_kept: "I s \<Longrightarrow> I (s\<lparr>work := subscriptions_update (\<lambda>_. b) (work s)\<rparr>)"
    and snapshots_kept: "I s \<Longrightarrow> I (s\<lparr>work := snapshots_update (\<lambda>_. c) (work s)\<rparr>)"
    and invoices_kept: "I s \<Longrightarrow> I (s\<lparr>work := invoices_update (\<lambda>_. d) (work s)\<rparr>)"
    and refunds_kept: "I s \<Longrightarrow> I (s\<lparr>work := refund_requests_update (\<lambda>_. e) (work s)\<rparr>)"
    and ledger_kept: "I s \<Longrightarrow> I (s\<lparr>work := ledger_update (\<lambda>_. f) (work s)\<rparr>)"
    and dunning_kept: "I s \<Longrightarrow> I (s\<lparr>work := dunning_cases_update (\<lambda>_. g) (work s)\<rparr>)"
    and uuid_kept: "I s \<Longrightarrow> I (s\<lparr>next_uuid := Suc (next_uuid s)\<rparr>)"
    and outbox_kept: "I s \<Longrightarrow> I (s\<lparr>outbox := ms\<rparr>)"
    and rollback_kept: "I s \<Longrightarrow> I (s\<lparr>work := committed s\<rparr>)"
    and purchase_kept: "keeps I (credit_purchase u n kind ref key)"
    and grant_kept: "keeps I (grant_subscription_credits u n sid t)"
begin

lemma modify_kept:
  "keeps I (modify_table customers_update customers f1)"
  "keeps I (modify_table subscriptions_update subscriptions f2)"
  "keeps I (modify_table snapshots_update snapshots f3)"
  "keeps I (modify_table invoices_update invoices f4)"
  "keeps I (modify_table refund_requests_update refund_requests f5)"
  "keeps I (modify_table ledger_update ledger f6)"
  "keeps I (modify_table dunning_cases_update dunning_cases f7)"
  by (simp_all add: keeps_def modify_run customers_kept subscriptions_kept snapshots_kept invoices_kept refunds_kept
      ledger_kept dunning_kept)

lemma insert_kept:
  "keeps I (db_insert customers_update customers c1 k1 r1)"
  "keeps I (db_insert subscriptions_update subscriptions c2 k2 r2)"
  "keeps I (db_insert invoices_update invoices c4 k4 r4)"
  "keeps I (db_insert refund_requests_update refund_requests c5 k5 r5)"
  "keeps I (db_insert dunning_cases_update dunning_cases c7 k7 r7)"
  by (simp_all add: keeps_def insert_run customers_kept subscriptions_kept invoices_kept refunds_kept dunning_kept)

lemma steps_kept: "keeps I uuid4" "keeps I (publish_c m)" "keeps I rollback_c"
  by (simp_all add: keeps_def comp_simps uuid_kept outbox_kept rollback_kept)

lemma rows_kept:
  "keeps I (save_subscription x1 y1)" "keeps I (save_invoice x2 y2)" "keeps I (save_refund x3 y3)"
  "keeps I (insert_sub x1)" "keeps I (insert_customer x4)" "keeps I (link_stripe_customer x4 x5)"
  unfolding save_subscription_def save_invoice_def save_refund_def insert_sub_def insert_customer_def link_stripe_customer_def
  by (simp_all add: keeps_bind keeps_when modify_kept insert_kept)

lemma publish_kept:
  "keeps I (publish_event k1 b1)" "keeps I (publish_entitlement_changed u a1 t1)" "keeps I (publish_granted u n r)"
  by (simp_all add: publish_event_def publish_entitlement_changed_def publish_granted_def steps_kept)

lemma entitlements_kept: "keeps I (apply_entitlements_for_user td u sub)"
  unfolding apply_entitlements_for_user_def write_axis_def
  by (intro keeps_for) (auto intro!: keeps_bind simp: modify_kept steps_kept split: prod.split)

lemma upserts_kept:
  "keeps I (upsert_subscription_from_stripe obj u t ts)" "keeps I (upsert_subscription_from_rc ev u et)"
  unfolding upsert_subscription_from_stripe_def upsert_subscription_from_rc_def
  by (auto intro!: keeps_bind keeps_seq simp: Let_def rows_kept steps_kept split: option.split)

lemma dunning_ops_kept: "keeps I (open_dunning_case u sid)" "keeps I (mark_recovered sid)"
  unfolding open_dunning_case_def mark_recovered_def
  by (auto intro!: keeps_bind keeps_seq simp: Let_def insert_kept modify_kept steps_kept split: option.split)

lemma scopes_kept:
  "(\<And>u. keeps I (k u)) \<Longrightarrow> keeps I (for_stripe_user ev k)"
  "(\<And>e u. keeps I (k2 e u)) \<Longrightarrow> keeps I (for_rc_user pl k2)"
  "(\<And>x. keeps I (k3 x)) \<Longrightarrow> keeps I (with_invoice_sub obj k3)"
  by (auto simp: for_stripe_user_def get_user_id_from_stripe_customer_def for_rc_user_def with_invoice_sub_def
      intro!: keeps_bind split: option.split)

lemma customer_ops_kept: "keeps I (checkout_customer obj u)" "keeps I (ensure_customer u)"
  by (auto simp: checkout_customer_def ensure_customer_def rows_kept steps_kept
      intro!: keeps_bind keeps_when split: option.split)

lemma mirror_kept: "keeps I (mirror_invoice obj u)"
  by (auto simp: mirror_invoice_def rows_kept steps_kept insert_kept Let_def intro!: keeps_bind split: option.split)

lemma grant_tier_kept: "keeps I (grant_tier_credits td u sub reason)"
  by (auto simp: grant_tier_credits_def publish_kept grant_kept intro!: keeps_bind keeps_seq split: sum.split)

lemma read_tier_kept: "keeps I (read_tier b sub)"
  by (simp add: read_tier_def)

lemma ledger_op_kept: "keeps I (insert_ledger_event p i et ts raw ok)"
  by (auto simp: insert_ledger_event_def Let_def modify_kept intro!: keeps_bind keeps_seq)

lemmas ops_kept = rows_kept publish_kept entitlements_kept upserts_kept dunning_ops_kept customer_ops_kept mirror_kept
  grant_tier_kept read_tier_kept ledger_op_kept steps_kept purchase_kept grant_kept

lemma checkout_without_payment_kept:
  "so_mode (se_object ev) \<noteq> Some ''payment'' \<Longrightarrow> keeps I (handle_checkout_completed ev)"
  by (auto simp: handle_checkout_completed_def when_c_def Let_def ops_kept intro!: keeps_seq split: option.split)

lemma process_kept:
  assumes "keeps I m"
  shows "keeps I (process_webhook p i et ts raw m)"
proof
  fix s assume "I s"
  then have start: "I (s\<lparr>work := committed s\<rparr>)" by (rule rollback_kept)
  have "keeps I (bind_c (insert_ledger_event p i et ts raw True)
      (\<lambda>(ledger_id, is_new). if \<not> is_new then ret Wr_Duplicate else seq_c m (ret Wr_Ok)))"
    using assms by (auto intro!: keeps_bind keeps_seq simp: ledger_op_kept split: prod.split)
  from keepsD [OF this start] show "I (snd (process_webhook p i et ts raw m s))"
    by (auto simp: process_webhook_def in_session_def comp_simps rollback_kept split: prod.splits sum.splits)
qed

lemma latest_invoice_kept: "keeps I (latest_invoice u)"
  by (auto simp: latest_invoice_def intro!: keeps_bind)

lemma refund_ops_kept:
  "keeps I (create_refund_request api u k sid t r)" "keeps I (admin_decide_refund api rid admin dec note)"
proof -
  have find: "keeps I (find_subscription x)" for x by (simp add: find_subscription_def split: option.split)
  have auto: "keeps I (auto_approve_stripe_refund api rr x)" for rr x
    by (auto simp: auto_approve_stripe_refund_def Let_def latest_invoice_kept intro!: keeps_bind split: option.split sum.split)
  then have decide: "keeps I (decide_on_subscription api n x rr)" for n x rr
    by (simp add: decide_on_subscription_def Let_def)
  have approve: "keeps I (approve_on_stripe api rr admin)" for rr
    by (auto simp: approve_on_stripe_def Let_def find latest_invoice_kept intro!: keeps_bind split: option.split sum.split)
  show "keeps I (create_refund_request api u k sid t r)"
    by (auto simp: create_refund_request_def Let_def find decide steps_kept insert_kept rows_kept
        intro!: keeps_bind keeps_seq split: option.split)
  show "keeps I (admin_decide_refund api rid admin dec note)"
    by (auto simp: admin_decide_refund_def Let_def approve rows_kept intro!: keeps_bind keeps_seq)
qed

end

text \<open>With commits.\<close>

locale committing_frame = session_frame +
  assumes commit_kept: "I s \<Longrightarrow> I (s\<lparr>committed := work s\<rparr>)"
begin

lemma commit_c_kept: "keeps I commit_c"
  by (simp add: keeps_def commit_run commit_kept)

lemma stripe_handlers_kept:
  "keeps I (handle_checkout_completed ev)" "keeps I (handle_sub_created td ev)" "keeps I (handle_sub_updated td ev)"
  "keeps I (handle_sub_canceled td ev)" "keeps I (handle_invoice_paid td ev)" "keeps I (handle_invoice_failed ev)"
  "keeps I (handle_charge_refunded ev)"
  unfolding handle_checkout_completed_def handle_sub_created_def handle_sub_updated_def handle_sub_canceled_def
    handle_invoice_paid_def handle_invoice_failed_def handle_charge_refunded_def checkout_payment_def
  by (auto simp: Let_def ops_kept commit_c_kept intro!: keeps_bind keeps_seq keeps_when scopes_kept
      split: option.split sum.split)

lemma rc_handlers_kept:
  "keeps I (handle_rc_initial_purchase td pl)" "keeps I (handle_rc_renewal td pl)" "keeps I (handle_rc_cancellation td pl)"
  "keeps I (handle_rc_expiration td pl)" "keeps I (handle_rc_billing_issue pl)" "keeps I (handle_rc_one_off pl)"
  "keeps I (handle_rc_product_change td pl)" "keeps I (handle_rc_alias_merge pl)"
  unfolding handle_rc_initial_purchase_def handle_rc_renewal_def handle_rc_cancellation_def handle_rc_expiration_def
    handle_rc_billing_issue_def handle_rc_one_off_def handle_rc_product_change_def handle_rc_alias_merge_def
  by (auto simp: Let_def ops_kept commit_c_kept intro!: keeps_bind keeps_seq keeps_when scopes_kept)

lemma dispatch_kept: "keeps I (dispatch_stripe_event td ev)" "keeps I (dispatch_rc_event td pl)"
  by (simp_all add: dispatch_stripe_event_def dispatch_rc_event_def stripe_handlers_kept rc_handlers_kept Let_def)

lemma webhooks_kept: "keeps I (stripe_block td raw ev)" "keeps I (revenuecat_block td secret auth addr raw pl)"
  by (simp_all add: stripe_block_def revenuecat_block_def Let_def process_kept dispatch_kept)

lemma session_kept: "keeps I m \<Longrightarrow> keeps I (in_session m)"
  by (auto simp: keeps_def in_session_def rollback_kept split: prod.split) (metis rollback_kept snd_conv)

lemma committing_kept: "keeps I m \<Longrightarrow> keeps I (committing m)"
  by (auto simp: keeps_def committing_run rollback_kept commit_kept split: prod.split sum.split)
     (metis rollback_kept snd_conv commit_kept)+

lemma snapshot_insert_kept: "keeps I (db_insert snapshots_update snapshots ch cl r)"
  by (simp add: keeps_def insert_run snapshots_kept)

lemma checkout_kept:
  "keeps I (create_checkout_web api u pid)" "keeps I (create_entitlement_grant redis adm u k v e)"
  "keeps I (purchase_credits_web api u pid)" "keeps I (cancel_web capi redis u sid now1)"
proof -
  have lazy: "keeps I (lazy_stripe_customer api u c)" for c
    by (auto simp: lazy_stripe_customer_def ops_kept intro!: keeps_bind keeps_seq split: option.split sum.split)
  show "keeps I (create_checkout_web api u pid)"
    by (auto simp: create_checkout_web_def lazy intro!: committing_kept keeps_bind split: option.split sum.split)
  show "keeps I (create_entitlement_grant redis adm u k v e)"
    by (auto simp: create_entitlement_grant_def snapshot_insert_kept ops_kept intro!: committing_kept keeps_bind keeps_seq)
  show "keeps I (purchase_credits_web api u pid)"
    by (auto simp: purchase_credits_web_def intro!: committing_kept keeps_bind split: sum.split)
  show "keeps I (cancel_web capi redis u sid now1)"
    by (auto simp: cancel_web_def ops_kept intro!: committing_kept keeps_bind keeps_seq split: option.split sum.split)
qed

end

section \<open>Interpretations\<close>

lemma credits_inv_work:
  "credits_inv s \<Longrightarrow> wallets db = wallets (work s) \<Longrightarrow> transactions db = transactions (work s)
     \<Longrightarrow> credits_inv (s\<lparr>work := db\<rparr>)"
  by (simp add: credits_inv_def wallet_inv_def balance_of_def)

interpretation wallet_frame: committing_frame credits_inv
proof unfold_locales
  show "keeps credits_inv (credit_purchase u n kind ref key)" for u n kind ref key
    by (rule credits_inv_purchase)
  show "keeps credits_inv (grant_subscription_credits u n sid t)" for u n sid t
    by (rule credits_inv_grant)
qed (simp_all add: credits_inv_work, auto simp: credits_inv_def less_Suc_eq)

lemma credit_ops_uncommitted:
  "keeps (\<lambda>s. committed s = c) (credit_purchase u n kind ref key)"
  "keeps (\<lambda>s. committed s = c) (grant_subscription_credits u n sid t)"
proof -
  have step: "keeps (\<lambda>s. committed s = c) (modify_table upd tbl f)" "keeps (\<lambda>s. committed s = c) (db_insert upd tbl ch cl r)"
    "keeps (\<lambda>s. committed s = c) uuid4" "keeps (\<lambda>s. committed s = c) rollback_c" for upd tbl f ch cl r
    by (simp_all add: keeps_def comp_simps)
  have parts: "keeps (\<lambda>s. committed s = c) (get_or_create_wallet u)" "keeps (\<lambda>s. committed s = c) (insert_tx x)"
    "keeps (\<lambda>s. committed s = c) (find_by_key k)" "keeps (\<lambda>s. committed s = c) (add_balance u n t)" for u x k n t
    by (auto simp: get_or_create_wallet_def insert_tx_def find_by_key_def add_balance_def step Let_def
        intro!: keeps_bind keeps_seq split: option.split)
  show "keeps (\<lambda>s. committed s = c) (credit_purchase u n kind ref key)"
    "keeps (\<lambda>s. committed s = c) (grant_subscription_credits u n sid t)"
    by (auto simp: credit_purchase_def grant_subscription_credits_def parts step Let_def
        intro!: keeps_bind keeps_seq keeps_catch split: option.split)
qed

interpretation uncommitted: session_frame "\<lambda>s. committed s = c" for c
  by unfold_locales (simp_all add: credit_ops_uncommitted)

end
