(* ===== verification/Billing_Deliveries.thy ===== *)
theory Billing_Deliveries
  imports Billing_Frame
begin

text \<open>
  Webhook deliveries of billing-svc end to end: the wallet invariant over all requests of the
  service, deduplication by the event ledger, and what a delivery leaves committed on the paths
  where the handlers return early, meet the inverted staleness guard, or roll a replayed grant
  back.
\<close>

section \<open>All requests together\<close>

datatype billing_request =
    Br_Credit credit_request
  | Br_Stripe tier_table json stripe_event
  | Br_Revenuecat tier_table string string string json rc_payload
  | Br_Stripe_Block tier_table json stripe_event
  | Br_Revenuecat_Block tier_table string string string json rc_payload
  | Br_Refund refund_api uuid "uuid option" "uuid option" "string option"
  | Br_Decide refund_api uuid uuid string "string option"
  | Br_Checkout checkout_api uuid string
  | Br_Grant redis uuid uuid string json "datetime option"
  | Br_Purchase checkout_api uuid string
  | Br_Cancel "bool \<Rightarrow> string option \<Rightarrow> exn + unit" redis uuid uuid bool

fun billing_exec :: "billing_request \<Rightarrow> billing_sess \<Rightarrow> billing_sess" where
  "billing_exec (Br_Credit q) s = credit_exec q s"
| "billing_exec (Br_Stripe td raw ev) s = snd (stripe_webhook td raw ev s)"
| "billing_exec (Br_Revenuecat td secret hdr addr raw pl) s = snd (revenuecat_webhook td secret hdr addr raw pl s)"
| "billing_exec (Br_Stripe_Block td raw ev) s = snd (stripe_block td raw ev s)"
| "billing_exec (Br_Revenuecat_Block td secret hdr addr raw pl) s = snd (revenuecat_block td secret hdr addr raw pl s)"
| "billing_exec (Br_Refund api uid sid tid reason) s = snd (submit_refund_request api uid sid tid reason s)"
| "billing_exec (Br_Decide api rid adm decision nt) s = snd (decide_refund api rid adm decision nt s)"
| "billing_exec (Br_Checkout api uid price) s = snd (create_checkout_web api uid price s)"
| "billing_exec (Br_Grant redis adm u k v e) s = snd (create_entitlement_grant redis adm u k v e s)"
| "billing_exec (Br_Purchase api uid price) s = snd (purchase_credits_web api uid price s)"
| "billing_exec (Br_Cancel api redis uid sid immediate) s = snd (cancel_web api redis uid sid immediate s)"

inductive billing_reach :: "billing_sess \<Rightarrow> bool" where
  start: "committed s = empty_billing_db \<Longrightarrow> billing_reach s"
| request: "billing_reach s \<Longrightarrow> billing_reach (billing_exec q s)"

lemma credits_ok_of_inv: "credits_inv s \<Longrightarrow> credits_ok s"
  by (simp add: credits_ok_def credits_inv_def)

lemma process_resets: "process_webhook p i et ts raw m (s\<lparr>work := db\<rparr>) = process_webhook p i et ts raw m s"
  by (simp add: process_webhook_def in_session_def)

lemma committing_resets: "committing m (s\<lparr>work := db\<rparr>) = committing m s"
  by (simp add: committing_run)

lemma checkout_resets:
  "create_checkout_web api uid price s = (if price = [] then (Inl (ValidationError ''price_id is required.''), s)
     else create_checkout_web api uid price (s\<lparr>work := committed s\<rparr>))"
  "create_entitlement_grant redis adm uid k v e s = (if k \<notin> fst ` set axis_registry
     then (Inl (ValidationError (''Unknown axis_key: '' @ k)), s)
     else create_entitlement_grant redis adm uid k v e (s\<lparr>work := committed s\<rparr>))"
  "purchase_credits_web api uid price (s\<lparr>work := db\<rparr>) = purchase_credits_web api uid price s"
  "cancel_web capi redis uid sid immediate (s\<lparr>work := db\<rparr>) = cancel_web capi redis uid sid immediate s"
  by (simp_all add: create_checkout_web_def create_entitlement_grant_def purchase_credits_web_def cancel_web_def raise_run committing_resets)

lemma credits_ok_process: "keeps credits_inv m \<Longrightarrow> credits_ok s \<Longrightarrow> credits_ok (snd (process_webhook p i et ts raw m s))"
  using keepsD [OF wallet_frame.process_kept credits_ok_start [of s], of m] credits_ok_of_inv
  by (simp add: process_resets)

lemma credits_ok_committing: "keeps credits_inv m \<Longrightarrow> credits_ok s \<Longrightarrow> credits_ok (snd (committing m s))"
  using keepsD [OF wallet_frame.committing_kept credits_ok_start [of s], of m] credits_ok_of_inv
  by (simp add: committing_resets)

lemma credits_ok_billing: "credits_ok s \<Longrightarrow> credits_ok (billing_exec q s)"
proof (cases q)
  case (Br_Credit x)
  then show "credits_ok s \<Longrightarrow> credits_ok (billing_exec q s)" by (simp add: credits_ok_exec)
next
  case (Br_Stripe td raw ev)
  then show "credits_ok s \<Longrightarrow> credits_ok (billing_exec q s)"
    by (simp add: stripe_webhook_def async_with_def async_session_factory_def raise_run)
next
  case (Br_Revenuecat td secret hdr addr raw pl)
  then show "credits_ok s \<Longrightarrow> credits_ok (billing_exec q s)"
    by (simp add: revenuecat_webhook_def async_with_def async_session_factory_def raise_run ret_run)
next
  case (Br_Stripe_Block td raw ev)
  then show "credits_ok s \<Longrightarrow> credits_ok (billing_exec q s)"
    by (simp add: stripe_block_def credits_ok_process wallet_frame.dispatch_kept)
next
  case (Br_Revenuecat_Block td secret hdr addr raw pl)
  then show "credits_ok s \<Longrightarrow> credits_ok (billing_exec q s)"
    by (simp add: revenuecat_block_def ret_run Let_def credits_ok_process wallet_frame.dispatch_kept)
next
  case (Br_Refund api uid sid tid reason)
  have "keeps credits_inv (bind_c (create_refund_request api uid k sid tid reason) (\<lambda>rr. ret (f rr)))"
    for k and f :: "refund_request \<Rightarrow> refund_out"
    by (intro keeps_bind wallet_frame.refund_ops_kept) simp
  then show "credits_ok s \<Longrightarrow> credits_ok (billing_exec q s)" using Br_Refund
    by (simp add: submit_refund_request_def raise_run Let_def credits_ok_committing)
next
  case (Br_Decide api rid adm decision nt)
  have "keeps credits_inv (bind_c (admin_decide_refund api rid adm decision nt) (\<lambda>rr. ret (f rr)))"
    for f :: "refund_request \<Rightarrow> uuid \<times> refund_status"
    by (intro keeps_bind wallet_frame.refund_ops_kept) simp
  then show "credits_ok s \<Longrightarrow> credits_ok (billing_exec q s)" using Br_Decide
    by (simp add: decide_refund_def raise_run credits_ok_committing)
next
  case (Br_Checkout api uid price)
  then show "credits_ok s \<Longrightarrow> credits_ok (billing_exec q s)"
    using keepsD [OF wallet_frame.checkout_kept(1) credits_ok_start, of s, THEN credits_ok_of_inv]
    by (simp add: checkout_resets(1) [of _ _ _ s])
next
  case (Br_Grant redis adm u k v e)
  then show "credits_ok s \<Longrightarrow> credits_ok (billing_exec q s)"
    using keepsD [OF wallet_frame.checkout_kept(2) credits_ok_start, of s, THEN credits_ok_of_inv]
    by (simp add: checkout_resets(2) [of _ _ _ _ _ _ s])
next
  case (Br_Purchase api uid price)
  then show "credits_ok s \<Longrightarrow> credits_ok (billing_exec q s)"
    using keepsD [OF wallet_frame.checkout_kept(3) credits_ok_start, of s, THEN credits_ok_of_inv]
    by (simp add: checkout_resets(3))
next
  case (Br_Cancel api redis uid sid immediate)
  then show "credits_ok s \<Longrightarrow> credits_ok (billing_exec q s)"
    using keepsD [OF wallet_frame.checkout_kept(4) credits_ok_start, of s, THEN credits_ok_of_inv]
    by (simp add: checkout_resets(4))
qed

lemma billing_reach_ok: "billing_reach s \<Longrightarrow> credits_ok s"
proof (induction rule: billing_reach.induct)
  case (start s)
  then show ?case by (simp add: credits_ok_def wallet_inv_def empty_billing_db_def balance_of_def)
qed (rule credits_ok_billing)

section \<open>What arrives over HTTP\<close>














section \<open>Deliveries\<close>

definition delivered :: "billing_db \<Rightarrow> provider \<Rightarrow> string \<Rightarrow> bool" where
  "delivered db p i \<longleftrightarrow> list_ex (\<lambda>r. wl_key r = (p, i)) (ledger db)"

lemma process_delivered:
  "delivered (committed s) p i \<Longrightarrow> process_webhook p i et ts raw m s = (Inr Wr_Duplicate, s\<lparr>work := committed s\<rparr>)"
  by (simp add: process_webhook_def insert_ledger_event_def in_session_def comp_simps delivered_def)

lemma process_new:
  assumes "\<not> delivered (committed s) p i"
  obtains row where "wl_key row = (p, i)" "process_webhook p i et ts raw m s =
    (case m (s\<lparr>work := (committed s)\<lparr>ledger := ledger (committed s) @ [row]\<rparr>\<rparr>) of
       (Inl e, s1) \<Rightarrow> (Inr Wr_Internal_Error, s1\<lparr>work := committed s1\<rparr>)
     | (Inr _, s1) \<Rightarrow> (Inr Wr_Ok, s1\<lparr>work := committed s1\<rparr>))"
proof -
  let ?row = "\<lparr>wl_id = fresh_serial (ledger (committed s)), wl_provider = p, wl_provider_event_id = i,
      wl_event_type = et, wl_event_timestamp = ts, wl_payload = raw, wl_signature_valid = True,
      wl_status = Wl_Received, wl_attempts = 0, wl_last_error = None, wl_received_at = clock s, wl_processed_at = None\<rparr>"
  have "wl_key ?row = (p, i)" by (simp add: wl_key_def)
  then show thesis
    using assms by (rule_tac that) (auto simp: process_webhook_def insert_ledger_event_def in_session_def comp_simps
        delivered_def Let_def split: prod.split sum.split)
qed

section \<open>Properties\<close>

text \<open>C1. In every state that credit requests, Stripe and RevenueCat webhooks, refunds, checkouts, cancellations and
  grants can reach together, whatever payloads arrive and whatever Stripe answers, each user's committed
  balance is the sum of the settled rows of the credit ledger.\<close>

theorem wallet_invariant_everywhere:
  assumes "billing_reach s"
  shows "balance_of (committed s) u = sum_by (settled u) ct_delta (transactions (committed s))"
  using billing_reach_ok [OF assms] by (simp add: credits_ok_def wallet_inv_def)


text \<open>A delivery whose event id the ledger already holds is answered as a duplicate: nothing is
  committed, published or numbered.\<close>

theorem duplicate_delivery_is_inert:
  "(delivered (committed s) Pv_Stripe (get_or (se_id ev) []) \<longrightarrow>
      stripe_block td raw ev s = (Inr Wr_Duplicate, s\<lparr>work := committed s\<rparr>))
   \<and> (delivered (committed s) Pv_Revenuecat (get_or (rc_id (extract_rc_event pl)) addr)
        \<and> verify_revenuecat_signature hdr secret \<longrightarrow>
      revenuecat_block td secret hdr addr raw pl s = (Inr Wr_Duplicate, s\<lparr>work := committed s\<rparr>))"
  by (simp add: stripe_block_def revenuecat_block_def Let_def process_delivered)

text \<open>A completed checkout that is not a credit payment commits nothing, not even its ledger row
  or the customer it links: the handler returns without a commit and the session is closed. So
  does every Stripe event type without a handler, and a redelivery is processed again.\<close>

theorem subscription_checkout_is_lost:
  assumes "se_type ev = Some ''checkout.session.completed'' \<and> so_mode (se_object ev) \<noteq> Some ''payment''
     \<or> get_or (se_type ev) [] \<notin> {''checkout.session.completed'', ''customer.subscription.created'',
         ''customer.subscription.updated'', ''customer.subscription.deleted'', ''invoice.paid'',
         ''invoice.payment_failed'', ''charge.refunded''}"
  shows "committed (snd (stripe_block td raw ev s)) = committed s"
proof -
  have "keeps (\<lambda>x. committed x = committed s) (dispatch_stripe_event td ev)"
    using assms by (auto simp: dispatch_stripe_event_def get_or_def Let_def uncommitted.checkout_without_payment_kept)
  from keepsD [OF uncommitted.process_kept [OF this]] show ?thesis
    by (simp add: stripe_block_def)
qed

text \<open>The staleness guard is inverted: a deletion event created after the last write of the
  subscription row leaves the row (and so its status) untouched, although the service announces
  the cancellation and the Free tier; the delivery counts as processed.\<close>

theorem newer_cancellation_is_ignored:
  assumes new: "\<not> delivered (committed s) Pv_Stripe (get_or (se_id ev) [])"
    and type: "se_type ev = Some ''customer.subscription.deleted''"
    and cust: "filter (\<lambda>c. cu_stripe_customer_id c = Some (get_or (ss_customer (se_object ev)) [])) (customers (committed s)) = [c]"
    and row: "filter (stripe_row_of (stripe_sub.truncate (se_object ev))) (subscriptions (committed s)) = [r]"
    and newer: "sub_updated_at r < event_time ev"
  shows "case stripe_block td raw ev s of (x, s1) \<Rightarrow> x = Inr Wr_Ok
     \<and> subscriptions (committed s1) = subscriptions (committed s)
     \<and> delivered (committed s1) Pv_Stripe (get_or (se_id ev) [])
     \<and> map routing_key (outbox s1) = map routing_key (outbox s) @ [''entitlement.changed'', ''subscription.canceled'']"
proof -
  obtain lr where lr: "wl_key lr = (Pv_Stripe, get_or (se_id ev) [])"
    "stripe_block td raw ev s = (case dispatch_stripe_event td ev
         (s\<lparr>work := (committed s)\<lparr>ledger := ledger (committed s) @ [lr]\<rparr>\<rparr>) of
       (Inl e, s1) \<Rightarrow> (Inr Wr_Internal_Error, s1\<lparr>work := committed s1\<rparr>)
     | (Inr _, s1) \<Rightarrow> (Inr Wr_Ok, s1\<lparr>work := committed s1\<rparr>))"
    unfolding stripe_block_def by (rule process_new [OF new])
  have up: "upsert_subscription_from_stripe (stripe_sub.truncate (se_object ev)) u Free (event_time ev) x = (Inr r, x)"
    if "subscriptions (work x) = subscriptions (committed s)" for u x
    using stripe_upsert_existing [of _ x r] row newer that by simp
  show ?thesis
    using cust lr(1) type
    by (simp add: lr(2) dispatch_stripe_event_def get_or_def handle_sub_canceled_def for_stripe_user_def
        get_user_id_from_stripe_customer_def comp_simps up apply_run publish_entitlement_changed_def publish_event_def
        Let_def delivered_def)
qed

text \<open>A paid invoice of a subscription whose current period has its credits already.\<close>

lemma grant_replayed:
  assumes "credits_inv s" "grant_key sid ps \<in> tx_keys (work s)"
  shows "grant_subscription_credits u a sid ps s = (Inr None, s\<lparr>next_uuid := Suc (next_uuid s), work := committed s\<rparr>)"
  using assms by (simp add: grant_run)

lemma mark_recovered_total:
  assumes "length (filter (open_case_of sid) (dunning_cases (work s))) \<le> 1"
  obtains r cs where "mark_recovered sid s = (Inr r, s\<lparr>work := (work s)\<lparr>dunning_cases := cs\<rparr>\<rparr>)"
proof (cases "filter (open_case_of sid) (dunning_cases (work s))" rule: remdups_adj.cases)
  case 1
  then show ?thesis by (intro that [of None "dunning_cases (work s)"]) (simp add: mark_recovered_def comp_simps)
next
  case (2 c)
  then show ?thesis by (intro that) (simp add: mark_recovered_def comp_simps)
next
  case (3 a b cs)
  with assms show ?thesis by simp
qed

text \<open>When an invoice arrives for a paid subscription whose period has been granted already (a
  proration, or a second invoice of the period), the grant rolls the whole transaction back: the
  delivery is answered with ok, but neither the invoice nor the ledger row is stored.\<close>

theorem second_invoice_of_period_is_lost:
  assumes ok: "credits_ok s"
    and new: "\<not> delivered (committed s) Pv_Stripe (get_or (se_id ev) [])"
    and type: "se_type ev = Some ''invoice.paid''"
    and cust: "filter (\<lambda>c. cu_stripe_customer_id c = Some (get_or (ss_customer (se_object ev)) [])) (customers (committed s)) = [c]"
    and inv: "filter (\<lambda>i. iv_stripe_invoice_id i = Some (get_or (ss_id (se_object ev)) [])) (invoices (committed s)) = []"
    and sub: "so_subscription (se_object ev) = Some sid" "sid \<noteq> []"
      "filter (\<lambda>r. store_subscription_id r = Some sid) (subscriptions (committed s)) = [r]" "sub_tier r \<noteq> Free"
    and granted: "tier_credits td (sub_tier r) = Inr n" "0 < n"
      "grant_key (sub_id r) (current_period_start r) \<in> tx_keys (committed s)"
    and one: "length (filter (open_case_of (sub_id r)) (dunning_cases (committed s))) \<le> 1"
  shows "case stripe_block td raw ev s of (x, s1) \<Rightarrow> x = Inr Wr_Ok
     \<and> invoices (committed s1) = invoices (committed s) \<and> ledger (committed s1) = ledger (committed s)"
proof -
  obtain lr where lr: "stripe_block td raw ev s = (case dispatch_stripe_event td ev
         (s\<lparr>work := (committed s)\<lparr>ledger := ledger (committed s) @ [lr]\<rparr>\<rparr>) of
       (Inl e, s1) \<Rightarrow> (Inr Wr_Internal_Error, s1\<lparr>work := committed s1\<rparr>)
     | (Inr _, s1) \<Rightarrow> (Inr Wr_Ok, s1\<lparr>work := committed s1\<rparr>))"
    unfolding stripe_block_def by (rule process_new [OF new])
  let ?s0 = "s\<lparr>work := (committed s)\<lparr>ledger := ledger (committed s) @ [lr]\<rparr>\<rparr>"
  obtain row where m: "mirror_invoice (se_object ev) (cu_user_id c) ?s0 = (Inr (), s\<lparr>next_uuid := Suc (next_uuid s),
      work := (committed s)\<lparr>ledger := ledger (committed s) @ [lr], invoices := invoices (committed s) @ [row]\<rparr>\<rparr>)"
  proof -
    have "\<forall>x \<in> set (invoices (committed s)). iv_stripe_invoice_id x \<noteq> Some (get_or (ss_id (se_object ev)) [])"
      using inv by (simp add: filter_empty_conv)
    then show ?thesis using inv
      by (intro that) (auto simp: mirror_invoice_def comp_simps Let_def iv_clash_def list_ex_iff)
  qed
  let ?s1 = "s\<lparr>next_uuid := Suc (next_uuid s),
      work := (committed s)\<lparr>ledger := ledger (committed s) @ [lr], invoices := invoices (committed s) @ [row]\<rparr>\<rparr>"
  have "credits_inv (s\<lparr>next_uuid := Suc (next_uuid s), work := committed s\<rparr>)"
    using credits_ok_start [OF ok] by (auto simp: credits_inv_def less_Suc_eq)
  from credits_inv_work [OF this, of "(committed s)\<lparr>ledger := ledger (committed s) @ [lr],
      invoices := invoices (committed s) @ [row]\<rparr>"] have i1: "credits_inv ?s1" by simp
  have g: "grant_subscription_credits (cu_user_id c) n (sub_id r) (current_period_start r) ?s1
      = (Inr None, ?s1\<lparr>next_uuid := Suc (Suc (next_uuid s)), work := committed s\<rparr>)"
    using grant_replayed [OF i1, of "sub_id r" "current_period_start r"] granted(3) by simp
  let ?s2 = "?s1\<lparr>next_uuid := Suc (Suc (next_uuid s)), work := committed s\<rparr>"
  obtain msg where p: "publish_granted (cu_user_id c) n ''subscription_renewal'' ?s2 = (Inr (), ?s2\<lparr>outbox := outbox s @ [msg]\<rparr>)"
    by (simp add: publish_granted_def publish_event_def comp_simps)
  obtain q cs where rec: "mark_recovered (sub_id r) (?s2\<lparr>outbox := outbox s @ [msg]\<rparr>)
      = (Inr q, ?s2\<lparr>outbox := outbox s @ [msg], work := (committed s)\<lparr>dunning_cases := cs\<rparr>\<rparr>)"
    using mark_recovered_total [of "sub_id r" "?s2\<lparr>outbox := outbox s @ [msg]\<rparr>"] one by auto
  have "handle_invoice_paid td ev ?s0 = (Inr (), ?s2\<lparr>outbox := outbox s @ [msg],
      work := (committed s)\<lparr>dunning_cases := cs\<rparr>, committed := (committed s)\<lparr>dunning_cases := cs\<rparr>\<rparr>)"
    using cust sub granted m g p rec
    by (simp add: handle_invoice_paid_def for_stripe_user_def get_user_id_from_stripe_customer_def
        with_invoice_sub_def comp_simps Let_def)
  then show ?thesis using type by (simp add: lr dispatch_stripe_event_def Let_def get_or_def)
qed

text \<open>A RevenueCat renewal whose period has been granted already never succeeds: the grant's
  rollback expires the subscription the handler still reads, so the delivery is answered with an
  internal error and commits nothing, after the credits were announced; every retry, at any
  later time, ends the same way while the subscription row and the granted period stay.\<close>

theorem renewal_of_granted_period_fails:
  assumes ok: "credits_ok s"
    and auth: "verify_revenuecat_signature hdr secret"
    and ev: "extract_rc_event pl = e" "rc_event_type pl = ''RENEWAL''" "parse_user_id e = Some u"
      "rc_original_transaction_id e = Some otx" "rc_purchased_at_ms e = Some ms" "ms \<noteq> 0"
    and new: "\<not> delivered (committed s) Pv_Revenuecat (get_or (rc_id e) addr)"
    and row: "filter (\<lambda>r. store_subscription_id r = Some otx \<and> sub_source r = Src_Revenuecat)
       (subscriptions (committed s)) = [r]"
    and granted: "tier_credits td (map_product_to_tier (get_or (rc_product_id e) ''unknown'')) = Inr n" "0 < n"
      "grant_key (sub_id r) (from_millis ms) \<in> tx_keys (committed s)"
    and one: "length (filter (open_case_of (sub_id r)) (dunning_cases (committed s))) \<le> 1"
  shows "case revenuecat_block td secret hdr addr raw pl s of (x, s1) \<Rightarrow> x = Inr Wr_Internal_Error
     \<and> committed s1 = committed s \<and> map routing_key (outbox s1) = map routing_key (outbox s) @ [''credits.granted'']"
proof -
  obtain lr where lr: "process_webhook Pv_Revenuecat (get_or (rc_id e) addr) (get_or (rc_type e) ''UNKNOWN'')
          (from_millis (or_zero (rc_event_timestamp_ms e))) raw (dispatch_rc_event td pl) s
      = (case dispatch_rc_event td pl
         (s\<lparr>work := (committed s)\<lparr>ledger := ledger (committed s) @ [lr]\<rparr>\<rparr>) of
       (Inl e, s1) \<Rightarrow> (Inr Wr_Internal_Error, s1\<lparr>work := committed s1\<rparr>)
     | (Inr _, s1) \<Rightarrow> (Inr Wr_Ok, s1\<lparr>work := committed s1\<rparr>))"
    by (rule process_new [OF new])
  let ?s0 = "s\<lparr>work := (committed s)\<lparr>ledger := ledger (committed s) @ [lr]\<rparr>\<rparr>"
  let ?sub = "rc_changes e Active (clock s) r"
  have up: "\<exists>x. upsert_subscription_from_rc e u ''RENEWAL'' ?s0 = (Inr ?sub, x) \<and> committed x = committed s
      \<and> outbox x = outbox s \<and> clock x = clock s \<and> dunning_cases (work x) = dunning_cases (committed s)
      \<and> wallets (work x) = wallets (committed s) \<and> transactions (work x) = transactions (committed s)
      \<and> next_uuid s \<le> next_uuid x"
    using row by (simp add: upsert_subscription_from_rc_def comp_simps Let_def ev(4) get_or_def rc_status_def
        rc_status_map_def save_subscription_run)
  then obtain x where x: "upsert_subscription_from_rc e u ''RENEWAL'' ?s0 = (Inr ?sub, x)" "committed x = committed s"
    "outbox x = outbox s" "clock x = clock s" "dunning_cases (work x) = dunning_cases (committed s)"
    "wallets (work x) = wallets (committed s)" "transactions (work x) = transactions (committed s)"
    "next_uuid s \<le> next_uuid x" by blast
  obtain y where y: "apply_entitlements_for_user td u ?sub x = (Inr (), y)" "committed y = committed s"
    "outbox y = outbox s" "dunning_cases (work y) = dunning_cases (committed s)"
    "wallets (work y) = wallets (committed s)" "transactions (work y) = transactions (committed s)"
    "next_uuid s \<le> next_uuid y" using x by (simp add: apply_run)
  have sid: "sub_id ?sub = sub_id r" "sub_tier ?sub = map_product_to_tier (get_or (rc_product_id e) ''unknown'')"
    "current_period_start ?sub = from_millis ms"
    using ev(5,6) by (simp_all add: rc_changes_def millis_or_def)
  obtain q cs where rec: "mark_recovered (sub_id r) y = (Inr q, y\<lparr>work := (work y)\<lparr>dunning_cases := cs\<rparr>\<rparr>)"
    using mark_recovered_total [of "sub_id r" y] one y(4) by auto
  let ?z = "y\<lparr>work := (work y)\<lparr>dunning_cases := cs\<rparr>\<rparr>"
  have "credits_inv ?z"
    using ok y(2,5,6,7) by (auto simp: credits_inv_def credits_ok_def wallet_inv_def balance_of_def)
  then have g: "grant_subscription_credits u n (sub_id r) (from_millis ms) ?z
      = (Inr None, ?z\<lparr>next_uuid := Suc (next_uuid y), work := committed s\<rparr>)"
    using grant_replayed [of ?z "sub_id r" "from_millis ms" u n] granted(3) y(2,6) by simp
  have "handle_rc_renewal td pl ?s0 = (Inl MissingGreenlet, ?z\<lparr>next_uuid := Suc (next_uuid y), work := committed s,
      outbox := outbox s @ [Message ''credits.granted''
        [(''user_id'', JStr (str_uuid u)), (''amount'', JInt n), (''reason'', JStr ''renewal'')]]\<rparr>)"
    using ev(1,3) x(1) y(1,3) rec g granted(1,2)
    by (simp add: handle_rc_renewal_def for_rc_user_def comp_simps sid grant_tier_credits_def publish_granted_def
        publish_event_def read_tier_def)
  moreover have d: "dispatch_rc_event td pl = handle_rc_renewal td pl" by (simp add: dispatch_rc_event_def ev(2))
  ultimately show ?thesis using auth ev(1) y(2)
    by (simp add: revenuecat_block_def Let_def d lr [unfolded d])
qed

section \<open>Witnesses\<close>

definition blank_object :: stripe_object where
  "blank_object = \<lparr>ss_id = None, ss_customer = None, ss_status = None, ss_period_start = None, ss_period_end = None,
     ss_trial_end = None, ss_items = None, ss_cancel_at_period_end = None, so_mode = None, so_client_reference_id = None,
     so_credit_amount = None, so_amount_paid = None, so_currency = None, so_tax = None, so_period_start = None,
     so_period_end = None, so_hosted_invoice_url = None, so_invoice_pdf = None, so_subscription = None,
     so_refund_ids = None, so_invoice = None, so_amount_refunded = None\<rparr>"

definition demo_event :: "string \<Rightarrow> int \<Rightarrow> stripe_object \<Rightarrow> stripe_event" where
  "demo_event t at obj = \<lparr>se_id = Some ''evt_1'', se_type = Some t, se_created = Some at, se_object = obj\<rparr>"

definition demo_rc :: rc_event where
  "demo_rc = \<lparr>rc_id = Some ''rc_1'', rc_type = Some ''RENEWAL'', rc_app_user_id = Some (str_uuid 7),
     rc_product_id = Some ''colab_premium_monthly'', rc_store = None, rc_original_transaction_id = Some ''otx_1'',
     rc_expiration_at_ms = Some 5000, rc_purchased_at_ms = Some 1000, rc_event_timestamp_ms = None\<rparr>"

definition demo_hook_db :: billing_db where
  "demo_hook_db = empty_billing_db\<lparr>customers := [new_customer 2 7 (Some ''cus_1'') 0],
     subscriptions := [demo_sub 1 Premium Active 50,
        (demo_sub 4 Premium Active 50)\<lparr>sub_source := Src_Revenuecat, store_subscription_id := Some ''otx_1''\<rparr>],
     transactions := [settled_tx 8 7 200 ''subscription_grant'' ''subscription'' (str_uuid 1) (grant_key 1 0) 0,
        settled_tx 9 7 200 ''subscription_grant'' ''subscription'' (str_uuid 4) (grant_key 4 0) 0],
     wallets := [new_wallet 7 0\<lparr>cw_balance := 400\<rparr>]\<rparr>"

definition demo_hook :: billing_sess where
  "demo_hook = \<lparr>committed = demo_hook_db, work = demo_hook_db, outbox = [], clock = 10, next_uuid = 10\<rparr>"

lemma wallet_invariant_everywhere_witness:
  "balance_of (committed (billing_exec (Br_Credit (Cr_Purchase 7 10 ''ppi'' ''pi_1'' ''pk1'')) demo_start)) 7 =
     sum_by (settled 7) ct_delta (transactions (committed (billing_exec (Br_Credit (Cr_Purchase 7 10 ''ppi'' ''pi_1'' ''pk1'')) demo_start)))
   \<and> balance_of (committed (billing_exec (Br_Credit (Cr_Purchase 7 10 ''ppi'' ''pi_1'' ''pk1'')) demo_start)) 7 = 10"
proof
  have "billing_reach demo_start" by (rule billing_reach.start) (simp add: demo_start_def)
  then show "balance_of (committed (billing_exec (Br_Credit (Cr_Purchase 7 10 ''ppi'' ''pi_1'' ''pk1'')) demo_start)) 7 =
     sum_by (settled 7) ct_delta (transactions (committed (billing_exec (Br_Credit (Cr_Purchase 7 10 ''ppi'' ''pi_1'' ''pk1'')) demo_start)))"
    by (intro wallet_invariant_everywhere billing_reach.request)
qed code_simp



definition demo_ledger_row :: webhook_event where
  "demo_ledger_row = \<lparr>wl_id = 1, wl_provider = Pv_Stripe, wl_provider_event_id = ''evt_1'', wl_event_type = ''invoice.paid'',
     wl_event_timestamp = 0, wl_payload = JNull, wl_signature_valid = True, wl_status = Wl_Received, wl_attempts = 0,
     wl_last_error = None, wl_received_at = 0, wl_processed_at = None\<rparr>"

lemma duplicate_delivery_is_inert_witness:
  "stripe_block tier_defaults JNull (demo_event ''invoice.paid'' 0 blank_object)
     (demo_hook\<lparr>committed := demo_hook_db\<lparr>ledger := [demo_ledger_row]\<rparr>\<rparr>)
   = (Inr Wr_Duplicate, demo_hook\<lparr>committed := demo_hook_db\<lparr>ledger := [demo_ledger_row]\<rparr>,
        work := demo_hook_db\<lparr>ledger := [demo_ledger_row]\<rparr>\<rparr>)"
proof -
  have "delivered (committed (demo_hook\<lparr>committed := demo_hook_db\<lparr>ledger := [demo_ledger_row]\<rparr>\<rparr>)) Pv_Stripe
      (get_or (se_id (demo_event ''invoice.paid'' 0 blank_object)) [])"
    by (simp add: delivered_def demo_ledger_row_def wl_key_def demo_event_def get_or_def)
  then show ?thesis using duplicate_delivery_is_inert [where td = tier_defaults and raw = JNull] by simp
qed

lemma subscription_checkout_is_lost_witness:
  "committed (snd (stripe_block tier_defaults JNull (demo_event ''checkout.session.completed'' 0
     (blank_object\<lparr>so_mode := Some ''subscription'', so_client_reference_id := Some (str_uuid 9),
        ss_customer := Some ''cus_9''\<rparr>)) demo_hook)) = demo_hook_db"
  using subscription_checkout_is_lost [of "demo_event ''checkout.session.completed'' 0
     (blank_object\<lparr>so_mode := Some ''subscription'', so_client_reference_id := Some (str_uuid 9),
        ss_customer := Some ''cus_9''\<rparr>)" tier_defaults JNull demo_hook]
  by (simp add: demo_event_def demo_hook_def)

lemmas demo_defs = demo_hook_def demo_hook_db_def empty_billing_db_def demo_event_def blank_object_def demo_sub_def
  demo_rc_def new_customer_def get_or_def stripe_row_of_def stripe_sub.defs delivered_def tier_credits_def
  event_time_def or_zero_def from_seconds_def extract_rc_event_def rc_event_type_def settled_tx_def
  verify_revenuecat_signature_def strip_chars_def is_space_def grant_key_def date_of_def from_millis_def
  map_product_to_tier_def lower_char_def

lemma newer_cancellation_is_ignored_witness:
  "subscriptions (committed (snd (stripe_block tier_defaults JNull (demo_event ''customer.subscription.deleted'' 100
     (blank_object\<lparr>ss_id := Some ''sub_x'', ss_customer := Some ''cus_1'', ss_status := Some ''canceled''\<rparr>)) demo_hook)))
   = subscriptions (committed demo_hook)"
proof -
  let ?obj = "blank_object\<lparr>ss_id := Some ''sub_x'', ss_customer := Some ''cus_1'', ss_status := Some ''canceled''\<rparr>"
  let ?ev = "demo_event ''customer.subscription.deleted'' 100 ?obj"
  have "\<not> delivered (committed demo_hook) Pv_Stripe (get_or (se_id ?ev) [])"
    "filter (\<lambda>c. cu_stripe_customer_id c = Some (get_or (ss_customer (se_object ?ev)) [])) (customers (committed demo_hook))
       = [new_customer 2 7 (Some ''cus_1'') 0]"
    "filter (stripe_row_of (stripe_sub.truncate (se_object ?ev))) (subscriptions (committed demo_hook)) = [demo_sub 1 Premium Active 50]"
    "sub_updated_at (demo_sub 1 Premium Active 50) < event_time ?ev"
    by (simp_all add: demo_defs)
  moreover have "se_type ?ev = Some ''customer.subscription.deleted''" by (simp add: demo_event_def)
  ultimately show ?thesis
    using newer_cancellation_is_ignored [of demo_hook ?ev "new_customer 2 7 (Some ''cus_1'') 0" "demo_sub 1 Premium Active 50"
      tier_defaults JNull] by (auto split: prod.splits)
qed

lemma second_invoice_of_period_is_lost_witness:
  "invoices (committed (snd (stripe_block tier_defaults JNull (demo_event ''invoice.paid'' 100
     (blank_object\<lparr>ss_id := Some ''in_7'', ss_customer := Some ''cus_1'', so_subscription := Some ''sub_x''\<rparr>)) demo_hook))) = []"
proof -
  let ?obj = "blank_object\<lparr>ss_id := Some ''in_7'', ss_customer := Some ''cus_1'', so_subscription := Some ''sub_x''\<rparr>"
  let ?ev = "demo_event ''invoice.paid'' 100 ?obj"
  let ?r = "demo_sub 1 Premium Active 50"
  have ok: "credits_ok demo_hook"
    by (auto simp: credits_ok_def wallet_inv_def balance_of_def demo_hook_def demo_hook_db_def empty_billing_db_def
        settled_tx_def settled_def new_wallet_def) code_simp
  have "\<not> delivered (committed demo_hook) Pv_Stripe (get_or (se_id ?ev) [])"
    "filter (\<lambda>c. cu_stripe_customer_id c = Some (get_or (ss_customer (se_object ?ev)) [])) (customers (committed demo_hook))
       = [new_customer 2 7 (Some ''cus_1'') 0]"
    "filter (\<lambda>i. iv_stripe_invoice_id i = Some (get_or (ss_id (se_object ?ev)) [])) (invoices (committed demo_hook)) = []"
    "filter (\<lambda>r. store_subscription_id r = Some ''sub_x'') (subscriptions (committed demo_hook)) = [?r]"
    "sub_tier ?r \<noteq> Free" "tier_credits tier_defaults (sub_tier ?r) = Inr 200"
    "grant_key (sub_id ?r) (current_period_start ?r) \<in> tx_keys (committed demo_hook)"
    "length (filter (open_case_of (sub_id ?r)) (dunning_cases (committed demo_hook))) \<le> 1"
    "invoices (committed demo_hook) = []"
    by (simp_all add: demo_defs)
  moreover have "se_type ?ev = Some ''invoice.paid''" "so_subscription (se_object ?ev) = Some ''sub_x''"
    by (simp_all add: demo_event_def)
  ultimately show ?thesis
    using second_invoice_of_period_is_lost [of demo_hook ?ev "new_customer 2 7 (Some ''cus_1'') 0" "''sub_x''" ?r tier_defaults 200 JNull] ok
    by (auto split: prod.splits)
qed

lemma renewal_of_granted_period_fails_witness:
  "fst (revenuecat_block tier_defaults ''s3cret'' '' s3cret'' ''0x1'' JNull \<lparr>rp_event = None, rp_flat = demo_rc\<rparr> demo_hook)
     = Inr Wr_Internal_Error"
proof -
  let ?pl = "\<lparr>rp_event = None, rp_flat = demo_rc\<rparr>"
  let ?r = "(demo_sub 4 Premium Active 50)\<lparr>sub_source := Src_Revenuecat, store_subscription_id := Some ''otx_1''\<rparr>"
  have ok: "credits_ok demo_hook"
    by (auto simp: credits_ok_def wallet_inv_def balance_of_def demo_hook_def demo_hook_db_def empty_billing_db_def
        settled_tx_def settled_def new_wallet_def) code_simp
  have "verify_revenuecat_signature '' s3cret'' ''s3cret''" "extract_rc_event ?pl = demo_rc" "rc_event_type ?pl = ''RENEWAL''"
    "rc_original_transaction_id demo_rc = Some ''otx_1''" "rc_purchased_at_ms demo_rc = Some 1000"
    "\<not> delivered (committed demo_hook) Pv_Revenuecat (get_or (rc_id demo_rc) ''0x1'')"
    "filter (\<lambda>r. store_subscription_id r = Some ''otx_1'' \<and> sub_source r = Src_Revenuecat) (subscriptions (committed demo_hook)) = [?r]"
    "tier_credits tier_defaults (map_product_to_tier (get_or (rc_product_id demo_rc) ''unknown'')) = Inr 200"
    "grant_key (sub_id ?r) (from_millis 1000) \<in> tx_keys (committed demo_hook)"
    "length (filter (open_case_of (sub_id ?r)) (dunning_cases (committed demo_hook))) \<le> 1"
    by (simp_all add: demo_defs)
  moreover have "parse_user_id demo_rc = Some 7"
    by (simp add: parse_user_id_def demo_rc_def get_or_def parse_str_uuid)
  ultimately show ?thesis
    using renewal_of_granted_period_fails [of demo_hook "'' s3cret''" "''s3cret''" ?pl demo_rc 7 "''otx_1''" 1000 "''0x1''" ?r
        tier_defaults 200 JNull] ok
    by (auto split: prod.splits)
qed

end
