(* ===== verification/Billing_Internal.thy ===== *)
theory Billing_Internal
  imports Billing_Wallet Billing_Entitlements Colab_Platform
begin

text \<open>
  The internal endpoints of billing-svc as other services reach them over HTTP (app/routers/internal.py): every
  one depends on \<open>require_role("service", "admin")\<close>, and none of the services that call them sends a token.
\<close>

definition internal_caller :: "jwt_library \<Rightarrow> http_headers \<Rightarrow> exn + service_user" where
  "internal_caller jwt headers = require_role [''service'', ''admin''] jwt headers []"

text \<open>The status a caller with these headers is refused with, if it is.\<close>

definition refused_with :: "jwt_library \<Rightarrow> http_headers \<Rightarrow> nat option" where
  "refused_with jwt headers = (case internal_caller jwt headers of Inl e \<Rightarrow> Some (refusal_status e) | Inr _ \<Rightarrow> None)"

definition get_entitlements_for_user ::
  "jwt_library \<Rightarrow> http_headers \<Rightarrow> tier_table \<Rightarrow> redis \<Rightarrow> uuid \<Rightarrow> (resolved \<times> redis) billing" where
  "get_entitlements_for_user jwt headers td redis u = (case internal_caller jwt headers of
     Inl e \<Rightarrow> raise e | Inr _ \<Rightarrow> get_cached_entitlements td redis u)"

definition entitlements_over_http :: "jwt_library \<Rightarrow> tier_table \<Rightarrow> redis \<Rightarrow> billing_sess \<Rightarrow> entitlements_api" where
  "entitlements_over_http jwt td redis s headers u = (case fst (get_entitlements_for_user jwt headers td redis u s) of
     Inl e \<Rightarrow> Billing_Reply (refusal_status e) None
   | Inr (r, _) \<Rightarrow> Billing_Reply 200 (Some (re_axes r)))"

lemma untokened_is_refused:
  assumes "map_of headers ''Authorization'' = None"
  shows "refused_with jwt headers = Some 401" "entitlements_over_http jwt td redis s headers u = Billing_Reply 401 None"
  using no_token_refused [OF assms]
  by (simp_all add: refused_with_def internal_caller_def refusal_status_def entitlements_over_http_def get_entitlements_for_user_def raise_run)

end
