(* ===== verification/Colab_Paging.thy ===== *)
theory Colab_Paging
  imports Colab_Prelude "HOL-Library.Product_Lexorder"
begin

text \<open>
  Keyset pagination as the list endpoints of the services do it: newest first by a time and an
  identifier, a page after a cursor, one row more than the limit to see whether more follow.
  The locale \<open>keyset_listing\<close> states what such a listing promises; its client is the caller who
  follows the cursors, and reads every row exactly once.
\<close>

text \<open>
  A cursor is the pair its base64 text encodes; a text \<open>_decode_cursor\<close> cannot read is None.
\<close>

type_synonym cursor = "datetime \<times> uuid"

section \<open>Pages after a cursor\<close>

definition before_cursor :: "('r \<Rightarrow> cursor) \<Rightarrow> cursor option \<Rightarrow> 'r \<Rightarrow> bool" where
  "before_cursor key cur r = (case cur of None \<Rightarrow> True
     | Some (cur_dt, cur_id) \<Rightarrow> fst (key r) < cur_dt \<or> (fst (key r) = cur_dt \<and> snd (key r) < cur_id))"

text \<open>
  The tail of both list queries: newest first by (created_at, id), one row more than the limit
  to see whether there is a next page, the last row shown as the next cursor.
\<close>

definition cut_page :: "('r \<Rightarrow> cursor) \<Rightarrow> nat \<Rightarrow> 'r list \<Rightarrow> 'r list \<times> cursor option" where
  "cut_page key limit found =
     (let rows = take (limit + 1) found; items = take limit rows in
      (items, if limit < length rows \<and> items \<noteq> [] then Some (key (last items)) else None))"

definition keyset_page :: "('r \<Rightarrow> cursor) \<Rightarrow> nat \<Rightarrow> cursor option \<Rightarrow> 'r list \<Rightarrow> 'r list \<times> cursor option" where
  "keyset_page key limit cur rs = cut_page key limit (rev (sort_key key (filter (before_cursor key cur) rs)))"

section \<open>Interface: a listing in pages\<close>

text \<open>
  What a client of a paged listing relies on: the full listing of a query is in descending
  order of the key, and a page is the first rows after its cursor, with the cursor of its last
  row when more rows follow. \<open>follow\<close> is the client: it asks for pages until there is no next.
\<close>

fun follow :: "nat \<Rightarrow> (cursor option \<Rightarrow> 'r list \<times> cursor option) \<Rightarrow> cursor option \<Rightarrow> 'r list list" where
  "follow 0 fetch cur = []"
| "follow (Suc n) fetch cur = (case fetch cur of
     (items, None) \<Rightarrow> [items] | (items, Some c) \<Rightarrow> items # follow n fetch (Some c))"

lemma filter_below_nth:
  assumes "sorted_wrt (\<lambda>x y. key y < key x) xs" and "k < length xs"
  shows "filter (\<lambda>x. key x < (key (xs ! k) :: 'k :: linorder)) xs = drop (Suc k) xs"
  using assms
proof (induction xs arbitrary: k)
  case Nil
  then show ?case by simp
next
  case (Cons x xs)
  show ?case
  proof (cases k)
    case 0
    then show ?thesis using Cons.prems by auto
  next
    case (Suc m)
    with Cons.prems have "key (xs ! m) < key x" by auto
    then have "\<not> key x < key (xs ! m)" by simp
    with Suc Cons show ?thesis by simp
  qed
qed

locale keyset_listing =
  fixes listing :: "'q \<Rightarrow> 'r list"
    and key :: "'r \<Rightarrow> cursor"
    and page :: "'q \<Rightarrow> nat \<Rightarrow> cursor option \<Rightarrow> 'r list \<times> cursor option"
  assumes listing_sorted: "sorted_wrt (\<lambda>x y. key y \<le> key x) (listing q)"
    and page_law: "page q limit cur = cut_page key limit (filter (before_cursor key cur) (listing q))"
begin

lemma listing_strict:
  assumes "distinct (map key (listing q))"
  shows "sorted_wrt (\<lambda>x y. key y < key x) (listing q)"
proof -
  have "distinct (map key xs) \<Longrightarrow> sorted_wrt (\<lambda>x y. key y \<le> key x) xs \<Longrightarrow> sorted_wrt (\<lambda>x y. key y < key x) xs" for xs
  proof (induction xs)
    case (Cons x xs)
    have "key y < key x" if "y \<in> set xs" for y
      using Cons.prems that by (metis distinct.simps(2) image_eqI list.set_map list.simps(9) order_less_le sorted_wrt.simps(2))
    with Cons show ?case by simp
  qed simp
  then show ?thesis using assms listing_sorted by blast
qed

text \<open>A page after row \<open>k\<close> holds the rows that follow it.\<close>

lemma page_after:
  assumes "distinct (map key (listing q))" and "k < length (listing q)"
  shows "page q limit (Some (key (listing q ! k))) = cut_page key limit (drop (Suc k) (listing q))"
proof -
  have "before_cursor key (Some (key (listing q ! k))) = (\<lambda>x. key x < key (listing q ! k))"
    by (rule ext) (auto simp: before_cursor_def less_prod_def split: prod.split)
  then show ?thesis
    using page_law [of q limit] filter_below_nth [OF listing_strict [OF assms(1)] assms(2)] by simp
qed

lemma page_first: "page q limit None = cut_page key limit (listing q)"
  by (simp add: page_law before_cursor_def)

lemma cut_page_cases:
  assumes "1 \<le> limit"
  obtains (last_page) "length xs \<le> limit" "cut_page key limit xs = (xs, None)"
  | (more) "limit < length xs" "cut_page key limit xs = (take limit xs, Some (key (xs ! (limit - 1))))"
proof (cases "limit < length xs")
  case True
  then have ne: "take limit xs \<noteq> []" using assms by auto
  have "last (take limit xs) = xs ! (limit - 1)" using True assms ne by (simp add: last_conv_nth min_def)
  with True ne that(2) show ?thesis by (simp add: cut_page_def Let_def min_def)
next
  case False
  with that(1) show ?thesis by (simp add: cut_page_def Let_def)
qed

lemma page_size: "length (fst (page q limit cur)) \<le> limit"
  by (simp add: page_law cut_page_def Let_def)

lemma follow_from:
  assumes "distinct (map key (listing q))" and "1 \<le> limit"
    and "fetch = page q limit" and "fetch cur = cut_page key limit (drop k (listing q))"
    and "length (drop k (listing q)) < n"
  shows "concat (follow n fetch cur) = drop k (listing q)"
  using assms(4,5)
proof (induction n arbitrary: k cur)
  case 0
  then show ?case by simp
next
  case (Suc n)
  define xs where "xs = drop k (listing q)"
  show ?case
  proof (rule cut_page_cases [OF assms(2), of xs])
    assume "cut_page key limit xs = (xs, None)"
    with Suc show ?thesis by (simp add: xs_def)
  next
    assume more: "limit < length xs" "cut_page key limit xs = (take limit xs, Some (key (xs ! (limit - 1))))"
    define j where "j = k + (limit - 1)"
    have j: "j < length (listing q)" "xs ! (limit - 1) = listing q ! j" "drop (Suc j) (listing q) = drop limit xs"
      using more(1) assms(2) by (simp_all add: xs_def j_def add.commute)
    have "fetch (Some (key (listing q ! j))) = cut_page key limit (drop (Suc j) (listing q))"
      using page_after [OF assms(1) j(1), of limit] by (simp add: assms(3))
    moreover have "length (drop (Suc j) (listing q)) < n"
      using Suc.prems(2) assms(2) more(1) by (simp add: j(3) xs_def) 
    ultimately have "concat (follow n fetch (Some (key (listing q ! j)))) = drop (Suc j) (listing q)" by (rule Suc.IH)
    moreover have "cut_page key limit xs = (take limit xs, Some (key (listing q ! j)))"
      using more(2) unfolding j(2) .
    ultimately show ?thesis using Suc.prems(1) by (simp add: xs_def [symmetric] j(3))
  qed
qed

text \<open>Following the cursors from the start yields the whole listing, each row once.\<close>

lemma follow_all:
  assumes "distinct (map key (listing q))" and "1 \<le> limit" and "length (listing q) < n"
  shows "concat (follow n (page q limit) None) = listing q"
  using follow_from [OF assms(1,2) refl, where k = 0] page_first assms(3) by simp

end

lemma sorted_newest: "sorted_wrt (\<lambda>x y. (key y :: cursor) \<le> key x) (rev (sort_key key rs))"
  using sorted_sort_key [of key rs] by (simp add: sorted_wrt_rev sorted_wrt_map)

lemma keyset_page_newest:
  "keyset_page key limit cur rs = cut_page key limit (filter (before_cursor key cur) (rev (sort_key key rs)))"
  by (simp add: keyset_page_def rev_filter [symmetric] filter_sort)

lemma map_follow:
  "(\<And>cur. fetch cur = (map f (fst (page cur)), snd (page cur))) \<Longrightarrow> follow n fetch cur = map (map f) (follow n page cur)"
  by (induction n arbitrary: cur) (simp_all split: prod.split option.split)

end
