(* ===== verification/Invite_Data.thy ===== *)
theory Invite_Data
  imports Colab_Text Colab_Paging Colab_Platform "HOL-Library.List_Lexorder" "HOL-Library.Char_ord"
begin

text \<open>
  Data of invite-svc (app/models/invite.py, app/schemas/invite.py): one record per ORM class,
  the CHECK and UNIQUE constraints as predicates, the redis keyspaces the service uses, the
  events it publishes (app/services/events.py) and the authentication guard of its routers.
\<close>

section \<open>Rows\<close>

datatype invite_status = Inv_Pending | Inv_Accepted | Inv_Rejected | Inv_Expired | Inv_Cancelled

fun str_invite_status :: "invite_status \<Rightarrow> string" where
  "str_invite_status Inv_Pending = ''pending''"
| "str_invite_status Inv_Accepted = ''accepted''"
| "str_invite_status Inv_Rejected = ''rejected''"
| "str_invite_status Inv_Expired = ''expired''"
| "str_invite_status Inv_Cancelled = ''cancelled''"

definition invite_statuses :: "invite_status list" where
  "invite_statuses = [Inv_Pending, Inv_Accepted, Inv_Rejected, Inv_Expired, Inv_Cancelled]"

text \<open>\<open>ai_match_score\<close> (never written by this service) is left out of the row.\<close>

record collab_invite =
  ci_id :: uuid
  ci_from :: uuid
  ci_to :: uuid
  ci_synopsis :: string
  ci_status :: invite_status
  ci_mod_case :: "uuid option"
  ci_created_at :: datetime
  ci_responded_at :: "datetime option"
  ci_archive_at :: datetime
  ci_idempotency_key :: "string option"

datatype block_reason = Harassment | Spam | Inappropriate_Content | Other_Reason

record block =
  bl_blocker :: uuid
  bl_blocked :: uuid
  bl_created_at :: datetime
  bl_reason :: "block_reason option"

record invite_db =
  invites :: "collab_invite list"
  blocks :: "block list"

type_synonym invite_sess = "invite_db sess"
type_synonym 'a inviting = "(invite_db, 'a) comp"

definition empty_invite_db :: invite_db where
  "empty_invite_db = \<lparr>invites = [], blocks = []\<rparr>"

text \<open>
  CHECK constraints of the two tables (the status and reason lists are the datatypes) and
  their keys: the identifier and the idempotency key of an invite, the pair of a block.
\<close>

definition invite_check :: "collab_invite \<Rightarrow> bool" where
  "invite_check i \<longleftrightarrow> length (ci_synopsis i) \<le> 250 \<and> ci_from i \<noteq> ci_to i
     \<and> (case ci_idempotency_key i of None \<Rightarrow> True | Some k \<Rightarrow> length k \<le> 128)"

definition invite_clash :: "collab_invite \<Rightarrow> collab_invite \<Rightarrow> bool" where
  "invite_clash i j \<longleftrightarrow> ci_id i = ci_id j
     \<or> (ci_idempotency_key i \<noteq> None \<and> ci_idempotency_key i = ci_idempotency_key j)"

definition block_check :: "block \<Rightarrow> bool" where
  "block_check b \<longleftrightarrow> bl_blocker b \<noteq> bl_blocked b"

definition block_key :: "block \<Rightarrow> uuid \<times> uuid" where
  "block_key b = (bl_blocker b, bl_blocked b)"

definition block_clash :: "block \<Rightarrow> block \<Rightarrow> bool" where
  "block_clash b c \<longleftrightarrow> block_key b = block_key c"

section \<open>Requests and responses\<close>

record send_request =
  rq_to :: uuid
  rq_synopsis :: string

text \<open>The request body as pydantic accepts it: the length is checked before the text is stripped.\<close>

definition parse_send_request :: "uuid \<Rightarrow> string \<Rightarrow> send_request option" where
  "parse_send_request to_profile synopsis =
     (if 1 \<le> length synopsis \<and> length synopsis \<le> 250
      then Some \<lparr>rq_to = to_profile, rq_synopsis = strip_chars is_space synopsis\<rparr> else None)"

record send_response =
  sr_invite_id :: uuid
  sr_status :: invite_status
  sr_quota_remaining :: int
  sr_archive_at :: datetime

record accept_response =
  ar_invite_id :: uuid
  ar_matched :: bool

record block_response =
  br_blocker :: uuid
  br_blocked :: uuid
  br_created_at :: datetime

record profile_card =
  pc_profile_id :: uuid
  pc_display_name :: "string option"
  pc_avatar_url :: "string option"
  pc_city :: "string option"
  pc_top_vocation :: "string option"

record invite_card =
  ic_invite_id :: uuid
  ic_from_profile :: "profile_card option"
  ic_to_profile :: "profile_card option"
  ic_synopsis :: string
  ic_status :: invite_status
  ic_created_at :: datetime
  ic_archive_at :: datetime
  ic_responded_at :: "datetime option"

record 'item page =
  pg_items :: "'item list"
  pg_next :: "cursor option"

record block_card =
  bc_profile_id :: uuid
  bc_display_name :: "string option"
  bc_avatar_url :: "string option"
  bc_blocked_at :: datetime

text \<open>\<open>request.state.profile_id\<close>: absent or empty is unauthenticated.\<close>

definition require_user :: "string option \<Rightarrow> exn + uuid" where
  "require_user profile_id = (case profile_id of
     None \<Rightarrow> Inl (HTTPException 401 ''Authentication required'')
   | Some p \<Rightarrow> if p = [] then Inl (HTTPException 401 ''Authentication required'')
       else (case parse_uuid p of None \<Rightarrow> Inl ValueError | Some u \<Rightarrow> Inr u))"

lemma require_user_str: "require_user (Some (str_uuid u)) = Inr (u mod 16 ^ 32)"
proof -
  have "str_uuid u \<noteq> []" by (simp add: str_uuid_def Let_def)
  then show ?thesis by (simp add: require_user_def parse_str_uuid)
qed

section \<open>Events\<close>

definition invite_event :: "string \<Rightarrow> uuid \<Rightarrow> uuid \<Rightarrow> uuid \<Rightarrow> string \<Rightarrow> datetime \<Rightarrow> (string \<times> json) list" where
  "invite_event event invite_id from_id to_id stamp now =
     [(''event'', JStr event), (''invite_id'', JStr (str_uuid invite_id)),
      (''from_profile_id'', JStr (str_uuid from_id)), (''to_profile_id'', JStr (str_uuid to_id)),
      (stamp, JStr (iso_datetime now))]"

definition emit_invite_sent :: "datetime \<Rightarrow> uuid \<Rightarrow> uuid \<Rightarrow> uuid \<Rightarrow> message" where
  "emit_invite_sent now i f t = Message ''invite.sent'' (invite_event ''invite.sent'' i f t ''sent_at'' now)"

definition emit_invite_accepted :: "datetime \<Rightarrow> uuid \<Rightarrow> uuid \<Rightarrow> uuid \<Rightarrow> message" where
  "emit_invite_accepted now i f t =
     Message ''invite.accepted'' (invite_event ''invite.accepted'' i f t ''accepted_at'' now)"

definition emit_invite_rejected :: "datetime \<Rightarrow> uuid \<Rightarrow> uuid \<Rightarrow> uuid \<Rightarrow> message" where
  "emit_invite_rejected now i f t =
     Message ''invite.rejected'' (invite_event ''invite.rejected'' i f t ''rejected_at'' now @ [(''silent'', JBool True)])"

definition emit_invite_cancelled :: "datetime \<Rightarrow> uuid \<Rightarrow> uuid \<Rightarrow> uuid \<Rightarrow> message" where
  "emit_invite_cancelled now i f t =
     Message ''invite.cancelled'' (invite_event ''invite.cancelled'' i f t ''cancelled_at'' now)"

definition emit_invite_expired :: "datetime \<Rightarrow> uuid \<Rightarrow> uuid \<Rightarrow> uuid \<Rightarrow> message" where
  "emit_invite_expired now i f t =
     Message ''invite.expired'' (invite_event ''invite.expired'' i f t ''expired_at'' now)"

text \<open>The two profiles, and with them the two invites, are put in the order of their texts.\<close>

definition emit_match_created :: "datetime \<Rightarrow> uuid \<Rightarrow> uuid \<Rightarrow> uuid \<Rightarrow> uuid \<Rightarrow> message" where
  "emit_match_created now profile_a profile_b invite_a invite_b =
     (let (pa, pb, ia, ib) = (if str_uuid profile_b < str_uuid profile_a
                              then (profile_b, profile_a, invite_b, invite_a)
                              else (profile_a, profile_b, invite_a, invite_b)) in
      Message ''match.created''
        [(''event'', JStr ''match.created''),
         (''profile_a_id'', JStr (str_uuid pa)), (''profile_b_id'', JStr (str_uuid pb)),
         (''invite_a_id'', JStr (str_uuid ia)), (''invite_b_id'', JStr (str_uuid ib)),
         (''matched_at'', JStr (iso_datetime now))])"

definition block_pair :: "uuid \<Rightarrow> uuid \<Rightarrow> (string \<times> json) list" where
  "block_pair blocker blocked =
     [(''blocker_id'', JStr (str_uuid blocker)), (''blocked_id'', JStr (str_uuid blocked))]"

definition emit_block_created :: "datetime \<Rightarrow> uuid \<Rightarrow> uuid \<Rightarrow> message list" where
  "emit_block_created now blocker blocked =
     [Message ''block.created''
        ((''event'', JStr ''block.created'') # block_pair blocker blocked
          @ [(''type'', JStr ''profile.blocked''), (''payload'', JObj (block_pair blocker blocked)),
             (''created_at'', JStr (iso_datetime now))]),
      Message ''profile.blocked''
        [(''type'', JStr ''profile.blocked''), (''payload'', JObj (block_pair blocker blocked))]]"

definition emit_block_removed :: "datetime \<Rightarrow> uuid \<Rightarrow> uuid \<Rightarrow> message" where
  "emit_block_removed now blocker blocked =
     Message ''block.removed'' ((''event'', JStr ''block.removed'') # block_pair blocker blocked
       @ [(''removed_at'', JStr (iso_datetime now))])"

text \<open>Distinct identifiers have distinct texts, so the canonical order does not depend on who accepts.\<close>

lemma str_uuid_inj:
  assumes "u < 16 ^ 32" and "w < 16 ^ 32"
  shows "str_uuid u = str_uuid w \<longleftrightarrow> u = w"
  using assms parse_str_uuid [of u] parse_str_uuid [of w] by (metis mod_less option.inject)

lemma emit_match_created_swap:
  assumes "str_uuid a \<noteq> str_uuid b"
  shows "emit_match_created now a b ia ib = emit_match_created now b a ib ia"
proof (cases "str_uuid b < str_uuid a")
  case True
  then have "\<not> str_uuid a < str_uuid b" by simp
  with True show ?thesis by (simp add: emit_match_created_def)
next
  case False
  with assms have "str_uuid a < str_uuid b" by (simp add: not_less)
  with False show ?thesis by (simp add: emit_match_created_def)
qed

section \<open>Redis\<close>

text \<open>
  The three families of keys the service uses, by full key; each value comes with the
  millisecond at which redis drops it. A quota entry is a sorted set: members with scores.
\<close>

type_synonym zset = "(string \<times> int) list"

record invite_redis =
  limit_keys :: "string \<Rightarrow> (string \<times> int) option"
  quota_keys :: "string \<Rightarrow> (zset \<times> int) option"
  idem_keys :: "string \<Rightarrow> (send_response \<times> int) option"

definition empty_invite_redis :: invite_redis where
  "empty_invite_redis = \<lparr>limit_keys = (\<lambda>_. None), quota_keys = (\<lambda>_. None), idem_keys = (\<lambda>_. None)\<rparr>"

definition redis_get :: "(string \<Rightarrow> ('v \<times> int) option) \<Rightarrow> string \<Rightarrow> int \<Rightarrow> 'v option" where
  "redis_get m k now = (case m k of None \<Rightarrow> None | Some (v, dies) \<Rightarrow> if now < dies then Some v else None)"

definition redis_setex :: "(string \<Rightarrow> ('v \<times> int) option) \<Rightarrow> string \<Rightarrow> int \<Rightarrow> 'v \<Rightarrow> int \<Rightarrow> string \<Rightarrow> ('v \<times> int) option" where
  "redis_setex m k seconds v now = m(k \<mapsto> (v, now + 1000 * seconds))"

lemma redis_get_setex:
  "redis_get (redis_setex m k s v t0) k2 t =
     (if k2 = k then (if t < t0 + 1000 * s then Some v else None) else redis_get m k2 t)"
  by (simp add: redis_get_def redis_setex_def)

end
