(* ===== verification/Invite_Quota.thy ===== *)
theory Invite_Quota
  imports Invite_Data
begin

text \<open>
  The rolling seven-day invite quota of invite-svc (app/services/quota.py): the Lua script over
  the sorted set of a sender, the cached entitlement limit, the idempotency cache, and the
  consumer that invalidates the limit (app/routers/events.py). Times of redis are milliseconds.
  The abstract specification is a sliding window over the log of granted sends; the script is
  shown to implement it, and the window to hold no more sends than the limit.
\<close>

section \<open>The Lua script\<close>

definition window_ms :: int where
  "window_ms = 604800000"

text \<open>\<open>ZADD\<close> sets the score of a member, new or old.\<close>

definition zadd :: "zset \<Rightarrow> int \<Rightarrow> string \<Rightarrow> zset" where
  "zadd zs score member = filter (\<lambda>(m, _). m \<noteq> member) zs @ [(member, score)]"

text \<open>
  \<open>ZREMRANGEBYSCORE key -inf cutoff\<close> keeps the time to live of the key and drops the key when
  nothing is left; \<open>EXPIRE\<close> renews it after a send is recorded.
\<close>

definition evict :: "zset \<Rightarrow> int \<Rightarrow> zset" where
  "evict zs cutoff = filter (\<lambda>(_, score). cutoff < score) zs"

definition live_zset :: "(string \<Rightarrow> (zset \<times> int) option) \<Rightarrow> string \<Rightarrow> int \<Rightarrow> zset \<times> int" where
  "live_zset store key now = (case store key of
     None \<Rightarrow> ([], 0) | Some (zs, dies) \<Rightarrow> if now < dies then (zs, dies) else ([], 0))"

definition quota_lua :: "(string \<Rightarrow> (zset \<times> int) option) \<Rightarrow> string \<Rightarrow> int \<Rightarrow> int \<Rightarrow> string
    \<Rightarrow> (bool \<times> nat) \<times> (string \<Rightarrow> (zset \<times> int) option)" where
  "quota_lua store key now limit inv_id =
     (case live_zset store key now of (zs, dies) \<Rightarrow>
      let kept = evict zs (now - window_ms); count = length kept in
      if limit \<le> int count
      then ((False, count), store(key := if kept = [] then None else Some (kept, dies)))
      else (let added = zadd kept now inv_id in
            ((True, length added), store(key \<mapsto> (added, now + 1000 * 604800)))))"

section \<open>Limit and check\<close>

definition premium_limit :: int where
  "premium_limit = 9999999"

definition free_invite_quota_per_week :: int where
  "free_invite_quota_per_week = 5"

definition ent_ttl_seconds :: int where
  "ent_ttl_seconds = 300"

definition int_of_json :: "json \<Rightarrow> int option" where
  "int_of_json v = (case v of JInt i \<Rightarrow> Some i | JBool b \<Rightarrow> Some (if b then 1 else 0)
     | JStr s \<Rightarrow> py_int s | _ \<Rightarrow> None)"

definition limit_key :: "uuid \<Rightarrow> string" where
  "limit_key u = ''entitlement:'' @ str_uuid u @ '':invites_per_week''"

definition quota_key :: "uuid \<Rightarrow> string" where
  "quota_key u = ''invite:quota:'' @ str_uuid u"

definition axis_limit :: "(string \<times> json) list option \<Rightarrow> int option" where
  "axis_limit axes =
     (case map_of (case axes of None \<Rightarrow> [] | Some kvs \<Rightarrow> kvs) ''invites_per_week'' of
        None \<Rightarrow> Some premium_limit
      | Some JNull \<Rightarrow> Some premium_limit
      | Some v \<Rightarrow> int_of_json v)"

text \<open>The call names the service and carries no token.\<close>

definition invite_headers :: http_headers where
  "invite_headers = [(''X-Internal-Service'', ''invite-svc'')]"

definition get_invite_limit :: "invite_redis \<Rightarrow> int \<Rightarrow> entitlements_api \<Rightarrow> uuid \<Rightarrow> int \<times> invite_redis" where
  "get_invite_limit redis now billing u =
     (case Option.bind (redis_get (limit_keys redis) (limit_key u) now) py_int of
        Some limit \<Rightarrow> (limit, redis)
      | None \<Rightarrow>
         (case billing invite_headers u of
            Billing_Reply code axes \<Rightarrow>
              if code = 200 then
                (case axis_limit axes of
                   Some limit \<Rightarrow> (limit, redis\<lparr>limit_keys :=
                       redis_setex (limit_keys redis) (limit_key u) ent_ttl_seconds (str_int limit) now\<rparr>)
                 | None \<Rightarrow> (free_invite_quota_per_week, redis))
              else (free_invite_quota_per_week, redis)
          | Billing_Down \<Rightarrow> (free_invite_quota_per_week, redis)))"

definition check_and_increment_quota :: "invite_redis \<Rightarrow> int \<Rightarrow> entitlements_api \<Rightarrow> uuid \<Rightarrow> uuid
    \<Rightarrow> (bool \<times> int) \<times> invite_redis" where
  "check_and_increment_quota redis now billing u invite_id =
     (case get_invite_limit redis now billing u of (limit, redis1) \<Rightarrow>
      case quota_lua (quota_keys redis1) (quota_key u) now limit (str_uuid invite_id) of
        ((allowed, count), quotas) \<Rightarrow>
          ((allowed, if allowed
                     then (if limit < premium_limit then max 0 (limit - int count) else premium_limit)
                     else 0),
           redis1\<lparr>quota_keys := quotas\<rparr>))"

definition invalidate_invite_limit :: "invite_redis \<Rightarrow> uuid \<Rightarrow> invite_redis" where
  "invalidate_invite_limit redis u = redis\<lparr>limit_keys := (limit_keys redis)(limit_key u := None)\<rparr>"

section \<open>Idempotency cache\<close>

text \<open>\<open>sha256_hex\<close> stands for \<open>hashlib.sha256(text.encode()).hexdigest()\<close>.\<close>

definition make_dedup_key :: "(string \<Rightarrow> string) \<Rightarrow> uuid \<Rightarrow> uuid \<Rightarrow> string \<Rightarrow> string" where
  "make_dedup_key sha256_hex from_id to_id synopsis =
     ''dedup:invite:'' @ take 16 (sha256_hex (str_uuid from_id @ '':'' @ str_uuid to_id @ '':'' @ synopsis))"

definition check_idempotency :: "invite_redis \<Rightarrow> int \<Rightarrow> string \<Rightarrow> send_response option" where
  "check_idempotency redis now idem_key = redis_get (idem_keys redis) (''idem:invite:'' @ idem_key) now"

definition set_idempotency :: "invite_redis \<Rightarrow> int \<Rightarrow> string \<Rightarrow> send_response \<Rightarrow> invite_redis" where
  "set_idempotency redis now idem_key resp =
     redis\<lparr>idem_keys := redis_setex (idem_keys redis) (''idem:invite:'' @ idem_key) 86400 resp now\<rparr>"

lemma check_set_idempotency:
  "check_idempotency (set_idempotency redis t0 k r) t k2 =
     (if k2 = k then (if t < t0 + 86400000 then Some r else None) else check_idempotency redis t k2)"
  by (simp add: check_idempotency_def set_idempotency_def redis_get_setex)

section \<open>The event consumer\<close>

text \<open>
  \<open>_handle_message\<close> on the parsed body of a message: the event name, the payload (the event
  itself when it has none) and the user to invalidate. Every exception is logged and dropped.
\<close>

definition event_type :: "(string \<times> json) list \<Rightarrow> json" where
  "event_type event =
     (case map_of event ''event'' of
        Some v \<Rightarrow> if truthy v then v else (case map_of event ''type'' of Some w \<Rightarrow> w | None \<Rightarrow> JStr [])
      | None \<Rightarrow> (case map_of event ''type'' of Some w \<Rightarrow> w | None \<Rightarrow> JStr []))"

definition event_payload :: "(string \<times> json) list \<Rightarrow> json" where
  "event_payload event = (case map_of event ''payload'' of Some v \<Rightarrow> v | None \<Rightarrow> JObj event)"

definition uuid_of_json :: "json \<Rightarrow> uuid option" where
  "uuid_of_json v = (case v of JStr s \<Rightarrow> parse_uuid s | JInt i \<Rightarrow> parse_uuid (str_int i) | _ \<Rightarrow> None)"

definition handle_message :: "invite_redis \<Rightarrow> (string \<times> json) list \<Rightarrow> invite_redis" where
  "handle_message redis event =
     (if event_type event = JStr ''entitlement.changed'' then
        (case event_payload event of
           JObj kvs \<Rightarrow>
             (case map_of kvs ''user_id'' of
                Some raw \<Rightarrow> if truthy raw then
                    (case uuid_of_json raw of Some u \<Rightarrow> invalidate_invite_limit redis u | None \<Rightarrow> redis)
                  else redis
              | None \<Rightarrow> redis)
         | _ \<Rightarrow> redis)
      else redis)"

lemma handle_message_invalidates:
  assumes "u < 16 ^ 32"
  shows "handle_message redis [(''event'', JStr ''entitlement.changed''), (''user_id'', JStr (str_uuid u))]
     = invalidate_invite_limit redis u"
proof -
  have "str_uuid u \<noteq> []" by (simp add: str_uuid_def Let_def)
  with assms show ?thesis
    by (simp add: handle_message_def event_type_def event_payload_def truthy_def uuid_of_json_def parse_str_uuid
        del: power_numeral)
qed

section \<open>The sliding window the script implements\<close>

text \<open>
  The specification knows only the log of granted sends: an attempt is granted when fewer than
  \<open>limit\<close> sends lie in the last seven days. \<open>window_run\<close> runs it over a list of attempts
  (time, limit) and \<open>quota_run\<close> runs the script over the same attempts.
\<close>

definition in_window :: "int \<Rightarrow> int list \<Rightarrow> int list" where
  "in_window t log = filter (\<lambda>x. t - window_ms < x) log"

fun window_run :: "int list \<Rightarrow> (int \<times> int) list \<Rightarrow> bool list" where
  "window_run log [] = []"
| "window_run log ((now, limit) # as) =
     (if int (length (in_window now log)) < limit
      then True # window_run (log @ [now]) as
      else False # window_run log as)"

fun quota_run :: "string \<Rightarrow> (string \<Rightarrow> (zset \<times> int) option) \<Rightarrow> (int \<times> int \<times> string) list \<Rightarrow> bool list" where
  "quota_run key store [] = []"
| "quota_run key store ((now, limit, inv_id) # as) =
     (case quota_lua store key now limit inv_id of ((ok, _), store1) \<Rightarrow> ok # quota_run key store1 as)"

text \<open>The store after an attempt at \<open>prev\<close> holds exactly the sends of the window at \<open>prev\<close>.\<close>

definition store_holds :: "(zset \<times> int) option \<Rightarrow> int list \<Rightarrow> int \<Rightarrow> string set \<Rightarrow> bool" where
  "store_holds entry log prev used \<longleftrightarrow> (case entry of
     None \<Rightarrow> in_window prev log = []
   | Some (zs, dies) \<Rightarrow> map snd zs = in_window prev log \<and> fst ` set zs \<subseteq> used
       \<and> (\<forall>x \<in> set log. x + window_ms \<le> dies))"

lemma in_window_later: "prev \<le> now \<Longrightarrow> in_window now (in_window prev log) = in_window now log"
  by (induction log) (auto simp: in_window_def)

lemma in_window_expired: "(\<And>x. x \<in> set log \<Longrightarrow> x + window_ms \<le> t) \<Longrightarrow> in_window t log = []"
  by (force simp: in_window_def filter_empty_conv)

lemma in_window_Nil [simp]: "in_window t [] = []"
  by (simp add: in_window_def)

lemma map_snd_evict: "map snd (evict zs (t - window_ms)) = in_window t (map snd zs)"
  by (induction zs) (auto simp: evict_def in_window_def)

lemma set_evict: "set (evict zs c) \<subseteq> set zs"
  by (auto simp: evict_def)

lemma store_holds_evict:
  assumes "store_holds (store key) log prev used" and "prev \<le> now"
    and "live_zset store key now = (zs, dies)"
  shows "map snd (evict zs (now - window_ms)) = in_window now log" and "fst ` set zs \<subseteq> used"
proof -
  have "map snd (evict zs (now - window_ms)) = in_window now log \<and> fst ` set zs \<subseteq> used"
  proof (cases "store key")
    case None
    with assms have "in_window prev log = []" and "zs = []"
      by (auto simp: store_holds_def live_zset_def)
    with in_window_later [OF assms(2), of log] show ?thesis by (simp add: evict_def)
  next
    case (Some e)
    obtain ws d where e: "e = (ws, d)" by (cases e)
    with Some assms(1) have ws: "map snd ws = in_window prev log" "fst ` set ws \<subseteq> used"
      and d: "\<And>x. x \<in> set log \<Longrightarrow> x + window_ms \<le> d"
      by (auto simp: store_holds_def)
    show ?thesis
    proof (cases "now < d")
      case True
      with Some e assms(3) have "zs = ws" by (simp add: live_zset_def)
      with ws in_window_later [OF assms(2), of log] show ?thesis
        by (simp add: map_snd_evict)
    next
      case False
      with Some e assms(3) have "zs = []" by (simp add: live_zset_def)
      moreover have "in_window now log = []" using False d by (intro in_window_expired) force
      ultimately show ?thesis by (simp add: evict_def)
    qed
  qed
  then show "map snd (evict zs (now - window_ms)) = in_window now log" and "fst ` set zs \<subseteq> used" by simp_all
qed


lemma quota_lua_step:
  assumes holds: "store_holds (store key) log prev used" and le: "prev \<le> now"
    and past: "\<And>x. x \<in> set log \<Longrightarrow> x \<le> prev" and fresh: "inv_id \<notin> used"
    and lua: "quota_lua store key now limit inv_id = ((ok, n), store1)"
  shows "ok \<longleftrightarrow> int (length (in_window now log)) < limit"
    and "store_holds (store1 key) (if ok then log @ [now] else log) now (insert inv_id used)"
proof -
  obtain zs dies where live: "live_zset store key now = (zs, dies)" by (cases "live_zset store key now")
  define kept where "kept = evict zs (now - window_ms)"
  have scores: "map snd kept = in_window now log" and names: "fst ` set kept \<subseteq> used"
    using store_holds_evict [where store = store and key = key, OF holds le live] set_evict [of zs]
    by (auto simp: kept_def)
  then have len: "length kept = length (in_window now log)" by (metis length_map)
  show ok: "ok \<longleftrightarrow> int (length (in_window now log)) < limit"
    using lua live len by (auto simp: quota_lua_def Let_def kept_def split: if_splits)
  show "store_holds (store1 key) (if ok then log @ [now] else log) now (insert inv_id used)"
  proof (cases ok)
    case True
    from names fresh have "filter (\<lambda>(m, _). m \<noteq> inv_id) kept = kept" by (auto intro!: filter_True)
    then have "zadd kept now inv_id = kept @ [(inv_id, now)]" by (simp add: zadd_def)
    then have "store1 key = Some (kept @ [(inv_id, now)], now + 604800000)"
      using lua live True len by (auto simp: quota_lua_def Let_def kept_def split: if_splits)
    with True scores names past le show ?thesis
      by (fastforce simp: store_holds_def in_window_def window_ms_def)
  next
    case False
    then have "store1 key = (if kept = [] then None else Some (kept, dies))"
      using lua live by (auto simp: quota_lua_def Let_def kept_def split: if_splits)
    moreover have "\<forall>x \<in> set log. x + window_ms \<le> dies" if "kept \<noteq> []"
      using that holds live by (auto simp: store_holds_def live_zset_def kept_def evict_def split: option.splits if_splits)
    moreover have "in_window now log = []" if "kept = []" using that scores by simp
    ultimately show ?thesis using False scores names by (auto simp: store_holds_def)
  qed
qed

lemma quota_run_window:
  assumes "store_holds (store key) log prev used" and "\<And>x. x \<in> set log \<Longrightarrow> x \<le> prev"
    and "sorted (prev # map fst as)" and "distinct (map (snd \<circ> snd) as)"
    and "used \<inter> set (map (snd \<circ> snd) as) = {}"
  shows "quota_run key store as = window_run log (map (\<lambda>(now, limit, _). (now, limit)) as)"
  using assms
proof (induction as arbitrary: store log prev used)
  case Nil
  then show ?case by simp
next
  case (Cons a as)
  obtain now limit i where a: "a = (now, limit, i)" by (cases a)
  obtain ok n store1 where lua: "quota_lua store key now limit i = ((ok, n), store1)"
    by (metis prod.exhaust)
  from Cons.prems a have le: "prev \<le> now" and fresh: "i \<notin> used" by auto
  define log1 where "log1 = (if ok then log @ [now] else log)"
  have ok: "ok \<longleftrightarrow> int (length (in_window now log)) < limit"
    and holds: "store_holds (store1 key) log1 now (insert i used)"
    unfolding log1_def by (rule quota_lua_step [OF Cons.prems(1) le Cons.prems(2) fresh lua]; assumption)+
  have "quota_run key store1 as = window_run log1 (map (\<lambda>(now, limit, _). (now, limit)) as)"
  proof (rule Cons.IH [where prev = now and used = "insert i used"])
    show "store_holds (store1 key) log1 now (insert i used)" by (rule holds)
    show "x \<le> now" if "x \<in> set log1" for x
      using that Cons.prems(2) le by (force simp: log1_def split: if_splits)
  qed (use Cons.prems a in auto)
  with a lua ok show ?case by (simp add: log1_def)
qed

text \<open>The sends an answer list granted, and those of them in the seven days up to \<open>t\<close>.\<close>

definition granted :: "int list \<Rightarrow> bool list \<Rightarrow> int list" where
  "granted ts oks = map fst (filter snd (zip ts oks))"

definition last_week :: "int \<Rightarrow> int list \<Rightarrow> int list" where
  "last_week t log = filter (\<lambda>x. t - window_ms < x \<and> x \<le> t) log"

lemma granted_simps [simp]:
  "granted [] oks = []" "granted (t # ts) (True # oks) = t # granted ts oks"
  "granted (t # ts) (False # oks) = granted ts oks"
  by (simp_all add: granted_def)

lemma last_week_append [simp]: "last_week t (xs @ ys) = last_week t xs @ last_week t ys"
  by (simp add: last_week_def)

lemma last_week_in_window: "now \<le> t \<Longrightarrow> length (last_week t log) \<le> length (in_window now log)"
  by (induction log) (auto simp: last_week_def in_window_def)

lemma window_run_bound:
  assumes "\<forall>t. int (length (last_week t log)) \<le> L" and "\<forall>(now, limit) \<in> set as. limit \<le> L"
  shows "int (length (last_week t (log @ granted (map fst as) (window_run log as)))) \<le> L"
  using assms
proof (induction as arbitrary: log)
  case Nil
  then show ?case by simp
next
  case (Cons a as)
  obtain now limit where a: "a = (now, limit)" by (cases a)
  show ?case
  proof (cases "int (length (in_window now log)) < limit")
    case False
    then show ?thesis using Cons.IH [of log] Cons.prems a by simp
  next
    case True
    have "int (length (last_week u (log @ [now]))) \<le> L" for u
    proof (cases "now \<le> u")
      case le: True
      have "length (last_week u (log @ [now])) \<le> Suc (length (last_week u log))" by (simp add: last_week_def)
      also have "\<dots> \<le> Suc (length (in_window now log))" using last_week_in_window [OF le] by simp
      finally show ?thesis using True Cons.prems(2) a by auto
    next
      case gt: False
      then show ?thesis using Cons.prems(1) by (simp add: last_week_def)
    qed
    then have "int (length (last_week t ((log @ [now]) @ granted (map fst as) (window_run (log @ [now]) as)))) \<le> L"
      using Cons.prems(2) by (intro Cons.IH) auto
    with True a show ?thesis by simp
  qed
qed

lemma quota_run_fresh:
  assumes "sorted (map fst as)" and "distinct (map (snd \<circ> snd) as)"
  shows "quota_run key (\<lambda>_. None) as = window_run [] (map (\<lambda>(now, limit, _). (now, limit)) as)"
proof (cases as)
  case Nil
  then show ?thesis by simp
next
  case (Cons a bs)
  with assms show ?thesis
    by (intro quota_run_window [where prev = "fst a" and used = "{}"]) (auto simp: store_holds_def)
qed

text \<open>C13. From an empty key, the Lua script answers exactly as the sliding window over the log of granted sends: a send is granted when fewer than limit sends were granted in the last seven days.\<close>

theorem quota_is_sliding_window:
  assumes "sorted (map fst as)" and "distinct (map (snd \<circ> snd) as)"
  shows "quota_run key (\<lambda>_. None) as = window_run [] (map (\<lambda>(now, limit, _). (now, limit)) as)"
  by (rule quota_run_fresh [OF assms])

lemma quota_is_sliding_window_witness:
  "quota_run (quota_key 7) (\<lambda>_. None) [(0, 1, ''a''), (5, 1, ''b''), (604800000, 1, ''c'')]
     = window_run [] [(0, 1), (5, 1), (604800000, 1)]"
  using quota_is_sliding_window [of "[(0, 1, ''a''), (5, 1, ''b''), (604800000, 1, ''c'')]" "quota_key 7"] by simp

lemma quota_run_as_window:
  assumes "sorted (map fst as)" and "distinct (map (snd \<circ> snd) as)"
  shows "granted (map fst as) (quota_run key (\<lambda>_. None) as)
     = granted (map fst (map (\<lambda>(now, limit, _). (now, limit)) as)) (window_run [] (map (\<lambda>(now, limit, _). (now, limit)) as))"
proof -
  have "map fst (map (\<lambda>(now, limit, _). (now, limit)) as) = map fst as" by (induction as) auto
  then show ?thesis by (simp only: quota_run_fresh [OF assms])
qed

text \<open>No seven-day window ever holds more granted sends than the largest limit a sender had.\<close>

theorem quota_never_exceeded:
  assumes "sorted (map fst as)" and "distinct (map (snd \<circ> snd) as)"
    and "\<forall>(now, limit, i) \<in> set as. limit \<le> L" and "0 \<le> L"
  shows "int (length (last_week t (granted (map fst as) (quota_run key (\<lambda>_. None) as)))) \<le> L"
proof -
  have "int (length (last_week t ([] @ granted (map fst (map (\<lambda>(now, limit, _). (now, limit)) as))
      (window_run [] (map (\<lambda>(now, limit, _). (now, limit)) as))))) \<le> L"
    using assms(3,4) by (intro window_run_bound) (auto simp: last_week_def)
  then show ?thesis using quota_run_as_window [OF assms(1,2)] by simp
qed

lemma quota_never_exceeded_witness:
  "length (last_week 10 (granted [0, 5, 9] (quota_run (quota_key 7) (\<lambda>_. None) [(0, 2, ''a''), (5, 2, ''b''), (9, 2, ''c'')]))) \<le> 2"
  using quota_never_exceeded [of "[(0, 2, ''a''), (5, 2, ''b''), (9, 2, ''c'')]" 2 10 "quota_key 7"] by simp

end
