(* ===== verification/Invite_Lifecycle.thy ===== *)
theory Invite_Lifecycle
  imports Invite_Quota Complex_Main
begin

text \<open>
  The life of an invite (app/routers/invites.py, app/services/moderation.py,
  app/workers/ttl_tasks.py): sending it through the block check, the idempotency cache, the
  quota and the moderation scan; accepting, rejecting and cancelling it; and the hourly worker
  that expires it. The calls to billing-svc and moderation-svc are arguments (\<open>entitlements_api\<close>,
  \<open>scan_reply\<close>): what they answered. Publishing to the broker is taken to succeed.
\<close>

section \<open>Synopsis moderation\<close>

text \<open>
  What the scan of moderation-svc brings back: a timeout, another failure, or the fields the
  code reads from the body (None for an absent key). A score is the rational its text denotes.
\<close>

record scan_data =
  sc_score :: "rat option"
  sc_breakdown :: "(string \<times> rat option) list"
  sc_decision :: "string option"
  sc_case_id :: "string option"

datatype scan_reply = Scan_Timeout | Scan_Error | Scan_Data scan_data

definition synopsis_flag_threshold :: rat where
  "synopsis_flag_threshold = 4 / 10"

definition high_categories :: "(string \<times> rat option) list \<Rightarrow> string list" where
  "high_categories breakdown =
     map fst (filter (\<lambda>(cat, val). case val of None \<Rightarrow> False | Some v \<Rightarrow> v \<noteq> 0 \<and> 3 / 10 < v) breakdown)"

definition case_uuid :: "string option \<Rightarrow> exn + uuid option" where
  "case_uuid raw = (case raw of None \<Rightarrow> Inr None
     | Some s \<Rightarrow> if s = [] then Inr None
         else (case parse_uuid s of None \<Rightarrow> Inl ValueError | Some u \<Rightarrow> Inr (Some u)))"

definition scan_synopsis :: "scan_reply \<Rightarrow> exn + uuid option" where
  "scan_synopsis reply = (case reply of
     Scan_Timeout \<Rightarrow> Inr None
   | Scan_Error \<Rightarrow> Inr None
   | Scan_Data d \<Rightarrow>
       let score = (case sc_score d of None \<Rightarrow> 0 | Some x \<Rightarrow> x) in
       if synopsis_flag_threshold \<le> score then
         (let reasons = high_categories (sc_breakdown d);
              reason = (if reasons \<noteq> [] then join '', '' reasons
                        else case sc_decision d of None \<Rightarrow> ''policy_violation'' | Some t \<Rightarrow> t) in
          case case_uuid (sc_case_id d) of Inl e \<Rightarrow> Inl e | Inr _ \<Rightarrow> Inl (SynopsisFlagged reason))
       else case_uuid (sc_case_id d))"

section \<open>Sending\<close>

definition invite_ttl_days :: int where
  "invite_ttl_days = 30"

definition now_ms :: "invite_sess \<Rightarrow> int" where
  "now_ms s = clock s div 1000"

definition blocks_between :: "uuid \<Rightarrow> uuid \<Rightarrow> block \<Rightarrow> bool" where
  "blocks_between a b x \<longleftrightarrow> (bl_blocker x = a \<and> bl_blocked x = b) \<or> (bl_blocker x = b \<and> bl_blocked x = a)"

definition is_blocked :: "invite_db \<Rightarrow> uuid \<Rightarrow> uuid \<Rightarrow> bool" where
  "is_blocked db a b \<longleftrightarrow> first_of (filter (blocks_between a b) (blocks db)) \<noteq> None"

definition new_invite :: "uuid \<Rightarrow> uuid \<Rightarrow> send_request \<Rightarrow> uuid option \<Rightarrow> string option \<Rightarrow> datetime \<Rightarrow> collab_invite" where
  "new_invite i from_id body mod_case key now =
     \<lparr>ci_id = i, ci_from = from_id, ci_to = rq_to body, ci_synopsis = rq_synopsis body, ci_status = Inv_Pending,
      ci_mod_case = mod_case, ci_created_at = now, ci_responded_at = None,
      ci_archive_at = now + days invite_ttl_days, ci_idempotency_key = key\<rparr>"

definition add_invite :: "collab_invite \<Rightarrow> unit inviting" where
  "add_invite i = db_insert invites_update invites invite_check invite_clash i"

text \<open>
  The insert and its commit; on a conflict the transaction is rolled back and the row stored
  under the key is looked up: Some row is answered from, without one the error goes on.
\<close>

definition store_invite :: "string \<Rightarrow> collab_invite \<Rightarrow> collab_invite option inviting" where
  "store_invite idem_key i =
     catch_integrity (seq_c (add_invite i) (seq_c commit_c (ret None)))
       (seq_c rollback_c
         (bind_c (scalar_one_or_none invites (\<lambda>j. ci_idempotency_key j = Some idem_key))
           (\<lambda>r. case r of Some j \<Rightarrow> ret (Some j) | None \<Rightarrow> raise IntegrityError)))"

definition send_response_of :: "collab_invite \<Rightarrow> int \<Rightarrow> send_response" where
  "send_response_of i remaining = \<lparr>sr_invite_id = ci_id i, sr_status = ci_status i,
     sr_quota_remaining = remaining, sr_archive_at = ci_archive_at i\<rparr>"

text \<open>An empty \<open>X-Idempotency-Key\<close> header counts as none.\<close>

definition given_key :: "string option \<Rightarrow> string option" where
  "given_key header = (case header of None \<Rightarrow> None | Some k \<Rightarrow> if k = [] then None else Some k)"

text \<open>From the granted quota on: moderation, insert, event, idempotency cache.\<close>

definition send_granted :: "string \<Rightarrow> string option \<Rightarrow> uuid \<Rightarrow> uuid \<Rightarrow> send_request \<Rightarrow> int \<Rightarrow> scan_reply
    \<Rightarrow> invite_redis \<Rightarrow> invite_sess \<Rightarrow> (exn + send_response) \<times> invite_redis \<times> invite_sess" where
  "send_granted idem_key key probe from_id body remaining scan redis s =
     (case scan_synopsis scan of
        Inl (SynopsisFlagged reason) \<Rightarrow> (Inl (HTTPException 422 (''synopsis_flagged: '' @ reason)), redis, s)
      | Inl e \<Rightarrow> (Inl e, redis, s)
      | Inr mod_case \<Rightarrow>
          let i = new_invite probe from_id body mod_case key (clock s) in
          (case store_invite idem_key i s of
             (Inl e, s1) \<Rightarrow> (Inl e, redis, s1)
           | (Inr (Some j), s1) \<Rightarrow> (Inr (send_response_of j remaining), redis, s1)
           | (Inr None, s1) \<Rightarrow>
               let s2 = snd (publish_c (emit_invite_sent (clock s1) probe from_id (rq_to body)) s1);
                   resp = send_response_of i remaining in
               (Inr resp, set_idempotency redis (now_ms s2) idem_key resp, s2)))"

definition send_body :: "(string \<Rightarrow> string) \<Rightarrow> string option \<Rightarrow> send_request \<Rightarrow> string option \<Rightarrow> entitlements_api \<Rightarrow> scan_reply
    \<Rightarrow> invite_redis \<Rightarrow> invite_sess \<Rightarrow> (exn + send_response) \<times> invite_redis \<times> invite_sess" where
  "send_body sha256_hex caller body header billing scan redis s =
     (case require_user caller of
        Inl e \<Rightarrow> (Inl e, redis, s)
      | Inr from_id \<Rightarrow>
          if from_id = rq_to body then (Inl (HTTPException 400 ''Cannot send invite to yourself''), redis, s)
          else if is_blocked (work s) from_id (rq_to body) then (Inl (HTTPException 403 ''blocked''), redis, s)
          else
            let key = given_key header;
                idem_key = (case key of Some k \<Rightarrow> k | None \<Rightarrow> make_dedup_key sha256_hex from_id (rq_to body) (rq_synopsis body)) in
            (case check_idempotency redis (now_ms s) idem_key of
               Some resp \<Rightarrow> (Inr resp, redis, s)
             | None \<Rightarrow>
                 let probe = next_uuid s; s1 = snd (uuid4 s) in
                 (case check_and_increment_quota redis (now_ms s1) billing from_id probe of
                    ((allowed, remaining), redis1) \<Rightarrow>
                      if \<not> allowed then (Inl (HTTPException 402 ''quota_exceeded''), redis1, s1)
                      else send_granted idem_key key probe from_id body remaining scan redis1 s1)))"

text \<open>The session the request runs in starts from the committed tables and drops what it did not commit.\<close>

definition send_invite :: "(string \<Rightarrow> string) \<Rightarrow> string option \<Rightarrow> send_request \<Rightarrow> string option \<Rightarrow> entitlements_api \<Rightarrow> scan_reply
    \<Rightarrow> invite_redis \<Rightarrow> invite_sess \<Rightarrow> (exn + send_response) \<times> invite_redis \<times> invite_sess" where
  "send_invite sha256_hex caller body header billing scan redis s =
     (case send_body sha256_hex caller body header billing scan redis (s\<lparr>work := committed s\<rparr>) of
        (r, redis1, s1) \<Rightarrow> (r, redis1, s1\<lparr>work := committed s1\<rparr>))"

section \<open>Accepting, rejecting, cancelling\<close>

text \<open>
  The guards the three handlers share: the row locked by its identifier, the caller on the
  right side of it, the status still pending.
\<close>

definition pending_invite :: "(collab_invite \<Rightarrow> uuid) \<Rightarrow> string \<Rightarrow> string \<Rightarrow> uuid \<Rightarrow> uuid \<Rightarrow> collab_invite inviting" where
  "pending_invite party not_party conflict me invite_id =
     bind_c (scalar_one_or_none invites (\<lambda>i. ci_id i = invite_id))
       (\<lambda>r. case r of
          None \<Rightarrow> raise (HTTPException 404 ''Invite not found'')
        | Some i \<Rightarrow>
            if party i \<noteq> me then raise (HTTPException 403 not_party)
            else if ci_status i \<noteq> Inv_Pending
              then raise (HTTPException 409 (conflict @ str_invite_status (ci_status i)))
            else ret i)"

definition respond :: "uuid \<Rightarrow> invite_status \<Rightarrow> unit inviting" where
  "respond invite_id st = bind_c now_c (\<lambda>now.
     modify_table invites_update invites
       (update_where (\<lambda>i. ci_id i = invite_id) (\<lambda>i. i\<lparr>ci_status := st, ci_responded_at := Some now\<rparr>)))"

definition mirrors :: "collab_invite \<Rightarrow> collab_invite \<Rightarrow> bool" where
  "mirrors i j \<longleftrightarrow> ci_from j = ci_to i \<and> ci_to j = ci_from i \<and> ci_status j = Inv_Accepted"

definition accept_tx :: "uuid \<Rightarrow> uuid \<Rightarrow> (collab_invite \<times> collab_invite option) inviting" where
  "accept_tx me invite_id =
     bind_c (pending_invite ci_to ''Not the recipient'' ''Invite already in terminal state: '' me invite_id)
       (\<lambda>i. bind_c (scalar_one_or_none invites (mirrors i))
         (\<lambda>mirror. seq_c (respond invite_id Inv_Accepted) (ret (i, mirror))))"

definition accept_events :: "uuid \<Rightarrow> collab_invite \<Rightarrow> collab_invite option \<Rightarrow> unit inviting" where
  "accept_events invite_id i mirror = bind_c now_c (\<lambda>now.
     seq_c (publish_c (emit_invite_accepted now invite_id (ci_from i) (ci_to i)))
       (case mirror of
          None \<Rightarrow> ret ()
        | Some j \<Rightarrow> publish_c (emit_match_created now (ci_from i) (ci_to i) invite_id (ci_id j))))"

definition accept_invite :: "string option \<Rightarrow> uuid \<Rightarrow> accept_response inviting" where
  "accept_invite caller invite_id =
     (case require_user caller of
        Inl e \<Rightarrow> raise e
      | Inr me \<Rightarrow> bind_c (committing (accept_tx me invite_id))
          (\<lambda>(i, mirror). seq_c (accept_events invite_id i mirror)
             (ret \<lparr>ar_invite_id = invite_id, ar_matched = (mirror \<noteq> None)\<rparr>)))"

definition reject_tx :: "uuid \<Rightarrow> uuid \<Rightarrow> collab_invite inviting" where
  "reject_tx me invite_id =
     bind_c (pending_invite ci_to ''Not the recipient'' ''Invite in terminal state: '' me invite_id)
       (\<lambda>i. seq_c (respond invite_id Inv_Rejected) (ret i))"

definition reject_invite :: "string option \<Rightarrow> uuid \<Rightarrow> uuid inviting" where
  "reject_invite caller invite_id =
     (case require_user caller of
        Inl e \<Rightarrow> raise e
      | Inr me \<Rightarrow> bind_c (committing (reject_tx me invite_id))
          (\<lambda>i. bind_c now_c (\<lambda>now.
             seq_c (publish_c (emit_invite_rejected now invite_id (ci_from i) (ci_to i))) (ret invite_id))))"

definition cancel_tx :: "uuid \<Rightarrow> uuid \<Rightarrow> collab_invite inviting" where
  "cancel_tx me invite_id =
     bind_c (pending_invite ci_from ''Not the sender'' ''Cannot cancel invite in state: '' me invite_id)
       (\<lambda>i. seq_c (respond invite_id Inv_Cancelled) (ret i))"

definition cancel_invite :: "string option \<Rightarrow> uuid \<Rightarrow> uuid inviting" where
  "cancel_invite caller invite_id =
     (case require_user caller of
        Inl e \<Rightarrow> raise e
      | Inr me \<Rightarrow> bind_c (committing (cancel_tx me invite_id))
          (\<lambda>i. bind_c now_c (\<lambda>now.
             seq_c (publish_c (emit_invite_cancelled now invite_id (ci_from i) (ci_to i))) (ret invite_id))))"

section \<open>The expiry worker\<close>

definition batch_size :: nat where
  "batch_size = 500"

definition stale :: "datetime \<Rightarrow> collab_invite \<Rightarrow> bool" where
  "stale now i \<longleftrightarrow> ci_status i = Inv_Pending \<and> ci_archive_at i \<le> now"

definition expire_row :: "datetime \<Rightarrow> collab_invite \<Rightarrow> collab_invite" where
  "expire_row now i = i\<lparr>ci_status := Inv_Expired, ci_responded_at := Some now\<rparr>"

definition publish_expired :: "datetime \<Rightarrow> collab_invite \<Rightarrow> unit inviting" where
  "publish_expired now i = publish_c (emit_invite_expired now (ci_id i) (ci_from i) (ci_to i))"

text \<open>The select has no order: the rows come in table order. No other worker holds a lock.\<close>

definition expire_batch :: "nat inviting" where
  "expire_batch =
     bind_c now_c (\<lambda>now.
     bind_c (select_all invites (stale now)) (\<lambda>found.
       let rows = take batch_size found in
       if rows = [] then ret 0
       else seq_c (modify_table invites_update invites
                    (update_where (\<lambda>i. ci_id i \<in> set (map ci_id rows)) (expire_row now)))
           (seq_c commit_c
             (seq_c (for_c rows (publish_expired now)) (ret (length rows))))))"

text \<open>Each batch runs in a session of its own, until one is not full.\<close>

definition expired_message :: "datetime \<Rightarrow> collab_invite \<Rightarrow> message" where
  "expired_message now i = emit_invite_expired now (ci_id i) (ci_from i) (ci_to i)"

lemma publish_expired_run:
  "for_c rows (publish_expired now) s = (Inr (), s\<lparr>outbox := outbox s @ map (expired_message now) rows\<rparr>)"
  by (induction rows arbitrary: s) (simp_all add: ret_run seq_run publish_expired_def publish_run expired_message_def)

lemma expire_batch_run:
  "in_session expire_batch s =
     (let rows = take batch_size (filter (stale (clock s)) (invites (committed s)));
          db = invites_update (\<lambda>_. update_where (\<lambda>i. ci_id i \<in> set (map ci_id rows)) (expire_row (clock s))
                 (invites (committed s))) (committed s) in
      if rows = [] then (Inr 0, s\<lparr>work := committed s\<rparr>)
      else (Inr (length rows), s\<lparr>work := db, committed := db, outbox := outbox s @ map (expired_message (clock s)) rows\<rparr>))"
  by (simp add: in_session_def expire_batch_def bind_run now_run select_run Let_def seq_run modify_run commit_run
      publish_expired_run ret_run)

lemma update_take_filter:
  assumes "distinct (map key xs)" and "\<And>x. \<not> P (f x)"
  shows "filter P (update_where (\<lambda>i. key i \<in> key ` set (take n (filter P xs))) f xs) = drop n (filter P xs)"
    and "update_where P f (update_where (\<lambda>i. key i \<in> key ` set (take n (filter P xs))) f xs) = update_where P f xs"
proof -
  have "filter P (update_where (\<lambda>i. key i \<in> key ` set (take n (filter P xs))) f xs) = drop n (filter P xs)
    \<and> update_where P f (update_where (\<lambda>i. key i \<in> key ` set (take n (filter P xs))) f xs) = update_where P f xs"
    using assms(1)
  proof (induction xs arbitrary: n)
    case Nil
    then show ?case by simp
  next
    case (Cons x xs)
    have sub: "key ` set (take m (filter P xs)) \<subseteq> key ` set xs" for m
      using set_take_subset [of m "filter P xs"] by auto
    have "key x \<notin> key ` set xs" using Cons.prems by simp
    then have new: "key x \<notin> key ` set (take m (filter P xs))" for m using sub by blast
    have same: "update_where (\<lambda>i. key i = key x \<or> key i \<in> A) f xs = update_where (\<lambda>i. key i \<in> A) f xs" for A
    proof -
      have "key y \<noteq> key x" if "y \<in> set xs" for y using \<open>key x \<notin> key ` set xs\<close> that by (metis image_eqI)
      then show ?thesis by (auto simp: update_where_def)
    qed
    show ?case
    proof (cases "P x")
      case False
      with Cons new show ?thesis by simp
    next
      case True
      show ?thesis
      proof (cases n)
        case 0
        then show ?thesis by (simp add: update_where_none)
      next
        case (Suc m)
        with True Cons assms(2) show ?thesis by (simp add: same)
      qed
    qed
  qed
  then show "filter P (update_where (\<lambda>i. key i \<in> key ` set (take n (filter P xs))) f xs) = drop n (filter P xs)"
    and "update_where P f (update_where (\<lambda>i. key i \<in> key ` set (take n (filter P xs))) f xs) = update_where P f xs"
    by simp_all
qed

lemma length_stale_update:
  assumes "\<And>x. x \<in> set rows \<Longrightarrow> x \<in> set xs \<and> P x" and "\<And>x. \<not> P (f x)" and "rows \<noteq> []"
  shows "length (filter P (update_where (\<lambda>i. key i \<in> key ` set rows) f xs)) < length (filter P xs)"
proof -
  have mono: "length (filter P (update_where Q f ys)) \<le> length (filter P ys)" for Q ys
    by (induction ys) (use assms(2) in auto)
  obtain x where x: "x \<in> set xs" "P x" "key x \<in> key ` set rows"
    using assms(1,3) by (metis image_eqI list.set_sel(1))
  from x(1) show ?thesis
  proof (induction xs)
    case (Cons y ys)
    show ?case
    proof (cases "y = x")
      case True
      then show ?thesis using x assms(2) mono [of "\<lambda>i. key i \<in> key ` set rows" ys] by (simp add: le_imp_less_Suc)
    next
      case False
      with Cons show ?thesis using assms(2) by auto
    qed
  qed simp
qed

function run_expire_all :: "nat \<Rightarrow> invite_sess \<Rightarrow> (exn + nat) \<times> invite_sess" where
  "run_expire_all acc s = (case in_session expire_batch s of
     (Inl e, s1) \<Rightarrow> (Inl e, s1)
   | (Inr count, s1) \<Rightarrow> if count < batch_size then (Inr (acc + count), s1)
       else run_expire_all (acc + count) s1)"
  by auto

termination
proof (relation "measure (\<lambda>(acc, s). length (filter (stale (clock s)) (invites (committed s))))")
  fix acc s r s1 count
  assume run: "(r, s1) = in_session expire_batch s" "r = Inr count" and full: "\<not> count < batch_size"
  define rows where "rows = take batch_size (filter (stale (clock s)) (invites (committed s)))"
  from full have "count \<noteq> 0" by (auto simp: batch_size_def)
  then have ne: "rows \<noteq> []" and s1: "clock s1 = clock s"
    "invites (committed s1) = update_where (\<lambda>i. ci_id i \<in> ci_id ` set rows) (expire_row (clock s)) (invites (committed s))"
    using run unfolding expire_batch_run Let_def rows_def by (auto split: if_splits)
  have "x \<in> set (invites (committed s)) \<and> stale (clock s) x" if "x \<in> set rows" for x
    using in_set_takeD [OF that [unfolded rows_def]] by simp
  then have "length (filter (stale (clock s)) (invites (committed s1))) < length (filter (stale (clock s)) (invites (committed s)))"
    unfolding s1(2) by (rule length_stale_update) (use ne in \<open>simp_all add: stale_def expire_row_def\<close>)
  then show "((acc + count, s1), (acc, s)) \<in> measure (\<lambda>(acc, s). length (filter (stale (clock s)) (invites (committed s))))"
    by (simp add: s1(1))
qed simp

declare run_expire_all.simps [simp del]



text \<open>What the whole run leaves: every stale invite expired, nothing else touched, one event each.\<close>

definition expire_spec :: "invite_sess \<Rightarrow> invite_sess" where
  "expire_spec s =
     (let db = invites_update (\<lambda>_. update_where (stale (clock s)) (expire_row (clock s)) (invites (committed s))) (committed s) in
      s\<lparr>work := db, committed := db,
        outbox := outbox s @ map (expired_message (clock s)) (filter (stale (clock s)) (invites (committed s)))\<rparr>)"

lemma expire_row_not_stale [simp]: "\<not> stale now (expire_row now i)"
  by (simp add: stale_def expire_row_def)

lemma run_expire_all_result:
  assumes "distinct (map ci_id (invites (committed s)))"
  shows "run_expire_all acc s =
     (Inr (acc + length (filter (stale (clock s)) (invites (committed s)))), expire_spec s)"
  using assms
proof (induction acc s rule: run_expire_all.induct)
  case (1 acc s)
  define xs where "xs = invites (committed s)"
  define found where "found = filter (stale (clock s)) xs"
  define rows where "rows = take batch_size found"
  define db where "db = invites_update (\<lambda>_. update_where (\<lambda>i. ci_id i \<in> ci_id ` set rows) (expire_row (clock s)) xs) (committed s)"
  have dist: "distinct (map ci_id xs)" using 1(2) by (simp add: xs_def)
  note take = update_take_filter [where key = ci_id and f = "expire_row (clock s)" and P = "stale (clock s)" and n = batch_size,
      OF dist expire_row_not_stale, folded found_def, folded rows_def]
  show ?case
  proof (cases "rows = []")
    case True
    then have "found = []" by (simp add: rows_def batch_size_def)
    moreover from this have "update_where (stale (clock s)) (expire_row (clock s)) xs = xs"
      by (intro update_where_none) (auto simp: found_def filter_empty_conv)
    ultimately show ?thesis using True
      by (simp add: run_expire_all.simps [of acc s] expire_batch_run xs_def found_def rows_def batch_size_def expire_spec_def)
  next
    case False
    define s1 where "s1 = s\<lparr>work := db, committed := db, outbox := outbox s @ map (expired_message (clock s)) rows\<rparr>"
    have batch: "in_session expire_batch s = (Inr (length rows), s1)"
      using False by (simp add: expire_batch_run Let_def s1_def db_def rows_def found_def xs_def)
    have xs1: "invites (committed s1) = update_where (\<lambda>i. ci_id i \<in> ci_id ` set rows) (expire_row (clock s)) xs"
      and clk: "clock s1 = clock s" by (simp_all add: s1_def db_def)
    have left: "filter (stale (clock s)) (invites (committed s1)) = drop batch_size found"
      and rest: "update_where (stale (clock s)) (expire_row (clock s)) (invites (committed s1))
        = update_where (stale (clock s)) (expire_row (clock s)) xs"
      unfolding xs1 by (rule take)+
    have split: "found = rows @ drop batch_size found" by (simp add: rows_def)
    have spec: "expire_spec s1 = expire_spec s"
    proof -
      have "outbox s1 @ map (expired_message (clock s)) (drop batch_size found)
        = outbox s @ map (expired_message (clock s)) found"
        using split by (simp add: s1_def) (metis map_append)
      then show ?thesis
        by (simp add: expire_spec_def Let_def clk left rest found_def [symmetric] xs_def [symmetric])
          (simp add: s1_def db_def)
    qed
    show ?thesis
    proof (cases "length rows < batch_size")
      case True
      then have all: "found = rows" by (simp add: rows_def min_def split: if_splits)
      then have "drop batch_size found = []" using True by simp
      then have none: "update_where (stale (clock s)) (expire_row (clock s)) (invites (committed s1)) = invites (committed s1)"
        using left by (intro update_where_none) (auto simp: filter_empty_conv)
      have "work s1 = committed s1" by (simp add: s1_def)
      then have "s1\<lparr>work := committed s1, committed := committed s1, outbox := outbox s1 @ []\<rparr> = s1" by simp
      then have "expire_spec s1 = s1"
        using \<open>drop batch_size found = []\<close> by (simp add: expire_spec_def Let_def clk left none)
      with True batch spec all show ?thesis
        by (simp add: run_expire_all.simps [of acc s] found_def [symmetric] xs_def [symmetric])
    next
      case full: False
      have "distinct (map ci_id (invites (committed s1)))"
        unfolding xs1 using dist by (subst map_update_where) (simp_all add: expire_row_def)
      then have "run_expire_all (acc + length rows) s1
          = (Inr (acc + length rows + length (drop batch_size found)), expire_spec s1)"
        using 1(1) [OF batch [symmetric]] full by (simp add: clk left)
      moreover have "length rows + length (drop batch_size found) = length found" using split by (metis length_append)
      ultimately show ?thesis using batch full spec
        by (simp add: run_expire_all.simps [of acc s] found_def [symmetric] xs_def [symmetric])
    qed
  qed
qed

end
