(* ===== verification/Invite_Lists.thy ===== *)
theory Invite_Lists
  imports Invite_Lifecycle
begin

text \<open>
  What invite-svc lists (app/routers/invites.py, app/services/profile_client.py): the inbox and
  the sent invites of a profile, block-aware, by status, in pages that continue after a cursor;
  and the blocks (app/routers/blocks.py) with their own listing. Inbox and sent are instances of
  \<open>keyset_listing\<close>, so following the cursors yields every row once; the block listing is not.
\<close>

section \<open>Profile cards\<close>

record card_data =
  cd_display_name :: "string option"
  cd_avatar_url :: "string option"
  cd_location_city :: "string option"
  cd_top_vocation :: "string option"

text \<open>\<open>reply u\<close> is what profile-svc answers for \<open>u\<close>: None for an error or a status other than 200.\<close>

definition fetch_profile_card :: "(uuid \<Rightarrow> card_data option) \<Rightarrow> uuid \<Rightarrow> profile_card" where
  "fetch_profile_card reply u = (case reply u of
     Some d \<Rightarrow> \<lparr>pc_profile_id = u, pc_display_name = cd_display_name d, pc_avatar_url = cd_avatar_url d,
                pc_city = cd_location_city d, pc_top_vocation = cd_top_vocation d\<rparr>
   | None \<Rightarrow> \<lparr>pc_profile_id = u, pc_display_name = None, pc_avatar_url = None, pc_city = None, pc_top_vocation = None\<rparr>)"

definition fetch_profile_cards :: "(uuid \<Rightarrow> card_data option) \<Rightarrow> uuid list \<Rightarrow> uuid \<Rightarrow> profile_card option" where
  "fetch_profile_cards reply ids = map_of (map (\<lambda>u. (u, fetch_profile_card reply u)) ids)"

lemma fetch_profile_cards_lookup:
  "fetch_profile_cards reply ids u = (if u \<in> set ids then Some (fetch_profile_card reply u) else None)"
  by (induction ids) (auto simp: fetch_profile_cards_def)

section \<open>Inbox and sent\<close>

record invite_list = "invite_card page" +
  il_total_pending :: nat

definition invite_key :: "collab_invite \<Rightarrow> cursor" where
  "invite_key i = (ci_created_at i, ci_id i)"

text \<open>The union of those who blocked me and those I blocked.\<close>

definition hidden_profiles :: "invite_db \<Rightarrow> uuid \<Rightarrow> uuid list" where
  "hidden_profiles db me = map bl_blocker (filter (\<lambda>b. bl_blocked b = me) (blocks db))
     @ map bl_blocked (filter (\<lambda>b. bl_blocker b = me) (blocks db))"

definition find_status :: "string \<Rightarrow> invite_status option" where
  "find_status t = first_of (filter (\<lambda>st. str_invite_status st = t) invite_statuses)"

text \<open>
  The status filter: Inl for an unknown status, Inr None for no condition. Without a filter the
  inbox shows pending invites, the sent list all of them; \<open>all\<close> lifts the condition.
\<close>

definition inbox_status :: "string option \<Rightarrow> exn + invite_status option" where
  "inbox_status filt = (case filt of
     None \<Rightarrow> Inr (Some Inv_Pending)
   | Some t \<Rightarrow> if t = [] then Inr (Some Inv_Pending)
       else if t = ''all'' then Inr None
       else (case find_status t of None \<Rightarrow> Inl (HTTPException 400 (''Invalid status: '' @ t)) | Some st \<Rightarrow> Inr (Some st)))"

definition sent_status :: "string option \<Rightarrow> exn + invite_status option" where
  "sent_status filt = (case filt of
     None \<Rightarrow> Inr None
   | Some t \<Rightarrow> if t = [] \<or> t = ''all'' then Inr None
       else (case find_status t of None \<Rightarrow> Inl (HTTPException 400 (''Invalid status: '' @ t)) | Some st \<Rightarrow> Inr (Some st)))"

definition has_status :: "invite_status option \<Rightarrow> collab_invite \<Rightarrow> bool" where
  "has_status want i = (case want of None \<Rightarrow> True | Some st \<Rightarrow> ci_status i = st)"

definition in_inbox :: "invite_db \<Rightarrow> uuid \<Rightarrow> invite_status option \<Rightarrow> collab_invite \<Rightarrow> bool" where
  "in_inbox db me want i \<longleftrightarrow> ci_to i = me \<and> ci_from i \<notin> set (hidden_profiles db me) \<and> has_status want i"

definition in_sent :: "invite_db \<Rightarrow> uuid \<Rightarrow> invite_status option \<Rightarrow> collab_invite \<Rightarrow> bool" where
  "in_sent db me want i \<longleftrightarrow> ci_from i = me \<and> ci_to i \<notin> set (hidden_profiles db me) \<and> has_status want i"

definition inbox_card :: "(uuid \<Rightarrow> profile_card option) \<Rightarrow> collab_invite \<Rightarrow> invite_card" where
  "inbox_card cards i = \<lparr>ic_invite_id = ci_id i, ic_from_profile = cards (ci_from i), ic_to_profile = None,
     ic_synopsis = ci_synopsis i, ic_status = ci_status i, ic_created_at = ci_created_at i,
     ic_archive_at = ci_archive_at i, ic_responded_at = ci_responded_at i\<rparr>"

definition sent_card :: "(uuid \<Rightarrow> profile_card option) \<Rightarrow> collab_invite \<Rightarrow> invite_card" where
  "sent_card cards i = \<lparr>ic_invite_id = ci_id i, ic_from_profile = None, ic_to_profile = cards (ci_to i),
     ic_synopsis = ci_synopsis i, ic_status = ci_status i, ic_created_at = ci_created_at i,
     ic_archive_at = ci_archive_at i, ic_responded_at = ci_responded_at i\<rparr>"

definition get_inbox :: "(uuid \<Rightarrow> card_data option) \<Rightarrow> string option \<Rightarrow> string option \<Rightarrow> cursor option \<Rightarrow> nat
    \<Rightarrow> invite_db \<Rightarrow> exn + invite_list" where
  "get_inbox reply caller filt cur limit db =
     (case require_user caller of
        Inl e \<Rightarrow> Inl e
      | Inr me \<Rightarrow>
          (case inbox_status filt of
             Inl e \<Rightarrow> Inl e
           | Inr want \<Rightarrow>
               (case keyset_page invite_key limit cur (filter (in_inbox db me want) (invites db)) of
                  (items, next_cursor) \<Rightarrow>
                    Inr \<lparr>pg_items = map (inbox_card (fetch_profile_cards reply (remdups (map ci_from items)))) items,
                         pg_next = next_cursor,
                         il_total_pending = length (filter (in_inbox db me (Some Inv_Pending)) (invites db))\<rparr>)))"

text \<open>The badge of the sent list counts every pending invite, hidden recipients included.\<close>

definition get_sent :: "(uuid \<Rightarrow> card_data option) \<Rightarrow> string option \<Rightarrow> string option \<Rightarrow> cursor option \<Rightarrow> nat
    \<Rightarrow> invite_db \<Rightarrow> exn + invite_list" where
  "get_sent reply caller filt cur limit db =
     (case require_user caller of
        Inl e \<Rightarrow> Inl e
      | Inr me \<Rightarrow>
          (case sent_status filt of
             Inl e \<Rightarrow> Inl e
           | Inr want \<Rightarrow>
               (case keyset_page invite_key limit cur (filter (in_sent db me want) (invites db)) of
                  (items, next_cursor) \<Rightarrow>
                    Inr \<lparr>pg_items = map (sent_card (fetch_profile_cards reply (remdups (map ci_to items)))) items,
                         pg_next = next_cursor,
                         il_total_pending = length (filter (\<lambda>i. ci_from i = me \<and> ci_status i = Inv_Pending) (invites db))\<rparr>)))"

section \<open>Blocks\<close>

definition add_block :: "block \<Rightarrow> unit inviting" where
  "add_block b = db_insert blocks_update blocks block_check block_clash b"

definition is_block :: "uuid \<Rightarrow> uuid \<Rightarrow> block \<Rightarrow> bool" where
  "is_block blocker blocked b \<longleftrightarrow> bl_blocker b = blocker \<and> bl_blocked b = blocked"

definition block_response_of :: "block \<Rightarrow> block_response" where
  "block_response_of b = \<lparr>br_blocker = bl_blocker b, br_blocked = bl_blocked b, br_created_at = bl_created_at b\<rparr>"

definition create_block :: "string option \<Rightarrow> uuid \<Rightarrow> block_reason option \<Rightarrow> block_response inviting" where
  "create_block caller profile_id reason =
     (case require_user caller of
        Inl e \<Rightarrow> raise e
      | Inr me \<Rightarrow>
          if me = profile_id then raise (HTTPException 400 ''Cannot block yourself'')
          else in_session (bind_c (scalar_one_or_none blocks (is_block me profile_id))
            (\<lambda>r. case r of
               Some b \<Rightarrow> ret (block_response_of b)
             | None \<Rightarrow> bind_c now_c (\<lambda>now.
                 let b = \<lparr>bl_blocker = me, bl_blocked = profile_id, bl_created_at = now, bl_reason = reason\<rparr> in
                 seq_c (add_block b) (seq_c commit_c
                   (seq_c (for_c (emit_block_created now me profile_id) publish_c)
                     (ret (block_response_of b))))))))"

definition remove_block :: "string option \<Rightarrow> uuid \<Rightarrow> bool inviting" where
  "remove_block caller profile_id =
     (case require_user caller of
        Inl e \<Rightarrow> raise e
      | Inr me \<Rightarrow> in_session (bind_c (scalar_one_or_none blocks (is_block me profile_id))
          (\<lambda>r. case r of
             None \<Rightarrow> raise (HTTPException 404 ''Block not found'')
           | Some b \<Rightarrow> bind_c now_c (\<lambda>now.
               seq_c (modify_table blocks_update blocks (filter (\<lambda>x. block_key x \<noteq> block_key b)))
                 (seq_c commit_c (seq_c (publish_c (emit_block_removed now me profile_id)) (ret True)))))))"

text \<open>
  The listing of my blocks: the cursor compares the time only, and so does the order (rows of
  one time come in table order).
\<close>

definition block_cursor :: "block \<Rightarrow> cursor" where
  "block_cursor b = (bl_created_at b, bl_blocked b)"

definition block_card_of :: "(uuid \<Rightarrow> profile_card option) \<Rightarrow> block \<Rightarrow> block_card" where
  "block_card_of cards b = \<lparr>bc_profile_id = bl_blocked b,
     bc_display_name = Option.bind (cards (bl_blocked b)) pc_display_name,
     bc_avatar_url = Option.bind (cards (bl_blocked b)) pc_avatar_url, bc_blocked_at = bl_created_at b\<rparr>"

definition list_blocks :: "(uuid \<Rightarrow> card_data option) \<Rightarrow> string option \<Rightarrow> cursor option \<Rightarrow> nat \<Rightarrow> invite_db
    \<Rightarrow> exn + block_card page" where
  "list_blocks reply caller cur limit db =
     (case require_user caller of
        Inl e \<Rightarrow> Inl e
      | Inr me \<Rightarrow>
          let mine = filter (\<lambda>b. bl_blocker b = me \<and> (case cur of None \<Rightarrow> True | Some (cur_dt, _) \<Rightarrow> bl_created_at b < cur_dt)) (blocks db) in
          (case cut_page block_cursor limit (sort_key (\<lambda>b. - bl_created_at b) mine) of
             (items, next_cursor) \<Rightarrow>
               Inr \<lparr>pg_items = map (block_card_of (fetch_profile_cards reply (map bl_blocked items))) items, pg_next = next_cursor\<rparr>))"

section \<open>Inbox and sent as paged listings\<close>

definition newest_first :: "collab_invite list \<Rightarrow> collab_invite list" where
  "newest_first rs = rev (sort_key invite_key rs)"

definition inbox_listing :: "invite_db \<times> uuid \<times> invite_status option \<Rightarrow> collab_invite list" where
  "inbox_listing q = (case q of (db, me, want) \<Rightarrow> newest_first (filter (in_inbox db me want) (invites db)))"

definition inbox_page :: "invite_db \<times> uuid \<times> invite_status option \<Rightarrow> nat \<Rightarrow> cursor option \<Rightarrow> collab_invite list \<times> cursor option" where
  "inbox_page q limit cur = (case q of (db, me, want) \<Rightarrow>
     keyset_page invite_key limit cur (filter (in_inbox db me want) (invites db)))"

definition sent_listing :: "invite_db \<times> uuid \<times> invite_status option \<Rightarrow> collab_invite list" where
  "sent_listing q = (case q of (db, me, want) \<Rightarrow> newest_first (filter (in_sent db me want) (invites db)))"

definition sent_page :: "invite_db \<times> uuid \<times> invite_status option \<Rightarrow> nat \<Rightarrow> cursor option \<Rightarrow> collab_invite list \<times> cursor option" where
  "sent_page q limit cur = (case q of (db, me, want) \<Rightarrow>
     keyset_page invite_key limit cur (filter (in_sent db me want) (invites db)))"

interpretation inbox: keyset_listing inbox_listing invite_key inbox_page
  by unfold_locales (auto simp: inbox_listing_def inbox_page_def newest_first_def sorted_newest keyset_page_newest split: prod.split)

interpretation sent: keyset_listing sent_listing invite_key sent_page
  by unfold_locales (auto simp: sent_listing_def sent_page_def newest_first_def sorted_newest keyset_page_newest split: prod.split)

lemma newest_first_distinct:
  assumes "distinct (map ci_id rs)"
  shows "distinct (map invite_key (newest_first (filter P rs)))"
proof -
  have "distinct (map ci_id (filter P rs))" using assms by (rule distinct_map_filter)
  then have "distinct (filter P rs)" "inj_on ci_id (set (filter P rs))" by (simp_all add: distinct_map)
  moreover from this have "inj_on invite_key (set (filter P rs))" by (auto simp: inj_on_def invite_key_def)
  ultimately show ?thesis by (simp add: newest_first_def distinct_map)
qed


section \<open>Walking the endpoints\<close>

text \<open>A client that reads the identifiers of a page and the next cursor from a response.\<close>

definition page_ids :: "exn + invite_list \<Rightarrow> uuid list \<times> cursor option" where
  "page_ids r = (case r of Inl e \<Rightarrow> ([], None) | Inr p \<Rightarrow> (map ic_invite_id (pg_items p), pg_next p))"

lemma get_inbox_page:
  assumes "require_user caller = Inr me" and "inbox_status filt = Inr want"
  shows "page_ids (get_inbox reply caller filt cur limit db)
     = (map ci_id (fst (inbox_page (db, me, want) limit cur)), snd (inbox_page (db, me, want) limit cur))"
  using assms by (simp add: get_inbox_def inbox_page_def page_ids_def inbox_card_def comp_def split: prod.split)

lemma get_sent_page:
  assumes "require_user caller = Inr me" and "sent_status filt = Inr want"
  shows "page_ids (get_sent reply caller filt cur limit db)
     = (map ci_id (fst (sent_page (db, me, want) limit cur)), snd (sent_page (db, me, want) limit cur))"
  using assms by (simp add: get_sent_def sent_page_def page_ids_def sent_card_def comp_def split: prod.split)

text \<open>C14. Following the cursors of the inbox from its first page yields every invite the inbox shows exactly once, newest first, whatever the page size.\<close>

theorem inbox_pages_complete:
  assumes "distinct (map ci_id (invites db))" and "1 \<le> limit"
    and "require_user caller = Inr me" and "inbox_status filt = Inr want"
    and "length (invites db) < n"
  shows "concat (follow n (\<lambda>cur. page_ids (get_inbox reply caller filt cur limit db)) None)
      = map ci_id (newest_first (filter (in_inbox db me want) (invites db)))"
proof -
  have len: "length (inbox_listing (db, me, want)) < n"
    using le_less_trans [OF length_filter_le assms(5)]
    by (simp add: inbox_listing_def newest_first_def)
  have "concat (follow n (inbox_page (db, me, want) limit) None) = inbox_listing (db, me, want)"
    by (rule inbox.follow_all [OF _ assms(2) len]) (simp add: inbox_listing_def newest_first_distinct [OF assms(1)])
  moreover have "follow n (\<lambda>cur. page_ids (get_inbox reply caller filt cur limit db)) None
      = map (map ci_id) (follow n (inbox_page (db, me, want) limit) None)"
    by (rule map_follow) (rule get_inbox_page [OF assms(3,4)])
  ultimately show ?thesis by (simp add: inbox_listing_def map_concat [symmetric])
qed

text \<open>Following the cursors of the sent list yields every sent invite to a visible profile exactly once, newest first.\<close>

theorem sent_pages_complete:
  assumes "distinct (map ci_id (invites db))" and "1 \<le> limit"
    and "require_user caller = Inr me" and "sent_status filt = Inr want"
    and "length (invites db) < n"
  shows "concat (follow n (\<lambda>cur. page_ids (get_sent reply caller filt cur limit db)) None)
      = map ci_id (newest_first (filter (in_sent db me want) (invites db)))"
proof -
  have len: "length (sent_listing (db, me, want)) < n"
    using le_less_trans [OF length_filter_le assms(5)]
    by (simp add: sent_listing_def newest_first_def)
  have "concat (follow n (sent_page (db, me, want) limit) None) = sent_listing (db, me, want)"
    by (rule sent.follow_all [OF _ assms(2) len]) (simp add: sent_listing_def newest_first_distinct [OF assms(1)])
  moreover have "follow n (\<lambda>cur. page_ids (get_sent reply caller filt cur limit db)) None
      = map (map ci_id) (follow n (sent_page (db, me, want) limit) None)"
    by (rule map_follow) (rule get_sent_page [OF assms(3,4)])
  ultimately show ?thesis by (simp add: sent_listing_def map_concat [symmetric])
qed

text \<open>
  The block listing continues after a time only: when more blocks than the limit carry one
  time, the next page is empty and the rest of them is never shown.
\<close>

definition block_ids :: "exn + block_card page \<Rightarrow> uuid list \<times> cursor option" where
  "block_ids r = (case r of Inl e \<Rightarrow> ([], None) | Inr p \<Rightarrow> (map bc_profile_id (pg_items p), pg_next p))"

lemma cut_page_all:
  assumes "1 \<le> limit" and "limit < length xs"
  shows "cut_page key limit xs = (take limit xs, Some (key (last (take limit xs))))"
  using assms by (auto simp: cut_page_def Let_def min_def)

text \<open>When more blocks than the page limit carry the same time, the page after the first is empty, so the blocks beyond the limit are never listed.\<close>

theorem block_list_loses_ties:
  assumes "require_user caller = Inr me" and "1 \<le> limit"
    and "mine = filter (\<lambda>b. bl_blocker b = me) (blocks db)" and "limit < length mine"
    and "\<forall>b \<in> set mine. bl_created_at b = t"
  shows "length (concat (follow (Suc (Suc n)) (\<lambda>cur. block_ids (list_blocks reply caller cur limit db)) None)) = limit"
proof -
  define xs where "xs = sort_key (\<lambda>b. - bl_created_at b) mine"
  have len: "limit < length xs" using assms(4) by (simp add: xs_def)
  define c where "c = block_cursor (last (take limit xs))"
  have "take limit xs \<noteq> []" using len assms(2) by auto
  then have "last (take limit xs) \<in> set xs" by (meson in_set_takeD last_in_set)
  then have c: "fst c = t" using assms(5) by (simp add: c_def block_cursor_def xs_def)
  have xs: "sort_key (\<lambda>b. - bl_created_at b) (filter (\<lambda>b. bl_blocker b = me) (blocks db)) = xs"
    by (simp add: xs_def assms(3))
  have first: "block_ids (list_blocks reply caller None limit db) = (map bl_blocked (take limit xs), Some c)"
    using assms(1) cut_page_all [OF assms(2) len, of block_cursor]
    by (simp add: list_blocks_def block_ids_def block_card_of_def comp_def xs c_def)
  have "filter (\<lambda>b. bl_blocker b = me \<and> bl_created_at b < fst c) (blocks db) = []"
    using assms(3,5) c by (auto simp: filter_empty_conv)
  then have "block_ids (list_blocks reply caller (Some c) limit db) = ([], None)"
    using assms(1) by (cases c) (simp add: list_blocks_def block_ids_def cut_page_def)
  with first len show ?thesis by simp
qed


section \<open>Witnesses\<close>

definition demo_invite :: "uuid \<Rightarrow> uuid \<Rightarrow> uuid \<Rightarrow> invite_status \<Rightarrow> datetime \<Rightarrow> collab_invite" where
  "demo_invite i a b st t = \<lparr>ci_id = i, ci_from = a, ci_to = b, ci_synopsis = ''hello'', ci_status = st, ci_mod_case = None,
     ci_created_at = t, ci_responded_at = (if st = Inv_Pending then None else Some t), ci_archive_at = t + days 30,
     ci_idempotency_key = None\<rparr>"

definition demo_list_db :: invite_db where
  "demo_list_db = \<lparr>invites = [demo_invite 1 5 7 Inv_Pending 10, demo_invite 2 6 7 Inv_Pending 10,
       demo_invite 3 8 7 Inv_Pending 20, demo_invite 4 7 5 Inv_Pending 30, demo_invite 9 5 7 Inv_Accepted 5],
     blocks = [\<lparr>bl_blocker = 7, bl_blocked = 8, bl_created_at = 1, bl_reason = None\<rparr>,
       \<lparr>bl_blocker = 7, bl_blocked = 9, bl_created_at = 1, bl_reason = None\<rparr>,
       \<lparr>bl_blocker = 7, bl_blocked = 10, bl_created_at = 1, bl_reason = None\<rparr>]\<rparr>"

lemma demo_user: "require_user (Some (str_uuid 7)) = Inr 7"
  by (simp add: require_user_str)

lemma demo_inbox: "map ci_id (newest_first (filter (in_inbox demo_list_db 7 (Some Inv_Pending)) (invites demo_list_db))) = [2, 1]"
  by (simp add: newest_first_def demo_list_db_def demo_invite_def in_inbox_def hidden_profiles_def has_status_def invite_key_def less_prod_def)

lemma inbox_pages_complete_witness:
  "concat (follow 6 (\<lambda>cur. page_ids (get_inbox (\<lambda>_. None) (Some (str_uuid 7)) None cur 1 demo_list_db)) None) = [2, 1]"
  using inbox_pages_complete [where db = demo_list_db and limit = 1 and n = 6 and filt = None and reply = "\<lambda>_. None"
      and want = "Some Inv_Pending", OF _ _ demo_user]
  by (simp add: demo_inbox) (simp add: demo_list_db_def demo_invite_def inbox_status_def)

lemma demo_sent: "map ci_id (newest_first (filter (in_sent demo_list_db 7 None) (invites demo_list_db))) = [4]"
  by (simp add: newest_first_def demo_list_db_def demo_invite_def in_sent_def hidden_profiles_def has_status_def invite_key_def)

lemma sent_pages_complete_witness:
  "concat (follow 6 (\<lambda>cur. page_ids (get_sent (\<lambda>_. None) (Some (str_uuid 7)) None cur 1 demo_list_db)) None) = [4]"
  using sent_pages_complete [where db = demo_list_db and limit = 1 and n = 6 and filt = None and reply = "\<lambda>_. None"
      and want = None, OF _ _ demo_user]
  by (simp add: demo_sent) (simp add: demo_list_db_def demo_invite_def sent_status_def)

lemma block_list_loses_ties_witness:
  "length (concat (follow (Suc (Suc 0)) (\<lambda>cur. block_ids (list_blocks (\<lambda>_. None) (Some (str_uuid 7)) cur 2 demo_list_db)) None)) = 2"
  by (rule block_list_loses_ties [where t = 1, OF demo_user _ refl]) (auto simp: demo_list_db_def)

end
