(* ===== verification/Invite_World.thy ===== *)
theory Invite_World
  imports Invite_Lists
begin

text \<open>
  invite-svc as a whole: the requests it serves as one step function on redis and the database,
  the invariant every sequence of requests keeps, the history it never rewrites, and the
  effects of the single operations.
\<close>

section \<open>Requests\<close>

datatype invite_request =
    Send "string option" send_request "string option" entitlements_api scan_reply
  | Accept "string option" uuid
  | Reject "string option" uuid
  | Cancel "string option" uuid
  | Expire
  | Block "string option" uuid "block_reason option"
  | Unblock "string option" uuid
  | Event "(string \<times> json) list"
  | Wait nat

type_synonym invite_world = "invite_redis \<times> invite_sess"

fun serve :: "(string \<Rightarrow> string) \<Rightarrow> invite_request \<Rightarrow> invite_world \<Rightarrow> invite_world" where
  "serve sha (Send caller body header billing scan) (r, s) = snd (send_invite sha caller body header billing scan r s)"
| "serve sha (Accept caller k) (r, s) = (r, snd (accept_invite caller k s))"
| "serve sha (Reject caller k) (r, s) = (r, snd (reject_invite caller k s))"
| "serve sha (Cancel caller k) (r, s) = (r, snd (cancel_invite caller k s))"
| "serve sha Expire (r, s) = (r, snd (run_expire_all 0 s))"
| "serve sha (Block caller p reason) (r, s) = (r, snd (create_block caller p reason s))"
| "serve sha (Unblock caller p) (r, s) = (r, snd (remove_block caller p s))"
| "serve sha (Event e) (r, s) = (handle_message r e, s)"
| "serve sha (Wait us) (r, s) = (r, s\<lparr>clock := clock s + int us\<rparr>)"

definition serve_all :: "(string \<Rightarrow> string) \<Rightarrow> invite_request list \<Rightarrow> invite_world \<Rightarrow> invite_world" where
  "serve_all sha reqs w = fold (serve sha) reqs w"

definition invite_start :: "datetime \<Rightarrow> uuid \<Rightarrow> invite_world" where
  "invite_start t n = (empty_invite_redis,
     \<lparr>committed = empty_invite_db, work = empty_invite_db, outbox = [], clock = t, next_uuid = n\<rparr>)"

section \<open>The invariant and the history\<close>

definition invite_ok :: "collab_invite \<Rightarrow> bool" where
  "invite_ok i \<longleftrightarrow> invite_check i \<and> (ci_responded_at i = None \<longleftrightarrow> ci_status i = Inv_Pending)
     \<and> ci_archive_at i = ci_created_at i + days 30"

definition set_keys :: "collab_invite list \<Rightarrow> string list" where
  "set_keys is = concat (map (\<lambda>i. case ci_idempotency_key i of None \<Rightarrow> [] | Some k \<Rightarrow> [k]) is)"

definition invite_db_ok :: "invite_db \<Rightarrow> uuid \<Rightarrow> bool" where
  "invite_db_ok db n \<longleftrightarrow> distinct (map ci_id (invites db)) \<and> (\<forall>i \<in> set (invites db). ci_id i < n \<and> invite_ok i)
     \<and> distinct (set_keys (invites db)) \<and> distinct (map block_key (blocks db)) \<and> (\<forall>b \<in> set (blocks db). block_check b)"

definition invite_inv :: "invite_sess \<Rightarrow> bool" where
  "invite_inv s \<longleftrightarrow> work s = committed s \<and> invite_db_ok (committed s) (next_uuid s)
     \<and> (\<forall>i \<in> set (invites (committed s)). ci_created_at i \<le> clock s)"

text \<open>A row may only lose its pending status; everything else of it is fixed.\<close>

definition row_step :: "collab_invite \<Rightarrow> collab_invite \<Rightarrow> bool" where
  "row_step i j \<longleftrightarrow> ci_id j = ci_id i \<and> ci_from j = ci_from i \<and> ci_to j = ci_to i \<and> ci_synopsis j = ci_synopsis i
     \<and> ci_mod_case j = ci_mod_case i \<and> ci_created_at j = ci_created_at i \<and> ci_archive_at j = ci_archive_at i
     \<and> ci_idempotency_key j = ci_idempotency_key i \<and> (ci_status i \<noteq> Inv_Pending \<longrightarrow> j = i)"

definition history_kept :: "collab_invite list \<Rightarrow> collab_invite list \<Rightarrow> bool" where
  "history_kept xs ys \<longleftrightarrow> grows row_step xs ys"

lemma row_step_refl [simp]: "row_step i i"
  by (simp add: row_step_def)

lemma row_step_trans: "row_step i j \<Longrightarrow> row_step j k \<Longrightarrow> row_step i k"
  by (auto simp: row_step_def)

lemma history_refl [simp]: "history_kept xs xs"
  by (simp add: history_kept_def grows_refl)

lemma history_trans: "history_kept xs ys \<Longrightarrow> history_kept ys zs \<Longrightarrow> history_kept xs zs"
  unfolding history_kept_def by (rule grows_trans [OF row_step_trans])

lemma history_append [simp]: "history_kept xs (xs @ ys)"
  by (simp add: history_kept_def grows_append)

lemma history_update:
  assumes "\<And>i. i \<in> set xs \<Longrightarrow> P i \<Longrightarrow> row_step i (f i)"
  shows "history_kept xs (update_where P f xs)"
  unfolding history_kept_def using assms by (intro grows_update) simp_all

lemma set_keys_simps [simp]:
  "set_keys [] = []"
  "set_keys (i # is) = (case ci_idempotency_key i of None \<Rightarrow> [] | Some k \<Rightarrow> [k]) @ set_keys is"
  "set_keys (is @ js) = set_keys is @ set_keys js"
  by (simp_all add: set_keys_def)

lemma in_set_keys: "k \<in> set (set_keys is) \<longleftrightarrow> (\<exists>i \<in> set is. ci_idempotency_key i = Some k)"
  by (induction "is") (auto split: option.splits)

lemma set_keys_update: "(\<And>i. ci_idempotency_key (f i) = ci_idempotency_key i) \<Longrightarrow> set_keys (update_where P f is) = set_keys is"
  by (induction "is") auto

section \<open>What each operation does to the committed tables\<close>

definition answer_row :: "invite_status \<Rightarrow> datetime \<Rightarrow> collab_invite \<Rightarrow> collab_invite" where
  "answer_row st now i = i\<lparr>ci_status := st, ci_responded_at := Some now\<rparr>"

definition respond_db :: "uuid \<Rightarrow> invite_status \<Rightarrow> datetime \<Rightarrow> invite_db \<Rightarrow> invite_db" where
  "respond_db k st now db = db\<lparr>invites := update_where (\<lambda>i. ci_id i = k) (answer_row st now) (invites db)\<rparr>"

lemma respond_run: "respond k st s = (Inr (), s\<lparr>work := respond_db k st (clock s) (work s)\<rparr>)"
  by (simp add: respond_def bind_run now_run modify_run respond_db_def answer_row_def [abs_def])

lemma pending_invite_cases:
  obtains (fail) e where "pending_invite party np cf me k s = (Inl e, s)"
  | (found) i where "i \<in> set (invites (work s))" "ci_id i = k" "party i = me" "ci_status i = Inv_Pending"
      "pending_invite party np cf me k s = (Inr i, s)"
proof -
  consider (none) "one_or_none (filter (\<lambda>i. ci_id i = k) (invites (work s))) = Inr None"
    | (one) i where "filter (\<lambda>i. ci_id i = k) (invites (work s)) = [i]"
    | (many) "one_or_none (filter (\<lambda>i. ci_id i = k) (invites (work s))) = Inl MultipleResultsFound"
    by (rule one_or_none_cases [of "filter (\<lambda>i. ci_id i = k) (invites (work s))"])
  then show thesis
  proof cases
    case none
    with fail show thesis by (simp add: pending_invite_def bind_run scalar_run raise_run)
  next
    case many
    with fail show thesis by (simp add: pending_invite_def bind_run scalar_run)
  next
    case (one i)
    then have i: "i \<in> set (invites (work s))" "ci_id i = k" by (auto simp: filter_eq_Cons_iff)
    from one have run: "pending_invite party np cf me k s =
        (if party i \<noteq> me then (Inl (HTTPException 403 np), s)
         else if ci_status i \<noteq> Inv_Pending then (Inl (HTTPException 409 (cf @ str_invite_status (ci_status i))), s)
         else (Inr i, s))"
      by (simp add: pending_invite_def bind_run scalar_run raise_run ret_run)
    show thesis
    proof (cases "party i = me \<and> ci_status i = Inv_Pending")
      case True
      with found [OF i] run show thesis by simp
    next
      case False
      with fail run show thesis by (cases "party i = me") simp_all
    qed
  qed
qed

text \<open>A handler leaves the tables as they are, or answers one pending invite.\<close>

definition answers :: "uuid \<Rightarrow> invite_status \<Rightarrow> invite_sess \<Rightarrow> invite_sess \<Rightarrow> bool" where
  "answers k st s s1 \<longleftrightarrow> work s1 = committed s1 \<and> clock s1 = clock s \<and> next_uuid s1 = next_uuid s
     \<and> (committed s1 = committed s
        \<or> (\<exists>i \<in> set (invites (committed s)). ci_id i = k \<and> ci_status i = Inv_Pending)
          \<and> committed s1 = respond_db k st (clock s) (committed s))"

lemma answers_publish: "answers k st s s1 \<Longrightarrow> answers k st s (s1\<lparr>outbox := ms\<rparr>)"
  by (simp add: answers_def)

lemma answers_none: "work s = committed s \<Longrightarrow> answers k st s s"
  by (simp add: answers_def)

lemma accept_tx_answers: "answers k Inv_Accepted s (snd (committing (accept_tx me k) s))"
proof (rule pending_invite_cases [of ci_to "''Not the recipient''" "''Invite already in terminal state: ''" me k "s\<lparr>work := committed s\<rparr>"])
  fix e assume "pending_invite ci_to ''Not the recipient'' ''Invite already in terminal state: '' me k (s\<lparr>work := committed s\<rparr>)
      = (Inl e, s\<lparr>work := committed s\<rparr>)"
  then show ?thesis by (simp add: committing_run accept_tx_def bind_run answers_def)
next
  fix i assume "i \<in> set (invites (work (s\<lparr>work := committed s\<rparr>)))" "ci_id i = k" "ci_to i = me" "ci_status i = Inv_Pending"
    "pending_invite ci_to ''Not the recipient'' ''Invite already in terminal state: '' me k (s\<lparr>work := committed s\<rparr>)
      = (Inr i, s\<lparr>work := committed s\<rparr>)"
  then show ?thesis
    by (auto simp: committing_run accept_tx_def bind_run scalar_run seq_run respond_run ret_run answers_def split: sum.split)
qed

lemma close_tx_answers:
  assumes "tx = bind_c (pending_invite party np cf me k) (\<lambda>i. seq_c (respond k st) (ret i))"
  shows "answers k st s (snd (committing tx s))"
proof (rule pending_invite_cases [of party np cf me k "s\<lparr>work := committed s\<rparr>"])
  fix e assume "pending_invite party np cf me k (s\<lparr>work := committed s\<rparr>) = (Inl e, s\<lparr>work := committed s\<rparr>)"
  then show ?thesis by (simp add: assms committing_run bind_run answers_def)
next
  fix i assume "i \<in> set (invites (work (s\<lparr>work := committed s\<rparr>)))" "ci_id i = k" "ci_status i = Inv_Pending"
    "pending_invite party np cf me k (s\<lparr>work := committed s\<rparr>) = (Inr i, s\<lparr>work := committed s\<rparr>)"
  then show ?thesis
    by (auto simp: assms committing_run bind_run seq_run respond_run ret_run answers_def)
qed

definition accept_messages :: "datetime \<Rightarrow> uuid \<Rightarrow> collab_invite \<Rightarrow> collab_invite option \<Rightarrow> message list" where
  "accept_messages now k i mirror = emit_invite_accepted now k (ci_from i) (ci_to i)
     # (case mirror of None \<Rightarrow> [] | Some j \<Rightarrow> [emit_match_created now (ci_from i) (ci_to i) k (ci_id j)])"

lemma accept_events_run:
  "accept_events k i m s = (Inr (), s\<lparr>outbox := outbox s @ accept_messages (clock s) k i m\<rparr>)"
  by (cases m) (simp_all add: accept_events_def accept_messages_def bind_run now_run seq_run publish_run ret_run)

lemma accept_answers: "work s = committed s \<Longrightarrow> answers k Inv_Accepted s (snd (accept_invite caller k s))"
  using accept_tx_answers [of k s]
  by (auto simp: accept_invite_def raise_run answers_none bind_run seq_run accept_events_run ret_run
      split: sum.split prod.split intro!: answers_publish) (metis snd_conv)+

lemma reject_answers: "work s = committed s \<Longrightarrow> answers k Inv_Rejected s (snd (reject_invite caller k s))"
  using close_tx_answers [OF reject_tx_def, where s = s and k = k]
  by (auto simp: reject_invite_def raise_run answers_none bind_run seq_run now_run publish_run ret_run
      split: sum.split prod.split intro!: answers_publish) (metis snd_conv)+

lemma cancel_answers: "work s = committed s \<Longrightarrow> answers k Inv_Cancelled s (snd (cancel_invite caller k s))"
  using close_tx_answers [OF cancel_tx_def, where s = s and k = k]
  by (auto simp: cancel_invite_def raise_run answers_none bind_run seq_run now_run publish_run ret_run
      split: sum.split prod.split intro!: answers_publish) (metis snd_conv)+

definition with_invite :: "collab_invite \<Rightarrow> invite_db \<Rightarrow> invite_db" where
  "with_invite i db = db\<lparr>invites := invites db @ [i]\<rparr>"

lemma store_invite_run:
  assumes "work s = committed s"
  shows "store_invite key i s =
    (if invite_check i \<and> \<not> list_ex (invite_clash i) (invites (committed s))
     then (Inr None, s\<lparr>work := with_invite i (committed s), committed := with_invite i (committed s)\<rparr>)
     else (case one_or_none (filter (\<lambda>j. ci_idempotency_key j = Some key) (invites (committed s))) of
             Inl e \<Rightarrow> (Inl e, s) | Inr None \<Rightarrow> (Inl IntegrityError, s) | Inr (Some j) \<Rightarrow> (Inr (Some j), s)))"
proof -
  have s: "s\<lparr>work := committed s\<rparr> = s" using assms by simp
  show ?thesis
    by (simp add: store_invite_def catch_integrity_run seq_run add_invite_def insert_run commit_run ret_run rollback_run
        bind_run scalar_run raise_run with_invite_def assms s split: sum.split option.split)
qed

text \<open>What sending may change: nothing, or one new pending invite under the fresh identifier.\<close>

definition sends :: "invite_sess \<Rightarrow> invite_sess \<Rightarrow> bool" where
  "sends s s1 \<longleftrightarrow> work s1 = committed s1 \<and> clock s1 = clock s \<and> next_uuid s \<le> next_uuid s1
     \<and> (committed s1 = committed s
        \<or> (\<exists>from_id body mc key. let i = new_invite (next_uuid s) from_id body mc key (clock s) in
             invite_check i \<and> \<not> list_ex (invite_clash i) (invites (committed s))
             \<and> next_uuid s1 = Suc (next_uuid s) \<and> committed s1 = with_invite i (committed s)))"

lemma sends_same: "work s1 = committed s \<Longrightarrow> committed s1 = committed s \<Longrightarrow> clock s1 = clock s \<Longrightarrow> next_uuid s \<le> next_uuid s1
    \<Longrightarrow> sends s s1"
  by (simp add: sends_def)

lemma send_granted_sends:
  assumes "work s = committed s" and "next_uuid s = Suc n"
  shows "sends (s\<lparr>next_uuid := n\<rparr>) (snd (snd (send_granted idem key n from_id body rem scan r s)))"
  unfolding send_granted_def Let_def store_invite_run [OF assms(1)]
  using assms
  by (auto simp: publish_run sends_def Let_def split: sum.split exn.split option.split)

lemma send_body_sends:
  assumes "work s = committed s"
  shows "sends s (snd (snd (send_body sha caller body header billing scan r s)))"
proof -
  have same: "sends s s" "sends s (s\<lparr>next_uuid := Suc (next_uuid s)\<rparr>)" using assms by (simp_all add: sends_def)
  have "sends s (snd (snd (send_granted idem key (next_uuid s) from_id body rem scan r1 (s\<lparr>next_uuid := Suc (next_uuid s)\<rparr>))))"
    for idem key from_id rem r1
    using send_granted_sends [of "s\<lparr>next_uuid := Suc (next_uuid s)\<rparr>" "next_uuid s" idem key from_id body rem scan r1] assms
    by simp
  with same show ?thesis
    by (simp add: send_body_def Let_def uuid4_run split: sum.split option.split prod.split)
qed

lemma send_invite_sends:
  assumes "work s = committed s"
  shows "sends s (snd (snd (send_invite sha caller body header billing scan r s)))"
proof -
  have s: "s\<lparr>work := committed s\<rparr> = s" using assms by simp
  obtain res r1 s1 where run: "send_body sha caller body header billing scan r s = (res, r1, s1)"
    by (metis prod.exhaust)
  with send_body_sends [OF assms, of sha caller body header billing scan r] have s1: "sends s s1" by simp
  then have "s1\<lparr>work := committed s1\<rparr> = s1" by (simp add: sends_def)
  with run s1 show ?thesis by (simp add: send_invite_def s)
qed

text \<open>Blocking and unblocking change the block table only.\<close>

definition reblocks :: "invite_sess \<Rightarrow> invite_sess \<Rightarrow> bool" where
  "reblocks s s1 \<longleftrightarrow> work s1 = committed s1 \<and> clock s1 = clock s \<and> next_uuid s1 = next_uuid s
     \<and> invites (committed s1) = invites (committed s)
     \<and> (distinct (map block_key (blocks (committed s))) \<and> (\<forall>b \<in> set (blocks (committed s)). block_check b) \<longrightarrow>
        distinct (map block_key (blocks (committed s1))) \<and> (\<forall>b \<in> set (blocks (committed s1)). block_check b))"

lemma reblocks_same: "work s = committed s \<Longrightarrow> reblocks s s"
  by (simp add: reblocks_def)

lemma publish_all_run: "for_c ms publish_c s = (Inr (), s\<lparr>outbox := outbox s @ ms\<rparr>)"
  by (induction ms arbitrary: s) (simp_all add: ret_run seq_run publish_run)

lemma create_block_reblocks:
  assumes "work s = committed s"
  shows "reblocks s (snd (create_block caller p reason s))"
proof -
  have s: "s\<lparr>work := committed s\<rparr> = s" using assms by simp
  show ?thesis
    using assms
    by (auto simp: create_block_def raise_run reblocks_def in_session_def s bind_run scalar_run ret_run now_run Let_def
        seq_run add_block_def insert_run commit_run publish_all_run list_ex_iff block_clash_def
        split: sum.split option.split)
qed

lemma remove_block_reblocks:
  assumes "work s = committed s"
  shows "reblocks s (snd (remove_block caller p s))"
proof -
  have s: "s\<lparr>work := committed s\<rparr> = s" using assms by simp
  show ?thesis
    using assms
    by (auto simp: remove_block_def raise_run reblocks_def in_session_def s bind_run scalar_run ret_run now_run
        seq_run modify_run commit_run publish_run distinct_map_filter
        split: sum.split option.split)
qed

section \<open>Every request keeps the invariant and the history\<close>

lemma invite_ok_answer:
  assumes "invite_ok i" and "ci_status i = Inv_Pending" and "st \<noteq> Inv_Pending"
  shows "invite_ok (answer_row st now i)"
  using assms by (simp add: invite_ok_def invite_check_def answer_row_def)

lemma row_step_answer: "ci_status i = Inv_Pending \<Longrightarrow> row_step i (answer_row st now i)"
  by (simp add: row_step_def answer_row_def)

lemma only_row:
  "distinct (map ci_id is) \<Longrightarrow> i \<in> set is \<Longrightarrow> j \<in> set is \<Longrightarrow> ci_id i = ci_id j \<Longrightarrow> i = j"
  by (metis distinct_map inj_onD)

lemma update_ok:
  assumes "invite_db_ok db n" and "\<And>i. i \<in> set (invites db) \<Longrightarrow> P i \<Longrightarrow> ci_status i = Inv_Pending" and "st \<noteq> Inv_Pending"
  shows "invite_db_ok (db\<lparr>invites := update_where P (answer_row st now) (invites db)\<rparr>) n"
    and "history_kept (invites db) (update_where P (answer_row st now) (invites db))"
    and "(\<forall>i \<in> set (update_where P (answer_row st now) (invites db)). ci_created_at i \<le> t)
      \<longleftrightarrow> (\<forall>i \<in> set (invites db). ci_created_at i \<le> t)"
proof -
  have keys: "set_keys (update_where P (answer_row st now) (invites db)) = set_keys (invites db)"
    by (rule set_keys_update) (simp add: answer_row_def)
  have ids: "map ci_id (update_where P (answer_row st now) (invites db)) = map ci_id (invites db)"
    by (rule map_update_where) (simp add: answer_row_def)
  have "ci_id i < n \<and> invite_ok i" if "i \<in> set (update_where P (answer_row st now) (invites db))" for i
    using that assms(1,2) invite_ok_answer [OF _ _ assms(3)]
    by (auto simp: set_update_where invite_db_ok_def) (simp add: answer_row_def)
  with assms(1) show "invite_db_ok (db\<lparr>invites := update_where P (answer_row st now) (invites db)\<rparr>) n"
    by (simp add: invite_db_ok_def keys ids)
  show "history_kept (invites db) (update_where P (answer_row st now) (invites db))"
    using assms(2) by (intro history_update row_step_answer)
  have "ci_created_at ` set (update_where P (answer_row st now) (invites db)) = ci_created_at ` set (invites db)"
    by (rule image_update_where) (simp add: answer_row_def)
  then show "(\<forall>i \<in> set (update_where P (answer_row st now) (invites db)). ci_created_at i \<le> t)
      \<longleftrightarrow> (\<forall>i \<in> set (invites db). ci_created_at i \<le> t)"
    by (metis (no_types, lifting) image_iff)
qed

lemma answers_keeps:
  assumes "answers k st s s1" and "invite_inv s" and "st \<noteq> Inv_Pending"
  shows "invite_inv s1 \<and> history_kept (invites (committed s)) (invites (committed s1))"
proof (cases "committed s1 = committed s")
  case True
  with assms show ?thesis by (simp add: answers_def invite_inv_def)
next
  case False
  with assms(1) obtain i where i: "i \<in> set (invites (committed s))" "ci_id i = k" "ci_status i = Inv_Pending"
    and s1: "committed s1 = respond_db k st (clock s) (committed s)" "work s1 = committed s1" "next_uuid s1 = next_uuid s"
      "clock s1 = clock s"
    by (auto simp: answers_def)
  have db: "invite_db_ok (committed s) (next_uuid s)" using assms(2) by (simp add: invite_inv_def)
  then have "ci_status j = Inv_Pending" if "j \<in> set (invites (committed s))" "ci_id j = k" for j
    using only_row [OF _ i(1) that(1)] i(2,3) that(2) by (simp add: invite_db_ok_def)
  from update_ok [OF db this assms(3), where now = "clock s"] assms(2) show ?thesis
    by (simp add: s1 invite_inv_def respond_db_def)
qed

lemma sends_keeps:
  assumes "sends s s1" and "invite_inv s"
  shows "invite_inv s1 \<and> history_kept (invites (committed s)) (invites (committed s1))"
proof (cases "committed s1 = committed s")
  case True
  with assms show ?thesis by (auto simp: sends_def invite_inv_def invite_db_ok_def)
next
  case False
  with assms(1) obtain from_id body mc key i where i: "i = new_invite (next_uuid s) from_id body mc key (clock s)"
    and ok: "invite_check i" "\<not> list_ex (invite_clash i) (invites (committed s))"
    and s1: "committed s1 = with_invite i (committed s)" "work s1 = committed s1" "next_uuid s1 = Suc (next_uuid s)"
      "clock s1 = clock s"
    by (auto simp: sends_def Let_def)
  have db: "invite_db_ok (committed s) (next_uuid s)" using assms(2) by (simp add: invite_inv_def)
  have "invite_ok i" using ok(1) by (simp add: invite_ok_def i new_invite_def invite_ttl_days_def)
  moreover have "ci_id i = next_uuid s" by (simp add: i new_invite_def)
  moreover from this have "ci_id i \<notin> ci_id ` set (invites (committed s))" using db by (auto simp: invite_db_ok_def)
  moreover have "set (case ci_idempotency_key i of None \<Rightarrow> [] | Some k \<Rightarrow> [k]) \<inter> set (set_keys (invites (committed s))) = {}"
  proof (cases "ci_idempotency_key i")
    case (Some k)
    with ok(2) have "k \<notin> set (set_keys (invites (committed s)))"
      by (force simp: in_set_keys list_ex_iff invite_clash_def)
    with Some show ?thesis by simp
  qed simp
  ultimately have "invite_db_ok (with_invite i (committed s)) (Suc (next_uuid s))"
    using db by (auto simp: invite_db_ok_def with_invite_def less_Suc_eq split: option.split)
  with s1 assms(2) show ?thesis by (simp add: invite_inv_def with_invite_def) (simp add: i new_invite_def)
qed

lemma expire_spec_answer: "expire_row now = answer_row Inv_Expired now"
  by (rule ext) (simp add: expire_row_def answer_row_def)

lemma expire_keeps:
  assumes "invite_inv s"
  shows "invite_inv (snd (run_expire_all 0 s)) \<and> history_kept (invites (committed s)) (invites (committed (snd (run_expire_all 0 s))))"
proof -
  have db: "invite_db_ok (committed s) (next_uuid s)" using assms by (simp add: invite_inv_def)
  then have "distinct (map ci_id (invites (committed s)))" by (simp add: invite_db_ok_def)
  from run_expire_all_result [OF this, of 0] have run: "snd (run_expire_all 0 s) = expire_spec s" by simp
  have "ci_status i = Inv_Pending" if "stale (clock s) i" for i using that by (simp add: stale_def)
  from update_ok [OF db this, of "stale (clock s)" Inv_Expired "clock s"] assms show ?thesis
    by (simp add: run expire_spec_def Let_def invite_inv_def expire_spec_answer)
qed

lemma serve_keeps:
  assumes "invite_inv (snd w)"
  shows "invite_inv (snd (serve sha q w)) \<and> history_kept (invites (committed (snd w))) (invites (committed (snd (serve sha q w))))"
proof -
  obtain r s where w: "w = (r, s)" by (cases w)
  have inv: "invite_inv s" and eq: "work s = committed s" using assms w by (simp_all add: invite_inv_def)
  have blk: "invite_inv s1 \<and> history_kept (invites (committed s)) (invites (committed s1))" if "reblocks s s1" for s1
    using that inv by (simp add: reblocks_def invite_inv_def invite_db_ok_def)
  show ?thesis
  proof (cases q)
    case (Send caller body header billing scan)
    then show ?thesis using sends_keeps [OF send_invite_sends [OF eq] inv] w by simp
  next
    case (Accept caller k)
    then show ?thesis using answers_keeps [OF accept_answers [OF eq] inv] w by simp
  next
    case (Reject caller k)
    then show ?thesis using answers_keeps [OF reject_answers [OF eq] inv] w by simp
  next
    case (Cancel caller k)
    then show ?thesis using answers_keeps [OF cancel_answers [OF eq] inv] w by simp
  next
    case Expire
    then show ?thesis using expire_keeps [OF inv] w by simp
  next
    case (Block caller p reason)
    then show ?thesis using blk [OF create_block_reblocks [OF eq]] w by simp
  next
    case (Unblock caller p)
    then show ?thesis using blk [OF remove_block_reblocks [OF eq]] w by simp
  qed (use inv w in \<open>auto simp: invite_inv_def\<close>)
qed

section \<open>The service as a whole\<close>

lemma start_inv: "invite_inv (snd (invite_start t n))"
  by (simp add: invite_start_def invite_inv_def invite_db_ok_def empty_invite_db_def)

lemma serve_all_keeps:
  "invite_inv (snd w) \<Longrightarrow> invite_inv (snd (serve_all sha reqs w))
     \<and> history_kept (invites (committed (snd w))) (invites (committed (snd (serve_all sha reqs w))))"
proof (induction reqs arbitrary: w)
  case Nil
  then show ?case by (simp add: serve_all_def)
next
  case (Cons q reqs)
  from serve_keeps [OF Cons.prems, of sha q] have one: "invite_inv (snd (serve sha q w))"
    "history_kept (invites (committed (snd w))) (invites (committed (snd (serve sha q w))))" by simp_all
  from Cons.IH [OF one(1)] history_trans [OF one(2)] show ?case by (simp add: serve_all_def)
qed

lemma serve_all_append: "serve_all sha (xs @ ys) w = serve_all sha ys (serve_all sha xs w)"
  by (simp add: serve_all_def)

text \<open>C10. After any sequence of requests the tables are well formed: identifiers and idempotency keys are unique, no invite or block is to oneself, a response time is set exactly when an invite is answered, and every invite expires 30 days after it was created.\<close>

theorem invite_tables_well_formed:
  "invite_db_ok (committed (snd (serve_all sha reqs (invite_start t n))))
     (next_uuid (snd (serve_all sha reqs (invite_start t n))))"
  using serve_all_keeps [OF start_inv] by (simp add: invite_inv_def)

text \<open>C9. No sequence of requests rewrites the history: every invite stays in its place with its parties, text, times and key, and once it is answered, expired or cancelled it never changes again.\<close>

theorem invite_history_is_append_only:
  "history_kept (invites (committed (snd (serve_all sha reqs1 (invite_start t n)))))
     (invites (committed (snd (serve_all sha (reqs1 @ reqs2) (invite_start t n)))))"
proof -
  have "invite_inv (snd (serve_all sha reqs1 (invite_start t n)))" using serve_all_keeps [OF start_inv] by simp
  from serve_all_keeps [OF this, of sha reqs2] show ?thesis by (simp add: serve_all_append)
qed

text \<open>Liveness of the expiry worker: after any requests, once 30 days have passed the next run leaves no invite pending.\<close>

theorem every_invite_is_closed:
  assumes "days 30 \<le> int us"
  shows "\<forall>i \<in> set (invites (committed (snd (serve_all sha (reqs @ [Wait us, Expire]) (invite_start t n))))).
     ci_status i \<noteq> Inv_Pending"
proof -
  obtain r s where w: "serve_all sha reqs (invite_start t n) = (r, s)" by (cases "serve_all sha reqs (invite_start t n)")
  have inv: "invite_inv s" using serve_all_keeps [OF start_inv, of sha reqs t n] w by simp
  define u where "u = s\<lparr>clock := clock s + int us\<rparr>"
  have u: "invites (committed u) = invites (committed s)" by (simp add: u_def)
  have "distinct (map ci_id (invites (committed u)))" using inv by (simp add: invite_inv_def invite_db_ok_def u)
  from run_expire_all_result [OF this, of 0] have run: "snd (run_expire_all 0 u) = expire_spec u" by simp
  have stale: "stale (clock u) i" if "i \<in> set (invites (committed s))" "ci_status i = Inv_Pending" for i
    using that inv assms by (auto simp: invite_inv_def invite_db_ok_def invite_ok_def stale_def u_def)
  have "ci_status i \<noteq> Inv_Pending" if "i \<in> set (invites (committed (expire_spec u)))" for i
    using that stale by (auto simp: expire_spec_def Let_def set_update_where u expire_row_def)
  then show ?thesis by (simp add: serve_all_append w) (simp add: serve_all_def run flip: u_def)
qed

lemma every_invite_is_closed_witness:
  "filter (\<lambda>i. ci_status i = Inv_Pending) (invites (committed (snd (serve_all id
       ([Send (Some (str_uuid 5)) \<lparr>rq_to = 7, rq_synopsis = ''hi''\<rparr> None (\<lambda>_ _. Billing_Down) Scan_Timeout] @ [Wait (30 * 86400000000), Expire])
       (invite_start 0 1))))) = []"
  unfolding filter_empty_conv by (rule every_invite_is_closed) (simp add: days_def)

text \<open>One run of the expiry worker expires exactly the pending invites whose time has come, counts them, and announces each of them once; batching loses and repeats nothing.\<close>

theorem expiry_run_is_exact:
  assumes "invite_inv s"
  shows "run_expire_all 0 s = (Inr (length (filter (stale (clock s)) (invites (committed s)))), expire_spec s)"
  using run_expire_all_result [of s 0] assms by (simp add: invite_inv_def invite_db_ok_def)

section \<open>Accepting\<close>

lemma find_id:
  assumes "distinct (map ci_id is)" and "i \<in> set is"
  shows "filter (\<lambda>x. ci_id x = ci_id i) is = [i]"
  by (rule filter_key_unique [OF assms])

definition accepted_state :: "invite_sess \<Rightarrow> collab_invite \<Rightarrow> collab_invite option \<Rightarrow> invite_sess" where
  "accepted_state s i mirror =
     (let db = respond_db (ci_id i) Inv_Accepted (clock s) (committed s) in
      s\<lparr>work := db, committed := db, outbox := outbox s @ accept_messages (clock s) (ci_id i) i mirror\<rparr>)"

lemma accept_pending_run:
  assumes "invite_inv s" and "i \<in> set (invites (committed s))" and "ci_status i = Inv_Pending"
    and "require_user caller = Inr (ci_to i)"
  shows "accept_invite caller (ci_id i) s =
    (case one_or_none (filter (mirrors i) (invites (committed s))) of
       Inl e \<Rightarrow> (Inl e, s)
     | Inr m \<Rightarrow> (Inr \<lparr>ar_invite_id = ci_id i, ar_matched = (m \<noteq> None)\<rparr>, accepted_state s i m))"
proof -
  have s: "s\<lparr>work := committed s\<rparr> = s" and eq: "work s = committed s" and dist: "distinct (map ci_id (invites (committed s)))"
    using assms(1) by (simp_all add: invite_inv_def invite_db_ok_def)
  have "pending_invite ci_to ''Not the recipient'' ''Invite already in terminal state: '' (ci_to i) (ci_id i) s = (Inr i, s)"
    using find_id [OF dist assms(2)] assms(3)
    by (simp add: pending_invite_def bind_run scalar_run eq ret_run)
  then show ?thesis
    using assms(4)
    by (simp add: accept_invite_def bind_run committing_run s accept_tx_def scalar_run eq seq_run respond_run ret_run
        accept_events_run accepted_state_def Let_def split: sum.split)
qed

text \<open>What two people see who accept each other's invite, one after the other.\<close>

definition accept_both :: "string option \<Rightarrow> uuid \<Rightarrow> string option \<Rightarrow> uuid \<Rightarrow> invite_sess
    \<Rightarrow> (exn + accept_response) \<times> (exn + accept_response) \<times> message list" where
  "accept_both first_caller first_id second_caller second_id s =
     (case accept_invite first_caller first_id s of (r1, s1) \<Rightarrow>
      case accept_invite second_caller second_id s1 of (r2, s2) \<Rightarrow>
        (r1, r2, drop (length (outbox s)) (outbox s2)))"

lemma accept_both_matches:
  assumes inv: "invite_inv s" and i: "i \<in> set (invites (committed s))" "ci_status i = Inv_Pending"
    and j: "j \<in> set (invites (committed s))" "ci_status j = Inv_Pending"
    and pair: "ci_from j = ci_to i" "ci_to j = ci_from i"
    and none: "\<forall>x \<in> set (invites (committed s)). \<not> mirrors i x \<and> \<not> mirrors j x"
    and callers: "require_user ci = Inr (ci_to i)" "require_user cj = Inr (ci_to j)"
  shows "accept_both ci (ci_id i) cj (ci_id j) s =
     (Inr \<lparr>ar_invite_id = ci_id i, ar_matched = False\<rparr>, Inr \<lparr>ar_invite_id = ci_id j, ar_matched = True\<rparr>,
      [emit_invite_accepted (clock s) (ci_id i) (ci_from i) (ci_to i),
       emit_invite_accepted (clock s) (ci_id j) (ci_from j) (ci_to j),
       emit_match_created (clock s) (ci_from j) (ci_to j) (ci_id j) (ci_id i)])"
proof -
  define i1 where "i1 = answer_row Inv_Accepted (clock s) i"
  define s1 where "s1 = accepted_state s i None"
  have dist: "distinct (map ci_id (invites (committed s)))" and chk: "ci_from i \<noteq> ci_to i"
    using inv i(1) by (auto simp: invite_inv_def invite_db_ok_def invite_ok_def invite_check_def)
  from pair chk have ne: "ci_id i \<noteq> ci_id j" using only_row [OF dist i(1) j(1)] by auto
  have "filter (mirrors i) (invites (committed s)) = []" using none by (simp add: filter_empty_conv)
  then have run1: "accept_invite ci (ci_id i) s = (Inr \<lparr>ar_invite_id = ci_id i, ar_matched = False\<rparr>, s1)"
    using accept_pending_run [OF inv i callers(1)] by (simp add: s1_def)
  have "answers (ci_id i) Inv_Accepted s s1"
    using accept_answers [of s "ci_id i" ci] run1 inv by (simp add: invite_inv_def)
  then have inv1: "invite_inv s1" using answers_keeps [OF _ inv] by blast
  have rows: "invites (committed s1) = update_where (\<lambda>x. ci_id x = ci_id i) (answer_row Inv_Accepted (clock s)) (invites (committed s))"
    and clk: "clock s1 = clock s"
    by (simp_all add: s1_def accepted_state_def Let_def respond_db_def)
  have j1: "j \<in> set (invites (committed s1))" using j(1) ne by (auto simp: rows set_update_where)
  have step: "filter (mirrors j) (update_where (\<lambda>x. ci_id x = ci_id i) (answer_row Inv_Accepted (clock s)) xs)
      = map (answer_row Inv_Accepted (clock s)) (filter (\<lambda>x. ci_id x = ci_id i) xs)"
    if "\<forall>x \<in> set xs. \<not> mirrors j x \<and> (ci_id x = ci_id i \<longrightarrow> x = i)" for xs
    using that by (induction xs) (auto simp: mirrors_def answer_row_def pair)
  have "\<forall>x \<in> set (invites (committed s)). \<not> mirrors j x \<and> (ci_id x = ci_id i \<longrightarrow> x = i)"
    using none only_row [OF dist _ i(1)] by blast
  from step [OF this] find_id [OF dist i(1)]
  have "filter (mirrors j) (invites (committed s1)) = [i1]" by (simp add: rows i1_def)
  with accept_pending_run [OF inv1 j1 j(2) callers(2)]
  have run2: "accept_invite cj (ci_id j) s1 = (Inr \<lparr>ar_invite_id = ci_id j, ar_matched = True\<rparr>, accepted_state s1 j (Some i1))"
    by simp
  show ?thesis
    using run1 run2
    by (simp add: accept_both_def accepted_state_def Let_def clk) (simp add: s1_def accepted_state_def Let_def accept_messages_def i1_def answer_row_def)
qed

text \<open>C11. When two people accept each other's pending invites, exactly the second acceptance reports the match, one match.created event goes out, and it is the same event whoever accepts last.\<close>

theorem mutual_accept_matches_once:
  assumes "invite_inv s" and "i \<in> set (invites (committed s))" "ci_status i = Inv_Pending"
    and "j \<in> set (invites (committed s))" "ci_status j = Inv_Pending"
    and "ci_from j = ci_to i" "ci_to j = ci_from i"
    and "\<forall>x \<in> set (invites (committed s)). \<not> mirrors i x \<and> \<not> mirrors j x"
    and "require_user ci = Inr (ci_to i)" "require_user cj = Inr (ci_to j)"
    and "str_uuid (ci_from i) \<noteq> str_uuid (ci_to i)"
  shows "\<exists>ai aj m. routing_key m = ''match.created'' \<and> routing_key ai = ''invite.accepted'' \<and> routing_key aj = ''invite.accepted''
    \<and> accept_both ci (ci_id i) cj (ci_id j) s =
        (Inr \<lparr>ar_invite_id = ci_id i, ar_matched = False\<rparr>, Inr \<lparr>ar_invite_id = ci_id j, ar_matched = True\<rparr>, [ai, aj, m])
    \<and> accept_both cj (ci_id j) ci (ci_id i) s =
        (Inr \<lparr>ar_invite_id = ci_id j, ar_matched = False\<rparr>, Inr \<lparr>ar_invite_id = ci_id i, ar_matched = True\<rparr>, [aj, ai, m])"
proof -
  define m where "m = emit_match_created (clock s) (ci_from i) (ci_to i) (ci_id i) (ci_id j)"
  have "m = emit_match_created (clock s) (ci_from j) (ci_to j) (ci_id j) (ci_id i)"
    using emit_match_created_swap [OF assms(11)] by (simp add: m_def assms(6,7))
  moreover have "routing_key m = ''match.created''" by (simp add: m_def emit_match_created_def split: prod.split)
  moreover have "routing_key (emit_invite_accepted t a b c) = ''invite.accepted''" for t a b c
    by (simp add: emit_invite_accepted_def)
  ultimately show ?thesis
    using accept_both_matches [OF assms(1,2,3,4,5,6,7,8,9,10)]
      accept_both_matches [OF assms(1,4,5,2,3) assms(7,6) [symmetric] _ assms(10,9)] assms(8)
    by (auto simp: m_def)
qed

text \<open>Once a recipient has two accepted invites from the same sender, that sender can no longer accept theirs: the mirror lookup raises, the request fails and nothing changes.\<close>

theorem second_accepted_mirror_blocks_accept:
  assumes "invite_inv s" and "i \<in> set (invites (committed s))" and "ci_status i = Inv_Pending"
    and "require_user caller = Inr (ci_to i)"
    and "x \<in> set (invites (committed s))" "y \<in> set (invites (committed s))" "mirrors i x" "mirrors i y" "x \<noteq> y"
  shows "accept_invite caller (ci_id i) s = (Inl MultipleResultsFound, s)"
proof -
  have "{x, y} \<subseteq> set (filter (mirrors i) (invites (committed s)))" using assms(5-8) by simp
  then have "one_or_none (filter (mirrors i) (invites (committed s))) = Inl MultipleResultsFound"
    by (cases rule: one_or_none_cases [of "filter (mirrors i) (invites (committed s))"]) (use assms(9) in auto)
  then show ?thesis using accept_pending_run [OF assms(1-4)] by simp
qed

section \<open>Sending\<close>

text \<open>C12. An invite is stored only for an authenticated sender other than the recipient, with no block either way, a granted quota and an unflagged synopsis; then exactly that invite is added, pending for 30 days, and announced once.\<close>

theorem no_invite_without_checks:
  assumes "work s = committed s"
    and "send_invite sha caller body header billing scan r s = (res, r1, s1)"
    and "committed s1 \<noteq> committed s"
  shows "\<exists>from_id mc remaining. require_user caller = Inr from_id \<and> from_id \<noteq> rq_to body
    \<and> \<not> is_blocked (committed s) from_id (rq_to body)
    \<and> fst (check_and_increment_quota r (now_ms s) billing from_id (next_uuid s)) = (True, remaining)
    \<and> scan_synopsis scan = Inr mc
    \<and> committed s1 = with_invite (new_invite (next_uuid s) from_id body mc (given_key header) (clock s)) (committed s)
    \<and> outbox s1 = outbox s @ [emit_invite_sent (clock s) (next_uuid s) from_id (rq_to body)]
    \<and> res = Inr (send_response_of (new_invite (next_uuid s) from_id body mc (given_key header) (clock s)) remaining)"
proof -
  have s: "s\<lparr>work := committed s\<rparr> = s" using assms(1) by simp
  have eq: "work (s\<lparr>next_uuid := n\<rparr>) = committed (s\<lparr>next_uuid := n\<rparr>)" for n using assms(1) by simp
  from assms(2,3) show ?thesis
    by (auto simp: send_invite_def s send_body_def Let_def uuid4_run send_granted_def store_invite_run [OF eq] assms(1) publish_run
        now_ms_def split: sum.splits if_splits option.splits prod.splits exn.splits)
qed

lemma create_block_present:
  assumes "work s = committed s" and "create_block caller b reason s = (Inr resp, s1)" and "require_user caller = Inr a"
  shows "list_ex (is_block a b) (blocks (committed s1))"
proof -
  have s: "s\<lparr>work := committed s\<rparr> = s" using assms(1) by simp
  show ?thesis
  proof (rule one_or_none_cases [of "filter (is_block a b) (blocks (committed s))"])
    fix x assume x: "filter (is_block a b) (blocks (committed s)) = [x]"
    then have "list_ex (is_block a b) (blocks (committed s))" by (auto simp: list_ex_iff filter_eq_Cons_iff)
    with x assms show ?thesis
      by (auto simp: create_block_def raise_run in_session_def s bind_run scalar_run ret_run split: if_splits)
  next
    assume "filter (is_block a b) (blocks (committed s)) = []"
    with assms show ?thesis
      by (auto simp: create_block_def raise_run in_session_def s bind_run scalar_run ret_run now_run Let_def seq_run add_block_def
          insert_run commit_run publish_all_run is_block_def split: if_splits)
  next
    assume "one_or_none (filter (is_block a b) (blocks (committed s))) = Inl MultipleResultsFound"
    with assms show ?thesis
      by (auto simp: create_block_def raise_run in_session_def s bind_run scalar_run split: if_splits)
  qed
qed

text \<open>After a successful block neither of the two can invite the other, whatever the quota or the synopsis: both sends answer 403 and change nothing.\<close>

theorem block_stops_invites:
  assumes "invite_inv s" and "create_block ca b reason s = (Inr resp, s1)"
    and "require_user ca = Inr a" and "require_user cb = Inr b"
    and "given_to_b = \<lparr>rq_to = b, rq_synopsis = text_b\<rparr>" and "given_to_a = \<lparr>rq_to = a, rq_synopsis = text_a\<rparr>"
  shows "send_invite sha ca given_to_b header billing scan r s1 = (Inl (HTTPException 403 ''blocked''), r, s1)
    \<and> send_invite sha cb given_to_a header billing scan r s1 = (Inl (HTTPException 403 ''blocked''), r, s1)"
proof -
  have s: "s\<lparr>work := committed s\<rparr> = s" and eq: "work s = committed s" using assms(1) by (simp_all add: invite_inv_def)
  have ne: "a \<noteq> b" using assms(2,3) by (auto simp: create_block_def raise_run split: if_splits)
  have "reblocks s s1" using create_block_reblocks [OF eq, of ca b reason] assms(2) by simp
  then have s1: "work s1 = committed s1" by (simp add: reblocks_def)
  have "list_ex (is_block a b) (blocks (committed s1))" by (rule create_block_present [OF eq assms(2,3)])
  then obtain x where "x \<in> set (blocks (committed s1))" "bl_blocker x = a" "bl_blocked x = b"
    by (auto simp: is_block_def list_ex_iff)
  then have "is_blocked (committed s1) a b" "is_blocked (committed s1) b a"
    by (auto simp: is_blocked_def first_of_def blocks_between_def filter_empty_conv split: list.split)
  moreover have "s1\<lparr>work := committed s1\<rparr> = s1" using s1 by simp
  ultimately show ?thesis using assms(3-6) ne s1 by (simp add: send_invite_def send_body_def)
qed

text \<open>The idempotency cache is keyed by the header alone: until a millisecond short of 24 hours any other sender who uses the same key gets the first sender's response, and no invite of theirs is stored.\<close>

theorem replay_serves_first_response:
  assumes "work s = committed s" and "k \<noteq> []"
    and "send_invite sha ca body (Some k) billing scan r s = (Inr resp, r1, s1)" and "committed s1 \<noteq> committed s"
    and "require_user cb = Inr b" and "b \<noteq> rq_to other" and "\<not> is_blocked (committed s1) b (rq_to other)"
    and "0 \<le> us" and "us \<le> 86399999000" and "s2 = s1\<lparr>clock := clock s1 + us\<rparr>"
  shows "send_invite sha cb other (Some k) billing2 scan2 r1 s2 = (Inr resp, r1, s2)"
proof -
  have s: "s\<lparr>work := committed s\<rparr> = s" using assms(1) by simp
  have eq: "work (s\<lparr>next_uuid := n\<rparr>) = committed (s\<lparr>next_uuid := n\<rparr>)" for n using assms(1) by simp
  have "\<exists>rx. r1 = set_idempotency rx (now_ms s1) k resp"
    using assms(2-4)
    by (auto simp: send_invite_def s send_body_def Let_def uuid4_run send_granted_def store_invite_run [OF eq] assms(1) publish_run
        now_ms_def given_key_def split: sum.splits if_splits option.splits prod.splits exn.splits)
  moreover have "now_ms s2 < now_ms s1 + 86400000"
    using assms(9) by (simp add: now_ms_def assms(10))
  ultimately have "check_idempotency r1 (now_ms s2) k = Some resp" by (auto simp: check_set_idempotency)
  moreover have "work s1 = committed s1" using send_invite_sends [OF assms(1), of sha ca body "Some k" billing scan r] assms(3)
    by (simp add: sends_def)
  ultimately show ?thesis
    using assms(2,5,6,7) by (simp add: send_invite_def send_body_def assms(10) given_key_def Let_def now_ms_def)
qed

text \<open>A send that moderation refuses still uses up one of the sender's weekly invites: it answers 422, stores no invite, and leaves its identifier in the quota window.\<close>

theorem flagged_send_uses_quota:
  assumes "work s = committed s" and "require_user caller = Inr me" and "me \<noteq> rq_to body"
    and "\<not> is_blocked (committed s) me (rq_to body)"
    and "\<forall>k. check_idempotency r (now_ms s) k = None"
    and "check_and_increment_quota r (now_ms s) billing me (next_uuid s) = ((True, remaining), r1)"
    and "scan_synopsis scan = Inl (SynopsisFlagged reason)"
  shows "send_invite sha caller body header billing scan r s
      = (Inl (HTTPException 422 (''synopsis_flagged: '' @ reason)), r1, s\<lparr>next_uuid := Suc (next_uuid s)\<rparr>)
    \<and> (case quota_keys r1 (quota_key me) of None \<Rightarrow> False
        | Some (zs, _) \<Rightarrow> (str_uuid (next_uuid s), now_ms s) \<in> set zs)"
proof -
  have s: "s\<lparr>work := committed s\<rparr> = s" using assms(1) by simp
  have "send_invite sha caller body header billing scan r s
      = (Inl (HTTPException 422 (''synopsis_flagged: '' @ reason)), r1, s\<lparr>next_uuid := Suc (next_uuid s)\<rparr>)"
    using assms by (simp add: send_invite_def s send_body_def Let_def uuid4_run send_granted_def now_ms_def)
  moreover have "case quota_keys r1 (quota_key me) of None \<Rightarrow> False
        | Some (zs, _) \<Rightarrow> (str_uuid (next_uuid s), now_ms s) \<in> set zs"
    using assms(6)
    by (auto simp: check_and_increment_quota_def quota_lua_def Let_def zadd_def split: prod.splits if_splits)
  ultimately show ?thesis by blast
qed

section \<open>Witnesses\<close>

definition demo_sess :: "collab_invite list \<Rightarrow> invite_sess" where
  "demo_sess is = \<lparr>committed = \<lparr>invites = is, blocks = []\<rparr>, work = \<lparr>invites = is, blocks = []\<rparr>, outbox = [],
     clock = 3000000000000, next_uuid = 20\<rparr>"

definition demo_pending :: invite_sess where
  "demo_pending = demo_sess [demo_invite 1 5 7 Inv_Pending 0, demo_invite 2 7 5 Inv_Pending 0]"

definition demo_accepted :: invite_sess where
  "demo_accepted = demo_sess [demo_invite 1 5 7 Inv_Pending 0, demo_invite 2 7 5 Inv_Accepted 0, demo_invite 3 7 5 Inv_Accepted 0]"

lemma demo_pending_inv: "invite_inv demo_pending"
  by (simp add: demo_pending_def demo_sess_def invite_inv_def invite_db_ok_def invite_ok_def invite_check_def demo_invite_def)

lemma demo_accepted_inv: "invite_inv demo_accepted"
  by (simp add: demo_accepted_def demo_sess_def invite_inv_def invite_db_ok_def invite_ok_def invite_check_def demo_invite_def)

lemma demo_user5: "require_user (Some (str_uuid 5)) = Inr 5"
  by (simp add: require_user_str)

lemma demo_str: "str_uuid 5 \<noteq> str_uuid 7"
  by (simp add: str_uuid_inj)

lemma expiry_run_is_exact_witness:
  "run_expire_all 0 demo_pending = (Inr 2, expire_spec demo_pending)"
  using expiry_run_is_exact [OF demo_pending_inv]
  by (simp add: demo_pending_def demo_sess_def stale_def demo_invite_def days_def)

lemma mutual_accept_matches_once_witness:
  "\<exists>ai aj m. accept_both (Some (str_uuid 7)) 1 (Some (str_uuid 5)) 2 demo_pending
     = (Inr \<lparr>ar_invite_id = 1, ar_matched = False\<rparr>, Inr \<lparr>ar_invite_id = 2, ar_matched = True\<rparr>, [ai, aj, m])"
proof -
  have "\<exists>ai aj m. routing_key m = ''match.created'' \<and> routing_key ai = ''invite.accepted'' \<and> routing_key aj = ''invite.accepted''
    \<and> accept_both (Some (str_uuid 7)) (ci_id (demo_invite 1 5 7 Inv_Pending 0)) (Some (str_uuid 5)) (ci_id (demo_invite 2 7 5 Inv_Pending 0)) demo_pending =
        (Inr \<lparr>ar_invite_id = ci_id (demo_invite 1 5 7 Inv_Pending 0), ar_matched = False\<rparr>, Inr \<lparr>ar_invite_id = ci_id (demo_invite 2 7 5 Inv_Pending 0), ar_matched = True\<rparr>, [ai, aj, m])
    \<and> accept_both (Some (str_uuid 5)) (ci_id (demo_invite 2 7 5 Inv_Pending 0)) (Some (str_uuid 7)) (ci_id (demo_invite 1 5 7 Inv_Pending 0)) demo_pending =
        (Inr \<lparr>ar_invite_id = ci_id (demo_invite 2 7 5 Inv_Pending 0), ar_matched = False\<rparr>, Inr \<lparr>ar_invite_id = ci_id (demo_invite 1 5 7 Inv_Pending 0), ar_matched = True\<rparr>, [aj, ai, m])"
    by (rule mutual_accept_matches_once [OF demo_pending_inv])
      (simp_all add: demo_pending_def demo_sess_def mirrors_def demo_user demo_user5 demo_invite_def demo_str)
  then show ?thesis by (auto simp: demo_invite_def)
qed

lemma second_accepted_mirror_blocks_accept_witness:
  "accept_invite (Some (str_uuid 7)) 1 demo_accepted = (Inl MultipleResultsFound, demo_accepted)"
  using second_accepted_mirror_blocks_accept [where caller = "Some (str_uuid 7)" and i = "demo_invite 1 5 7 Inv_Pending 0"
      and x = "demo_invite 2 7 5 Inv_Accepted 0" and y = "demo_invite 3 7 5 Inv_Accepted 0", OF demo_accepted_inv]
  by (simp add: demo_accepted_def demo_sess_def mirrors_def demo_user demo_invite_def)

definition demo_body :: "uuid \<Rightarrow> send_request" where
  "demo_body u = \<lparr>rq_to = u, rq_synopsis = ''hi''\<rparr>"

definition demo_fresh :: invite_sess where
  "demo_fresh = demo_sess []"

definition demo_new :: collab_invite where
  "demo_new = new_invite 20 5 (demo_body 7) None (Some ''k1'') 3000000000000"

definition demo_sent_sess :: invite_sess where
  "demo_sent_sess = \<lparr>committed = \<lparr>invites = [demo_new], blocks = []\<rparr>, work = \<lparr>invites = [demo_new], blocks = []\<rparr>,
     outbox = [emit_invite_sent 3000000000000 20 5 7], clock = 3000000000000, next_uuid = 21\<rparr>"

definition demo_sent_redis :: invite_redis where
  "demo_sent_redis = set_idempotency
     (snd (check_and_increment_quota empty_invite_redis 3000000000 (\<lambda>_ _. Billing_Down) 5 20)) 3000000000 ''k1'' (send_response_of demo_new 4)"

lemma demo_quota: "fst (check_and_increment_quota empty_invite_redis 3000000000 (\<lambda>_ _. Billing_Down) 5 20) = (True, 4)"
  by (simp add: check_and_increment_quota_def get_invite_limit_def redis_get_def empty_invite_redis_def quota_lua_def
      live_zset_def evict_def zadd_def free_invite_quota_per_week_def premium_limit_def)

lemma demo_send_run:
  "send_invite id (Some (str_uuid 5)) (demo_body 7) (Some ''k1'') (\<lambda>_ _. Billing_Down) Scan_Timeout empty_invite_redis demo_fresh
     = (Inr (send_response_of demo_new 4), demo_sent_redis, demo_sent_sess)"
proof -
  obtain r1 where q: "check_and_increment_quota empty_invite_redis 3000000000 (\<lambda>_ _. Billing_Down) 5 20 = ((True, 4), r1)"
    using demo_quota by (metis prod.collapse)
  have empty: "check_idempotency empty_invite_redis t k = None" for t k
    by (simp add: check_idempotency_def redis_get_def empty_invite_redis_def)
  have chk: "invite_check demo_new" by (simp add: invite_check_def demo_new_def new_invite_def demo_body_def)
  have store: "store_invite ''k1'' demo_new (demo_fresh\<lparr>next_uuid := 21\<rparr>)
      = (Inr None, demo_fresh\<lparr>next_uuid := 21, work := with_invite demo_new (committed demo_fresh),
           committed := with_invite demo_new (committed demo_fresh)\<rparr>)"
    by (subst store_invite_run) (simp_all add: chk demo_fresh_def demo_sess_def)
  have fresh: "clock demo_fresh = 3000000000000" "next_uuid demo_fresh = 20" "work demo_fresh = committed demo_fresh"
    "demo_fresh\<lparr>work := committed demo_fresh\<rparr> = demo_fresh" "blocks (committed demo_fresh) = []"
    by (simp_all add: demo_fresh_def demo_sess_def)
  have to: "rq_to (demo_body 7) = 7" by (simp add: demo_body_def)
  have granted: "send_granted ''k1'' (Some ''k1'') 20 5 (demo_body 7) 4 Scan_Timeout r1 (demo_fresh\<lparr>next_uuid := 21\<rparr>)
      = (Inr (send_response_of demo_new 4), demo_sent_redis, demo_sent_sess)"
    using store
    by (simp add: send_granted_def scan_synopsis_def Let_def fresh flip: demo_new_def)
      (simp add: publish_run fresh to demo_sent_redis_def now_ms_def q demo_sent_sess_def demo_fresh_def demo_sess_def with_invite_def)
  show ?thesis
    using granted
    by (simp add: send_invite_def send_body_def fresh demo_user5 to is_blocked_def first_of_def given_key_def empty now_ms_def
        Let_def uuid4_run q) (simp add: demo_sent_sess_def)
qed

lemma demo_fresh_facts: "work demo_fresh = committed demo_fresh" "committed demo_sent_sess \<noteq> committed demo_fresh"
  by (simp_all add: demo_fresh_def demo_sess_def demo_sent_sess_def)

lemma no_invite_without_checks_witness:
  "outbox demo_sent_sess = outbox demo_fresh @ [emit_invite_sent (clock demo_fresh) (next_uuid demo_fresh) 5 7]"
  using no_invite_without_checks [OF demo_fresh_facts(1) demo_send_run demo_fresh_facts(2)]
  by (auto simp: demo_user5) (simp add: demo_body_def)

lemma replay_serves_first_response_witness:
  "send_invite id (Some (str_uuid 7)) (demo_body 9) (Some ''k1'') (\<lambda>_ _. Billing_Down) Scan_Error demo_sent_redis
       (demo_sent_sess\<lparr>clock := clock demo_sent_sess + 60000000\<rparr>)
     = (Inr (send_response_of demo_new 4), demo_sent_redis, demo_sent_sess\<lparr>clock := clock demo_sent_sess + 60000000\<rparr>)"
  by (rule replay_serves_first_response [OF demo_fresh_facts(1) _ demo_send_run demo_fresh_facts(2) demo_user])
    (simp_all add: demo_body_def is_blocked_def first_of_def demo_sent_sess_def)

definition demo_blocked :: invite_sess where
  "demo_blocked = snd (create_block (Some (str_uuid 5)) 7 None demo_fresh)"

lemma demo_block_run:
  "create_block (Some (str_uuid 5)) 7 None demo_fresh = (Inr \<lparr>br_blocker = 5, br_blocked = 7, br_created_at = 3000000000000\<rparr>, demo_blocked)"
  by (simp add: demo_blocked_def create_block_def demo_user5 in_session_def bind_run scalar_run now_run Let_def seq_run add_block_def
      insert_run block_check_def commit_run publish_all_run ret_run block_response_of_def demo_fresh_def demo_sess_def)

lemma block_stops_invites_witness:
  "send_invite id (Some (str_uuid 7)) \<lparr>rq_to = 5, rq_synopsis = ''hi''\<rparr> None (\<lambda>_ _. Billing_Down) Scan_Timeout empty_invite_redis demo_blocked
     = (Inl (HTTPException 403 ''blocked''), empty_invite_redis, demo_blocked)"
proof -
  have "invite_inv demo_fresh" by (simp add: demo_fresh_def demo_sess_def invite_inv_def invite_db_ok_def)
  from block_stops_invites [OF this demo_block_run demo_user5 demo_user refl refl] show ?thesis by blast
qed

lemma flagged_send_uses_quota_witness:
  "fst (send_invite id (Some (str_uuid 5)) (demo_body 7) None (\<lambda>_ _. Billing_Down)
      (Scan_Data \<lparr>sc_score = Some (9 / 10), sc_breakdown = [(''spam'', Some (1 / 2))], sc_decision = None, sc_case_id = None\<rparr>)
      empty_invite_redis demo_fresh) = Inl (HTTPException 422 ''synopsis_flagged: spam'')"
proof -
  obtain r1 where q: "check_and_increment_quota empty_invite_redis (now_ms demo_fresh) (\<lambda>_ _. Billing_Down) 5 (next_uuid demo_fresh) = ((True, 4), r1)"
    using demo_quota by (simp add: demo_fresh_def demo_sess_def now_ms_def) (metis prod.collapse)
  have scan: "scan_synopsis (Scan_Data \<lparr>sc_score = Some (9 / 10), sc_breakdown = [(''spam'', Some (1 / 2))], sc_decision = None, sc_case_id = None\<rparr>)
      = Inl (SynopsisFlagged ''spam'')"
    by (simp add: scan_synopsis_def synopsis_flag_threshold_def high_categories_def case_uuid_def)
  show ?thesis
    using flagged_send_uses_quota [OF demo_fresh_facts(1) demo_user5 _ _ _ q scan]
    by (simp add: demo_body_def is_blocked_def first_of_def demo_fresh_def demo_sess_def check_idempotency_def redis_get_def empty_invite_redis_def)
qed


end
