(* ===== verification/Collab_Data.thy ===== *)
theory Collab_Data
  imports Colab_Text Colab_Paging Colab_Platform
begin

text \<open>
  Data of collab-svc (app/models.py, app/models_tools.py, app/schemas.py, app/domain/state_machine.py):
  collaborations with their status machine, status events, feedback, exports, the name and file
  tables behind the search, tasks and their comments. The \<open>search_vector\<close> column is kept by
  functions of the database and is left out of the rows.
\<close>

section \<open>The status machine\<close>

datatype collab_status = Still_Deciding | In_Progress | Completed | Didnt_Work_Out

fun str_collab_status :: "collab_status \<Rightarrow> string" where
  "str_collab_status Still_Deciding = ''still_deciding''"
| "str_collab_status In_Progress = ''in_progress''"
| "str_collab_status Completed = ''completed''"
| "str_collab_status Didnt_Work_Out = ''didnt_work_out''"

definition terminal_states :: "collab_status list" where
  "terminal_states = [Completed, Didnt_Work_Out]"

fun transition_map :: "collab_status \<Rightarrow> collab_status list" where
  "transition_map Still_Deciding = [In_Progress, Completed, Didnt_Work_Out]"
| "transition_map In_Progress = [Still_Deciding, Completed, Didnt_Work_Out]"
| "transition_map Completed = []"
| "transition_map Didnt_Work_Out = []"

definition validate_transition :: "collab_status \<Rightarrow> collab_status \<Rightarrow> exn + unit" where
  "validate_transition current_status new_status =
     (if new_status \<in> set (transition_map current_status) then Inr ()
      else Inl (InvalidTransitionError (str_collab_status current_status) (str_collab_status new_status)))"

definition is_terminal :: "collab_status \<Rightarrow> bool" where
  "is_terminal q \<longleftrightarrow> q \<in> set terminal_states"

section \<open>Rows\<close>

record collaboration =
  cb_id :: uuid
  cb_profile_a :: uuid
  cb_profile_b :: uuid
  cb_least :: uuid
  cb_greatest :: uuid
  cb_title :: "string option"
  cb_description :: "string option"
  cb_status :: collab_status
  cb_read_only :: bool
  cb_last_activity :: datetime
  cb_nudge_sent :: "datetime option"
  cb_archive_at :: "datetime option"
  cb_archived_at :: "datetime option"
  cb_completed_at :: "datetime option"
  cb_created_at :: datetime
  cb_updated_at :: datetime

record status_event =
  se_id :: uuid
  se_collab :: uuid
  se_actor :: uuid
  se_prev :: collab_status
  se_new :: collab_status
  se_text :: "string option"
  se_created_at :: datetime

datatype rating = Rate_Up | Rate_Down
datatype feedback_target = Fb_Project | Fb_Partner

fun str_rating :: "rating \<Rightarrow> string" where
  "str_rating Rate_Up = ''up''"
| "str_rating Rate_Down = ''down''"

fun str_target :: "feedback_target \<Rightarrow> string" where
  "str_target Fb_Project = ''project''"
| "str_target Fb_Partner = ''partner''"

record collab_feedback =
  fb_id :: uuid
  fb_collab :: uuid
  fb_from :: uuid
  fb_to :: "uuid option"
  fb_target :: feedback_target
  fb_rating :: rating
  fb_tags :: "string list"
  fb_comment :: "string option"
  fb_created_at :: datetime

datatype export_status = Exp_Pending | Exp_Generating | Exp_Ready | Exp_Failed

record collab_export =
  ex_id :: uuid
  ex_collab :: uuid
  ex_requested_by :: uuid
  ex_status :: export_status
  ex_requested_at :: datetime

record collab_file_name =
  fn_id :: uuid
  fn_collab :: uuid
  fn_s3_key :: string
  fn_file_name :: string

record name_cache =
  nc_id :: uuid
  nc_collab :: uuid
  nc_profile :: uuid
  nc_display_name :: string
  nc_updated_at :: datetime

datatype task_status = Task_Todo | Task_In_Progress | Task_Done | Task_Blocked

fun str_task_status :: "task_status \<Rightarrow> string" where
  "str_task_status Task_Todo = ''todo''"
| "str_task_status Task_In_Progress = ''in_progress''"
| "str_task_status Task_Done = ''done''"
| "str_task_status Task_Blocked = ''blocked''"

text \<open>\<open>due_date\<close> is a day number.\<close>

record task =
  tk_id :: uuid
  tk_collab :: uuid
  tk_title :: string
  tk_description :: "string option"
  tk_assignee :: "uuid option"
  tk_due_date :: "int option"
  tk_status :: task_status
  tk_order_key :: string
  tk_created_by :: uuid
  tk_created_at :: datetime
  tk_updated_at :: datetime
  tk_closed_at :: "datetime option"
  tk_deleted_at :: "datetime option"

record task_comment =
  tc_id :: uuid
  tc_task :: uuid
  tc_author :: uuid
  tc_body :: string
  tc_created_at :: datetime
  tc_deleted_at :: "datetime option"

text \<open>\<open>we_hi\<close>: the resolution is hi; \<open>we_pdf\<close>: the format is pdf.\<close>

record wb_export =
  we_id :: uuid
  we_collab :: uuid
  we_requested_by :: uuid
  we_pdf :: bool
  we_hi :: bool
  we_status :: export_status
  we_s3_key :: "string option"
  we_error :: "string option"
  we_requested_at :: datetime
  we_completed_at :: "datetime option"
  we_expires_at :: "datetime option"

record collab_db =
  collabs :: "collaboration list"
  status_events :: "status_event list"
  feedbacks :: "collab_feedback list"
  exports :: "collab_export list"
  file_names :: "collab_file_name list"
  names :: "name_cache list"
  tasks :: "task list"
  comments :: "task_comment list"
  wb_exports :: "wb_export list"
  collab_schema :: table_schema

type_synonym collab_sess = "collab_db sess"
type_synonym 'a collabing = "(collab_db, 'a) comp"

text \<open>
  The table of collaborations as the migrations leave it (alembic/versions/20260511_0001): its primary key is its
  only constraint, the pair is unique by an index, and the two columns of the pair are generated.
\<close>

definition migrated_collab_schema :: table_schema where
  "migrated_collab_schema = \<lparr>ts_constraints = [''collaboration_pkey''],
     ts_generated = [''least_participant'', ''greatest_participant'']\<rparr>"

definition empty_collab_db :: "table_schema \<Rightarrow> collab_db" where
  "empty_collab_db sch = \<lparr>collabs = [], status_events = [], feedbacks = [], exports = [], file_names = [],
     names = [], tasks = [], comments = [], wb_exports = [], collab_schema = sch\<rparr>"

section \<open>Requests\<close>

definition feedback_tags :: "string list" where
  "feedback_tags = [''communicative'', ''responsive'', ''professional'', ''creative'', ''reliable'', ''flexible'',
     ''ghosted'', ''slow_to_respond'', ''missed_deadlines'', ''scope_creep'', ''great_outcome'', ''met_goals'',
     ''learned_a_lot'', ''good_creative_fit'', ''incomplete'', ''unclear_direction'', ''changed_scope'', ''technical_issues'']"

record feedback_request =
  fr_target :: feedback_target
  fr_rating :: rating
  fr_tags :: "string list"
  fr_comment :: "string option"

text \<open>The request body as pydantic accepts it.\<close>

definition feedback_request_ok :: "feedback_request \<Rightarrow> bool" where
  "feedback_request_ok req \<longleftrightarrow> set (fr_tags req) \<subseteq> set feedback_tags
     \<and> (case fr_comment req of None \<Rightarrow> True | Some c \<Rightarrow> length c \<le> 500)"

text \<open>The \<open>X-Profile-Id\<close> header: missing, empty or malformed is 401.\<close>

definition get_current_profile_id :: "string option \<Rightarrow> exn + uuid" where
  "get_current_profile_id header = (case header of
     None \<Rightarrow> Inl (HTTPException 401 ''Missing X-Profile-Id'')
   | Some p \<Rightarrow> if p = [] then Inl (HTTPException 401 ''Missing X-Profile-Id'')
       else (case parse_uuid p of None \<Rightarrow> Inl (HTTPException 401 ''Invalid X-Profile-Id'') | Some u \<Rightarrow> Inr u))"

lemma current_profile: "u < 16 ^ 32 \<Longrightarrow> get_current_profile_id (Some (str_uuid u)) = Inr u"
proof -
  assume u: "u < 16 ^ 32"
  have "parse_uuid [] = None" by code_simp
  then have "str_uuid u \<noteq> []" using parse_str_uuid [of u] by (metis option.distinct(1))
  with u show ?thesis by (simp add: get_current_profile_id_def parse_str_uuid del: power_numeral)
qed

text \<open>\<open>emit_event\<close> is best effort: a failure to publish is logged only, and is not modelled.\<close>

definition emit_event :: "string \<Rightarrow> (string \<times> json) list \<Rightarrow> unit collabing" where
  "emit_event rk body = publish_c (Message rk body)"

text \<open>\<open>task.delay(args)\<close> puts a message on the queue of the Celery workers.\<close>

definition delay :: "string \<Rightarrow> string list \<Rightarrow> unit collabing" where
  "delay task_name args = publish_c (Message (''celery:'' @ task_name) [(''args'', JList (map JStr args))])"

definition opt_json :: "string option \<Rightarrow> json" where
  "opt_json s = (case s of None \<Rightarrow> JNull | Some t \<Rightarrow> JStr t)"

end
