(* ===== verification/Collab_Service.thy ===== *)
theory Collab_Service
  imports Collab_Data
begin

text \<open>
  The life of a collaboration in collab-svc: app/services/collab_service.py, the endpoints of
  app/routers/collabs.py, the event consumers of app/workers/event_consumers.py and the Celery
  tasks of app/workers/inactivity_tasks.py and app/workers/archive_tasks.py. The full-text
  search of the database is an argument (\<open>search\<close>): the rank of a matching row, None for no match.
\<close>

section \<open>Create, get, list\<close>

definition new_collaboration :: "uuid \<Rightarrow> uuid \<Rightarrow> uuid \<Rightarrow> datetime \<Rightarrow> collaboration" where
  "new_collaboration i a b now = \<lparr>cb_id = i, cb_profile_a = a, cb_profile_b = b, cb_least = min a b, cb_greatest = max a b,
     cb_title = None, cb_description = None, cb_status = Still_Deciding, cb_read_only = False, cb_last_activity = now,
     cb_nudge_sent = None, cb_archive_at = None, cb_archived_at = None, cb_completed_at = None,
     cb_created_at = now, cb_updated_at = now\<rparr>"

definition pair_key :: "collaboration \<Rightarrow> uuid \<times> uuid" where
  "pair_key c = (cb_least c, cb_greatest c)"

definition add_collaboration :: "collaboration \<Rightarrow> unit collabing" where
  "add_collaboration c = db_insert collabs_update collabs (\<lambda>_. True) (\<lambda>x y. pair_key x = pair_key y) c"

text \<open>
  \<open>INSERT ... ON CONFLICT ON CONSTRAINT collaboration_participants_unique DO NOTHING RETURNING\<close> gives the new row,
  or nothing when the pair has one already; then that row is fetched with \<open>scalars().one()\<close>. The schema may
  refuse the statement.
\<close>

definition insert_needs :: "string \<Rightarrow> string list \<Rightarrow> unit collabing" where
  "insert_needs constraint columns = (\<lambda>s.
     if insert_accepted (collab_schema (work s)) constraint columns then (Inr (), s)
     else (Inl (LibraryError ''ProgrammingError''), s))"

definition pair_constraint :: string where
  "pair_constraint = ''collaboration_participants_unique''"

definition pair_columns :: "string list" where
  "pair_columns = [''profile_id_a'', ''profile_id_b'', ''least_participant'', ''greatest_participant'', ''status'']"

definition create_collaboration :: "uuid \<Rightarrow> uuid \<Rightarrow> collaboration collabing" where
  "create_collaboration profile_id_a profile_id_b =
     seq_c (insert_needs pair_constraint pair_columns)
     (bind_c uuid4 (\<lambda>i. bind_c now_c (\<lambda>now.
       let c = new_collaboration i profile_id_a profile_id_b now in
       bind_c (catch_integrity (seq_c (add_collaboration c) (ret (Some c))) (ret None)) (\<lambda>result.
         bind_c (case result of Some row \<Rightarrow> ret row
                 | None \<Rightarrow> scalar_one collabs (\<lambda>x. pair_key x = pair_key c))
           (\<lambda>row. seq_c commit_c (ret row))))))"

definition takes_part :: "uuid \<Rightarrow> collaboration \<Rightarrow> bool" where
  "takes_part p c \<longleftrightarrow> cb_profile_a c = p \<or> cb_profile_b c = p"

definition get_collab :: "uuid \<Rightarrow> uuid \<Rightarrow> collaboration option collabing" where
  "get_collab collab_id profile_id =
     bind_c (select_all collabs (\<lambda>c. cb_id c = collab_id \<and> takes_part profile_id c)) (\<lambda>rs. ret (first_of rs))"

datatype status_filter = Only_Active | Only_Past | Any_Status

definition status_cond :: "status_filter \<Rightarrow> bool \<Rightarrow> collaboration \<Rightarrow> bool" where
  "status_cond filt include_archived c = (case filt of
     Only_Active \<Rightarrow> cb_status c \<in> set [Still_Deciding, In_Progress] \<and> cb_archived_at c = None
   | Only_Past \<Rightarrow> cb_status c \<in> set [Completed, Didnt_Work_Out] \<or> cb_archived_at c \<noteq> None
   | Any_Status \<Rightarrow> if include_archived then True else cb_archived_at c = None)"

definition collab_key :: "collaboration \<Rightarrow> cursor" where
  "collab_key c = (cb_last_activity c, cb_id c)"

definition find_rank :: "(string \<Rightarrow> collaboration \<Rightarrow> int option) \<Rightarrow> string option \<Rightarrow> collaboration \<Rightarrow> int option" where
  "find_rank search q c = (case q of None \<Rightarrow> Some 0 | Some t \<Rightarrow> if t = [] then Some 0 else search t c)"

definition rank_key :: "(string \<Rightarrow> collaboration \<Rightarrow> int option) \<Rightarrow> string option \<Rightarrow> collaboration \<Rightarrow> int \<times> cursor" where
  "rank_key search q c = (case find_rank search q c of None \<Rightarrow> 0 | Some r \<Rightarrow> r, collab_key c)"

definition list_collabs :: "(string \<Rightarrow> collaboration \<Rightarrow> int option) \<Rightarrow> uuid \<Rightarrow> status_filter \<Rightarrow> string option
    \<Rightarrow> cursor option \<Rightarrow> nat \<Rightarrow> bool \<Rightarrow> collab_db \<Rightarrow> collaboration list \<times> cursor option" where
  "list_collabs search profile_id filt q cur limit include_archived db =
     (let rows = filter (\<lambda>c. takes_part profile_id c \<and> status_cond filt include_archived c
                    \<and> find_rank search q c \<noteq> None \<and> before_cursor collab_key cur c) (collabs db)
      in cut_page collab_key (min limit 50) (rev (sort_key (rank_key search q) rows)))"

section \<open>Changing a collaboration\<close>

text \<open>An ORM object that was changed is written back by its primary key at the next flush.\<close>

definition save_collab :: "uuid \<Rightarrow> (collaboration \<Rightarrow> collaboration) \<Rightarrow> unit collabing" where
  "save_collab i f = modify_table collabs_update collabs (update_where (\<lambda>c. cb_id c = i) f)"

definition patch_row :: "string option \<Rightarrow> string option \<Rightarrow> datetime \<Rightarrow> collaboration \<Rightarrow> collaboration" where
  "patch_row title description now c =
     c\<lparr>cb_title := (case title of None \<Rightarrow> cb_title c | Some t \<Rightarrow> Some t),
       cb_description := (case description of None \<Rightarrow> cb_description c | Some d \<Rightarrow> Some d),
       cb_updated_at := now\<rparr>"

definition patch_collab :: "collaboration \<Rightarrow> string option \<Rightarrow> string option \<Rightarrow> collaboration collabing" where
  "patch_collab c title description = bind_c now_c (\<lambda>now.
     seq_c (save_collab (cb_id c) (patch_row title description now))
       (seq_c commit_c (ret (patch_row title description now c))))"

text \<open>The side effects of a transition on the row.\<close>

definition transition_row :: "collab_status \<Rightarrow> datetime \<Rightarrow> collaboration \<Rightarrow> collaboration" where
  "transition_row new_status now c =
     (let c1 = (if new_status = Completed \<or> new_status = Didnt_Work_Out then
                  (if new_status = Completed then c\<lparr>cb_archive_at := Some now, cb_completed_at := Some now\<rparr>
                   else c\<lparr>cb_archive_at := Some now\<rparr>)
                else c\<lparr>cb_nudge_sent := None, cb_archive_at := Some (cb_last_activity c + days 30)\<rparr>)
      in c1\<lparr>cb_status := new_status, cb_updated_at := now\<rparr>)"

definition transition_status :: "collaboration \<Rightarrow> collab_status \<Rightarrow> uuid \<Rightarrow> string option \<Rightarrow> status_event collabing" where
  "transition_status c new_status actor text =
     (case validate_transition (cb_status c) new_status of
        Inl e \<Rightarrow> raise e
      | Inr _ \<Rightarrow> bind_c now_c (\<lambda>now. bind_c uuid4 (\<lambda>i.
          let e = \<lparr>se_id = i, se_collab = cb_id c, se_actor = actor, se_prev = cb_status c, se_new = new_status,
                   se_text = text, se_created_at = now\<rparr> in
          seq_c (save_collab (cb_id c) (transition_row new_status now))
            (seq_c (modify_table status_events_update status_events (\<lambda>es. es @ [e]))
              (seq_c commit_c (ret e))))))"

definition feedback_key :: "collab_feedback \<Rightarrow> uuid \<times> uuid \<times> feedback_target" where
  "feedback_key f = (fb_collab f, fb_from f, fb_target f)"

definition upsert_feedback :: "collaboration \<Rightarrow> uuid \<Rightarrow> feedback_request \<Rightarrow> collab_feedback collabing" where
  "upsert_feedback c actor req = bind_c now_c (\<lambda>now. bind_c uuid4 (\<lambda>i.
     let to_profile = (if fr_target req = Fb_Partner
                       then Some (if cb_profile_a c = actor then cb_profile_b c else cb_profile_a c) else None);
         new = \<lparr>fb_id = i, fb_collab = cb_id c, fb_from = actor, fb_to = to_profile, fb_target = fr_target req,
                fb_rating = fr_rating req, fb_tags = fr_tags req, fb_comment = fr_comment req, fb_created_at = now\<rparr>;
         put = (\<lambda>rows. if list_ex (\<lambda>f. feedback_key f = feedback_key new) rows
                then update_where (\<lambda>f. feedback_key f = feedback_key new)
                       (\<lambda>f. f\<lparr>fb_rating := fr_rating req, fb_tags := fr_tags req, fb_comment := fr_comment req,
                              fb_created_at := now\<rparr>) rows
                else rows @ [new])
     in seq_c (modify_table feedbacks_update feedbacks put)
          (bind_c (scalar_one feedbacks (\<lambda>f. feedback_key f = feedback_key new))
            (\<lambda>row. seq_c commit_c (ret row)))))"

definition apply_block :: "uuid \<Rightarrow> uuid \<Rightarrow> unit collabing" where
  "apply_block a b = bind_c now_c (\<lambda>now.
     seq_c (modify_table collabs_update collabs
         (update_where (\<lambda>c. cb_least c = min a b \<and> cb_greatest c = max a b \<and> cb_archived_at c = None)
            (\<lambda>c. c\<lparr>cb_read_only := True, cb_archive_at := Some (now + days 30), cb_updated_at := now\<rparr>)))
       commit_c)"

definition update_last_activity :: "uuid \<Rightarrow> datetime \<Rightarrow> unit collabing" where
  "update_last_activity collab_id activity_at = bind_c now_c (\<lambda>now.
     seq_c (save_collab collab_id (\<lambda>c. c\<lparr>cb_last_activity := activity_at, cb_nudge_sent := None, cb_updated_at := now\<rparr>))
       commit_c)"

definition upsert_name_cache :: "uuid \<Rightarrow> uuid \<Rightarrow> string \<Rightarrow> unit collabing" where
  "upsert_name_cache collab_id profile_id display_name = bind_c now_c (\<lambda>now. bind_c uuid4 (\<lambda>i.
     seq_c (modify_table names_update names (\<lambda>rows.
         if list_ex (\<lambda>n. nc_collab n = collab_id \<and> nc_profile n = profile_id) rows
         then update_where (\<lambda>n. nc_collab n = collab_id \<and> nc_profile n = profile_id)
                (\<lambda>n. n\<lparr>nc_display_name := display_name, nc_updated_at := now\<rparr>) rows
         else rows @ [\<lparr>nc_id = i, nc_collab = collab_id, nc_profile = profile_id, nc_display_name = display_name,
                       nc_updated_at = now\<rparr>]))
       commit_c))"

section \<open>Endpoints\<close>

text \<open>The guards the endpoints share: a participant's collaboration, neither read-only nor archived.\<close>

definition own_collab :: "uuid \<Rightarrow> uuid \<Rightarrow> collaboration collabing" where
  "own_collab collab_id profile_id = bind_c (get_collab collab_id profile_id)
     (\<lambda>r. case r of None \<Rightarrow> raise (HTTPException 404 ''Collaboration not found'') | Some c \<Rightarrow> ret c)"

definition open_collab :: "uuid \<Rightarrow> uuid \<Rightarrow> collaboration collabing" where
  "open_collab collab_id profile_id = bind_c (own_collab collab_id profile_id) (\<lambda>c.
     if cb_read_only c then raise (HTTPException 403 ''COLLAB_READ_ONLY'')
     else if cb_archived_at c \<noteq> None then raise (HTTPException 403 ''COLLAB_ARCHIVED'')
     else ret c)"

text \<open>A request: the caller's header, then the handler in a session of its own.\<close>

definition as_profile :: "string option \<Rightarrow> (uuid \<Rightarrow> 'a collabing) \<Rightarrow> 'a collabing" where
  "as_profile header handler = (case get_current_profile_id header of
     Inl e \<Rightarrow> raise e | Inr p \<Rightarrow> in_session (handler p))"

definition patch_collab_endpoint :: "string option \<Rightarrow> uuid \<Rightarrow> string option \<Rightarrow> string option \<Rightarrow> collaboration collabing" where
  "patch_collab_endpoint header collab_id title description =
     as_profile header (\<lambda>p. bind_c (open_collab collab_id p) (\<lambda>c. patch_collab c title description))"

definition invalid_transition_409 :: "'a collabing \<Rightarrow> 'a collabing" where
  "invalid_transition_409 m = (\<lambda>s. case m s of
     (Inl (InvalidTransitionError a b), s1) \<Rightarrow> (Inl (HTTPException 409 ''INVALID_TRANSITION''), s1) | (r, s1) \<Rightarrow> (r, s1))"

definition transition_status_endpoint :: "string option \<Rightarrow> uuid \<Rightarrow> collab_status \<Rightarrow> string option \<Rightarrow> status_event collabing" where
  "transition_status_endpoint header collab_id new_status text =
     as_profile header (\<lambda>p. bind_c (open_collab collab_id p) (\<lambda>c.
       bind_c (invalid_transition_409 (transition_status c new_status p text)) (\<lambda>e.
         seq_c (emit_event ''collab.status_changed''
             [(''collab_id'', JStr (str_uuid collab_id)), (''prev_status'', JStr (str_collab_status (se_prev e))),
              (''new_status'', JStr (str_collab_status (se_new e))), (''actor_profile_id'', JStr (str_uuid p))])
           (seq_c (when_c (new_status = Completed \<or> new_status = Didnt_Work_Out)
               (delay ''app.workers.archive_tasks.archive_finalize'' [str_uuid collab_id, str_collab_status new_status]))
             (ret e)))))"

definition submit_feedback_endpoint :: "string option \<Rightarrow> uuid \<Rightarrow> feedback_request \<Rightarrow> collab_feedback collabing" where
  "submit_feedback_endpoint header collab_id body =
     as_profile header (\<lambda>p. bind_c (own_collab collab_id p) (\<lambda>c.
       if cb_status c \<notin> set [Completed, Didnt_Work_Out]
       then raise (HTTPException 403 ''FEEDBACK_REQUIRES_TERMINAL_STATE'')
       else bind_c (upsert_feedback c p body) (\<lambda>f.
         seq_c (emit_event ''collab.feedback_submitted''
             [(''collab_id'', JStr (str_uuid collab_id)), (''from_profile_id'', JStr (str_uuid p)),
              (''target'', JStr (str_target (fr_target body))), (''rating'', JStr (str_rating (fr_rating body)))])
           (ret f))))"

text \<open>\<open>bool(axes.get("chat_export", False))\<close> of billing-svc's answer; anything else is a refusal.\<close>

definition service_shared_secret :: string where
  "service_shared_secret = ''changeme''"

definition service_headers :: http_headers where
  "service_headers = [(''X-Service-Secret'', service_shared_secret)]"

definition check_chat_export_entitlement :: "entitlements_api \<Rightarrow> uuid \<Rightarrow> bool" where
  "check_chat_export_entitlement billing p = (case billing service_headers p of
     Billing_Down \<Rightarrow> False
   | Billing_Reply code axes \<Rightarrow> code = 200
       \<and> (case map_of (case axes of None \<Rightarrow> [] | Some kvs \<Rightarrow> kvs) ''chat_export'' of None \<Rightarrow> False | Some v \<Rightarrow> truthy v))"

definition request_export_endpoint :: "string option \<Rightarrow> uuid \<Rightarrow> entitlements_api \<Rightarrow> collab_export collabing" where
  "request_export_endpoint header collab_id billing =
     as_profile header (\<lambda>p. bind_c (own_collab collab_id p) (\<lambda>c.
       if \<not> check_chat_export_entitlement billing p then raise (HTTPException 403 ''EXPORT_REQUIRES_PREMIUM'')
       else bind_c uuid4 (\<lambda>i. bind_c now_c (\<lambda>now.
         let e = \<lparr>ex_id = i, ex_collab = collab_id, ex_requested_by = p, ex_status = Exp_Pending, ex_requested_at = now\<rparr> in
         seq_c (modify_table exports_update exports (\<lambda>es. es @ [e]))
           (seq_c commit_c (seq_c (delay ''app.workers.export_tasks.collab_export_generate'' [str_uuid i]) (ret e)))))))"

record collab_detail =
  cd_collab :: collaboration
  cd_participants :: "uuid list"
  cd_history :: "status_event list"
  cd_feedback :: "collab_feedback list"

definition get_collab_endpoint :: "string option \<Rightarrow> uuid \<Rightarrow> collab_detail collabing" where
  "get_collab_endpoint header collab_id =
     as_profile header (\<lambda>p. bind_c (own_collab collab_id p) (\<lambda>c.
       bind_c (select_all status_events (\<lambda>e. se_collab e = collab_id)) (\<lambda>es.
       bind_c (select_all feedbacks (\<lambda>f. fb_collab f = collab_id)) (\<lambda>fs.
         ret \<lparr>cd_collab = c, cd_participants = [cb_profile_a c, cb_profile_b c],
              cd_history = sort_key se_created_at es, cd_feedback = fs\<rparr>))))"


record collab_list_item =
  li_id :: uuid
  li_title :: "string option"
  li_status :: collab_status
  li_read_only :: bool
  li_last_activity :: datetime
  li_archived_at :: "datetime option"
  li_partner :: uuid
  li_created_at :: datetime

definition collab_list_item_of :: "uuid \<Rightarrow> collaboration \<Rightarrow> collab_list_item" where
  "collab_list_item_of p c = \<lparr>li_id = cb_id c, li_title = cb_title c, li_status = cb_status c, li_read_only = cb_read_only c,
     li_last_activity = cb_last_activity c, li_archived_at = cb_archived_at c,
     li_partner = (if cb_profile_a c = p then cb_profile_b c else cb_profile_a c), li_created_at = cb_created_at c\<rparr>"

definition status_filter_of :: "string option \<Rightarrow> status_filter" where
  "status_filter_of status = (if status = Some ''active'' then Only_Active else if status = Some ''past'' then Only_Past
     else Any_Status)"

text \<open>The response: the items, the next cursor and \<open>total_count\<close>, which is the size of the page.\<close>

definition list_collabs_endpoint :: "(string \<Rightarrow> collaboration \<Rightarrow> int option) \<Rightarrow> string option \<Rightarrow> string option \<Rightarrow> string option
    \<Rightarrow> cursor option \<Rightarrow> nat \<Rightarrow> bool \<Rightarrow> collab_db \<Rightarrow> exn + (collab_list_item list \<times> cursor option \<times> nat)" where
  "list_collabs_endpoint search header status q cur limit include_archived db =
     (case get_current_profile_id header of
        Inl e \<Rightarrow> Inl e
      | Inr p \<Rightarrow>
          (case list_collabs search p (status_filter_of status) q cur limit include_archived db of
             (cs, next) \<Rightarrow> let items = map (collab_list_item_of p) cs in Inr (items, next, length items)))"

section \<open>Event consumers\<close>

text \<open>
  \<open>payload[key]\<close> raises KeyError, \<open>uuid.UUID(v)\<close> ValueError on a text that is none (and a TypeError
  stands for what it raises on a value that is no text). A consumer that raises has its
  message requeued.
\<close>

definition need_uuid :: "(string \<times> json) list \<Rightarrow> string \<Rightarrow> exn + uuid" where
  "need_uuid body key = (case map_of body key of
     None \<Rightarrow> Inl (KeyError key)
   | Some (JStr s) \<Rightarrow> (case parse_uuid s of None \<Rightarrow> Inl ValueError | Some u \<Rightarrow> Inr u)
   | Some _ \<Rightarrow> Inl TypeError)"

text \<open>\<open>payload.get(a) or payload.get(b)\<close> for texts.\<close>

definition get_text :: "(string \<times> json) list \<Rightarrow> string \<Rightarrow> string option" where
  "get_text body key = (case map_of body key of Some (JStr s) \<Rightarrow> if s = [] then None else Some s | _ \<Rightarrow> None)"

definition either_text :: "(string \<times> json) list \<Rightarrow> string \<Rightarrow> string \<Rightarrow> string option" where
  "either_text body k1 k2 = (case get_text body k1 of Some s \<Rightarrow> Some s | None \<Rightarrow> get_text body k2)"

definition lift_e :: "exn + 'a \<Rightarrow> 'a collabing" where
  "lift_e r = (case r of Inl e \<Rightarrow> raise e | Inr a \<Rightarrow> ret a)"

definition parsed :: "string \<Rightarrow> uuid collabing" where
  "parsed s = lift_e (case parse_uuid s of None \<Rightarrow> Inl ValueError | Some u \<Rightarrow> Inr u)"

definition handle_match_created :: "(string \<times> json) list \<Rightarrow> unit collabing" where
  "handle_match_created body =
     bind_c (lift_e (need_uuid body ''profile_id_a'')) (\<lambda>a.
     bind_c (lift_e (need_uuid body ''profile_id_b'')) (\<lambda>b.
     bind_c uuid4 (\<lambda>fresh.
     bind_c (if map_of body ''match_id'' = None then ret fresh else lift_e (need_uuid body ''match_id'')) (\<lambda>match_id.
     bind_c (in_session (create_collaboration a b)) (\<lambda>c.
       emit_event ''collab.created''
         [(''collab_id'', JStr (str_uuid (cb_id c))), (''profile_id_a'', JStr (str_uuid a)),
          (''profile_id_b'', JStr (str_uuid b)), (''match_id'', JStr (str_uuid match_id))])))))"

text \<open>\<open>fromiso\<close> stands for \<open>datetime.fromisoformat\<close>, None where it raises ValueError.\<close>

definition handle_chat_message_sent :: "(string \<Rightarrow> datetime option) \<Rightarrow> (string \<times> json) list \<Rightarrow> unit collabing" where
  "handle_chat_message_sent fromiso body =
     (case either_text body ''collaboration_id'' ''collab_id'' of
        None \<Rightarrow> ret ()
      | Some id_str \<Rightarrow> bind_c (parsed id_str) (\<lambda>collab_id. bind_c now_c (\<lambda>now.
          case either_text body ''sent_at'' ''created_at'' of
            None \<Rightarrow> in_session (update_last_activity collab_id now)
          | Some t \<Rightarrow> (case fromiso t of None \<Rightarrow> raise ValueError
              | Some sent_at \<Rightarrow> in_session (update_last_activity collab_id sent_at)))))"

definition handle_block_created :: "(string \<times> json) list \<Rightarrow> unit collabing" where
  "handle_block_created body =
     bind_c (lift_e (need_uuid body ''blocker_profile_id'')) (\<lambda>blocker.
     bind_c (lift_e (need_uuid body ''blocked_profile_id'')) (\<lambda>blocked.
       in_session (apply_block blocker blocked)))"

text \<open>The file name row has a foreign key on its collaboration.\<close>

definition handle_chat_media_scanned :: "(string \<times> json) list \<Rightarrow> unit collabing" where
  "handle_chat_media_scanned body =
     (case (either_text body ''collaboration_id'' ''collab_id'', get_text body ''s3_key'') of
        (Some id_str, Some s3_key) \<Rightarrow>
          let file_name = (case get_text body ''file_name'' of Some f \<Rightarrow> f | None \<Rightarrow> last (split_on (CHR ''/'') s3_key)) in
          bind_c (parsed id_str) (\<lambda>collab_id. bind_c uuid4 (\<lambda>i.
            in_session (bind_c (select_all collabs (\<lambda>c. cb_id c = collab_id)) (\<lambda>cs.
              if cs = [] then raise IntegrityError
              else seq_c (modify_table file_names_update file_names (\<lambda>fs. fs @
                [\<lparr>fn_id = i, fn_collab = collab_id, fn_s3_key = s3_key, fn_file_name = file_name\<rparr>])) commit_c))))
      | _ \<Rightarrow> ret ())"

definition refresh_name :: "uuid \<Rightarrow> string \<Rightarrow> collaboration \<Rightarrow> unit collabing" where
  "refresh_name profile_id display_name c = upsert_name_cache (cb_id c) profile_id display_name"

definition handle_display_name_changed :: "(string \<times> json) list \<Rightarrow> unit collabing" where
  "handle_display_name_changed body =
     bind_c (lift_e (need_uuid body ''profile_id'')) (\<lambda>profile_id.
       case map_of body ''display_name'' of
         None \<Rightarrow> raise (KeyError ''display_name'')
       | Some (JStr display_name) \<Rightarrow> in_session (bind_c (select_all collabs (takes_part profile_id))
           (\<lambda>cs. for_c cs (refresh_name profile_id display_name)))
       | Some _ \<Rightarrow> raise TypeError)"

section \<open>Celery tasks\<close>

definition nudge_days :: int where
  "nudge_days = 14"

definition archive_days :: int where
  "archive_days = 30"

text \<open>The hourly scan: which rows it selects and what it dispatches for a row.\<close>

definition scan_selects :: "datetime \<Rightarrow> collaboration \<Rightarrow> bool" where
  "scan_selects now c \<longleftrightarrow> cb_status c \<in> set [Still_Deciding, In_Progress] \<and> cb_archived_at c = None
     \<and> ((cb_last_activity c < now - days nudge_days \<and> cb_nudge_sent c = None) \<or> cb_last_activity c < now - days archive_days)"

definition scan_dispatch :: "datetime \<Rightarrow> collaboration \<Rightarrow> unit collabing" where
  "scan_dispatch now c =
     (if cb_last_activity c < now - days archive_days
      then delay ''app.workers.archive_tasks.archive_collab'' [str_uuid (cb_id c)]
      else if cb_last_activity c < now - days nudge_days \<and> cb_nudge_sent c = None
      then delay ''app.workers.inactivity_tasks.send_nudge'' [str_uuid (cb_id c)]
      else ret ())"

definition inactivity_check :: "(nat \<times> nat) collabing" where
  "inactivity_check = bind_c now_c (\<lambda>now. bind_c (in_session (select_all collabs (scan_selects now))) (\<lambda>cs.
     seq_c (for_c cs (scan_dispatch now))
       (ret (length (filter (\<lambda>c. \<not> cb_last_activity c < now - days archive_days
                \<and> cb_last_activity c < now - days nudge_days \<and> cb_nudge_sent c = None) cs),
             length (filter (\<lambda>c. cb_last_activity c < now - days archive_days) cs)))))"

definition send_nudge :: "uuid \<Rightarrow> unit collabing" where
  "send_nudge collab_id = bind_c now_c (\<lambda>now. in_session (
     bind_c (select_all collabs (\<lambda>c. cb_id c = collab_id \<and> cb_nudge_sent c = None \<and> cb_archived_at c = None)) (\<lambda>rs.
       case rs of
         [] \<Rightarrow> ret ()
       | c # _ \<Rightarrow>
           seq_c (modify_table collabs_update collabs
               (update_where (\<lambda>x. cb_id x = collab_id \<and> cb_nudge_sent x = None) (\<lambda>x. x\<lparr>cb_nudge_sent := Some now\<rparr>)))
             (seq_c commit_c
               (emit_event ''collab.nudge_due''
                  [(''collab_id'', JStr (str_uuid collab_id)), (''profile_id_a'', JStr (str_uuid (cb_profile_a c))),
                   (''profile_id_b'', JStr (str_uuid (cb_profile_b c)))])))))"

definition archive_row :: "datetime \<Rightarrow> collaboration \<Rightarrow> collaboration" where
  "archive_row now c = c\<lparr>cb_archived_at := Some now, cb_archive_at := None, cb_updated_at := now\<rparr>"

definition archived_event :: "uuid \<Rightarrow> string \<Rightarrow> datetime \<Rightarrow> unit collabing" where
  "archived_event collab_id reason now = emit_event ''collab.archived''
     [(''collab_id'', JStr (str_uuid collab_id)), (''reason'', JStr reason), (''archived_at'', JStr (iso_datetime now))]"

definition archive_collab :: "uuid \<Rightarrow> unit collabing" where
  "archive_collab collab_id = bind_c now_c (\<lambda>now.
     seq_c (in_session (seq_c (modify_table collabs_update collabs
              (update_where (\<lambda>c. cb_id c = collab_id \<and> cb_archived_at c = None) (archive_row now))) commit_c))
       (archived_event collab_id ''inactivity_30d'' now))"

definition archive_finalize :: "uuid \<Rightarrow> string \<Rightarrow> unit collabing" where
  "archive_finalize collab_id reason = bind_c now_c (\<lambda>now.
     bind_c (in_session (bind_c (select_all collabs (\<lambda>c. cb_id c = collab_id)) (\<lambda>rs.
         case rs of
           [] \<Rightarrow> ret None
         | c # _ \<Rightarrow> seq_c (modify_table collabs_update collabs (update_where (\<lambda>x. cb_id x = collab_id) (archive_row now)))
                      (seq_c commit_c (ret (Some c))))))
       (\<lambda>r. case r of
          None \<Rightarrow> ret ()
        | Some c \<Rightarrow> seq_c (archived_event collab_id reason now)
            (when_c (reason = ''completed'' \<or> reason = ''didnt_work_out'')
              (emit_event ''collab.feedback_prompt_due''
                 [(''collab_id'', JStr (str_uuid collab_id)), (''profile_id_a'', JStr (str_uuid (cb_profile_a c))),
                  (''profile_id_b'', JStr (str_uuid (cb_profile_b c)))]))))"

end
