(* ===== verification/Collab_World.thy ===== *)
theory Collab_World
  imports Collab_Service
begin

text \<open>
  collab-svc as a whole: the endpoints, event consumers and Celery tasks that touch
  collaborations as one step function, the invariant all of them keep (one collaboration per
  pair, a status history that follows the machine) and what they never change (a finished,
  read-only or archived collaboration).
\<close>

section \<open>Requests\<close>

datatype collab_request =
    Patch "string option" uuid "string option" "string option"
  | Change_Status "string option" uuid collab_status "string option"
  | Give_Feedback "string option" uuid feedback_request
  | Ask_Export "string option" uuid entitlements_api
  | On_Match "(string \<times> json) list"
  | On_Message "(string \<times> json) list"
  | On_Block "(string \<times> json) list"
  | On_Media "(string \<times> json) list"
  | On_Name "(string \<times> json) list"
  | Scan
  | Nudge uuid
  | Archive uuid
  | Finalize uuid string
  | Pass nat

definition drop_result :: "'a collabing \<Rightarrow> unit collabing" where
  "drop_result m = seq_c m (ret ())"

fun collab_request_comp :: "(string \<Rightarrow> datetime option) \<Rightarrow> collab_request \<Rightarrow> unit collabing" where
  "collab_request_comp fi (Patch header k title description) = drop_result (patch_collab_endpoint header k title description)"
| "collab_request_comp fi (Change_Status header k q text) = drop_result (transition_status_endpoint header k q text)"
| "collab_request_comp fi (Give_Feedback header k body) = drop_result (submit_feedback_endpoint header k body)"
| "collab_request_comp fi (Ask_Export header k reply) = drop_result (request_export_endpoint header k reply)"
| "collab_request_comp fi (On_Match body) = handle_match_created body"
| "collab_request_comp fi (On_Message body) = handle_chat_message_sent fi body"
| "collab_request_comp fi (On_Block body) = handle_block_created body"
| "collab_request_comp fi (On_Media body) = handle_chat_media_scanned body"
| "collab_request_comp fi (On_Name body) = handle_display_name_changed body"
| "collab_request_comp fi Scan = drop_result inactivity_check"
| "collab_request_comp fi (Nudge k) = send_nudge k"
| "collab_request_comp fi (Archive k) = archive_collab k"
| "collab_request_comp fi (Finalize k reason) = archive_finalize k reason"
| "collab_request_comp fi (Pass us) = (\<lambda>s. (Inr (), s\<lparr>clock := clock s + int us\<rparr>))"

definition serve_collab :: "(string \<Rightarrow> datetime option) \<Rightarrow> collab_request list \<Rightarrow> collab_sess \<Rightarrow> collab_sess" where
  "serve_collab fi reqs s = fold (\<lambda>q s. snd (collab_request_comp fi q s)) reqs s"

definition collab_start :: "table_schema \<Rightarrow> datetime \<Rightarrow> uuid \<Rightarrow> collab_sess" where
  "collab_start sch t n = \<lparr>committed = empty_collab_db sch, work = empty_collab_db sch, outbox = [], clock = t, next_uuid = n\<rparr>"

section \<open>Invariant and history\<close>

text \<open>
  Walking the status machine: the status a chain of (previous, new) pairs ends in, None where
  a pair does not continue the chain or the machine does not allow it.
\<close>

fun status_walk :: "collab_status \<Rightarrow> (collab_status \<times> collab_status) list \<Rightarrow> collab_status option" where
  "status_walk q [] = Some q"
| "status_walk q ((a, b) # ps) = (if a = q \<and> b \<in> set (transition_map q) then status_walk b ps else None)"

definition history_of :: "uuid \<Rightarrow> status_event list \<Rightarrow> (collab_status \<times> collab_status) list" where
  "history_of k es = map (\<lambda>e. (se_prev e, se_new e)) (filter (\<lambda>e. se_collab e = k) es)"

definition collab_ok :: "status_event list \<Rightarrow> uuid \<Rightarrow> collaboration \<Rightarrow> bool" where
  "collab_ok es n c \<longleftrightarrow> cb_id c < n \<and> cb_least c = min (cb_profile_a c) (cb_profile_b c)
     \<and> cb_greatest c = max (cb_profile_a c) (cb_profile_b c)
     \<and> status_walk Still_Deciding (history_of (cb_id c) es) = Some (cb_status c)
     \<and> (cb_completed_at c \<noteq> None \<longleftrightarrow> cb_status c = Completed)"

definition collab_db_ok :: "collab_db \<Rightarrow> uuid \<Rightarrow> bool" where
  "collab_db_ok db n \<longleftrightarrow> distinct (map cb_id (collabs db)) \<and> distinct (map pair_key (collabs db))
     \<and> (\<forall>c \<in> set (collabs db). collab_ok (status_events db) n c) \<and> (\<forall>e \<in> set (status_events db). se_collab e < n)"

text \<open>What may ever happen to a row: it keeps its pair, and once it is finished, read-only or archived it stays so.\<close>

definition shut :: "collaboration \<Rightarrow> bool" where
  "shut c \<longleftrightarrow> cb_read_only c \<or> cb_archived_at c \<noteq> None"

definition collab_step :: "collaboration \<Rightarrow> collaboration \<Rightarrow> bool" where
  "collab_step c d \<longleftrightarrow> cb_id d = cb_id c \<and> cb_profile_a d = cb_profile_a c \<and> cb_profile_b d = cb_profile_b c
     \<and> (is_terminal (cb_status c) \<longrightarrow> cb_status d = cb_status c)
     \<and> (cb_read_only c \<longrightarrow> cb_read_only d) \<and> (cb_archived_at c \<noteq> None \<longrightarrow> cb_archived_at d \<noteq> None)
     \<and> (shut c \<longrightarrow> cb_status d = cb_status c \<and> cb_title d = cb_title c \<and> cb_description d = cb_description c)"

lemma collab_step_refl [simp]: "collab_step c c"
  by (simp add: collab_step_def)

lemma collab_step_trans: "collab_step a b \<Longrightarrow> collab_step b c \<Longrightarrow> collab_step a c"
  by (auto simp: collab_step_def shut_def)

text \<open>The state predicate every operation keeps: both versions of the tables are fine and grown from \<open>xs\<close>.\<close>

definition fine :: "collaboration list \<Rightarrow> collab_db \<Rightarrow> uuid \<Rightarrow> bool" where
  "fine xs db n \<longleftrightarrow> grows collab_step xs (collabs db) \<and> collab_db_ok db n"

definition collab_state :: "collaboration list \<Rightarrow> collab_sess \<Rightarrow> bool" where
  "collab_state xs s \<longleftrightarrow> fine xs (work s) (next_uuid s) \<and> fine xs (committed s) (next_uuid s)"

lemma fine_Suc: "fine xs db n \<Longrightarrow> fine xs db (Suc n)"
  by (auto simp: fine_def collab_db_ok_def collab_ok_def)

section \<open>Operations that keep every status\<close>

text \<open>A change of rows that touches neither identity, status nor completion.\<close>

definition quiet :: "(collaboration \<Rightarrow> collaboration) \<Rightarrow> bool" where
  "quiet f \<longleftrightarrow> (\<forall>c. cb_id (f c) = cb_id c \<and> cb_profile_a (f c) = cb_profile_a c \<and> cb_profile_b (f c) = cb_profile_b c
     \<and> cb_least (f c) = cb_least c \<and> cb_greatest (f c) = cb_greatest c \<and> cb_status (f c) = cb_status c
     \<and> cb_completed_at (f c) = cb_completed_at c)"

lemma fine_update:
  assumes "fine xs db n" and "quiet f" and "\<And>c. c \<in> set (collabs db) \<Longrightarrow> P c \<Longrightarrow> collab_step c (f c)"
  shows "fine xs (db\<lparr>collabs := update_where P f (collabs db)\<rparr>) n"
proof -
  have "map cb_id (update_where P f (collabs db)) = map cb_id (collabs db)"
    and "map pair_key (update_where P f (collabs db)) = map pair_key (collabs db)"
    using assms(2) by (auto intro!: map_update_where simp: quiet_def pair_key_def)
  moreover have "collab_ok es n (f c) = collab_ok es n c" for es c
    using assms(2) by (simp add: quiet_def collab_ok_def)
  ultimately have "collab_db_ok (db\<lparr>collabs := update_where P f (collabs db)\<rparr>) n"
    using assms(1) by (auto simp: fine_def collab_db_ok_def set_update_where)
  moreover have "grows collab_step (collabs db) (update_where P f (collabs db))"
    using assms(3) by (intro grows_update) simp_all
  ultimately show ?thesis using assms(1) grows_trans [OF collab_step_trans] by (auto simp: fine_def)
qed

lemma keeps_update:
  assumes "quiet f" and "\<And>c. P c \<Longrightarrow> collab_step c (f c)"
  shows "keeps (collab_state xs) (modify_table collabs_update collabs (update_where P f))"
  using fine_update [OF _ assms(1), of xs _ _ P] assms(2) by (auto simp: keeps_def modify_run collab_state_def)

lemma keeps_state_basic:
  "keeps (collab_state xs) (modify_table feedbacks_update feedbacks g1)"
  "keeps (collab_state xs) (modify_table exports_update exports g2)"
  "keeps (collab_state xs) (modify_table file_names_update file_names g3)"
  "keeps (collab_state xs) (modify_table names_update names g4)"
  "keeps (collab_state xs) commit_c" "keeps (collab_state xs) uuid4" "keeps (collab_state xs) (publish_c m)"
  by (auto simp: keeps_def comp_simps collab_state_def fine_Suc) (auto simp: fine_def collab_db_ok_def)

lemma keeps_in_session: "keeps (collab_state xs) m \<Longrightarrow> keeps (collab_state xs) (in_session m)"
  by (auto simp: keeps_def in_session_def collab_state_def split: prod.split)
    (metis (mono_tags, lifting) snd_conv sess.select_convs(1,2,5) sess.surjective sess.update_convs(2))+

named_theorems state_kept \<open>operations that keep the state predicate of collab-svc\<close>

declare keeps_state_basic [state_kept] keeps_in_session [state_kept] keeps_intros [state_kept]
  keeps_select [state_kept] keeps_scalar [state_kept] keeps_scalar_one [state_kept] keeps_ret [state_kept]
  keeps_raise [state_kept] keeps_now [state_kept]

lemma keeps_drop [state_kept]: "keeps I m \<Longrightarrow> keeps I (drop_result m)"
  by (simp add: drop_result_def keeps_seq)

lemma keeps_emit [state_kept]: "keeps (collab_state xs) (emit_event k b)" "keeps (collab_state xs) (delay t as)"
  by (simp_all add: emit_event_def delay_def keeps_state_basic)

lemma keeps_lift [state_kept]: "keeps I (lift_e r)" "keeps I (parsed t)"
  by (auto simp: lift_e_def parsed_def split: sum.split option.split)

lemma keeps_get [state_kept]: "keeps I (get_collab k p)" "keeps I (own_collab k p)"
  by (auto simp: get_collab_def own_collab_def intro!: keeps_bind split: option.split)

lemma keeps_as_profile: "(\<And>p. keeps (collab_state xs) (m p)) \<Longrightarrow> keeps (collab_state xs) (as_profile header m)"
  by (auto simp: as_profile_def intro: keeps_in_session split: sum.split)

lemma quiet_rows:
  "quiet (\<lambda>c. c\<lparr>cb_read_only := True, cb_archive_at := Some t, cb_updated_at := u\<rparr>)"
  "quiet (\<lambda>c. c\<lparr>cb_last_activity := t, cb_nudge_sent := None, cb_updated_at := u\<rparr>)"
  "quiet (\<lambda>c. c\<lparr>cb_nudge_sent := Some t\<rparr>)" "quiet (archive_row t)" "quiet (patch_row a b t)"
  by (simp_all add: quiet_def archive_row_def patch_row_def)

lemma keeps_block [state_kept]: "keeps (collab_state xs) (apply_block a b)"
  unfolding apply_block_def
  by (intro keeps_bind keeps_seq keeps_now keeps_update quiet_rows keeps_state_basic) (simp add: collab_step_def)

lemma keeps_activity [state_kept]: "keeps (collab_state xs) (update_last_activity k t)"
  unfolding update_last_activity_def save_collab_def
  by (intro keeps_bind keeps_seq keeps_now keeps_update quiet_rows keeps_state_basic) (simp add: collab_step_def)

lemma keeps_name [state_kept]: "keeps (collab_state xs) (upsert_name_cache k p t)"
  unfolding upsert_name_cache_def by (intro keeps_bind keeps_seq keeps_now keeps_state_basic)

lemma keeps_feedback [state_kept]: "keeps (collab_state xs) (upsert_feedback c p req)"
  unfolding upsert_feedback_def Let_def by (intro state_kept)

section \<open>Creating, patching, changing the status\<close>

lemma collab_grows_append: "grows collab_step xs ys \<Longrightarrow> grows collab_step xs (ys @ zs)"
  by (rule grows_trans [where R = collab_step, OF collab_step_trans]) (auto intro: grows_append)

lemma fine_new:
  assumes "fine xs db n" and "\<not> list_ex (\<lambda>y. pair_key (new_collaboration n a b t) = pair_key y) (collabs db)"
  shows "fine xs (db\<lparr>collabs := collabs db @ [new_collaboration n a b t]\<rparr>) (Suc n)"
proof -
  have "history_of n (status_events db) = []"
    using assms(1) by (auto simp: fine_def collab_db_ok_def history_of_def filter_empty_conv)
  then have "collab_ok (status_events db) (Suc n) (new_collaboration n a b t)"
    by (simp add: collab_ok_def new_collaboration_def)
  moreover have "n \<notin> cb_id ` set (collabs db)" using assms(1) by (auto simp: fine_def collab_db_ok_def collab_ok_def)
  moreover have "pair_key (new_collaboration n a b t) \<notin> pair_key ` set (collabs db)" using assms(2) by (auto simp: list_ex_iff)
  ultimately have "collab_db_ok (db\<lparr>collabs := collabs db @ [new_collaboration n a b t]\<rparr>) (Suc n)"
    using fine_Suc [OF assms(1)] by (auto simp: fine_def collab_db_ok_def) (simp_all add: new_collaboration_def)
  moreover have "grows collab_step xs (collabs db @ [new_collaboration n a b t])"
    using assms(1) by (auto simp: fine_def intro: collab_grows_append)
  ultimately show ?thesis by (simp add: fine_def)
qed

lemma keeps_create [state_kept]: "keeps (collab_state xs) (create_collaboration a b)"
proof
  fix s assume s: "collab_state xs s"
  have "fine xs (work s) (Suc (next_uuid s))" "fine xs (committed s) (Suc (next_uuid s))"
    using s fine_Suc by (auto simp: collab_state_def)
  with s fine_new [of xs "work s" "next_uuid s" a b "clock s"]
  show "collab_state xs (snd (create_collaboration a b s))"
    by (auto simp: create_collaboration_def insert_needs_def bind_run uuid4_run now_run Let_def catch_integrity_run seq_run add_collaboration_def
        insert_run ret_run scalar_one_def scalar_run raise_run commit_run collab_state_def split: sum.split option.split)
qed

lemma keeps_open_bind:
  assumes "\<And>c s. collab_state xs s \<Longrightarrow> c \<in> set (collabs (work s)) \<Longrightarrow> cb_id c = k \<Longrightarrow> \<not> shut c \<Longrightarrow> collab_state xs (snd (body c s))"
  shows "keeps (collab_state xs) (bind_c (open_collab k p) body)"
proof
  fix s assume s: "collab_state xs s"
  show "collab_state xs (snd (bind_c (open_collab k p) body s))"
  proof (cases "filter (\<lambda>c. cb_id c = k \<and> takes_part p c) (collabs (work s))")
    case Nil
    with s show ?thesis
      by (simp add: bind_run open_collab_def own_collab_def get_collab_def select_run ret_run raise_run first_of_def)
  next
    case (Cons c cs)
    then have "c \<in> set (filter (\<lambda>c. cb_id c = k \<and> takes_part p c) (collabs (work s)))" by simp
    then have c: "c \<in> set (collabs (work s))" "cb_id c = k" by simp_all
    with Cons s assms [OF s c] show ?thesis
      by (simp add: bind_run open_collab_def own_collab_def get_collab_def select_run ret_run raise_run first_of_def shut_def)
  qed
qed

lemma same_row: "collab_db_ok db n \<Longrightarrow> c \<in> set (collabs db) \<Longrightarrow> d \<in> set (collabs db) \<Longrightarrow> cb_id d = cb_id c \<Longrightarrow> d = c"
  by (auto simp: collab_db_ok_def distinct_map dest: inj_onD)

lemma keeps_patch:
  assumes "collab_state xs s" and "c \<in> set (collabs (work s))" and "\<not> shut c"
  shows "collab_state xs (snd (patch_collab c title description s))"
proof -
  have w: "fine xs (work s) (next_uuid s)" using assms(1) by (simp add: collab_state_def)
  have step: "collab_step d (patch_row title description t d)" if "d \<in> set (collabs (work s))" "cb_id d = cb_id c" for d t
    using same_row [OF _ assms(2) that] w assms(3) by (auto simp: fine_def collab_step_def patch_row_def)
  from fine_update [OF w quiet_rows(5), where P = "\<lambda>d. cb_id d = cb_id c"] step assms(1)
  show ?thesis
    by (simp add: patch_collab_def save_collab_def bind_run now_run seq_run modify_run commit_run ret_run collab_state_def)
qed

lemma status_walk_append: "status_walk q (ps @ qs) = Option.bind (status_walk q ps) (\<lambda>r. status_walk r qs)"
  by (induction q ps rule: status_walk.induct) auto

lemma history_of_append: "history_of k (es @ [e]) = history_of k es @ (if se_collab e = k then [(se_prev e, se_new e)] else [])"
  by (simp add: history_of_def)

lemma transition_row_facts:
  "cb_id (transition_row q t c) = cb_id c" "cb_profile_a (transition_row q t c) = cb_profile_a c"
  "cb_profile_b (transition_row q t c) = cb_profile_b c" "cb_least (transition_row q t c) = cb_least c"
  "cb_greatest (transition_row q t c) = cb_greatest c" "cb_status (transition_row q t c) = q"
  "cb_completed_at (transition_row q t c) = (if q = Completed then Some t else cb_completed_at c)"
  "cb_read_only (transition_row q t c) = cb_read_only c" "cb_archived_at (transition_row q t c) = cb_archived_at c"
  "pair_key (transition_row q t c) = pair_key c"
  by (simp_all add: transition_row_def Let_def pair_key_def)

lemma no_way_out: "q \<in> set (transition_map p) \<Longrightarrow> \<not> is_terminal p"
  by (cases p) (auto simp: is_terminal_def terminal_states_def)

lemma fine_transition:
  assumes fine: "fine xs db n" and c: "c \<in> set (collabs db)" and nshut: "\<not> shut c"
    and q: "q \<in> set (transition_map (cb_status c))"
    and e: "se_collab e = cb_id c" "se_prev e = cb_status c" "se_new e = q"
  shows "fine xs (db\<lparr>collabs := update_where (\<lambda>d. cb_id d = cb_id c) (transition_row q t) (collabs db),
      status_events := status_events db @ [e]\<rparr>) n"
proof -
  let ?rows = "update_where (\<lambda>d. cb_id d = cb_id c) (transition_row q t) (collabs db)"
  have ok: "collab_db_ok db n" using fine by (simp add: fine_def)
  have only: "d = c" if "d \<in> set (collabs db)" "cb_id d = cb_id c" for d using same_row [OF ok c that] .
  have maps: "map cb_id ?rows = map cb_id (collabs db)" "map pair_key ?rows = map pair_key (collabs db)"
    by (auto intro!: map_update_where simp: transition_row_facts)
  have row: "collab_ok (status_events db @ [e]) n d" if "d \<in> set ?rows" for d
  proof (cases "d = transition_row q t c")
    case True
    have "collab_ok (status_events db) n c" using ok c by (simp add: collab_db_ok_def)
    with True q no_way_out [OF q] show ?thesis
      by (auto simp: collab_ok_def history_of_append e status_walk_append transition_row_facts is_terminal_def terminal_states_def)
  next
    case False
    with that only have "d \<in> set (collabs db)" "cb_id d \<noteq> cb_id c" by (auto simp: set_update_where)
    with ok show ?thesis by (auto simp: collab_db_ok_def collab_ok_def history_of_append e)
  qed
  have "cb_id c < n" using ok c by (auto simp: collab_db_ok_def collab_ok_def)
  with row maps ok have "collab_db_ok (db\<lparr>collabs := ?rows, status_events := status_events db @ [e]\<rparr>) n"
    by (auto simp: collab_db_ok_def e)
  moreover have "grows collab_step (collabs db) ?rows"
  proof (intro grows_update)
    fix d assume "d \<in> set (collabs db)" "cb_id d = cb_id c"
    then have "d = c" by (rule only)
    with nshut no_way_out [OF q] show "collab_step d (transition_row q t d)"
      by (simp add: collab_step_def transition_row_facts shut_def)
  qed simp
  ultimately show ?thesis using fine grows_trans [OF collab_step_trans] by (auto simp: fine_def)
qed

lemma keeps_transition:
  assumes "collab_state xs s" and "c \<in> set (collabs (work s))" and "\<not> shut c"
  shows "collab_state xs (snd (transition_status c q p text s))"
proof (cases "q \<in> set (transition_map (cb_status c))")
  case False
  with assms(1) show ?thesis by (simp add: transition_status_def validate_transition_def raise_run)
next
  case True
  have w: "fine xs (work s) (next_uuid s)" using assms(1) by (simp add: collab_state_def)
  show ?thesis
    using fine_Suc [OF fine_transition [OF w assms(2,3) True]] fine_Suc assms(1) True
    by (simp add: transition_status_def validate_transition_def bind_run now_run uuid4_run Let_def seq_run save_collab_def
        modify_run commit_run ret_run collab_state_def)
qed

lemma invalid_409_snd: "snd (invalid_transition_409 m s) = snd (m s)"
  by (auto simp: invalid_transition_409_def split: prod.split sum.split exn.split)

lemma keeps_invalid_409: "keeps I m \<Longrightarrow> keeps I (invalid_transition_409 m)"
  by (simp add: keeps_def invalid_409_snd)

section \<open>Every request\<close>

lemma keeps_request: "keeps (collab_state xs) (collab_request_comp fi q)"
proof (cases q)
  case (Patch header k title description)
  have "keeps (collab_state xs) (patch_collab_endpoint header k title description)"
    unfolding patch_collab_endpoint_def by (intro keeps_as_profile keeps_open_bind keeps_patch)
  then show ?thesis by (simp add: Patch keeps_drop)
next
  case (Change_Status header k st why)
  have "keeps (collab_state xs) (transition_status_endpoint header k st why)"
    unfolding transition_status_endpoint_def
  proof (intro keeps_as_profile keeps_open_bind)
    fix p c s assume a: "collab_state xs s" "c \<in> set (collabs (work s))" "\<not> shut c"
    have "collab_state xs (snd (invalid_transition_409 (transition_status c st p why) s))"
      using keeps_transition [OF a] by (simp add: invalid_409_snd)
    then show "collab_state xs (snd (bind_c (invalid_transition_409 (transition_status c st p why))
       (\<lambda>e. seq_c (emit_event ''collab.status_changed''
               [(''collab_id'', JStr (str_uuid k)), (''prev_status'', JStr (str_collab_status (se_prev e))),
                (''new_status'', JStr (str_collab_status (se_new e))), (''actor_profile_id'', JStr (str_uuid p))])
             (seq_c (when_c (st = Completed \<or> st = Didnt_Work_Out)
                 (delay ''app.workers.archive_tasks.archive_finalize'' [str_uuid k, str_collab_status st]))
               (ret e))) s))"
      by (auto simp: bind_run seq_run emit_event_def delay_def publish_run when_run ret_run collab_state_def split: prod.split sum.split)
  qed
  then show ?thesis by (simp add: Change_Status keeps_drop)
next
  case (Give_Feedback header k body)
  have "keeps (collab_state xs) (submit_feedback_endpoint header k body)"
    unfolding submit_feedback_endpoint_def by (intro keeps_as_profile keeps_bind state_kept) (auto intro!: state_kept)
  then show ?thesis by (simp add: Give_Feedback keeps_drop)
next
  case (Ask_Export header k reply)
  have "keeps (collab_state xs) (request_export_endpoint header k reply)"
    unfolding request_export_endpoint_def Let_def by (intro keeps_as_profile keeps_bind state_kept) (auto intro!: state_kept)
  then show ?thesis by (simp add: Ask_Export keeps_drop)
next
  case (On_Match body)
  then show ?thesis by (auto simp: handle_match_created_def intro!: state_kept)
next
  case (On_Message body)
  then show ?thesis by (auto simp: handle_chat_message_sent_def intro!: state_kept split: option.split)
next
  case (On_Block body)
  then show ?thesis by (auto simp: handle_block_created_def intro!: state_kept)
next
  case (On_Media body)
  then show ?thesis by (auto simp: handle_chat_media_scanned_def Let_def intro!: state_kept split: option.split)
next
  case (On_Name body)
  then show ?thesis by (auto simp: handle_display_name_changed_def refresh_name_def intro!: state_kept split: option.split json.split)
next
  case Scan
  then show ?thesis by (auto simp: inactivity_check_def scan_dispatch_def intro!: state_kept)
next
  case (Nudge k)
  then show ?thesis
    by (auto simp: send_nudge_def collab_step_def intro!: state_kept keeps_update quiet_rows split: list.split)
next
  case (Archive k)
  then show ?thesis
    by (auto simp: archive_collab_def archived_event_def archive_row_def [abs_def] collab_step_def quiet_def intro!: state_kept keeps_update)
next
  case (Finalize k reason)
  then show ?thesis
    by (auto simp: archive_finalize_def archived_event_def archive_row_def [abs_def] collab_step_def quiet_def
        intro!: state_kept keeps_update split: list.split option.split)
next
  case (Pass us)
  then show ?thesis by (simp add: keeps_def collab_state_def)
qed

section \<open>The service as a whole\<close>

lemma serve_collab_append: "serve_collab fi (xs @ ys) s = serve_collab fi ys (serve_collab fi xs s)"
  by (simp add: serve_collab_def)

lemma serve_collab_keeps: "(\<And>q. keeps I (collab_request_comp fi q)) \<Longrightarrow> I s \<Longrightarrow> I (serve_collab fi reqs s)"
proof (induction reqs arbitrary: s)
  case Nil
  then show ?case by (simp add: serve_collab_def)
next
  case (Cons q reqs)
  from Cons.IH [OF Cons.prems(1) keepsD [OF Cons.prems(1) Cons.prems(2)]] show ?case by (simp add: serve_collab_def)
qed

lemmas serve_collab_state = serve_collab_keeps [OF keeps_request]

lemma collab_start_state: "collab_state [] (collab_start sch t n)"
  by (simp add: collab_state_def collab_start_def fine_def grows_def collab_db_ok_def empty_collab_db_def)

text \<open>Between two requests nothing is uncommitted, since every handler runs in sessions of its own.\<close>

definition settled :: "collab_sess \<Rightarrow> bool" where
  "settled s \<longleftrightarrow> work s = committed s"

lemma settled_basic: "keeps settled (in_session m)" "keeps settled uuid4" "keeps settled (publish_c msg)"
  "keeps settled (emit_event k b)" "keeps settled (delay t as)"
  by (auto simp: keeps_def settled_def in_session_def uuid4_run publish_run emit_event_def delay_def split: prod.split)

lemma settled_profile: "keeps settled (as_profile header m)"
  by (auto simp: as_profile_def settled_basic split: sum.split)

lemmas settled_rules = settled_basic settled_profile keeps_intros keeps_lift keeps_drop keeps_ret keeps_raise keeps_now

lemma settled_request: "keeps settled (collab_request_comp fi q)"
proof (cases q)
  case (Pass us)
  then show ?thesis by (simp add: keeps_def settled_def)
qed (auto simp: patch_collab_endpoint_def transition_status_endpoint_def submit_feedback_endpoint_def request_export_endpoint_def
    handle_match_created_def handle_chat_message_sent_def handle_block_created_def handle_chat_media_scanned_def Let_def
    handle_display_name_changed_def inactivity_check_def scan_dispatch_def send_nudge_def archive_collab_def archived_event_def
    archive_finalize_def intro!: settled_rules split: option.split json.split)

lemma collab_reached:
  "collab_state [] (serve_collab fi reqs (collab_start sch t n))" "settled (serve_collab fi reqs (collab_start sch t n))"
  by (rule serve_collab_state [OF collab_start_state])
    (rule serve_collab_keeps [OF settled_request], simp add: settled_def collab_start_def)

lemma collab_later:
  "collab_state (collabs (committed (serve_collab fi reqs1 (collab_start sch t n)))) (serve_collab fi (reqs1 @ reqs2) (collab_start sch t n))"
proof -
  have "collab_state (collabs (committed (serve_collab fi reqs1 (collab_start sch t n)))) (serve_collab fi reqs1 (collab_start sch t n))"
    using collab_reached [of fi reqs1 sch t n] by (auto simp: collab_state_def fine_def settled_def intro: grows_refl)
  then show ?thesis unfolding serve_collab_append by (rule serve_collab_state)
qed

text \<open>C16. After any sequence of requests, events and tasks every pair has at most one collaboration, and the recorded events of each collaboration walk the status machine from still_deciding to its present status, with completed_at set exactly on completed ones.\<close>

theorem collab_tables_follow_machine:
  "collab_db_ok (committed (serve_collab fi reqs (collab_start sch t n))) (next_uuid (serve_collab fi reqs (collab_start sch t n)))"
  using collab_reached(1) [of fi reqs sch t n] by (simp add: collab_state_def fine_def)

text \<open>C17. Nothing reopens a collaboration: a finished status is final, read-only and archived are for ever, and a read-only or archived collaboration keeps its status, title and description, whatever requests, events and tasks follow.\<close>

theorem shut_collab_stays_shut:
  "grows collab_step (collabs (committed (serve_collab fi reqs1 (collab_start sch t n))))
     (collabs (committed (serve_collab fi (reqs1 @ reqs2) (collab_start sch t n))))"
  using collab_later [of fi reqs1 sch t n reqs2] by (simp add: collab_state_def fine_def)

section \<open>A match makes one collaboration\<close>

definition match_body :: "uuid \<Rightarrow> uuid \<Rightarrow> (string \<times> json) list" where
  "match_body a b = [(''profile_id_a'', JStr (str_uuid a)), (''profile_id_b'', JStr (str_uuid b))]"

lemma need_uuid_str: "u < 16 ^ 32 \<Longrightarrow> map_of body key = Some (JStr (str_uuid u)) \<Longrightarrow> need_uuid body key = Inr u"
  by (simp add: need_uuid_def parse_str_uuid del: power_numeral)

definition between :: "uuid \<Rightarrow> uuid \<Rightarrow> collaboration \<Rightarrow> bool" where
  "between a b c \<longleftrightarrow> {cb_profile_a c, cb_profile_b c} = {a, b}"

lemma between_pair_key: "collab_ok es n c \<Longrightarrow> between a b c \<longleftrightarrow> pair_key c = (min a b, max a b)"
  by (auto simp: between_def collab_ok_def pair_key_def doubleton_eq_iff min_def max_def split: if_splits)

lemma one_of_pair:
  assumes "distinct (map pair_key rows)" and "c \<in> set rows"
  shows "filter (\<lambda>x. pair_key x = pair_key c) rows = [c]"
proof -
  have "filter (\<lambda>x. pair_key x = pair_key c) rows = filter (\<lambda>x. x = c) rows"
    using assms by (auto simp: distinct_map dest: inj_onD intro!: filter_cong)
  also have "\<dots> = [c]" using assms filter_same [of rows c] by (auto simp: distinct_map)
  finally show ?thesis .
qed

lemma create_gives_row:
  assumes "distinct (map pair_key (collabs (work s)))" "insert_accepted (collab_schema (work s)) pair_constraint pair_columns"
  shows "\<exists>row s1. create_collaboration a b s = (Inr row, s1) \<and> committed s1 = work s1
    \<and> row \<in> set (collabs (committed s1)) \<and> pair_key row = (min a b, max a b)"
proof (cases "list_ex (\<lambda>y. pair_key (new_collaboration (next_uuid s) a b (clock s)) = pair_key y) (collabs (work s))")
  case False
  then show ?thesis
    by (simp add: create_collaboration_def insert_needs_def assms(2) bind_run uuid4_run now_run Let_def catch_integrity_run seq_run
        add_collaboration_def insert_run ret_run commit_run) (simp add: pair_key_def new_collaboration_def)
next
  case True
  let ?k = "pair_key (new_collaboration (next_uuid s) a b (clock s))"
  have k: "?k = (min a b, max a b)" by (simp add: pair_key_def new_collaboration_def)
  from True obtain c where c: "c \<in> set (collabs (work s))" "pair_key c = ?k" by (auto simp: list_ex_iff)
  from one_of_pair [OF assms(1) c(1)] have "filter (\<lambda>x. pair_key x = ?k) (collabs (work s)) = [c]" by (simp add: c(2))
  with True c k show ?thesis
    by (simp add: create_collaboration_def insert_needs_def assms(2) bind_run uuid4_run now_run Let_def catch_integrity_run seq_run
        add_collaboration_def insert_run ret_run commit_run scalar_one_def scalar_run)
qed

lemma match_parsed:
  assumes "a < 16 ^ 32" and "b < 16 ^ 32"
  shows "need_uuid (match_body a b) ''profile_id_a'' = Inr a" "need_uuid (match_body a b) ''profile_id_b'' = Inr b"
    "map_of (match_body a b) ''match_id'' = None"
  using assms by (auto intro!: need_uuid_str simp: match_body_def simp del: power_numeral)

lemma match_creates:
  assumes "collab_db_ok (committed s) n" and "a < 16 ^ 32" and "b < 16 ^ 32"
    and "insert_accepted (collab_schema (committed s)) pair_constraint pair_columns"
  shows "\<exists>c \<in> set (collabs (committed (snd (handle_match_created (match_body a b) s)))). pair_key c = (min a b, max a b)"
proof -
  note match_parsed [OF assms(2,3)]
  moreover obtain row s1 where "create_collaboration a b (s\<lparr>next_uuid := Suc (next_uuid s), work := committed s\<rparr>) = (Inr row, s1)"
    "row \<in> set (collabs (committed s1))" "pair_key row = (min a b, max a b)"
    using create_gives_row [of "s\<lparr>next_uuid := Suc (next_uuid s), work := committed s\<rparr>" a b] assms(1,4)
    by (auto simp: collab_db_ok_def)
  ultimately show ?thesis
    by (auto simp: handle_match_created_def lift_e_def bind_run ret_run uuid4_run in_session_def emit_event_def publish_run)
qed

section \<open>What the requests leave alone\<close>

text \<open>
  A predicate that survives every write of the service keeps every request. New collaborations come from
  \<open>create_collaboration\<close> only; all other writes to their table are updates in place.
\<close>

locale collab_frame =
  fixes I :: "collab_sess \<Rightarrow> bool"
  assumes collabs_kept: "keeps I (modify_table collabs_update collabs (update_where P f))"
    and events_kept: "keeps I (modify_table status_events_update status_events g0)"
    and feedbacks_kept: "keeps I (modify_table feedbacks_update feedbacks g1)"
    and exports_kept: "keeps I (modify_table exports_update exports g2)"
    and files_kept: "keeps I (modify_table file_names_update file_names g3)"
    and names_kept: "keeps I (modify_table names_update names g4)"
    and create_kept: "keeps I (create_collaboration a b)"
    and commit_kept: "keeps I commit_c"
    and uuid_kept: "keeps I uuid4"
    and publish_kept: "keeps I (publish_c m)"
    and reset_kept: "I s \<Longrightarrow> I (s\<lparr>work := committed s\<rparr>)"
    and clock_kept: "I s \<Longrightarrow> I (s\<lparr>clock := t\<rparr>)"
begin

lemma session_kept: "keeps I m \<Longrightarrow> keeps I (in_session m)"
  using reset_kept by (auto simp: keeps_def in_session_def split: prod.split) (metis snd_conv)

lemma profile_kept: "(\<And>p. keeps I (m p)) \<Longrightarrow> keeps I (as_profile header m)"
  by (auto simp: as_profile_def intro: session_kept split: sum.split)

lemmas frame_rules = collabs_kept events_kept feedbacks_kept exports_kept files_kept names_kept create_kept commit_kept uuid_kept
  publish_kept session_kept profile_kept keeps_invalid_409 keeps_intros keeps_select keeps_scalar keeps_scalar_one keeps_ret
  keeps_raise keeps_now keeps_lift keeps_drop keeps_get

lemma request_kept: "keeps I (collab_request_comp fi q)"
proof (cases q)
  case (Pass us)
  then show ?thesis by (simp add: keeps_def clock_kept)
qed (auto simp: patch_collab_endpoint_def patch_collab_def save_collab_def transition_status_endpoint_def transition_status_def
    submit_feedback_endpoint_def upsert_feedback_def request_export_endpoint_def handle_match_created_def
    handle_chat_message_sent_def update_last_activity_def handle_block_created_def apply_block_def
    handle_chat_media_scanned_def Let_def handle_display_name_changed_def refresh_name_def upsert_name_cache_def
    inactivity_check_def scan_dispatch_def send_nudge_def archive_collab_def archived_event_def archive_finalize_def
    emit_event_def delay_def open_collab_def
    intro!: frame_rules split: option.split json.split sum.split list.split)

lemma served: "I s \<Longrightarrow> I (serve_collab fi reqs s)"
  by (rule serve_collab_keeps [OF request_kept])

end

text \<open>The schema of the database never changes, and in the migrated one there is never a collaboration.\<close>

definition has_schema :: "table_schema \<Rightarrow> collab_sess \<Rightarrow> bool" where
  "has_schema sch s \<longleftrightarrow> collab_schema (work s) = sch \<and> collab_schema (committed s) = sch"

definition barren :: "collab_sess \<Rightarrow> bool" where
  "barren s \<longleftrightarrow> has_schema migrated_collab_schema s \<and> collabs (work s) = [] \<and> collabs (committed s) = []"

lemma create_refused:
  "collab_schema (work s) = migrated_collab_schema \<Longrightarrow> create_collaboration a b s = (Inl (LibraryError ''ProgrammingError''), s)"
  by (simp add: create_collaboration_def insert_needs_def insert_accepted_def migrated_collab_schema_def pair_constraint_def seq_run)

lemma create_keeps_schema: "keeps (has_schema sch) (create_collaboration a b)"
proof -
  have "keeps (has_schema sch) (add_collaboration c)" "keeps (has_schema sch) (insert_needs k cs)"
    "keeps (has_schema sch) uuid4" "keeps (has_schema sch) commit_c" for c k cs
    by (simp_all add: keeps_def comp_simps add_collaboration_def insert_needs_def has_schema_def)
  then show ?thesis
    by (auto simp: create_collaboration_def Let_def intro!: keeps_intros split: option.split)
qed

interpretation schema: collab_frame "has_schema sch" for sch
  by unfold_locales (simp_all add: create_keeps_schema, auto simp: keeps_def comp_simps has_schema_def)

interpretation barren: collab_frame barren
  by unfold_locales (auto simp: keeps_def comp_simps barren_def has_schema_def create_refused)

lemma start_schema: "has_schema sch (collab_start sch t n)" "barren (collab_start migrated_collab_schema t n)"
  by (simp_all add: has_schema_def barren_def collab_start_def empty_collab_db_def)

text \<open>C18. No match ever makes a collaboration in the database the migrations build: the insert names a constraint
  that is only an index there and writes generated columns, so every match a consumer can read ends in an error
  of the database, and whatever requests, events and tasks arrive, there is never a collaboration.\<close>

theorem no_match_makes_a_collab:
  assumes "a < 16 ^ 32" and "b < 16 ^ 32" and "serve_collab fi reqs (collab_start migrated_collab_schema t n) = s"
  shows "collabs (committed s) = [] \<and> fst (handle_match_created (match_body a b) s) = Inl (LibraryError ''ProgrammingError'')"
proof -
  have "barren s" using barren.served [OF start_schema(2)] assms(3) by blast
  with match_parsed [OF assms(1,2)] show ?thesis
    by (simp add: barren_def has_schema_def handle_match_created_def lift_e_def bind_run ret_run uuid4_run in_session_def create_refused)
qed

lemma no_match_makes_a_collab_witness:
  "collabs (committed (serve_collab (\<lambda>_. None) [On_Match (match_body 5 3), Scan] (collab_start migrated_collab_schema 0 1))) = []
   \<and> fst (handle_match_created (match_body 3 5) (serve_collab (\<lambda>_. None) [On_Match (match_body 5 3), Scan]
       (collab_start migrated_collab_schema 0 1))) = Inl (LibraryError ''ProgrammingError'')"
  using no_match_makes_a_collab [of 3 5 "\<lambda>_. None" "[On_Match (match_body 5 3), Scan]" 0 1, OF _ _ refl] by simp

text \<open>
  Where a schema does accept the insert, a match makes exactly one collaboration of its two profiles, and that stays
  so: before or after it may come any requests, events and tasks, the same match again in either order among them.
\<close>

theorem match_makes_one_collab:
  assumes "a < 16 ^ 32" and "b < 16 ^ 32" and sch: "insert_accepted sch pair_constraint pair_columns"
  shows "length (filter (between a b) (collabs (committed
    (serve_collab fi (reqs1 @ On_Match (match_body a b) # reqs2) (collab_start sch t n))))) = 1"
proof -
  let ?s1 = "serve_collab fi (reqs1 @ [On_Match (match_body a b)]) (collab_start sch t n)"
  let ?s = "serve_collab fi (reqs1 @ On_Match (match_body a b) # reqs2) (collab_start sch t n)"
  have reached: "collab_db_ok (committed (serve_collab fi rs (collab_start sch t n))) (next_uuid (serve_collab fi rs (collab_start sch t n)))" for rs
    using collab_reached(1) [of fi rs sch t n] by (simp add: collab_state_def fine_def)
  have "collab_schema (committed (serve_collab fi reqs1 (collab_start sch t n))) = sch"
    using schema.served [OF start_schema(1)] by (auto simp: has_schema_def)
  with match_creates [OF reached assms(1,2), of reqs1] sch obtain c where c: "c \<in> set (collabs (committed ?s1))" "pair_key c = (min a b, max a b)"
    by (auto simp: serve_collab_append) (auto simp: serve_collab_def)
  from collab_later [of fi "reqs1 @ [On_Match (match_body a b)]" sch t n reqs2] have "grows collab_step (collabs (committed ?s1)) (collabs (committed ?s))"
    by (simp add: collab_state_def fine_def)
  with c(1) obtain d where d: "d \<in> set (collabs (committed ?s))" "collab_step c d" by (rule grows_member)
  have ok: "collab_ok (status_events (committed (serve_collab fi rs (collab_start sch t n)))) (next_uuid (serve_collab fi rs (collab_start sch t n))) x"
    if "x \<in> set (collabs (committed (serve_collab fi rs (collab_start sch t n))))" for x rs
    using reached that by (auto simp: collab_db_ok_def)
  have "between a b c" using between_pair_key [OF ok [OF c(1)]] c(2) by simp
  then have "between a b d" using d(2) by (simp add: between_def collab_step_def)
  then have pd: "pair_key d = (min a b, max a b)" using between_pair_key [OF ok [OF d(1)]] by simp
  have "filter (between a b) (collabs (committed ?s)) = filter (\<lambda>x. pair_key x = pair_key d) (collabs (committed ?s))"
    using between_pair_key [OF ok] pd by (intro filter_cong) simp_all
  also have "\<dots> = [d]" using reached d(1) by (intro one_of_pair) (auto simp: collab_db_ok_def)
  finally show ?thesis by simp
qed

lemma match_makes_one_collab_witness:
  "length (filter (between 5 3) (collabs (committed (serve_collab (\<lambda>_. None) ([Scan] @ On_Match (match_body 5 3) # [On_Match (match_body 3 5)])
     (collab_start \<lparr>ts_constraints = [pair_constraint], ts_generated = []\<rparr> 0 1))))) = 1"
  using match_makes_one_collab [of 5 3 "\<lparr>ts_constraints = [pair_constraint], ts_generated = []\<rparr>" "\<lambda>_. None" "[Scan]"
      "[On_Match (match_body 3 5)]" 0 1] by (simp add: insert_accepted_def list_all_iff)

end
