(* ===== verification/Collab_Lists.thy ===== *)
theory Collab_Lists
  imports Collab_World
begin

text \<open>
  The list of a profile's collaborations page by page (\<open>list_collabs\<close>): without a search it is
  a keyset listing, so following the cursors shows every collaboration once; with a search the
  rows are ordered by rank, and the cursor, which knows the time only, drops matches.
\<close>

type_synonym collab_query = "uuid \<times> status_filter \<times> bool \<times> collab_db"

text \<open>All rows of the query, newest first.\<close>

fun collab_listing :: "collab_query \<Rightarrow> collaboration list" where
  "collab_listing (p, filt, arch, db) =
     rev (sort_key collab_key (filter (\<lambda>c. takes_part p c \<and> status_cond filt arch c) (collabs db)))"

fun collab_page :: "collab_query \<Rightarrow> nat \<Rightarrow> cursor option \<Rightarrow> collaboration list \<times> cursor option" where
  "collab_page (p, filt, arch, db) limit cur =
     keyset_page collab_key limit cur (filter (\<lambda>c. takes_part p c \<and> status_cond filt arch c) (collabs db))"

interpretation collab_list: keyset_listing collab_listing collab_key collab_page
  by unfold_locales (auto simp: sorted_newest keyset_page_newest split: prod.split)

lemma insort_key_const: "insort_key (\<lambda>x. (n :: int, f x)) x xs = insort_key f x xs"
  by (induction xs) simp_all

lemma sort_key_const: "sort_key (\<lambda>x. (n :: int, f x)) xs = sort_key f xs"
  by (induction xs) (simp_all add: insort_key_const)

lemma list_collabs_page:
  assumes "limit \<le> 50"
  shows "list_collabs search p filt None cur limit arch db = collab_page (p, filt, arch, db) limit cur"
proof -
  have "rank_key search None = (\<lambda>c. (0, collab_key c))" by (simp add: rank_key_def find_rank_def fun_eq_iff)
  then have "sort_key (rank_key search None) rs = sort_key collab_key rs" for rs by (simp add: sort_key_const)
  moreover have "(\<lambda>c. takes_part p c \<and> status_cond filt arch c \<and> find_rank search None c \<noteq> None \<and> before_cursor collab_key cur c)
      = (\<lambda>c. (takes_part p c \<and> status_cond filt arch c) \<and> before_cursor collab_key cur c)"
    by (simp add: find_rank_def fun_eq_iff)
  ultimately show ?thesis using assms by (simp add: list_collabs_def Let_def keyset_page_def conj_commute min_absorb1)
qed

lemma collab_listing_distinct:
  assumes "distinct (map cb_id (collabs db))"
  shows "distinct (map collab_key (collab_listing (p, filt, arch, db)))"
proof -
  have "distinct (map cb_id (filter (\<lambda>c. takes_part p c \<and> status_cond filt arch c) (collabs db)))" (is "distinct (map cb_id ?rs)")
    using assms by (rule distinct_map_filter)
  then have "distinct ?rs" "inj_on collab_key (set ?rs)" by (auto simp: distinct_map inj_on_def collab_key_def)
  then show ?thesis by (simp add: distinct_map)
qed

definition page_item_ids :: "exn + (collab_list_item list \<times> cursor option \<times> nat) \<Rightarrow> uuid list \<times> cursor option" where
  "page_item_ids r = (case r of Inl _ \<Rightarrow> ([], None) | Inr (items, next, n) \<Rightarrow> (map li_id items, next))"

lemma endpoint_page:
  assumes "get_current_profile_id header = Inr p"
  shows "page_item_ids (list_collabs_endpoint search header status q cur limit arch db)
    = (map cb_id (fst (list_collabs search p (status_filter_of status) q cur limit arch db)),
       snd (list_collabs search p (status_filter_of status) q cur limit arch db))"
  using assms by (auto simp: page_item_ids_def list_collabs_endpoint_def Let_def collab_list_item_of_def split: prod.split)

text \<open>Without a search, following the cursors of the collaboration list shows every collaboration of the caller that has the wanted status exactly once, most recent activity first, whatever the page size.\<close>

theorem collab_pages_complete:
  assumes "distinct (map cb_id (collabs db))" and "1 \<le> limit" and "limit \<le> 50"
    and "get_current_profile_id header = Inr p" and "length (collabs db) < n"
  shows "concat (follow n (\<lambda>cur. page_item_ids (list_collabs_endpoint search header status None cur limit arch db)) None)
    = map cb_id (rev (sort_key collab_key
        (filter (\<lambda>c. takes_part p c \<and> status_cond (status_filter_of status) arch c) (collabs db))))"
proof -
  let ?q = "(p, status_filter_of status, arch, db)"
  have len: "length (collab_listing ?q) < n" using le_less_trans [OF length_filter_le assms(5)] by simp
  have "concat (follow n (collab_page ?q limit) None) = collab_listing ?q"
    by (rule collab_list.follow_all [OF collab_listing_distinct [OF assms(1)] assms(2) len])
  moreover have "follow n (\<lambda>cur. page_item_ids (list_collabs_endpoint search header status None cur limit arch db)) None
      = map (map cb_id) (follow n (collab_page ?q limit) None)"
    by (rule map_follow) (simp only: endpoint_page [OF assms(4)] list_collabs_page [OF assms(3)])
  ultimately show ?thesis by (simp add: map_concat [symmetric])
qed

section \<open>Searching\<close>

lemma cut_page_sub: "set (fst (cut_page key limit rs)) \<subseteq> set rs"
  by (auto simp: cut_page_def Let_def dest: in_set_takeD)

lemma cut_page_next:
  assumes "snd (cut_page key limit rs) = Some cur"
  shows "\<exists>r \<in> set rs. cur = key r"
proof -
  have "take limit rs \<noteq> []" "cur = key (last (take limit rs))" using assms by (auto simp: cut_page_def Let_def split: if_splits)
  moreover from this(1) have "last (take limit rs) \<in> set rs" by (blast intro: in_set_takeD last_in_set)
  ultimately show ?thesis by blast
qed

lemma before_cursor_below: "before_cursor key (Some cur) r \<longleftrightarrow> key r < cur"
  by (cases cur) (auto simp: before_cursor_def less_prod_def split: prod.split)

text \<open>All pages behind a cursor hold rows before it only.\<close>

lemma follow_below:
  assumes "c \<in> set (concat (follow n (\<lambda>cur. list_collabs search p filt q cur limit arch db) (Some cur)))"
  shows "collab_key c < cur"
  using assms
proof (induction n arbitrary: cur)
  case (Suc n)
  let ?page = "list_collabs search p filt q (Some cur) limit arch db"
  have rows: "collab_key r < cur" if "r \<in> set (fst ?page)" for r
    using that by (auto simp: list_collabs_def Let_def before_cursor_below dest!: subsetD [OF cut_page_sub])
  have nxt: "cur' < cur" if "snd ?page = Some cur'" for cur'
    using that by (auto simp: list_collabs_def Let_def before_cursor_below dest!: cut_page_next)
  show ?case
  proof (cases "snd ?page")
    case None
    with Suc.prems rows show ?thesis by (cases ?page) auto
  next
    case (Some cur')
    then have "c \<in> set (fst ?page) \<or> c \<in> set (concat (follow n (\<lambda>cur. list_collabs search p filt q cur limit arch db) (Some cur')))"
      using Suc.prems by (cases ?page) auto
    then show ?thesis using rows less_trans [OF Suc.IH nxt [OF Some]] by blast
  qed
qed simp

text \<open>With a search the pages lose matches: a match that is not on the first page and has been active since the last row of that page is on no page, however far the caller follows the cursors.\<close>

theorem search_pages_lose_matches:
  assumes "list_collabs search p filt (Some t) None limit arch db = (items, Some cur)"
    and "c \<notin> set items" and "cur \<le> collab_key c"
  shows "c \<notin> set (concat (follow n (\<lambda>cur. list_collabs search p filt (Some t) cur limit arch db) None))"
proof
  assume c: "c \<in> set (concat (follow n (\<lambda>cur. list_collabs search p filt (Some t) cur limit arch db) None))"
  then obtain m where "n = Suc m" by (cases n) auto
  with c assms(1,2) have "c \<in> set (concat (follow m (\<lambda>cur. list_collabs search p filt (Some t) cur limit arch db) (Some cur)))"
    by simp
  from follow_below [OF this] assms(3) show False by simp
qed

section \<open>Witnesses\<close>

text \<open>Profile 7 has an old collaboration that matches well and a recent one that matches less.\<close>

definition demo_collabs :: collab_db where
  "demo_collabs = (empty_collab_db migrated_collab_schema)\<lparr>collabs := [new_collaboration 2 7 8 100, new_collaboration 3 7 9 200]\<rparr>"

definition demo_search :: "string \<Rightarrow> collaboration \<Rightarrow> int option" where
  "demo_search t c = (if cb_id c = 2 then Some 9 else Some 1)"

lemma collab_pages_complete_witness:
  "concat (follow 3 (\<lambda>cur. page_item_ids (list_collabs_endpoint demo_search (Some (str_uuid 7)) None None cur 1 False demo_collabs)) None) = [3, 2]"
  using collab_pages_complete [of demo_collabs 1 "Some (str_uuid 7)" 7 3 demo_search None False] current_profile [of 7]
  by (simp add: demo_collabs_def new_collaboration_def takes_part_def status_cond_def status_filter_of_def collab_key_def)

lemma search_pages_lose_matches_witness:
  "new_collaboration 3 7 9 200 \<in> set (collabs demo_collabs)
    \<and> new_collaboration 3 7 9 200 \<notin> set (concat (follow 9 (\<lambda>cur. list_collabs demo_search 7 Any_Status (Some ''t'') cur 1 False demo_collabs) None))"
proof -
  have "list_collabs demo_search 7 Any_Status (Some ''t'') None 1 False demo_collabs
      = ([new_collaboration 2 7 8 100], Some (100, 2))"
    by (simp add: list_collabs_def Let_def demo_collabs_def new_collaboration_def takes_part_def status_cond_def find_rank_def
        demo_search_def before_cursor_def rank_key_def collab_key_def cut_page_def)
  from search_pages_lose_matches [OF this, of "new_collaboration 3 7 9 200" 9] show ?thesis
    by (simp add: collab_key_def new_collaboration_def demo_collabs_def)
qed

end
