(* ===== verification/Collab_Tasks.thy ===== *)
theory Collab_Tasks
  imports Collab_World "HOL-Library.List_Lexorder" "HOL-Library.Char_ord" "HOL-Library.Multiset"
begin

text \<open>
  The project plan of a collaboration (app/services/task_service.py, app/routers/tasks.py,
  app/schemas_tools.py): tasks ordered by a text key, their status and closing time, comments in
  pages. Texts are compared by character code, in Python as in the ORDER BY of the database
  (C collation), and rows whose sort keys are equal come in the order they were stored.
\<close>

section \<open>Order keys\<close>

text \<open>
  The loop of \<open>_lexo_midpoint\<close> over the positions of the longer text: an exhausted \<open>a\<close> counts
  as the character before a, an exhausted \<open>b\<close> as the one after z.
\<close>

function midpoint_loop :: "string \<Rightarrow> string \<Rightarrow> string" where
  "midpoint_loop xs ys =
     (if xs = [] \<and> ys = [] then ''m''
      else let ca = (case xs of [] \<Rightarrow> 97 - 1 | x # _ \<Rightarrow> (of_char x :: nat));
               cb = (case ys of [] \<Rightarrow> 122 + 1 | y # _ \<Rightarrow> (of_char y :: nat))
           in if ca + 1 < cb then [char_of ((ca + cb) div 2)]
              else char_of ca # midpoint_loop (tl xs) (tl ys))"
  by auto
termination
  by (relation "measure (\<lambda>(xs, ys). length xs + length ys)") (auto simp: neq_Nil_conv split: if_splits)

declare midpoint_loop.simps [simp del]

definition lexo_midpoint :: "string \<Rightarrow> string \<Rightarrow> exn + string" where
  "lexo_midpoint a b = (if b \<le> a then Inl ValueError else Inr (midpoint_loop a b))"

definition alphabet :: string where
  "alphabet = ''abcdefghijklmnopqrstuvwxyz''"

definition generate_balanced_keys :: "nat \<Rightarrow> string list" where
  "generate_balanced_keys n = (if n = 0 then []
     else let step = max 1 (length alphabet div (n + 1))
          in map (\<lambda>i. [alphabet ! min (i * step) (length alphabet - 1)]) [1..<n + 1])"

section \<open>Task queries\<close>

datatype task_sort = By_Order | By_Due | By_Status

text \<open>An enum column sorts in the order its values are declared; NULLS LAST for the due date.\<close>

fun status_rank :: "task_status \<Rightarrow> nat" where
  "status_rank Task_Todo = 0"
| "status_rank Task_In_Progress = 1"
| "status_rank Task_Done = 2"
| "status_rank Task_Blocked = 3"

definition due_key :: "int option \<Rightarrow> nat \<times> int" where
  "due_key d = (case d of None \<Rightarrow> (1, 0) | Some n \<Rightarrow> (0, n))"

definition live_task :: "uuid \<Rightarrow> task_status option \<Rightarrow> task \<Rightarrow> bool" where
  "live_task collab_id filt t \<longleftrightarrow> tk_collab t = collab_id \<and> tk_deleted_at t = None
     \<and> (case filt of None \<Rightarrow> True | Some q \<Rightarrow> tk_status t = q)"

definition list_tasks :: "uuid \<Rightarrow> task_sort \<Rightarrow> task_status option \<Rightarrow> collab_db \<Rightarrow> task list" where
  "list_tasks collab_id srt filt db =
     (let rows = filter (live_task collab_id filt) (tasks db) in
      case srt of
        By_Order \<Rightarrow> sort_key tk_order_key rows
      | By_Due \<Rightarrow> sort_key (\<lambda>t. (due_key (tk_due_date t), tk_order_key t)) rows
      | By_Status \<Rightarrow> sort_key (\<lambda>t. (status_rank (tk_status t), tk_order_key t)) rows)"

definition read_db :: "(collab_db \<Rightarrow> 'a) \<Rightarrow> 'a collabing" where
  "read_db f = (\<lambda>s. (Inr (f (work s)), s))"

definition get_comment_count :: "uuid \<Rightarrow> collab_db \<Rightarrow> nat" where
  "get_comment_count task_id db = length (filter (\<lambda>c. tc_task c = task_id \<and> tc_deleted_at c = None) (comments db))"

section \<open>Changing tasks\<close>

record task_create =
  nt_title :: string
  nt_description :: "string option"
  nt_assignee :: "uuid option"
  nt_due_date :: "int option"
  nt_order_key :: string

definition new_task :: "uuid \<Rightarrow> uuid \<Rightarrow> uuid \<Rightarrow> task_create \<Rightarrow> datetime \<Rightarrow> task" where
  "new_task i collab_id created_by req now = \<lparr>tk_id = i, tk_collab = collab_id, tk_title = nt_title req,
     tk_description = nt_description req, tk_assignee = nt_assignee req, tk_due_date = nt_due_date req,
     tk_status = Task_Todo, tk_order_key = nt_order_key req, tk_created_by = created_by,
     tk_created_at = now, tk_updated_at = now, tk_closed_at = None, tk_deleted_at = None\<rparr>"

definition create_task :: "uuid \<Rightarrow> uuid \<Rightarrow> task_create \<Rightarrow> task collabing" where
  "create_task collab_id created_by req = bind_c uuid4 (\<lambda>i. bind_c now_c (\<lambda>now.
     let t = new_task i collab_id created_by req now in
     seq_c (modify_table tasks_update tasks (\<lambda>ts. ts @ [t])) (seq_c commit_c (ret t))))"

text \<open>
  The body of a PATCH as \<open>model_dump(exclude_unset=True)\<close> gives it: None for an unset field,
  Some None for an explicit null.
\<close>

record task_patch =
  tp_title :: "string option option"
  tp_description :: "string option option"
  tp_assignee :: "uuid option option"
  tp_due_date :: "int option option"
  tp_status :: "task_status option option"
  tp_order_key :: "string option option"

definition patched :: "'a \<Rightarrow> 'a option option \<Rightarrow> 'a" where
  "patched old v = (case v of Some (Some x) \<Rightarrow> x | _ \<Rightarrow> old)"

definition patched_null :: "'a option \<Rightarrow> 'a option option \<Rightarrow> 'a option" where
  "patched_null old v = (case v of None \<Rightarrow> old | Some x \<Rightarrow> x)"

definition new_status_of :: "task \<Rightarrow> task_patch \<Rightarrow> task_status option" where
  "new_status_of t p = (case tp_status p of
     Some (Some q) \<Rightarrow> if q \<noteq> tk_status t then Some q else None | _ \<Rightarrow> None)"

text \<open>The loop over the fields; the database touches \<open>updated_at\<close> when some column changed.\<close>

definition patch_fields :: "task_patch \<Rightarrow> datetime \<Rightarrow> task \<Rightarrow> task" where
  "patch_fields p now t =
     (let t1 = t\<lparr>tk_title := patched (tk_title t) (tp_title p),
                 tk_description := patched_null (tk_description t) (tp_description p),
                 tk_assignee := patched_null (tk_assignee t) (tp_assignee p),
                 tk_due_date := patched_null (tk_due_date t) (tp_due_date p),
                 tk_order_key := patched (tk_order_key t) (tp_order_key p)\<rparr>
      in case new_status_of t p of
           None \<Rightarrow> t1
         | Some q \<Rightarrow> t1\<lparr>tk_status := q,
             tk_closed_at := (if q = Task_Done then Some now
                              else if tk_status t = Task_Done then None else tk_closed_at t)\<rparr>)"

definition touch :: "datetime \<Rightarrow> task \<Rightarrow> task \<Rightarrow> task" where
  "touch now old new = (if new = old then old else new\<lparr>tk_updated_at := now\<rparr>)"

definition save_task :: "uuid \<Rightarrow> (task \<Rightarrow> task) \<Rightarrow> unit collabing" where
  "save_task i f = modify_table tasks_update tasks (update_where (\<lambda>t. tk_id t = i) f)"

definition update_task :: "task \<Rightarrow> task_patch \<Rightarrow> (task \<times> task_status option) collabing" where
  "update_task t p = bind_c now_c (\<lambda>now.
     seq_c (save_task (tk_id t) (\<lambda>x. touch now x (patch_fields p now x)))
       (seq_c commit_c (ret (touch now t (patch_fields p now t),
          case new_status_of t p of None \<Rightarrow> None | Some _ \<Rightarrow> Some (tk_status t)))))"

definition soft_delete_task :: "task \<Rightarrow> unit collabing" where
  "soft_delete_task t = bind_c now_c (\<lambda>now.
     seq_c (save_task (tk_id t) (\<lambda>x. x\<lparr>tk_deleted_at := Some now, tk_updated_at := now\<rparr>)) commit_c)"

text \<open>\<open>zip(tasks, new_keys)\<close>, then every row whose key changed is written.\<close>

definition rekey :: "datetime \<Rightarrow> (uuid \<times> string) list \<Rightarrow> task \<Rightarrow> task" where
  "rekey now keys t = (case map_of keys (tk_id t) of
     None \<Rightarrow> t | Some k \<Rightarrow> touch now t (t\<lparr>tk_order_key := k\<rparr>))"

definition rebalance_order_keys :: "uuid \<Rightarrow> task list collabing" where
  "rebalance_order_keys collab_id = bind_c now_c (\<lambda>now. bind_c (read_db (list_tasks collab_id By_Order None)) (\<lambda>ts.
     let keys = zip (map tk_id ts) (generate_balanced_keys (length ts)) in
     seq_c (modify_table tasks_update tasks (map (rekey now keys)))
       (seq_c commit_c (ret (map (rekey now keys) ts)))))"

section \<open>Comments\<close>

definition create_comment :: "uuid \<Rightarrow> uuid \<Rightarrow> string \<Rightarrow> task_comment collabing" where
  "create_comment task_id author body = bind_c uuid4 (\<lambda>i. bind_c now_c (\<lambda>now.
     let c = \<lparr>tc_id = i, tc_task = task_id, tc_author = author, tc_body = body, tc_created_at = now, tc_deleted_at = None\<rparr> in
     seq_c (modify_table comments_update comments (\<lambda>cs. cs @ [c])) (seq_c commit_c (ret c))))"

text \<open>The cursor is the identifier of a comment; the page starts after that comment's time.\<close>

definition after_comment :: "collab_db \<Rightarrow> uuid option \<Rightarrow> task_comment \<Rightarrow> bool" where
  "after_comment db cur c = (case cur of None \<Rightarrow> True
     | Some i \<Rightarrow> (case find (\<lambda>x. tc_id x = i) (comments db) of
         None \<Rightarrow> True | Some ref \<Rightarrow> tc_created_at ref < tc_created_at c))"

definition live_comments :: "collab_db \<Rightarrow> uuid \<Rightarrow> task_comment list" where
  "live_comments db task_id = sort_key tc_created_at (filter (\<lambda>c. tc_task c = task_id \<and> tc_deleted_at c = None) (comments db))"

definition list_comments :: "uuid \<Rightarrow> uuid option \<Rightarrow> nat \<Rightarrow> collab_db \<Rightarrow> task_comment list \<times> uuid option" where
  "list_comments task_id cur limit db =
     (let rows = take (limit + 1) (sort_key tc_created_at
          (filter (\<lambda>c. (tc_task c = task_id \<and> tc_deleted_at c = None) \<and> after_comment db cur c) (comments db)))
      in if limit < length rows then (take limit rows, Some (tc_id (rows ! limit))) else (rows, None))"

section \<open>Endpoints\<close>

record task_out =
  to_task :: task
  to_comment_count :: nat

definition task_to_out :: "task \<Rightarrow> nat \<Rightarrow> task_out" where
  "task_to_out t n = \<lparr>to_task = t, to_comment_count = n\<rparr>"

definition participant_task :: "uuid \<Rightarrow> uuid \<Rightarrow> task collabing" where
  "participant_task task_id profile_id =
     bind_c (select_all tasks (\<lambda>t. tk_id t = task_id \<and> tk_deleted_at t = None)) (\<lambda>ts. case ts of
       [] \<Rightarrow> raise (HTTPException 404 ''Task not found'')
     | t # _ \<Rightarrow> bind_c (get_collab (tk_collab t) profile_id) (\<lambda>c. case c of
         None \<Rightarrow> raise (HTTPException 403 ''Not a participant in this collaboration'')
       | Some _ \<Rightarrow> ret t))"

definition list_tasks_endpoint :: "string option \<Rightarrow> uuid \<Rightarrow> task_sort \<Rightarrow> task_status option \<Rightarrow> (task_out list \<times> nat) collabing" where
  "list_tasks_endpoint header collab_id srt status =
     as_profile header (\<lambda>p. seq_c (own_collab collab_id p)
       (read_db (\<lambda>db. let items = map (\<lambda>t. task_to_out t (get_comment_count (tk_id t) db)) (list_tasks collab_id srt status db)
          in (items, length items))))"

definition create_task_endpoint :: "string option \<Rightarrow> uuid \<Rightarrow> task_create \<Rightarrow> task_out collabing" where
  "create_task_endpoint header collab_id body =
     as_profile header (\<lambda>p. seq_c (own_collab collab_id p) (bind_c (create_task collab_id p body) (\<lambda>t.
       seq_c (emit_event ''task.created''
           [(''collab_id'', JStr (str_uuid collab_id)), (''task_id'', JStr (str_uuid (tk_id t))),
            (''task_title'', JStr (tk_title t)), (''actor_profile_id'', JStr (str_uuid p))])
         (ret (task_to_out t 0)))))"

text \<open>
  The response reads \<open>updated_at\<close>, which the database sets on UPDATE. \<open>loaded\<close> says whether
  the session has loaded it again; where it has not, reading it needs I/O and raises.
\<close>

definition rebalance_tasks_endpoint :: "bool \<Rightarrow> string option \<Rightarrow> uuid \<Rightarrow> (task_out list \<times> nat) collabing" where
  "rebalance_tasks_endpoint loaded header collab_id =
     as_profile header (\<lambda>p. seq_c (own_collab collab_id p) (bind_c (read_db tasks) (\<lambda>before.
       bind_c (rebalance_order_keys collab_id) (\<lambda>ts.
         if \<not> loaded \<and> \<not> set ts \<subseteq> set before then raise MissingGreenlet
         else seq_c (emit_event ''tasks.rebalanced''
             [(''collab_id'', JStr (str_uuid collab_id)), (''count'', JInt (int (length ts)))])
           (ret (map (\<lambda>t. task_to_out t 0) ts, length ts))))))"

definition patch_task_endpoint :: "string option \<Rightarrow> uuid \<Rightarrow> task_patch \<Rightarrow> task_out collabing" where
  "patch_task_endpoint header task_id body =
     as_profile header (\<lambda>p. bind_c (participant_task task_id p) (\<lambda>t0.
       bind_c (update_task t0 body) (\<lambda>(t, prev_status).
         let about = [(''collab_id'', JStr (str_uuid (tk_collab t))), (''task_id'', JStr (str_uuid (tk_id t))),
                      (''task_title'', JStr (tk_title t)), (''actor_profile_id'', JStr (str_uuid p))] in
         seq_c (case prev_status of None \<Rightarrow> ret ()
             | Some prev \<Rightarrow> emit_event ''task.status_changed'' (about @
                 [(''prev_status'', JStr (str_task_status prev)), (''new_status'', JStr (str_task_status (tk_status t))),
                  (''occurred_at'', JStr (iso_datetime (tk_updated_at t)))]))
           (seq_c (case tp_assignee body of
               Some (Some a) \<Rightarrow> emit_event ''task.assigned'' (about @ [(''assignee_profile_id'', JStr (str_uuid a))])
             | _ \<Rightarrow> ret ())
             (read_db (\<lambda>db. task_to_out t (get_comment_count (tk_id t) db)))))))"

definition delete_task_endpoint :: "string option \<Rightarrow> uuid \<Rightarrow> unit collabing" where
  "delete_task_endpoint header task_id =
     as_profile header (\<lambda>p. bind_c (participant_task task_id p) (\<lambda>t.
       seq_c (soft_delete_task t)
         (emit_event ''task.deleted''
           [(''collab_id'', JStr (str_uuid (tk_collab t))), (''task_id'', JStr (str_uuid task_id)),
            (''task_title'', JStr (tk_title t)), (''actor_profile_id'', JStr (str_uuid p))])))"

definition create_comment_endpoint :: "string option \<Rightarrow> uuid \<Rightarrow> string \<Rightarrow> task_comment collabing" where
  "create_comment_endpoint header task_id body =
     as_profile header (\<lambda>p. bind_c (participant_task task_id p) (\<lambda>t. create_comment (tk_id t) p body))"

definition list_comments_endpoint :: "string option \<Rightarrow> uuid \<Rightarrow> uuid option \<Rightarrow> nat \<Rightarrow> (task_comment list \<times> uuid option) collabing" where
  "list_comments_endpoint header task_id cur limit =
     as_profile header (\<lambda>p. seq_c (participant_task task_id p) (read_db (list_comments task_id cur limit)))"

section \<open>What the schemas let through\<close>

definition text_between :: "nat \<Rightarrow> nat \<Rightarrow> string \<Rightarrow> bool" where
  "text_between lo hi t \<longleftrightarrow> lo \<le> length t \<and> length t \<le> hi"

definition maybe :: "('a \<Rightarrow> bool) \<Rightarrow> 'a option \<Rightarrow> bool" where
  "maybe P v = (case v of None \<Rightarrow> True | Some x \<Rightarrow> P x)"

definition task_create_ok :: "task_create \<Rightarrow> bool" where
  "task_create_ok req \<longleftrightarrow> text_between 1 200 (nt_title req) \<and> maybe (text_between 0 2000) (nt_description req)
     \<and> text_between 1 255 (nt_order_key req)"

definition task_patch_ok :: "task_patch \<Rightarrow> bool" where
  "task_patch_ok p \<longleftrightarrow> maybe (maybe (text_between 1 200)) (tp_title p) \<and> maybe (maybe (text_between 0 2000)) (tp_description p)
     \<and> maybe (maybe (text_between 1 255)) (tp_order_key p)"

definition comment_ok :: "string \<Rightarrow> bool" where
  "comment_ok body \<longleftrightarrow> text_between 1 500 body"

text \<open>A body the schema refuses is answered 422 before the handler runs.\<close>

definition validated :: "bool \<Rightarrow> 'a collabing \<Rightarrow> 'a collabing" where
  "validated ok m = (if ok then m else raise (HTTPException 422 ''''))"

datatype plan_request =
    Create_Task "string option" uuid task_create
  | Rebalance bool "string option" uuid
  | Patch_Task "string option" uuid task_patch
  | Delete_Task "string option" uuid
  | Add_Comment "string option" uuid string
  | Other collab_request

fun plan_request_comp :: "(string \<Rightarrow> datetime option) \<Rightarrow> plan_request \<Rightarrow> unit collabing" where
  "plan_request_comp fi (Create_Task header k body) = validated (task_create_ok body) (drop_result (create_task_endpoint header k body))"
| "plan_request_comp fi (Rebalance loaded header k) = drop_result (rebalance_tasks_endpoint loaded header k)"
| "plan_request_comp fi (Patch_Task header i p) = validated (task_patch_ok p) (drop_result (patch_task_endpoint header i p))"
| "plan_request_comp fi (Delete_Task header i) = delete_task_endpoint header i"
| "plan_request_comp fi (Add_Comment header i body) = validated (comment_ok body) (drop_result (create_comment_endpoint header i body))"
| "plan_request_comp fi (Other q) = collab_request_comp fi q"

definition serve_plan :: "(string \<Rightarrow> datetime option) \<Rightarrow> plan_request list \<Rightarrow> collab_sess \<Rightarrow> collab_sess" where
  "serve_plan fi reqs s = fold (\<lambda>q s. snd (plan_request_comp fi q s)) reqs s"

section \<open>Keys between keys\<close>

lemma midpoint_above: "xs < midpoint_loop xs ys"
proof (induction xs ys rule: midpoint_loop.induct)
  case (1 xs ys)
  show ?case
  proof (cases xs)
    case Nil
    then show ?thesis by (subst midpoint_loop.simps) (simp add: Let_def)
  next
    case (Cons x xs')
    define cb where "cb = (case ys of [] \<Rightarrow> 122 + 1 | y # _ \<Rightarrow> (of_char y :: nat))"
    have "cb < 256" "(of_char x :: nat) < 256" by (auto simp: cb_def split: list.split)
    then show ?thesis
      using 1 [OF _ refl refl] Cons
      by (subst midpoint_loop.simps) (auto simp: Let_def cb_def [symmetric] less_char_def)
  qed
qed

lemma midpoint_below:
  "xs < ys \<Longrightarrow> \<forall>y \<in> set ys. CHR ''a'' \<le> y \<Longrightarrow> midpoint_loop xs ys < ys"
proof (induction xs ys rule: midpoint_loop.induct)
  case (1 xs ys)
  then obtain y ys' where ys: "ys = y # ys'" by (cases ys) auto
  define ca where "ca = (case xs of [] \<Rightarrow> 97 - 1 | x # _ \<Rightarrow> (of_char x :: nat))"
  have small: "(of_char y :: nat) < 256" "ca < 256" by (auto simp: ca_def split: list.split)
  have y: "97 \<le> (of_char y :: nat)" using 1(3) ys by (simp add: less_eq_char_def)
  have cases: "ca < of_char y \<or> (ca = of_char y \<and> tl xs < ys')"
    using 1(2) y by (cases xs) (auto simp: ca_def ys less_char_def)
  show ?case
    using cases small 1(1) [OF _ refl refl] 1(3)
    by (subst midpoint_loop.simps) (auto simp: Let_def ca_def [symmetric] ys less_char_def)
qed

text \<open>The midpoint of two keys lies strictly between them, in the order the database sorts by, for any two keys in order whose upper one has no character before a.\<close>

theorem midpoint_strictly_between:
  assumes "a < b" and "\<forall>y \<in> set b. CHR ''a'' \<le> y"
  shows "\<exists>m. lexo_midpoint a b = Inr m \<and> a < m \<and> m < b"
  using assms midpoint_above [of a b] midpoint_below [of a b] by (simp add: lexo_midpoint_def not_le [symmetric])

lemma midpoint_strictly_between_witness: "\<exists>m. lexo_midpoint ''a'' ''aa'' = Inr m \<and> ''a'' < m \<and> m < ''aa''"
  using midpoint_strictly_between [of "''a''" "''aa''"] by simp

lemma alphabet_sorted: "sorted_wrt (<) alphabet" "length alphabet = 26"
  by code_simp+

lemma balanced_keys_nth:
  "k < n \<Longrightarrow> generate_balanced_keys n ! k = [alphabet ! min (Suc k * max 1 (26 div (n + 1))) 25]"
  "length (generate_balanced_keys n) = n"
  by (simp_all add: generate_balanced_keys_def Let_def alphabet_sorted del: upt_Suc)

lemma balanced_step:
  assumes "n \<le> 25" and "k < n"
  shows "Suc k * (26 div (n + 1)) \<le> 25" and "1 \<le> 26 div (n + 1)"
proof -
  show one: "1 \<le> 26 div (n + 1)" using assms(1) by (simp add: div_greater_zero_iff Suc_le_eq)
  have "Suc k * (26 div (n + 1)) < (n + 1) * (26 div (n + 1))" using assms(2) one by simp
  also have "\<dots> \<le> 26" by (rule times_div_less_eq_dividend)
  finally show "Suc k * (26 div (n + 1)) \<le> 25" by simp
qed

lemma balanced_keys_sorted:
  assumes "n \<le> 25"
  shows "sorted_wrt (<) (generate_balanced_keys n)"
  unfolding sorted_wrt_iff_nth_less balanced_keys_nth(2)
proof (intro allI impI)
  fix i j assume ij: "i < j" "j < n"
  let ?d = "26 div (n + 1)"
  have d: "1 \<le> ?d" "Suc j * ?d \<le> 25" "Suc i * ?d \<le> 25" using balanced_step [OF assms] ij by auto
  moreover have "Suc i * ?d < Suc j * ?d" using ij d(1) by simp
  ultimately show "generate_balanced_keys n ! i < generate_balanced_keys n ! j"
    using ij sorted_wrt_nth_less [OF alphabet_sorted(1)] by (simp add: balanced_keys_nth alphabet_sorted max_absorb2 min_absorb1 del: mult_Suc)
qed

text \<open>The rebalanced keys of n tasks are strictly increasing, so that tasks can be told apart and reordered, exactly as long as n is at most 25; from 26 tasks on the last keys are all z.\<close>

theorem balanced_keys_distinct_up_to_25: "sorted_wrt (<) (generate_balanced_keys n) \<longleftrightarrow> n \<le> 25"
proof
  assume s: "sorted_wrt (<) (generate_balanced_keys n)"
  show "n \<le> 25"
  proof (rule ccontr)
    assume "\<not> n \<le> 25"
    then have n: "26 \<le> n" by simp
    then have "generate_balanced_keys n ! 24 = generate_balanced_keys n ! 25" by (simp add: balanced_keys_nth)
    moreover have "generate_balanced_keys n ! 24 < generate_balanced_keys n ! 25"
      using n by (intro sorted_wrt_nth_less [OF s]) (simp_all add: balanced_keys_nth)
    ultimately show False by simp
  qed
qed (rule balanced_keys_sorted)

section \<open>Rebalancing keeps the order\<close>

lemma rekey_fields [simp]:
  "tk_id (rekey now keys t) = tk_id t" "tk_collab (rekey now keys t) = tk_collab t"
  "tk_deleted_at (rekey now keys t) = tk_deleted_at t" "tk_status (rekey now keys t) = tk_status t"
  by (simp_all add: rekey_def touch_def split: option.split)

lemma rekey_key: "map_of keys (tk_id t) = Some k \<Longrightarrow> tk_order_key (rekey now keys t) = k"
  by (simp add: rekey_def touch_def) (metis task.select_convs(8) task.surjective task.update_convs(8))

lemma live_rekey: "filter (live_task k None) (map (rekey now keys) ts) = map (rekey now keys) (filter (live_task k None) ts)"
  by (simp add: filter_map comp_def live_task_def [abs_def])

lemma rekeyed_keys:
  assumes "distinct (map tk_id ts)" and "length ks = length ts"
  shows "map tk_order_key (map (rekey now (zip (map tk_id ts) ks)) ts) = ks"
proof (rule nth_equalityI)
  fix i assume "i < length (map tk_order_key (map (rekey now (zip (map tk_id ts) ks)) ts))"
  then have i: "i < length ts" by simp
  then have "map_of (zip (map tk_id ts) ks) (map tk_id ts ! i) = Some (ks ! i)"
    using assms by (intro map_of_zip_nth) simp_all
  with i show "map tk_order_key (map (rekey now (zip (map tk_id ts) ks)) ts) ! i = ks ! i" by (simp add: rekey_key)
qed (simp add: assms(2))

text \<open>Rebalancing a plan of at most 25 tasks keeps the order in which the tasks are listed and leaves them with the balanced keys, so each key is distinct from the next.\<close>

theorem rebalance_keeps_order:
  assumes "distinct (map tk_id (tasks (work s)))" and "length (list_tasks k By_Order None (work s)) \<le> 25"
  shows "map tk_id (list_tasks k By_Order None (committed (snd (rebalance_order_keys k s))))
      = map tk_id (list_tasks k By_Order None (work s))
    \<and> map tk_order_key (list_tasks k By_Order None (committed (snd (rebalance_order_keys k s))))
      = generate_balanced_keys (length (list_tasks k By_Order None (work s)))"
proof -
  let ?rows = "filter (live_task k None) (tasks (work s))"
  let ?ts = "sort_key tk_order_key ?rows"
  let ?f = "rekey (clock s) (zip (map tk_id ?ts) (generate_balanced_keys (length ?ts)))"
  have ts: "list_tasks k By_Order None (work s) = ?ts" by (simp add: list_tasks_def)
  have "distinct (map tk_id ?rows)" using assms(1) by (rule distinct_map_filter)
  then have "distinct (map tk_id ?ts)" by (simp add: distinct_map)
  then have keys: "map tk_order_key (map ?f ?ts) = generate_balanced_keys (length ?ts)"
    by (rule rekeyed_keys) (simp add: balanced_keys_nth)
  have strict: "sorted_wrt (<) (map tk_order_key (map ?f ?ts))"
    unfolding keys using assms(2) ts by (intro balanced_keys_sorted) simp
  then have "distinct (map tk_order_key (map ?f ?ts))" "sorted (map tk_order_key (map ?f ?ts))"
    by (simp_all only: strict_sorted_iff)
  then have "sort_key tk_order_key (map ?f ?rows) = map ?f ?ts"
    by (intro sort_key_inj_key_eq) (auto simp: distinct_map intro: inj_on_imageI)
  then have after: "list_tasks k By_Order None (committed (snd (rebalance_order_keys k s))) = map ?f ?ts"
    by (simp add: rebalance_order_keys_def bind_run now_run read_db_def seq_run modify_run commit_run ret_run list_tasks_def
        live_rekey Let_def)
  have "map tk_id (map ?f ?ts) = map tk_id ?ts" by simp
  with keys show ?thesis unfolding after ts by blast
qed

definition demo_task :: "uuid \<Rightarrow> string \<Rightarrow> task" where
  "demo_task i key = new_task i 1 7 \<lparr>nt_title = ''t'', nt_description = None, nt_assignee = None, nt_due_date = None,
     nt_order_key = key\<rparr> 0"

definition demo_plan :: collab_sess where
  "demo_plan = (collab_start migrated_collab_schema 0 9)\<lparr>work := (empty_collab_db migrated_collab_schema)\<lparr>tasks := [demo_task 2 ''b'', demo_task 3 ''ab'', demo_task 4 ''b'']\<rparr>\<rparr>"

lemma demo_plan_tasks: "tasks (work demo_plan) = [demo_task 2 ''b'', demo_task 3 ''ab'', demo_task 4 ''b'']"
  by (simp add: demo_plan_def)

lemma rebalance_keeps_order_witness:
  "map tk_order_key (list_tasks 1 By_Order None (committed (snd (rebalance_order_keys 1 demo_plan)))) = generate_balanced_keys 3
     \<and> map tk_id (list_tasks 1 By_Order None (committed (snd (rebalance_order_keys 1 demo_plan)))) = [3, 2, 4]"
proof -
  have before: "list_tasks 1 By_Order None (work demo_plan) = [demo_task 3 ''ab'', demo_task 2 ''b'', demo_task 4 ''b'']"
    by (simp add: list_tasks_def demo_plan_tasks live_task_def demo_task_def new_task_def less_char_def less_eq_char_def)
  show ?thesis
    using rebalance_keeps_order [of demo_plan 1] unfolding before demo_plan_tasks
    by (simp add: demo_task_def new_task_def eval_nat_numeral)
qed

section \<open>Pages of comments\<close>

lemma find_by: "distinct (map f xs) \<Longrightarrow> x \<in> set xs \<Longrightarrow> find (\<lambda>y. f y = f x) xs = Some x"
  by (induction xs) (auto simp: image_iff)

lemma filter_above_nth:
  assumes "sorted_wrt (<) (map f xs)" and "k < length xs"
  shows "filter (\<lambda>x. (f (xs ! k) :: 'k :: linorder) < f x) xs = drop (Suc k) xs"
  using assms
proof (induction xs arbitrary: k)
  case (Cons x xs)
  show ?case
  proof (cases k)
    case (Suc m)
    with Cons.prems have "f x < f (xs ! m)" by auto
    then have "\<not> f (xs ! m) < f x" by simp
    with Suc Cons show ?thesis by simp
  qed (use Cons.prems in auto)
qed simp

text \<open>Following the next cursor of a task's comments skips a comment: after a first page of \<open>limit\<close> comments the cursor names the next comment, and the page behind it starts with the one after that, so the named comment is on neither page.\<close>

theorem comment_pages_skip_one:
  assumes "limit < length (live_comments db task_id)" and "distinct (map tc_id (comments db))"
    and "distinct (map tc_created_at (live_comments db task_id))"
  shows "list_comments task_id None limit db = (take limit (live_comments db task_id), Some (tc_id (live_comments db task_id ! limit)))
    \<and> fst (list_comments task_id (Some (tc_id (live_comments db task_id ! limit))) limit db)
        = take limit (drop (Suc limit) (live_comments db task_id))"
proof -
  let ?live = "\<lambda>c. tc_task c = task_id \<and> tc_deleted_at c = None"
  let ?xs = "live_comments db task_id"
  let ?c = "?xs ! limit"
  have "?c \<in> set ?xs" using assms(1) by simp
  then have c: "?c \<in> set (comments db)" by (simp add: live_comments_def)
  have "find (\<lambda>x. tc_id x = tc_id ?c) (comments db) = Some ?c"
    by (rule find_by [OF assms(2) c])
  then have "after_comment db (Some (tc_id ?c)) = (\<lambda>c. tc_created_at ?c < tc_created_at c)"
    by (simp add: after_comment_def fun_eq_iff)
  then have "sort_key tc_created_at (filter (\<lambda>c. ?live c \<and> after_comment db (Some (tc_id ?c)) c) (comments db))
      = filter (\<lambda>c. tc_created_at ?c < tc_created_at c) ?xs"
    by (simp add: live_comments_def filter_sort [symmetric] conj_commute)
  moreover have "filter (\<lambda>c. tc_created_at ?c < tc_created_at c) ?xs = drop (Suc limit) ?xs"
  proof (rule filter_above_nth [OF _ assms(1)])
    have "sorted (map tc_created_at ?xs)" by (simp add: live_comments_def)
    with assms(3) show "sorted_wrt (<) (map tc_created_at ?xs)" by (simp add: strict_sorted_iff)
  qed
  ultimately show ?thesis using assms(1)
    by (simp add: list_comments_def Let_def after_comment_def [of _ None] live_comments_def [symmetric] min_def)
qed

definition demo_comment :: "uuid \<Rightarrow> task_comment" where
  "demo_comment i = \<lparr>tc_id = i, tc_task = 2, tc_author = 7, tc_body = ''c'', tc_created_at = int i, tc_deleted_at = None\<rparr>"

definition demo_comments :: collab_db where
  "demo_comments = (empty_collab_db migrated_collab_schema)\<lparr>comments := map demo_comment [11, 12, 13]\<rparr>"

lemma comment_pages_skip_one_witness:
  "map tc_id (fst (list_comments 2 None 1 demo_comments)) = [11]
     \<and> map tc_id (fst (list_comments 2 (Some 12) 1 demo_comments)) = [13]"
proof -
  have live: "live_comments demo_comments 2 = map demo_comment [11, 12, 13]"
    by (simp add: live_comments_def demo_comments_def demo_comment_def)
  show ?thesis
    using comment_pages_skip_one [of 1 demo_comments 2] unfolding live
    by (simp add: demo_comments_def demo_comment_def)
qed

section \<open>Well-formed plans\<close>

definition task_ok :: "uuid \<Rightarrow> task \<Rightarrow> bool" where
  "task_ok n t \<longleftrightarrow> tk_id t < n \<and> (tk_closed_at t \<noteq> None \<longleftrightarrow> tk_status t = Task_Done)
     \<and> text_between 1 200 (tk_title t) \<and> maybe (text_between 0 2000) (tk_description t) \<and> text_between 1 255 (tk_order_key t)"

definition plan_ok :: "collab_db \<Rightarrow> uuid \<Rightarrow> bool" where
  "plan_ok db n \<longleftrightarrow> distinct (map tk_id (tasks db)) \<and> (\<forall>t \<in> set (tasks db). task_ok n t)
     \<and> (\<forall>c \<in> set (comments db). comment_ok (tc_body c) \<and> tc_task c \<in> tk_id ` set (tasks db))"

definition plan_state :: "collab_sess \<Rightarrow> bool" where
  "plan_state s \<longleftrightarrow> plan_ok (work s) (next_uuid s) \<and> plan_ok (committed s) (next_uuid s)"

named_theorems plan_kept \<open>operations that keep the plans well formed\<close>

lemma plan_ok_Suc: "plan_ok db n \<Longrightarrow> plan_ok db (Suc n)"
  by (auto simp: plan_ok_def task_ok_def)

lemma plan_other_tables [plan_kept]:
  "keeps plan_state (modify_table collabs_update collabs f1)"
  "keeps plan_state (modify_table status_events_update status_events f2)"
  "keeps plan_state (modify_table feedbacks_update feedbacks f3)"
  "keeps plan_state (modify_table exports_update exports f4)"
  "keeps plan_state (modify_table file_names_update file_names f5)"
  "keeps plan_state (modify_table names_update names f6)"
  "keeps plan_state (db_insert collabs_update collabs chk clash r)"
  by (auto simp: keeps_def comp_simps plan_state_def plan_ok_def)

lemma plan_basic [plan_kept]:
  "keeps plan_state uuid4" "keeps plan_state commit_c" "keeps plan_state (publish_c m)" "keeps plan_state (emit_event k b)"
  "keeps plan_state (delay t as)" "keeps plan_state (read_db g)"
  by (auto simp: keeps_def comp_simps emit_event_def delay_def read_db_def plan_state_def plan_ok_Suc)

lemma plan_in_session [plan_kept]: "keeps plan_state m \<Longrightarrow> keeps plan_state (in_session m)"
  by (auto simp: keeps_def in_session_def plan_state_def split: prod.split)
    (metis (mono_tags, lifting) snd_conv sess.select_convs(1,2,5) sess.surjective sess.update_convs(2))+

lemma plan_profile [plan_kept]: "(\<And>p. keeps plan_state (m p)) \<Longrightarrow> keeps plan_state (as_profile header m)"
  by (auto simp: as_profile_def intro: plan_in_session split: sum.split)

lemma keeps_own: "keeps I (get_collab k p)" "keeps I (own_collab k p)" "keeps I (open_collab k p)" "keeps I (participant_task i p)"
  by (auto simp: get_collab_def own_collab_def open_collab_def participant_task_def intro!: keeps_bind split: option.split list.split)

declare keeps_intros [plan_kept] keeps_select [plan_kept] keeps_scalar [plan_kept] keeps_scalar_one [plan_kept]
  keeps_ret [plan_kept] keeps_raise [plan_kept] keeps_now [plan_kept] keeps_lift [plan_kept] keeps_drop [plan_kept]
  keeps_own [plan_kept]

declare keeps_invalid_409 [plan_kept]

lemma plan_insert_needs [plan_kept]: "keeps plan_state (insert_needs k cs)"
  by (simp add: keeps_def insert_needs_def)

lemma keeps_validated [plan_kept]: "(ok \<Longrightarrow> keeps I m) \<Longrightarrow> keeps I (validated ok m)"
  by (simp add: validated_def)

lemma plan_collab_request [plan_kept]: "keeps plan_state (collab_request_comp fi q)"
proof (cases q)
  case (Pass us)
  then show ?thesis by (simp add: keeps_def plan_state_def)
qed (auto simp: patch_collab_endpoint_def patch_collab_def save_collab_def transition_status_endpoint_def transition_status_def
    submit_feedback_endpoint_def upsert_feedback_def request_export_endpoint_def handle_match_created_def create_collaboration_def
    add_collaboration_def handle_chat_message_sent_def update_last_activity_def handle_block_created_def apply_block_def
    handle_chat_media_scanned_def Let_def handle_display_name_changed_def refresh_name_def upsert_name_cache_def
    inactivity_check_def scan_dispatch_def send_nudge_def archive_collab_def archived_event_def archive_finalize_def
    intro!: plan_kept split: option.split json.split sum.split list.split)

text \<open>Rewriting tasks in place, each by a change that keeps its identifier and its form.\<close>

lemma plan_ok_map:
  assumes "plan_ok db n" and "\<And>t. t \<in> set (tasks db) \<Longrightarrow> task_ok n t \<Longrightarrow> task_ok n (f t) \<and> tk_id (f t) = tk_id t"
  shows "plan_ok (db\<lparr>tasks := map f (tasks db)\<rparr>) n"
proof -
  have "map tk_id (map f (tasks db)) = map tk_id (tasks db)" using assms by (auto simp: plan_ok_def)
  then show ?thesis using assms unfolding plan_ok_def by (auto simp del: map_map) (metis image_eqI image_set)
qed

lemma plan_map_tasks:
  assumes "\<And>n t. task_ok n t \<Longrightarrow> task_ok n (f t) \<and> tk_id (f t) = tk_id t"
  shows "keeps plan_state (modify_table tasks_update tasks (map f))"
  using plan_ok_map [of _ _ f] assms by (auto simp: keeps_def modify_run plan_state_def)

lemma plan_save_task:
  assumes "\<And>n t. task_ok n t \<Longrightarrow> task_ok n (f t) \<and> tk_id (f t) = tk_id t"
  shows "keeps plan_state (save_task i f)"
  unfolding save_task_def update_where_def using assms by (intro plan_map_tasks) auto

lemma patch_fields_ok:
  assumes "task_patch_ok p" and "task_ok n t"
  shows "task_ok n (touch now t (patch_fields p now t)) \<and> tk_id (touch now t (patch_fields p now t)) = tk_id t"
proof -
  have "task_ok n (patch_fields p now t)" "tk_id (patch_fields p now t) = tk_id t"
    using assms
    by (auto simp: task_ok_def task_patch_ok_def patch_fields_def Let_def patched_def patched_null_def maybe_def new_status_of_def
        split: option.splits if_splits)
  with assms(2) show ?thesis by (auto simp: touch_def task_ok_def)
qed

lemma plan_update_task [plan_kept]: "task_patch_ok p \<Longrightarrow> keeps plan_state (update_task t p)"
  unfolding update_task_def by (intro plan_kept plan_save_task patch_fields_ok)

lemma plan_soft_delete [plan_kept]: "keeps plan_state (soft_delete_task t)"
  unfolding soft_delete_task_def by (intro plan_kept plan_save_task) (simp add: task_ok_def)

lemma rekey_ok:
  assumes "\<forall>k \<in> snd ` set keys. text_between 1 255 k" and "task_ok n t"
  shows "task_ok n (rekey now keys t) \<and> tk_id (rekey now keys t) = tk_id t"
proof (cases "map_of keys (tk_id t)")
  case None
  with assms(2) show ?thesis by (simp add: rekey_def)
next
  case (Some k)
  then have "text_between 1 255 k" using assms(1) map_of_SomeD by force
  with Some assms(2) show ?thesis by (simp add: rekey_def touch_def task_ok_def)
qed

lemma plan_rebalance [plan_kept]: "keeps plan_state (rebalance_order_keys k)"
  unfolding rebalance_order_keys_def Let_def
  by (intro plan_kept plan_map_tasks rekey_ok) (auto simp: generate_balanced_keys_def text_between_def dest!: set_zip_rightD)

lemma plan_create_task:
  assumes "task_create_ok req"
  shows "keeps plan_state (create_task k p req)"
proof
  fix s assume s: "plan_state s"
  then have "plan_ok (work s) (Suc (next_uuid s))" "plan_ok (committed s) (Suc (next_uuid s))"
    "next_uuid s \<notin> tk_id ` set (tasks (work s))"
    using plan_ok_Suc by (auto simp: plan_state_def plan_ok_def task_ok_def)
  with assms show "plan_state (snd (create_task k p req s))"
    by (auto simp: create_task_def comp_simps Let_def plan_state_def plan_ok_def)
      (auto simp: task_ok_def new_task_def task_create_ok_def)
qed

lemma plan_create_comment:
  assumes "comment_ok body"
  shows "keeps plan_state (create_comment_endpoint header i body)"
  unfolding create_comment_endpoint_def
proof (intro plan_profile)
  fix p
  show "keeps plan_state (bind_c (participant_task i p) (\<lambda>t. create_comment (tk_id t) p body))"
  proof
    fix s assume s: "plan_state s"
    show "plan_state (snd (bind_c (participant_task i p) (\<lambda>t. create_comment (tk_id t) p body) s))"
    proof (cases "filter (\<lambda>t. tk_id t = i \<and> tk_deleted_at t = None) (tasks (work s))")
      case Nil
      with s show ?thesis by (simp add: participant_task_def comp_simps)
    next
      case (Cons t ts)
      then have "t \<in> set (filter (\<lambda>t. tk_id t = i \<and> tk_deleted_at t = None) (tasks (work s)))" by simp
      then have "tk_id t \<in> tk_id ` set (tasks (work s))" by auto
      moreover have "plan_ok (work s) (Suc (next_uuid s))" "plan_ok (committed s) (Suc (next_uuid s))"
        using s plan_ok_Suc by (auto simp: plan_state_def)
      ultimately show ?thesis using Cons s assms
        by (auto simp: participant_task_def comp_simps get_collab_def create_comment_def Let_def plan_state_def plan_ok_def
            split: option.split)
    qed
  qed
qed

lemma plan_request_keeps: "keeps plan_state (plan_request_comp fi q)"
  by (cases q) (auto simp: create_task_endpoint_def rebalance_tasks_endpoint_def patch_task_endpoint_def delete_task_endpoint_def
    Let_def intro!: plan_kept plan_create_task plan_create_comment split: option.split prod.split)

text \<open>C19. Whatever requests, events and tasks the service handles, every stored task is closed exactly when its status is done, has a title, description and order key of the lengths the schemas promise, and an identifier of its own; every comment has 1 to 500 characters and belongs to a stored task.\<close>

theorem plans_well_formed:
  "plan_ok (committed (serve_plan fi reqs (collab_start sch t n))) (next_uuid (serve_plan fi reqs (collab_start sch t n)))"
proof -
  have "plan_state (fold (\<lambda>q s. snd (plan_request_comp fi q s)) reqs s)" if "plan_state s" for s
    using that by (induction reqs arbitrary: s) (auto intro: keepsD [OF plan_request_keeps])
  moreover have "plan_state (collab_start sch t n)"
    by (simp add: plan_state_def plan_ok_def collab_start_def empty_collab_db_def)
  ultimately show ?thesis by (simp add: serve_plan_def plan_state_def)
qed

end
