(* ===== verification/Collab_Whiteboard.thy ===== *)
theory Collab_Whiteboard
  imports Collab_World
begin

text \<open>
  The whiteboard of a collaboration: the relay of app/services/whiteboard_ws.py, its op log and
  snapshots in app/services/whiteboard_service.py, the endpoints of app/routers/whiteboard.py and
  the export task of app/workers/whiteboard_tasks.py. One process serves the boards; a connection
  is a number, a frame a list of bytes. The relay is a step relation whose steps are what
  asyncio may interleave: a client connects, gets its first state, sends a frame or leaves, the
  idle timer fires, the process restarts.
\<close>

section \<open>Tables, rooms, frames\<close>

type_synonym frame = "nat list"
type_synonym conn = nat

record wb_op =
  op_collab :: uuid
  op_lamport :: nat
  op_actor :: uuid
  op_data :: frame

record wb_snapshot =
  sn_collab :: uuid
  sn_key :: string
  sn_version :: nat
  sn_created_at :: datetime

text \<open>An object of class WhiteboardRoom; the timer is the moment \<open>_idle_snapshot\<close> ends its sleep.\<close>

record room =
  rm_conns :: "conn list"
  rm_lamport :: nat
  rm_timer :: "datetime option"

record relay =
  rl_ops :: "wb_op list"
  rl_snaps :: "wb_snapshot list"
  rl_blobs :: "string \<rightharpoonup> frame"
  rl_rooms :: "uuid \<rightharpoonup> room"
  rl_frames :: "conn \<Rightarrow> frame list"
  rl_events :: "message list"
  rl_clock :: datetime

definition empty_relay :: "datetime \<Rightarrow> relay" where
  "empty_relay t = \<lparr>rl_ops = [], rl_snaps = [], rl_blobs = Map.empty, rl_rooms = Map.empty,
     rl_frames = (\<lambda>_. []), rl_events = [], rl_clock = t\<rparr>"

section \<open>Op log and snapshots\<close>

definition snapshot_key :: "uuid \<Rightarrow> datetime \<Rightarrow> string" where
  "snapshot_key k now = ''whiteboard/'' @ str_uuid k @ ''/snap-'' @ str_int (now div 1000000) @ ''.bin''"

definition save_snapshot :: "uuid \<Rightarrow> frame \<Rightarrow> nat \<Rightarrow> relay \<Rightarrow> relay" where
  "save_snapshot k doc lamport w =
     (let key = snapshot_key k (rl_clock w) in
      w\<lparr>rl_blobs := (rl_blobs w)(key \<mapsto> doc),
        rl_snaps := rl_snaps w @ [\<lparr>sn_collab = k, sn_key = key, sn_version = lamport, sn_created_at = rl_clock w\<rparr>]\<rparr>)"

text \<open>\<open>ORDER BY version DESC LIMIT 1\<close>; of equal versions the first stored.\<close>

definition get_latest_snapshot :: "uuid \<Rightarrow> relay \<Rightarrow> wb_snapshot option" where
  "get_latest_snapshot k w =
     first_of (sort_key (\<lambda>s. - int (sn_version s)) (filter (\<lambda>s. sn_collab s = k) (rl_snaps w)))"

definition get_delta_ops :: "uuid \<Rightarrow> nat \<Rightarrow> relay \<Rightarrow> wb_op list" where
  "get_delta_ops k since w = sort_key op_lamport (filter (\<lambda>p. op_collab p = k \<and> since < op_lamport p) (rl_ops w))"

definition append_op :: "uuid \<Rightarrow> uuid \<Rightarrow> frame \<Rightarrow> nat \<Rightarrow> relay \<Rightarrow> relay" where
  "append_op k actor data lamport w =
     w\<lparr>rl_ops := rl_ops w @ [\<lparr>op_collab = k, op_lamport = lamport, op_actor = actor, op_data = data\<rparr>]\<rparr>"

section \<open>Rooms\<close>

definition new_room :: room where
  "new_room = \<lparr>rm_conns = [], rm_lamport = 0, rm_timer = None\<rparr>"

definition get_or_create_room :: "uuid \<Rightarrow> relay \<Rightarrow> room" where
  "get_or_create_room k w = (case rl_rooms w k of None \<Rightarrow> new_room | Some r \<Rightarrow> r)"

definition idle_snapshot_seconds :: int where
  "idle_snapshot_seconds = 10"

definition reset_idle_timer :: "int \<Rightarrow> datetime \<Rightarrow> room \<Rightarrow> room" where
  "reset_idle_timer seconds now r = r\<lparr>rm_timer := Some (now + from_seconds seconds)\<rparr>"

definition room_connect :: "conn \<Rightarrow> datetime \<Rightarrow> room \<Rightarrow> room" where
  "room_connect c now r = reset_idle_timer idle_snapshot_seconds now (r\<lparr>rm_conns := rm_conns r @ [c]\<rparr>)"

definition room_disconnect :: "conn \<Rightarrow> datetime \<Rightarrow> room \<Rightarrow> room" where
  "room_disconnect c now r =
     (let r1 = r\<lparr>rm_conns := remove1 c (rm_conns r)\<rparr>
      in if rm_conns r1 = [] then reset_idle_timer 5 now r1 else r1)"

definition next_lamport :: "room \<Rightarrow> nat \<times> room" where
  "next_lamport r = (rm_lamport r + 1, r\<lparr>rm_lamport := rm_lamport r + 1\<rparr>)"

definition set_lamport :: "nat \<Rightarrow> room \<Rightarrow> room" where
  "set_lamport v r = (if rm_lamport r < v then r\<lparr>rm_lamport := v\<rparr> else r)"

definition put_room :: "uuid \<Rightarrow> room \<Rightarrow> relay \<Rightarrow> relay" where
  "put_room k r w = w\<lparr>rl_rooms := (rl_rooms w)(k \<mapsto> r)\<rparr>"

definition send_bytes :: "conn \<Rightarrow> frame list \<Rightarrow> relay \<Rightarrow> relay" where
  "send_bytes c fs w = w\<lparr>rl_frames := (rl_frames w)(c := rl_frames w c @ fs)\<rparr>"

text \<open>\<open>dead\<close> are the connections whose \<open>send_bytes\<close> raises.\<close>

definition broadcast :: "conn set \<Rightarrow> uuid \<Rightarrow> frame \<Rightarrow> conn \<Rightarrow> relay \<Rightarrow> relay" where
  "broadcast dead k data sender w =
     (let r = get_or_create_room k w;
          others = filter (\<lambda>c. c \<noteq> sender) (rm_conns r);
          w1 = fold (\<lambda>c. send_bytes c [data]) (filter (\<lambda>c. c \<notin> dead) others) w
      in put_room k (fold (\<lambda>c. room_disconnect c (rl_clock w)) (filter (\<lambda>c. c \<in> dead) others) r) w1)"

section \<open>The handler\<close>

definition ws_connect :: "uuid \<Rightarrow> conn \<Rightarrow> relay \<Rightarrow> relay" where
  "ws_connect k c w = put_room k (room_connect c (rl_clock w) (get_or_create_room k w)) w"

text \<open>The frames \<open>_send_initial_state\<close> sends: none without a snapshot or when S3 lacks the blob.\<close>

definition initial_frames :: "uuid \<Rightarrow> relay \<Rightarrow> frame list" where
  "initial_frames k w = (case get_latest_snapshot k w of
     None \<Rightarrow> []
   | Some s \<Rightarrow> (case rl_blobs w (sn_key s) of
       None \<Rightarrow> []
     | Some doc \<Rightarrow> doc # map op_data (get_delta_ops k (sn_version s) w)))"

definition send_initial_state :: "uuid \<Rightarrow> conn \<Rightarrow> relay \<Rightarrow> relay" where
  "send_initial_state k c w = send_bytes c (initial_frames k w) w"

text \<open>One frame of the receive loop; \<open>stored\<close> says whether the insert of the op succeeds.\<close>

definition ws_receive :: "bool \<Rightarrow> conn set \<Rightarrow> uuid \<Rightarrow> uuid \<Rightarrow> conn \<Rightarrow> frame \<Rightarrow> relay \<Rightarrow> relay" where
  "ws_receive stored dead k actor c data w =
     (let (lamport, r) = next_lamport (get_or_create_room k w);
          w1 = put_room k (reset_idle_timer idle_snapshot_seconds (rl_clock w) r) w;
          w2 = (if stored then append_op k actor data lamport w1 else w1)
      in broadcast dead k data c w2)"

definition ws_disconnect :: "uuid \<Rightarrow> conn \<Rightarrow> relay \<Rightarrow> relay" where
  "ws_disconnect k c w = put_room k (room_disconnect c (rl_clock w) (get_or_create_room k w)) w"

text \<open>\<open>_take_snapshot\<close>: the document it stores is the placeholder byte; a failure is only logged.\<close>

definition snapshot_doc :: frame where
  "snapshot_doc = [0]"

definition take_snapshot :: "bool \<Rightarrow> uuid \<Rightarrow> room \<Rightarrow> relay \<Rightarrow> relay" where
  "take_snapshot stored k r w =
     (if \<not> stored then w
      else let w1 = save_snapshot k snapshot_doc (rm_lamport r) w in
        w1\<lparr>rl_events := rl_events w1 @ [Message ''whiteboard.snapshot_saved''
            [(''collab_id'', JStr (str_uuid k)), (''version'', JInt (int (rm_lamport r))),
             (''s3_key'', JStr (snapshot_key k (rl_clock w)))]]\<rparr>)"

definition idle_snapshot :: "bool \<Rightarrow> uuid \<Rightarrow> relay \<Rightarrow> relay" where
  "idle_snapshot stored k w = (case rl_rooms w k of
     None \<Rightarrow> w
   | Some r \<Rightarrow> (case rm_timer r of
       None \<Rightarrow> w
     | Some due \<Rightarrow> if due \<le> rl_clock w then take_snapshot stored k r (put_room k (r\<lparr>rm_timer := None\<rparr>) w) else w))"

text \<open>A restart keeps the tables and the blobs, and forgets the rooms.\<close>

definition restart :: "relay \<Rightarrow> relay" where
  "restart w = w\<lparr>rl_rooms := Map.empty\<rparr>"

definition wait :: "nat \<Rightarrow> relay \<Rightarrow> relay" where
  "wait us w = w\<lparr>rl_clock := rl_clock w + int us\<rparr>"

text \<open>The steps of one process life, and of the relay for ever.\<close>

inductive relay_step :: "relay \<Rightarrow> relay \<Rightarrow> bool" where
  connect: "relay_step w (ws_connect k c w)"
| hydrate: "relay_step w (send_initial_state k c w)"
| receive: "relay_step w (ws_receive stored dead k actor c data w)"
| leave: "relay_step w (ws_disconnect k c w)"
| idle: "relay_step w (idle_snapshot stored k w)"
| pass: "relay_step w (wait us w)"

inductive one_life :: "relay \<Rightarrow> bool" where
  start: "one_life (empty_relay t)"
| step: "one_life w \<Longrightarrow> relay_step w w' \<Longrightarrow> one_life w'"

section \<open>Admission\<close>

definition opt_uuid :: "string option \<Rightarrow> uuid option" where
  "opt_uuid t = (case t of None \<Rightarrow> None | Some s \<Rightarrow> parse_uuid s)"

text \<open>The close code, or the profile whose frames are then relayed.\<close>

definition whiteboard_ws_admit :: "string option \<Rightarrow> string option \<Rightarrow> uuid \<Rightarrow> collab_sess \<Rightarrow> nat + uuid" where
  "whiteboard_ws_admit token header collab_id s =
     (let actor = (case opt_uuid token of Some p \<Rightarrow> Some p
                   | None \<Rightarrow> (case header of None \<Rightarrow> None | Some h \<Rightarrow> if h = [] then None else parse_uuid h))
      in case actor of
           None \<Rightarrow> Inl 4003
         | Some p \<Rightarrow> (case fst (in_session (get_collab collab_id p) s) of
             Inr (Some c) \<Rightarrow> if cb_read_only c then Inl 4009 else Inr p
           | _ \<Rightarrow> Inl 4004))"

section \<open>The log and the counter\<close>

definition lamport_of :: "uuid \<Rightarrow> relay \<Rightarrow> nat" where
  "lamport_of k w = rm_lamport (get_or_create_room k w)"

definition board_ops :: "uuid \<Rightarrow> relay \<Rightarrow> wb_op list" where
  "board_ops k w = filter (\<lambda>p. op_collab p = k) (rl_ops w)"

definition relay_ok :: "relay \<Rightarrow> bool" where
  "relay_ok w \<longleftrightarrow> (\<forall>k. sorted_wrt (<) (map op_lamport (board_ops k w)) \<and> (\<forall>p \<in> set (board_ops k w). op_lamport p \<le> lamport_of k w))
     \<and> (\<forall>s \<in> set (rl_snaps w). sn_version s \<le> lamport_of (sn_collab s) w \<and> rl_blobs w (sn_key s) = Some snapshot_doc)"

lemma room_lamport [simp]:
  "rm_lamport (reset_idle_timer n t r) = rm_lamport r" "rm_lamport (room_connect c t r) = rm_lamport r"
  "rm_lamport (room_disconnect c t r) = rm_lamport r"
  by (simp_all add: reset_idle_timer_def room_connect_def room_disconnect_def Let_def)

lemma fold_disconnect_lamport [simp]: "rm_lamport (fold (\<lambda>c. room_disconnect c t) cs r) = rm_lamport r"
  by (induction cs arbitrary: r) simp_all

lemma put_room_simps [simp]:
  "rl_ops (put_room k r w) = rl_ops w" "rl_snaps (put_room k r w) = rl_snaps w" "rl_blobs (put_room k r w) = rl_blobs w"
  "rl_clock (put_room k r w) = rl_clock w" "rl_rooms (put_room k r w) = (rl_rooms w)(k \<mapsto> r)"
  "get_or_create_room k' (put_room k r w) = (if k' = k then r else get_or_create_room k' w)"
  by (simp_all add: put_room_def get_or_create_room_def)

lemma send_bytes_simps [simp]:
  "rl_ops (send_bytes c fs w) = rl_ops w" "rl_snaps (send_bytes c fs w) = rl_snaps w" "rl_blobs (send_bytes c fs w) = rl_blobs w"
  "rl_clock (send_bytes c fs w) = rl_clock w" "rl_rooms (send_bytes c fs w) = rl_rooms w"
  by (simp_all add: send_bytes_def)

lemma fold_send_simps [simp]:
  "rl_ops (fold (\<lambda>c. send_bytes c fs) cs w) = rl_ops w" "rl_snaps (fold (\<lambda>c. send_bytes c fs) cs w) = rl_snaps w"
  "rl_blobs (fold (\<lambda>c. send_bytes c fs) cs w) = rl_blobs w" "rl_clock (fold (\<lambda>c. send_bytes c fs) cs w) = rl_clock w"
  "rl_rooms (fold (\<lambda>c. send_bytes c fs) cs w) = rl_rooms w"
  by (induction cs arbitrary: w) simp_all

lemma rooms_lamport: "rl_rooms w = rl_rooms v \<Longrightarrow> lamport_of k w = lamport_of k v"
  by (simp add: lamport_of_def get_or_create_room_def)

lemma broadcast_simps [simp]:
  "rl_ops (broadcast dead k data c w) = rl_ops w" "rl_snaps (broadcast dead k data c w) = rl_snaps w"
  "rl_blobs (broadcast dead k data c w) = rl_blobs w" "rl_clock (broadcast dead k data c w) = rl_clock w"
  "lamport_of k' (broadcast dead k data c w) = lamport_of k' w"
  by (simp_all add: broadcast_def Let_def lamport_of_def) (simp add: get_or_create_room_def)

lemma append_op_simps [simp]:
  "rl_ops (append_op k actor data l w) = rl_ops w @ [\<lparr>op_collab = k, op_lamport = l, op_actor = actor, op_data = data\<rparr>]"
  "rl_snaps (append_op k actor data l w) = rl_snaps w" "rl_blobs (append_op k actor data l w) = rl_blobs w"
  "rl_clock (append_op k actor data l w) = rl_clock w" "rl_rooms (append_op k actor data l w) = rl_rooms w"
  by (simp_all add: append_op_def)

text \<open>What a received frame does to the log: its op gets the next count of its board.\<close>

lemma receive_simps:
  "rl_ops (ws_receive stored dead k actor c data w) = rl_ops w @
     (if stored then [\<lparr>op_collab = k, op_lamport = lamport_of k w + 1, op_actor = actor, op_data = data\<rparr>] else [])"
  "rl_snaps (ws_receive stored dead k actor c data w) = rl_snaps w"
  "rl_blobs (ws_receive stored dead k actor c data w) = rl_blobs w"
  "rl_clock (ws_receive stored dead k actor c data w) = rl_clock w"
  "lamport_of k' (ws_receive stored dead k actor c data w) = (if k' = k then lamport_of k w + 1 else lamport_of k' w)"
proof -
  show "lamport_of k' (ws_receive stored dead k actor c data w) = (if k' = k then lamport_of k w + 1 else lamport_of k' w)"
    by (simp add: ws_receive_def Let_def next_lamport_def) (simp add: lamport_of_def get_or_create_room_def put_room_def)
qed (simp_all add: ws_receive_def Let_def next_lamport_def lamport_of_def)

lemma snapshot_simps:
  "rl_ops (idle_snapshot stored k w) = rl_ops w" "lamport_of k' (idle_snapshot stored k w) = lamport_of k' w"
  by (auto simp: idle_snapshot_def take_snapshot_def save_snapshot_def Let_def lamport_of_def get_or_create_room_def put_room_def
      split: option.split)

lemma relay_ok_same:
  assumes "relay_ok w" and "rl_ops w' = rl_ops w" and "rl_snaps w' = rl_snaps w" and "rl_blobs w' = rl_blobs w"
    and "\<And>k. lamport_of k w' = lamport_of k w"
  shows "relay_ok w'"
  using assms by (simp add: relay_ok_def board_ops_def)

lemma relay_ok_receive:
  assumes "relay_ok w"
  shows "relay_ok (ws_receive stored dead k actor c data w)"
proof -
  let ?w = "ws_receive stored dead k actor c data w"
  let ?p = "\<lparr>op_collab = k, op_lamport = lamport_of k w + 1, op_actor = actor, op_data = data\<rparr>"
  have ops: "board_ops k' ?w = board_ops k' w @ (if stored \<and> k' = k then [?p] else [])" for k'
    by (simp add: board_ops_def receive_simps)
  have "sorted_wrt (<) (map op_lamport (board_ops k' ?w)) \<and> (\<forall>p \<in> set (board_ops k' ?w). op_lamport p \<le> lamport_of k' ?w)" for k'
    using assms by (auto simp: relay_ok_def ops receive_simps sorted_wrt_append intro: le_SucI le_imp_less_Suc)
  with assms show ?thesis by (auto simp: relay_ok_def receive_simps intro: le_SucI)
qed

lemma relay_ok_idle:
  assumes "relay_ok w"
  shows "relay_ok (idle_snapshot stored k w)"
proof (cases "rl_snaps (idle_snapshot stored k w) = rl_snaps w")
  case True
  with assms show ?thesis
    by (auto simp: relay_ok_def snapshot_simps board_ops_def)
      (auto simp: idle_snapshot_def take_snapshot_def save_snapshot_def Let_def split: option.splits if_splits)
next
  case False
  then obtain r where "rl_rooms w k = Some r" "rl_snaps (idle_snapshot stored k w) = rl_snaps w @
      [\<lparr>sn_collab = k, sn_key = snapshot_key k (rl_clock w), sn_version = rm_lamport r, sn_created_at = rl_clock w\<rparr>]"
    "rl_blobs (idle_snapshot stored k w) = (rl_blobs w)(snapshot_key k (rl_clock w) \<mapsto> snapshot_doc)"
    by (auto simp: idle_snapshot_def take_snapshot_def save_snapshot_def Let_def split: option.splits if_splits)
  with assms show ?thesis
    by (auto simp: relay_ok_def snapshot_simps board_ops_def) (simp add: lamport_of_def get_or_create_room_def)
qed

lemma relay_ok_step: "relay_step w w' \<Longrightarrow> relay_ok w \<Longrightarrow> relay_ok w'"
proof (induction rule: relay_step.induct)
  case (receive w stored dead k actor c data)
  then show ?case by (simp add: relay_ok_receive)
next
  case (idle w stored k)
  then show ?case by (simp add: relay_ok_idle)
next
  case (connect w k c)
  then show ?case
    by (rule relay_ok_same) (simp_all add: ws_connect_def lamport_of_def)
next
  case (hydrate w k c)
  then show ?case
    by (rule relay_ok_same) (simp_all add: send_initial_state_def lamport_of_def get_or_create_room_def)
next
  case (leave w k c)
  then show ?case
    by (rule relay_ok_same) (simp_all add: ws_disconnect_def lamport_of_def)
next
  case (pass w us)
  then show ?case
    by (rule relay_ok_same) (simp_all add: wait_def lamport_of_def get_or_create_room_def)
qed

lemma relay_ok_reached: "one_life w \<Longrightarrow> relay_ok w"
proof (induction rule: one_life.induct)
  case (start t)
  then show ?case by (simp add: relay_ok_def empty_relay_def board_ops_def)
next
  case (step w w')
  then show ?case by (blast intro: relay_ok_step)
qed

section \<open>What a joining client gets\<close>

lemma latest_snapshot:
  assumes "get_latest_snapshot k w = Some s"
  shows "s \<in> set (rl_snaps w)" and "sn_collab s = k"
    and "\<And>s'. s' \<in> set (rl_snaps w) \<Longrightarrow> sn_collab s' = k \<Longrightarrow> sn_version s' \<le> sn_version s"
proof -
  let ?xs = "sort_key (\<lambda>s. - int (sn_version s)) (filter (\<lambda>s. sn_collab s = k) (rl_snaps w))"
  obtain ys where ys: "?xs = s # ys" using assms by (auto simp: get_latest_snapshot_def first_of_def split: list.splits)
  then have "s \<in> set ?xs" by simp
  then show "s \<in> set (rl_snaps w)" "sn_collab s = k" by simp_all
  fix s' assume "s' \<in> set (rl_snaps w)" "sn_collab s' = k"
  then have "s' \<in> set ?xs" by simp
  moreover have "sorted (map (\<lambda>s. - int (sn_version s)) ?xs)" by simp
  ultimately show "sn_version s' \<le> sn_version s" unfolding ys by auto
qed

text \<open>In one process life the ops of each board are logged under strictly increasing numbers that never pass the counter of its room, and no snapshot claims more than that counter.\<close>

theorem op_log_numbered:
  assumes "one_life w"
  shows "sorted_wrt (<) (map op_lamport (board_ops k w)) \<and> (\<forall>p \<in> set (board_ops k w). op_lamport p \<le> lamport_of k w)
    \<and> (\<forall>s. get_latest_snapshot k w = Some s \<longrightarrow> sn_version s \<le> lamport_of k w)"
  using relay_ok_reached [OF assms] latest_snapshot(1,2) [of k w] by (fastforce simp: relay_ok_def)

lemma some_snapshot: "s \<in> set (rl_snaps w) \<Longrightarrow> sn_collab s = k \<Longrightarrow> \<exists>s'. get_latest_snapshot k w = Some s'"
proof -
  assume "s \<in> set (rl_snaps w)" "sn_collab s = k"
  then have "s \<in> set (sort_key (\<lambda>s. - int (sn_version s)) (filter (\<lambda>s. sn_collab s = k) (rl_snaps w)))" by simp
  moreover obtain s' ys where "sort_key (\<lambda>s. - int (sn_version s)) (filter (\<lambda>s. sn_collab s = k) (rl_snaps w)) = s' # ys"
    using calculation by (metis list.exhaust list.set_cases)
  ultimately show ?thesis by (simp add: get_latest_snapshot_def first_of_def)
qed

text \<open>Frames as they come in: whether the insert works, dead peers, board, actor, connection, bytes.\<close>

type_synonym incoming = "bool \<times> conn set \<times> uuid \<times> uuid \<times> conn \<times> frame"

fun receive_one :: "incoming \<Rightarrow> relay \<Rightarrow> relay" where
  "receive_one (stored, dead, k, actor, c, data) w = ws_receive stored dead k actor c data w"

definition receive_all :: "incoming list \<Rightarrow> relay \<Rightarrow> relay" where
  "receive_all ms w = fold receive_one ms w"

fun stored_frames :: "uuid \<Rightarrow> incoming list \<Rightarrow> frame list" where
  "stored_frames k [] = []"
| "stored_frames k ((stored, dead, k', actor, c, data) # ms) =
     (if stored \<and> k' = k then data # stored_frames k ms else stored_frames k ms)"

definition on_board :: "uuid \<Rightarrow> incoming list \<Rightarrow> nat" where
  "on_board k ms = length (filter (\<lambda>(stored, dead, k', rest). k' = k) ms)"

text \<open>The ops a list of frames adds to a board: their bytes, under numbers after the counter.\<close>

lemma receive_all_ops:
  "\<exists>new. board_ops k (receive_all ms w) = board_ops k w @ new \<and> map op_data new = stored_frames k ms
     \<and> sorted_wrt (<) (map op_lamport new)
     \<and> (\<forall>p \<in> set new. lamport_of k w < op_lamport p \<and> op_lamport p \<le> lamport_of k w + on_board k ms)
     \<and> rl_snaps (receive_all ms w) = rl_snaps w \<and> rl_blobs (receive_all ms w) = rl_blobs w"
proof (induction ms arbitrary: w)
  case Nil
  then show ?case by (simp add: receive_all_def)
next
  case (Cons m ms)
  obtain stored dead k' actor c data where m: "m = (stored, dead, k', actor, c, data)" by (cases m)
  let ?w = "ws_receive stored dead k' actor c data w"
  from Cons.IH [of ?w] obtain new where new: "board_ops k (receive_all ms ?w) = board_ops k ?w @ new"
    "map op_data new = stored_frames k ms" "sorted_wrt (<) (map op_lamport new)"
    "\<forall>p \<in> set new. lamport_of k ?w < op_lamport p \<and> op_lamport p \<le> lamport_of k ?w + on_board k ms"
    "rl_snaps (receive_all ms ?w) = rl_snaps ?w" "rl_blobs (receive_all ms ?w) = rl_blobs ?w" by blast
  let ?p = "\<lparr>op_collab = k, op_lamport = lamport_of k w + 1, op_actor = actor, op_data = data\<rparr>"
  have ops: "board_ops k ?w = board_ops k w @ (if stored \<and> k' = k then [?p] else [])"
    by (simp add: board_ops_def receive_simps)
  show ?case
    by (rule exI [where x = "(if stored \<and> k' = k then [?p] else []) @ new"])
      (use new in \<open>auto simp: receive_all_def m ops receive_simps on_board_def\<close>)
qed

lemma board_delta: "get_delta_ops k v w = sort_key op_lamport (filter (\<lambda>p. v < op_lamport p) (board_ops k w))"
  by (simp add: get_delta_ops_def board_ops_def conj_commute)

lemma latest_same: "rl_snaps w' = rl_snaps w \<Longrightarrow> get_latest_snapshot k w' = get_latest_snapshot k w"
  by (simp add: get_latest_snapshot_def)

lemma append_op_room [simp]: "get_or_create_room k' (append_op k actor data l w) = get_or_create_room k' w"
  by (simp add: get_or_create_room_def)

text \<open>The latest snapshot right after the idle timer fired has the room's counter as its version.\<close>

lemma idle_snapshot_taken:
  assumes "relay_ok w" and "rl_rooms w k = Some r" and "rm_timer r = Some due" and "due \<le> rl_clock w"
  shows "\<exists>s. get_latest_snapshot k (idle_snapshot True k w) = Some s \<and> sn_version s = lamport_of k w
    \<and> rl_blobs (idle_snapshot True k w) (sn_key s) = Some snapshot_doc"
proof -
  let ?w = "idle_snapshot True k w"
  let ?new = "\<lparr>sn_collab = k, sn_key = snapshot_key k (rl_clock w), sn_version = rm_lamport r, sn_created_at = rl_clock w\<rparr>"
  have "?new \<in> set (rl_snaps ?w)"
    using assms(2-4) by (simp add: idle_snapshot_def take_snapshot_def save_snapshot_def Let_def)
  then obtain s where s: "get_latest_snapshot k ?w = Some s" "rm_lamport r \<le> sn_version s"
    using some_snapshot [of ?new ?w k] latest_snapshot(3) [of k ?w _ ?new] by auto
  have "relay_ok ?w" using assms(1) by (rule relay_ok_idle)
  then have "sn_version s \<le> lamport_of k w" "rl_blobs ?w (sn_key s) = Some snapshot_doc"
    using latest_snapshot(1,2) [OF s(1)] by (auto simp: relay_ok_def snapshot_simps)
  moreover have "lamport_of k w = rm_lamport r" using assms(2) by (simp add: lamport_of_def get_or_create_room_def)
  ultimately show ?thesis using s by simp
qed

lemma frames_since_snapshot:
  assumes ok: "relay_ok w" and "rl_rooms w k = Some r" and "rm_timer r = Some due" and "due \<le> rl_clock w"
  shows "initial_frames k (receive_all ms (idle_snapshot True k w)) = snapshot_doc # stored_frames k ms"
proof -
  let ?w = "idle_snapshot True k w"
  from idle_snapshot_taken [OF ok assms(2-4)] obtain s where s: "get_latest_snapshot k ?w = Some s"
    "sn_version s = lamport_of k w" "rl_blobs ?w (sn_key s) = Some snapshot_doc" by blast
  from receive_all_ops [of k ms ?w] obtain new where new: "board_ops k (receive_all ms ?w) = board_ops k ?w @ new"
    "map op_data new = stored_frames k ms" "sorted_wrt (<) (map op_lamport new)" "\<forall>p \<in> set new. lamport_of k ?w < op_lamport p"
    "rl_snaps (receive_all ms ?w) = rl_snaps ?w" "rl_blobs (receive_all ms ?w) = rl_blobs ?w" by blast
  have "filter (\<lambda>p. lamport_of k w < op_lamport p) (board_ops k ?w) = []"
    using ok by (auto simp: relay_ok_def board_ops_def snapshot_simps filter_empty_conv not_less)
  moreover have "filter (\<lambda>p. lamport_of k w < op_lamport p) new = new" using new(4) by (simp add: snapshot_simps)
  moreover have "sort_key op_lamport new = new" using new(3) by (intro sort_key_id_if_sorted) (simp add: strict_sorted_iff)
  ultimately have "get_delta_ops k (sn_version s) (receive_all ms ?w) = new" by (simp add: board_delta new(1) s(2))
  then show ?thesis using s(1,3) new(2) by (simp add: initial_frames_def latest_same [OF new(5)] new(6))
qed

text \<open>C20. As long as the relay process is not restarted: when the idle task has just written a board's snapshot and any
  frames on any boards come in after it, what a client who then joins the board is sent to hydrate it is
  that snapshot followed by exactly the frames stored for the board since, in the order they came in, whatever the other
  boards received, nothing missing and nothing doubled. This is about the hydration alone: a frame broadcast while it
  runs reaches the client besides. After a restart it fails, see \<open>restart_hides_frames\<close>.\<close>

theorem joiner_gets_frames_since_snapshot:
  assumes "one_life w" and "rl_rooms w k = Some r" and "rm_timer r = Some due" and "due \<le> rl_clock w"
  shows "initial_frames k (receive_all ms (idle_snapshot True k w)) = snapshot_doc # stored_frames k ms"
  using frames_since_snapshot [OF relay_ok_reached] assms by blast

text \<open>The counter of a board starts at 0 again when the process restarts, while its snapshot keeps its version: the frames received afterwards are stored, but a joining client gets none of them as long as they are no more than that version.\<close>

theorem restart_hides_frames:
  assumes "get_latest_snapshot k w = Some s" and "on_board k ms \<le> sn_version s"
  shows "map op_data (board_ops k (receive_all ms (restart w))) = map op_data (board_ops k w) @ stored_frames k ms
    \<and> initial_frames k (receive_all ms (restart w)) = initial_frames k w"
proof -
  let ?w = "restart w"
  have w: "board_ops k ?w = board_ops k w" "rl_snaps ?w = rl_snaps w" "rl_blobs ?w = rl_blobs w" "lamport_of k ?w = 0"
    by (simp_all add: restart_def board_ops_def lamport_of_def get_or_create_room_def new_room_def)
  from receive_all_ops [of k ms ?w] obtain new where new: "board_ops k (receive_all ms ?w) = board_ops k w @ new"
    "map op_data new = stored_frames k ms" "\<forall>p \<in> set new. op_lamport p \<le> on_board k ms"
    "rl_snaps (receive_all ms ?w) = rl_snaps w" "rl_blobs (receive_all ms ?w) = rl_blobs w"
    unfolding w by auto
  have "filter (\<lambda>p. sn_version s < op_lamport p) new = []"
    using new(3) assms(2) by (auto simp: filter_empty_conv not_less)
  then have "get_delta_ops k (sn_version s) (receive_all ms ?w) = get_delta_ops k (sn_version s) w"
    by (simp add: board_delta new(1))
  then show ?thesis using assms(1) new(2) by (simp add: initial_frames_def latest_same [OF new(4)] new(1,5) cong: option.case_cong)
qed

lemma timer_kept:
  "rm_timer r = Some due \<Longrightarrow> due \<le> now + from_seconds 10 \<Longrightarrow> \<exists>due'. rm_timer (fold (\<lambda>c. room_disconnect c now) cs r) = Some due' \<and> due' \<le> now + from_seconds 10"
proof (induction cs arbitrary: r due)
  case (Cons c cs)
  have "\<exists>due'. rm_timer (room_disconnect c now r) = Some due' \<and> due' \<le> now + from_seconds 10"
    using Cons.prems by (simp add: room_disconnect_def reset_idle_timer_def Let_def from_seconds_def)
  with Cons.IH show ?case by auto
qed simp

text \<open>Ten seconds after the last frame of a board its timer fires and, S3 and the database working, stores a snapshot under the number of that frame, so that a joining client gets just the snapshot.\<close>

theorem idle_board_is_saved:
  assumes "one_life w" and "10000000 \<le> us"
  shows "\<exists>s. get_latest_snapshot k (idle_snapshot True k (wait us (ws_receive stored dead k actor c data w))) = Some s
    \<and> sn_version s = lamport_of k w + 1
    \<and> initial_frames k (idle_snapshot True k (wait us (ws_receive stored dead k actor c data w))) = [snapshot_doc]"
proof -
  let ?v = "ws_receive stored dead k actor c data w"
  let ?u = "wait us ?v"
  have life: "one_life ?u" by (rule one_life.step [OF one_life.step [OF assms(1) relay_step.receive] relay_step.pass])
  have "\<exists>r due. rl_rooms ?v k = Some r \<and> rm_timer r = Some due \<and> due \<le> rl_clock w + from_seconds 10"
    unfolding ws_receive_def broadcast_def Let_def next_lamport_def
    by (auto simp: reset_idle_timer_def idle_snapshot_seconds_def split: prod.split intro!: timer_kept)
  then obtain r due where r: "rl_rooms ?u k = Some r" "rm_timer r = Some due" "due \<le> rl_clock ?u"
    using assms(2) by (auto simp: wait_def receive_simps from_seconds_def)
  have n: "lamport_of k ?u = lamport_of k w + 1"
    using rooms_lamport [of ?u ?v k] by (simp add: wait_def receive_simps)
  from idle_snapshot_taken [OF relay_ok_reached [OF life] r] obtain s where
    "get_latest_snapshot k (idle_snapshot True k ?u) = Some s" "sn_version s = lamport_of k ?u" by blast
  moreover have "initial_frames k (idle_snapshot True k ?u) = [snapshot_doc]"
    using frames_since_snapshot [OF relay_ok_reached [OF life] r, of "[]"] by (simp add: receive_all_def)
  ultimately show ?thesis using n by auto
qed

text \<open>A whiteboard connection is admitted exactly for a participant of a collaboration that is not read-only: 4003 without an identity, 4004 for strangers, 4009 for a blocked pair. An archived collaboration is not refused.\<close>

theorem whiteboard_admission:
  assumes "opt_uuid token = Some p"
  shows "whiteboard_ws_admit token header k s =
    (case filter (\<lambda>c. cb_id c = k \<and> takes_part p c) (collabs (committed s)) of
       [] \<Rightarrow> Inl 4004 | c # _ \<Rightarrow> if cb_read_only c then Inl 4009 else Inr p)"
  using assms
  by (auto simp: whiteboard_ws_admit_def Let_def in_session_def get_collab_def bind_run select_run ret_run first_of_def
      split: list.split)

section \<open>Witnesses\<close>

text \<open>Board 3: a client draws a frame and the process idles for ten seconds.\<close>

definition demo_relay :: relay where
  "demo_relay = wait 10000000 (ws_receive True {} 3 7 100 [5] (ws_connect 3 100 (empty_relay 0)))"

definition demo_incoming :: "incoming list" where
  "demo_incoming = [(True, {}, 3, 7, 100, [6]), (True, {}, 2, 8, 200, [9])]"

lemmas demo_relay_defs = demo_relay_def ws_receive_def ws_connect_def broadcast_def wait_def empty_relay_def Let_def
  next_lamport_def append_op_def put_room_def get_or_create_room_def new_room_def room_connect_def reset_idle_timer_def
  idle_snapshot_seconds_def from_seconds_def

lemma demo_life: "one_life demo_relay"
  unfolding demo_relay_def
  by (rule one_life.step [OF one_life.step [OF one_life.step [OF one_life.start relay_step.connect] relay_step.receive] relay_step.pass])

lemma demo_room: "rl_rooms demo_relay 3 = Some \<lparr>rm_conns = [100], rm_lamport = 1, rm_timer = Some 10000000\<rparr>"
  "rl_clock demo_relay = 10000000"
  by (simp_all add: demo_relay_defs)

lemma op_log_numbered_witness:
  "sorted_wrt (<) (map op_lamport (board_ops 3 demo_relay)) \<and> map op_lamport (board_ops 3 demo_relay) = [1]"
proof -
  have "map op_lamport (board_ops 3 demo_relay) = [1]" by (simp add: board_ops_def demo_relay_defs)
  then show ?thesis using op_log_numbered [OF demo_life, of 3] by simp
qed

lemma joiner_gets_frames_since_snapshot_witness:
  "initial_frames 3 (receive_all demo_incoming (idle_snapshot True 3 demo_relay)) = [snapshot_doc, [6]]"
  using joiner_gets_frames_since_snapshot [OF demo_life demo_room(1), of 10000000 demo_incoming]
  by (simp add: demo_room demo_incoming_def)

lemma demo_latest: "get_latest_snapshot 3 (idle_snapshot True 3 demo_relay)
    = Some \<lparr>sn_collab = 3, sn_key = snapshot_key 3 10000000, sn_version = 1, sn_created_at = 10000000\<rparr>"
proof -
  have "rl_snaps demo_relay = []" by (simp add: demo_relay_defs)
  then show ?thesis
    by (simp add: idle_snapshot_def demo_room take_snapshot_def save_snapshot_def Let_def get_latest_snapshot_def first_of_def)
qed

lemma restart_hides_frames_witness:
  "initial_frames 3 (receive_all demo_incoming (restart (idle_snapshot True 3 demo_relay)))
     = initial_frames 3 (idle_snapshot True 3 demo_relay) \<and> stored_frames 3 demo_incoming = [[6]]"
  using restart_hides_frames [OF demo_latest, of demo_incoming] by (simp add: on_board_def demo_incoming_def)

lemma idle_board_is_saved_witness:
  "\<exists>s. get_latest_snapshot 3 (idle_snapshot True 3 (wait 10000000 (ws_receive True {} 3 7 100 [5] demo_relay))) = Some s
     \<and> sn_version s = lamport_of 3 demo_relay + 1"
  using idle_board_is_saved [OF demo_life, of 10000000 3 True "{}" 7 100 "[5]"] by auto

lemma whiteboard_admission_witness:
  "opt_uuid (Some (str_uuid 7)) = Some 7 \<and> whiteboard_ws_admit (Some (str_uuid 7)) None 1
     ((collab_start migrated_collab_schema 0 9)\<lparr>committed := (empty_collab_db migrated_collab_schema)\<lparr>collabs := [(new_collaboration 1 7 8 0)\<lparr>cb_archived_at := Some 0\<rparr>]\<rparr>\<rparr>) = Inr 7"
proof -
  have u: "opt_uuid (Some (str_uuid 7)) = Some 7" by (simp add: opt_uuid_def parse_str_uuid)
  show ?thesis using whiteboard_admission [OF u, of None 1] u
    by (simp add: empty_collab_db_def new_collaboration_def takes_part_def)
qed

end
