(* ===== verification/Collab_Export.thy ===== *)
theory Collab_Export
  imports Collab_World
begin

text \<open>
  Exports of a whiteboard: the request and poll endpoints of app/routers/whiteboard.py, the rows of
  app/services/whiteboard_service.py and the Celery task of app/workers/whiteboard_tasks.py with
  its retries. The renderer is outside the repository; whether it fails, and with which text, is
  an argument (None: it succeeds). \<open>cdn\<close> is the configured CloudFront domain.
\<close>

section \<open>Rows\<close>

definition signed_url_ttl :: int where
  "signed_url_ttl = 5 * 60 * 1000000"

definition new_wb_export :: "uuid \<Rightarrow> uuid \<Rightarrow> uuid \<Rightarrow> bool \<Rightarrow> bool \<Rightarrow> datetime \<Rightarrow> wb_export" where
  "new_wb_export i collab_id requested_by pdf hi now = \<lparr>we_id = i, we_collab = collab_id, we_requested_by = requested_by,
     we_pdf = pdf, we_hi = hi, we_status = Exp_Pending, we_s3_key = None, we_error = None, we_requested_at = now,
     we_completed_at = None, we_expires_at = Some (now + signed_url_ttl)\<rparr>"

definition create_export_record :: "uuid \<Rightarrow> uuid \<Rightarrow> bool \<Rightarrow> bool \<Rightarrow> wb_export collabing" where
  "create_export_record collab_id requested_by pdf hi = bind_c uuid4 (\<lambda>i. bind_c now_c (\<lambda>now.
     let e = new_wb_export i collab_id requested_by pdf hi now in
     seq_c (modify_table wb_exports_update wb_exports (\<lambda>es. es @ [e])) (seq_c commit_c (ret e))))"

definition get_export :: "uuid \<Rightarrow> uuid option \<Rightarrow> wb_export option collabing" where
  "get_export i requested_by = bind_c (select_all wb_exports (\<lambda>e. we_id e = i
       \<and> (case requested_by of None \<Rightarrow> True | Some p \<Rightarrow> we_requested_by e = p))) (\<lambda>es. ret (first_of es))"

definition mark_export :: "uuid \<Rightarrow> (wb_export \<Rightarrow> wb_export) \<Rightarrow> unit collabing" where
  "mark_export i f = seq_c (modify_table wb_exports_update wb_exports (update_where (\<lambda>e. we_id e = i) f)) commit_c"

definition generating_row :: "wb_export \<Rightarrow> wb_export" where
  "generating_row e = e\<lparr>we_status := Exp_Generating\<rparr>"

definition ready_row :: "string \<Rightarrow> datetime \<Rightarrow> wb_export \<Rightarrow> wb_export" where
  "ready_row key now e = e\<lparr>we_status := Exp_Ready, we_s3_key := Some key, we_completed_at := Some now,
     we_expires_at := Some (now + signed_url_ttl)\<rparr>"

definition failed_row :: "string \<Rightarrow> datetime \<Rightarrow> wb_export \<Rightarrow> wb_export" where
  "failed_row err now e = e\<lparr>we_status := Exp_Failed, we_error := Some err, we_completed_at := Some now\<rparr>"

definition mark_export_generating :: "uuid \<Rightarrow> unit collabing" where
  "mark_export_generating i = mark_export i generating_row"

definition mark_export_ready :: "uuid \<Rightarrow> string \<Rightarrow> unit collabing" where
  "mark_export_ready i key = bind_c now_c (\<lambda>now. mark_export i (ready_row key now))"

definition mark_export_failed :: "uuid \<Rightarrow> string \<Rightarrow> unit collabing" where
  "mark_export_failed i err = bind_c now_c (\<lambda>now. mark_export i (failed_row err now))"

section \<open>The Celery task\<close>

definition format_name :: "bool \<Rightarrow> string" where
  "format_name pdf = (if pdf then ''pdf'' else ''png'')"

definition resolution_name :: "bool \<Rightarrow> string" where
  "resolution_name hi = (if hi then ''hi'' else ''basic'')"

definition rendered_key :: "wb_export \<Rightarrow> datetime \<Rightarrow> string" where
  "rendered_key e now = ''whiteboard/exports/'' @ str_uuid (we_collab e) @ ''/'' @ str_int (now div 1000000) @ ''-''
     @ resolution_name (we_hi e) @ ''.'' @ format_name (we_pdf e)"

definition export_ready_event :: "wb_export \<Rightarrow> string \<Rightarrow> unit collabing" where
  "export_ready_event e key = emit_event ''whiteboard.export_ready''
     [(''export_id'', JStr (str_uuid (we_id e))), (''collab_id'', JStr (str_uuid (we_collab e))),
      (''requested_by'', JStr (str_uuid (we_requested_by e))), (''format'', JStr (format_name (we_pdf e))),
      (''resolution'', JStr (resolution_name (we_hi e))), (''s3_key'', JStr key)]"

definition generate_export :: "string option \<Rightarrow> uuid \<Rightarrow> unit collabing" where
  "generate_export failure i = in_session (bind_c (get_export i None) (\<lambda>r. case r of
     None \<Rightarrow> ret ()
   | Some e \<Rightarrow> seq_c (mark_export_generating i) (case failure of
       None \<Rightarrow> bind_c now_c (\<lambda>now. let key = rendered_key e now in
         seq_c (mark_export_ready i key) (export_ready_event e key))
     | Some err \<Rightarrow> seq_c (mark_export_failed i err) (raise RenderError))))"

definition export_max_retries :: nat where
  "export_max_retries = 2"

definition export_retry_delay :: int where
  "export_retry_delay = 10"

text \<open>The attempts Celery makes: the next one only when the last raised, after the retry delay.\<close>

fun export_attempts :: "string option list \<Rightarrow> uuid \<Rightarrow> unit collabing" where
  "export_attempts [] i = ret ()"
| "export_attempts (failure # rest) i = (\<lambda>s. case generate_export failure i s of
     (Inr u, s1) \<Rightarrow> (Inr u, s1) | (Inl e, s1) \<Rightarrow> if rest = [] then (Inl e, s1)
       else export_attempts rest i (s1\<lparr>clock := clock s1 + from_seconds export_retry_delay\<rparr>))"

definition whiteboard_export_generate :: "string option list \<Rightarrow> uuid \<Rightarrow> unit collabing" where
  "whiteboard_export_generate renders i = export_attempts (take (1 + export_max_retries) renders) i"

section \<open>Endpoints\<close>

definition check_whiteboard_export_entitlement :: "entitlements_api \<Rightarrow> uuid \<Rightarrow> bool" where
  "check_whiteboard_export_entitlement billing p = (case billing service_headers p of
     Billing_Down \<Rightarrow> False
   | Billing_Reply code axes \<Rightarrow> code = 200
       \<and> (case map_of (case axes of None \<Rightarrow> [] | Some kvs \<Rightarrow> kvs) ''whiteboard_hi_res_export'' of
            None \<Rightarrow> False | Some v \<Rightarrow> truthy v))"

definition request_whiteboard_export :: "string option \<Rightarrow> uuid \<Rightarrow> bool \<Rightarrow> bool \<Rightarrow> entitlements_api \<Rightarrow> wb_export collabing" where
  "request_whiteboard_export header collab_id pdf hi billing =
     as_profile header (\<lambda>p. bind_c (get_collab collab_id p) (\<lambda>c.
       if c = None then raise (HTTPException 403 ''Not a participant in this collaboration'')
       else if hi \<and> \<not> check_whiteboard_export_entitlement billing p then raise (HTTPException 403 ''ENTITLEMENT_REQUIRED'')
       else bind_c (create_export_record collab_id p pdf hi) (\<lambda>e.
         seq_c (delay ''whiteboard.export_generate'' [str_uuid (we_id e)]) (ret e))))"

definition get_export_signed_url :: "string \<Rightarrow> wb_export \<Rightarrow> string option" where
  "get_export_signed_url cdn e = (case we_s3_key e of
     None \<Rightarrow> None | Some key \<Rightarrow> if key = [] then None else Some (''https://'' @ cdn @ ''/'' @ key))"

record wb_export_out =
  eo_id :: uuid
  eo_status :: export_status
  eo_url :: "string option"
  eo_url_expires_at :: "datetime option"
  eo_mime_type :: "string option"
  eo_resolution :: string
  eo_error :: "string option"

definition wb_export_out_of :: "string \<Rightarrow> wb_export \<Rightarrow> wb_export_out" where
  "wb_export_out_of cdn e =
     (let url = (if we_status e = Exp_Ready then get_export_signed_url cdn e else None) in
      \<lparr>eo_id = we_id e, eo_status = we_status e, eo_url = url, eo_url_expires_at = we_expires_at e,
       eo_mime_type = (if url \<noteq> None then Some (if we_pdf e then ''application/pdf'' else ''image/png'') else None),
       eo_resolution = resolution_name (we_hi e), eo_error = we_error e\<rparr>)"

definition get_whiteboard_export :: "string \<Rightarrow> string option \<Rightarrow> uuid \<Rightarrow> wb_export_out collabing" where
  "get_whiteboard_export cdn header i =
     as_profile header (\<lambda>p. bind_c (get_export i (Some p)) (\<lambda>r. case r of
       None \<Rightarrow> raise (HTTPException 404 ''Export not found'') | Some e \<Rightarrow> ret (wb_export_out_of cdn e)))"

section \<open>What the requester sees\<close>

definition attempt_row :: "string option \<Rightarrow> datetime \<Rightarrow> wb_export \<Rightarrow> wb_export" where
  "attempt_row failure now e = (case failure of
     None \<Rightarrow> ready_row (rendered_key e now) now (generating_row e)
   | Some err \<Rightarrow> failed_row err now (generating_row e))"

lemma mark_export_run:
  assumes "\<And>e. we_id (f e) = we_id e"
  shows "mark_export i f s = (Inr (), s\<lparr>work := (work s)\<lparr>wb_exports := update_where (\<lambda>e. we_id e = i) f (wb_exports (work s))\<rparr>,
    committed := (work s)\<lparr>wb_exports := update_where (\<lambda>e. we_id e = i) f (wb_exports (work s))\<rparr>\<rparr>)"
  by (simp add: mark_export_def seq_run modify_run commit_run)

lemma row_ids [simp]: "we_id (generating_row e) = we_id e" "we_id (ready_row k t e) = we_id e" "we_id (failed_row r t e) = we_id e"
  by (simp_all add: generating_row_def ready_row_def failed_row_def)

lemma generate_run:
  assumes "filter (\<lambda>x. we_id x = i) (wb_exports (committed s)) = [e]"
  shows "fst (generate_export failure i s) = (case failure of None \<Rightarrow> Inr () | Some _ \<Rightarrow> Inl RenderError)"
    and "filter (\<lambda>x. we_id x = i) (wb_exports (committed (snd (generate_export failure i s)))) = [attempt_row failure (clock s) e]"
proof -
  have rows: "filter (\<lambda>x. we_id x = i) (update_where (\<lambda>x. we_id x = i) f (wb_exports (committed s))) = [f e]"
    if "\<And>r. we_id (f r) = we_id r" for f
    using filter_update_where_same [of we_id f i "wb_exports (committed s)"] that assms by simp
  have two: "filter (\<lambda>x. we_id x = i) (update_where (\<lambda>x. we_id x = i) g (update_where (\<lambda>x. we_id x = i) f (wb_exports (committed s)))) = [g (f e)]"
    if "\<And>r. we_id (f r) = we_id r" "\<And>r. we_id (g r) = we_id r" for f g
    using filter_update_where_same [of we_id g i "update_where (\<lambda>x. we_id x = i) f (wb_exports (committed s))"] that rows [of f] by simp
  show "fst (generate_export failure i s) = (case failure of None \<Rightarrow> Inr () | Some _ \<Rightarrow> Inl RenderError)"
    and "filter (\<lambda>x. we_id x = i) (wb_exports (committed (snd (generate_export failure i s)))) = [attempt_row failure (clock s) e]"
    using assms
    by (cases failure; simp add: generate_export_def in_session_def get_export_def bind_run select_run ret_run first_of_def
        seq_run mark_export_generating_def mark_export_ready_def mark_export_failed_def mark_export_run now_run
        export_ready_event_def emit_event_def publish_run raise_run attempt_row_def two Let_def)+
qed

lemma attempt_row_facts:
  "we_requested_by (attempt_row f t e) = we_requested_by e" "rendered_key (attempt_row f t e) t' = rendered_key e t'"
  "we_id (attempt_row f t e) = we_id e" "we_status (attempt_row f t e) = (if f = None then Exp_Ready else Exp_Failed)"
  "f = None \<Longrightarrow> we_s3_key (attempt_row f t e) = Some (rendered_key e t)" "f = Some err \<Longrightarrow> we_error (attempt_row f t e) = Some err"
  by (auto simp: attempt_row_def ready_row_def failed_row_def generating_row_def rendered_key_def split: option.split)

text \<open>After the attempts the row is that of the last one made.\<close>

lemma attempts_row:
  assumes "filter (\<lambda>x. we_id x = i) (wb_exports (committed s)) = [e]" and "fs \<noteq> []"
  shows "\<exists>row t. filter (\<lambda>x. we_id x = i) (wb_exports (committed (snd (export_attempts fs i s)))) = [row]
    \<and> we_requested_by row = we_requested_by e
    \<and> (if None \<in> set fs then we_status row = Exp_Ready \<and> we_s3_key row = Some (rendered_key e t)
       else we_status row = Exp_Failed \<and> we_error row = last fs)"
  using assms
proof (induction fs arbitrary: s e)
  case (Cons f fs)
  let ?g = "generate_export f i s"
  note g = generate_run [OF Cons.prems(1), of f]
  show ?case
  proof (cases "f = None \<or> fs = []")
    case True
    then have "snd (export_attempts (f # fs) i s) = snd ?g"
      using g(1) by (cases ?g) (auto split: sum.split option.splits)
    with True g(2) show ?thesis
      by (cases f) (auto simp: attempt_row_facts)
  next
    case False
    let ?s = "(snd ?g)\<lparr>clock := clock (snd ?g) + from_seconds export_retry_delay\<rparr>"
    have "export_attempts (f # fs) i s = export_attempts fs i ?s"
      using False g(1) by (cases ?g) (auto split: sum.split option.splits)
    moreover have "filter (\<lambda>x. we_id x = i) (wb_exports (committed ?s)) = [attempt_row f (clock s) e]" using g(2) by simp
    note Cons.IH [OF this]
    with False obtain row t where
      "filter (\<lambda>x. we_id x = i) (wb_exports (committed (snd (export_attempts fs i ?s)))) = [row]"
      "we_requested_by row = we_requested_by e"
      "if None \<in> set fs then we_status row = Exp_Ready \<and> we_s3_key row = Some (rendered_key e t)
       else we_status row = Exp_Failed \<and> we_error row = last fs"
      unfolding attempt_row_facts by blast
    ultimately show ?thesis using False by (intro exI [where x = row] exI [where x = t]) auto
  qed
qed simp

text \<open>Once Celery is done with an export its requester polls a settled answer: the link to the rendered file when one of the first three renderings worked, the error of the last of them and no link otherwise.\<close>

theorem export_poll_settles:
  assumes "filter (\<lambda>x. we_id x = i) (wb_exports (committed s)) = [e]" and "renders \<noteq> []" and "we_requested_by e < 16 ^ 32"
  shows "\<exists>out t. fst (get_whiteboard_export cdn (Some (str_uuid (we_requested_by e))) i (snd (whiteboard_export_generate renders i s))) = Inr out
    \<and> (if None \<in> set (take 3 renders) then eo_status out = Exp_Ready \<and> eo_url out = Some (''https://'' @ cdn @ ''/'' @ rendered_key e t)
       else eo_status out = Exp_Failed \<and> eo_url out = None \<and> eo_error out = last (take 3 renders))"
proof -
  let ?s = "snd (whiteboard_export_generate renders i s)"
  have three: "1 + export_max_retries = 3" by (simp add: export_max_retries_def)
  have "take 3 renders \<noteq> []" using assms(2) by simp
  from attempts_row [OF assms(1) this] obtain row t where
    row: "filter (\<lambda>x. we_id x = i) (wb_exports (committed ?s)) = [row]" "we_requested_by row = we_requested_by e"
    "if None \<in> set (take 3 renders) then we_status row = Exp_Ready \<and> we_s3_key row = Some (rendered_key e t)
       else we_status row = Exp_Failed \<and> we_error row = last (take 3 renders)"
    unfolding whiteboard_export_generate_def three by blast
  have "filter (\<lambda>x. we_id x = i \<and> we_requested_by x = we_requested_by e) (wb_exports (committed ?s))
      = filter (\<lambda>x. we_requested_by x = we_requested_by e) (filter (\<lambda>x. we_id x = i) (wb_exports (committed ?s)))"
    by (simp add: conj_commute)
  also have "\<dots> = [row]" using row(1,2) by simp
  finally have "fst (get_whiteboard_export cdn (Some (str_uuid (we_requested_by e))) i ?s) = Inr (wb_export_out_of cdn row)"
    using current_profile [OF assms(3)]
    by (simp add: get_whiteboard_export_def as_profile_def
        in_session_def get_export_def bind_run select_run ret_run first_of_def)
  moreover have "rendered_key e t \<noteq> []" by (simp add: rendered_key_def)
  ultimately show ?thesis using row(3)
    by (intro exI [where x = "wb_export_out_of cdn row"] exI [where x = t])
      (auto simp: wb_export_out_of_def Let_def get_export_signed_url_def)
qed

definition demo_export_state :: collab_sess where
  "demo_export_state = (collab_start migrated_collab_schema 0 9)\<lparr>committed := (empty_collab_db migrated_collab_schema)\<lparr>wb_exports := [new_wb_export 5 3 7 False True 0]\<rparr>\<rparr>"

lemma export_poll_settles_witness:
  "\<exists>out t. fst (get_whiteboard_export ''cdn'' (Some (str_uuid 7)) 5
      (snd (whiteboard_export_generate [Some ''timeout'', None] 5 demo_export_state))) = Inr out
    \<and> eo_status out = Exp_Ready \<and> eo_url out = Some (''https://cdn/'' @ rendered_key (new_wb_export 5 3 7 False True 0) t)"
  using export_poll_settles [of 5 demo_export_state "new_wb_export 5 3 7 False True 0" "[Some ''timeout'', None]" "''cdn''"]
  by (simp add: demo_export_state_def new_wb_export_def)

end
