(* ===== verification/Mod_Data.thy ===== *)
theory Mod_Data
  imports Colab_Text Complex_Main
begin

text \<open>
  Data of moderation-svc (app/models.py, app/schemas.py, app/config.py): cases with their status and
  priority, the append-only actions, reports with the daily throttle, DMCA notices and
  counter-notices. The raw tool answers and breakdowns kept for audit, and the text columns of a
  DMCA claim that no code reads back, are left out of the rows.
\<close>

section \<open>Enumerations\<close>

datatype case_kind = Ck_Auto | Ck_Report | Ck_Dmca

datatype subject_type = Sj_Msg | Sj_Profile_Field | Sj_Portfolio_Item | Sj_Invite_Synopsis | Sj_Mockup | Sj_User

fun str_subject :: "subject_type \<Rightarrow> string" where
  "str_subject Sj_Msg = ''msg''"
| "str_subject Sj_Profile_Field = ''profile_field''"
| "str_subject Sj_Portfolio_Item = ''portfolio_item''"
| "str_subject Sj_Invite_Synopsis = ''invite_synopsis''"
| "str_subject Sj_Mockup = ''mockup''"
| "str_subject Sj_User = ''user''"

datatype case_status = Cs_Open | Cs_In_Review | Cs_Actioned | Cs_Dismissed | Cs_Escalated

datatype priority_tier = Tier_0_Allow | Tier_1_24h | Tier_2_6h | Tier_3_1h

fun str_priority :: "priority_tier \<Rightarrow> string" where
  "str_priority Tier_0_Allow = ''tier_0_allow''"
| "str_priority Tier_1_24h = ''tier_1_24h''"
| "str_priority Tier_2_6h = ''tier_2_6h''"
| "str_priority Tier_3_1h = ''tier_3_1h''"

text \<open>An enum column sorts in the order its values are declared.\<close>

fun tier_level :: "priority_tier \<Rightarrow> nat" where
  "tier_level Tier_0_Allow = 0"
| "tier_level Tier_1_24h = 1"
| "tier_level Tier_2_6h = 2"
| "tier_level Tier_3_1h = 3"

datatype action_type = Warn | Hide | Restore | Temp_Mute_1h | Temp_Mute_24h | Temp_Mute_7d
  | Permanent_Ban | Delete_Account | Dismiss | Escalate_To_Legal

fun str_action :: "action_type \<Rightarrow> string" where
  "str_action Warn = ''warn''"
| "str_action Hide = ''hide''"
| "str_action Restore = ''restore''"
| "str_action Temp_Mute_1h = ''temp_mute_1h''"
| "str_action Temp_Mute_24h = ''temp_mute_24h''"
| "str_action Temp_Mute_7d = ''temp_mute_7d''"
| "str_action Permanent_Ban = ''permanent_ban''"
| "str_action Delete_Account = ''delete_account''"
| "str_action Dismiss = ''dismiss''"
| "str_action Escalate_To_Legal = ''escalate_to_legal''"

datatype propagation_status = Pr_Pending | Pr_Partial | Pr_Complete | Pr_Failed

datatype dmca_state = Dm_Received | Dm_Hidden | Dm_Counter_Pending | Dm_Restored | Dm_Permanent | Dm_Rejected_Defective

datatype counter_state = Cn_Received | Cn_Awaiting_Window | Cn_Restored | Cn_Permanent_Taken_Down

section \<open>Rows\<close>

record mod_case =
  mc_id :: uuid
  mc_kind :: case_kind
  mc_subject_type :: subject_type
  mc_subject_id :: uuid
  mc_owner :: uuid
  mc_reporter :: "uuid option"
  mc_score :: "rat option"
  mc_forced_human :: bool
  mc_forced_reason :: "string option"
  mc_status :: case_status
  mc_tier :: priority_tier
  mc_sla_due :: "datetime option"
  mc_sla_breached :: "datetime option"
  mc_opened_at :: datetime
  mc_claimed_by :: "uuid option"
  mc_claimed_at :: "datetime option"
  mc_actioned_at :: "datetime option"
  mc_actioned_by :: "uuid option"
  mc_action_type :: "action_type option"
  mc_second_reviewer :: "uuid option"
  mc_idempotency_key :: "string option"
  mc_parent :: "uuid option"

record mod_action =
  ma_id :: uuid
  ma_case :: uuid
  ma_type :: action_type
  ma_reviewer :: uuid
  ma_reason :: string
  ma_target_user :: uuid
  ma_created_at :: datetime
  ma_propagation :: propagation_status

record report =
  rp_id :: uuid
  rp_reporter :: uuid
  rp_subject_type :: subject_type
  rp_subject_id :: uuid
  rp_description :: string
  rp_screenshot :: "string option"
  rp_case :: uuid
  rp_created_at :: datetime

text \<open>\<open>rt_day\<close> is the UTC midnight the row counts from.\<close>

record report_throttle =
  rt_reporter :: uuid
  rt_day :: datetime
  rt_count :: nat

record dmca_notice =
  dn_id :: uuid
  dn_email :: string
  dn_target_type :: subject_type
  dn_target_subject :: uuid
  dn_target_user :: uuid
  dn_received_at :: datetime
  dn_hide_at :: "datetime option"
  dn_hidden_at :: "datetime option"
  dn_state :: dmca_state
  dn_rejection_reason :: "string option"
  dn_case :: "uuid option"

text \<open>The attributes of the class DMCANotice, by which a query may name a column.\<close>

definition dmca_notice_columns :: "string list" where
  "dmca_notice_columns = [''id'', ''claimant_name'', ''claimant_address'', ''claimant_phone'', ''claimant_email'',
     ''is_authorized_agent'', ''sworn_statement_text'', ''signature_full_name'', ''hash_of_signature'',
     ''copyrighted_work_description'', ''copyrighted_work_url_or_registration'', ''target_subject_type'',
     ''target_subject_id'', ''target_url_on_colab'', ''target_user_id'', ''claimant_ip'', ''received_at'', ''hide_at'',
     ''hidden_at'', ''state'', ''rejection_reason'', ''case_id'', ''counter_notice'']"

record counter_notice =
  cn_id :: uuid
  cn_dmca :: uuid
  cn_claimant :: uuid
  cn_received_at :: datetime
  cn_window_end :: "datetime option"
  cn_suit_filed_at :: "datetime option"
  cn_restored_at :: "datetime option"
  cn_state :: counter_state

record scan_log =
  sl_subject_type :: subject_type
  sl_subject_id :: uuid
  sl_idempotency_key :: "string option"
  sl_tool :: string
  sl_score :: rat

record propagation_log =
  pl_action :: uuid
  pl_service :: string
  pl_status :: string

record mod_db =
  cases :: "mod_case list"
  actions :: "mod_action list"
  reports :: "report list"
  throttles :: "report_throttle list"
  notices :: "dmca_notice list"
  counters :: "counter_notice list"
  scan_logs :: "scan_log list"
  propagations :: "propagation_log list"

type_synonym mod_sess = "mod_db sess"
type_synonym 'a moderating = "(mod_db, 'a) comp"

definition empty_mod_db :: mod_db where
  "empty_mod_db = \<lparr>cases = [], actions = [], reports = [], throttles = [], notices = [], counters = [],
     scan_logs = [], propagations = []\<rparr>"

section \<open>Settings\<close>

definition tier1_threshold :: rat where "tier1_threshold = 4 / 10"
definition tier2_threshold :: rat where "tier2_threshold = 7 / 10"
definition tier3_threshold :: rat where "tier3_threshold = 9 / 10"
definition dup_bump_setting :: rat where "dup_bump_setting = 3 / 10"
definition reports_per_user_per_day :: nat where "reports_per_user_per_day = 20"
definition dmca_per_ip_per_day :: nat where "dmca_per_ip_per_day = 5"
definition dmca_per_email_per_day :: nat where "dmca_per_email_per_day = 10"
definition dmca_statutory_window_days :: int where "dmca_statutory_window_days = 14"
definition tier1_sla_hours :: nat where "tier1_sla_hours = 24"
definition tier2_sla_hours :: nat where "tier2_sla_hours = 6"
definition tier3_sla_hours :: nat where "tier3_sla_hours = 1"

definition hours :: "int \<Rightarrow> int" where
  "hours n = n * 3600000000"

definition minutes :: "int \<Rightarrow> int" where
  "minutes n = n * 60000000"

section \<open>Who may call\<close>

record caller =
  cl_role :: "string option"
  cl_user :: "string option"

definition header_text :: "string option \<Rightarrow> string" where
  "header_text h = (case h of None \<Rightarrow> '''' | Some t \<Rightarrow> t)"

definition identity :: "string \<Rightarrow> caller \<Rightarrow> exn + uuid" where
  "identity msg c = (case parse_uuid (header_text (cl_user c)) of
     None \<Rightarrow> Inl (HTTPException 401 msg) | Some u \<Rightarrow> Inr u)"

definition require_mod_role :: "caller \<Rightarrow> exn + uuid" where
  "require_mod_role c =
     (if header_text (cl_role c) \<notin> set [''mod'', ''super_admin'', ''admin'']
      then Inl (HTTPException 403 ''Moderator role required'')
      else identity ''Invalid moderator identity'' c)"

definition require_super_admin :: "caller \<Rightarrow> exn + uuid" where
  "require_super_admin c =
     (if header_text (cl_role c) \<noteq> ''super_admin'' then Inl (HTTPException 403 ''Super-admin role required'')
      else identity ''Invalid identity'' c)"

definition with_id :: "exn + uuid \<Rightarrow> (uuid \<Rightarrow> 'a moderating) \<Rightarrow> 'a moderating" where
  "with_id who m = (case who of Inl e \<Rightarrow> raise e | Inr u \<Rightarrow> in_session (m u))"

end
