(* ===== verification/Mod_Score.thy ===== *)
theory Mod_Score
  imports Mod_Data
begin

text \<open>
  The combined score and the routing of app/score.py with \<open>build_routing_result\<close> and the text tools of
  app/workers/scan_tasks.py. Scores are exact rationals where Python computes with floats. A
  dict is an association list in insertion order; the breakdown for the audit is left out.
\<close>

section \<open>Results of the tools\<close>

record openai_result =
  oa_flagged :: bool
  oa_scores :: "(string \<times> rat) list"
  oa_categories :: "string list"

record rek_label =
  rk_name :: string
  rk_parent :: string
  rk_confidence :: rat

record dup_result =
  dr_phash :: bool
  dr_chromaprint :: bool
  dr_semdup :: bool

definition max_of :: "rat list \<Rightarrow> rat" where
  "max_of xs = fold max xs 0"

text \<open>\<open>max(values, default=0.0)\<close>: not bounded below by 0 when there are values.\<close>

definition max_default :: "rat list \<Rightarrow> rat" where
  "max_default xs = (case xs of [] \<Rightarrow> 0 | x # ys \<Rightarrow> fold max ys x)"

definition max_score :: "openai_result \<Rightarrow> rat" where
  "max_score r = max_default (map snd (oa_scores r))"

definition label_parent :: "rek_label \<Rightarrow> string" where
  "label_parent l = (if rk_parent l = [] then rk_name l else rk_parent l)"

fun put_max :: "string \<Rightarrow> rat \<Rightarrow> (string \<times> rat) list \<Rightarrow> (string \<times> rat) list" where
  "put_max k v [] = [(k, max 0 v)]"
| "put_max k v ((k', v') # rest) = (if k' = k then (k', max v' v) # rest else (k', v') # put_max k v rest)"

definition parent_scores :: "rek_label list \<Rightarrow> (string \<times> rat) list" where
  "parent_scores labels = fold (\<lambda>l. put_max (label_parent l) (rk_confidence l / 100)) labels []"

definition any_match :: "dup_result \<Rightarrow> bool" where
  "any_match d \<longleftrightarrow> dr_phash d \<or> dr_chromaprint d \<or> dr_semdup d"

section \<open>Combined score\<close>

definition default_category_weights :: "(string \<times> rat) list" where
  "default_category_weights = [(''sexual/minors'', 15 / 10), (''harassment/threatening'', 13 / 10),
     (''hate/threatening'', 13 / 10), (''violence/graphic'', 12 / 10), (''self-harm/intent'', 12 / 10),
     (''Rekognition:Explicit'', 12 / 10), (''Rekognition:Hate Symbols'', 13 / 10), (''illicit/violent'', 12 / 10),
     (''sexual'', 1), (''harassment'', 1), (''violence'', 1)]"

definition weight_of :: "(string \<times> rat) list \<Rightarrow> string \<Rightarrow> rat \<Rightarrow> rat" where
  "weight_of weights k d = (case map_of weights k of None \<Rightarrow> d | Some w \<Rightarrow> w)"

definition text_weighted :: "(string \<times> rat) list \<Rightarrow> openai_result \<Rightarrow> rat" where
  "text_weighted weights r =
     max (max_of (map (\<lambda>(cat, raw). weight_of weights cat 1 * raw) (oa_scores r))) (max_score r)"

definition image_weighted :: "(string \<times> rat) list \<Rightarrow> rek_label list \<Rightarrow> rat" where
  "image_weighted weights labels =
     max_of (map (\<lambda>(cat, conf). weight_of weights (''Rekognition:'' @ cat) (weight_of weights cat 1) * conf) (parent_scores labels))"

definition combined_score :: "(string \<times> rat) list \<Rightarrow> openai_result \<Rightarrow> rek_label list \<Rightarrow> dup_result \<Rightarrow> rat" where
  "combined_score weights oa labels dup =
     min 1 (max (text_weighted weights oa) (image_weighted weights labels) + (if any_match dup then dup_bump_setting else 0))"

section \<open>Routing\<close>

datatype route_action = Allow_Log | Soft_Warn_User_Queue | Hide_Content_Queue | Auto_Hide_Temp_Mute_Queue

record routing =
  ro_action :: route_action
  ro_tier :: priority_tier
  ro_sla_hours :: "nat option"
  ro_forced_human :: bool
  ro_forced_reason :: "string option"
  ro_is_csam :: bool
  ro_score :: rat

definition always_human_rekognition :: "string list" where
  "always_human_rekognition = [''Hate Symbols'']"

definition forced_path :: "openai_result \<Rightarrow> rek_label list \<Rightarrow> bool \<Rightarrow> string option" where
  "forced_path oa labels has_ip_claim =
     (if ''harassment/threatening'' \<in> set (oa_categories oa) then Some ''harassment/threatening''
      else if ''violence/graphic'' \<in> set (oa_categories oa) then Some ''violence/graphic''
      else if \<exists>l \<in> set labels. label_parent l \<in> set always_human_rekognition then Some ''rekognition:Hate Symbols''
      else if has_ip_claim then Some ''ip_claim'' else None)"

definition threshold_tier :: "rat \<Rightarrow> priority_tier" where
  "threshold_tier score = (if score < tier1_threshold then Tier_0_Allow else if score < tier2_threshold then Tier_1_24h
     else if score < tier3_threshold then Tier_2_6h else Tier_3_1h)"

fun tier_action :: "priority_tier \<Rightarrow> route_action" where
  "tier_action Tier_0_Allow = Allow_Log"
| "tier_action Tier_1_24h = Soft_Warn_User_Queue"
| "tier_action Tier_2_6h = Hide_Content_Queue"
| "tier_action Tier_3_1h = Auto_Hide_Temp_Mute_Queue"

fun tier_sla :: "priority_tier \<Rightarrow> nat option" where
  "tier_sla Tier_0_Allow = None"
| "tier_sla Tier_1_24h = Some tier1_sla_hours"
| "tier_sla Tier_2_6h = Some tier2_sla_hours"
| "tier_sla Tier_3_1h = Some tier3_sla_hours"

definition route :: "rat \<Rightarrow> openai_result \<Rightarrow> rek_label list \<Rightarrow> bool \<Rightarrow> routing" where
  "route score oa labels has_ip_claim =
     (if ''sexual/minors'' \<in> set (oa_categories oa)
      then \<lparr>ro_action = Auto_Hide_Temp_Mute_Queue, ro_tier = Tier_3_1h, ro_sla_hours = Some tier3_sla_hours,
            ro_forced_human = True, ro_forced_reason = Some ''csam_path'', ro_is_csam = True, ro_score = score\<rparr>
      else let reason = forced_path oa labels has_ip_claim;
               t = (if reason \<noteq> None \<and> threshold_tier score = Tier_0_Allow then Tier_1_24h else threshold_tier score)
           in \<lparr>ro_action = tier_action t, ro_tier = t, ro_sla_hours = tier_sla t, ro_forced_human = reason \<noteq> None,
               ro_forced_reason = reason, ro_is_csam = False, ro_score = score\<rparr>)"

text \<open>\<open>round(score, 4)\<close>: to the nearest multiple of 1/10000, ties to the even one.\<close>

definition round4 :: "rat \<Rightarrow> rat" where
  "round4 x = (let y = x * 10000; n = floor y; d = y - of_int n in
     of_int (if d < 1 / 2 then n else if 1 / 2 < d then n + 1 else if even n then n else n + 1) / 10000)"

definition build_routing_result :: "openai_result \<Rightarrow> rek_label list \<Rightarrow> dup_result \<Rightarrow> bool \<Rightarrow> routing" where
  "build_routing_result oa labels dup has_ip_claim =
     (let score = combined_score default_category_weights oa labels dup;
          d = route score oa labels has_ip_claim
      in d\<lparr>ro_score := round4 score\<rparr>)"

section \<open>The text tools\<close>

text \<open>The answer of the moderation model, None when the call fails: then a made-up score of one half.\<close>

definition scan_openai_text :: "openai_result option \<Rightarrow> openai_result" where
  "scan_openai_text answer = (case answer of
     None \<Rightarrow> \<lparr>oa_flagged = False, oa_scores = [(''__synthetic__'', 1 / 2)], oa_categories = []\<rparr>
   | Some r \<Rightarrow> r)"

text \<open>
  \<open>scan_semdup\<close> on the redis keys of the last 24 hours: a text whose hash is there is a match,
  else its embedding is asked for (\<open>embeds\<close>: the call works) and the hash stored.
\<close>

definition bloom_ttl :: int where
  "bloom_ttl = 86400"

definition scan_semdup :: "(string \<Rightarrow> string) \<Rightarrow> bool \<Rightarrow> datetime \<Rightarrow> string \<Rightarrow> (string \<Rightarrow> datetime option)
    \<Rightarrow> bool \<times> (string \<Rightarrow> datetime option)" where
  "scan_semdup sha embeds now text bloom =
     (case bloom (sha text) of
        Some expires \<Rightarrow> if now < expires then (True, bloom)
          else if embeds then (False, bloom(sha text \<mapsto> now + from_seconds bloom_ttl)) else (False, bloom)
      | None \<Rightarrow> if embeds then (False, bloom(sha text \<mapsto> now + from_seconds bloom_ttl)) else (False, bloom))"

section \<open>Bounds and monotonicity of the score\<close>

lemma fold_max_ge: "(a :: rat) \<le> fold max xs a"
proof (induction xs arbitrary: a)
  case (Cons x xs)
  show ?case using Cons [of "max x a"] by simp
qed simp

lemma fold_max_mono: "list_all2 (\<le>) xs ys \<Longrightarrow> (a :: rat) \<le> b \<Longrightarrow> fold max xs a \<le> fold max ys b"
  by (induction xs ys arbitrary: a b rule: list_all2_induct) (auto intro: max.mono)

lemma max_of_mono: "list_all2 (\<le>) xs ys \<Longrightarrow> max_of xs \<le> max_of ys"
  by (simp add: max_of_def fold_max_mono)

lemma max_default_mono: "list_all2 (\<le>) xs ys \<Longrightarrow> max_default xs \<le> max_default ys"
  by (auto simp: max_default_def list_all2_Cons1 fold_max_mono split: list.split)

text \<open>Whatever the tools return, the combined score lies between 0 and 1.\<close>

theorem combined_score_in_unit:
  "0 \<le> combined_score weights oa labels dup \<and> combined_score weights oa labels dup \<le> 1"
proof -
  have "0 \<le> text_weighted weights oa" by (simp add: text_weighted_def max_of_def fold_max_ge max.coboundedI1)
  then have "0 \<le> max (text_weighted weights oa) (image_weighted weights labels)" by (rule max.coboundedI1)
  then show ?thesis by (simp add: combined_score_def dup_bump_setting_def)
qed

text \<open>The same findings with higher numbers.\<close>

definition scores_le :: "(string \<times> rat) list \<Rightarrow> (string \<times> rat) list \<Rightarrow> bool" where
  "scores_le = list_all2 (\<lambda>x y. fst x = fst y \<and> snd x \<le> snd y)"

definition labels_le :: "rek_label list \<Rightarrow> rek_label list \<Rightarrow> bool" where
  "labels_le = list_all2 (\<lambda>x y. rk_name x = rk_name y \<and> rk_parent x = rk_parent y \<and> rk_confidence x \<le> rk_confidence y)"

definition dup_le :: "dup_result \<Rightarrow> dup_result \<Rightarrow> bool" where
  "dup_le x y \<longleftrightarrow> (any_match x \<longrightarrow> any_match y)"

lemma put_max_mono: "scores_le xs ys \<Longrightarrow> v \<le> w \<Longrightarrow> scores_le (put_max k v xs) (put_max k w ys)"
  unfolding scores_le_def
  by (induction xs ys rule: list_all2_induct) (auto intro: max.mono)

lemma parent_scores_mono: "labels_le xs ys \<Longrightarrow> scores_le (parent_scores xs) (parent_scores ys)"
proof -
  assume "labels_le xs ys"
  then have "scores_le a b \<Longrightarrow> scores_le (fold (\<lambda>l. put_max (label_parent l) (rk_confidence l / 100)) xs a)
      (fold (\<lambda>l. put_max (label_parent l) (rk_confidence l / 100)) ys b)" for a b
    unfolding labels_le_def
  proof (induction xs ys arbitrary: a b rule: list_all2_induct)
    case (Cons x xs y ys)
    then have "label_parent x = label_parent y" and "rk_confidence x / 100 \<le> rk_confidence y / 100"
      by (simp_all add: label_parent_def)
    with put_max_mono [OF Cons.prems] have "scores_le (put_max (label_parent x) (rk_confidence x / 100) a)
        (put_max (label_parent y) (rk_confidence y / 100) b)" by simp
    from Cons.IH [OF this] show ?case by simp
  qed simp
  from this [of "[]" "[]"] show ?thesis by (simp add: parent_scores_def scores_le_def)
qed

lemma default_weights_pos: "0 \<le> weight_of default_category_weights k d" if "0 \<le> d"
  using that by (auto simp: weight_of_def default_category_weights_def split: option.split if_splits)

lemma weighted_mono:
  assumes "scores_le xs ys" and "\<And>k. 0 \<le> w k"
  shows "list_all2 (\<le>) (map (\<lambda>(k, v). w k * v) xs) (map (\<lambda>(k, v). (w k * v :: rat)) ys)"
  using assms unfolding scores_le_def
  by (auto simp: list_all2_map1 list_all2_map2 case_prod_unfold mult_left_mono elim!: list_all2_mono)

lemma combined_score_mono:
  assumes "scores_le (oa_scores a) (oa_scores b)" and "labels_le xs ys" and "dup_le d e"
  shows "combined_score default_category_weights a xs d \<le> combined_score default_category_weights b ys e"
proof -
  have w: "0 \<le> weight_of default_category_weights k 1" for k by (simp add: default_weights_pos)
  have snds: "list_all2 (\<le>) (map snd (oa_scores a)) (map snd (oa_scores b))"
    using assms(1) unfolding scores_le_def by (auto simp: list_all2_map1 list_all2_map2 elim!: list_all2_mono)
  have "text_weighted default_category_weights a \<le> text_weighted default_category_weights b"
    unfolding text_weighted_def max_score_def
    by (intro max.mono max_of_mono max_default_mono weighted_mono [OF assms(1)] w snds)
  moreover have "image_weighted default_category_weights xs \<le> image_weighted default_category_weights ys"
    unfolding image_weighted_def
    by (intro max_of_mono weighted_mono [OF parent_scores_mono [OF assms(2)]] default_weights_pos) simp
  ultimately have "max (text_weighted default_category_weights a) (image_weighted default_category_weights xs)
      \<le> max (text_weighted default_category_weights b) (image_weighted default_category_weights ys)" by (rule max.mono)
  with assms(3) show ?thesis by (auto simp: combined_score_def dup_le_def dup_bump_setting_def min_def)
qed

section \<open>Routing\<close>

lemma threshold_mono: "x \<le> y \<Longrightarrow> tier_level (threshold_tier x) \<le> tier_level (threshold_tier y)"
  by (auto simp: threshold_tier_def tier1_threshold_def tier2_threshold_def tier3_threshold_def)

lemma tier_level_le3: "tier_level t \<le> 3"
  by (cases t) simp_all

lemma forced_path_mono:
  assumes "set (oa_categories a) \<subseteq> set (oa_categories b)" and "labels_le xs ys" and "ip \<Longrightarrow> iq"
    and "forced_path a xs ip \<noteq> None"
  shows "forced_path b ys iq \<noteq> None"
proof -
  have "label_parent ` set xs = label_parent ` set ys"
    using assms(2) unfolding labels_le_def
    by (induction xs ys rule: list_all2_induct) (auto simp: label_parent_def)
  then have "(\<exists>l \<in> set xs. label_parent l \<in> S) = (\<exists>l \<in> set ys. label_parent l \<in> S)" for S by (metis (no_types, lifting) imageE imageI)
  with assms(1,3,4) show ?thesis by (auto simp: forced_path_def split: if_splits)
qed

lemma routing_mono:
  assumes "scores_le (oa_scores a) (oa_scores b)" and "set (oa_categories a) \<subseteq> set (oa_categories b)"
    and "labels_le xs ys" and "dup_le d e" and "ip \<Longrightarrow> iq"
  shows "tier_level (ro_tier (build_routing_result a xs d ip)) \<le> tier_level (ro_tier (build_routing_result b ys e iq))
     \<and> (ro_forced_human (build_routing_result a xs d ip) \<longrightarrow> ro_forced_human (build_routing_result b ys e iq))"
proof (cases "''sexual/minors'' \<in> set (oa_categories b)")
  case True
  then show ?thesis by (simp add: build_routing_result_def route_def Let_def tier_level_le3)
next
  case False
  then have a: "''sexual/minors'' \<notin> set (oa_categories a)" using assms(2) by blast
  have f: "forced_path a xs ip \<noteq> None \<Longrightarrow> forced_path b ys iq \<noteq> None"
    by (rule forced_path_mono [OF assms(2,3,5)])
  have t: "tier_level (threshold_tier (combined_score default_category_weights a xs d))
      \<le> tier_level (threshold_tier (combined_score default_category_weights b ys e))"
    by (intro threshold_mono combined_score_mono assms)
  have zero: "q = Tier_0_Allow" if "tier_level q = 0" for q using that by (cases q) simp_all
  show ?thesis
    using False a f t zero [of "threshold_tier (combined_score default_category_weights a xs d)"]
    by (cases "threshold_tier (combined_score default_category_weights b ys e)")
      (auto simp: build_routing_result_def route_def Let_def)
qed

text \<open>Worse findings are never routed lower: with the same categories and labels at scores at
  least as high, at least the same flags and at least the same duplicate match, the tier is at
  least as urgent, and a case for human eyes stays one.
\<close>

theorem worse_findings_route_higher:
  assumes "scores_le (oa_scores a) (oa_scores b)" and "set (oa_categories a) \<subseteq> set (oa_categories b)"
    and "labels_le xs ys" and "dup_le d e" and "ip \<Longrightarrow> iq"
  shows "tier_level (ro_tier (build_routing_result a xs d ip)) \<le> tier_level (ro_tier (build_routing_result b ys e iq))
     \<and> (ro_forced_human (build_routing_result a xs d ip) \<longrightarrow> ro_forced_human (build_routing_result b ys e iq))"
  by (rule routing_mono [OF assms])

lemma worse_findings_route_higher_witness:
  "tier_level (ro_tier (build_routing_result \<lparr>oa_flagged = False, oa_scores = [(''harassment'', 1 / 2)], oa_categories = []\<rparr>
       [] \<lparr>dr_phash = False, dr_chromaprint = False, dr_semdup = False\<rparr> False))
   \<le> tier_level (ro_tier (build_routing_result \<lparr>oa_flagged = True, oa_scores = [(''harassment'', 8 / 10)], oa_categories = [''harassment'']\<rparr>
       [] \<lparr>dr_phash = False, dr_chromaprint = False, dr_semdup = True\<rparr> False))"
  by (rule worse_findings_route_higher [THEN conjunct1])
    (simp_all add: scores_le_def labels_le_def dup_le_def any_match_def)

text \<open>A flag for threats or graphic violence, a hate symbol or a claim of ownership is never
  let through however low the score, and a flag for minors goes to the one-hour queue.
\<close>

theorem flagged_content_reaches_a_human:
  assumes "''sexual/minors'' \<in> set (oa_categories oa) \<or> forced_path oa labels ip \<noteq> None"
  shows "let r = build_routing_result oa labels dup ip in ro_forced_human r \<and> ro_tier r \<noteq> Tier_0_Allow
     \<and> ro_action r \<noteq> Allow_Log \<and> ro_sla_hours r \<noteq> None
     \<and> (''sexual/minors'' \<in> set (oa_categories oa) \<longrightarrow> ro_is_csam r \<and> ro_tier r = Tier_3_1h \<and> ro_sla_hours r = Some 1)"
  using assms
  by (cases "threshold_tier (combined_score default_category_weights oa labels dup)")
    (auto simp: build_routing_result_def route_def Let_def tier3_sla_hours_def)

lemma flagged_content_reaches_a_human_witness:
  "let r = build_routing_result \<lparr>oa_flagged = True, oa_scores = [], oa_categories = [''violence/graphic'']\<rparr> []
       \<lparr>dr_phash = False, dr_chromaprint = False, dr_semdup = False\<rparr> False in ro_forced_human r \<and> ro_tier r \<noteq> Tier_0_Allow"
  using flagged_content_reaches_a_human [where ip = False and labels = "[]" and
      oa = "\<lparr>oa_flagged = True, oa_scores = [], oa_categories = [''violence/graphic'']\<rparr>" and
      dup = "\<lparr>dr_phash = False, dr_chromaprint = False, dr_semdup = False\<rparr>"]
  by (simp add: forced_path_def Let_def)

section \<open>Repeated and unanswered texts\<close>

definition no_dup :: dup_result where
  "no_dup = \<lparr>dr_phash = False, dr_chromaprint = False, dr_semdup = False\<rparr>"

definition text_dup :: "bool \<Rightarrow> dup_result" where
  "text_dup m = no_dup\<lparr>dr_semdup := m\<rparr>"

lemma any_match_text_dup [simp]: "any_match (text_dup m) = m"
  by (simp add: text_dup_def no_dup_def any_match_def)

text \<open>The duplicate test of texts remembers every text it has embedded, not the banned ones: a
  text seen for the first time never matches, and the same text again within a day always
  does, so that a harmless text which was let through is put in the queue when it is repeated.
\<close>

theorem repeated_text_is_queued:
  assumes "bloom (sha t) = None" and "now \<le> later" and "later < now + from_seconds bloom_ttl"
    and "oa_categories oa = []" and "1 / 10 \<le> text_weighted default_category_weights oa"
    and "text_weighted default_category_weights oa < tier1_threshold"
  shows "case scan_semdup sha True now t bloom of (first, bloom1) \<Rightarrow> case scan_semdup sha True later t bloom1 of (second, _) \<Rightarrow>
     ro_action (build_routing_result oa [] (text_dup first) False) = Allow_Log
     \<and> ro_action (build_routing_result oa [] (text_dup second) False) = Soft_Warn_User_Queue"
proof -
  have s: "scan_semdup sha True now t bloom = (False, bloom(sha t \<mapsto> now + from_seconds bloom_ttl))"
    using assms(1) by (simp add: scan_semdup_def)
  have s2: "scan_semdup sha True later t (bloom(sha t \<mapsto> now + from_seconds bloom_ttl))
      = (True, bloom(sha t \<mapsto> now + from_seconds bloom_ttl))"
    using assms(3) by (simp add: scan_semdup_def)
  have img: "image_weighted default_category_weights [] = 0" by (simp add: image_weighted_def parent_scores_def max_of_def)
  have m: "max (text_weighted default_category_weights oa) 0 = text_weighted default_category_weights oa"
    using assms(5) by (simp add: max_def)
  have forced: "forced_path oa [] False = None" using assms(4) by (simp add: forced_path_def)
  have one: "threshold_tier (combined_score default_category_weights oa [] (text_dup False)) = Tier_0_Allow"
    using assms(6) by (simp add: combined_score_def img m threshold_tier_def tier1_threshold_def min_def)
  have two: "threshold_tier (combined_score default_category_weights oa [] (text_dup True)) = Tier_1_24h"
    using assms(5,6) by (simp add: combined_score_def img m threshold_tier_def tier1_threshold_def tier2_threshold_def
        dup_bump_setting_def min_def)
  show ?thesis
    by (simp add: s s2 build_routing_result_def route_def Let_def forced one two assms(4))
qed

lemma repeated_text_is_queued_witness:
  "case scan_semdup (\<lambda>t. t) True 5 ''see you at six'' (\<lambda>_. None) of (first, bloom1) \<Rightarrow>
     case scan_semdup (\<lambda>t. t) True 60000000 ''see you at six'' bloom1 of (second, _) \<Rightarrow>
     ro_action (build_routing_result \<lparr>oa_flagged = False, oa_scores = [(''harassment'', 2 / 10)], oa_categories = []\<rparr> [] (text_dup first) False) = Allow_Log
     \<and> ro_action (build_routing_result \<lparr>oa_flagged = False, oa_scores = [(''harassment'', 2 / 10)], oa_categories = []\<rparr> [] (text_dup second) False)
       = Soft_Warn_User_Queue"
  by (rule repeated_text_is_queued)
    (simp_all add: from_seconds_def bloom_ttl_def text_weighted_def max_of_def max_score_def max_default_def
      weight_of_def default_category_weights_def tier1_threshold_def)

text \<open>When the moderation model does not answer, a text is queued, and hidden when it was seen within the day.\<close>

lemma outage_is_queued:
  "ro_action (build_routing_result (scan_openai_text None) [] (text_dup m) False) = (if m then Hide_Content_Queue else Soft_Warn_User_Queue)"
  by (cases m) (simp_all add: build_routing_result_def route_def Let_def scan_openai_text_def forced_path_def combined_score_def
      text_weighted_def image_weighted_def parent_scores_def max_of_def max_score_def max_default_def weight_of_def
      default_category_weights_def threshold_tier_def tier1_threshold_def tier2_threshold_def tier3_threshold_def dup_bump_setting_def)

end
