(* ===== verification/Mod_Service.thy ===== *)
theory Mod_Service
  imports Mod_Score "HOL-Library.Product_Lexorder"
begin

text \<open>
  The endpoints and Celery tasks of moderation-svc: scans that open cases (app/routers/internal.py),
  reports (app/routers/reports.py), the moderator's case handling (app/routers/cases.py), deadlines
  (app/workers/sla_tasks.py), the propagation of actions (app/workers/propagation_tasks.py) and the
  DMCA workflow (app/routers/dmca.py, app/workers/dmca_tasks.py).
\<close>

section \<open>Scans\<close>

record scan_ctx =
  cx_subject_type :: "subject_type option"
  cx_subject_id :: "uuid option"
  cx_owner :: "uuid option"
  cx_idempotency_key :: "string option"

text \<open>A \<open>Numeric(3, 2)\<close> column keeps two decimals, halves rounded up (scores are not negative).\<close>

definition numeric_3_2 :: "rat \<Rightarrow> rat" where
  "numeric_3_2 x = of_int (floor (x * 100 + 1 / 2)) / 100"

definition new_auto_case :: "uuid \<Rightarrow> datetime \<Rightarrow> routing \<Rightarrow> subject_type \<Rightarrow> uuid \<Rightarrow> uuid \<Rightarrow> string option \<Rightarrow> mod_case" where
  "new_auto_case i now r ty subject owner key = \<lparr>mc_id = i, mc_kind = Ck_Auto,
     mc_subject_type = ty, mc_subject_id = subject,
     mc_owner = owner, mc_reporter = None, mc_score = Some (numeric_3_2 (ro_score r)), mc_forced_human = ro_forced_human r,
     mc_forced_reason = ro_forced_reason r, mc_status = Cs_Open, mc_tier = ro_tier r,
     mc_sla_due = Some (now + hours (int (case ro_sla_hours r of None \<Rightarrow> tier1_sla_hours | Some h \<Rightarrow> if h = 0 then tier1_sla_hours else h))),
     mc_sla_breached = None, mc_opened_at = now, mc_claimed_by = None, mc_claimed_at = None, mc_actioned_at = None,
     mc_actioned_by = None, mc_action_type = None, mc_second_reviewer = None, mc_idempotency_key = key, mc_parent = None\<rparr>"

text \<open>The unique idempotency key; absent keys never clash.\<close>

definition case_clash :: "mod_case \<Rightarrow> mod_case \<Rightarrow> bool" where
  "case_clash c d \<longleftrightarrow> mc_idempotency_key c \<noteq> None \<and> mc_idempotency_key c = mc_idempotency_key d"

definition add_case :: "mod_case \<Rightarrow> unit moderating" where
  "add_case c = db_insert cases_update cases (\<lambda>_. True) case_clash c"

text \<open>
  A context without subject or owner would put null into columns that do not allow it, and the
  flush at the commit fails.
\<close>

definition create_case_from_routing :: "routing \<Rightarrow> scan_ctx \<Rightarrow> string option \<Rightarrow> mod_case option moderating" where
  "create_case_from_routing r ctx key =
     (if ro_tier r = Tier_0_Allow \<and> \<not> ro_forced_human r then ret None
      else bind_c now_c (\<lambda>now.
        bind_c (if key = None \<or> key = Some [] then ret None
                else scalar_one_or_none cases (\<lambda>c. mc_idempotency_key c = key)) (\<lambda>existing. case existing of
          Some c \<Rightarrow> ret (Some c)
        | None \<Rightarrow> (case (cx_subject_id ctx, cx_owner ctx) of
            (Some subject, Some owner) \<Rightarrow> bind_c uuid4 (\<lambda>i.
              let c = new_auto_case i now r (case cx_subject_type ctx of None \<Rightarrow> Sj_Msg | Some t \<Rightarrow> t) subject owner key
              in seq_c (add_case c) (ret (Some c)))
          | _ \<Rightarrow> raise IntegrityError))))"

definition persist_scan_log :: "scan_log \<Rightarrow> unit moderating" where
  "persist_scan_log l = modify_table scan_logs_update scan_logs (\<lambda>ls. ls @ [l])"

record scan_response =
  sr_score :: rat
  sr_case :: "uuid option"
  sr_action :: route_action
  sr_tier :: priority_tier
  sr_forced_human :: bool

text \<open>The common tail of both synchronous scans.\<close>

definition scan_tail :: "routing \<Rightarrow> subject_type \<Rightarrow> string \<Rightarrow> string option \<Rightarrow> string option \<Rightarrow> scan_ctx \<Rightarrow> scan_response moderating" where
  "scan_tail r logged_type tool log_key case_key ctx =
     in_session (bind_c (case cx_subject_id ctx of Some i \<Rightarrow> ret i | None \<Rightarrow> uuid4) (\<lambda>subject.
       seq_c (persist_scan_log \<lparr>sl_subject_type = logged_type, sl_subject_id = subject,
          sl_idempotency_key = log_key, sl_tool = tool, sl_score = ro_score r\<rparr>)
       (bind_c (create_case_from_routing r ctx case_key) (\<lambda>c.
         seq_c commit_c (ret \<lparr>sr_score = ro_score r, sr_case = map_option mc_id c, sr_action = ro_action r,
           sr_tier = ro_tier r, sr_forced_human = ro_forced_human r\<rparr>)))))"

definition scan_text :: "openai_result option \<Rightarrow> bool \<Rightarrow> scan_ctx \<Rightarrow> scan_response moderating" where
  "scan_text answer semdup ctx =
     (let r = build_routing_result (scan_openai_text answer) [] (text_dup semdup) False
      in scan_tail r (case cx_subject_type ctx of None \<Rightarrow> Sj_Msg | Some t \<Rightarrow> t) ''openai_mod+semdup''
           (cx_idempotency_key ctx) (cx_idempotency_key ctx) ctx)"

text \<open>
  \<open>scan_phash\<close> computes the perceptual hash and leaves the match False for a later step that
  looks in the registry of banned images; the endpoint reads the answer as it is.
\<close>

definition scan_phash :: "(string \<times> nat) option \<Rightarrow> string option \<times> nat option \<times> bool" where
  "scan_phash hash = (case hash of None \<Rightarrow> (None, None, False) | Some (h, i) \<Rightarrow> (Some h, Some i, False))"

definition scan_image :: "rek_label list \<Rightarrow> (string \<times> nat) option \<Rightarrow> scan_ctx \<Rightarrow> scan_response moderating" where
  "scan_image labels hash ctx =
     (let r = build_routing_result \<lparr>oa_flagged = False, oa_scores = [], oa_categories = []\<rparr> labels
                \<lparr>dr_phash = snd (snd (scan_phash hash)), dr_chromaprint = False, dr_semdup = False\<rparr> False
      in scan_tail r (case cx_subject_type ctx of None \<Rightarrow> Sj_Portfolio_Item | Some t \<Rightarrow> t) ''rekognition+phash'' None None ctx)"

section \<open>Reports\<close>

record report_create =
  rc_subject_type :: subject_type
  rc_subject_id :: uuid
  rc_description :: string
  rc_screenshot :: "string option"

definition report_create_ok :: "report_create \<Rightarrow> bool" where
  "report_create_ok b \<longleftrightarrow> 10 \<le> length (rc_description b) \<and> length (rc_description b) \<le> 1000"

definition get_reporter_user_id :: "string option \<Rightarrow> exn + uuid" where
  "get_reporter_user_id header = (case header of
     None \<Rightarrow> Inl (HTTPException 401 ''Authentication required'')
   | Some t \<Rightarrow> if t = [] then Inl (HTTPException 401 ''Authentication required'')
       else (case parse_uuid t of None \<Rightarrow> Inl (HTTPException 401 ''Invalid user identity'') | Some u \<Rightarrow> Inr u))"

definition midnight :: "datetime \<Rightarrow> datetime" where
  "midnight t = days (date_of t)"

definition throttle_of :: "uuid \<Rightarrow> datetime \<Rightarrow> report_throttle \<Rightarrow> bool" where
  "throttle_of u day r \<longleftrightarrow> rt_reporter r = u \<and> rt_day r = day"

definition check_and_increment_throttle :: "uuid \<Rightarrow> nat \<Rightarrow> unit moderating" where
  "check_and_increment_throttle u limit = bind_c now_c (\<lambda>now.
     bind_c (scalar_one_or_none throttles (throttle_of u (midnight now))) (\<lambda>r. case r of
       None \<Rightarrow> modify_table throttles_update throttles (\<lambda>rs. rs @ [\<lparr>rt_reporter = u, rt_day = midnight now, rt_count = 1\<rparr>])
     | Some t \<Rightarrow> if limit \<le> rt_count t then raise (HTTPException 429 ''Report limit exceeded'')
         else modify_table throttles_update throttles
           (update_where (throttle_of u (midnight now)) (\<lambda>r. r\<lparr>rt_count := rt_count r + 1\<rparr>))))"

definition open_report_case :: "subject_type \<Rightarrow> uuid \<Rightarrow> mod_case \<Rightarrow> bool" where
  "open_report_case ty i c \<longleftrightarrow> mc_subject_type c = ty \<and> mc_subject_id c = i \<and> mc_status c = Cs_Open \<and> mc_kind c = Ck_Report"

definition new_report_case :: "uuid \<Rightarrow> datetime \<Rightarrow> subject_type \<Rightarrow> uuid \<Rightarrow> uuid \<Rightarrow> mod_case" where
  "new_report_case i now ty subject reporter = \<lparr>mc_id = i, mc_kind = Ck_Report, mc_subject_type = ty, mc_subject_id = subject,
     mc_owner = subject, mc_reporter = Some reporter, mc_score = None, mc_forced_human = False, mc_forced_reason = None,
     mc_status = Cs_Open, mc_tier = Tier_1_24h, mc_sla_due = Some (now + hours (int tier1_sla_hours)), mc_sla_breached = None,
     mc_opened_at = now, mc_claimed_by = None, mc_claimed_at = None, mc_actioned_at = None, mc_actioned_by = None,
     mc_action_type = None, mc_second_reviewer = None, mc_idempotency_key = None, mc_parent = None\<rparr>"

definition find_or_create_case :: "subject_type \<Rightarrow> uuid \<Rightarrow> uuid \<Rightarrow> mod_case moderating" where
  "find_or_create_case ty subject reporter =
     bind_c (scalar_one_or_none cases (open_report_case ty subject)) (\<lambda>existing. case existing of
       Some c \<Rightarrow> ret c
     | None \<Rightarrow> bind_c now_c (\<lambda>now. bind_c uuid4 (\<lambda>i.
         let c = new_report_case i now ty subject reporter in seq_c (add_case c) (ret c))))"

definition recent_reporters :: "subject_type \<Rightarrow> uuid \<Rightarrow> datetime \<Rightarrow> report list \<Rightarrow> nat" where
  "recent_reporters ty subject since rs = length (remdups (map rp_reporter
     (filter (\<lambda>r. rp_subject_type r = ty \<and> rp_subject_id r = subject \<and> since \<le> rp_created_at r) rs)))"

definition create_report :: "string option \<Rightarrow> report_create \<Rightarrow> report moderating" where
  "create_report header b = with_id (get_reporter_user_id header) (\<lambda>me.
     seq_c (check_and_increment_throttle me reports_per_user_per_day)
       (bind_c now_c (\<lambda>now. bind_c (select_all reports (\<lambda>_. True)) (\<lambda>rs.
         let n = recent_reporters (rc_subject_type b) (rc_subject_id b) (now - minutes 10) rs in
         seq_c (when_c (4 \<le> n) (publish_c (Message ''moderation.coordinated_attack_suspected''
             [(''subject_type'', JStr (str_subject (rc_subject_type b))), (''subject_id'', JStr (str_uuid (rc_subject_id b))),
              (''reporter_count'', JInt (int n + 1))])))
           (bind_c (find_or_create_case (rc_subject_type b) (rc_subject_id b) me) (\<lambda>c. bind_c uuid4 (\<lambda>i.
             let r = \<lparr>rp_id = i, rp_reporter = me, rp_subject_type = rc_subject_type b, rp_subject_id = rc_subject_id b,
                      rp_description = rc_description b, rp_screenshot = rc_screenshot b, rp_case = mc_id c, rp_created_at = now\<rparr> in
             seq_c (modify_table reports_update reports (\<lambda>rs. rs @ [r])) (seq_c commit_c
               (seq_c (publish_c (Message ''moderation.report_filed''
                   [(''report_id'', JStr (str_uuid i)), (''case_id'', JStr (str_uuid (mc_id c))),
                    (''subject_type'', JStr (str_subject (rc_subject_type b))), (''subject_id'', JStr (str_uuid (rc_subject_id b))),
                    (''reporter_user_id'', JStr (str_uuid me))]))
                 (ret r))))))))))"

section \<open>Handling a case\<close>

definition get_case_or_404 :: "uuid \<Rightarrow> mod_case moderating" where
  "get_case_or_404 i = bind_c (scalar_one_or_none cases (\<lambda>c. mc_id c = i)) (\<lambda>r. case r of
     None \<Rightarrow> raise (HTTPException 404 ''Case not found'') | Some c \<Rightarrow> ret c)"

definition save_case :: "uuid \<Rightarrow> (mod_case \<Rightarrow> mod_case) \<Rightarrow> unit moderating" where
  "save_case i f = modify_table cases_update cases (update_where (\<lambda>c. mc_id c = i) f)"

definition claim_row :: "uuid \<Rightarrow> datetime \<Rightarrow> mod_case \<Rightarrow> mod_case" where
  "claim_row me now c = c\<lparr>mc_status := Cs_In_Review, mc_claimed_by := Some me, mc_claimed_at := Some now\<rparr>"

definition claim_case :: "caller \<Rightarrow> uuid \<Rightarrow> unit moderating" where
  "claim_case who i = with_id (require_mod_role who) (\<lambda>me. bind_c (get_case_or_404 i) (\<lambda>c.
     if mc_status c \<noteq> Cs_Open then raise (HTTPException 409 ''cannot claim'')
     else bind_c now_c (\<lambda>now. seq_c (save_case i (claim_row me now)) commit_c)))"

definition release_row :: "mod_case \<Rightarrow> mod_case" where
  "release_row c = c\<lparr>mc_status := Cs_Open, mc_claimed_by := None, mc_claimed_at := None\<rparr>"

definition release_case :: "caller \<Rightarrow> uuid \<Rightarrow> unit moderating" where
  "release_case who i = with_id (require_mod_role who) (\<lambda>me. bind_c (get_case_or_404 i) (\<lambda>c.
     if mc_claimed_by c \<noteq> Some me then raise (HTTPException 403 ''You did not claim this case'')
     else seq_c (save_case i release_row) commit_c))"

record case_action_request =
  ca_type :: action_type
  ca_reason :: string
  ca_second_reviewer :: "uuid option"

definition dual_review_actions :: "action_type list" where
  "dual_review_actions = [Permanent_Ban, Delete_Account]"

definition action_row :: "uuid \<Rightarrow> case_action_request \<Rightarrow> datetime \<Rightarrow> mod_case \<Rightarrow> mod_case" where
  "action_row me b now c = c\<lparr>mc_actioned_at := Some now, mc_actioned_by := Some me, mc_action_type := Some (ca_type b),
     mc_second_reviewer := ca_second_reviewer b, mc_status := (if ca_type b = Dismiss then Cs_Dismissed else Cs_Actioned)\<rparr>"

definition add_action :: "mod_action \<Rightarrow> unit moderating" where
  "add_action a = modify_table actions_update actions (\<lambda>as. as @ [a])"

text \<open>\<open>dispatch_action.apply_async\<close>: a message to the Celery workers.\<close>

definition dispatch_message :: "mod_action \<Rightarrow> uuid option \<Rightarrow> message" where
  "dispatch_message a second = Message ''celery:mod.propagation.dispatch''
     [(''action_id'', JStr (str_uuid (ma_id a))), (''action_type'', JStr (str_action (ma_type a))),
      (''target_user_id'', JStr (str_uuid (ma_target_user a))), (''case_id'', JStr (str_uuid (ma_case a))),
      (''reason'', JStr (ma_reason a)), (''reviewer_id'', JStr (str_uuid (ma_reviewer a))),
      (''second_reviewer_id'', case second of None \<Rightarrow> JNull | Some u \<Rightarrow> JStr (str_uuid u))]"

definition action_guard :: "uuid \<Rightarrow> case_action_request \<Rightarrow> mod_case \<Rightarrow> exn option" where
  "action_guard me b c =
     (if mc_status c \<noteq> Cs_In_Review \<and> mc_status c \<noteq> Cs_Escalated
      then Some (HTTPException 409 ''Case must be in_review or escalated to take action'')
      else if ca_type b \<in> set dual_review_actions \<and> ca_second_reviewer b = None
      then Some (HTTPException 422 ''requires second_reviewer_id'')
      else if ca_type b \<in> set dual_review_actions \<and> ca_second_reviewer b = Some me
      then Some (HTTPException 422 ''second_reviewer_id must differ from the primary reviewer'')
      else if ca_type b = Dismiss \<and> mc_forced_human c
      then Some (HTTPException 422 ''Forced-human cases cannot be auto-dismissed'')
      else None)"

definition take_action :: "caller \<Rightarrow> uuid \<Rightarrow> case_action_request \<Rightarrow> (mod_action \<times> uuid) moderating" where
  "take_action who i b = with_id (require_mod_role who) (\<lambda>me. bind_c (get_case_or_404 i) (\<lambda>c.
     case action_guard me b c of
       Some e \<Rightarrow> raise e
     | None \<Rightarrow> bind_c now_c (\<lambda>now. bind_c uuid4 (\<lambda>k.
         let a = \<lparr>ma_id = k, ma_case = i, ma_type = ca_type b, ma_reviewer = me, ma_reason = ca_reason b,
                  ma_target_user = mc_owner c, ma_created_at = now, ma_propagation = Pr_Pending\<rparr> in
         seq_c (add_action a) (seq_c (save_case i (action_row me b now)) (seq_c commit_c
           (bind_c uuid4 (\<lambda>prop. seq_c (publish_c (dispatch_message a (ca_second_reviewer b))) (ret (a, prop))))))))))"

definition escalate_case :: "caller \<Rightarrow> uuid \<Rightarrow> unit moderating" where
  "escalate_case who i = with_id (require_mod_role who) (\<lambda>me. bind_c (get_case_or_404 i) (\<lambda>c.
     seq_c (save_case i (\<lambda>c. c\<lparr>mc_status := Cs_Escalated\<rparr>)) commit_c))"

definition reopened_case :: "uuid \<Rightarrow> datetime \<Rightarrow> mod_case \<Rightarrow> mod_case" where
  "reopened_case k now c = \<lparr>mc_id = k, mc_kind = mc_kind c, mc_subject_type = mc_subject_type c, mc_subject_id = mc_subject_id c,
     mc_owner = mc_owner c, mc_reporter = mc_reporter c, mc_score = None, mc_forced_human = mc_forced_human c,
     mc_forced_reason = mc_forced_reason c, mc_status = Cs_Open, mc_tier = mc_tier c, mc_sla_due = mc_sla_due c,
     mc_sla_breached = None, mc_opened_at = now, mc_claimed_by = None, mc_claimed_at = None, mc_actioned_at = None,
     mc_actioned_by = None, mc_action_type = None, mc_second_reviewer = None, mc_idempotency_key = None, mc_parent = Some (mc_id c)\<rparr>"

definition reopen_case :: "caller \<Rightarrow> uuid \<Rightarrow> mod_case moderating" where
  "reopen_case who i = with_id (require_super_admin who) (\<lambda>me. bind_c (get_case_or_404 i) (\<lambda>c.
     bind_c now_c (\<lambda>now. bind_c uuid4 (\<lambda>k.
       let d = reopened_case k now c in seq_c (add_case d) (seq_c commit_c (ret d))))))"

text \<open>The queue: most urgent tier first, then the earliest deadline, no deadline last.\<close>

definition due_order :: "datetime option \<Rightarrow> nat \<times> int" where
  "due_order d = (case d of None \<Rightarrow> (1, 0) | Some t \<Rightarrow> (0, t))"

definition queue_key :: "mod_case \<Rightarrow> int \<times> nat \<times> int" where
  "queue_key c = (- int (tier_level (mc_tier c)), due_order (mc_sla_due c))"

record queue_filter =
  qf_tier :: "priority_tier option"
  qf_overdue :: bool
  qf_subject_type :: "subject_type option"
  qf_forced_human :: "bool option"
  qf_assigned_to :: "uuid option"

definition in_queue :: "datetime \<Rightarrow> queue_filter \<Rightarrow> mod_case \<Rightarrow> bool" where
  "in_queue now f c \<longleftrightarrow> mc_status c \<in> set [Cs_Open, Cs_In_Review, Cs_Escalated]
     \<and> (case qf_tier f of None \<Rightarrow> True | Some t \<Rightarrow> mc_tier c = t)
     \<and> (qf_overdue f \<longrightarrow> (case mc_sla_due c of None \<Rightarrow> False | Some d \<Rightarrow> d \<le> now))
     \<and> (case qf_subject_type f of None \<Rightarrow> True | Some t \<Rightarrow> mc_subject_type c = t)
     \<and> (case qf_forced_human f of None \<Rightarrow> True | Some b \<Rightarrow> mc_forced_human c = b)
     \<and> (case qf_assigned_to f of None \<Rightarrow> True | Some u \<Rightarrow> mc_claimed_by c = Some u)"

definition get_queue :: "caller \<Rightarrow> queue_filter \<Rightarrow> nat \<Rightarrow> nat \<Rightarrow> mod_case list moderating" where
  "get_queue who f limit offset = with_id (require_mod_role who) (\<lambda>me. bind_c now_c (\<lambda>now.
     bind_c (select_all cases (in_queue now f)) (\<lambda>cs. ret (take limit (drop offset (sort_key queue_key cs))))))"

definition user_history :: "caller \<Rightarrow> uuid \<Rightarrow> nat \<Rightarrow> mod_case list moderating" where
  "user_history who u limit = with_id (require_mod_role who) (\<lambda>me.
     bind_c (select_all cases (\<lambda>c. mc_owner c = u)) (\<lambda>cs. ret (take limit (sort_key (\<lambda>c. - mc_opened_at c) cs))))"

section \<open>Deadlines\<close>

definition overdue :: "datetime \<Rightarrow> mod_case \<Rightarrow> bool" where
  "overdue now c \<longleftrightarrow> mc_status c \<in> set [Cs_Open, Cs_In_Review] \<and> mc_sla_breached c = None
     \<and> (case mc_sla_due c of None \<Rightarrow> False | Some d \<Rightarrow> d \<le> now)"

definition breach_message :: "datetime \<Rightarrow> mod_case \<Rightarrow> message" where
  "breach_message now c = Message ''moderation.case.sla_breached''
     [(''case_id'', JStr (str_uuid (mc_id c))), (''tier'', JStr (str_priority (mc_tier c))),
      (''breach_minutes'', JInt ((now - (case mc_sla_due c of None \<Rightarrow> 0 | Some d \<Rightarrow> d)) div minutes 1))]"

definition to_escalate :: "datetime \<Rightarrow> mod_case \<Rightarrow> bool" where
  "to_escalate cutoff c \<longleftrightarrow> mc_tier c = Tier_3_1h \<and> mc_status c = Cs_Open \<and> mc_claimed_by c = None
     \<and> (case mc_sla_breached c of None \<Rightarrow> False | Some b \<Rightarrow> b \<le> cutoff)"

definition escalated_message :: "mod_case \<Rightarrow> message" where
  "escalated_message c = Message ''moderation.case.escalated''
     [(''case_id'', JStr (str_uuid (mc_id c))), (''reason'', JStr ''sla_auto_escalate_30m'')]"

text \<open>The second query runs after an autoflush, on the rows the first loop marked.\<close>

definition sla_scan :: "(nat \<times> nat) moderating" where
  "sla_scan = in_session (bind_c now_c (\<lambda>now.
     bind_c (select_all cases (overdue now)) (\<lambda>late.
       seq_c (for_c late (\<lambda>c. publish_c (breach_message now c)))
         (seq_c (modify_table cases_update cases (update_where (overdue now) (\<lambda>c. c\<lparr>mc_sla_breached := Some now\<rparr>)))
           (bind_c (select_all cases (to_escalate (now - minutes 30))) (\<lambda>esc.
             seq_c (for_c esc (\<lambda>c. publish_c (escalated_message c)))
               (seq_c (modify_table cases_update cases
                    (update_where (to_escalate (now - minutes 30)) (\<lambda>c. c\<lparr>mc_status := Cs_Escalated\<rparr>)))
                 (seq_c commit_c (ret (length late, length esc))))))))))"

end
