(* ===== verification/Mod_Dmca.thy ===== *)
theory Mod_Dmca
  imports Mod_Service
begin

text \<open>
  The DMCA workflow of moderation-svc (app/routers/dmca.py, the DMCA endpoints of app/routers/cases.py,
  app/workers/dmca_tasks.py): a notice, its hiding after a day, the counter-notice and the task that
  ought to restore. The redis counters of the rate limit are a map from keys to counts; None for
  redis stands for an outage.
\<close>

section \<open>Intake\<close>

record dmca_create =
  dq_name :: string
  dq_address :: string
  dq_phone :: string
  dq_email :: string
  dq_authorized :: bool
  dq_sworn :: string
  dq_signature :: string
  dq_work :: string
  dq_work_url :: "string option"
  dq_target_type :: subject_type
  dq_target_subject :: uuid
  dq_target_url :: string

definition perjury :: "string \<Rightarrow> bool" where
  "perjury t \<longleftrightarrow> contains ''penalty of perjury'' (map lower_char t)"

text \<open>What the request class lets through.\<close>

definition dmca_create_ok :: "dmca_create \<Rightarrow> bool" where
  "dmca_create_ok b \<longleftrightarrow> 2 \<le> length (dq_name b) \<and> length (dq_name b) \<le> 200 \<and> 10 \<le> length (dq_address b)
     \<and> 7 \<le> length (dq_phone b) \<and> length (dq_phone b) \<le> 40 \<and> 6 \<le> length (dq_email b) \<and> length (dq_email b) \<le> 320
     \<and> 50 \<le> length (dq_sworn b) \<and> 2 \<le> length (dq_signature b) \<and> length (dq_signature b) \<le> 200
     \<and> 10 \<le> length (dq_work b) \<and> 10 \<le> length (dq_target_url b) \<and> dq_authorized b \<and> perjury (dq_sworn b)"

text \<open>The six descriptions of a defect are cut to their field number.\<close>

definition validate_dmca_fields :: "dmca_create \<Rightarrow> string list" where
  "validate_dmca_fields b =
     (if dq_authorized b then [] else [''Field 1''])
     @ (if dq_work b = [] \<and> (dq_work_url b = None \<or> dq_work_url b = Some []) then [''Field 2''] else [])
     @ (if dq_target_url b = [] then [''Field 3''] else [])
     @ (if dq_name b = [] \<or> dq_address b = [] \<or> dq_phone b = [] \<or> dq_email b = [] then [''Field 4''] else [])
     @ (if perjury (dq_sworn b) then [] else [''Field 5''])
     @ (if dq_signature b = [] then [''Field 6''] else [])"

type_synonym counts = "string \<Rightarrow> nat"

text \<open>The keys carry the UTC day as \<open>%Y%m%d\<close>, so their expiry after 24 hours never changes a count that is read.\<close>

definition ymd :: "datetime \<Rightarrow> string" where
  "ymd t = (case civil_from_days (date_of t) of (y, m, d) \<Rightarrow> pad0 4 (str_int y) @ pad0 2 (str_int m) @ pad0 2 (str_int d))"

definition dmca_keys :: "datetime \<Rightarrow> string \<Rightarrow> string \<Rightarrow> string \<times> string" where
  "dmca_keys now email ip = (''mod:dmca_rl:ip:'' @ ip @ '':'' @ ymd now, ''mod:dmca_rl:email:'' @ email @ '':'' @ ymd now)"

definition check_dmca_rate_limit :: "counts option \<Rightarrow> datetime \<Rightarrow> string \<Rightarrow> string \<Rightarrow> (exn + unit) \<times> counts option" where
  "check_dmca_rate_limit redis now email ip = (case redis of
     None \<Rightarrow> (Inr (), None)
   | Some m \<Rightarrow>
       (case dmca_keys now email ip of (ip_key, email_key) \<Rightarrow>
         let m1 = m(ip_key := m ip_key + 1); m2 = m1(email_key := m1 email_key + 1) in
         (if dmca_per_ip_per_day < m1 ip_key then Inl (HTTPException 429 ''Too many DMCA notices from this IP'')
          else if dmca_per_email_per_day < m2 email_key then Inl (HTTPException 429 ''Too many DMCA notices from this email'')
          else Inr (), Some m2)))"

definition dmca_case :: "uuid \<Rightarrow> datetime \<Rightarrow> dmca_create \<Rightarrow> mod_case" where
  "dmca_case i now b = \<lparr>mc_id = i, mc_kind = Ck_Dmca, mc_subject_type = dq_target_type b, mc_subject_id = dq_target_subject b,
     mc_owner = dq_target_subject b, mc_reporter = None, mc_score = None, mc_forced_human = True,
     mc_forced_reason = Some ''ip_claim'', mc_status = Cs_Open, mc_tier = Tier_2_6h,
     mc_sla_due = Some (now + hours (int tier2_sla_hours)), mc_sla_breached = None, mc_opened_at = now, mc_claimed_by = None,
     mc_claimed_at = None, mc_actioned_at = None, mc_actioned_by = None, mc_action_type = None, mc_second_reviewer = None,
     mc_idempotency_key = None, mc_parent = None\<rparr>"

definition new_notice :: "uuid \<Rightarrow> datetime \<Rightarrow> dmca_create \<Rightarrow> dmca_state \<Rightarrow> datetime option \<Rightarrow> string option \<Rightarrow> uuid option \<Rightarrow> dmca_notice" where
  "new_notice i now b st hide_at reason case_id = \<lparr>dn_id = i, dn_email = dq_email b, dn_target_type = dq_target_type b,
     dn_target_subject = dq_target_subject b, dn_target_user = dq_target_subject b, dn_received_at = now, dn_hide_at = hide_at,
     dn_hidden_at = None, dn_state = st, dn_rejection_reason = reason, dn_case = case_id\<rparr>"

definition add_notice :: "dmca_notice \<Rightarrow> unit moderating" where
  "add_notice n = modify_table notices_update notices (\<lambda>ns. ns @ [n])"

definition store_notice :: "dmca_create \<Rightarrow> dmca_notice moderating" where
  "store_notice b = in_session (bind_c now_c (\<lambda>now. bind_c uuid4 (\<lambda>i.
     let defects = validate_dmca_fields b in
     if defects \<noteq> [] then
       seq_c (add_notice (new_notice i now b Dm_Rejected_Defective None (Some (join ''; '' defects)) None))
         (seq_c commit_c (raise (HTTPException 422 ''Your DMCA notice was statutorily defective'')))
     else bind_c uuid4 (\<lambda>k.
       seq_c (add_case (dmca_case k now b))
         (let n = new_notice i now b Dm_Received (Some (now + hours 24)) None (Some k) in
          seq_c (add_notice n) (seq_c commit_c
            (seq_c (publish_c (Message ''dmca.notice_filed''
                [(''dmca_id'', JStr (str_uuid i)), (''case_id'', JStr (str_uuid k)),
                 (''target_user_id'', JStr (str_uuid (dn_target_user n))), (''hide_at'', JStr (iso_datetime (now + hours 24)))]))
              (ret n))))))))"

definition file_dmca_notice :: "string \<Rightarrow> dmca_create \<Rightarrow> counts option \<Rightarrow> mod_sess \<Rightarrow> (exn + dmca_notice) \<times> counts option \<times> mod_sess" where
  "file_dmca_notice ip b redis s = (case check_dmca_rate_limit redis (clock s) (dq_email b) ip of
     (Inl e, redis1) \<Rightarrow> (Inl e, redis1, s)
   | (Inr _, redis1) \<Rightarrow> (case store_notice b s of (r, s1) \<Rightarrow> (r, redis1, s1)))"

section \<open>Counter-notice and the moderator's decisions\<close>

definition get_notice :: "uuid \<Rightarrow> dmca_notice moderating" where
  "get_notice i = bind_c (scalar_one_or_none notices (\<lambda>n. dn_id n = i)) (\<lambda>r. case r of
     None \<Rightarrow> raise (HTTPException 404 ''DMCA notice not found'') | Some n \<Rightarrow> ret n)"

definition save_notice :: "uuid \<Rightarrow> (dmca_notice \<Rightarrow> dmca_notice) \<Rightarrow> unit moderating" where
  "save_notice i f = modify_table notices_update notices (update_where (\<lambda>n. dn_id n = i) f)"

definition counter_caller :: "string option \<Rightarrow> exn + uuid" where
  "counter_caller header = get_reporter_user_id header"

text \<open>One counter-notice per notice: \<open>dmca_id\<close> is unique.\<close>

definition add_counter :: "counter_notice \<Rightarrow> unit moderating" where
  "add_counter n = db_insert counters_update counters (\<lambda>_. True) (\<lambda>x y. cn_dmca x = cn_dmca y) n"

definition file_counter_notice :: "string option \<Rightarrow> uuid \<Rightarrow> string \<Rightarrow> counter_notice moderating" where
  "file_counter_notice header i token = with_id (counter_caller header) (\<lambda>me. bind_c (get_notice i) (\<lambda>n.
     if dn_target_user n \<noteq> me then raise (HTTPException 403 ''Only the target user may file a counter-notice'')
     else if dn_state n \<noteq> Dm_Hidden \<and> dn_state n \<noteq> Dm_Received then raise (HTTPException 409 ''Counter-notice cannot be filed'')
     else bind_c (select_all counters (\<lambda>c. cn_dmca c = i)) (\<lambda>cs.
       if cs \<noteq> [] then raise (HTTPException 409 ''A counter-notice was already filed for this DMCA notice'')
       else if length token < 10 then raise (HTTPException 401 ''Invalid counter-notice token'')
       else bind_c now_c (\<lambda>now. bind_c uuid4 (\<lambda>k.
         let c = \<lparr>cn_id = k, cn_dmca = i, cn_claimant = me, cn_received_at = now,
                  cn_window_end = Some (now + days dmca_statutory_window_days), cn_suit_filed_at = None, cn_restored_at = None,
                  cn_state = Cn_Received\<rparr> in
         seq_c (add_counter c) (seq_c (save_notice i (\<lambda>n. n\<lparr>dn_state := Dm_Counter_Pending\<rparr>)) (seq_c commit_c
           (seq_c (publish_c (Message ''dmca.counter_filed''
               [(''counter_id'', JStr (str_uuid k)), (''dmca_id'', JStr (str_uuid i)), (''target_user_id'', JStr (str_uuid me)),
                (''statutory_window_end'', JStr (iso_datetime (now + days dmca_statutory_window_days)))]))
             (ret c)))))))))"

definition mark_dmca_defective :: "caller \<Rightarrow> uuid \<Rightarrow> string \<Rightarrow> unit moderating" where
  "mark_dmca_defective who i reason = with_id (require_mod_role who) (\<lambda>me. bind_c (get_notice i) (\<lambda>n.
     if dn_state n \<noteq> Dm_Received then raise (HTTPException 409 ''Cannot mark defective'')
     else seq_c (save_notice i (\<lambda>n. n\<lparr>dn_state := Dm_Rejected_Defective, dn_rejection_reason := Some reason\<rparr>)) commit_c))"

definition mark_suit_filed :: "caller \<Rightarrow> uuid \<Rightarrow> unit moderating" where
  "mark_suit_filed who i = with_id (require_super_admin who) (\<lambda>me. bind_c (get_notice i) (\<lambda>n. bind_c now_c (\<lambda>now.
     seq_c (modify_table counters_update counters (update_where (\<lambda>c. cn_dmca c = i)
         (\<lambda>c. c\<lparr>cn_suit_filed_at := Some now, cn_state := Cn_Permanent_Taken_Down\<rparr>)))
       (seq_c (save_notice i (\<lambda>n. n\<lparr>dn_state := Dm_Permanent\<rparr>)) commit_c))))"

section \<open>Celery tasks\<close>

text \<open>A session that changes a case by its primary key, where the notice has one.\<close>

definition close_case :: "uuid option \<Rightarrow> action_type \<Rightarrow> datetime \<Rightarrow> unit moderating" where
  "close_case i ty now = (case i of None \<Rightarrow> ret ()
     | Some k \<Rightarrow> save_case k (\<lambda>c. c\<lparr>mc_status := Cs_Actioned, mc_action_type := Some ty, mc_actioned_at := Some now\<rparr>))"

definition due_to_hide :: "datetime \<Rightarrow> dmca_notice \<Rightarrow> bool" where
  "due_to_hide now n \<longleftrightarrow> dn_state n = Dm_Received \<and> (case dn_hide_at n of None \<Rightarrow> False | Some t \<Rightarrow> t \<le> now)"

definition hide_action :: "uuid \<Rightarrow> datetime \<Rightarrow> dmca_notice \<Rightarrow> mod_action" where
  "hide_action k now n = \<lparr>ma_id = k, ma_case = the (dn_case n), ma_type = Hide, ma_reviewer = dn_target_user n,
     ma_reason = ''DMCA notice 24h hide enacted automatically'', ma_target_user = dn_target_user n, ma_created_at = now,
     ma_propagation = Pr_Pending\<rparr>"

text \<open>\<open>case_id\<close> of an action may not be null: an action for a notice without a case is refused at the commit.\<close>

definition hide_one :: "datetime \<Rightarrow> dmca_notice \<Rightarrow> unit moderating" where
  "hide_one now n = bind_c uuid4 (\<lambda>k.
     seq_c (when_c (dn_case n \<noteq> None) (add_action (hide_action k now n)))
       (seq_c (close_case (dn_case n) Hide now)
         (seq_c (save_notice (dn_id n) (\<lambda>n. n\<lparr>dn_state := Dm_Hidden, dn_hidden_at := Some now\<rparr>))
           (publish_c (Message ''dmca.notice_filed_hidden''
              [(''dmca_id'', JStr (str_uuid (dn_id n))), (''target_user_id'', JStr (str_uuid (dn_target_user n)))])))))"

definition enact_dmca_hide :: "nat moderating" where
  "enact_dmca_hide = in_session (bind_c now_c (\<lambda>now. bind_c (select_all notices (due_to_hide now)) (\<lambda>ns.
     seq_c (for_c ns (hide_one now))
       (if list_ex (\<lambda>n. dn_case n = None) ns then raise IntegrityError else seq_c commit_c (ret (length ns))))))"

text \<open>
  The query names columns as attributes of their classes; an attribute the class does not
  have raises AttributeError while the query is built.
\<close>

definition window_closed :: "datetime \<Rightarrow> counter_notice \<Rightarrow> bool" where
  "window_closed now c \<longleftrightarrow> cn_state c = Cn_Received \<and> (case cn_window_end c of None \<Rightarrow> False | Some t \<Rightarrow> t \<le> now)"

definition restore_action :: "uuid \<Rightarrow> datetime \<Rightarrow> dmca_notice \<Rightarrow> counter_notice \<Rightarrow> mod_action" where
  "restore_action k now n c = \<lparr>ma_id = k, ma_case = the (dn_case n), ma_type = Restore, ma_reviewer = cn_claimant c,
     ma_reason = ''DMCA counter-notice 14-day statutory window expired'', ma_target_user = cn_claimant c, ma_created_at = now,
     ma_propagation = Pr_Pending\<rparr>"

definition restore_one :: "datetime \<Rightarrow> counter_notice \<Rightarrow> unit moderating" where
  "restore_one now c = bind_c (select_all notices (\<lambda>n. dn_id n = cn_dmca c)) (\<lambda>ns. case ns of
     [] \<Rightarrow> ret ()
   | n # _ \<Rightarrow> bind_c uuid4 (\<lambda>k.
       seq_c (when_c (dn_case n \<noteq> None) (add_action (restore_action k now n c)))
         (seq_c (save_notice (dn_id n) (\<lambda>n. n\<lparr>dn_state := Dm_Restored\<rparr>))
           (seq_c (modify_table counters_update counters (update_where (\<lambda>x. cn_id x = cn_id c)
               (\<lambda>x. x\<lparr>cn_state := Cn_Restored, cn_restored_at := Some now\<rparr>)))
             (seq_c (close_case (dn_case n) Restore now)
               (publish_c (Message ''dmca.restored''
                  [(''dmca_id'', JStr (str_uuid (dn_id n))), (''counter_id'', JStr (str_uuid (cn_id c))),
                   (''target_user_id'', JStr (str_uuid (cn_claimant c)))])))))))"

definition scan_counter_window :: "nat moderating" where
  "scan_counter_window = in_session (bind_c now_c (\<lambda>now.
     if ''suit_filed_notice_received_at'' \<notin> set dmca_notice_columns then raise (AttributeError ''suit_filed_notice_received_at'')
     else bind_c (select_all counters (window_closed now)) (\<lambda>cs.
       seq_c (for_c cs (restore_one now))
         (bind_c (select_all notices (\<lambda>n. dn_case n = None \<and> dn_id n \<in> set (map cn_dmca cs))) (\<lambda>bad.
           if bad \<noteq> [] then raise IntegrityError else seq_c commit_c (ret (length cs)))))))"

end
