(* ===== verification/Mod_Propagation.thy ===== *)
theory Mod_Propagation
  imports Mod_Dmca
begin

text \<open>
  How an action spreads (app/workers/propagation_tasks.py) and what the chat gate reads back
  (\<open>get_user_state\<close> of app/routers/internal.py). Sending a Celery task is a message whose routing key
  is \<open>celery:\<close> and the name of the task.
\<close>

section \<open>Dispatch\<close>

definition full_fan_out :: "string list" where
  "full_fan_out = [''auth_lockout'', ''badge_revoke'', ''chat_readonly'', ''subscription_pause'', ''notification_halt'',
     ''invite_cancel'', ''collab_pause'', ''support_ticket'', ''admin_audit'']"

definition tasks_to_dispatch :: "string \<Rightarrow> string list" where
  "tasks_to_dispatch ty =
     (if ty \<in> set [''permanent_ban'', ''delete_account''] then full_fan_out
      else if ty \<in> set [''temp_mute_1h'', ''temp_mute_24h'', ''temp_mute_7d''] then [''chat_readonly'', ''admin_audit'']
      else [''admin_audit''])"

record dispatch_args =
  da_action_id :: string
  da_type :: string
  da_target :: string
  da_case :: string
  da_reason :: string
  da_reviewer :: string
  da_second :: "string option"

definition dispatch_payload :: "dispatch_args \<Rightarrow> string \<Rightarrow> (string \<times> json) list" where
  "dispatch_payload a prop = [(''action_id'', JStr (da_action_id a)), (''action_type'', JStr (da_type a)),
     (''target_user_id'', JStr (da_target a)), (''case_id'', JStr (da_case a)), (''reason'', JStr (da_reason a)),
     (''reviewer_id'', JStr (da_reviewer a)),
     (''second_reviewer_id'', case da_second a of None \<Rightarrow> JNull | Some t \<Rightarrow> JStr t), (''propagation_id'', JStr prop)]"

definition dispatch_action :: "dispatch_args \<Rightarrow> (string \<times> nat) moderating" where
  "dispatch_action a = bind_c uuid4 (\<lambda>p. let body = dispatch_payload a (str_uuid p); ts = tasks_to_dispatch (da_type a) in
     seq_c (for_c ts (\<lambda>t. publish_c (Message (''celery:mod.propagation.'' @ t) [(''payload'', JObj body)])))
       (seq_c (publish_c (Message ''moderation.action_taken'' body)) (ret (str_uuid p, length ts))))"

text \<open>
  Each task emits its event and appends to the propagation log in a session of its own. A failure
  there, a malformed id or one of no action, is only logged.
\<close>

definition update_propagation_event :: "string \<Rightarrow> string \<Rightarrow> string \<Rightarrow> unit moderating" where
  "update_propagation_event action_id service st = (case parse_uuid action_id of
     None \<Rightarrow> ret ()
   | Some i \<Rightarrow> in_session (bind_c (select_all actions (\<lambda>a. ma_id a = i)) (\<lambda>as.
       if as = [] then ret ()
       else seq_c (modify_table propagations_update propagations
           (\<lambda>ps. ps @ [\<lparr>pl_action = i, pl_service = service, pl_status = st\<rparr>])) commit_c)))"

definition propagate :: "string \<Rightarrow> (string \<times> json) list \<Rightarrow> unit moderating" where
  "propagate service body =
     seq_c (publish_c (Message (''moderation.'' @ service) body))
       (case map_of body ''action_id'' of
          Some (JStr t) \<Rightarrow> update_propagation_event t service ''ok''
        | Some _ \<Rightarrow> ret ()
        | None \<Rightarrow> raise (KeyError ''action_id''))"

definition dispatch_action_reversal :: "string \<Rightarrow> string \<Rightarrow> string \<Rightarrow> string \<Rightarrow> unit moderating" where
  "dispatch_action_reversal original target reversal reason =
     publish_c (Message ''moderation.action_reversed''
       [(''original_action_id'', JStr original), (''reversal_action_id'', JStr reversal),
        (''target_user_id'', JStr target), (''reason'', JStr reason)])"

section \<open>The state of a user\<close>

record user_state =
  us_banned :: bool
  us_muted :: bool
  us_mute_expires :: "datetime option"
  us_active_cases :: nat

text \<open>
  What redis answers: it is down, or the values of the three keys of the user; the third is a
  text that the parameter \<open>fromiso\<close> parses. An import inside the function makes \<open>datetime\<close> a local
  name of all of it, bound only once the third value has been read: the fallback on the
  database can use the name only where that import has run.
\<close>

datatype redis_reply = Redis_Down | Redis_Values "string option" "string option" "string option"

definition mute_hours :: "action_type \<Rightarrow> int option" where
  "mute_hours ty = (case ty of Temp_Mute_1h \<Rightarrow> Some 1 | Temp_Mute_24h \<Rightarrow> Some 24 | Temp_Mute_7d \<Rightarrow> Some 168 | _ \<Rightarrow> None)"

definition restricts :: "action_type \<Rightarrow> bool" where
  "restricts ty \<longleftrightarrow> ty \<in> set [Permanent_Ban, Delete_Account, Temp_Mute_1h, Temp_Mute_24h, Temp_Mute_7d]"

fun state_from_actions :: "datetime \<Rightarrow> mod_action list \<Rightarrow> bool \<times> bool \<times> datetime option" where
  "state_from_actions now [] = (False, False, None)"
| "state_from_actions now (a # as) =
     (if ma_type a \<in> set dual_review_actions then (True, False, None)
      else case mute_hours (ma_type a) of
        None \<Rightarrow> state_from_actions now as
      | Some h \<Rightarrow> if now < ma_created_at a + hours h then (False, True, Some (ma_created_at a + hours h))
          else state_from_actions now as)"

definition newest_actions :: "uuid \<Rightarrow> mod_action list \<Rightarrow> mod_action list" where
  "newest_actions u as = take 5 (sort_key (\<lambda>a. - ma_created_at a) (filter (\<lambda>a. ma_target_user a = u \<and> restricts (ma_type a)) as))"

definition with_active_cases :: "uuid \<Rightarrow> bool \<times> bool \<times> datetime option \<Rightarrow> user_state moderating" where
  "with_active_cases u v = (case v of (banned, muted, expires) \<Rightarrow>
     bind_c (select_all cases (\<lambda>c. mc_owner c = u \<and> mc_status c \<in> set [Cs_Open, Cs_In_Review])) (\<lambda>cs.
       ret \<lparr>us_banned = banned, us_muted = muted, us_mute_expires = expires, us_active_cases = length cs\<rparr>))"

definition get_user_state :: "(string \<Rightarrow> datetime option) \<Rightarrow> redis_reply \<Rightarrow> uuid \<Rightarrow> user_state moderating" where
  "get_user_state fromiso redis u = in_session (case redis of
     Redis_Down \<Rightarrow> bind_c (select_all actions (\<lambda>_. True)) (\<lambda>_. raise (UnboundLocalError ''datetime''))
   | Redis_Values ban mute expires \<Rightarrow>
       (case expires of
          None \<Rightarrow> with_active_cases u (ban = Some ''1'', mute = Some ''1'', None)
        | Some t \<Rightarrow> if t = [] then with_active_cases u (ban = Some ''1'', mute = Some ''1'', None)
            else (case fromiso t of
              Some e \<Rightarrow> with_active_cases u (ban = Some ''1'', mute = Some ''1'', Some e)
            | None \<Rightarrow> bind_c now_c (\<lambda>now. bind_c (select_all actions (\<lambda>_. True)) (\<lambda>as.
                case state_from_actions now (newest_actions u as) of (b, m, x) \<Rightarrow>
                  with_active_cases u (b \<or> ban = Some ''1'', m \<or> mute = Some ''1'', x))))))"

end
