(* ===== verification/Mod_World.thy ===== *)
theory Mod_World
  imports Mod_Propagation "HOL-Library.Multiset"
begin

text \<open>
  moderation-svc as a whole: scans, reports, the moderators' handling of cases, the deadline scan,
  the DMCA workflow and the propagation tasks as one step function, and the invariant that
  every sequence of them keeps.
\<close>

section \<open>Requests\<close>

datatype mod_request =
    Scan_Text "openai_result option" bool scan_ctx
  | Scan_Image "rek_label list" "(string \<times> nat) option" scan_ctx
  | File_Report "string option" report_create
  | Claim caller uuid
  | Release caller uuid
  | Act caller uuid case_action_request
  | Escalate caller uuid
  | Reopen caller uuid
  | Scan_Sla
  | File_Notice string dmca_create "counts option"
  | File_Counter "string option" uuid string
  | Mark_Defective caller uuid string
  | Mark_Suit caller uuid
  | Enact_Hide
  | Scan_Counter
  | Dispatch dispatch_args
  | Propagate string "(string \<times> json) list"
  | Later nat

text \<open>Celery runs a propagation task only under the names it has registered.\<close>

fun moderate :: "mod_request \<Rightarrow> mod_sess \<Rightarrow> mod_sess" where
  "moderate (Scan_Text answer semdup ctx) s = snd (scan_text answer semdup ctx s)"
| "moderate (Scan_Image labels hash ctx) s = snd (scan_image labels hash ctx s)"
| "moderate (File_Report header b) s = snd (create_report header b s)"
| "moderate (Claim who i) s = snd (claim_case who i s)"
| "moderate (Release who i) s = snd (release_case who i s)"
| "moderate (Act who i b) s = snd (take_action who i b s)"
| "moderate (Escalate who i) s = snd (escalate_case who i s)"
| "moderate (Reopen who i) s = snd (reopen_case who i s)"
| "moderate Scan_Sla s = snd (sla_scan s)"
| "moderate (File_Notice ip b redis) s = snd (snd (file_dmca_notice ip b redis s))"
| "moderate (File_Counter header i token) s = snd (file_counter_notice header i token s)"
| "moderate (Mark_Defective who i reason) s = snd (mark_dmca_defective who i reason s)"
| "moderate (Mark_Suit who i) s = snd (mark_suit_filed who i s)"
| "moderate Enact_Hide s = snd (enact_dmca_hide s)"
| "moderate Scan_Counter s = snd (scan_counter_window s)"
| "moderate (Dispatch a) s = snd (dispatch_action a s)"
| "moderate (Propagate service body) s = (if service \<in> set full_fan_out then snd (propagate service body s) else s)"
| "moderate (Later us) s = s\<lparr>clock := clock s + int us\<rparr>"

definition moderate_all :: "mod_request list \<Rightarrow> mod_sess \<Rightarrow> mod_sess" where
  "moderate_all reqs s = fold moderate reqs s"

definition mod_start :: "datetime \<Rightarrow> uuid \<Rightarrow> mod_sess" where
  "mod_start t n = \<lparr>committed = empty_mod_db, work = empty_mod_db, outbox = [], clock = t, next_uuid = n\<rparr>"

section \<open>Invariant and history\<close>

text \<open>What a row of the queue satisfies, and what of it never changes.\<close>

definition row_ok :: "mod_case \<Rightarrow> bool" where
  "row_ok c \<longleftrightarrow> (mc_status c = Cs_Open \<longrightarrow> mc_claimed_by c = None) \<and> (mc_status c = Cs_In_Review \<longrightarrow> mc_claimed_by c \<noteq> None)
     \<and> (mc_forced_human c \<longrightarrow> mc_status c \<noteq> Cs_Dismissed)
     \<and> (mc_status c = Cs_Dismissed \<longrightarrow> mc_action_type c = Some Dismiss)
     \<and> (mc_status c = Cs_Actioned \<longrightarrow> mc_action_type c \<notin> set [None, Some Dismiss])
     \<and> (mc_action_type c \<in> Some ` set dual_review_actions \<longrightarrow> mc_second_reviewer c \<noteq> None \<and> mc_second_reviewer c \<noteq> mc_actioned_by c)"

definition case_identity :: "mod_case \<Rightarrow> uuid \<times> case_kind \<times> subject_type \<times> uuid \<times> uuid \<times> bool \<times> priority_tier
    \<times> datetime option \<times> datetime \<times> string option \<times> uuid option" where
  "case_identity c = (mc_id c, mc_kind c, mc_subject_type c, mc_subject_id c, mc_owner c, mc_forced_human c, mc_tier c,
     mc_sla_due c, mc_opened_at c, mc_idempotency_key c, mc_parent c)"

definition case_step :: "mod_case \<Rightarrow> mod_case \<Rightarrow> bool" where
  "case_step c d \<longleftrightarrow> case_identity d = case_identity c \<and> (mc_sla_breached c \<noteq> None \<longrightarrow> mc_sla_breached d = mc_sla_breached c)"

text \<open>The breaches announced so far and the cases marked as breached.\<close>

definition announced :: "message list \<Rightarrow> json option multiset" where
  "announced ms = mset (map (\<lambda>m. map_of (payload m) ''case_id'') (filter (\<lambda>m. routing_key m = ''moderation.case.sla_breached'') ms))"

definition breached :: "mod_case list \<Rightarrow> json option multiset" where
  "breached cs = mset (map (\<lambda>c. Some (JStr (str_uuid (mc_id c)))) (filter (\<lambda>c. mc_sla_breached c \<noteq> None) cs))"

definition keyed :: "mod_case list \<Rightarrow> string option list" where
  "keyed cs = filter (\<lambda>k. k \<noteq> None) (map mc_idempotency_key cs)"

definition cases_good :: "mod_case list \<Rightarrow> mod_case list \<Rightarrow> uuid \<Rightarrow> message list \<Rightarrow> bool" where
  "cases_good cs0 cs n ms \<longleftrightarrow> grows case_step cs0 cs \<and> distinct (map mc_id cs) \<and> distinct (keyed cs)
     \<and> (\<forall>c \<in> set cs. mc_id c < n \<and> row_ok c) \<and> announced ms = breached cs"

definition actions_good :: "mod_action list \<Rightarrow> mod_action list \<Rightarrow> bool" where
  "actions_good as0 as \<longleftrightarrow> grows (=) as0 as \<and> (\<forall>a \<in> set as. ma_propagation a = Pr_Pending)"

definition reports_on :: "uuid \<Rightarrow> datetime \<Rightarrow> report list \<Rightarrow> nat" where
  "reports_on u d rs = length (filter (\<lambda>r. rp_reporter r = u \<and> midnight (rp_created_at r) = d) rs)"

definition throttled :: "uuid \<Rightarrow> datetime \<Rightarrow> report_throttle list \<Rightarrow> nat" where
  "throttled u d ts = sum_list (map rt_count (filter (throttle_of u d) ts))"

definition about :: "report \<Rightarrow> mod_case \<Rightarrow> bool" where
  "about r c \<longleftrightarrow> mc_id c = rp_case r \<and> mc_kind c = Ck_Report \<and> mc_subject_type c = rp_subject_type r \<and> mc_subject_id c = rp_subject_id r"

definition reports_good :: "mod_case list \<Rightarrow> report list \<Rightarrow> report list \<Rightarrow> report_throttle list \<Rightarrow> bool" where
  "reports_good cs rs0 rs ts \<longleftrightarrow> grows (=) rs0 rs \<and> (\<forall>r \<in> set rs. \<exists>c \<in> set cs. about r c)
     \<and> distinct (map (\<lambda>t. (rt_reporter t, rt_day t)) ts) \<and> (\<forall>t \<in> set ts. rt_count t \<le> reports_per_user_per_day)
     \<and> (\<forall>u d. reports_on u d rs = throttled u d ts)"

definition notice_ok :: "dmca_notice \<Rightarrow> bool" where
  "notice_ok x \<longleftrightarrow> (dn_state x = Dm_Received \<longrightarrow> dn_hide_at x = Some (dn_received_at x + hours 24) \<and> dn_case x \<noteq> None \<and> dn_hidden_at x = None)
     \<and> (dn_state x = Dm_Hidden \<longrightarrow> dn_hidden_at x \<noteq> None)
     \<and> (\<forall>t \<in> set_option (dn_hidden_at x). dn_received_at x + hours 24 \<le> t) \<and> dn_state x \<noteq> Dm_Restored"

definition notice_step :: "dmca_notice \<Rightarrow> dmca_notice \<Rightarrow> bool" where
  "notice_step x y \<longleftrightarrow> dn_id y = dn_id x \<and> dn_target_user y = dn_target_user x \<and> dn_received_at y = dn_received_at x
     \<and> dn_case y = dn_case x \<and> (dn_hidden_at x \<noteq> None \<longrightarrow> dn_hidden_at y = dn_hidden_at x)
     \<and> (dn_state x \<noteq> Dm_Received \<longrightarrow> dn_state y \<noteq> Dm_Received)"

definition notices_good :: "dmca_notice list \<Rightarrow> dmca_notice list \<Rightarrow> uuid \<Rightarrow> bool" where
  "notices_good xs0 xs n \<longleftrightarrow> grows notice_step xs0 xs \<and> distinct (map dn_id xs) \<and> (\<forall>x \<in> set xs. dn_id x < n \<and> notice_ok x)"

definition counters_good :: "counter_notice list \<Rightarrow> bool" where
  "counters_good xs \<longleftrightarrow> distinct (map cn_dmca xs) \<and> (\<forall>x \<in> set xs. cn_state x \<noteq> Cn_Restored \<and> cn_restored_at x = None)"

definition mod_good :: "mod_db \<Rightarrow> mod_db \<Rightarrow> uuid \<Rightarrow> message list \<Rightarrow> bool" where
  "mod_good db0 db n ms \<longleftrightarrow> cases_good (cases db0) (cases db) n ms \<and> actions_good (actions db0) (actions db)
     \<and> reports_good (cases db) (reports db0) (reports db) (throttles db) \<and> notices_good (notices db0) (notices db) n
     \<and> counters_good (counters db)"

definition mod_state :: "mod_db \<Rightarrow> mod_sess \<Rightarrow> bool" where
  "mod_state db0 s \<longleftrightarrow> mod_good db0 (work s) (next_uuid s) (outbox s) \<and> mod_good db0 (committed s) (next_uuid s) (outbox s)"

section \<open>Changing one table\<close>

lemma case_step_refl [simp]: "case_step c c"
  by (simp add: case_step_def)

lemma case_step_trans: "case_step a b \<Longrightarrow> case_step b c \<Longrightarrow> case_step a c"
  by (auto simp: case_step_def)

lemma notice_step_refl [simp]: "notice_step x x"
  by (simp add: notice_step_def)

lemma notice_step_trans: "notice_step a b \<Longrightarrow> notice_step b c \<Longrightarrow> notice_step a c"
  by (auto simp: notice_step_def)

lemma grows_then_append: "(\<And>r. R r r) \<Longrightarrow> (\<And>a b c. R a b \<Longrightarrow> R b c \<Longrightarrow> R a c) \<Longrightarrow> grows R xs ys \<Longrightarrow> grows R xs (ys @ zs)"
  using grows_trans [of R xs ys "ys @ zs"] grows_append [of R ys zs] by blast

lemma mod_good_Suc: "mod_good db0 db n ms \<Longrightarrow> mod_good db0 db (Suc n) ms"
  by (auto simp: mod_good_def cases_good_def notices_good_def)

lemma cases_good_update:
  assumes good: "cases_good cs0 cs n ms"
    and f: "\<And>c. c \<in> set cs \<Longrightarrow> P c \<Longrightarrow> row_ok c \<Longrightarrow> row_ok (f c) \<and> case_identity (f c) = case_identity c \<and> mc_sla_breached (f c) = mc_sla_breached c"
  shows "cases_good cs0 (update_where P f cs) n ms"
proof -
  have f': "row_ok (f c)" "case_identity (f c) = case_identity c" "mc_sla_breached (f c) = mc_sla_breached c" if "c \<in> set cs" "P c" for c
    using f [OF that] good that(1) by (simp_all add: cases_good_def)
  have maps: "map mc_id (update_where P f cs) = map mc_id cs" "map mc_idempotency_key (update_where P f cs) = map mc_idempotency_key cs"
    using f'(2) by (auto simp: update_where_def case_identity_def)
  have "breached (update_where P f cs) = breached cs"
    using f'(2,3) by (induction cs) (auto simp: breached_def case_identity_def)
  moreover have "grows case_step cs (update_where P f cs)"
    using f'(2,3) by (intro grows_update) (simp_all add: case_step_def)
  then have "grows case_step cs0 (update_where P f cs)"
    using good grows_trans [of case_step cs0 cs] case_step_trans unfolding cases_good_def by blast
  moreover have "mc_id d < n \<and> row_ok d" if "d \<in> set (update_where P f cs)" for d
    using that good f'(1,2) by (auto simp: set_update_where cases_good_def case_identity_def)
  ultimately show ?thesis using good by (simp add: cases_good_def keyed_def maps)
qed

lemma reports_good_cases:
  assumes "reports_good cs rs0 rs ts" and "grows case_step cs cs'"
  shows "reports_good cs' rs0 rs ts"
proof -
  have "\<exists>d \<in> set cs'. about r d" if r: "r \<in> set rs" for r
  proof -
    obtain c where c: "c \<in> set cs" "about r c" using assms(1) r by (auto simp: reports_good_def)
    from grows_member [OF c(1) assms(2)] obtain d where "d \<in> set cs'" "case_step c d" .
    with c(2) show ?thesis by (auto simp: about_def case_step_def case_identity_def)
  qed
  with assms(1) show ?thesis by (simp add: reports_good_def)
qed

lemma mod_good_cases:
  assumes "mod_good db0 db n ms" and "cases_good (cases db) cs n' ms'" and "cases_good (cases db0) cs n' ms'" and "n \<le> n'"
  shows "mod_good db0 (db\<lparr>cases := cs\<rparr>) n' ms'"
  using assms reports_good_cases [of "cases db" "reports db0" "reports db" "throttles db" cs]
  by (force simp: mod_good_def cases_good_def notices_good_def)

lemma cases_good_self: "cases_good cs0 cs n ms \<Longrightarrow> cases_good cs cs n ms"
  by (auto simp: cases_good_def intro: grows_refl)

lemma mod_good_update:
  assumes good: "mod_good db0 db n ms"
    and f: "\<And>c. c \<in> set (cases db) \<Longrightarrow> P c \<Longrightarrow> row_ok c \<Longrightarrow> row_ok (f c) \<and> case_identity (f c) = case_identity c \<and> mc_sla_breached (f c) = mc_sla_breached c"
  shows "mod_good db0 (db\<lparr>cases := update_where P f (cases db)\<rparr>) n ms"
proof -
  have c: "cases_good (cases db0) (cases db) n ms" using good by (simp add: mod_good_def)
  from mod_good_cases [OF good cases_good_update [OF cases_good_self [OF c]] cases_good_update [OF c]] f
  show ?thesis by simp
qed

lemma keeps_cases_update:
  assumes "\<And>c. P c \<Longrightarrow> row_ok c \<Longrightarrow> row_ok (f c) \<and> case_identity (f c) = case_identity c \<and> mc_sla_breached (f c) = mc_sla_breached c"
  shows "keeps (mod_state db0) (modify_table cases_update cases (update_where P f))"
  using mod_good_update [of db0 _ _ _ P f] assms by (auto simp: keeps_def modify_run mod_state_def)

lemma cases_good_new:
  assumes good: "cases_good cs0 cs n ms" and c: "mc_id c = n" "row_ok c" "mc_sla_breached c = None"
    and key: "\<not> list_ex (case_clash c) cs"
  shows "cases_good cs0 (cs @ [c]) (Suc n) ms"
proof -
  have "n \<notin> mc_id ` set cs" using good by (auto simp: cases_good_def)
  moreover have "mc_idempotency_key c \<noteq> None \<Longrightarrow> mc_idempotency_key c \<notin> set (keyed cs)"
    using key by (auto simp: list_ex_iff case_clash_def keyed_def)
  moreover have "grows case_step cs0 (cs @ [c])"
    using good by (intro grows_then_append [OF case_step_refl case_step_trans]) (auto simp: cases_good_def)
  ultimately show ?thesis using good c
    by (auto simp: cases_good_def keyed_def breached_def less_Suc_eq)
qed

lemma mod_good_new:
  assumes "mod_good db0 db n ms" and "mc_id c = n" "row_ok c" "mc_sla_breached c = None" "\<not> list_ex (case_clash c) (cases db)"
  shows "mod_good db0 (db\<lparr>cases := cases db @ [c]\<rparr>) (Suc n) ms"
proof -
  have c: "cases_good (cases db0) (cases db) n ms" using assms(1) by (simp add: mod_good_def)
  show ?thesis
    by (rule mod_good_cases [OF assms(1) cases_good_new [OF cases_good_self [OF c]] cases_good_new [OF c]])
      (use assms(2-) in simp_all)
qed

lemma keeps_mod_basic:
  "keeps (mod_state db0) commit_c" "keeps (mod_state db0) uuid4"
  "keeps (mod_state db0) (modify_table scan_logs_update scan_logs g1)"
  "keeps (mod_state db0) (modify_table propagations_update propagations g2)"
  by (auto simp: keeps_def comp_simps mod_state_def mod_good_Suc) (simp_all add: mod_good_def)

lemma keeps_mod_session: "keeps (mod_state db0) m \<Longrightarrow> keeps (mod_state db0) (in_session m)"
  by (auto simp: keeps_def in_session_def mod_state_def split: prod.split)
    (metis (mono_tags, lifting) snd_conv sess.select_convs sess.surjective sess.update_convs(2))+

lemma announced_other: "routing_key m \<noteq> ''moderation.case.sla_breached'' \<Longrightarrow> announced (ms @ [m]) = announced ms"
  by (simp add: announced_def)

lemma mod_good_publish: "routing_key m \<noteq> ''moderation.case.sla_breached'' \<Longrightarrow> mod_good db0 db n ms \<Longrightarrow> mod_good db0 db n (ms @ [m])"
  by (simp add: mod_good_def cases_good_def announced_other)

lemma keeps_mod_publish: "routing_key m \<noteq> ''moderation.case.sla_breached'' \<Longrightarrow> keeps (mod_state db0) (publish_c m)"
  by (simp add: keeps_def publish_run mod_state_def mod_good_publish)

named_theorems mod_kept \<open>operations that keep the invariant of moderation-svc\<close>

declare keeps_mod_basic [mod_kept] keeps_mod_session [mod_kept] keeps_intros [mod_kept] keeps_select [mod_kept]
  keeps_scalar [mod_kept] keeps_ret [mod_kept] keeps_raise [mod_kept] keeps_now [mod_kept]

lemma keeps_with_id: "(\<And>u. keeps (mod_state db0) (m u)) \<Longrightarrow> keeps (mod_state db0) (with_id who m)"
  by (auto simp: with_id_def intro: keeps_mod_session split: sum.split)

lemma keeps_mod_get [mod_kept]: "keeps I (get_case_or_404 i)" "keeps I (get_notice i)"
  by (auto simp: get_case_or_404_def get_notice_def intro!: keeps_bind split: option.split)

lemma keeps_save_case:
  assumes "\<And>c. row_ok c \<Longrightarrow> row_ok (f c) \<and> case_identity (f c) = case_identity c \<and> mc_sla_breached (f c) = mc_sla_breached c"
  shows "keeps (mod_state db0) (save_case i f)"
  unfolding save_case_def by (rule keeps_cases_update) (use assms in blast)

lemma keeps_add_action: "ma_propagation a = Pr_Pending \<Longrightarrow> keeps (mod_state db0) (add_action a)"
  using grows_then_append [of "(=)" "actions db0" _ "[a]"]
  by (auto simp: keeps_def add_action_def modify_run mod_state_def mod_good_def actions_good_def)

lemma keeps_new_case:
  assumes "\<And>i. mc_id (mk i) = i \<and> row_ok (mk i) \<and> mc_sla_breached (mk i) = None" and "\<And>i. keeps (mod_state db0) (k i)"
  shows "keeps (mod_state db0) (bind_c uuid4 (\<lambda>i. seq_c (add_case (mk i)) (k i)))"
proof
  fix s assume s: "mod_state db0 s"
  let ?i = "next_uuid s"
  let ?w = "(work s)\<lparr>cases := cases (work s) @ [mk ?i]\<rparr>"
  have new: "mod_state db0 (s\<lparr>next_uuid := Suc ?i, work := ?w\<rparr>)" if "\<not> list_ex (case_clash (mk ?i)) (cases (work s))"
    using that s assms(1) mod_good_new [of db0 "work s" ?i "outbox s" "mk ?i"] by (simp add: mod_state_def mod_good_Suc)
  have old: "mod_state db0 (s\<lparr>next_uuid := Suc ?i\<rparr>)" using s by (simp add: mod_state_def mod_good_Suc)
  show "mod_state db0 (snd (bind_c uuid4 (\<lambda>i. seq_c (add_case (mk i)) (k i)) s))"
    using old keepsD [OF assms(2) new] by (simp add: bind_run uuid4_run seq_run add_case_def insert_run)
qed

section \<open>Scans and the handling of cases\<close>

lemma new_rows_ok:
  "row_ok (new_auto_case i t r ty subject owner key)" "row_ok (new_report_case i t ty subject u)"
  "row_ok (reopened_case i t c)" "row_ok (dmca_case i t b)" "row_ok c \<Longrightarrow> row_ok (claim_row me t c)"
  "row_ok c \<Longrightarrow> row_ok (release_row c)"
  by (auto simp: row_ok_def new_auto_case_def new_report_case_def reopened_case_def dmca_case_def claim_row_def release_row_def)

lemma new_rows_facts:
  "mc_id (new_auto_case i t r ty subject owner key) = i" "mc_id (new_report_case i t ty subject u) = i"
  "mc_id (reopened_case i t c) = i" "mc_id (dmca_case i t b) = i"
  "mc_sla_breached (new_auto_case i t r ty subject owner key) = None" "mc_sla_breached (new_report_case i t ty subject u) = None"
  "mc_sla_breached (reopened_case i t c) = None" "mc_sla_breached (dmca_case i t b) = None"
  "case_identity (claim_row u t c) = case_identity c" "mc_sla_breached (claim_row u t c) = mc_sla_breached c"
  "case_identity (release_row c) = case_identity c" "mc_sla_breached (release_row c) = mc_sla_breached c"
  by (simp_all add: new_auto_case_def new_report_case_def reopened_case_def dmca_case_def claim_row_def release_row_def case_identity_def)

lemma keeps_routing_case [mod_kept]: "keeps (mod_state db0) (create_case_from_routing r ctx key)"
  unfolding create_case_from_routing_def Let_def
  by (auto intro!: keeps_bind keeps_new_case simp: new_rows_ok new_rows_facts split: option.split)

lemma keeps_scan_tail [mod_kept]: "keeps (mod_state db0) (scan_tail r ty tool k1 k2 ctx)"
  unfolding scan_tail_def persist_scan_log_def
  by (intro mod_kept) (auto intro: mod_kept split: option.split)

lemma keeps_claim: "keeps (mod_state db0) (claim_case who i)"
  unfolding claim_case_def
  by (intro keeps_with_id keeps_bind mod_kept)
    (auto intro!: keeps_bind keeps_seq keeps_save_case mod_kept simp: new_rows_ok new_rows_facts)

lemma keeps_release: "keeps (mod_state db0) (release_case who i)"
  unfolding release_case_def
  by (intro keeps_with_id keeps_bind mod_kept)
    (auto intro!: keeps_seq keeps_save_case mod_kept simp: new_rows_ok new_rows_facts)

lemma keeps_escalate: "keeps (mod_state db0) (escalate_case who i)"
  unfolding escalate_case_def
  by (intro keeps_with_id keeps_bind keeps_seq keeps_save_case mod_kept) (auto simp: row_ok_def case_identity_def)

lemma keeps_reopen: "keeps (mod_state db0) (reopen_case who i)"
  unfolding reopen_case_def Let_def
  by (intro keeps_with_id keeps_bind keeps_new_case mod_kept) (auto simp: new_rows_ok new_rows_facts intro: mod_kept)

lemma keeps_case_bind:
  assumes "\<And>c s. mod_state db0 s \<Longrightarrow> c \<in> set (cases (work s)) \<Longrightarrow> mc_id c = i \<Longrightarrow> mod_state db0 (snd (body c s))"
  shows "keeps (mod_state db0) (bind_c (get_case_or_404 i) body)"
proof
  fix s assume s: "mod_state db0 s"
  consider (none) "filter (\<lambda>c. mc_id c = i) (cases (work s)) = []" | (one) c where "filter (\<lambda>c. mc_id c = i) (cases (work s)) = [c]"
    | (many) "one_or_none (filter (\<lambda>c. mc_id c = i) (cases (work s))) = Inl MultipleResultsFound"
    by (cases "filter (\<lambda>c. mc_id c = i) (cases (work s))" rule: remdups_adj.cases) auto
  then show "mod_state db0 (snd (bind_c (get_case_or_404 i) body s))"
  proof cases
    case (one c)
    then have "c \<in> set (filter (\<lambda>c. mc_id c = i) (cases (work s)))" by simp
    then have "c \<in> set (cases (work s))" "mc_id c = i" by simp_all
    with assms [OF s this] one show ?thesis by (simp add: bind_run get_case_or_404_def scalar_run ret_run)
  qed (use s in \<open>simp_all add: bind_run get_case_or_404_def scalar_run raise_run\<close>)
qed

lemma same_case: "mod_good db0 db n ms \<Longrightarrow> c \<in> set (cases db) \<Longrightarrow> d \<in> set (cases db) \<Longrightarrow> mc_id d = mc_id c \<Longrightarrow> d = c"
  by (auto simp: mod_good_def cases_good_def distinct_map dest: inj_onD)

lemma keeps_save_this:
  assumes s: "mod_state db0 s" and c: "c \<in> set (cases (work s))"
    and f: "row_ok c \<Longrightarrow> row_ok (f c) \<and> case_identity (f c) = case_identity c \<and> mc_sla_breached (f c) = mc_sla_breached c"
  shows "mod_state db0 (snd (save_case (mc_id c) f s))"
proof -
  have w: "mod_good db0 (work s) (next_uuid s) (outbox s)" using s by (simp add: mod_state_def)
  have "mod_good db0 ((work s)\<lparr>cases := update_where (\<lambda>d. mc_id d = mc_id c) f (cases (work s))\<rparr>) (next_uuid s) (outbox s)"
  proof (rule mod_good_update [OF w])
    fix d assume "d \<in> set (cases (work s))" "mc_id d = mc_id c" "row_ok d"
    then show "row_ok (f d) \<and> case_identity (f d) = case_identity d \<and> mc_sla_breached (f d) = mc_sla_breached d"
      using same_case [OF w c] f by blast
  qed
  with s show ?thesis by (simp add: save_case_def modify_run mod_state_def)
qed

lemma action_guard_None:
  "action_guard me b c = None \<longleftrightarrow> (mc_status c = Cs_In_Review \<or> mc_status c = Cs_Escalated)
     \<and> (ca_type b \<in> set dual_review_actions \<longrightarrow> ca_second_reviewer b \<noteq> None \<and> ca_second_reviewer b \<noteq> Some me)
     \<and> \<not> (ca_type b = Dismiss \<and> mc_forced_human c)"
  unfolding action_guard_def by simp

lemma action_row_ok:
  assumes "action_guard me b c = None" and "row_ok c"
  shows "row_ok (action_row me b t c) \<and> case_identity (action_row me b t c) = case_identity c
    \<and> mc_sla_breached (action_row me b t c) = mc_sla_breached c"
proof -
  have g: "ca_type b \<in> set dual_review_actions \<Longrightarrow> ca_second_reviewer b \<noteq> None \<and> ca_second_reviewer b \<noteq> Some me"
    "ca_type b = Dismiss \<Longrightarrow> \<not> mc_forced_human c"
    using assms(1) unfolding action_guard_None by blast+
  have "Some (ca_type b) \<in> Some ` set dual_review_actions \<longleftrightarrow> ca_type b \<in> set dual_review_actions" by blast
  with g show ?thesis by (cases "ca_type b = Dismiss") (simp_all add: row_ok_def action_row_def case_identity_def)
qed

lemma keeps_action: "keeps (mod_state db0) (take_action who i b)"
  unfolding take_action_def
proof (rule keeps_with_id, rule keeps_case_bind)
  fix me c s
  assume s: "mod_state db0 s" and c: "c \<in> set (cases (work s))" "mc_id c = i"
  let ?a = "\<lambda>k now. \<lparr>ma_id = k, ma_case = i, ma_type = ca_type b, ma_reviewer = me, ma_reason = ca_reason b,
      ma_target_user = mc_owner c, ma_created_at = now, ma_propagation = Pr_Pending\<rparr>"
  let ?rest = "\<lambda>k now. seq_c commit_c (bind_c uuid4 (\<lambda>prop. seq_c (publish_c (dispatch_message (?a k now) (ca_second_reviewer b))) (ret (?a k now, prop))))"
  show "mod_state db0 (snd ((case action_guard me b c of Some e \<Rightarrow> raise e
     | None \<Rightarrow> bind_c now_c (\<lambda>now. bind_c uuid4 (\<lambda>k. let a = ?a k now in
         seq_c (add_action a) (seq_c (save_case i (action_row me b now)) (seq_c commit_c
           (bind_c uuid4 (\<lambda>prop. seq_c (publish_c (dispatch_message a (ca_second_reviewer b))) (ret (a, prop))))))))) s))"
  proof (cases "action_guard me b c")
    case None
    let ?s1 = "snd (add_action (?a (next_uuid s) (clock s)) (s\<lparr>next_uuid := Suc (next_uuid s)\<rparr>))"
    have "mod_state db0 (snd (uuid4 s))" by (rule keepsD [OF keeps_mod_basic(2) s])
    then have "mod_state db0 ?s1" using keepsD [OF keeps_add_action] by (simp add: uuid4_run)
    moreover have "c \<in> set (cases (work ?s1))" using c by (simp add: add_action_def modify_run)
    ultimately have "mod_state db0 (snd (save_case i (action_row me b (clock s)) ?s1))"
      using keeps_save_this [of db0 ?s1 c] action_row_ok [OF None] c(2) by simp
    moreover have "keeps (mod_state db0) (?rest (next_uuid s) (clock s))"
      by (intro mod_kept keeps_mod_publish) (simp add: dispatch_message_def)
    ultimately have "mod_state db0 (snd (?rest (next_uuid s) (clock s) (snd (save_case i (action_row me b (clock s)) ?s1))))"
      by (rule keepsD [rotated])
    with None show ?thesis
      by (simp add: bind_run now_run uuid4_run Let_def seq_run add_action_def save_case_def modify_run)
  qed (use s in \<open>simp add: raise_run\<close>)
qed

section \<open>Deadlines\<close>

lemma for_publish_run: "for_c xs (\<lambda>x. publish_c (f x)) s = (Inr (), s\<lparr>outbox := outbox s @ map f xs\<rparr>)"
  by (induction xs arbitrary: s) (simp_all add: comp_simps)

definition mark_late :: "datetime \<Rightarrow> mod_case list \<Rightarrow> mod_case list" where
  "mark_late now cs = update_where (overdue now) (\<lambda>c. c\<lparr>mc_sla_breached := Some now\<rparr>) cs"

definition escalate_late :: "datetime \<Rightarrow> mod_case list \<Rightarrow> mod_case list" where
  "escalate_late now cs = update_where (to_escalate (now - minutes 30)) (\<lambda>c. c\<lparr>mc_status := Cs_Escalated\<rparr>) cs"

text \<open>What the scan leaves: messages for the late cases, then for the cases it escalates, and both changes committed.\<close>

lemma sla_scan_run:
  "sla_scan s = (let now = clock s; db = committed s; late = filter (overdue now) (cases db); cs = mark_late now (cases db);
       esc = filter (to_escalate (now - minutes 30)) cs; db' = db\<lparr>cases := escalate_late now cs\<rparr> in
     (Inr (length late, length esc), s\<lparr>work := db', committed := db', outbox := outbox s @ map (breach_message now) late @ map escalated_message esc\<rparr>))"
  by (simp add: sla_scan_def in_session_def bind_run now_run select_run seq_run for_publish_run modify_run commit_run ret_run
      mark_late_def escalate_late_def Let_def)

lemma announced_scan:
  "announced (ms @ map (breach_message now) late @ map escalated_message esc)
     = announced ms + mset (map (\<lambda>c. Some (JStr (str_uuid (mc_id c)))) late)"
  by (simp add: announced_def breach_message_def escalated_message_def filter_map comp_def)

lemma breached_mark: "breached (mark_late now cs) = breached cs + mset (map (\<lambda>c. Some (JStr (str_uuid (mc_id c)))) (filter (overdue now) cs))"
  by (induction cs) (auto simp: mark_late_def breached_def overdue_def)

lemma cases_good_mark:
  assumes "cases_good cs0 cs n ms"
  shows "cases_good cs0 (mark_late now cs) n (ms @ map (breach_message now) (filter (overdue now) cs) @ map escalated_message esc)"
proof -
  have maps: "map mc_id (mark_late now cs) = map mc_id cs" "map mc_idempotency_key (mark_late now cs) = map mc_idempotency_key cs"
    by (simp_all add: mark_late_def update_where_def)
  have "grows case_step cs (mark_late now cs)"
    unfolding mark_late_def by (rule grows_update) (simp_all add: case_step_def case_identity_def overdue_def)
  then have "grows case_step cs0 (mark_late now cs)"
    using assms grows_trans [of case_step cs0 cs] case_step_trans unfolding cases_good_def by blast
  moreover have "mc_id d < n \<and> row_ok d" if "d \<in> set (mark_late now cs)" for d
    using that assms by (auto simp: mark_late_def set_update_where cases_good_def row_ok_def)
  ultimately show ?thesis using assms by (simp add: cases_good_def keyed_def maps announced_scan breached_mark)
qed

lemma mod_good_sla:
  assumes "mod_good db0 db n ms"
  shows "mod_good db0 (db\<lparr>cases := escalate_late now (mark_late now (cases db))\<rparr>) n
     (ms @ map (breach_message now) (filter (overdue now) (cases db)) @ map escalated_message esc)" (is "mod_good _ _ _ ?ms")
proof -
  have esc: "row_ok c \<Longrightarrow> to_escalate t c \<Longrightarrow> row_ok (c\<lparr>mc_status := Cs_Escalated\<rparr>)" for c t
    by (simp add: row_ok_def)
  have up: "cases_good cs0 (escalate_late now (mark_late now (cases db))) n ?ms" if "cases_good cs0 (cases db) n ms" for cs0
    unfolding escalate_late_def
    by (rule cases_good_update [OF cases_good_mark [OF that]]) (auto simp: case_identity_def intro: esc)
  have c: "cases_good (cases db0) (cases db) n ms" using assms by (simp add: mod_good_def)
  show ?thesis by (rule mod_good_cases [OF assms up [OF cases_good_self [OF c]] up [OF c]]) simp
qed

lemma keeps_sla: "keeps (mod_state db0) sla_scan"
  by (auto simp: keeps_def sla_scan_run Let_def mod_state_def intro: mod_good_sla)

end
