(* ===== verification/Mod_Safety.thy ===== *)
theory Mod_Safety
  imports Mod_World
begin

text \<open>
  Reports, the DMCA workflow and propagation keep the invariant of moderation-svc, and what the
  invariant says of the service in every sequence of requests.
\<close>

section \<open>Reports\<close>

text \<open>The row counting a reporter's reports of a day, one higher.\<close>

definition bump :: "uuid \<Rightarrow> datetime \<Rightarrow> report_throttle list \<Rightarrow> report_throttle list" where
  "bump u d ts = (if filter (throttle_of u d) ts = [] then ts @ [\<lparr>rt_reporter = u, rt_day = d, rt_count = 1\<rparr>]
     else update_where (throttle_of u d) (\<lambda>r. r\<lparr>rt_count := rt_count r + 1\<rparr>) ts)"

lemma throttle_run:
  "check_and_increment_throttle u limit s = (let d = midnight (clock s); ts = throttles (work s) in
     case one_or_none (filter (throttle_of u d) ts) of
       Inl e \<Rightarrow> (Inl e, s)
     | Inr (Some t) \<Rightarrow> if limit \<le> rt_count t then (Inl (HTTPException 429 ''Report limit exceeded''), s)
         else (Inr (), s\<lparr>work := (work s)\<lparr>throttles := bump u d ts\<rparr>\<rparr>)
     | Inr None \<Rightarrow> (Inr (), s\<lparr>work := (work s)\<lparr>throttles := bump u d ts\<rparr>\<rparr>))"
proof (cases "one_or_none (filter (throttle_of u (midnight (clock s))) (throttles (work s)))")
  case (Inr r)
  then show ?thesis
    by (cases r) (auto simp: check_and_increment_throttle_def bind_run now_run scalar_run modify_run raise_run Let_def bump_def
        dest: one_or_none_NoneD one_or_none_SomeD)
qed (simp add: check_and_increment_throttle_def bind_run now_run scalar_run Let_def)

lemma throttled_append: "throttled u d (xs @ ys) = throttled u d xs + throttled u d ys"
  by (simp add: throttled_def)

lemma throttle_of_alt: "throttle_of u d t \<longleftrightarrow> (rt_reporter t, rt_day t) = (u, d)"
  by (simp add: throttle_of_def)

lemma throttled_bump:
  assumes "length (filter (throttle_of u d) ts) \<le> 1"
  shows "throttled v e (bump u d ts) = throttled v e ts + (if v = u \<and> e = d then 1 else 0)"
proof (cases "filter (throttle_of u d) ts = []")
  case True
  then show ?thesis by (auto simp: bump_def throttled_append) (simp_all add: throttled_def throttle_of_def)
next
  case False
  show ?thesis
  proof (cases "v = u \<and> e = d")
    case True
    have f: "filter (throttle_of u d) (update_where (throttle_of u d) (\<lambda>r. r\<lparr>rt_count := rt_count r + 1\<rparr>) ts)
        = map (\<lambda>r. r\<lparr>rt_count := rt_count r + 1\<rparr>) (filter (throttle_of u d) ts)"
      by (induction ts) (auto simp: throttle_of_def)
    from False assms obtain t where "filter (throttle_of u d) ts = [t]"
      by (cases "filter (throttle_of u d) ts" rule: remdups_adj.cases) auto
    with True f show ?thesis by (simp add: bump_def throttled_def)
  next
    case other: False
    have "filter (throttle_of v e) (update_where (throttle_of u d) (\<lambda>r. r\<lparr>rt_count := rt_count r + 1\<rparr>) ts) = filter (throttle_of v e) ts"
      using other by (intro filter_update_where_other) (auto simp: throttle_of_def)
    with False other show ?thesis by (simp add: bump_def throttled_def)
  qed
qed

lemma reports_on_append: "reports_on u d (rs @ [r]) = reports_on u d rs + (if rp_reporter r = u \<and> midnight (rp_created_at r) = d then 1 else 0)"
  by (simp add: reports_on_def)

lemma reports_good_new:
  assumes good: "reports_good cs rs0 rs ts"
    and c: "c \<in> set cs" "about r c" and r: "rp_reporter r = u" "midnight (rp_created_at r) = d"
    and room: "\<And>t. t \<in> set ts \<Longrightarrow> throttle_of u d t \<Longrightarrow> rt_count t < reports_per_user_per_day"
  shows "reports_good cs rs0 (rs @ [r]) (bump u d ts)"
proof -
  let ?key = "\<lambda>t. (rt_reporter t, rt_day t)"
  have dist: "distinct (map ?key ts)" using good by (simp add: reports_good_def)
  have one: "length (filter (throttle_of u d) ts) \<le> 1"
    using filter_key_at_most_one [OF dist, of "(u, d)"] by (simp add: throttle_of_alt [abs_def])
  have "distinct (map ?key (bump u d ts))"
  proof (cases "filter (throttle_of u d) ts = []")
    case True
    then show ?thesis using dist by (auto simp: bump_def filter_empty_conv throttle_of_def)
  next
    case False
    have "map ?key (update_where (throttle_of u d) (\<lambda>r. r\<lparr>rt_count := rt_count r + 1\<rparr>) ts) = map ?key ts"
      by (rule map_update_where) simp
    with False dist show ?thesis by (simp add: bump_def)
  qed
  moreover have "rt_count t \<le> reports_per_user_per_day" if "t \<in> set (bump u d ts)" for t
    using that good room
    by (fastforce simp: bump_def set_update_where reports_good_def reports_per_user_per_day_def split: if_splits)
  moreover have "grows (=) rs0 (rs @ [r])"
    using good by (intro grows_then_append) (auto simp: reports_good_def)
  ultimately show ?thesis
    using good c r by (auto simp: reports_good_def reports_on_append throttled_bump [OF one])
qed

text \<open>What \<open>find_or_create_case\<close> returns: the open case or a new one, which it may have added.\<close>

lemma find_or_create_run:
  assumes "find_or_create_case ty subject u s = (Inr c, s1)"
  shows "mc_kind c = Ck_Report \<and> mc_subject_type c = ty \<and> mc_subject_id c = subject \<and> mc_status c = Cs_Open \<and>
    ((c \<in> set (cases (work s)) \<and> s1 = s) \<or> (filter (open_report_case ty subject) (cases (work s)) = []
      \<and> c = new_report_case (next_uuid s) (clock s) ty subject u
      \<and> s1 = s\<lparr>next_uuid := Suc (next_uuid s), work := (work s)\<lparr>cases := cases (work s) @ [c]\<rparr>\<rparr>))"
proof (cases "one_or_none (filter (open_report_case ty subject) (cases (work s)))")
  case (Inl e)
  with assms show ?thesis by (simp add: find_or_create_case_def bind_run scalar_run)
next
  case (Inr r)
  show ?thesis
  proof (cases r)
    case None
    with Inr have "filter (open_report_case ty subject) (cases (work s)) = []" by (auto dest: one_or_none_NoneD)
    moreover have "\<not> case_clash (new_report_case i t ty subject u) x" for i t x by (simp add: case_clash_def new_report_case_def)
    then have "\<not> list_ex (case_clash (new_report_case i t ty subject u)) xs" for i t xs by (simp add: list_ex_iff)
    ultimately show ?thesis using assms Inr None
      by (auto simp: find_or_create_case_def bind_run scalar_run now_run uuid4_run Let_def seq_run add_case_def insert_run ret_run)
        (simp_all add: new_report_case_def)
  next
    case (Some d)
    with Inr have f: "filter (open_report_case ty subject) (cases (work s)) = [d]" by (auto dest: one_or_none_SomeD)
    then have "d \<in> set (filter (open_report_case ty subject) (cases (work s)))" by simp
    with assms Inr Some show ?thesis
      by (auto simp: find_or_create_case_def bind_run scalar_run ret_run open_report_case_def)
  qed
qed

text \<open>The outcome of a report by a known reporter: refused and rolled back, or stored with its case.\<close>

definition alert_of :: "report_create \<Rightarrow> mod_sess \<Rightarrow> message list" where
  "alert_of b s = (let n = recent_reporters (rc_subject_type b) (rc_subject_id b) (clock s - minutes 10) (reports (committed s)) in
     if 4 \<le> n then [Message ''moderation.coordinated_attack_suspected''
       [(''subject_type'', JStr (str_subject (rc_subject_type b))), (''subject_id'', JStr (str_uuid (rc_subject_id b))),
        (''reporter_count'', JInt (int n + 1))]] else [])"

definition filed_message :: "report_create \<Rightarrow> uuid \<Rightarrow> uuid \<Rightarrow> uuid \<Rightarrow> message" where
  "filed_message b me i k = Message ''moderation.report_filed''
     [(''report_id'', JStr (str_uuid i)), (''case_id'', JStr (str_uuid k)), (''subject_type'', JStr (str_subject (rc_subject_type b))),
      (''subject_id'', JStr (str_uuid (rc_subject_id b))), (''reporter_user_id'', JStr (str_uuid me))]"

definition stored_report :: "report_create \<Rightarrow> uuid \<Rightarrow> uuid \<Rightarrow> uuid \<Rightarrow> datetime \<Rightarrow> report" where
  "stored_report b me i k t = \<lparr>rp_id = i, rp_reporter = me, rp_subject_type = rc_subject_type b, rp_subject_id = rc_subject_id b,
     rp_description = rc_description b, rp_screenshot = rc_screenshot b, rp_case = k, rp_created_at = t\<rparr>"

definition rolled_back :: "mod_sess \<Rightarrow> message list \<Rightarrow> mod_sess" where
  "rolled_back s ms = s\<lparr>work := committed s, outbox := outbox s @ ms\<rparr>"

lemma create_report_run:
  assumes "get_reporter_user_id header = Inr me"
  shows "create_report header b s = (let s0 = s\<lparr>work := committed s\<rparr>; d = midnight (clock s); ms = alert_of b s in
     case check_and_increment_throttle me reports_per_user_per_day s0 of
       (Inl e, _) \<Rightarrow> (Inl e, rolled_back s [])
     | (Inr _, s1) \<Rightarrow> (case find_or_create_case (rc_subject_type b) (rc_subject_id b) me (s1\<lparr>outbox := outbox s @ ms\<rparr>) of
         (Inl e, s2) \<Rightarrow> (Inl e, s2\<lparr>work := committed s2\<rparr>)
       | (Inr c, s2) \<Rightarrow> (let i = next_uuid s2; r = stored_report b me i (mc_id c) (clock s2); db = (work s2)\<lparr>reports := reports (work s2) @ [r]\<rparr> in
           (Inr r, s2\<lparr>next_uuid := Suc i, work := db, committed := db, outbox := outbox s2 @ [filed_message b me i (mc_id c)]\<rparr>))))"
proof -
  let ?s0 = "s\<lparr>work := committed s\<rparr>"
  obtain r1 s1 where t: "check_and_increment_throttle me reports_per_user_per_day ?s0 = (r1, s1)" by (cases "check_and_increment_throttle me reports_per_user_per_day ?s0")
  have s1: "s1 = ?s0 \<or> (\<exists>ts. s1 = ?s0\<lparr>work := (committed s)\<lparr>throttles := ts\<rparr>\<rparr>)" "r1 = Inl e \<Longrightarrow> s1 = ?s0" for e
    using t by (auto simp: throttle_run Let_def split: sum.splits option.splits if_splits)
  then have keep: "clock s1 = clock s" "outbox s1 = outbox s" "reports (work s1) = reports (committed s)" "committed s1 = committed s" by auto
  show ?thesis
  proof (cases r1)
    case (Inl e)
    with t s1 show ?thesis
      by (simp add: create_report_def assms with_id_def in_session_def seq_run rolled_back_def Let_def)
  next
    case (Inr v)
    obtain r2 s2 where f: "find_or_create_case (rc_subject_type b) (rc_subject_id b) me (s1\<lparr>outbox := outbox s @ alert_of b s\<rparr>) = (r2, s2)"
      by (cases "find_or_create_case (rc_subject_type b) (rc_subject_id b) me (s1\<lparr>outbox := outbox s @ alert_of b s\<rparr>)")
    have clk: "clock s2 = clock s" if "r2 = Inr c" for c
      using find_or_create_run [OF f [unfolded that]] keep(1) by auto
    have w: "when_c (4 \<le> recent_reporters (rc_subject_type b) (rc_subject_id b) (clock s - minutes 10) (reports (committed s)))
        (publish_c (Message ''moderation.coordinated_attack_suspected'' [(''subject_type'', JStr (str_subject (rc_subject_type b))),
          (''subject_id'', JStr (str_uuid (rc_subject_id b))), (''reporter_count'',
           JInt (int (recent_reporters (rc_subject_type b) (rc_subject_id b) (clock s - minutes 10) (reports (committed s))) + 1))])) s1
        = (Inr (), s1\<lparr>outbox := outbox s @ alert_of b s\<rparr>)"
      using keep(2) by (cases s1) (simp add: when_run publish_run alert_of_def Let_def)
    show ?thesis
      using t f Inr keep
      by (cases r2) (simp_all add: create_report_def assms with_id_def in_session_def seq_run bind_run now_run select_run w
          publish_run Let_def uuid4_run modify_run commit_run ret_run stored_report_def filed_message_def clk split: if_splits)
  qed
qed

lemma mod_good_more: "mod_good db0 db n ms \<Longrightarrow> n \<le> n' \<Longrightarrow> mod_good db0 db n' ms"
  by (force simp: mod_good_def cases_good_def notices_good_def)

lemma mod_good_alert: "mod_good db0 db n ms \<Longrightarrow> mod_good db0 db n (ms @ alert_of b s)"
  by (auto simp: alert_of_def Let_def intro: mod_good_publish)

lemma throttle_room:
  assumes "check_and_increment_throttle u limit s = (Inr (), s1)"
  shows "s1 = s\<lparr>work := (work s)\<lparr>throttles := bump u (midnight (clock s)) (throttles (work s))\<rparr>\<rparr>"
    and "t \<in> set (throttles (work s)) \<Longrightarrow> throttle_of u (midnight (clock s)) t \<Longrightarrow> rt_count t < limit"
proof -
  show "s1 = s\<lparr>work := (work s)\<lparr>throttles := bump u (midnight (clock s)) (throttles (work s))\<rparr>\<rparr>"
    using assms by (auto simp: throttle_run Let_def split: sum.splits option.splits if_splits)
next
  assume t: "t \<in> set (throttles (work s))" "throttle_of u (midnight (clock s)) t"
  then have t: "t \<in> set (filter (throttle_of u (midnight (clock s))) (throttles (work s)))" by simp
  from assms consider "filter (throttle_of u (midnight (clock s))) (throttles (work s)) = []"
    | x where "filter (throttle_of u (midnight (clock s))) (throttles (work s)) = [x]" "rt_count x < limit"
    by (auto simp: throttle_run Let_def split: sum.splits option.splits if_splits dest!: one_or_none_NoneD one_or_none_SomeD)
  then show "rt_count t < limit" using t by cases simp_all
qed

lemma keeps_report: "keeps (mod_state db0) (create_report header b)"
proof
  fix s assume s: "mod_state db0 s"
  have good: "mod_good db0 (committed s) (next_uuid s) (outbox s)" using s by (simp add: mod_state_def)
  show "mod_state db0 (snd (create_report header b s))"
  proof (cases "get_reporter_user_id header")
    case (Inl e)
    with s show ?thesis by (simp add: create_report_def with_id_def raise_run)
  next
    case (Inr me)
    let ?s0 = "s\<lparr>work := committed s\<rparr>" and ?d = "midnight (clock s)"
    obtain r1 s1 where t: "check_and_increment_throttle me reports_per_user_per_day ?s0 = (r1, s1)" by fastforce
    show ?thesis
    proof (cases r1)
      case (Inl e)
      with t good show ?thesis by (simp add: create_report_run [OF Inr] Let_def rolled_back_def mod_state_def)
    next
      case ok: (Inr v)
      have s1: "s1 = ?s0\<lparr>work := (committed s)\<lparr>throttles := bump me ?d (throttles (committed s))\<rparr>\<rparr>"
        and room: "\<And>t. t \<in> set (throttles (committed s)) \<Longrightarrow> throttle_of me ?d t \<Longrightarrow> rt_count t < reports_per_user_per_day"
        using throttle_room [of me reports_per_user_per_day ?s0 s1] t ok by auto
      let ?s1 = "s1\<lparr>outbox := outbox s @ alert_of b s\<rparr>"
      obtain r2 s2 where f: "find_or_create_case (rc_subject_type b) (rc_subject_id b) me ?s1 = (r2, s2)" by fastforce
      have alert: "mod_good db0 (committed s) (next_uuid s) (outbox s @ alert_of b s)" by (rule mod_good_alert [OF good])
      show ?thesis
      proof (cases r2)
        case (Inl e)
        have "s2 = ?s1" using f Inl
          by (auto simp: find_or_create_case_def bind_run scalar_run ret_run now_run uuid4_run Let_def seq_run add_case_def insert_run
              new_report_case_def case_clash_def list_ex_iff split: sum.splits option.splits if_splits)
        with t ok f Inl alert s1 show ?thesis by (simp add: create_report_run [OF Inr] Let_def mod_state_def)
      next
        case c: (Inr c)
        let ?cs = "cases (work s2)" and ?r = "stored_report b me (next_uuid s2) (mc_id c) (clock s2)"
        note run = find_or_create_run [OF f [unfolded c]]
        have facts: "clock s2 = clock s" "committed s2 = committed s" "outbox s2 = outbox s @ alert_of b s" "next_uuid s \<le> next_uuid s2"
          "work s2 = (committed s)\<lparr>throttles := bump me ?d (throttles (committed s)), cases := ?cs\<rparr>" "c \<in> set ?cs"
          "reports (work s2) = reports (committed s)"
          using run s1 by (auto simp: mod_db.defs)
        have cs: "mod_good db0 ((committed s)\<lparr>cases := ?cs\<rparr>) (next_uuid s2) (outbox s @ alert_of b s)"
        proof (cases "s2 = ?s1")
          case True
          with alert s1 show ?thesis by simp
        next
          case False
          with run have n: "filter (open_report_case (rc_subject_type b) (rc_subject_id b)) (cases (work ?s1)) = []"
            "c = new_report_case (next_uuid ?s1) (clock ?s1) (rc_subject_type b) (rc_subject_id b) me"
            "s2 = ?s1\<lparr>next_uuid := Suc (next_uuid ?s1), work := (work ?s1)\<lparr>cases := cases (work ?s1) @ [c]\<rparr>\<rparr>" by blast+
          have "\<not> list_ex (case_clash c) (cases (committed s))" by (simp add: n(2) list_ex_iff case_clash_def new_report_case_def)
          from mod_good_new [OF alert _ _ _ this] n s1 show ?thesis by (simp add: new_rows_facts new_rows_ok)
        qed
        let ?db = "(committed s)\<lparr>throttles := bump me ?d (throttles (committed s)), cases := ?cs, reports := reports (committed s) @ [?r]\<rparr>"
        have "reports_good ?cs (reports db0) (reports (committed s) @ [?r]) (bump me ?d (throttles (committed s)))"
          using cs facts(1,6) run room
          by (intro reports_good_new [where c = c]) (simp_all add: mod_good_def about_def stored_report_def)
        with cs have "mod_good db0 ?db (next_uuid s2) (outbox s @ alert_of b s)" by (simp add: mod_good_def)
        then have "mod_good db0 ?db (Suc (next_uuid s2)) ((outbox s @ alert_of b s) @ [filed_message b me (next_uuid s2) (mc_id c)])"
          by (intro mod_good_publish) (simp_all add: filed_message_def mod_good_Suc)
        with t ok f c facts show ?thesis by (simp add: create_report_run [OF Inr] Let_def mod_state_def)
      qed
    qed
  qed
qed

section \<open>The DMCA workflow\<close>

lemma mod_good_notices:
  assumes good: "mod_good db0 db n ms"
    and f: "\<And>x. x \<in> set (notices db) \<Longrightarrow> P x \<Longrightarrow> notice_ok x \<Longrightarrow> notice_ok (f x) \<and> notice_step x (f x)"
  shows "mod_good db0 (db\<lparr>notices := update_where P f (notices db)\<rparr>) n ms"
proof -
  have f': "notice_ok (f x)" "notice_step x (f x)" if "x \<in> set (notices db)" "P x" for x
    using f [OF that] good that(1) by (simp_all add: mod_good_def notices_good_def)
  have ids: "map dn_id (update_where P f (notices db)) = map dn_id (notices db)"
    using f'(2) by (auto simp: update_where_def notice_step_def)
  have "grows notice_step (notices db) (update_where P f (notices db))"
    using f'(2) by (intro grows_update) simp_all
  then have "grows notice_step (notices db0) (update_where P f (notices db))"
    using good grows_trans [of notice_step "notices db0" "notices db"] notice_step_trans unfolding mod_good_def notices_good_def by blast
  moreover have "dn_id y < n \<and> notice_ok y" if "y \<in> set (update_where P f (notices db))" for y
    using that good f' by (auto simp: set_update_where mod_good_def notices_good_def notice_step_def)
  ultimately show ?thesis using good by (simp add: mod_good_def notices_good_def ids)
qed

lemma keeps_save_notice:
  assumes "\<And>x. notice_ok x \<Longrightarrow> notice_ok (f x) \<and> notice_step x (f x)"
  shows "keeps (mod_state db0) (save_notice i f)"
  using mod_good_notices [of db0 _ _ _ "\<lambda>x. dn_id x = i" f] assms
  by (auto simp: keeps_def save_notice_def modify_run mod_state_def)

lemma keeps_counters:
  "(\<And>xs. counters_good xs \<Longrightarrow> counters_good (g xs)) \<Longrightarrow> keeps (mod_state db0) (modify_table counters_update counters g)"
  by (auto simp: keeps_def modify_run mod_state_def mod_good_def)

lemma keeps_add_counter:
  "cn_state c \<noteq> Cn_Restored \<Longrightarrow> cn_restored_at c = None \<Longrightarrow> keeps (mod_state db0) (add_counter c)"
  by (auto simp: keeps_def add_counter_def insert_run mod_state_def mod_good_def counters_good_def list_ex_iff)

lemma mod_good_new_notice:
  assumes "mod_good db0 db n ms" and "dn_id x = n" and "notice_ok x"
  shows "mod_good db0 (db\<lparr>notices := notices db @ [x]\<rparr>) (Suc n) ms"
proof -
  have "n \<notin> dn_id ` set (notices db)" using assms(1) by (auto simp: mod_good_def notices_good_def)
  moreover have "grows notice_step (notices db0) (notices db @ [x])"
    using assms(1) by (intro grows_then_append [OF notice_step_refl notice_step_trans]) (auto simp: mod_good_def notices_good_def)
  ultimately show ?thesis using mod_good_Suc [OF assms(1)] assms(2,3) by (auto simp: mod_good_def notices_good_def)
qed

lemma keeps_store_notice: "keeps (mod_state db0) (store_notice b)"
proof
  fix s assume "mod_state db0 s"
  then have good: "mod_good db0 (committed s) (next_uuid s) (outbox s)" by (simp add: mod_state_def)
  let ?n = "next_uuid s"
  have bad: "notice_ok (new_notice i t b Dm_Rejected_Defective None r None)" for i t r
    by (simp add: notice_ok_def new_notice_def)
  have fine: "notice_ok (new_notice i t b Dm_Received (Some (t + hours 24)) None (Some k))" for i t k
    by (simp add: notice_ok_def new_notice_def)
  have id: "dn_id (new_notice i t b st h r k) = i" for i t st h r k by (simp add: new_notice_def)
  show "mod_state db0 (snd (store_notice b s))"
  proof (cases "validate_dmca_fields b = []")
    case False
    with mod_good_new_notice [OF good id bad] show ?thesis
      by (simp add: store_notice_def in_session_def bind_run now_run uuid4_run Let_def seq_run add_notice_def modify_run commit_run
          raise_run mod_state_def)
  next
    case True
    let ?c = "dmca_case (Suc ?n) (clock s) b"
    let ?x = "new_notice ?n (clock s) b Dm_Received (Some (clock s + hours 24)) None (Some (Suc ?n))"
    have nc: "\<not> list_ex (case_clash ?c) xs" for xs by (simp add: list_ex_iff case_clash_def dmca_case_def)
    have "mod_good db0 ((committed s)\<lparr>notices := notices (committed s) @ [?x], cases := cases (committed s) @ [?c]\<rparr>) (Suc (Suc ?n)) (outbox s)"
      using mod_good_new [OF mod_good_new_notice [OF good id [of ?n] fine], of ?c] nc by (simp add: new_rows_facts new_rows_ok)
    moreover have "(committed s)\<lparr>cases := cases (committed s) @ [?c], notices := notices (committed s) @ [?x]\<rparr>
        = (committed s)\<lparr>notices := notices (committed s) @ [?x], cases := cases (committed s) @ [?c]\<rparr>" by simp
    ultimately have "mod_good db0 ((committed s)\<lparr>cases := cases (committed s) @ [?c], notices := notices (committed s) @ [?x]\<rparr>) (Suc (Suc ?n)) (outbox s)"
      by (simp only:)
    then have "mod_good db0 ((committed s)\<lparr>cases := cases (committed s) @ [?c], notices := notices (committed s) @ [?x]\<rparr>) (Suc (Suc ?n))
        (outbox s @ [Message ''dmca.notice_filed'' body])" for body by (intro mod_good_publish) simp_all
    with True nc show ?thesis
      by (simp add: store_notice_def in_session_def bind_run now_run uuid4_run Let_def seq_run add_notice_def add_case_def modify_run
          insert_run commit_run ret_run publish_run mod_state_def)
  qed
qed

lemma keeps_file_notice: "mod_state db0 s \<Longrightarrow> mod_state db0 (snd (snd (file_dmca_notice ip b redis s)))"
  using keepsD [OF keeps_store_notice, of db0 s b]
  by (auto simp: file_dmca_notice_def split: prod.split sum.split)

lemma keeps_file_counter: "keeps (mod_state db0) (file_counter_notice header i token)"
  unfolding file_counter_notice_def
  by (intro keeps_with_id keeps_bind mod_kept)
    (auto simp: Let_def notice_ok_def notice_step_def
      intro!: keeps_bind keeps_seq keeps_add_counter keeps_save_notice keeps_mod_publish mod_kept)

lemma keeps_defective: "keeps (mod_state db0) (mark_dmca_defective who i reason)"
  unfolding mark_dmca_defective_def
  by (intro keeps_with_id keeps_bind mod_kept)
    (auto simp: notice_ok_def notice_step_def intro!: keeps_seq keeps_save_notice mod_kept)

lemma counters_good_suit:
  assumes "counters_good xs"
  shows "counters_good (update_where P (\<lambda>c. c\<lparr>cn_suit_filed_at := t, cn_state := Cn_Permanent_Taken_Down\<rparr>) xs)"
proof -
  have "map cn_dmca (update_where P (\<lambda>c. c\<lparr>cn_suit_filed_at := t, cn_state := Cn_Permanent_Taken_Down\<rparr>) xs) = map cn_dmca xs"
    by (rule map_update_where) simp
  with assms show ?thesis by (auto simp: counters_good_def set_update_where)
qed

lemma keeps_suit: "keeps (mod_state db0) (mark_suit_filed who i)"
  unfolding mark_suit_filed_def
  by (intro keeps_with_id keeps_bind keeps_seq keeps_counters counters_good_suit keeps_save_notice mod_kept)
    (auto simp: notice_ok_def notice_step_def)

lemma scan_counter_run: "scan_counter_window s = (Inl (AttributeError ''suit_filed_notice_received_at''), s\<lparr>work := committed s\<rparr>)"
  by (simp add: scan_counter_window_def in_session_def bind_run now_run raise_run dmca_notice_columns_def)

section \<open>Propagation\<close>

lemma keeps_dispatch: "keeps (mod_state db0) (dispatch_action a)"
  unfolding dispatch_action_def Let_def
  by (intro keeps_bind keeps_seq keeps_for keeps_mod_publish mod_kept) simp_all

lemma keeps_propagate: "service \<in> set full_fan_out \<Longrightarrow> keeps (mod_state db0) (propagate service body)"
  unfolding propagate_def update_propagation_event_def
  by (intro keeps_seq keeps_mod_publish)
    (auto simp: full_fan_out_def intro!: mod_kept keeps_bind keeps_seq split: option.split json.split)

section \<open>Hiding after a day\<close>

definition hidden_row :: "datetime \<Rightarrow> dmca_notice \<Rightarrow> dmca_notice" where
  "hidden_row now x = x\<lparr>dn_state := Dm_Hidden, dn_hidden_at := Some now\<rparr>"

definition hide_db :: "uuid \<Rightarrow> datetime \<Rightarrow> dmca_notice \<Rightarrow> mod_db \<Rightarrow> mod_db" where
  "hide_db k now n db = db\<lparr>actions := (if dn_case n = None then actions db else actions db @ [hide_action k now n]),
     cases := (case dn_case n of None \<Rightarrow> cases db | Some c \<Rightarrow> update_where (\<lambda>x. mc_id x = c)
       (\<lambda>x. x\<lparr>mc_status := Cs_Actioned, mc_action_type := Some Hide, mc_actioned_at := Some now\<rparr>) (cases db)),
     notices := update_where (\<lambda>x. dn_id x = dn_id n) (hidden_row now) (notices db)\<rparr>"

definition hidden_message :: "dmca_notice \<Rightarrow> message" where
  "hidden_message n = Message ''dmca.notice_filed_hidden''
     [(''dmca_id'', JStr (str_uuid (dn_id n))), (''target_user_id'', JStr (str_uuid (dn_target_user n)))]"

fun hide_dbs :: "uuid \<Rightarrow> datetime \<Rightarrow> dmca_notice list \<Rightarrow> mod_db \<Rightarrow> mod_db" where
  "hide_dbs k now [] db = db"
| "hide_dbs k now (n # ns) db = hide_dbs (Suc k) now ns (hide_db k now n db)"

lemma hide_one_run:
  "hide_one now n s = (Inr (), s\<lparr>next_uuid := Suc (next_uuid s), work := hide_db (next_uuid s) now n (work s),
     outbox := outbox s @ [hidden_message n]\<rparr>)"
  by (cases "dn_case n")
    (simp_all add: hide_one_def bind_run uuid4_run seq_run when_run add_action_def close_case_def save_case_def save_notice_def
      modify_run publish_run ret_run hide_db_def hidden_row_def [abs_def] hidden_message_def)

lemma hide_all_run:
  "for_c ns (hide_one now) s = (Inr (), s\<lparr>next_uuid := next_uuid s + length ns, work := hide_dbs (next_uuid s) now ns (work s),
     outbox := outbox s @ map hidden_message ns\<rparr>)"
  by (induction ns arbitrary: s) (simp_all add: ret_run seq_run hide_one_run)

lemma enact_run:
  "enact_dmca_hide s = (let now = clock s; ns = filter (due_to_hide now) (notices (committed s));
       db = hide_dbs (next_uuid s) now ns (committed s); s' = s\<lparr>next_uuid := next_uuid s + length ns, outbox := outbox s @ map hidden_message ns\<rparr> in
     if list_ex (\<lambda>n. dn_case n = None) ns then (Inl IntegrityError, s'\<lparr>work := committed s\<rparr>)
     else (Inr (length ns), s'\<lparr>work := db, committed := db\<rparr>))"
  by (simp add: enact_dmca_hide_def in_session_def bind_run now_run select_run seq_run hide_all_run Let_def raise_run commit_run ret_run)

text \<open>The rows under the ids of \<open>ns\<close> are old enough to be hidden at \<open>now\<close> and not hidden at another time.\<close>

definition ready :: "datetime \<Rightarrow> dmca_notice list \<Rightarrow> dmca_notice list \<Rightarrow> bool" where
  "ready now ns xs \<longleftrightarrow> (\<forall>n \<in> set ns. \<forall>x \<in> set xs. dn_id x = dn_id n \<longrightarrow>
     dn_received_at x + hours 24 \<le> now \<and> (dn_hidden_at x = None \<or> dn_hidden_at x = Some now))"

lemma ready_hide: "ready now ns xs \<Longrightarrow> ready now ns (update_where P (hidden_row now) xs)"
  by (auto simp: ready_def set_update_where hidden_row_def)

lemma mod_good_hide:
  assumes good: "mod_good db0 db n ms" and r: "ready now [x] (notices db)"
  shows "mod_good db0 (hide_db k now x db) n ms"
proof -
  let ?as = "if dn_case x = None then actions db else actions db @ [hide_action k now x]"
  let ?close = "\<lambda>c. c\<lparr>mc_status := Cs_Actioned, mc_action_type := Some Hide, mc_actioned_at := Some now\<rparr>"
  let ?cs = "case dn_case x of None \<Rightarrow> cases db | Some i \<Rightarrow> update_where (\<lambda>c. mc_id c = i) ?close (cases db)"
  have as: "actions_good (actions db0) ?as"
    using good grows_then_append [of "(=)" "actions db0" "actions db" "[hide_action k now x]"]
    by (auto simp: mod_good_def actions_good_def hide_action_def)
  have "row_ok (?close c) \<and> case_identity (?close c) = case_identity c" if "row_ok c" for c
    using that by (auto simp: row_ok_def case_identity_def dual_review_actions_def)
  then have "mod_good db0 (db\<lparr>cases := ?cs\<rparr>) n ms"
    using good mod_good_update [OF good, of "\<lambda>c. mc_id c = the (dn_case x)" ?close] by (auto split: option.split)
  then have cs: "mod_good db0 (db\<lparr>cases := ?cs\<rparr>) n ms" .
  have row: "notice_ok (hidden_row now y) \<and> notice_step y (hidden_row now y)"
    if y: "y \<in> set (notices (db\<lparr>cases := ?cs\<rparr>))" "dn_id y = dn_id x" for y
  proof -
    from y r have "dn_received_at y + hours 24 \<le> now" "dn_hidden_at y = None \<or> dn_hidden_at y = Some now" by (auto simp: ready_def)
    then show ?thesis by (auto simp: notice_ok_def notice_step_def hidden_row_def)
  qed
  have "mod_good db0 (db\<lparr>cases := ?cs, notices := update_where (\<lambda>y. dn_id y = dn_id x) (hidden_row now) (notices db)\<rparr>) n ms"
    using mod_good_notices [OF cs, of "\<lambda>y. dn_id y = dn_id x" "hidden_row now"] row by simp
  with as show ?thesis by (simp add: hide_db_def mod_good_def)
qed

lemma mod_good_hides:
  "mod_good db0 db n ms \<Longrightarrow> ready now ns (notices db) \<Longrightarrow> mod_good db0 (hide_dbs k now ns db) n ms"
proof (induction ns arbitrary: k db)
  case (Cons x ns)
  have "ready now [x] (notices db)" "ready now ns (notices (hide_db k now x db))"
    using Cons.prems(2) ready_hide [of now ns "notices db"] by (auto simp: hide_db_def ready_def)
  with Cons show ?case by (simp add: mod_good_hide)
qed simp

lemma ready_due:
  assumes "mod_good db0 db n ms"
  shows "ready now (filter (due_to_hide now) (notices db)) (notices db)"
proof -
  have "dn_received_at x + hours 24 \<le> now \<and> (dn_hidden_at x = None \<or> dn_hidden_at x = Some now)"
    if y: "y \<in> set (notices db)" "due_to_hide now y" and x: "x \<in> set (notices db)" "dn_id x = dn_id y" for x y
  proof -
    have "x = y" using assms x y(1) by (auto simp: mod_good_def notices_good_def distinct_map dest: inj_onD)
    moreover have "notice_ok y" using assms y(1) by (auto simp: mod_good_def notices_good_def)
    ultimately show ?thesis using y(2) by (auto simp: due_to_hide_def notice_ok_def)
  qed
  then show ?thesis by (auto simp: ready_def)
qed

lemma mod_good_publish_all:
  "(\<And>m. m \<in> set ns \<Longrightarrow> routing_key m \<noteq> ''moderation.case.sla_breached'') \<Longrightarrow> mod_good db0 db n ms \<Longrightarrow> mod_good db0 db n (ms @ ns)"
proof (induction ns arbitrary: ms)
  case (Cons m ns)
  then show ?case using Cons.IH [of "ms @ [m]"] mod_good_publish by simp
qed simp

lemma keeps_enact: "keeps (mod_state db0) enact_dmca_hide"
proof
  fix s assume "mod_state db0 s"
  then have good: "mod_good db0 (committed s) (next_uuid s) (outbox s)" by (simp add: mod_state_def)
  let ?ns = "filter (due_to_hide (clock s)) (notices (committed s))"
  have more: "mod_good db0 db (next_uuid s + length ?ns) (outbox s @ map hidden_message ?ns)" if "mod_good db0 db (next_uuid s) (outbox s)" for db
    using that by (intro mod_good_publish_all) (auto simp: hidden_message_def intro: mod_good_more)
  from more [OF good] more [OF mod_good_hides [OF good ready_due [OF good]]]
  show "mod_state db0 (snd (enact_dmca_hide s))"
    by (simp add: enact_run Let_def mod_state_def)
qed

section \<open>Every request\<close>

lemma moderate_keeps: "mod_state db0 s \<Longrightarrow> mod_state db0 (moderate q s)"
proof (cases q)
  case (Propagate service body)
  then show "mod_state db0 s \<Longrightarrow> ?thesis" using keepsD [OF keeps_propagate] by simp
next
  case Scan_Counter
  then show "mod_state db0 s \<Longrightarrow> ?thesis" by (simp add: scan_counter_run mod_state_def)
next
  case (Later us)
  then show "mod_state db0 s \<Longrightarrow> ?thesis" by (simp add: mod_state_def)
qed (auto simp: scan_text_def scan_image_def Let_def keeps_file_notice intro: keepsD [OF keeps_scan_tail]
    keepsD [OF keeps_report] keepsD [OF keeps_claim] keepsD [OF keeps_release] keepsD [OF keeps_action]
    keepsD [OF keeps_escalate] keepsD [OF keeps_reopen] keepsD [OF keeps_sla] keepsD [OF keeps_file_counter]
    keepsD [OF keeps_defective] keepsD [OF keeps_suit] keepsD [OF keeps_enact] keepsD [OF keeps_dispatch])

lemma moderate_all_keeps: "mod_state db0 s \<Longrightarrow> mod_state db0 (moderate_all reqs s)"
  unfolding moderate_all_def by (induction reqs arbitrary: s) (simp_all add: moderate_keeps)

lemma mod_start_good: "mod_state empty_mod_db (mod_start t n)"
  by (simp add: mod_state_def mod_good_def mod_start_def empty_mod_db_def cases_good_def actions_good_def reports_good_def
      notices_good_def counters_good_def grows_def keyed_def announced_def breached_def reports_on_def throttled_def)

lemma mod_state_now: "mod_state db0 s \<Longrightarrow> mod_state (committed s) (s\<lparr>work := committed s\<rparr>)"
  by (auto simp: mod_state_def mod_good_def cases_good_def actions_good_def reports_good_def notices_good_def intro: grows_refl)

end
