(* ===== verification/Mod_Claims.thy ===== *)
theory Mod_Claims
  imports Mod_Safety
begin

text \<open>
  What moderation-svc guarantees over any sequence of requests, what single operations do on
  success, and where the service gets stuck.
\<close>

section \<open>Over every sequence of requests\<close>

text \<open>Between requests nothing is uncommitted.\<close>

definition tidy :: "mod_sess \<Rightarrow> bool" where
  "tidy s \<longleftrightarrow> work s = committed s"

lemma tidy_session [simp]: "tidy (snd (in_session m s))"
  by (simp add: tidy_def in_session_def split: prod.split)

lemma tidy_with_id: "tidy s \<Longrightarrow> tidy (snd (with_id who m s))"
  by (simp add: with_id_def raise_run split: sum.split)

lemma keeps_tidy: "keeps tidy (in_session m)" "keeps tidy uuid4" "keeps tidy (publish_c x)"
  by (simp_all add: keeps_def) (simp_all add: tidy_def uuid4_run publish_run)

lemma tidy_store: "tidy (snd (store_notice b s))"
  by (simp add: store_notice_def)

lemma moderate_tidy: "tidy s \<Longrightarrow> tidy (moderate q s)"
proof (cases q)
  case (Dispatch a)
  have "keeps tidy (dispatch_action a)"
    unfolding dispatch_action_def Let_def by (intro keeps_intros keeps_tidy keeps_ret)
  with Dispatch show "tidy s \<Longrightarrow> ?thesis" by (simp add: keepsD)
next
  case (Propagate service body)
  have "keeps tidy (propagate service body)"
    unfolding propagate_def update_propagation_event_def
    by (auto intro!: keeps_seq keeps_tidy split: option.split json.split)
  with Propagate show "tidy s \<Longrightarrow> ?thesis" by (simp add: keepsD)
next
  case (File_Notice ip b redis)
  then show "tidy s \<Longrightarrow> ?thesis" by (cases "store_notice b s", cases "check_dmca_rate_limit redis (clock s) (dq_email b) ip", cases "fst (check_dmca_rate_limit redis (clock s) (dq_email b) ip)")
      (use tidy_store [of b s] in \<open>auto simp: file_dmca_notice_def\<close>)
next
  case (Later us)
  then show "tidy s \<Longrightarrow> ?thesis" by (simp add: tidy_def)
qed (simp_all add: scan_text_def scan_image_def scan_tail_def Let_def create_report_def claim_case_def release_case_def take_action_def
    escalate_case_def reopen_case_def sla_scan_def file_counter_notice_def mark_dmca_defective_def mark_suit_filed_def
    enact_dmca_hide_def scan_counter_window_def tidy_with_id)

lemma reachable_tidy: "tidy (moderate_all reqs (mod_start t n))"
proof -
  have "tidy (fold moderate reqs s)" if "tidy s" for s
    using that by (induction reqs arbitrary: s) (simp_all add: moderate_tidy)
  then show ?thesis by (simp add: moderate_all_def mod_start_def tidy_def)
qed

lemma reachable: "mod_good empty_mod_db (committed (moderate_all reqs (mod_start t n))) (next_uuid (moderate_all reqs (mod_start t n)))
    (outbox (moderate_all reqs (mod_start t n)))"
  using moderate_all_keeps [OF mod_start_good] by (simp add: mod_state_def)

text \<open>C22. Whatever is asked of the service in whatever order, an open case has no owner, a case in
  review has one, a dismissed case was dismissed by an action and is none of those that need
  a human decision, a decided case carries its action, and a case whose last action is a ban
  or a deletion names a second reviewer who is not the first.
\<close>

theorem queue_rows_consistent: "list_all row_ok (cases (committed (moderate_all reqs (mod_start t n))))"
  using reachable [of reqs t n] by (auto simp: mod_good_def cases_good_def list_all_iff)

text \<open>The record only grows: no later request removes or alters an action or a report, and a case
  keeps its subject, owner, tier, deadline and the time its deadline was marked as missed.
\<close>

theorem moderation_record_only_grows:
  "let s = moderate_all reqs (mod_start t n); s' = moderate_all later s in
     grows (=) (actions (committed s)) (actions (committed s')) \<and> grows (=) (reports (committed s)) (reports (committed s'))
     \<and> grows case_step (cases (committed s)) (cases (committed s'))"
proof -
  let ?s = "moderate_all reqs (mod_start t n)"
  have "mod_good (committed ?s) (committed ?s) (next_uuid ?s) (outbox ?s)"
    using reachable [of reqs t n] by (auto simp: mod_good_def cases_good_def actions_good_def reports_good_def notices_good_def intro: grows_refl)
  with reachable_tidy [of reqs t n] have "mod_state (committed ?s) ?s" by (simp add: mod_state_def tidy_def)
  from moderate_all_keeps [OF this, of later] show ?thesis
    by (simp add: Let_def mod_state_def mod_good_def cases_good_def actions_good_def reports_good_def)
qed

text \<open>The deadline scan announces each missed deadline exactly once: at every moment the breach
  messages sent are, as a multiset of case ids, the cases marked as breached.
\<close>

theorem breach_announced_once:
  "announced (outbox (moderate_all reqs (mod_start t n))) = breached (cases (committed (moderate_all reqs (mod_start t n))))"
  using reachable [of reqs t n] by (simp add: mod_good_def cases_good_def)

text \<open>Nobody files more than twenty reports on one UTC day.\<close>

theorem reports_capped_per_day:
  "reports_on u d (reports (committed (moderate_all reqs (mod_start t n)))) \<le> reports_per_user_per_day"
proof -
  let ?db = "committed (moderate_all reqs (mod_start t n))" and ?key = "\<lambda>t. (rt_reporter t, rt_day t)"
  have good: "reports_good (cases ?db) (reports empty_mod_db) (reports ?db) (throttles ?db)"
    using reachable [of reqs t n] by (simp add: mod_good_def)
  then have "length (filter (throttle_of u d) (throttles ?db)) \<le> 1"
    using filter_key_at_most_one [of ?key "throttles ?db" "(u, d)"] by (simp add: reports_good_def throttle_of_alt [abs_def])
  then consider "filter (throttle_of u d) (throttles ?db) = []" | x where "filter (throttle_of u d) (throttles ?db) = [x]"
    by (cases "filter (throttle_of u d) (throttles ?db)" rule: remdups_adj.cases) auto
  then have "throttled u d (throttles ?db) \<le> reports_per_user_per_day"
  proof cases
    case (2 x)
    then have "x \<in> set (filter (throttle_of u d) (throttles ?db))" by simp
    then have "x \<in> set (throttles ?db)" by simp
    with good have "rt_count x \<le> reports_per_user_per_day" unfolding reports_good_def by blast
    with 2 show ?thesis by (simp add: throttled_def)
  qed (simp add: throttled_def)
  with good show ?thesis by (simp add: reports_good_def)
qed

text \<open>Every report has its case: a report case on the very subject that was reported.\<close>

theorem reports_have_their_case:
  "let db = committed (moderate_all reqs (mod_start t n)) in list_all (\<lambda>r. list_ex (about r) (cases db)) (reports db)"
  using reachable [of reqs t n] by (auto simp: mod_good_def reports_good_def list_all_iff list_ex_iff Let_def)

lemma scan_always_raises: "fst (scan_counter_window s) = Inl (AttributeError ''suit_filed_notice_received_at'')"
  by (simp add: scan_counter_window_def in_session_def comp_simps dmca_notice_columns_def)

text \<open>C25. In every state the service can reach, a DMCA notice that was hidden was hidden a day after it came in at the
  earliest, a notice still waiting has its hiding set for exactly a day after it came in, and no notice
  and no counter-notice is ever in the state Restored or has a time of restoring: the scan that should restore
  content when the window of a counter-notice has passed raises in every state, because its query names a
  column notices do not have. (A moderator who decides the case with restore can still have the content shown
  again; that path does not touch these rows.)
\<close>

theorem hidden_after_a_day_never_restored:
  "let db = committed (moderate_all reqs (mod_start t n)) in
     list_all notice_ok (notices db) \<and> list_all (\<lambda>x. dn_state x \<noteq> Dm_Restored) (notices db)
     \<and> list_all (\<lambda>c. cn_state c \<noteq> Cn_Restored \<and> cn_restored_at c = None) (counters db)
     \<and> fst (scan_counter_window s) = Inl (AttributeError ''suit_filed_notice_received_at'')"
  using reachable [of reqs t n] scan_always_raises [of s] by (auto simp: mod_good_def notices_good_def counters_good_def notice_ok_def list_all_iff Let_def)

section \<open>Single operations\<close>

lemma keyed_unique:
  "distinct (keyed cs) \<Longrightarrow> c \<in> set cs \<Longrightarrow> mc_idempotency_key c = Some k \<Longrightarrow> filter (\<lambda>x. mc_idempotency_key x = Some k) cs = [c]"
proof (induction cs)
  case (Cons x xs)
  show ?case
  proof (cases "x = c")
    case True
    with Cons.prems have "Some k \<notin> set (keyed xs)" by (simp add: keyed_def)
    with True Cons.prems show ?thesis by (force simp: keyed_def filter_empty_conv)
  next
    case False
    with Cons.prems have c: "c \<in> set xs" by simp
    then have "mc_idempotency_key x \<noteq> Some k" using Cons.prems by (force simp: keyed_def)
    with c Cons show ?thesis by (auto simp: keyed_def split: if_splits)
  qed
qed simp

definition log_db :: "routing \<Rightarrow> subject_type \<Rightarrow> string \<Rightarrow> string option \<Rightarrow> uuid \<Rightarrow> mod_db \<Rightarrow> mod_db" where
  "log_db r ty tool key subject db = db\<lparr>scan_logs := scan_logs db @ [\<lparr>sl_subject_type = ty, sl_subject_id = subject,
     sl_idempotency_key = key, sl_tool = tool, sl_score = ro_score r\<rparr>]\<rparr>"

definition scan_answer :: "routing \<Rightarrow> mod_case option \<Rightarrow> scan_response" where
  "scan_answer r c = \<lparr>sr_score = ro_score r, sr_case = map_option mc_id c, sr_action = ro_action r, sr_tier = ro_tier r,
     sr_forced_human = ro_forced_human r\<rparr>"

text \<open>A synchronous scan: log it, then find or open its case, then commit.\<close>

lemma scan_tail_run:
  obtains s0 where "cases (work s0) = cases (committed s)" "committed s0 = committed s" "clock s0 = clock s"
    and "scan_tail r ty tool k1 k2 ctx s = (case create_case_from_routing r ctx k2 s0 of
      (Inl e, s1) \<Rightarrow> (Inl e, s1\<lparr>work := committed s1\<rparr>)
    | (Inr c, s1) \<Rightarrow> (Inr (scan_answer r c), s1\<lparr>committed := work s1\<rparr>))"
proof (cases "cx_subject_id ctx")
  case None
  show ?thesis
    by (rule that [of "s\<lparr>next_uuid := Suc (next_uuid s), work := log_db r ty tool k1 (next_uuid s) (committed s)\<rparr>"])
      (simp_all add: None scan_tail_def in_session_def bind_run uuid4_run seq_run persist_scan_log_def modify_run commit_run ret_run
        log_db_def scan_answer_def split: sum.split prod.split)
next
  case (Some i)
  show ?thesis
    by (rule that [of "s\<lparr>work := log_db r ty tool k1 i (committed s)\<rparr>"])
      (simp_all add: Some scan_tail_def in_session_def bind_run seq_run persist_scan_log_def modify_run commit_run ret_run
        log_db_def scan_answer_def split: sum.split prod.split)
qed

lemma routed_case_key:
  assumes "create_case_from_routing r ctx (Some k) s = (Inr (Some c), s1)" and "k \<noteq> []"
  shows "c \<in> set (cases (work s1)) \<and> mc_idempotency_key c = Some k \<and> \<not> (ro_tier r = Tier_0_Allow \<and> \<not> ro_forced_human r)"
proof (cases "ro_tier r = Tier_0_Allow \<and> \<not> ro_forced_human r")
  case True
  with assms show ?thesis by (simp add: create_case_from_routing_def ret_run)
next
  case False
  show ?thesis
  proof (cases "one_or_none (filter (\<lambda>c. mc_idempotency_key c = Some k) (cases (work s)))")
    case (Inl e)
    with assms False show ?thesis by (auto simp: create_case_from_routing_def bind_run now_run scalar_run)
  next
    case (Inr x)
    show ?thesis
    proof (cases x)
      case None
      with assms False Inr show ?thesis
        by (auto simp: create_case_from_routing_def bind_run now_run scalar_run uuid4_run Let_def seq_run add_case_def insert_run ret_run
            raise_run new_auto_case_def split: option.splits if_splits)
    next
      case (Some d)
      with Inr have "filter (\<lambda>c. mc_idempotency_key c = Some k) (cases (work s)) = [d]" by (auto dest: one_or_none_SomeD)
      then have "d \<in> set (filter (\<lambda>c. mc_idempotency_key c = Some k) (cases (work s)))" by simp
      with assms False Inr Some show ?thesis by (auto simp: create_case_from_routing_def bind_run now_run scalar_run ret_run)
    qed
  qed
qed

lemma routed_case_again:
  assumes "filter (\<lambda>c. mc_idempotency_key c = Some k) (cases (work s)) = [c]" and "k \<noteq> []"
    and "\<not> (ro_tier r = Tier_0_Allow \<and> \<not> ro_forced_human r)"
  shows "create_case_from_routing r ctx (Some k) s = (Inr (Some c), s)"
  using assms by (auto simp: create_case_from_routing_def bind_run now_run scalar_run ret_run)

text \<open>A scan retried under its idempotency key opens no second case: when a text was scanned and
  put in the queue, then after whatever other requests the same scan answers with the same
  case and leaves the queue as it is, though the text now counts as a repetition.
\<close>

theorem retried_scan_opens_no_second_case:
  assumes key: "cx_idempotency_key ctx = Some k" "k \<noteq> []"
    and first: "scan_text answer dup ctx (moderate_all reqs (mod_start t n)) = (Inr r, s1)" and "sr_case r = Some i"
    and dup: "dup \<Longrightarrow> dupb"
  shows "let s = moderate_all later s1 in (\<exists>r2. fst (scan_text answer dupb ctx s) = Inr r2 \<and> sr_case r2 = Some i)
     \<and> cases (committed (snd (scan_text answer dupb ctx s))) = cases (committed s)"
proof -
  let ?s = "moderate_all reqs (mod_start t n)" and ?s2 = "moderate_all later s1"
  let ?r = "\<lambda>d. build_routing_result (scan_openai_text answer) [] (text_dup d) False"
  let ?ty = "case cx_subject_type ctx of None \<Rightarrow> Sj_Msg | Some ty \<Rightarrow> ty"
  have scan: "scan_text answer d ctx s = scan_tail (?r d) ?ty ''openai_mod+semdup'' (Some k) (Some k) ctx s" for d s
    by (simp add: scan_text_def key Let_def)
  obtain s0 where s0: "scan_text answer dup ctx ?s = (case create_case_from_routing (?r dup) ctx (Some k) s0 of
      (Inl e, s1) \<Rightarrow> (Inl e, s1\<lparr>work := committed s1\<rparr>)
    | (Inr c, s1) \<Rightarrow> (Inr (scan_answer (?r dup) c), s1\<lparr>committed := work s1\<rparr>))"
    unfolding scan using scan_tail_run [of ?s "?r dup" ?ty "''openai_mod+semdup''" "Some k" "Some k" ctx] by blast
  obtain c s' where c: "create_case_from_routing (?r dup) ctx (Some k) s0 = (Inr (Some c), s')" "mc_id c = i"
      "committed s1 = work s'"
    using s0 first \<open>sr_case r = Some i\<close> by (auto simp: scan_answer_def split: prod.splits sum.splits)
  note k1 = routed_case_key [OF c(1) key(2)]
  have s1: "s1 = moderate_all (reqs @ [Scan_Text answer dup ctx]) (mod_start t n)"
    using first by (simp add: moderate_all_def)
  have "mod_state (committed s1) s1"
    using reachable [of "reqs @ [Scan_Text answer dup ctx]" t n] reachable_tidy [of "reqs @ [Scan_Text answer dup ctx]" t n]
    unfolding s1 [symmetric]
    by (auto simp: mod_state_def tidy_def mod_good_def cases_good_def actions_good_def reports_good_def notices_good_def intro: grows_refl)
  from moderate_all_keeps [OF this, of later]
  have good: "grows case_step (cases (committed s1)) (cases (committed ?s2))" "distinct (keyed (cases (committed ?s2)))"
    by (simp_all add: mod_state_def mod_good_def cases_good_def)
  have "c \<in> set (cases (committed s1))" using k1 c(3) by simp
  from grows_member [OF this good(1)] obtain d where d: "d \<in> set (cases (committed ?s2))" "case_step c d" .
  have dk: "mc_idempotency_key d = Some k" "mc_id d = i" using d(2) k1 c(2) by (simp_all add: case_step_def case_identity_def)
  have "tier_level (ro_tier (?r dup)) \<le> tier_level (ro_tier (?r dupb)) \<and> (ro_forced_human (?r dup) \<longrightarrow> ro_forced_human (?r dupb))"
    using dup by (intro routing_mono) (auto simp: scores_le_def labels_le_def dup_le_def list_all2_refl)
  moreover have "tier_level q = 0 \<longleftrightarrow> q = Tier_0_Allow" for q by (cases q) simp_all
  ultimately have again: "\<not> (ro_tier (?r dupb) = Tier_0_Allow \<and> \<not> ro_forced_human (?r dupb))"
    using k1 by (metis le_0_eq)
  obtain s3 where s3: "cases (work s3) = cases (committed ?s2)"
    "scan_text answer dupb ctx ?s2 = (case create_case_from_routing (?r dupb) ctx (Some k) s3 of
      (Inl e, s1) \<Rightarrow> (Inl e, s1\<lparr>work := committed s1\<rparr>)
    | (Inr c, s1) \<Rightarrow> (Inr (scan_answer (?r dupb) c), s1\<lparr>committed := work s1\<rparr>))"
    unfolding scan using scan_tail_run [of ?s2 "?r dupb" ?ty "''openai_mod+semdup''" "Some k" "Some k" ctx] by blast
  have "filter (\<lambda>x. mc_idempotency_key x = Some k) (cases (work s3)) = [d]"
    unfolding s3(1) by (rule keyed_unique [OF good(2) d(1) dk(1)])
  from routed_case_again [OF this key(2) again] s3 dk(2) show ?thesis by (simp add: Let_def scan_answer_def)
qed

lemma retried_scan_opens_no_second_case_witness:
  "let ctx = \<lparr>cx_subject_type = Some Sj_Msg, cx_subject_id = Some 7, cx_owner = Some 8, cx_idempotency_key = Some ''msg-7''\<rparr>;
       s1 = snd (scan_text None False ctx (mod_start 0 3)) in
     (\<exists>r2. fst (scan_text None True ctx (moderate_all [Later 60] s1)) = Inr r2 \<and> sr_case r2 = Some 3)"
proof -
  let ?ctx = "\<lparr>cx_subject_type = Some Sj_Msg, cx_subject_id = Some 7, cx_owner = Some 8, cx_idempotency_key = Some ''msg-7''\<rparr>"
  have "case fst (scan_text None False ?ctx (mod_start 0 3)) of Inr r \<Rightarrow> sr_case r = Some 3 | Inl e \<Rightarrow> False" by code_simp
  then obtain r s1 where r: "scan_text None False ?ctx (moderate_all [] (mod_start 0 3)) = (Inr r, s1)" "sr_case r = Some 3"
    by (cases "scan_text None False ?ctx (mod_start 0 3)") (auto simp: moderate_all_def split: sum.splits)
  then show ?thesis
    using retried_scan_opens_no_second_case [OF _ _ r, where later = "[Later 60]" and k = "''msg-7''" and dupb = True]
    by (simp add: Let_def moderate_all_def)
qed

lemma save_case_run: "save_case i f s = (Inr (), s\<lparr>work := (work s)\<lparr>cases := update_where (\<lambda>c. mc_id c = i) f (cases (work s))\<rparr>\<rparr>)"
  by (simp add: save_case_def modify_run)

text \<open>C23. A decision is taken by a moderator on a case under review or escalated, is recorded once under
  that moderator's name against the owner of the subject and handed to propagation once; a ban
  or a deletion needs the name of a second reviewer who is not the first, and a case that
  needs human eyes is not dismissed.
\<close>

theorem decision_effect:
  assumes "take_action who i b s = (Inr (a, p), s')"
  shows "\<exists>me c. require_mod_role who = Inr me \<and> filter (\<lambda>c. mc_id c = i) (cases (committed s)) = [c]
     \<and> mc_status c \<in> set [Cs_In_Review, Cs_Escalated]
     \<and> \<not> (ca_type b \<in> set dual_review_actions \<and> ca_second_reviewer b \<in> set [None, Some me])
     \<and> \<not> (ca_type b = Dismiss \<and> mc_forced_human c)
     \<and> actions (committed s') = actions (committed s) @ [a] \<and> ma_type a = ca_type b \<and> ma_reviewer a = me \<and> ma_case a = i
     \<and> ma_target_user a = mc_owner c
     \<and> cases (committed s') = update_where (\<lambda>c. mc_id c = i) (action_row me b (clock s)) (cases (committed s))
     \<and> outbox s' = outbox s @ [dispatch_message a (ca_second_reviewer b)]"
proof (cases "require_mod_role who")
  case (Inl e)
  with assms show ?thesis by (simp add: take_action_def with_id_def raise_run)
next
  case (Inr me)
  obtain x where x: "one_or_none (filter (\<lambda>c. mc_id c = i) (cases (committed s))) = Inr (Some x)"
    using assms by (cases "one_or_none (filter (\<lambda>c. mc_id c = i) (cases (committed s)))")
      (auto simp: take_action_def with_id_def Inr in_session_def bind_run get_case_or_404_def scalar_run raise_run split: option.splits)
  have g: "action_guard me b x = None"
    using assms by (cases "action_guard me b x")
      (auto simp: take_action_def with_id_def Inr in_session_def bind_run get_case_or_404_def scalar_run raise_run ret_run x)
  have run: "a = \<lparr>ma_id = next_uuid s, ma_case = i, ma_type = ca_type b, ma_reviewer = me, ma_reason = ca_reason b,
      ma_target_user = mc_owner x, ma_created_at = clock s, ma_propagation = Pr_Pending\<rparr> \<and>
    actions (committed s') = actions (committed s) @ [a] \<and>
    cases (committed s') = update_where (\<lambda>c. mc_id c = i) (action_row me b (clock s)) (cases (committed s)) \<and>
    outbox s' = outbox s @ [dispatch_message a (ca_second_reviewer b)]"
    using assms by (auto simp: take_action_def with_id_def Inr in_session_def bind_run get_case_or_404_def scalar_run raise_run
        ret_run x g now_run uuid4_run Let_def seq_run add_action_def modify_run save_case_run commit_run publish_run)
  show ?thesis
    using run one_or_none_SomeD [OF x] g unfolding action_guard_None
    by (intro exI [of _ me] exI [of _ x]) (auto simp: Inr)
qed

text \<open>A queue with one reported user, which a moderator has claimed.\<close>

definition mod_caller :: caller where
  "mod_caller = \<lparr>cl_role = Some ''mod'', cl_user = Some ''0000000000000000000000000000004d''\<rparr>"

definition demo_claimed :: mod_sess where
  "demo_claimed = (mod_start 0 5)\<lparr>committed := empty_mod_db\<lparr>cases := [claim_row 77 60
     (new_report_case 3 0 Sj_User 8 11)]\<rparr>\<rparr>"

lemma decision_effect_witness:
  "\<exists>me c. require_mod_role mod_caller = Inr me \<and> filter (\<lambda>c. mc_id c = 3) (cases (committed demo_claimed)) = [c] \<and> mc_owner c = 8"
proof -
  let ?b = "\<lparr>ca_type = Permanent_Ban, ca_reason = ''threats in chat'', ca_second_reviewer = Some 78\<rparr>"
  have me: "require_mod_role mod_caller = Inr 77" by code_simp
  obtain a p s' where r: "take_action mod_caller 3 ?b demo_claimed = (Inr (a, p), s')" "ma_target_user a = 8"
    by (simp add: take_action_def with_id_def me in_session_def bind_run get_case_or_404_def scalar_run demo_claimed_def mod_start_def
        empty_mod_db_def claim_row_def new_report_case_def action_guard_def dual_review_actions_def now_run uuid4_run Let_def seq_run
        add_action_def modify_run save_case_run commit_run publish_run ret_run)
  from decision_effect [OF r(1)] r(2) show ?thesis by auto
qed

lemma two_open_cases_raise:
  assumes "2 \<le> length (filter (open_report_case ty subject) (cases (committed s)))" and "cases (work s1) = cases (committed s)"
  shows "find_or_create_case ty subject me s1 = (Inl MultipleResultsFound, s1)"
  using assms by (cases "filter (open_report_case ty subject) (cases (committed s))" rule: remdups_adj.cases)
    (simp_all add: find_or_create_case_def bind_run scalar_run)

text \<open>Reports on one subject can get stuck: \<open>release_case\<close> opens whatever case the caller once
  claimed, so a subject can come to have two open report cases, and from then on every report
  on that subject fails and is not stored, whoever files it.
\<close>

theorem double_case_blocks_reports:
  assumes "2 \<le> length (filter (open_report_case (rc_subject_type b) (rc_subject_id b)) (cases (committed s)))"
  shows "(\<exists>e. fst (create_report header b s) = Inl e) \<and> committed (snd (create_report header b s)) = committed s"
proof (cases "get_reporter_user_id header")
  case (Inl e)
  then show ?thesis by (simp add: create_report_def with_id_def raise_run)
next
  case (Inr me)
  let ?s0 = "s\<lparr>work := committed s\<rparr>"
  obtain r1 s1 where t: "check_and_increment_throttle me reports_per_user_per_day ?s0 = (r1, s1)" by fastforce
  show ?thesis
  proof (cases r1)
    case (Inl e)
    with t show ?thesis by (simp add: create_report_run [OF Inr] Let_def rolled_back_def)
  next
    case ok: (Inr v)
    have s1: "s1 = ?s0\<lparr>work := (committed s)\<lparr>throttles := bump me (midnight (clock s)) (throttles (committed s))\<rparr>\<rparr>"
      using throttle_room(1) [of me reports_per_user_per_day ?s0 s1] t ok by simp
    have "find_or_create_case (rc_subject_type b) (rc_subject_id b) me (s1\<lparr>outbox := outbox s @ alert_of b s\<rparr>)
        = (Inl MultipleResultsFound, s1\<lparr>outbox := outbox s @ alert_of b s\<rparr>)"
      by (rule two_open_cases_raise [OF assms]) (simp add: s1)
    with t ok show ?thesis by (simp add: create_report_run [OF Inr] Let_def) (simp add: s1)
  qed
qed

definition demo_report :: report_create where
  "demo_report = \<lparr>rc_subject_type = Sj_Mockup, rc_subject_id = 9, rc_description = ''this is not their work'', rc_screenshot = None\<rparr>"

definition demo_double :: mod_sess where
  "demo_double = (mod_start 0 5)\<lparr>committed := empty_mod_db\<lparr>cases := [new_report_case 3 0 Sj_Mockup 9 11, new_report_case 4 7 Sj_Mockup 9 12]\<rparr>\<rparr>"

lemma double_case_blocks_reports_witness:
  "\<exists>e. fst (create_report (Some (str_uuid 6)) demo_report demo_double) = Inl e"
proof -
  have "2 \<le> length (filter (open_report_case (rc_subject_type demo_report) (rc_subject_id demo_report)) (cases (committed demo_double)))"
    by code_simp
  from double_case_blocks_reports [OF this] show ?thesis by blast
qed

section \<open>The DMCA clock\<close>

lemma hide_dbs_notices:
  "notices (hide_dbs k now ns db) = update_where (\<lambda>x. dn_id x \<in> dn_id ` set ns) (hidden_row now) (notices db)"
proof (induction ns arbitrary: k db)
  case Nil
  show ?case by (simp add: update_where_def)
next
  case (Cons n ns)
  show ?case by (simp add: Cons.IH hide_db_def) (simp add: update_where_def hidden_row_def)
qed

lemma hide_dbs_actions:
  "set (actions db) \<subseteq> set (actions (hide_dbs k now ns db))"
  "n \<in> set ns \<Longrightarrow> dn_case n \<noteq> None \<Longrightarrow> \<exists>i. hide_action i now n \<in> set (actions (hide_dbs k now ns db))"
proof -
  show sub: "set (actions db) \<subseteq> set (actions (hide_dbs k now ns db))" for k ns db
  proof (induction ns arbitrary: k db)
    case (Cons n ns)
    have "set (actions db) \<subseteq> set (actions (hide_db k now n db))" by (auto simp: hide_db_def)
    with Cons.IH [of "hide_db k now n db" "Suc k"] show ?case by simp
  qed simp
  show "n \<in> set ns \<Longrightarrow> dn_case n \<noteq> None \<Longrightarrow> \<exists>i. hide_action i now n \<in> set (actions (hide_dbs k now ns db))"
  proof (induction ns arbitrary: k db)
    case (Cons m ns)
    show ?case
    proof (cases "n = m")
      case True
      with Cons.prems(2) have "hide_action k now n \<in> set (actions (hide_db k now m db))" by (auto simp: hide_db_def)
      with sub [of "hide_db k now m db" "Suc k" ns] show ?thesis by auto
    next
      case False
      with Cons show ?thesis by simp
    qed
  qed simp
qed

text \<open>C24. The hiding task hides exactly what is due: in every state the service can reach it
  succeeds, hides each notice whose day has passed and no other, leaves none that is due, and
  records a hide action on the case of each.
\<close>

theorem due_notices_are_hidden:
  "let s = moderate_all reqs (mod_start t n); due = filter (due_to_hide (clock s)) (notices (committed s));
       s' = snd (enact_dmca_hide s) in
     fst (enact_dmca_hide s) = Inr (length due)
     \<and> notices (committed s') = update_where (due_to_hide (clock s)) (hidden_row (clock s)) (notices (committed s))
     \<and> filter (due_to_hide (clock s)) (notices (committed s')) = []
     \<and> list_all (\<lambda>x. list_ex (\<lambda>a. ma_type a = Hide \<and> Some (ma_case a) = dn_case x \<and> ma_target_user a = dn_target_user x)
         (actions (committed s'))) due"
proof -
  let ?s = "moderate_all reqs (mod_start t n)"
  let ?xs = "notices (committed ?s)" and ?now = "clock ?s"
  let ?due = "filter (due_to_hide ?now) ?xs"
  have xs: "distinct (map dn_id ?xs)" "\<And>x. x \<in> set ?xs \<Longrightarrow> notice_ok x"
    using reachable [of reqs t n] by (auto simp: mod_good_def notices_good_def)
  have cased: "dn_case x \<noteq> None" if "x \<in> set ?due" for x
    using that xs(2) by (auto simp: due_to_hide_def notice_ok_def)
  then have none: "\<not> list_ex (\<lambda>x. dn_case x = None) ?due" unfolding list_ex_iff by blast
  have "(dn_id x \<in> dn_id ` set ?due) = due_to_hide ?now x" if "x \<in> set ?xs" for x
    using that xs(1) by (auto simp: distinct_map dest: inj_onD)
  then have up: "update_where (\<lambda>x. dn_id x \<in> dn_id ` set ?due) (hidden_row ?now) ?xs = update_where (due_to_hide ?now) (hidden_row ?now) ?xs"
    by (simp add: update_where_def)
  have act: "list_ex (\<lambda>a. ma_type a = Hide \<and> Some (ma_case a) = dn_case x \<and> ma_target_user a = dn_target_user x)
      (actions (hide_dbs (next_uuid ?s) ?now ?due (committed ?s)))" if x: "x \<in> set ?due" for x
  proof -
    obtain i where i: "hide_action i ?now x \<in> set (actions (hide_dbs (next_uuid ?s) ?now ?due (committed ?s)))"
      using hide_dbs_actions(2) [OF x cased [OF x]] by blast
    have "ma_type (hide_action i ?now x) = Hide \<and> Some (ma_case (hide_action i ?now x)) = dn_case x
        \<and> ma_target_user (hide_action i ?now x) = dn_target_user x"
      using cased [OF x] by (auto simp: hide_action_def)
    with i show ?thesis unfolding list_ex_iff by blast
  qed
  have "filter (due_to_hide ?now) (update_where (due_to_hide ?now) (hidden_row ?now) ?xs) = []"
    by (auto simp: filter_empty_conv set_update_where hidden_row_def due_to_hide_def)
  with none up act show ?thesis by (simp add: enact_run Let_def hide_dbs_notices list_all_iff)
qed

text \<open>What the request class lets through has no defect: the branch that records a defective notice is never taken.\<close>

lemma accepted_notice_has_no_defect: "dmca_create_ok b \<Longrightarrow> validate_dmca_fields b = []"
  by (auto simp: dmca_create_ok_def validate_dmca_fields_def)

section \<open>Propagation and the chat gate\<close>

definition run_tasks :: "string list \<Rightarrow> (string \<times> json) list \<Rightarrow> mod_sess \<Rightarrow> mod_sess" where
  "run_tasks ts body s = fold (\<lambda>t s. snd (propagate t body s)) ts s"

definition args_of :: "mod_action \<Rightarrow> uuid option \<Rightarrow> dispatch_args" where
  "args_of a second = \<lparr>da_action_id = str_uuid (ma_id a), da_type = str_action (ma_type a), da_target = str_uuid (ma_target_user a),
     da_case = str_uuid (ma_case a), da_reason = ma_reason a, da_reviewer = str_uuid (ma_reviewer a), da_second = map_option str_uuid second\<rparr>"

lemma propagate_run:
  assumes "map_of body ''action_id'' = Some (JStr (str_uuid i))" and "i < 16 ^ 32" and "ma_id a = i" "a \<in> set (actions (committed s))"
  shows "propagate service body s = (Inr (), let db = (committed s)\<lparr>propagations := propagations (committed s)
      @ [\<lparr>pl_action = i, pl_service = service, pl_status = ''ok''\<rparr>]\<rparr> in
    s\<lparr>work := db, committed := db, outbox := outbox s @ [Message (''moderation.'' @ service) body]\<rparr>)"
proof -
  have "filter (\<lambda>x. ma_id x = i) (actions (committed s)) \<noteq> []" using assms(3,4) by (auto simp: filter_empty_conv)
  with assms(1,2) show ?thesis
    by (simp add: propagate_def seq_run publish_run update_propagation_event_def parse_str_uuid in_session_def bind_run select_run
        modify_run commit_run Let_def)
qed

lemma run_tasks_log:
  assumes "map_of body ''action_id'' = Some (JStr (str_uuid (ma_id a)))" and "ma_id a < 16 ^ 32" and "a \<in> set (actions (committed s))"
  shows "propagations (committed (run_tasks ts body s))
      = propagations (committed s) @ map (\<lambda>t. \<lparr>pl_action = ma_id a, pl_service = t, pl_status = ''ok''\<rparr>) ts
    \<and> outbox (run_tasks ts body s) = outbox s @ map (\<lambda>t. Message (''moderation.'' @ t) body) ts"
  using assms(3)
proof (induction ts arbitrary: s)
  case (Cons t ts)
  then show ?case using Cons.IH [of "snd (propagate t body s)"]
    by (simp add: run_tasks_def propagate_run [OF assms(1,2) refl Cons.prems] Let_def)
qed (simp add: run_tasks_def)

text \<open>A decision reaches the services it concerns: dispatching a recorded action and running the
  tasks this queues leaves one entry per service in the propagation log and one event per service:
  nine services for a ban or a deletion, chat and the audit for a mute, the audit alone otherwise.
\<close>

theorem action_reaches_its_services:
  assumes "a \<in> set (actions (committed s))" and "ma_id a < 16 ^ 32"
  shows "let ts = tasks_to_dispatch (str_action (ma_type a)); (r, s1) = dispatch_action (args_of a second) s;
       body = dispatch_payload (args_of a second) (str_uuid (next_uuid s)); s2 = run_tasks ts body s1 in
     r = Inr (str_uuid (next_uuid s), length ts)
     \<and> propagations (committed s2) = propagations (committed s) @ map (\<lambda>t. \<lparr>pl_action = ma_id a, pl_service = t, pl_status = ''ok''\<rparr>) ts
     \<and> outbox s2 = outbox s @ map (\<lambda>t. Message (''celery:mod.propagation.'' @ t) [(''payload'', JObj body)]) ts
         @ [Message ''moderation.action_taken'' body] @ map (\<lambda>t. Message (''moderation.'' @ t) body) ts
     \<and> length ts = (if ma_type a \<in> set dual_review_actions then 9 else if mute_hours (ma_type a) \<noteq> None then 2 else 1)"
proof -
  let ?ts = "tasks_to_dispatch (str_action (ma_type a))" and ?body = "dispatch_payload (args_of a second) (str_uuid (next_uuid s))"
  let ?s1 = "s\<lparr>next_uuid := Suc (next_uuid s), outbox := outbox s
    @ map (\<lambda>t. Message (''celery:mod.propagation.'' @ t) [(''payload'', JObj ?body)]) ?ts @ [Message ''moderation.action_taken'' ?body]\<rparr>"
  have d: "dispatch_action (args_of a second) s = (Inr (str_uuid (next_uuid s), length ?ts), ?s1)"
    by (simp add: dispatch_action_def bind_run uuid4_run Let_def seq_run for_publish_run publish_run ret_run args_of_def)
  have k: "map_of ?body ''action_id'' = Some (JStr (str_uuid (ma_id a)))" by (simp add: dispatch_payload_def args_of_def)
  have l: "length ?ts = (if ma_type a \<in> set dual_review_actions then 9 else if mute_hours (ma_type a) \<noteq> None then 2 else 1)"
    by (cases "ma_type a") (simp_all add: tasks_to_dispatch_def full_fan_out_def dual_review_actions_def mute_hours_def)
  from run_tasks_log [OF k assms(2), of ?s1 ?ts] assms(1) d l show ?thesis by (simp add: Let_def)
qed

definition demo_ban :: mod_action where
  "demo_ban = \<lparr>ma_id = 4, ma_case = 3, ma_type = Permanent_Ban, ma_reviewer = 77, ma_reason = ''threats in chat'', ma_target_user = 8,
     ma_created_at = 0, ma_propagation = Pr_Pending\<rparr>"

lemma action_reaches_its_services_witness:
  "length (tasks_to_dispatch (str_action (ma_type demo_ban))) = 9"
  using action_reaches_its_services [of demo_ban "(mod_start 0 5)\<lparr>committed := empty_mod_db\<lparr>actions := [demo_ban]\<rparr>\<rparr>" "Some 78"]
  by (simp add: Let_def demo_ban_def dual_review_actions_def case_prod_unfold)

text \<open>The chat gate never learns of a ban: no code writes the keys it reads, so with redis up every
  user, banned or not, is neither banned nor muted, and with redis down the fallback on the
  recorded actions raises before it reads any of them.
\<close>

theorem chat_gate_never_sees_a_ban:
  "(\<exists>k. fst (get_user_state fromiso (Redis_Values None None None) u s) =
       Inr \<lparr>us_banned = False, us_muted = False, us_mute_expires = None, us_active_cases = k\<rparr>)
   \<and> fst (get_user_state fromiso Redis_Down u s) = Inl (UnboundLocalError ''datetime'')"
  by (simp add: get_user_state_def in_session_def with_active_cases_def bind_run select_run ret_run raise_run)

text \<open>Were the fallback to run, a mute still in force that came after a ban would hide the ban.\<close>

lemma later_mute_hides_ban:
  assumes "ma_type m = Temp_Mute_1h" and "now < ma_created_at m + hours 1" and "ma_type a = Permanent_Ban"
  shows "state_from_actions now [m, a] = (False, True, Some (ma_created_at m + hours 1))"
  using assms by (simp add: dual_review_actions_def mute_hours_def)

text \<open>The queue is served by urgency, then by deadline, and only with cases that still wait.\<close>

lemma queue_by_urgency:
  assumes "fst (get_queue who f limit offset s) = Inr cs"
  shows "sorted (map queue_key cs) \<and> list_all (in_queue (clock s) f) cs \<and> length cs \<le> limit"
proof (cases "require_mod_role who")
  case (Inr me)
  let ?q = "sort_key queue_key (filter (in_queue (clock s) f) (cases (committed s)))"
  have cs: "cs = take limit (drop offset ?q)"
    using assms Inr by (simp add: get_queue_def with_id_def in_session_def bind_run now_run select_run ret_run)
  have "sorted (map queue_key cs)"
    unfolding cs take_map [symmetric] drop_map [symmetric] by (intro sorted_wrt_take sorted_wrt_drop sorted_sort_key)
  moreover have "set cs \<subseteq> set ?q" unfolding cs using set_take_subset set_drop_subset by fast
  ultimately show ?thesis by (auto simp: list_all_iff cs)
qed (use assms in \<open>simp add: get_queue_def with_id_def raise_run\<close>)

end
