(* ===== verification/Colab_Rate_Limit.thy ===== *)
theory Colab_Rate_Limit
  imports Colab_Prelude Complex_Main
begin

text \<open>
  The Redis token bucket of colab_common/rate_limit.py: the Lua script, the key's expiry and
  \<open>check_rate_limit\<close>. The refill rate is an exact rational where Lua computes with floats. A
  bucket lets through its capacity and what was refilled, no more; the expiry of its key is
  invisible; and a client that comes back before a whole token was refilled is never let in
  again, since every refusal starts the measuring of time anew.
\<close>

section \<open>The script\<close>

text \<open>A bucket as the hash \<open>tokens\<close>, \<open>last_refill\<close>, and the moment its key expires.\<close>

record bucket =
  bk_tokens :: int
  bk_last_refill :: int
  bk_expires_at :: datetime

type_synonym bucket_map = "string \<Rightarrow> bucket option"

definition unix_seconds :: "datetime \<Rightarrow> int" where
  "unix_seconds t = t div 1000000"

definition live_bucket :: "datetime \<Rightarrow> bucket option \<Rightarrow> bucket option" where
  "live_bucket t b = (case b of None \<Rightarrow> None | Some x \<Rightarrow> if t < bk_expires_at x then Some x else None)"

text \<open>The tokens after the refill, and what is left after one attempt.\<close>

definition refilled_tokens :: "int \<Rightarrow> rat \<Rightarrow> int \<Rightarrow> bucket option \<Rightarrow> int" where
  "refilled_tokens capacity refill now b =
     (let tokens = (case b of None \<Rightarrow> capacity | Some x \<Rightarrow> bk_tokens x);
          last_refill = (case b of None \<Rightarrow> now | Some x \<Rightarrow> bk_last_refill x);
          refilled = \<lfloor>of_int (now - last_refill) * refill\<rfloor>
      in min capacity (tokens + refilled))"

definition bucket_ttl :: "int \<Rightarrow> rat \<Rightarrow> int" where
  "bucket_ttl capacity refill = \<lceil>of_int capacity / refill\<rceil> + 10"

definition token_bucket_lua :: "int \<Rightarrow> rat \<Rightarrow> datetime \<Rightarrow> bucket option \<Rightarrow> (bool \<times> int) \<times> bucket" where
  "token_bucket_lua capacity refill t b =
     (let now = unix_seconds t; tokens = refilled_tokens capacity refill now b;
          expires_at = t + bucket_ttl capacity refill * 1000000
      in if 1 \<le> tokens
         then ((True, tokens - 1), \<lparr>bk_tokens = tokens - 1, bk_last_refill = now, bk_expires_at = expires_at\<rparr>)
         else ((False, tokens), \<lparr>bk_tokens = tokens, bk_last_refill = now, bk_expires_at = expires_at\<rparr>))"

definition check_rate_limit :: "bucket_map \<Rightarrow> datetime \<Rightarrow> string \<Rightarrow> int \<Rightarrow> rat \<Rightarrow> (bool \<times> int) \<times> bucket_map" where
  "check_rate_limit m t key capacity refill =
     (case token_bucket_lua capacity refill t (live_bucket t (m key)) of (r, b) \<Rightarrow> (r, m(key \<mapsto> b)))"

lemma check_other_key: "k \<noteq> key \<Longrightarrow> snd (check_rate_limit m t key c r) k = m k"
  by (simp add: check_rate_limit_def split: prod.split)

lemma check_fresh:
  assumes "m key = None" and "1 \<le> c"
  shows "fst (fst (check_rate_limit m t key c r))"
  using assms by (simp add: check_rate_limit_def live_bucket_def token_bucket_lua_def refilled_tokens_def Let_def split: prod.split)

text \<open>The answers to attempts on one key at the given times.\<close>

fun attempts :: "int \<Rightarrow> rat \<Rightarrow> string \<Rightarrow> datetime list \<Rightarrow> bucket_map \<Rightarrow> bool list" where
  "attempts capacity refill key [] m = []"
| "attempts capacity refill key (t # ts) m =
     (case check_rate_limit m t key capacity refill of (r, m1) \<Rightarrow> fst r # attempts capacity refill key ts m1)"

definition passed :: "bool list \<Rightarrow> nat" where
  "passed bs = length (filter id bs)"

section \<open>Expiry is invisible\<close>

text \<open>The bucket as if its key never expired.\<close>

fun attempts_for_ever :: "int \<Rightarrow> rat \<Rightarrow> datetime list \<Rightarrow> bucket option \<Rightarrow> bool list" where
  "attempts_for_ever capacity refill [] b = []"
| "attempts_for_ever capacity refill (t # ts) b =
     (case token_bucket_lua capacity refill t b of (r, b1) \<Rightarrow> fst r # attempts_for_ever capacity refill ts (Some b1))"

text \<open>A bucket the script left at some moment.\<close>

definition bucket_ok :: "int \<Rightarrow> rat \<Rightarrow> datetime \<Rightarrow> bucket \<Rightarrow> bool" where
  "bucket_ok capacity refill t b \<longleftrightarrow> 0 \<le> bk_tokens b \<and> (\<exists>t0 \<le> t. bk_last_refill b = unix_seconds t0
     \<and> bk_expires_at b = t0 + bucket_ttl capacity refill * 1000000)"

lemma unix_seconds_mono: "t \<le> t2 \<Longrightarrow> unix_seconds t \<le> unix_seconds t2"
  by (simp add: unix_seconds_def zdiv_mono1)

lemma refilled_nonneg:
  assumes "bucket_ok c r t0 b" "t0 \<le> t" "0 \<le> c" "0 < r"
  shows "0 \<le> refilled_tokens c r (unix_seconds t) (Some b)"
proof -
  have "bk_last_refill b \<le> unix_seconds t" using assms(1, 2) unix_seconds_mono by (force simp: bucket_ok_def)
  then have "0 \<le> of_int (unix_seconds t - bk_last_refill b) * r" using assms(4) by simp
  then have "0 \<le> \<lfloor>of_int (unix_seconds t - bk_last_refill b) * r\<rfloor>" by simp
  with assms(1, 3) show ?thesis by (simp add: refilled_tokens_def bucket_ok_def)
qed

lemma expired_is_full:
  assumes ok: "bucket_ok c r t0 b" and late: "bk_expires_at b \<le> t" and c: "0 \<le> c" and r: "0 < r"
  shows "refilled_tokens c r (unix_seconds t) (Some b) = c"
proof -
  obtain t1 where b: "bk_last_refill b = unix_seconds t1" "bk_expires_at b = t1 + bucket_ttl c r * 1000000" "0 \<le> bk_tokens b"
    using ok by (auto simp: bucket_ok_def)
  have "(t1 + bucket_ttl c r * 1000000) div 1000000 \<le> t div 1000000" using b late by (intro zdiv_mono1) auto
  then have "bucket_ttl c r \<le> unix_seconds t - unix_seconds t1" by (simp add: unix_seconds_def)
  then have "of_int c / r \<le> of_int (unix_seconds t - unix_seconds t1)"
    unfolding bucket_ttl_def by linarith
  then have "of_int c \<le> of_int (unix_seconds t - unix_seconds t1) * r" using r by (simp add: pos_divide_le_eq)
  then have "c \<le> \<lfloor>of_int (unix_seconds t - unix_seconds t1) * r\<rfloor>" by (simp only: le_floor_iff)
  with b show ?thesis by (simp add: refilled_tokens_def)
qed

lemma lua_leaves_ok:
  assumes "b = None \<or> (\<exists>x t0. b = Some x \<and> bucket_ok c r t0 x \<and> t0 \<le> t)" "1 \<le> c" "0 < r"
  shows "bucket_ok c r t (snd (token_bucket_lua c r t b))"
proof -
  have "0 \<le> refilled_tokens c r (unix_seconds t) b"
    using assms refilled_nonneg [of c r] by (auto simp: refilled_tokens_def)
  then show ?thesis by (auto simp: token_bucket_lua_def bucket_ok_def Let_def)
qed

lemma lua_expired:
  assumes "bucket_ok c r t0 b" "bk_expires_at b \<le> t" "0 \<le> c" "0 < r"
  shows "token_bucket_lua c r t (Some b) = token_bucket_lua c r t None"
proof -
  have "refilled_tokens c r (unix_seconds t) (Some b) = refilled_tokens c r (unix_seconds t) None"
    unfolding expired_is_full [OF assms] by (simp add: refilled_tokens_def)
  then show ?thesis by (simp add: token_bucket_lua_def Let_def)
qed

lemma expiry_step:
  assumes "case b of None \<Rightarrow> True | Some x \<Rightarrow> \<exists>t0 \<le> t. bucket_ok c r t0 x" and "1 \<le> c" "0 < r"
  shows "token_bucket_lua c r t (live_bucket t b) = token_bucket_lua c r t b"
  using assms lua_expired [of c r] by (auto simp: live_bucket_def split: option.splits)

lemma expiry_invisible:
  assumes "1 \<le> c" "0 < r" "sorted ts"
    and "case m key of None \<Rightarrow> True | Some x \<Rightarrow> \<exists>t0. bucket_ok c r t0 x \<and> (\<forall>t \<in> set ts. t0 \<le> t)"
  shows "attempts c r key ts m = attempts_for_ever c r ts (m key)"
  using assms(3, 4)
proof (induction ts arbitrary: m)
  case (Cons t ts)
  obtain a b where run: "token_bucket_lua c r t (m key) = (a, b)" by fastforce
  have "case m key of None \<Rightarrow> True | Some x \<Rightarrow> \<exists>t0 \<le> t. bucket_ok c r t0 x"
    using Cons.prems(2) by (auto split: option.splits)
  then have live: "token_bucket_lua c r t (live_bucket t (m key)) = (a, b)" using expiry_step assms(1, 2) run by metis
  have "bucket_ok c r t b"
    using lua_leaves_ok [of "m key" c r t] assms(1, 2) Cons.prems(2) run by (auto split: option.splits)
  moreover have "\<forall>t2 \<in> set ts. t \<le> t2" using Cons.prems(1) by simp
  ultimately have "attempts c r key ts (m(key \<mapsto> b)) = attempts_for_ever c r ts ((m(key \<mapsto> b)) key)"
    using Cons.prems(1) by (intro Cons.IH) auto
  then show ?case by (simp add: check_rate_limit_def live run)
qed simp

text \<open>Dropping an idle bucket changes no answer: on every series of attempts the bucket whose key Redis forgets behaves as the bucket kept for ever.\<close>

theorem bucket_expiry_is_invisible:
  assumes "1 \<le> capacity" "0 < refill" "sorted ts" "m key = None"
  shows "attempts capacity refill key ts m = attempts_for_ever capacity refill ts None"
  using expiry_invisible [OF assms(1-3)] assms(4) by simp

lemma bucket_expiry_is_invisible_witness:
  "attempts 2 1 ''k'' [0, 0, 0, 20000000] (\<lambda>_. None) = attempts_for_ever 2 1 [0, 0, 0, 20000000] None"
  by (rule bucket_expiry_is_invisible) simp_all

section \<open>How much gets through\<close>

lemma floor_add_le: "\<lfloor>x\<rfloor> + \<lfloor>y\<rfloor> \<le> \<lfloor>x + y :: rat\<rfloor>"
  by (rule le_floor_add)

lemma passed_from:
  assumes "1 \<le> c" "0 < r" "sorted (t0 # ts)" "bucket_ok c r t0 b" "bk_last_refill b = unix_seconds t0"
  shows "int (passed (attempts_for_ever c r ts (Some b)))
    \<le> bk_tokens b + \<lfloor>of_int (unix_seconds (last (t0 # ts)) - unix_seconds t0) * r\<rfloor>"
  using assms(3-)
proof (induction ts arbitrary: t0 b)
  case Nil
  then show ?case by (simp add: passed_def bucket_ok_def)
next
  case (Cons t ts)
  let ?tk = "refilled_tokens c r (unix_seconds t) (Some b)" and ?L = "last (t # ts)"
  obtain a b1 where run: "token_bucket_lua c r t (Some b) = (a, b1)" by fastforce
  have ok: "bucket_ok c r t b1"
    using lua_leaves_ok [of "Some b" c r t] Cons.prems assms(1, 2) run by auto
  have b1: "bk_last_refill b1 = unix_seconds t" "bk_tokens b1 + (if fst a then 1 else 0) = ?tk"
    using run by (auto simp: token_bucket_lua_def Let_def split: if_splits)
  have tk: "?tk \<le> bk_tokens b + \<lfloor>of_int (unix_seconds t - unix_seconds t0) * r\<rfloor>"
    using Cons.prems(3) by (simp add: refilled_tokens_def)
  have "int (passed (attempts_for_ever c r ts (Some b1))) \<le> bk_tokens b1 + \<lfloor>of_int (unix_seconds ?L - unix_seconds t) * r\<rfloor>"
    using Cons.IH [of t b1] Cons.prems(1) ok b1(1) by simp
  moreover have "\<lfloor>of_int (unix_seconds t - unix_seconds t0) * r\<rfloor> + \<lfloor>of_int (unix_seconds ?L - unix_seconds t) * r\<rfloor>
      \<le> \<lfloor>of_int (unix_seconds ?L - unix_seconds t0) * r\<rfloor>"
    using floor_add_le [of "of_int (unix_seconds t - unix_seconds t0) * r" "of_int (unix_seconds ?L - unix_seconds t) * r"]
    by (simp flip: distrib_right)
  ultimately show ?case using b1(2) tk by (auto simp: run passed_def)
qed

text \<open>C30. A bucket lets through no more than its capacity and what was refilled since the first attempt, whatever the times of the attempts.\<close>

theorem rate_limit_bound:
  assumes "1 \<le> capacity" "0 < refill" "sorted (t # ts)" "m key = None"
  shows "int (passed (attempts capacity refill key (t # ts) m))
    \<le> capacity + \<lfloor>of_int (unix_seconds (last (t # ts)) - unix_seconds t) * refill\<rfloor>"
proof -
  obtain a b where run: "token_bucket_lua capacity refill t None = (a, b)" by fastforce
  have b: "bucket_ok capacity refill t b" "bk_last_refill b = unix_seconds t" "bk_tokens b = capacity - 1" "fst a"
    using lua_leaves_ok [of None capacity refill t] assms(1, 2) run
    by (auto simp: token_bucket_lua_def Let_def refilled_tokens_def split: if_splits)
  show ?thesis
    using passed_from [OF assms(1-3) b(1, 2)] b(3, 4) expiry_invisible [OF assms(1-3), of m key] assms(4) run
    by (simp add: passed_def)
qed

lemma rate_limit_bound_witness:
  "int (passed (attempts 2 1 ''k'' [0, 0, 0, 3000000] (\<lambda>_. None))) \<le> 2 + 3"
  using rate_limit_bound [of 2 1 0 "[0, 0, 3000000]" "\<lambda>_. None" "''k''"] by (simp add: unix_seconds_def)

section \<open>A steady client is locked out\<close>

text \<open>Times that follow each other before a whole token was refilled.\<close>

fun impatient :: "rat \<Rightarrow> datetime list \<Rightarrow> bool" where
  "impatient refill (t # t2 # ts) \<longleftrightarrow>
     t \<le> t2 \<and> of_int (unix_seconds t2 - unix_seconds t) * refill < 1 \<and> impatient refill (t2 # ts)"
| "impatient refill ts \<longleftrightarrow> True"

lemma impatient_sorted: "impatient r ts \<Longrightarrow> sorted ts"
  by (induction ts rule: impatient.induct) (auto simp: order_trans)

lemma no_refill:
  assumes "0 < r" "t0 \<le> t" "of_int (unix_seconds t - unix_seconds t0) * r < 1"
    and "0 \<le> bk_tokens b" "bk_tokens b \<le> c" "bk_last_refill b = unix_seconds t0"
  shows "refilled_tokens c r (unix_seconds t) (Some b) = bk_tokens b"
proof -
  have "0 \<le> of_int (unix_seconds t - unix_seconds t0) * r" using assms(1) unix_seconds_mono [OF assms(2)] by simp
  then have "\<lfloor>of_int (unix_seconds t - unix_seconds t0) * r\<rfloor> = 0" using assms(3) by (simp add: floor_eq_iff)
  with assms(4-) show ?thesis by (simp add: refilled_tokens_def)
qed

lemma take_refused: "n \<le> Suc k \<Longrightarrow> take n (x # replicate k x) = replicate n x"
  by (cases n) simp_all

lemma impatient_run:
  assumes "0 < r" "impatient r (t0 # ts)" "0 \<le> bk_tokens b" "bk_tokens b \<le> c" "bk_last_refill b = unix_seconds t0"
  shows "attempts_for_ever c r ts (Some b)
    = take (length ts) (replicate (nat (bk_tokens b)) True @ replicate (length ts) False)"
  using assms(2-)
proof (induction ts arbitrary: t0 b)
  case (Cons t ts)
  have tk: "refilled_tokens c r (unix_seconds t) (Some b) = bk_tokens b"
    using Cons.prems assms(1) by (intro no_refill) auto
  show ?case
  proof (cases "1 \<le> bk_tokens b")
    case True
    obtain k where k: "bk_tokens b = 1 + int k" using True zero_le_imp_eq_int [of "bk_tokens b - 1"] by (auto simp: algebra_simps)
    have run: "token_bucket_lua c r t (Some b) = ((True, int k), \<lparr>bk_tokens = int k, bk_last_refill = unix_seconds t,
        bk_expires_at = t + bucket_ttl c r * 1000000\<rparr>)" (is "_ = (_, ?b)")
      using tk k by (simp add: token_bucket_lua_def Let_def)
    have "attempts_for_ever c r ts (Some ?b) = take (length ts) (replicate (nat (bk_tokens ?b)) True @ replicate (length ts) False)"
      using Cons.prems k by (intro Cons.IH [of t]) auto
    moreover have "nat (1 + int k) = Suc k" by simp
    ultimately show ?thesis unfolding k by (simp add: run take_append take_refused)
  next
    case False
    then have zero: "bk_tokens b = 0" using Cons.prems(2) by simp
    have run: "token_bucket_lua c r t (Some b) = ((False, 0), \<lparr>bk_tokens = 0, bk_last_refill = unix_seconds t,
        bk_expires_at = t + bucket_ttl c r * 1000000\<rparr>)" (is "_ = (_, ?b)")
      using tk zero by (simp add: token_bucket_lua_def Let_def)
    have "attempts_for_ever c r ts (Some ?b) = take (length ts) (replicate (nat (bk_tokens ?b)) True @ replicate (length ts) False)"
      using Cons.prems zero by (intro Cons.IH [of t]) auto
    then show ?thesis by (simp add: run zero)
  qed
qed simp

text \<open>A client that comes back before a whole token was refilled is served once for each token of the first filling and never again, however long it goes on: a refused attempt resets the time of the last refill, and the part of a token earned until then is lost.\<close>

theorem steady_client_is_starved:
  assumes "1 \<le> capacity" "0 < refill" "impatient refill ts" "m key = None"
  shows "attempts capacity refill key ts m = take (length ts) (replicate (nat capacity) True @ replicate (length ts) False)"
proof (cases ts)
  case (Cons t us)
  have "attempts capacity refill key ts m = attempts_for_ever capacity refill ts None"
    using expiry_invisible [OF assms(1, 2) impatient_sorted [OF assms(3)]] assms(4) by simp
  moreover obtain k where k: "capacity = 1 + int k" using assms(1) zero_le_imp_eq_int [of "capacity - 1"] by (auto simp: algebra_simps)
  moreover have "token_bucket_lua capacity refill t None = ((True, int k), \<lparr>bk_tokens = int k, bk_last_refill = unix_seconds t,
      bk_expires_at = t + bucket_ttl capacity refill * 1000000\<rparr>)" (is "_ = (_, ?b)")
    using k by (simp add: token_bucket_lua_def Let_def refilled_tokens_def)
  moreover have "attempts_for_ever capacity refill us (Some ?b) = take (length us) (replicate (nat (bk_tokens ?b)) True @ replicate (length us) False)"
    using assms(2, 3) Cons k by (intro impatient_run [of refill t]) auto
  moreover have "nat (1 + int k) = Suc k" by simp
  ultimately show ?thesis by (simp add: Cons take_refused)
qed simp

text \<open>The limit of the login route, ten attempts and one token in six seconds, polled every five seconds.\<close>

lemma steady_client_is_starved_witness:
  "attempts 10 (10 / 60) ''rl:login:ip:203.0.113.7'' (map (\<lambda>k. 5000000 * int k) [0..<15]) (\<lambda>_. None)
    = replicate 10 True @ replicate 5 False"
proof -
  have "impatient (10 / 60) (map (\<lambda>k. 5000000 * int k) [0..<15])" by (simp add: upt_conv_Cons unix_seconds_def)
  from steady_client_is_starved [OF _ _ this] show ?thesis by (simp add: numeral_eq_Suc)
qed

end
