(* ===== verification/Auth_Data.thy ===== *)
theory Auth_Data
  imports Colab_Text Colab_Rate_Limit
begin

text \<open>
  The data of auth-svc: the rows of app/models/user.py, the outbox table of colab_common/events.py,
  what the service keeps in Redis, the request classes of app/schemas/auth.py, and the session of a
  request. Identifiers that only name a row of their own (those of identities, acceptances
  and magic links) are left out, and so are the columns no code reads or writes
  (email_status, is_locked, locked_until and the MFA columns).
\<close>

section \<open>Rows\<close>

record user =
  us_id :: uuid
  us_email :: "string option"
  us_email_verified_at :: "datetime option"
  us_phone :: "string option"
  us_phone_verified_at :: "datetime option"
  us_password_hash :: "string option"
  us_is_active :: bool
  us_last_login_at :: "datetime option"

datatype login_provider = By_Apple | By_Google | By_Email | By_Phone

record linked_identity =
  id_user :: uuid
  id_provider :: login_provider
  id_subject :: string

record login_session =
  ss_sid :: uuid
  ss_user :: uuid
  ss_refresh_hash :: string
  ss_refresh_jti :: uuid
  ss_user_agent :: string
  ss_ip :: string
  ss_last_seen_at :: datetime
  ss_revoked_at :: "datetime option"
  ss_created_at :: datetime

datatype doc_type = Tos | Privacy | Community_Guidelines

record legal_acceptance =
  la_user :: uuid
  la_doc_type :: doc_type
  la_doc_version :: string
  la_accepted_at :: datetime
  la_ip :: string

datatype link_purpose = Email_Verify | Password_Reset | Email_Change | Phone_Change

record magic_link =
  ml_user :: uuid
  ml_purpose :: link_purpose
  ml_token_hash :: string
  ml_otp_hash :: "string option"
  ml_new_value :: "string option"
  ml_expires_at :: datetime
  ml_consumed_at :: "datetime option"

section \<open>Redis\<close>

text \<open>
  A key is named by what its text is built from: \<open>revoked:jti:{jti}\<close> and \<open>revoked:session:{sid}\<close> by
  the identifier, \<open>login:attempts:{email}:{ip}\<close> and \<open>login:locked:{email}:{ip}\<close> by the end of their
  text, \<open>otp:phone:{phone}\<close> by the number, \<open>otp:cooldown:phone:{phone}:{ip}\<close> by the end of its
  text, the token buckets by their key. A value comes with the moment it expires.
\<close>

record phone_otp =
  po_code :: string
  po_attempts :: nat

record auth_redis =
  buckets :: bucket_map
  revoked_jtis :: "uuid \<Rightarrow> datetime option"
  revoked_sids :: "uuid \<Rightarrow> datetime option"
  login_attempts :: "string \<Rightarrow> (nat \<times> datetime) option"
  login_locks :: "string \<Rightarrow> datetime option"
  phone_otps :: "string \<Rightarrow> (phone_otp \<times> datetime) option"
  otp_cooldowns :: "string \<Rightarrow> datetime option"

definition seconds :: "int \<Rightarrow> int" where
  "seconds n = n * 1000000"

text \<open>\<open>EXISTS\<close> on a flag and \<open>GET\<close> or \<open>HGET\<close> on a value.\<close>

definition key_exists :: "datetime \<Rightarrow> datetime option \<Rightarrow> bool" where
  "key_exists now e = (case e of None \<Rightarrow> False | Some t \<Rightarrow> now < t)"

definition live_value :: "datetime \<Rightarrow> ('a \<times> datetime) option \<Rightarrow> 'a option" where
  "live_value now e = (case e of None \<Rightarrow> None | Some (v, t) \<Rightarrow> if now < t then Some v else None)"

section \<open>The database and a request's session\<close>

record auth_db =
  users :: "user list"
  identities :: "linked_identity list"
  login_sessions :: "login_session list"
  acceptances :: "legal_acceptance list"
  magic_links :: "magic_link list"
  event_outbox :: "message list"
  redis_db :: auth_redis

type_synonym 'a auth_comp = "(auth_db, 'a) comp"
type_synonym auth_sess = "auth_db sess"

text \<open>
  \<open>get_session\<close> of colab_common/db.py runs the handler inside \<open>session.begin()\<close>: it commits when
  the handler returns and rolls every table back when it raises. Redis takes no part in
  the transaction, so it is kept either way.
\<close>

definition transaction :: "'a auth_comp \<Rightarrow> 'a auth_comp" where
  "transaction m = (\<lambda>s. case m (s\<lparr>work := committed s\<rparr>) of
     (Inr a, s1) \<Rightarrow> (Inr a, s1\<lparr>committed := work s1\<rparr>)
   | (Inl e, s1) \<Rightarrow> (let db = (committed s1)\<lparr>redis_db := redis_db (work s1)\<rparr> in (Inl e, s1\<lparr>committed := db, work := db\<rparr>)))"

text \<open>One Redis command (or atomic script) at the present time.\<close>

definition redis_c :: "(datetime \<Rightarrow> auth_redis \<Rightarrow> 'a \<times> auth_redis) \<Rightarrow> 'a auth_comp" where
  "redis_c f = (\<lambda>s. case f (clock s) (redis_db (work s)) of (a, r) \<Rightarrow> (Inr a, s\<lparr>work := (work s)\<lparr>redis_db := r\<rparr>\<rparr>))"

definition enforce_rate_limit :: "string \<Rightarrow> int \<Rightarrow> rat \<Rightarrow> int \<Rightarrow> unit auth_comp" where
  "enforce_rate_limit key capacity refill retry_after =
     bind_c (redis_c (\<lambda>now r. case check_rate_limit (buckets r) now key capacity refill of (a, m) \<Rightarrow> (a, r\<lparr>buckets := m\<rparr>)))
       (\<lambda>(allowed, remaining). if allowed then ret () else raise (RateLimitError retry_after))"

text \<open>\<open>enqueue_outbox\<close>: a row of the same transaction.\<close>

definition enqueue_outbox :: "string \<Rightarrow> (string \<times> json) list \<Rightarrow> unit auth_comp" where
  "enqueue_outbox name body = modify_table event_outbox_update event_outbox (\<lambda>ms. ms @ [Message name body])"

text \<open>\<open>db.scalar(select(...))\<close> takes the first row, \<open>db.get\<close> the row of a primary key.\<close>

definition db_scalar :: "(auth_db \<Rightarrow> 'r list) \<Rightarrow> ('r \<Rightarrow> bool) \<Rightarrow> 'r option auth_comp" where
  "db_scalar tbl P = (\<lambda>s. (Inr (first_of (filter P (tbl (work s)))), s))"

definition get_user :: "uuid \<Rightarrow> user option auth_comp" where
  "get_user i = db_scalar users (\<lambda>u. us_id u = i)"

text \<open>The unique constraints; NULL clashes with nothing.\<close>

definition user_clash :: "user \<Rightarrow> user \<Rightarrow> bool" where
  "user_clash a b \<longleftrightarrow> us_id a = us_id b \<or> (us_email a \<noteq> None \<and> us_email a = us_email b) \<or> (us_phone a \<noteq> None \<and> us_phone a = us_phone b)"

definition identity_clash :: "linked_identity \<Rightarrow> linked_identity \<Rightarrow> bool" where
  "identity_clash a b \<longleftrightarrow> id_provider a = id_provider b \<and> id_subject a = id_subject b"

definition session_clash :: "login_session \<Rightarrow> login_session \<Rightarrow> bool" where
  "session_clash a b \<longleftrightarrow> ss_sid a = ss_sid b \<or> ss_refresh_hash a = ss_refresh_hash b \<or> ss_refresh_jti a = ss_refresh_jti b"

definition link_clash :: "magic_link \<Rightarrow> magic_link \<Rightarrow> bool" where
  "link_clash a b \<longleftrightarrow> ml_token_hash a = ml_token_hash b"

text \<open>An UPDATE of the rows that satisfy \<open>P\<close>, refused when a changed row clashes with another row.\<close>

definition db_update ::
  "(('r list \<Rightarrow> 'r list) \<Rightarrow> auth_db \<Rightarrow> auth_db) \<Rightarrow> (auth_db \<Rightarrow> 'r list) \<Rightarrow> ('r \<Rightarrow> 'r \<Rightarrow> bool) \<Rightarrow> ('r \<Rightarrow> bool) \<Rightarrow> ('r \<Rightarrow> 'r) \<Rightarrow> unit auth_comp" where
  "db_update upd tbl clash P f = (\<lambda>s.
     if list_ex (\<lambda>x. P x \<and> list_ex (\<lambda>y. \<not> P y \<and> clash (f x) y) (tbl (work s))) (tbl (work s))
     then (Inl IntegrityError, s)
     else (Inr (), s\<lparr>work := upd (\<lambda>_. update_where P f (tbl (work s))) (work s)\<rparr>))"

definition save_user :: "uuid \<Rightarrow> (user \<Rightarrow> user) \<Rightarrow> unit auth_comp" where
  "save_user i f = db_update users_update users user_clash (\<lambda>u. us_id u = i) f"

definition save_session :: "uuid \<Rightarrow> (login_session \<Rightarrow> login_session) \<Rightarrow> unit auth_comp" where
  "save_session i f = db_update login_sessions_update login_sessions session_clash (\<lambda>r. ss_sid r = i) f"

text \<open>Columns have a length; PostgreSQL refuses a longer text with DataError.\<close>

definition fits :: "nat \<Rightarrow> string \<Rightarrow> unit auth_comp" where
  "fits n x = (if length x \<le> n then ret () else raise DataError)"

section \<open>Requests\<close>

text \<open>The caller as the access token names it, and the parts of a request a handler looks at.\<close>

record auth_user =
  au_user :: uuid
  au_sid :: uuid

record request_head =
  rq_forwarded :: string
  rq_host :: "string option"
  rq_user_agent :: string

definition client_host :: "request_head \<Rightarrow> string" where
  "client_host q = (case rq_host q of Some h \<Rightarrow> h | None \<Rightarrow> ''unknown'')"

definition client_ip :: "request_head \<Rightarrow> string" where
  "client_ip q = (if rq_forwarded q \<noteq> [] then strip_chars is_space (hd (split_on CHR '','' (rq_forwarded q))) else client_host q)"

definition user_agent_of :: "request_head \<Rightarrow> string" where
  "user_agent_of q = take 512 (rq_user_agent q)"

definition lowercase_email :: "string \<Rightarrow> string" where
  "lowercase_email v = strip_chars is_space (map lower_char v)"

text \<open>The patterns \<open>^\+[1-9]\d{7,14}$\<close> and \<open>^\d{6}$\<close>.\<close>

definition phone_pattern :: "string \<Rightarrow> bool" where
  "phone_pattern p = (case p of c # d # ds \<Rightarrow> c = CHR ''+'' \<and> is_digit d \<and> d \<noteq> CHR ''0'' \<and> list_all is_digit ds
     \<and> 7 \<le> length ds \<and> length ds \<le> 14 | _ \<Rightarrow> False)"

definition code_pattern :: "string \<Rightarrow> bool" where
  "code_pattern c \<longleftrightarrow> length c = 6 \<and> list_all is_digit c"

record legal_versions =
  lv_tos :: string
  lv_privacy :: string
  lv_community :: string

record token_pair =
  tp_user :: uuid
  tp_access :: string
  tp_refresh :: string

text \<open>The random values a handler draws: an opaque token, a number for the 6 digits, a salt.\<close>

record draws =
  dr_token :: string
  dr_number :: nat
  dr_salt :: string

definition empty_auth_redis :: auth_redis where
  "empty_auth_redis = \<lparr>buckets = Map.empty, revoked_jtis = Map.empty, revoked_sids = Map.empty, login_attempts = Map.empty,
     login_locks = Map.empty, phone_otps = Map.empty, otp_cooldowns = Map.empty\<rparr>"

definition empty_auth_db :: auth_db where
  "empty_auth_db = \<lparr>users = [], identities = [], login_sessions = [], acceptances = [], magic_links = [], event_outbox = [],
     redis_db = empty_auth_redis\<rparr>"

definition auth_start :: "datetime \<Rightarrow> uuid \<Rightarrow> auth_sess" where
  "auth_start t n = \<lparr>committed = empty_auth_db, work = empty_auth_db, outbox = [], clock = t, next_uuid = n\<rparr>"

section \<open>Running the pieces\<close>

lemma redis_run [comp_simps]:
  "redis_c f s = (case f (clock s) (redis_db (work s)) of (a, r) \<Rightarrow> (Inr a, s\<lparr>work := (work s)\<lparr>redis_db := r\<rparr>\<rparr>))"
  by (simp add: redis_c_def)

lemma db_scalar_run [comp_simps]: "db_scalar tbl P s = (Inr (first_of (filter P (tbl (work s)))), s)"
  by (simp add: db_scalar_def)

lemma get_user_run [comp_simps]: "get_user i s = (Inr (first_of (filter (\<lambda>u. us_id u = i) (users (work s)))), s)"
  by (simp add: get_user_def db_scalar_run)

lemma enqueue_run [comp_simps]:
  "enqueue_outbox name body s = (Inr (), s\<lparr>work := (work s)\<lparr>event_outbox := event_outbox (work s) @ [Message name body]\<rparr>\<rparr>)"
  by (simp add: enqueue_outbox_def modify_run)

lemma fits_run [comp_simps]: "fits n x s = (if length x \<le> n then (Inr (), s) else (Inl DataError, s))"
  by (simp add: fits_def comp_simps)

lemma first_of_filter_Some: "first_of (filter P xs) = Some x \<Longrightarrow> x \<in> set xs \<and> P x"
  by (cases "filter P xs") (auto simp: first_of_def filter_eq_Cons_iff)

lemma first_of_filter_None: "first_of (filter P xs) = None \<longleftrightarrow> (\<forall>x \<in> set xs. \<not> P x)"
  by (cases "filter P xs") (auto simp: first_of_def filter_empty_conv filter_eq_Cons_iff)

lemma keeps_redis:
  "(\<And>s a r. I s \<Longrightarrow> f (clock s) (redis_db (work s)) = (a, r) \<Longrightarrow> I (s\<lparr>work := (work s)\<lparr>redis_db := r\<rparr>\<rparr>)) \<Longrightarrow> keeps I (redis_c f)"
  by (auto simp: keeps_def redis_run split: prod.split)

lemma keeps_db_scalar [simp]: "keeps I (db_scalar tbl P)"
  by (simp add: keeps_def db_scalar_run)

lemma keeps_get_user [simp]: "keeps I (get_user i)"
  by (simp add: get_user_def)

lemma keeps_fits [simp]: "keeps I (fits n x)"
  by (simp add: fits_def)

end
