(* ===== verification/Auth_Services.thy ===== *)
theory Auth_Services
  imports Auth_Data
begin

text \<open>
  The services of auth-svc: tokens (app/services/tokens.py), the login counter (brute_force.py),
  one-time codes and magic links (otp.py), passwords (password.py), provider tokens (oauth.py) and
  mail (email_sender.py). Hash functions, signatures and argon2 are library code: the record
  \<open>library\<close> holds them, and \<open>library_ok\<close> states what is relied on.
\<close>

section \<open>Library functions\<close>

text \<open>
  The claims of the two kinds of token. \<open>jti\<close>, \<open>sub\<close> and \<open>sid\<close> are the identifiers whose text the
  token carries; \<open>nbf\<close> equals \<open>iat\<close>; issuer and audience are constants.
\<close>

datatype claims =
    Access_Claims (cl_sub: uuid) (cl_jti: uuid) (cl_iat: int) (cl_exp: int) (cl_sid: uuid)
      (cl_email_verified: bool) (cl_identity_verified: bool) (cl_scope: "string list")
  | Refresh_Claims (cl_sub: uuid) (cl_jti: uuid) (cl_iat: int) (cl_exp: int) (cl_sid: uuid)

record library =
  sha256 :: "string \<Rightarrow> string"
  jwt_encode :: "claims \<Rightarrow> string"
  jwt_open :: "string \<Rightarrow> claims option"
  argon2_hash :: "string \<Rightarrow> string \<Rightarrow> string"
  argon2_verify :: "string \<Rightarrow> string \<Rightarrow> bool"
  needs_rehash :: "string \<Rightarrow> bool"
  zxcvbn :: "string \<Rightarrow> (int \<times> string option) option"

text \<open>
  A signed token opens to its claims; no two texts met have the same
  SHA-256; a password verifies against the hashes made of it and of no other password.
  \<open>zxcvbn\<close> is None where the package is not installed.
\<close>

definition library_ok :: "library \<Rightarrow> bool" where
  "library_ok L \<longleftrightarrow> (\<forall>c. jwt_open L (jwt_encode L c) = Some c)
     \<and> (\<forall>x y. sha256 L x = sha256 L y \<longrightarrow> x = y) \<and> (\<forall>salt p q. argon2_verify L (argon2_hash L salt p) q \<longleftrightarrow> p = q)"

section \<open>Tokens\<close>

definition access_ttl_seconds :: int where "access_ttl_seconds = 900"
definition refresh_ttl_seconds :: int where "refresh_ttl_seconds = 2592000"
text \<open>PyJWT takes a leeway as an argument of its own and ignores the 30 seconds the code puts into the options.\<close>

definition token_leeway :: int where "token_leeway = 0"

definition mint_refresh_token :: "library \<Rightarrow> uuid \<Rightarrow> uuid \<Rightarrow> (string \<times> uuid) auth_comp" where
  "mint_refresh_token L u sid =
     bind_c now_c (\<lambda>t. bind_c uuid4 (\<lambda>jti.
       let now = unix_seconds t in ret (jwt_encode L (Refresh_Claims u jti now (now + refresh_ttl_seconds) sid), jti)))"

definition mint_access_token :: "library \<Rightarrow> uuid \<Rightarrow> uuid \<Rightarrow> bool \<Rightarrow> bool \<Rightarrow> string auth_comp" where
  "mint_access_token L u sid email_verified identity_verified =
     bind_c now_c (\<lambda>t. bind_c uuid4 (\<lambda>jti.
       let now = unix_seconds t
       in ret (jwt_encode L (Access_Claims u jti now (now + access_ttl_seconds) sid email_verified identity_verified [''user'']))))"

text \<open>\<open>jwt.decode\<close>, then the check of \<open>typ\<close>.\<close>

datatype token_fault = Token_Expired | Token_Invalid

definition decode_token :: "library \<Rightarrow> datetime \<Rightarrow> bool \<Rightarrow> string \<Rightarrow> token_fault + claims" where
  "decode_token L now access token =
     (case jwt_open L token of None \<Rightarrow> Inl Token_Invalid
      | Some c \<Rightarrow>
          if now + seconds token_leeway < seconds (cl_iat c) then Inl Token_Invalid
          else if seconds (cl_exp c) \<le> now - seconds token_leeway then Inl Token_Expired
          else if is_Access_Claims c \<noteq> access then Inl Token_Invalid else Inr c)"

definition decode_refresh_token :: "library \<Rightarrow> string \<Rightarrow> claims auth_comp" where
  "decode_refresh_token L token = bind_c now_c (\<lambda>now. case decode_token L now False token of
     Inl Token_Expired \<Rightarrow> raise (AuthError ''Refresh token has expired. Please log in again.'')
   | Inl Token_Invalid \<Rightarrow> raise (AuthError ''Invalid refresh token'')
   | Inr c \<Rightarrow> ret c)"

text \<open>Revocation flags.\<close>

definition mark_jti_revoked :: "uuid \<Rightarrow> int \<Rightarrow> unit auth_comp" where
  "mark_jti_revoked jti ttl = redis_c (\<lambda>now r. ((), r\<lparr>revoked_jtis := (revoked_jtis r)(jti \<mapsto> now + seconds ttl)\<rparr>))"

definition is_jti_revoked :: "uuid \<Rightarrow> bool auth_comp" where
  "is_jti_revoked jti = redis_c (\<lambda>now r. (key_exists now (revoked_jtis r jti), r))"

definition mark_session_revoked :: "uuid \<Rightarrow> unit auth_comp" where
  "mark_session_revoked sid = redis_c (\<lambda>now r. ((), r\<lparr>revoked_sids := (revoked_sids r)(sid \<mapsto> now + seconds 2592000)\<rparr>))"

definition is_session_revoked :: "uuid \<Rightarrow> bool auth_comp" where
  "is_session_revoked sid = redis_c (\<lambda>now r. (key_exists now (revoked_sids r sid), r))"

section \<open>The login counter\<close>

definition max_attempts :: nat where "max_attempts = 10"
definition window_seconds :: int where "window_seconds = 900"
definition lockout_seconds :: int where "lockout_seconds = 900"

definition login_key :: "string \<Rightarrow> string \<Rightarrow> string" where
  "login_key email ip = email @ '':'' @ ip"

definition locked_error :: "int \<Rightarrow> exn" where
  "locked_error m = AuthError (''Account locked due to too many failed attempts. Try again in '' @ str_int m @ '' minutes.'')"

definition count_failure :: "string \<Rightarrow> datetime \<Rightarrow> auth_redis \<Rightarrow> nat \<times> auth_redis" where
  "count_failure k now r =
     (let n = Suc (case live_value now (login_attempts r k) of None \<Rightarrow> 0 | Some m \<Rightarrow> m)
      in (n, r\<lparr>login_attempts := (login_attempts r)(k \<mapsto> (n, now + seconds window_seconds))\<rparr>))"

definition lock_login :: "string \<Rightarrow> unit auth_comp" where
  "lock_login k = redis_c (\<lambda>now r. ((), r\<lparr>login_locks := (login_locks r)(k \<mapsto> now + seconds lockout_seconds)\<rparr>))"

definition record_failed_login :: "string \<Rightarrow> string \<Rightarrow> unit auth_comp" where
  "record_failed_login email ip = bind_c (redis_c (count_failure (login_key email ip))) (\<lambda>n.
     if max_attempts \<le> n then seq_c (lock_login (login_key email ip)) (raise (locked_error (lockout_seconds div 60)))
     else if 5 \<le> n then raise (RateLimitError (min (2 ^ (n - 5)) 60))
     else ret ())"

text \<open>\<open>TTL\<close> answers in seconds, rounded from milliseconds.\<close>

definition key_ttl :: "datetime \<Rightarrow> datetime \<Rightarrow> int" where
  "key_ttl now t = ((t - now) div 1000 + 500) div 1000"

definition check_login_locked :: "string \<Rightarrow> string \<Rightarrow> unit auth_comp" where
  "check_login_locked email ip = bind_c (redis_c (\<lambda>now r. (map_option (key_ttl now)
       (case login_locks r (login_key email ip) of Some t \<Rightarrow> if now < t then Some t else None | None \<Rightarrow> None), r)))
     (\<lambda>ttl. case ttl of None \<Rightarrow> ret () | Some k \<Rightarrow> raise (locked_error (\<lceil>rat_of_int k / 60\<rceil>)))"

definition clear_failed_logins :: "string \<Rightarrow> string \<Rightarrow> unit auth_comp" where
  "clear_failed_logins email ip = redis_c (\<lambda>now r. ((),
     r\<lparr>login_attempts := (login_attempts r)(login_key email ip := None),
       login_locks := (login_locks r)(login_key email ip := None)\<rparr>))"

section \<open>One-time codes for phones\<close>

definition otp_ttl_seconds :: int where "otp_ttl_seconds = 300"
definition otp_max_attempts :: nat where "otp_max_attempts = 5"
definition otp_cooldown_seconds :: int where "otp_cooldown_seconds = 1800"

definition generate_otp :: "nat \<Rightarrow> string" where
  "generate_otp n = str_nat (n + 100000)"

definition send_sms :: "string \<Rightarrow> string \<Rightarrow> unit auth_comp" where
  "send_sms phone otp = publish_c (Message ''sns:publish'' [(''PhoneNumber'', JStr phone),
     (''Message'', JStr (''Colab: Your verification code is '' @ otp @ ''. Expires in 5 minutes. Reply STOP to opt out.''))])"

definition send_phone_otp :: "nat \<Rightarrow> string \<Rightarrow> string \<Rightarrow> string auth_comp" where
  "send_phone_otp n phone ip =
     bind_c (redis_c (\<lambda>now r. (key_exists now (otp_cooldowns r (login_key phone ip)), r))) (\<lambda>cooling.
       if cooling then raise (RateLimitError otp_cooldown_seconds)
       else bind_c (redis_c (\<lambda>now r. (live_value now (phone_otps r phone), r))) (\<lambda>existing.
         case existing of Some o1 \<Rightarrow> ret (po_code o1)
         | None \<Rightarrow> (let otp = generate_otp n in
             seq_c (redis_c (\<lambda>now r. ((), r\<lparr>phone_otps := (phone_otps r)(phone \<mapsto>
                 (\<lparr>po_code = otp, po_attempts = 0\<rparr>, now + seconds otp_ttl_seconds))\<rparr>)))
             (seq_c (send_sms phone otp) (ret otp)))))"

definition delete_otp :: "string \<Rightarrow> unit auth_comp" where
  "delete_otp phone = redis_c (\<lambda>now r. ((), r\<lparr>phone_otps := (phone_otps r)(phone := None)\<rparr>))"

text \<open>
  \<open>r.hincr(...)\<close>: the client class of redis-py has \<open>hincrby\<close> and no \<open>hincr\<close>, so the call raises
  AttributeError (the source silences the type checker, which says so).
\<close>

definition hincr :: "string \<Rightarrow> unit auth_comp" where
  "hincr phone = raise (AttributeError ''hincr'')"

definition verify_phone_otp :: "string \<Rightarrow> string \<Rightarrow> bool auth_comp" where
  "verify_phone_otp phone code =
     bind_c (redis_c (\<lambda>now r. (live_value now (phone_otps r phone), r))) (\<lambda>stored.
       case stored of
         None \<Rightarrow> raise (AuthError ''OTP expired or not found. Request a new code.'')
       | Some o1 \<Rightarrow>
           if otp_max_attempts \<le> po_attempts o1
           then seq_c (delete_otp phone) (raise (AuthError ''Too many OTP attempts. Request a new code in 30 minutes.''))
           else if po_code o1 \<noteq> code
           then seq_c (hincr phone) (seq_c (when_c (otp_max_attempts \<le> po_attempts o1 + 1) (delete_otp phone)) (ret False))
           else seq_c (delete_otp phone) (ret True))"

section \<open>Magic links\<close>

definition magic_link_minutes :: int where "magic_link_minutes = 15"

definition magic_link_expiry :: "datetime \<Rightarrow> datetime" where
  "magic_link_expiry now = now + seconds (60 * magic_link_minutes)"

definition new_link :: "library \<Rightarrow> draws \<Rightarrow> datetime \<Rightarrow> uuid \<Rightarrow> link_purpose \<Rightarrow> string option \<Rightarrow> magic_link" where
  "new_link L d now u p v = \<lparr>ml_user = u, ml_purpose = p, ml_token_hash = sha256 L (dr_token d),
     ml_otp_hash = Some (sha256 L (generate_otp (dr_number d))), ml_new_value = v,
     ml_expires_at = magic_link_expiry now, ml_consumed_at = None\<rparr>"

text \<open>Marking the open links of a user and purpose as consumed, and adding one; its user is a foreign key.\<close>

definition pending :: "uuid \<Rightarrow> link_purpose \<Rightarrow> magic_link \<Rightarrow> bool" where
  "pending u p m \<longleftrightarrow> ml_user m = u \<and> ml_purpose m = p \<and> ml_consumed_at m = None"

definition consume_pending :: "uuid \<Rightarrow> link_purpose \<Rightarrow> unit auth_comp" where
  "consume_pending u p = bind_c now_c (\<lambda>now.
     modify_table magic_links_update magic_links (update_where (pending u p) (\<lambda>m. m\<lparr>ml_consumed_at := Some now\<rparr>)))"

definition add_link :: "library \<Rightarrow> draws \<Rightarrow> uuid \<Rightarrow> link_purpose \<Rightarrow> string option \<Rightarrow> unit auth_comp" where
  "add_link L d u p v = bind_c now_c (\<lambda>now. bind_c (get_user u) (\<lambda>owner.
     db_insert magic_links_update magic_links (\<lambda>_. owner \<noteq> None) link_clash (new_link L d now u p v)))"

definition consume_link :: "magic_link \<Rightarrow> datetime \<Rightarrow> unit auth_comp" where
  "consume_link m now = modify_table magic_links_update magic_links
     (update_where (\<lambda>x. ml_token_hash x = ml_token_hash m) (\<lambda>x. x\<lparr>ml_consumed_at := Some now\<rparr>))"

section \<open>Passwords\<close>

definition validate_password :: "library \<Rightarrow> string \<Rightarrow> string option \<Rightarrow> unit auth_comp" where
  "validate_password L pw email =
     (if length pw < 8 then raise (ValidationError ''Password must be at least 8 characters.'')
      else if 128 < length pw then raise (ValidationError ''Password too long (max 128 characters).'')
      else if (case email of None \<Rightarrow> False
               | Some e \<Rightarrow> e \<noteq> [] \<and> contains (map lower_char (hd (split_on CHR ''@'' e))) (map lower_char pw))
      then raise (ValidationError ''Password must not contain your email address.'')
      else case zxcvbn L pw of None \<Rightarrow> ret ()
           | Some (score, warning) \<Rightarrow>
               if score < 2 then raise (ValidationError (''Password too weak: '' @
                   (case warning of Some w \<Rightarrow> w | None \<Rightarrow> ''Password is too weak.'')))
               else ret ())"

section \<open>Provider tokens\<close>

text \<open>
  What \<open>verify_apple_id_token\<close> and \<open>verify_google_id_token\<close> answer. \<open>email_verified\<close> is whatever JSON
  value the token has: Apple sends a boolean or the text of one.
\<close>

record oauth_claims =
  oc_subject :: string
  oc_email :: "string option"
  oc_email_verified :: json

text \<open>
  An Apple token as PyJWT sees it: the header (None where it is malformed), the outcome of
  \<open>jwt.decode\<close> under a key, and the nonce claim of the body.
\<close>

record apple_token =
  at_header :: "(string \<times> string) option"
  at_decode :: "string \<Rightarrow> token_fault + (oauth_claims \<times> string option)"

definition apple_key :: "(string \<times> string) list \<Rightarrow> string \<Rightarrow> exn + string" where
  "apple_key jwks kid = (case map_of jwks kid of
     Some k \<Rightarrow> Inr k | None \<Rightarrow> Inl (AuthError ''Apple public key not found for kid.''))"

text \<open>\<open>jwks\<close> is the cached key set, \<open>fresh\<close> the one a new fetch brings.\<close>

definition verify_apple_id_token ::
  "library \<Rightarrow> string \<Rightarrow> (string \<times> string) list \<Rightarrow> (string \<times> string) list \<Rightarrow> apple_token \<Rightarrow> string option \<Rightarrow> exn + oauth_claims" where
  "verify_apple_id_token L client_id jwks fresh tok nonce =
     (if client_id = [] then Inl (AuthError ''Apple Sign-In not configured.'')
      else case at_header tok of
        None \<Rightarrow> Inl (AuthError ''Malformed Apple ID token.'')
      | Some (alg, kid) \<Rightarrow>
          if alg \<noteq> ''RS256'' then Inl (AuthError ''Apple token must use RS256.'')
          else (case (case apple_key jwks kid of Inr k \<Rightarrow> Inr k | Inl e \<Rightarrow> apple_key fresh kid) of
              Inl e \<Rightarrow> Inl e
            | Inr k \<Rightarrow>
                (case at_decode tok k of
                   Inl Token_Expired \<Rightarrow> Inl (AuthError ''Apple ID token has expired.'')
                 | Inl Token_Invalid \<Rightarrow> Inl (AuthError ''Apple ID token invalid'')
                 | Inr (c, n) \<Rightarrow>
                     (case nonce of None \<Rightarrow> Inr c
                      | Some x \<Rightarrow> if n \<noteq> Some (sha256 L x) then Inl (AuthError ''Apple ID token nonce mismatch.'') else Inr c))))"

text \<open>Google's library per audience: ValueError is None.\<close>

fun verify_google_id_token :: "oauth_claims option list \<Rightarrow> exn + oauth_claims" where
  "verify_google_id_token [] = Inl (AuthError ''Google Sign-In not configured.'')"
| "verify_google_id_token [None] = Inl (AuthError ''Google ID token invalid'')"
| "verify_google_id_token (None # c # cs) = verify_google_id_token (c # cs)"
| "verify_google_id_token (Some c # cs) =
     (if truthy (oc_email_verified c) then Inr c else Inl (AuthError ''Google account email is not verified.''))"

section \<open>Mail\<close>

definition send_mail :: "string \<Rightarrow> string \<Rightarrow> string \<Rightarrow> unit auth_comp" where
  "send_mail to subject body = publish_c (Message ''ses:send_email''
     [(''Destination'', JStr to), (''Subject'', JStr subject), (''Body'', JStr body)])"

definition newlines :: string where "newlines = [CHR 0x0A, CHR 0x0A]"

definition send_email_verification :: "string \<Rightarrow> string \<Rightarrow> string \<Rightarrow> string \<Rightarrow> unit auth_comp" where
  "send_email_verification email tok otp domain = send_mail email ''Verify your Colab account''
     (''Verify your Colab account.'' @ newlines @ ''Click the link: https://'' @ domain @ ''/auth/verify?t='' @ tok @ newlines
      @ ''Or enter this 6-digit code in the app: '' @ otp @ newlines @ ''Link expires in 15 minutes. Do not share this code.'')"

definition send_password_reset :: "string \<Rightarrow> string \<Rightarrow> string \<Rightarrow> string \<Rightarrow> unit auth_comp" where
  "send_password_reset email tok otp domain = send_mail email ''Reset your Colab password''
     (''Reset your Colab password.'' @ newlines @ ''Click the link: https://'' @ domain @ ''/auth/reset-password?t='' @ tok @ newlines
      @ ''Or enter this code in the app: '' @ otp @ newlines
      @ ''Link expires in 15 minutes. If you did not request this, ignore this email.'')"

definition send_email_change_verification :: "string \<Rightarrow> string \<Rightarrow> string \<Rightarrow> string \<Rightarrow> unit auth_comp" where
  "send_email_change_verification new_email tok otp domain = send_mail new_email ''Confirm your new Colab email address''
     (''Confirm your new Colab email address.'' @ newlines @ ''Click the link: https://'' @ domain @ ''/auth/change-email?t='' @ tok @ newlines
      @ ''Or enter this code in the app: '' @ otp @ newlines @ ''Link expires in 15 minutes.'')"

end
