(* ===== verification/Auth_Routes.thy ===== *)
theory Auth_Routes
  imports Auth_Services
begin

text \<open>
  The endpoints of auth-svc: app/routers/signup.py, login.py, token.py, sessions.py, email_verify.py,
  password_reset.py and account.py. A handler gets the request body as its schema has parsed it
  (addresses lower-cased and stripped), the draws of its random generators, and the caller where
  the route requires one.
\<close>

section \<open>Sessions and acceptances\<close>

text \<open>The part both versions of \<open>_issue_token_pair\<close> share, the one of signup.py.\<close>

definition new_session :: "library \<Rightarrow> uuid \<Rightarrow> uuid \<Rightarrow> string \<Rightarrow> uuid \<Rightarrow> string \<Rightarrow> string \<Rightarrow> datetime \<Rightarrow> login_session" where
  "new_session L sid u rt jti ip agent now = \<lparr>ss_sid = sid, ss_user = u, ss_refresh_hash = sha256 L rt, ss_refresh_jti = jti,
     ss_user_agent = agent, ss_ip = ip, ss_last_seen_at = now, ss_revoked_at = None, ss_created_at = now\<rparr>"

definition issue_token_pair :: "library \<Rightarrow> user \<Rightarrow> string \<Rightarrow> string \<Rightarrow> token_pair auth_comp" where
  "issue_token_pair L u ip agent =
     bind_c uuid4 (\<lambda>sid. bind_c (mint_refresh_token L (us_id u) sid) (\<lambda>(rt, jti).
       bind_c (mint_access_token L (us_id u) sid (us_email_verified_at u \<noteq> None) False) (\<lambda>access.
       bind_c now_c (\<lambda>now.
         seq_c (fits 45 ip)
        (seq_c (db_insert login_sessions_update login_sessions (\<lambda>_. True) session_clash (new_session L sid (us_id u) rt jti ip agent now))
           (ret \<lparr>tp_user = us_id u, tp_access = access, tp_refresh = rt\<rparr>))))))"

definition login_token_pair :: "library \<Rightarrow> user \<Rightarrow> string \<Rightarrow> string \<Rightarrow> token_pair auth_comp" where
  "login_token_pair L u ip agent = bind_c now_c (\<lambda>now. bind_c (issue_token_pair L u ip agent) (\<lambda>tp.
     seq_c (save_user (us_id u) (\<lambda>x. x\<lparr>us_last_login_at := Some now\<rparr>)) (ret tp)))"

definition record_legal_acceptances :: "uuid \<Rightarrow> string \<Rightarrow> legal_versions \<Rightarrow> unit auth_comp" where
  "record_legal_acceptances u ip v = bind_c now_c (\<lambda>now.
     for_c [(Tos, lv_tos v), (Privacy, lv_privacy v), (Community_Guidelines, lv_community v)] (\<lambda>(doc, version).
       seq_c (fits 45 ip) (seq_c (fits 32 version)
         (modify_table acceptances_update acceptances (\<lambda>xs. xs @
           [\<lparr>la_user = u, la_doc_type = doc, la_doc_version = version, la_accepted_at = now, la_ip = ip\<rparr>])))))"

definition new_user :: "uuid \<Rightarrow> string option \<Rightarrow> datetime option \<Rightarrow> string option \<Rightarrow> datetime option \<Rightarrow> string option \<Rightarrow> user" where
  "new_user i email verified phone phone_verified pw = \<lparr>us_id = i, us_email = email, us_email_verified_at = verified,
     us_phone = phone, us_phone_verified_at = phone_verified, us_password_hash = pw, us_is_active = True, us_last_login_at = None\<rparr>"

definition add_user :: "user \<Rightarrow> unit auth_comp" where
  "add_user u = db_insert users_update users (\<lambda>_. True) user_clash u"

definition add_identity :: "uuid \<Rightarrow> login_provider \<Rightarrow> string \<Rightarrow> unit auth_comp" where
  "add_identity u p x = db_insert identities_update identities (\<lambda>_. True) identity_clash
     \<lparr>id_user = u, id_provider = p, id_subject = x\<rparr>"

definition opt_str :: "string option \<Rightarrow> json" where
  "opt_str v = (case v of None \<Rightarrow> JNull | Some x \<Rightarrow> JStr x)"

section \<open>Signup\<close>

definition signup_email :: "library \<Rightarrow> string \<Rightarrow> draws \<Rightarrow> request_head \<Rightarrow> string \<Rightarrow> string \<Rightarrow> legal_versions \<Rightarrow> token_pair auth_comp" where
  "signup_email L domain d q email pw v = transaction (
     let ip = client_ip q in
     seq_c (enforce_rate_limit (''rl:signup:email:'' @ ip) 5 (5 / 60) 60)
    (bind_c (db_scalar users (\<lambda>u. us_email u = Some email)) (\<lambda>existing.
       if existing \<noteq> None then raise (ConflictError ''An account with this email already exists.'')
       else seq_c (validate_password L pw (Some email))
         (bind_c uuid4 (\<lambda>i. let u = new_user i (Some email) None None None (Some (argon2_hash L (dr_salt d) pw)) in
            seq_c (add_user u)
           (seq_c (record_legal_acceptances i ip v)
           (bind_c (issue_token_pair L u ip (user_agent_of q)) (\<lambda>tp.
            seq_c (enqueue_outbox ''user.created'' [(''user_id'', JStr (str_uuid i)), (''email'', JStr email)])
           (seq_c (add_link L d i Email_Verify None)
           (seq_c (send_email_verification email (dr_token d) (generate_otp (dr_number d)) domain)
             (ret tp)))))))))))"

definition merge_target :: "oauth_claims \<Rightarrow> user list \<Rightarrow> user option" where
  "merge_target c us = (case oc_email c of None \<Rightarrow> None | Some e \<Rightarrow>
     if e \<noteq> [] \<and> truthy (oc_email_verified c) then first_of (filter (\<lambda>u. us_email u = Some (map lower_char e)) us) else None)"

text \<open>\<open>verified\<close> is what the provider's token was found to say; \<open>p\<close> the provider of the body.\<close>

definition signup_oauth :: "library \<Rightarrow> request_head \<Rightarrow> login_provider \<Rightarrow> exn + oauth_claims \<Rightarrow> legal_versions \<Rightarrow> token_pair auth_comp" where
  "signup_oauth L q p verified v = transaction (
     let ip = client_ip q in
     seq_c (enforce_rate_limit (''rl:signup:oauth:'' @ ip) 30 (1 / 2) 60)
     (case verified of Inl e \<Rightarrow> raise e | Inr c \<Rightarrow>
       bind_c (db_scalar identities (\<lambda>x. id_provider x = p \<and> id_subject x = oc_subject c)) (\<lambda>existing.
       if existing \<noteq> None then raise (ConflictError ''Account already exists. Please log in instead.'')
       else bind_c (\<lambda>s. (Inr (merge_target c (users (work s))), s)) (\<lambda>found.
         bind_c (case found of Some u \<Rightarrow> ret u
           | None \<Rightarrow> bind_c uuid4 (\<lambda>i. bind_c now_c (\<lambda>now.
               let email = (case oc_email c of Some e \<Rightarrow> if e \<noteq> [] then Some (map lower_char e) else None | None \<Rightarrow> None);
                   u = new_user i email (if truthy (oc_email_verified c) then Some now else None) None None None
               in seq_c (add_user u)
                 (seq_c (enqueue_outbox ''user.created'' [(''user_id'', JStr (str_uuid i)), (''email'', opt_str email)]) (ret u)))))
         (\<lambda>u. seq_c (add_identity (us_id u) p (oc_subject c))
             (seq_c (record_legal_acceptances (us_id u) ip v)
               (issue_token_pair L u ip (user_agent_of q))))))))"

definition signup_phone_start :: "nat \<Rightarrow> request_head \<Rightarrow> string \<Rightarrow> unit auth_comp" where
  "signup_phone_start n q phone = transaction (
     seq_c (enforce_rate_limit (''rl:otp:phone:'' @ phone) 1 (1 / 60) 60)
    (bind_c (db_scalar users (\<lambda>u. us_phone u = Some phone)) (\<lambda>existing.
       if existing \<noteq> None then raise (ConflictError ''An account with this phone number already exists.'')
       else bind_c (send_phone_otp n phone (client_ip q)) (\<lambda>_. ret ()))))"

definition signup_phone_verify :: "library \<Rightarrow> request_head \<Rightarrow> string \<Rightarrow> string \<Rightarrow> token_pair auth_comp" where
  "signup_phone_verify L q phone code = transaction (
     bind_c (verify_phone_otp phone code) (\<lambda>matched.
       if \<not> matched then raise (AuthError ''Invalid OTP code.'')
       else bind_c uuid4 (\<lambda>i. bind_c now_c (\<lambda>now. let u = new_user i None None (Some phone) (Some now) None in
         seq_c (add_user u)
        (seq_c (add_identity i By_Phone phone)
        (seq_c (enqueue_outbox ''user.created'' [(''user_id'', JStr (str_uuid i)), (''phone'', JStr phone)])
        (seq_c (enqueue_outbox ''user.phone_verified'' [(''user_id'', JStr (str_uuid i)), (''phone'', JStr phone)])
          (issue_token_pair L u (client_ip q) (user_agent_of q)))))))))"

section \<open>Login\<close>

definition invalid_login :: exn where
  "invalid_login = AuthError ''Invalid email or password.''"

definition refuse_login :: "string \<Rightarrow> string \<Rightarrow> token_pair auth_comp" where
  "refuse_login email ip = seq_c (record_failed_login email ip) (raise invalid_login)"

definition login_email :: "library \<Rightarrow> string \<Rightarrow> request_head \<Rightarrow> string \<Rightarrow> string \<Rightarrow> token_pair auth_comp" where
  "login_email L salt q email pw = transaction (
     let ip = client_ip q; refuse = refuse_login email ip in
     seq_c (enforce_rate_limit (''rl:login:ip:'' @ ip) 10 (10 / 60) 60)
    (seq_c (check_login_locked email ip)
    (bind_c (db_scalar users (\<lambda>u. us_email u = Some email)) (\<lambda>found.
       case found of None \<Rightarrow> refuse
       | Some u \<Rightarrow> (case us_password_hash u of None \<Rightarrow> refuse
         | Some h \<Rightarrow>
             if \<not> us_is_active u then raise (AuthError ''Account is deactivated. Contact support.'')
             else if \<not> argon2_verify L h pw then refuse
             else seq_c (clear_failed_logins email ip)
               (seq_c (when_c (needs_rehash L h)
                   (save_user (us_id u) (\<lambda>x. x\<lparr>us_password_hash := Some (argon2_hash L salt pw)\<rparr>)))
                 (login_token_pair L u ip (user_agent_of q))))))))"

text \<open>The user behind an identity.\<close>

definition identity_login :: "library \<Rightarrow> request_head \<Rightarrow> login_provider \<Rightarrow> string \<Rightarrow> string \<Rightarrow> token_pair auth_comp" where
  "identity_login L q p subject no_account =
     bind_c (db_scalar identities (\<lambda>x. id_provider x = p \<and> id_subject x = subject)) (\<lambda>found.
       case found of None \<Rightarrow> raise (AuthError no_account)
       | Some x \<Rightarrow> bind_c (get_user (id_user x)) (\<lambda>u.
           case u of None \<Rightarrow> raise (AuthError ''Account not found or deactivated.'')
           | Some u \<Rightarrow> if \<not> us_is_active u then raise (AuthError ''Account not found or deactivated.'')
               else login_token_pair L u (client_ip q) (user_agent_of q)))"

definition login_oauth :: "library \<Rightarrow> request_head \<Rightarrow> login_provider \<Rightarrow> exn + oauth_claims \<Rightarrow> token_pair auth_comp" where
  "login_oauth L q p verified = transaction (
     seq_c (enforce_rate_limit (''rl:login:oauth:'' @ client_ip q) 30 (1 / 2) 60)
     (case verified of Inl e \<Rightarrow> raise e
      | Inr c \<Rightarrow> identity_login L q p (oc_subject c) ''No account found. Please sign up first.''))"

text \<open>This handler has no database session.\<close>

definition login_phone_start :: "nat \<Rightarrow> request_head \<Rightarrow> string \<Rightarrow> unit auth_comp" where
  "login_phone_start n q phone = transaction (
     seq_c (enforce_rate_limit (''rl:otp:phone:'' @ phone) 1 (1 / 60) 60)
      (bind_c (send_phone_otp n phone (client_ip q)) (\<lambda>_. ret ())))"

definition login_phone_verify :: "library \<Rightarrow> request_head \<Rightarrow> string \<Rightarrow> string \<Rightarrow> token_pair auth_comp" where
  "login_phone_verify L q phone code = transaction (
     bind_c (verify_phone_otp phone code) (\<lambda>matched.
       if \<not> matched then raise (AuthError ''Invalid OTP code.'')
       else identity_login L q By_Phone phone ''No account found for this phone number.''))"

section \<open>Tokens\<close>

definition refresh_token :: "library \<Rightarrow> request_head \<Rightarrow> string \<Rightarrow> token_pair auth_comp" where
  "refresh_token L q token = transaction (
     seq_c (enforce_rate_limit (''rl:refresh:ip:'' @ client_host q) 60 1 60)
    (bind_c (decode_refresh_token L token) (\<lambda>c.
     bind_c now_c (\<lambda>now.
     bind_c (is_jti_revoked (cl_jti c)) (\<lambda>used.
       if used
       then seq_c (mark_session_revoked (cl_sid c))
           (seq_c (save_session (cl_sid c) (\<lambda>r. r\<lparr>ss_revoked_at := Some now\<rparr>))
             (raise (AuthError ''Token has already been used. Session revoked for security.'')))
       else bind_c (db_scalar login_sessions (\<lambda>r. ss_refresh_hash r = sha256 L token \<and> ss_revoked_at r = None)) (\<lambda>found.
         case found of None \<Rightarrow> raise (AuthError ''Session not found or revoked.'')
         | Some r \<Rightarrow> bind_c (get_user (cl_sub c)) (\<lambda>u.
           case u of None \<Rightarrow> raise (AuthError ''User not found or deactivated.'')
           | Some u \<Rightarrow> if \<not> us_is_active u then raise (AuthError ''User not found or deactivated.'')
             else seq_c (mark_jti_revoked (cl_jti c) refresh_ttl_seconds)
              (bind_c (mint_refresh_token L (cl_sub c) (cl_sid c)) (\<lambda>(rt, jti).
               bind_c (mint_access_token L (cl_sub c) (cl_sid c) (us_email_verified_at u \<noteq> None) False) (\<lambda>access.
                 seq_c (save_session (ss_sid r) (\<lambda>x. x\<lparr>ss_refresh_hash := sha256 L rt, ss_refresh_jti := jti, ss_last_seen_at := now\<rparr>))
                   (ret \<lparr>tp_user = us_id u, tp_access = access, tp_refresh = rt\<rparr>)))))))))))"

definition logout :: "library \<Rightarrow> string \<Rightarrow> unit auth_comp" where
  "logout L token = transaction (bind_c now_c (\<lambda>now.
     case decode_token L now False token of Inl e \<Rightarrow> ret ()
     | Inr c \<Rightarrow> bind_c (db_scalar login_sessions (\<lambda>r. ss_refresh_hash r = sha256 L token)) (\<lambda>found.
         case found of None \<Rightarrow> ret ()
         | Some r \<Rightarrow> when_c (ss_revoked_at r = None)
             (seq_c (save_session (ss_sid r) (\<lambda>x. x\<lparr>ss_revoked_at := Some now\<rparr>))
             (seq_c (mark_session_revoked (cl_sid c)) (mark_jti_revoked (cl_jti c) 2592000))))))"

definition active_of :: "uuid \<Rightarrow> login_session \<Rightarrow> bool" where
  "active_of u r \<longleftrightarrow> ss_user r = u \<and> ss_revoked_at r = None"

definition logout_all :: "auth_user \<Rightarrow> unit auth_comp" where
  "logout_all me = transaction (bind_c (select_all login_sessions (active_of (au_user me))) (\<lambda>rows.
     bind_c now_c (\<lambda>now.
       seq_c (for_c rows (\<lambda>r. seq_c (save_session (ss_sid r) (\<lambda>x. x\<lparr>ss_revoked_at := Some now\<rparr>)) (mark_session_revoked (ss_sid r))))
        (enqueue_outbox ''auth.session.revoked'' [(''user_id'', JStr (str_uuid (au_user me))), (''all'', JBool True)]))))"

section \<open>Session management\<close>

text \<open>A listed session with its flag \<open>is_current\<close>.\<close>

definition sessions_of :: "auth_user \<Rightarrow> (login_session \<times> bool) list auth_comp" where
  "sessions_of me = bind_c (select_all login_sessions (active_of (au_user me))) (\<lambda>rows.
     ret (map (\<lambda>r. (r, ss_sid r = au_sid me)) rows))"

definition list_sessions :: "auth_user \<Rightarrow> (login_session \<times> bool) list auth_comp" where
  "list_sessions me = transaction (sessions_of me)"

definition revoke_session :: "auth_user \<Rightarrow> uuid \<Rightarrow> (login_session \<times> bool) list auth_comp" where
  "revoke_session me sid = transaction (
     bind_c (db_scalar login_sessions (\<lambda>r. ss_sid r = sid)) (\<lambda>found.
       case found of None \<Rightarrow> raise (NotFoundError ''Session'')
       | Some r \<Rightarrow>
           if ss_user r \<noteq> au_user me then raise (ForbiddenError ''You cannot revoke another user's session.'')
           else bind_c now_c (\<lambda>now.
             seq_c (save_session sid (\<lambda>x. x\<lparr>ss_revoked_at := Some now\<rparr>))
            (seq_c (mark_session_revoked sid)
            (seq_c (enqueue_outbox ''auth.session.revoked''
                [(''user_id'', JStr (str_uuid (au_user me))), (''session_id'', JStr (str_uuid sid))])
              (sessions_of me))))))"

section \<open>Verifying an address\<close>

definition verify_start :: "library \<Rightarrow> string \<Rightarrow> draws \<Rightarrow> string \<Rightarrow> string auth_comp" where
  "verify_start L domain d email = transaction (
     seq_c (enforce_rate_limit (''rl:email_verify:'' @ email) 3 (3 / 600) 600)
    (bind_c (db_scalar users (\<lambda>u. us_email u = Some email)) (\<lambda>found.
       case found of None \<Rightarrow> ret ''Verification email sent.''
       | Some u \<Rightarrow>
           if us_email_verified_at u \<noteq> None then ret ''Email is already verified.''
           else seq_c (consume_pending (us_id u) Email_Verify)
             (seq_c (add_link L d (us_id u) Email_Verify None)
             (seq_c (send_email_verification email (dr_token d) (generate_otp (dr_number d)) domain)
               (ret ''Verification email sent.''))))))"

text \<open>The link a token or, when there is none, a code stands for.\<close>

definition given :: "string option \<Rightarrow> bool" where
  "given x \<longleftrightarrow> x \<noteq> None \<and> x \<noteq> Some []"

definition named_link :: "library \<Rightarrow> string option \<Rightarrow> string option \<Rightarrow> magic_link \<Rightarrow> bool" where
  "named_link L tok code m \<longleftrightarrow>
     (if given tok then Some (ml_token_hash m) = map_option (sha256 L) tok else ml_otp_hash m = map_option (sha256 L) code)"

definition verify_finish :: "library \<Rightarrow> string option \<Rightarrow> string option \<Rightarrow> unit auth_comp" where
  "verify_finish L tok code = transaction (
     if \<not> given tok \<and> \<not> given code then raise (ValidationError ''Either token or code is required.'')
     else bind_c (db_scalar magic_links (\<lambda>m. named_link L tok code m \<and> ml_purpose m = Email_Verify \<and> ml_consumed_at m = None)) (\<lambda>found.
       case found of None \<Rightarrow> raise (AuthError ''Invalid or already used verification token.'')
       | Some m \<Rightarrow> bind_c now_c (\<lambda>now.
           if ml_expires_at m < now then raise (AuthError ''Verification link has expired. Request a new one.'')
           else seq_c (consume_link m now)
             (bind_c (get_user (ml_user m)) (\<lambda>u.
                case u of None \<Rightarrow> raise (NotFoundError ''User'')
                | Some u \<Rightarrow> seq_c (save_user (us_id u) (\<lambda>x. x\<lparr>us_email_verified_at := Some now\<rparr>))
                    (enqueue_outbox ''user.email_verified'' [(''user_id'', JStr (str_uuid (us_id u))), (''email'', opt_str (us_email u))]))))))"

section \<open>Resetting a password\<close>

definition reset_start :: "library \<Rightarrow> string \<Rightarrow> draws \<Rightarrow> string \<Rightarrow> unit auth_comp" where
  "reset_start L domain d email = transaction (
     seq_c (enforce_rate_limit (''rl:pwd_reset:'' @ email) 3 (3 / 600) 600)
    (bind_c (db_scalar users (\<lambda>u. us_email u = Some email)) (\<lambda>found.
       case found of None \<Rightarrow> ret ()
       | Some u \<Rightarrow> seq_c (consume_pending (us_id u) Password_Reset)
             (seq_c (add_link L d (us_id u) Password_Reset None)
               (send_password_reset email (dr_token d) (generate_otp (dr_number d)) domain)))))"

definition reset_finish :: "library \<Rightarrow> string \<Rightarrow> string \<Rightarrow> string \<Rightarrow> unit auth_comp" where
  "reset_finish L salt tok new_password = transaction (
     bind_c (db_scalar magic_links (\<lambda>m. ml_token_hash m = sha256 L tok \<and> ml_purpose m = Password_Reset \<and> ml_consumed_at m = None)) (\<lambda>found.
       case found of None \<Rightarrow> raise (AuthError ''Invalid or expired reset token.'')
       | Some m \<Rightarrow> bind_c now_c (\<lambda>now.
           if ml_expires_at m < now then raise (AuthError ''Reset link has expired. Request a new one.'')
           else bind_c (get_user (ml_user m)) (\<lambda>u.
             case u of None \<Rightarrow> raise (AuthError ''User not found.'')
             | Some u \<Rightarrow> seq_c (validate_password L new_password (us_email u))
                (seq_c (save_user (us_id u) (\<lambda>x. x\<lparr>us_password_hash := Some (argon2_hash L salt new_password)\<rparr>))
                  (consume_link m now))))))"

section \<open>Changing an address or a number\<close>

definition email_change_start :: "library \<Rightarrow> string \<Rightarrow> draws \<Rightarrow> auth_user \<Rightarrow> string \<Rightarrow> unit auth_comp" where
  "email_change_start L domain d me new_email = transaction (
     seq_c (enforce_rate_limit (''rl:email_change:'' @ str_uuid (au_user me)) 3 (3 / 3600) 3600)
    (bind_c (db_scalar users (\<lambda>u. us_email u = Some new_email)) (\<lambda>existing.
       if existing \<noteq> None then raise (ConflictError ''That email address is already registered.'')
       else seq_c (consume_pending (au_user me) Email_Change)
         (seq_c (add_link L d (au_user me) Email_Change (Some new_email))
           (send_email_change_verification new_email (dr_token d) (generate_otp (dr_number d)) domain)))))"

definition email_change_finish :: "library \<Rightarrow> auth_user \<Rightarrow> string option \<Rightarrow> string option \<Rightarrow> unit auth_comp" where
  "email_change_finish L me tok code = transaction (
     if \<not> given tok \<and> \<not> given code then raise (ValidationError ''Either token or code is required.'')
     else bind_c (db_scalar magic_links (\<lambda>m. named_link L tok code m \<and> pending (au_user me) Email_Change m)) (\<lambda>found.
       case found of None \<Rightarrow> raise (AuthError ''Invalid or expired token.'')
       | Some m \<Rightarrow> bind_c now_c (\<lambda>now.
           if ml_expires_at m < now then raise (AuthError ''Token has expired. Start the email change again.'')
           else bind_c (get_user (au_user me)) (\<lambda>u.
             case u of None \<Rightarrow> raise (AuthError ''User not found.'')
             | Some u \<Rightarrow> bind_c (db_scalar users (\<lambda>x. us_email x = ml_new_value m)) (\<lambda>other.
                 if other \<noteq> None
                 then seq_c (consume_link m now) (raise (ConflictError ''Email address is no longer available.''))
                 else seq_c (save_user (us_id u) (\<lambda>x. x\<lparr>us_email := ml_new_value m, us_email_verified_at := Some now\<rparr>))
                   (seq_c (consume_link m now)
                     (enqueue_outbox ''user.email_changed''
                       [(''user_id'', JStr (str_uuid (au_user me))), (''new_email'', opt_str (ml_new_value m))])))))))"

definition phone_change_start :: "nat \<Rightarrow> request_head \<Rightarrow> auth_user \<Rightarrow> string \<Rightarrow> unit auth_comp" where
  "phone_change_start n q me new_phone = transaction (
     seq_c (enforce_rate_limit (''rl:phone_change:'' @ str_uuid (au_user me)) 3 (3 / 3600) 3600)
    (bind_c (db_scalar users (\<lambda>u. us_phone u = Some new_phone)) (\<lambda>existing.
       if existing \<noteq> None then raise (ConflictError ''That phone number is already registered.'')
       else bind_c (send_phone_otp n new_phone (client_host q)) (\<lambda>_. ret ()))))"

definition phone_change_finish :: "auth_user \<Rightarrow> string \<Rightarrow> string \<Rightarrow> unit auth_comp" where
  "phone_change_finish me new_phone code = transaction (
     bind_c (verify_phone_otp new_phone code) (\<lambda>matched.
       if \<not> matched then raise (AuthError ''Invalid OTP.'')
       else bind_c (get_user (au_user me)) (\<lambda>u.
         case u of None \<Rightarrow> raise (AuthError ''User not found.'')
         | Some u \<Rightarrow> bind_c now_c (\<lambda>now.
             seq_c (save_user (us_id u) (\<lambda>x. x\<lparr>us_phone := Some new_phone, us_phone_verified_at := Some now\<rparr>))
              (enqueue_outbox ''user.phone_changed''
                [(''user_id'', JStr (str_uuid (au_user me))), (''new_phone'', JStr new_phone)])))))"

end
