(* ===== verification/Auth_World.thy ===== *)
theory Auth_World
  imports Auth_Routes
begin

text \<open>
  auth-svc as a whole: its requests as one step function, the invariant of its tables, and the proof
  that every request keeps it.
\<close>

section \<open>Requests\<close>

datatype auth_request =
    Signup_Email draws request_head string string legal_versions
  | Signup_OAuth request_head login_provider "exn + oauth_claims" legal_versions
  | Signup_Phone_Start nat request_head string
  | Signup_Phone_Verify request_head string string
  | Login_Email string request_head string string
  | Login_OAuth request_head login_provider "exn + oauth_claims"
  | Login_Phone_Start nat request_head string
  | Login_Phone_Verify request_head string string
  | Refresh request_head string
  | Logout string
  | Logout_All auth_user
  | List_Sessions auth_user
  | Revoke_Session auth_user uuid
  | Verify_Start draws string
  | Verify_Finish "string option" "string option"
  | Reset_Start draws string
  | Reset_Finish string string string
  | Email_Change_Start draws auth_user string
  | Email_Change_Finish auth_user "string option" "string option"
  | Phone_Change_Start nat request_head auth_user string
  | Phone_Change_Finish auth_user string string
  | Pass_Time nat

fun auth_step :: "library \<Rightarrow> string \<Rightarrow> auth_request \<Rightarrow> auth_sess \<Rightarrow> auth_sess" where
  "auth_step L app (Signup_Email d q email pw v) s = snd (signup_email L app d q email pw v s)"
| "auth_step L app (Signup_OAuth q p c v) s = snd (signup_oauth L q p c v s)"
| "auth_step L app (Signup_Phone_Start n q phone) s = snd (signup_phone_start n q phone s)"
| "auth_step L app (Signup_Phone_Verify q phone code) s = snd (signup_phone_verify L q phone code s)"
| "auth_step L app (Login_Email salt q email pw) s = snd (login_email L salt q email pw s)"
| "auth_step L app (Login_OAuth q p c) s = snd (login_oauth L q p c s)"
| "auth_step L app (Login_Phone_Start n q phone) s = snd (login_phone_start n q phone s)"
| "auth_step L app (Login_Phone_Verify q phone code) s = snd (login_phone_verify L q phone code s)"
| "auth_step L app (Refresh q token) s = snd (refresh_token L q token s)"
| "auth_step L app (Logout token) s = snd (logout L token s)"
| "auth_step L app (Logout_All me) s = snd (logout_all me s)"
| "auth_step L app (List_Sessions me) s = snd (list_sessions me s)"
| "auth_step L app (Revoke_Session me sid) s = snd (revoke_session me sid s)"
| "auth_step L app (Verify_Start d email) s = snd (verify_start L app d email s)"
| "auth_step L app (Verify_Finish tok code) s = snd (verify_finish L tok code s)"
| "auth_step L app (Reset_Start d email) s = snd (reset_start L app d email s)"
| "auth_step L app (Reset_Finish salt tok pw) s = snd (reset_finish L salt tok pw s)"
| "auth_step L app (Email_Change_Start d me email) s = snd (email_change_start L app d me email s)"
| "auth_step L app (Email_Change_Finish me tok code) s = snd (email_change_finish L me tok code s)"
| "auth_step L app (Phone_Change_Start n q me phone) s = snd (phone_change_start n q me phone s)"
| "auth_step L app (Phone_Change_Finish me phone code) s = snd (phone_change_finish me phone code s)"
| "auth_step L app (Pass_Time us) s = s\<lparr>clock := clock s + int us\<rparr>"

definition auth_all :: "library \<Rightarrow> string \<Rightarrow> auth_request list \<Rightarrow> auth_sess \<Rightarrow> auth_sess" where
  "auth_all L app reqs s = fold (auth_step L app) reqs s"

text \<open>The refresh tokens that were accepted, in order, and the links used by their token.\<close>

fun accepted :: "library \<Rightarrow> string \<Rightarrow> auth_request list \<Rightarrow> auth_sess \<Rightarrow> string list" where
  "accepted L app [] s = []"
| "accepted L app (q # qs) s =
     (case q of Refresh h token \<Rightarrow> if isl (fst (refresh_token L h token s)) then [] else [token] | _ \<Rightarrow> [])
       @ accepted L app qs (auth_step L app q s)"

fun used_links :: "library \<Rightarrow> string \<Rightarrow> auth_request list \<Rightarrow> auth_sess \<Rightarrow> string list" where
  "used_links L app [] s = []"
| "used_links L app (q # qs) s =
     (case q of
        Verify_Finish (Some tok) code \<Rightarrow> if tok = [] \<or> isl (fst (verify_finish L (Some tok) code s)) then [] else [tok]
      | Reset_Finish salt tok pw \<Rightarrow> if isl (fst (reset_finish L salt tok pw s)) then [] else [tok]
      | Email_Change_Finish me (Some tok) code \<Rightarrow> if tok = [] \<or> isl (fst (email_change_finish L me (Some tok) code s)) then [] else [tok]
      | _ \<Rightarrow> [])
       @ used_links L app qs (auth_step L app q s)"

section \<open>The invariant\<close>

definition refresh_claims_of :: "library \<Rightarrow> login_session \<Rightarrow> int \<Rightarrow> int \<Rightarrow> claims" where
  "refresh_claims_of L r iat e = Refresh_Claims (ss_user r) (ss_refresh_jti r) iat e (ss_sid r)"

definition session_ok :: "library \<Rightarrow> uuid \<Rightarrow> login_session \<Rightarrow> bool" where
  "session_ok L n r \<longleftrightarrow> ss_sid r < n \<and> ss_refresh_jti r < n \<and> (\<exists>iat e. ss_refresh_hash r = sha256 L (jwt_encode L (refresh_claims_of L r iat e)))"

definition session_step :: "login_session \<Rightarrow> login_session \<Rightarrow> bool" where
  "session_step a b \<longleftrightarrow> ss_sid b = ss_sid a \<and> ss_user b = ss_user a \<and> ss_created_at b = ss_created_at a \<and> ss_ip b = ss_ip a
     \<and> (ss_revoked_at a \<noteq> None \<longrightarrow> ss_revoked_at b \<noteq> None \<and> ss_refresh_hash b = ss_refresh_hash a \<and> ss_refresh_jti b = ss_refresh_jti a)"

definition link_step :: "magic_link \<Rightarrow> magic_link \<Rightarrow> bool" where
  "link_step a b \<longleftrightarrow> b\<lparr>ml_consumed_at := None\<rparr> = a\<lparr>ml_consumed_at := None\<rparr>
     \<and> (ml_consumed_at a \<noteq> None \<longrightarrow> ml_consumed_at b = ml_consumed_at a)"

definition open_links :: "magic_link list \<Rightarrow> (uuid \<times> link_purpose) list" where
  "open_links ms = map (\<lambda>m. (ml_user m, ml_purpose m)) (filter (\<lambda>m. ml_consumed_at m = None) ms)"

text \<open>
  The tables are compared with those of an earlier moment \<open>s0\<close>. A token of a session was there at that
  moment or carries an identifier drawn later.
\<close>

definition token_origin :: "uuid \<Rightarrow> login_session list \<Rightarrow> login_session \<Rightarrow> bool" where
  "token_origin n0 rs0 r \<longleftrightarrow> n0 \<le> ss_refresh_jti r
     \<or> (\<exists>r0 \<in> set rs0. ss_refresh_jti r0 = ss_refresh_jti r \<and> (ss_revoked_at r0 \<noteq> None \<longrightarrow> ss_revoked_at r \<noteq> None))"

definition sessions_good :: "library \<Rightarrow> uuid \<Rightarrow> login_session list \<Rightarrow> login_session list \<Rightarrow> uuid \<Rightarrow> bool" where
  "sessions_good L n0 rs0 rs n \<longleftrightarrow> grows session_step rs0 rs \<and> distinct (map ss_sid rs) \<and> distinct (map ss_refresh_jti rs)
     \<and> (\<forall>r \<in> set rs. session_ok L n r \<and> token_origin n0 rs0 r) \<and> n0 \<le> n"

definition links_good :: "magic_link list \<Rightarrow> magic_link list \<Rightarrow> uuid \<Rightarrow> bool" where
  "links_good ms0 ms n \<longleftrightarrow> grows link_step ms0 ms \<and> distinct (map ml_token_hash ms) \<and> distinct (open_links ms)
     \<and> (\<forall>m \<in> set ms. ml_user m < n)"

definition present :: "'a option list \<Rightarrow> 'a list" where
  "present xs = List.map_filter id xs"

definition users_good :: "user list \<Rightarrow> user list \<Rightarrow> uuid \<Rightarrow> bool" where
  "users_good us0 us n \<longleftrightarrow> grows (\<lambda>a b. us_id b = us_id a) us0 us \<and> distinct (map us_id us) \<and> distinct (present (map us_email us))
     \<and> distinct (present (map us_phone us)) \<and> (\<forall>u \<in> set us. us_id u < n)"

definition auth_good :: "library \<Rightarrow> auth_sess \<Rightarrow> auth_db \<Rightarrow> uuid \<Rightarrow> bool" where
  "auth_good L s0 db n \<longleftrightarrow> sessions_good L (next_uuid s0) (login_sessions (committed s0)) (login_sessions db) n
     \<and> links_good (magic_links (committed s0)) (magic_links db) n \<and> users_good (users (committed s0)) (users db) n
     \<and> grows (=) (identities (committed s0)) (identities db)
     \<and> distinct (map (\<lambda>x. (id_provider x, id_subject x)) (identities db)) \<and> grows (=) (acceptances (committed s0)) (acceptances db)"

definition auth_state :: "library \<Rightarrow> auth_sess \<Rightarrow> auth_sess \<Rightarrow> bool" where
  "auth_state L s0 s \<longleftrightarrow> auth_good L s0 (work s) (next_uuid s) \<and> auth_good L s0 (committed s) (next_uuid s)"

text \<open>A computation that starts where \<open>P\<close> holds ends where \<open>Q\<close> holds of its value, or raises where \<open>E\<close> holds.\<close>

definition runs_to :: "('db sess \<Rightarrow> bool) \<Rightarrow> ('db, 'a) comp \<Rightarrow> ('a \<Rightarrow> 'db sess \<Rightarrow> bool) \<Rightarrow> ('db sess \<Rightarrow> bool) \<Rightarrow> bool" where
  "runs_to P m Q E \<longleftrightarrow> (\<forall>s. P s \<longrightarrow> (\<forall>a s1. m s = (Inr a, s1) \<longrightarrow> Q a s1) \<and> (\<forall>e s1. m s = (Inl e, s1) \<longrightarrow> E s1))"

lemma runs_to_bind:
  assumes "runs_to P m Q E" and "\<And>a. runs_to (Q a) (f a) R E"
  shows "runs_to P (bind_c m f) R E"
  unfolding runs_to_def
proof (intro allI impI conjI)
  fix s a s1 assume "P s" "bind_c m f s = (Inr a, s1)"
  then show "R a s1" using assms unfolding runs_to_def bind_run by (auto split: prod.splits sum.splits)
next
  fix s e s1 assume "P s" "bind_c m f s = (Inl e, s1)"
  then show "E s1" using assms unfolding runs_to_def bind_run by (auto split: prod.splits sum.splits)
qed

lemma runs_to_seq: "runs_to P m (\<lambda>_. Q) E \<Longrightarrow> runs_to Q k R E \<Longrightarrow> runs_to P (seq_c m k) R E"
  unfolding seq_c_def by (rule runs_to_bind)

lemma runs_to_keeps:
  assumes "keeps I m" and "\<And>s. P s \<Longrightarrow> I s"
  shows "runs_to P m (\<lambda>_. I) I"
proof -
  have "I (snd (m s))" if "P s" for s using keepsD [OF assms(1) assms(2) [OF that]] .
  then show ?thesis unfolding runs_to_def by fastforce
qed

lemma keeps_runs_to:
  assumes "runs_to I m (\<lambda>_. I) I"
  shows "keeps I m"
proof
  fix s assume "I s"
  obtain r s1 where run: "m s = (r, s1)" by fastforce
  have "I s1" using assms \<open>I s\<close> run unfolding runs_to_def by (cases r) blast+
  then show "I (snd (m s))" by (simp add: run)
qed

lemma runs_to_ret: "(\<And>s. P s \<Longrightarrow> Q a s) \<Longrightarrow> runs_to P (ret a) Q E"
  by (simp add: runs_to_def ret_run)

lemma runs_to_raise: "(\<And>s. P s \<Longrightarrow> E s) \<Longrightarrow> runs_to P (raise e) Q E"
  by (simp add: runs_to_def raise_run)

section \<open>Single operations\<close>

lemma auth_good_extra [simp]:
  "auth_good L s0 (db\<lparr>redis_db := r\<rparr>) n = auth_good L s0 db n" "auth_good L s0 (db\<lparr>event_outbox := ms\<rparr>) n = auth_good L s0 db n"
  by (simp_all add: auth_good_def)

lemma auth_good_mono: "auth_good L s0 db n \<Longrightarrow> n \<le> k \<Longrightarrow> auth_good L s0 db k"
  by (auto simp: auth_good_def sessions_good_def session_ok_def links_good_def users_good_def dest: less_le_trans)

lemma transaction_run:
  "transaction m s = (case m (s\<lparr>work := committed s\<rparr>) of
     (Inr a, s1) \<Rightarrow> (Inr a, s1\<lparr>committed := work s1\<rparr>)
   | (Inl e, s1) \<Rightarrow> (Inl e, s1\<lparr>committed := (committed s1)\<lparr>redis_db := redis_db (work s1)\<rparr>, work := (committed s1)\<lparr>redis_db := redis_db (work s1)\<rparr>\<rparr>))"
  by (simp add: transaction_def Let_def split: prod.split sum.split)

lemma keeps_transaction:
  assumes "keeps (auth_state L s0) m"
  shows "keeps (auth_state L s0) (transaction m)"
proof
  fix s assume "auth_state L s0 s"
  then have "auth_state L s0 (snd (m (s\<lparr>work := committed s\<rparr>)))" by (intro keepsD [OF assms]) (simp add: auth_state_def)
  then show "auth_state L s0 (snd (transaction m s))"
    by (auto simp: transaction_run auth_state_def split: prod.splits sum.splits)
qed

lemma keeps_redis_c [simp]: "keeps (auth_state L s0) (redis_c f)"
  by (auto simp: keeps_def redis_run auth_state_def split: prod.splits)

lemma keeps_enqueue [simp]: "keeps (auth_state L s0) (enqueue_outbox name body)"
  by (simp add: keeps_def enqueue_run auth_state_def)

lemma keeps_publish [simp]: "keeps (auth_state L s0) (publish_c m)"
  by (simp add: keeps_def publish_run auth_state_def)

lemma keeps_uuid4 [simp]: "keeps (auth_state L s0) uuid4"
  by (auto simp: keeps_def uuid4_run auth_state_def elim: auth_good_mono)

lemma keeps_enforce [simp]: "keeps (auth_state L s0) (enforce_rate_limit k c r t)"
  unfolding enforce_rate_limit_def by (auto intro!: keeps_intros)

lemma keeps_services [simp]:
  "keeps (auth_state L s0) (mint_refresh_token L2 u sid)" "keeps (auth_state L s0) (mint_access_token L2 u sid a b)"
  "keeps (auth_state L s0) (decode_refresh_token L2 token)" "keeps (auth_state L s0) (mark_jti_revoked jti ttl)"
  "keeps (auth_state L s0) (is_jti_revoked jti)" "keeps (auth_state L s0) (mark_session_revoked sid)"
  "keeps (auth_state L s0) (record_failed_login email ip)" "keeps (auth_state L s0) (check_login_locked email ip)"
  "keeps (auth_state L s0) (clear_failed_logins email ip)" "keeps (auth_state L s0) (send_phone_otp k phone ip)"
  "keeps (auth_state L s0) (verify_phone_otp phone code)" "keeps (auth_state L s0) (validate_password L2 pw addr)"
  "keeps (auth_state L s0) (send_mail to subject body)"
  unfolding mint_refresh_token_def mint_access_token_def decode_refresh_token_def mark_jti_revoked_def is_jti_revoked_def
    mark_session_revoked_def record_failed_login_def check_login_locked_def clear_failed_logins_def send_phone_otp_def
    verify_phone_otp_def validate_password_def send_mail_def lock_login_def delete_otp_def hincr_def send_sms_def Let_def
  by (auto intro!: keeps_intros split: option.split sum.split token_fault.split)

section \<open>Changing one table\<close>

lemma session_step_refl [simp]: "session_step r r"
  by (simp add: session_step_def)

lemma session_step_trans: "session_step a b \<Longrightarrow> session_step b c \<Longrightarrow> session_step a c"
  by (auto simp: session_step_def)

lemma link_step_refl [simp]: "link_step m m"
  by (simp add: link_step_def)

lemma link_step_trans: "link_step a b \<Longrightarrow> link_step b c \<Longrightarrow> link_step a c"
  by (auto simp: link_step_def)

lemma session_grows_trans: "grows session_step xs ys \<Longrightarrow> grows session_step ys zs \<Longrightarrow> grows session_step xs zs"
  by (rule grows_trans) (auto intro: session_step_trans)

lemma link_grows_trans: "grows link_step xs ys \<Longrightarrow> grows link_step ys zs \<Longrightarrow> grows link_step xs zs"
  by (rule grows_trans) (auto intro: link_step_trans)

lemma user_grows_trans:
  "grows (\<lambda>a b. us_id b = us_id a) xs ys \<Longrightarrow> grows (\<lambda>a b. us_id b = us_id a) ys zs \<Longrightarrow> grows (\<lambda>a b. us_id b = us_id a) xs zs"
  by (rule grows_trans) auto

lemma sessions_good_update:
  assumes "sessions_good L n0 rs0 rs n" and "\<And>r. r \<in> set rs \<Longrightarrow> P r \<Longrightarrow> session_step r (f r) \<and> session_ok L n (f r) \<and> token_origin n0 rs0 (f r)"
    and "distinct (map ss_refresh_jti (update_where P f rs))"
  shows "sessions_good L n0 rs0 (update_where P f rs) n"
proof -
  have "map ss_sid (update_where P f rs) = map ss_sid rs"
    using assms(2) by (auto simp: update_where_def session_step_def)
  moreover have "grows session_step rs (update_where P f rs)" by (rule grows_update) (use assms(2) in auto)
  then have "grows session_step rs0 (update_where P f rs)"
    by (rule session_grows_trans [rotated]) (use assms(1) in \<open>simp add: sessions_good_def\<close>)
  ultimately show ?thesis
    using assms by (auto simp: sessions_good_def set_update_where)
qed

lemma revoke_ok:
  "session_step r (r\<lparr>ss_revoked_at := Some t\<rparr>)" "session_ok L n (r\<lparr>ss_revoked_at := Some t\<rparr>) = session_ok L n r"
  "token_origin n0 rs0 r \<Longrightarrow> token_origin n0 rs0 (r\<lparr>ss_revoked_at := Some t\<rparr>)"
  by (auto simp: session_step_def session_ok_def refresh_claims_of_def token_origin_def)

lemma sessions_good_revoke:
  assumes "sessions_good L n0 rs0 rs n"
  shows "sessions_good L n0 rs0 (update_where P (\<lambda>r. r\<lparr>ss_revoked_at := Some t\<rparr>) rs) n"
proof (rule sessions_good_update [OF assms])
  show "distinct (map ss_refresh_jti (update_where P (\<lambda>r. r\<lparr>ss_revoked_at := Some t\<rparr>) rs))"
    using assms by (simp add: map_update_where sessions_good_def)
qed (use assms in \<open>auto simp: revoke_ok sessions_good_def\<close>)

lemma sessions_good_insert:
  assumes "sessions_good L n0 rs0 rs n" "session_ok L n r" "n0 \<le> ss_refresh_jti r" "\<not> list_ex (session_clash r) rs"
  shows "sessions_good L n0 rs0 (rs @ [r]) n"
proof -
  have "grows session_step rs0 (rs @ [r])"
    by (rule session_grows_trans [OF _ grows_append]) (use assms(1) in \<open>simp_all add: sessions_good_def\<close>)
  with assms show ?thesis by (auto simp: sessions_good_def list_ex_iff session_clash_def token_origin_def)
qed

lemma links_good_update:
  assumes good: "links_good ms0 ms n" and step: "\<And>m. m \<in> set ms \<Longrightarrow> P m \<Longrightarrow> ml_consumed_at m = None"
  shows "links_good ms0 (update_where P (\<lambda>m. m\<lparr>ml_consumed_at := Some t\<rparr>) ms) n"
proof -
  let ?ms = "update_where P (\<lambda>m. m\<lparr>ml_consumed_at := Some t\<rparr>) ms"
  have "grows link_step ms ?ms" by (rule grows_update) (use step in \<open>auto simp: link_step_def\<close>)
  then have "grows link_step ms0 ?ms"
    by (rule link_grows_trans [rotated]) (use good in \<open>simp add: links_good_def\<close>)
  moreover have "map ml_token_hash ?ms = map ml_token_hash ms" by (simp add: map_update_where)
  moreover have "filter (\<lambda>m. ml_consumed_at m = None) ?ms = filter (\<lambda>m. \<not> P m) (filter (\<lambda>m. ml_consumed_at m = None) ms)"
    by (induction ms) auto
  then have "distinct (open_links ?ms)"
    using good distinct_map_filter [of "\<lambda>m. (ml_user m, ml_purpose m)" "filter (\<lambda>m. ml_consumed_at m = None) ms" "\<lambda>m. \<not> P m"]
    by (simp add: links_good_def open_links_def)
  ultimately show ?thesis
    using good by (auto simp: links_good_def set_update_where)
qed

lemma links_good_insert:
  assumes "links_good ms0 ms n" "ml_user m < n" "\<not> list_ex (link_clash m) ms"
    and "ml_consumed_at m = None \<Longrightarrow> (ml_user m, ml_purpose m) \<notin> set (open_links ms)"
  shows "links_good ms0 (ms @ [m]) n"
proof -
  have "grows link_step ms0 (ms @ [m])"
    by (rule link_grows_trans [OF _ grows_append]) (use assms(1) in \<open>simp_all add: links_good_def\<close>)
  with assms show ?thesis by (auto simp: links_good_def list_ex_iff link_clash_def open_links_def)
qed

lemma present_simps [simp]:
  "present [] = []" "present (None # xs) = present xs" "present (Some x # xs) = x # present xs"
  by (simp_all add: present_def List.map_filter_simps)

lemma set_present: "set (present xs) = {x. Some x \<in> set xs}"
  by (induction xs) (auto simp: present_def List.map_filter_simps split: option.split)

lemma present_append [simp]: "present (xs @ ys) = present xs @ present ys"
proof (induction xs)
  case (Cons x xs)
  then show ?case by (cases x) simp_all
qed simp

lemma present_Cons: "present (x # xs) = (case x of None \<Rightarrow> [] | Some y \<Rightarrow> [y]) @ present xs"
  by (cases x) simp_all

lemma distinct_present_update:
  assumes "distinct (map us_id us)" "distinct (present (map k us))" "\<And>u. us_id (f u) = us_id u"
    and "\<And>x y. x \<in> set us \<Longrightarrow> y \<in> set us \<Longrightarrow> us_id x = i \<Longrightarrow> us_id y \<noteq> i \<Longrightarrow> k (f x) \<noteq> None \<Longrightarrow> k (f x) \<noteq> k y"
  shows "distinct (present (map k (update_where (\<lambda>u. us_id u = i) f us)))"
  using assms(1, 2, 4)
proof (induction us)
  case (Cons u us)
  show ?case
  proof (cases "us_id u = i")
    case True
    have others: "us_id v \<noteq> i" if "v \<in> set us" for v using Cons.prems(1) True that by (auto simp: image_iff)
    then have "update_where (\<lambda>u. us_id u = i) f us = us" by (intro update_where_none)
    moreover have "k (f u) \<notin> Some ` set (present (map k us))"
      using Cons.prems(3) [of u] True others by (auto simp: set_present) force
    ultimately show ?thesis using Cons.prems(2) True by (auto simp: present_Cons split: option.splits)
  next
    case False
    have "distinct (present (map k (update_where (\<lambda>u. us_id u = i) f us)))"
      using Cons.prems by (intro Cons.IH) (auto simp: present_Cons)
    moreover have "k u \<notin> Some ` set (present (map k (update_where (\<lambda>u. us_id u = i) f us)))"
    proof -
      have "k u \<noteq> k v" if "v \<in> set us" "k u \<noteq> None" for v
        using Cons.prems(2) that by (force simp: present_Cons set_present split: option.splits)
      moreover have "k u \<noteq> k (f v)" if "v \<in> set us" "k u \<noteq> None" "us_id v = i" for v
        using Cons.prems(3) [of v u] that False by force
      moreover have "v \<in> set us \<Longrightarrow> k u = k v \<Longrightarrow> k u = None" "v \<in> set us \<Longrightarrow> us_id v = i \<Longrightarrow> k u = k (f v) \<Longrightarrow> k u = None" for v
        using calculation by blast+
      ultimately show ?thesis by (fastforce simp: set_present set_update_where)
    qed
    ultimately show ?thesis using False by (auto simp: present_Cons split: option.splits)
  qed
qed simp

lemma users_good_update:
  assumes "users_good us0 us n" "\<And>u. us_id (f u) = us_id u"
    and "\<not> list_ex (\<lambda>x. us_id x = i \<and> list_ex (\<lambda>y. us_id y \<noteq> i \<and> user_clash (f x) y) us) us"
  shows "users_good us0 (update_where (\<lambda>u. us_id u = i) f us) n"
proof -
  let ?us = "update_where (\<lambda>u. us_id u = i) f us"
  have "grows (\<lambda>a b. us_id b = us_id a) us ?us" by (rule grows_update) (simp_all add: assms(2))
  then have "grows (\<lambda>a b. us_id b = us_id a) us0 ?us"
    by (rule user_grows_trans [rotated]) (use assms(1) in \<open>simp add: users_good_def\<close>)
  moreover have clash: "\<not> user_clash (f x) y" if "x \<in> set us" "y \<in> set us" "us_id x = i" "us_id y \<noteq> i" for x y
    using assms(3) that unfolding list_ex_iff by blast
  then have free: "\<lbrakk>x \<in> set us; y \<in> set us; us_id x = i; us_id y \<noteq> i; us_email (f x) \<noteq> None\<rbrakk> \<Longrightarrow> us_email (f x) \<noteq> us_email y"
    "\<lbrakk>x \<in> set us; y \<in> set us; us_id x = i; us_id y \<noteq> i; us_phone (f x) \<noteq> None\<rbrakk> \<Longrightarrow> us_phone (f x) \<noteq> us_phone y" for x y
    unfolding user_clash_def by blast+
  have "distinct (present (map us_email ?us))"
    by (rule distinct_present_update) (use assms(1, 2) free in \<open>simp_all add: users_good_def\<close>)
  moreover have "distinct (present (map us_phone ?us))"
    by (rule distinct_present_update) (use assms(1, 2) free in \<open>simp_all add: users_good_def\<close>)
  ultimately show ?thesis
    using assms(1, 2) \<open>grows (\<lambda>a b. us_id b = us_id a) us0 ?us\<close> by (auto simp: users_good_def map_update_where set_update_where)
qed

lemma users_good_insert:
  assumes "users_good us0 us n" "us_id u < n" "\<not> list_ex (user_clash u) us"
  shows "users_good us0 (us @ [u]) n"
proof -
  have "grows (\<lambda>a b. us_id b = us_id a) us0 (us @ [u])"
    by (rule user_grows_trans [OF _ grows_append]) (use assms(1) in \<open>simp_all add: users_good_def\<close>)
  moreover have "us_email u \<notin> Some ` set (present (map us_email us))" "us_phone u \<notin> Some ` set (present (map us_phone us))"
    using assms(3) by (auto simp: set_present list_ex_iff user_clash_def)
  ultimately show ?thesis using assms
    by (cases "us_email u"; cases "us_phone u") (auto simp: users_good_def list_ex_iff user_clash_def)
qed

section \<open>Operations on the tables\<close>

lemma runs_toI:
  assumes "\<And>s a s1. P s \<Longrightarrow> m s = (Inr a, s1) \<Longrightarrow> Q a s1" and "\<And>s e s1. P s \<Longrightarrow> m s = (Inl e, s1) \<Longrightarrow> E s1"
  shows "runs_to P m Q E"
  unfolding runs_to_def using assms by blast

lemma runs_to_snd:
  assumes "\<And>s. P s \<Longrightarrow> R (snd (m s))" and "\<And>s. R s \<Longrightarrow> E s"
  shows "runs_to P m (\<lambda>_. R) E"
proof -
  have "R s1" if "P s" "m s = (r, s1)" for s r s1 using assms(1) [OF that(1)] that(2) by simp
  then show ?thesis using assms(2) unfolding runs_to_def by blast
qed

lemma db_update_run [comp_simps]:
  "db_update upd tbl clash P f s =
     (if list_ex (\<lambda>x. P x \<and> list_ex (\<lambda>y. \<not> P y \<and> clash (f x) y) (tbl (work s))) (tbl (work s))
      then (Inl IntegrityError, s) else (Inr (), s\<lparr>work := upd (\<lambda>_. update_where P f (tbl (work s))) (work s)\<rparr>))"
  by (simp add: db_update_def)

lemma keeps_revoke [simp]: "keeps (auth_state L s0) (save_session i (\<lambda>r. r\<lparr>ss_revoked_at := Some t\<rparr>))"
  by (auto simp: keeps_def save_session_def db_update_run auth_state_def auth_good_def intro: sessions_good_revoke)

lemma keeps_save_user: "(\<And>u. us_id (f u) = us_id u) \<Longrightarrow> keeps (auth_state L s0) (save_user i f)"
  by (auto simp: keeps_def save_user_def db_update_run auth_state_def auth_good_def intro: users_good_update)

lemma keeps_consume_link:
  "runs_to (\<lambda>s. auth_state L s0 s \<and> (\<forall>x \<in> set (magic_links (work s)). ml_token_hash x = ml_token_hash m \<longrightarrow> ml_consumed_at x = None))
     (consume_link m now) (\<lambda>_. auth_state L s0) (auth_state L s0)"
  by (auto simp: runs_to_def consume_link_def modify_run auth_state_def auth_good_def intro: links_good_update)

lemma keeps_consume_pending [simp]: "keeps (auth_state L s0) (consume_pending u p)"
  by (auto simp: keeps_def consume_pending_def comp_simps auth_state_def auth_good_def pending_def intro: links_good_update)

lemma grows_eq_append: "grows (=) xs ys \<Longrightarrow> grows (=) xs (ys @ zs)"
  using grows_trans [of "(=)" xs ys "ys @ zs"] grows_append [of "(=)" ys zs] by auto

lemma keeps_acceptances [simp]: "keeps (auth_state L s0) (record_legal_acceptances u ip v)"
proof -
  have "keeps (auth_state L s0) (modify_table acceptances_update acceptances (\<lambda>xs. xs @ ys))" for ys
    by (auto simp: keeps_def modify_run auth_state_def auth_good_def intro: grows_eq_append)
  then show ?thesis unfolding record_legal_acceptances_def by (auto intro!: keeps_intros)
qed

lemma keeps_add_identity [simp]: "keeps (auth_state L s0) (add_identity u p x)"
  by (auto simp: keeps_def add_identity_def insert_run auth_state_def auth_good_def identity_clash_def list_ex_iff intro: grows_eq_append)

lemma keeps_issue [simp]: "keeps (auth_state L s0) (issue_token_pair L u ip agent)"
proof
  fix s assume good: "auth_state L s0 s"
  have ok: "session_ok L (Suc (Suc (Suc n))) (new_session L n v (jwt_encode L (Refresh_Claims v (Suc n) a b n)) (Suc n) ip agent t)" for n v a b t
    by (auto simp: session_ok_def new_session_def refresh_claims_of_def)
  have mono: "auth_good L s0 db n \<Longrightarrow> auth_good L s0 db (Suc (Suc (Suc n)))" for db n by (erule auth_good_mono) simp
  then have "sessions_good L (next_uuid s0) (login_sessions (committed s0)) (login_sessions (work s)) (Suc (Suc (Suc (next_uuid s))))"
    using good by (auto simp: auth_state_def auth_good_def)
  note ins = sessions_good_insert [OF this ok]
  have "next_uuid s0 \<le> ss_refresh_jti (new_session L (next_uuid s) v rt (Suc (next_uuid s)) ip agent t)" for v rt t
    using good by (simp add: new_session_def auth_state_def auth_good_def sessions_good_def)
  note ins = ins [OF this]
  show "auth_state L s0 (snd (issue_token_pair L u ip agent s))"
    using good mono [of "work s" "next_uuid s"] mono [of "committed s" "next_uuid s"] ins
    by (auto simp: issue_token_pair_def mint_refresh_token_def mint_access_token_def comp_simps Let_def auth_state_def auth_good_def)
qed

lemma keeps_login_pair [simp]: "keeps (auth_state L s0) (login_token_pair L u ip agent)"
  unfolding login_token_pair_def by (intro keeps_intros keeps_now keeps_issue keeps_save_user keeps_ret) simp

text \<open>A fresh user has no link; after a purpose was cleared it has no open one.\<close>

definition linkless :: "uuid \<Rightarrow> auth_sess \<Rightarrow> bool" where
  "linkless i s \<longleftrightarrow> i < next_uuid s \<and> (\<forall>m \<in> set (magic_links (work s)). ml_user m \<noteq> i)"

lemma uuid4_fresh: "runs_to (auth_state L s0) uuid4 (\<lambda>i s. auth_state L s0 s \<and> linkless i s) (auth_state L s0)"
proof (rule runs_toI)
  fix s i s1 assume good: "auth_state L s0 s" and run: "uuid4 s = (Inr i, s1)"
  have "auth_state L s0 s1" using keepsD [OF keeps_uuid4 good] run by simp
  moreover have "linkless i s1"
  proof -
    have "\<forall>m \<in> set (magic_links (work s)). ml_user m < next_uuid s"
      using good by (simp add: auth_state_def auth_good_def links_good_def)
    then show ?thesis using run by (auto simp: uuid4_run linkless_def dest: less_imp_neq)
  qed
  ultimately show "auth_state L s0 s1 \<and> linkless i s1" ..
qed (simp add: uuid4_run)

lemma keeps_linkless_prims [simp]:
  "keeps (linkless i) (redis_c f)" "keeps (linkless i) (enqueue_outbox nm body)" "keeps (linkless i) uuid4"
  "keeps (linkless i) (fits k x)" "keeps (linkless i) (add_user u)" "keeps (linkless i) (add_identity a b c)"
  "keeps (linkless i) (modify_table acceptances_update acceptances g)"
  "keeps (linkless i) (db_insert login_sessions_update login_sessions ck cl r)"
  by (auto simp: keeps_def linkless_def comp_simps add_user_def add_identity_def split: prod.splits)

lemma keeps_linkless [simp]:
  "keeps (linkless i) (record_legal_acceptances u ip v)" "keeps (linkless i) (issue_token_pair L u2 ip agent)"
  unfolding record_legal_acceptances_def issue_token_pair_def mint_refresh_token_def mint_access_token_def Let_def
  by (auto intro!: keeps_intros split: prod.splits)

lemma keeps_both: "keeps I m \<Longrightarrow> keeps J m \<Longrightarrow> keeps (\<lambda>s. I s \<and> J s) m"
  by (simp add: keeps_def)

lemma add_user_fresh:
  "runs_to (\<lambda>s. auth_state L s0 s \<and> linkless (us_id u) s) (add_user u)
     (\<lambda>_ s. auth_state L s0 s \<and> linkless (us_id u) s) (auth_state L s0)"
  by (auto simp: runs_to_def add_user_def insert_run auth_state_def auth_good_def linkless_def intro: users_good_insert split: if_splits)

lemma add_link_ok:
  "runs_to (\<lambda>s. auth_state L s0 s \<and> (u, p) \<notin> set (open_links (magic_links (work s)))) (add_link L2 d u p v)
     (\<lambda>_. auth_state L s0) (auth_state L s0)"
proof (rule runs_to_snd)
  fix s assume good: "auth_state L s0 s \<and> (u, p) \<notin> set (open_links (magic_links (work s)))"
  let ?m = "new_link L2 d (clock s) u p v"
  show "auth_state L s0 (snd (add_link L2 d u p v s))"
  proof (cases "first_of (filter (\<lambda>x. us_id x = u) (users (work s))) \<noteq> None \<and> \<not> list_ex (link_clash ?m) (magic_links (work s))")
    case True
    then obtain y where "first_of (filter (\<lambda>x. us_id x = u) (users (work s))) = Some y" by blast
    from first_of_filter_Some [OF this] have "u < next_uuid s" using good by (auto simp: auth_state_def auth_good_def users_good_def)
    then have "links_good (magic_links (committed s0)) (magic_links (work s) @ [?m]) (next_uuid s)"
      using good True by (intro links_good_insert) (auto simp: auth_state_def auth_good_def new_link_def)
    then show ?thesis using good True by (simp add: add_link_def comp_simps auth_state_def auth_good_def)
  next
    case False
    then have "snd (add_link L2 d u p v s) = s" by (auto simp: add_link_def comp_simps)
    then show ?thesis using good by simp
  qed
qed simp

lemma consume_pending_links:
  "magic_links (work (snd (consume_pending u p s))) = update_where (pending u p) (\<lambda>m. m\<lparr>ml_consumed_at := Some (clock s)\<rparr>) (magic_links (work s))"
  by (simp add: consume_pending_def comp_simps)

lemma consume_pending_open:
  "runs_to (auth_state L s0) (consume_pending u p)
     (\<lambda>_ s. auth_state L s0 s \<and> (u, p) \<notin> set (open_links (magic_links (work s)))) (auth_state L s0)"
proof (rule runs_to_snd)
  fix s assume good: "auth_state L s0 s"
  have "(u, p) \<notin> set (open_links (update_where (pending u p) (\<lambda>m. m\<lparr>ml_consumed_at := Some t\<rparr>) ms))" for t ms
  proof
    assume "(u, p) \<in> set (open_links (update_where (pending u p) (\<lambda>m. m\<lparr>ml_consumed_at := Some t\<rparr>) ms))"
    then obtain m where m: "m \<in> set (update_where (pending u p) (\<lambda>m. m\<lparr>ml_consumed_at := Some t\<rparr>) ms)"
      and free: "ml_consumed_at m = None" "ml_user m = u" "ml_purpose m = p" unfolding open_links_def set_map set_filter by blast
    obtain x where "x \<in> set ms" "m = (if pending u p x then x\<lparr>ml_consumed_at := Some t\<rparr> else x)"
      using m unfolding update_where_def set_map by blast
    with free show False by (cases "pending u p x") (auto simp: pending_def)
  qed
  then show "auth_state L s0 (snd (consume_pending u p s))
      \<and> (u, p) \<notin> set (open_links (magic_links (work (snd (consume_pending u p s)))))"
    using keepsD [OF keeps_consume_pending good] by (simp add: consume_pending_links)
qed simp

end
