(* ===== verification/Auth_Safety.thy ===== *)
theory Auth_Safety
  imports Auth_World
begin

text \<open>
  What a refresh does, and the proof that every request of auth-svc keeps the invariant and, when it
  fails, leaves every table as it was.
\<close>

section \<open>Refreshing a token\<close>

lemma enforce_run [comp_simps]:
  "enforce_rate_limit k c r retry s =
     (case check_rate_limit (buckets (redis_db (work s))) (clock s) k c r of ((allowed, rest), m) \<Rightarrow>
       (if allowed then Inr () else Inl (RateLimitError retry), s\<lparr>work := (work s)\<lparr>redis_db := (redis_db (work s))\<lparr>buckets := m\<rparr>\<rparr>\<rparr>))"
  by (simp add: enforce_rate_limit_def comp_simps split: prod.split)

lemma mint_refresh_run [comp_simps]:
  "mint_refresh_token L u sid s = (Inr (jwt_encode L (Refresh_Claims u (next_uuid s) (unix_seconds (clock s))
     (unix_seconds (clock s) + refresh_ttl_seconds) sid), next_uuid s), s\<lparr>next_uuid := Suc (next_uuid s)\<rparr>)"
  by (simp add: mint_refresh_token_def comp_simps Let_def)

lemma mint_access_run [comp_simps]:
  "mint_access_token L u sid a b s = (Inr (jwt_encode L (Access_Claims u (next_uuid s) (unix_seconds (clock s))
     (unix_seconds (clock s) + access_ttl_seconds) sid a b [''user''])), s\<lparr>next_uuid := Suc (next_uuid s)\<rparr>)"
  by (simp add: mint_access_token_def comp_simps Let_def)

lemma is_jti_revoked_run [comp_simps]:
  "is_jti_revoked j s = (Inr (key_exists (clock s) (revoked_jtis (redis_db (work s)) j)), s)"
  by (simp add: is_jti_revoked_def comp_simps)

lemma mark_jti_run [comp_simps]:
  "mark_jti_revoked j ttl s = (Inr (), s\<lparr>work := (work s)\<lparr>redis_db := (redis_db (work s))
     \<lparr>revoked_jtis := (revoked_jtis (redis_db (work s)))(j \<mapsto> clock s + seconds ttl)\<rparr>\<rparr>\<rparr>)"
  by (simp add: mark_jti_revoked_def comp_simps)

lemma mark_session_run [comp_simps]:
  "mark_session_revoked i s = (Inr (), s\<lparr>work := (work s)\<lparr>redis_db := (redis_db (work s))
     \<lparr>revoked_sids := (revoked_sids (redis_db (work s)))(i \<mapsto> clock s + seconds 2592000)\<rparr>\<rparr>\<rparr>)"
  by (simp add: mark_session_revoked_def comp_simps)

lemma save_session_run [comp_simps]:
  "save_session i f s =
     (if list_ex (\<lambda>x. ss_sid x = i \<and> list_ex (\<lambda>y. ss_sid y \<noteq> i \<and> session_clash (f x) y) (login_sessions (work s))) (login_sessions (work s))
      then (Inl IntegrityError, s)
      else (Inr (), s\<lparr>work := (work s)\<lparr>login_sessions := update_where (\<lambda>x. ss_sid x = i) f (login_sessions (work s))\<rparr>\<rparr>))"
  by (simp add: save_session_def comp_simps)

text \<open>The row of a session after its token was exchanged.\<close>

definition new_refresh :: "library \<Rightarrow> claims \<Rightarrow> uuid \<Rightarrow> datetime \<Rightarrow> string" where
  "new_refresh L c n t = jwt_encode L (Refresh_Claims (cl_sub c) n (unix_seconds t) (unix_seconds t + refresh_ttl_seconds) (cl_sid c))"

definition rotate :: "library \<Rightarrow> claims \<Rightarrow> uuid \<Rightarrow> datetime \<Rightarrow> login_session \<Rightarrow> login_session" where
  "rotate L c n t x = x\<lparr>ss_refresh_hash := sha256 L (new_refresh L c n t), ss_refresh_jti := n, ss_last_seen_at := t\<rparr>"

text \<open>What a refresh answers and leaves, once the rate limiter let it in.\<close>

definition refresh_row :: "library \<Rightarrow> string \<Rightarrow> auth_db \<Rightarrow> login_session option" where
  "refresh_row L token db = first_of (filter (\<lambda>r. ss_refresh_hash r = sha256 L token \<and> ss_revoked_at r = None) (login_sessions db))"

definition user_row :: "uuid \<Rightarrow> auth_db \<Rightarrow> user option" where
  "user_row i db = first_of (filter (\<lambda>u. us_id u = i) (users db))"

lemma refresh_success:
  assumes "refresh_token L q token s = (Inr tp, s1)"
  obtains c r u where "decode_token L (clock s) False token = Inr c"
    and "refresh_row L token (committed s) = Some r" and "user_row (cl_sub c) (committed s) = Some u" and "us_is_active u"
    and "login_sessions (committed s1) = update_where (\<lambda>x. ss_sid x = ss_sid r) (rotate L c (next_uuid s) (clock s)) (login_sessions (committed s))"
    and "next_uuid s1 = next_uuid s + 2" and "work s1 = committed s1" and "clock s1 = clock s"
    and "committed s1 = (committed s)\<lparr>login_sessions := login_sessions (committed s1), redis_db := redis_db (committed s1)\<rparr>"
    and "tp_refresh tp = new_refresh L c (next_uuid s) (clock s)"
proof -
  obtain allowed rest m where lim: "check_rate_limit (buckets (redis_db (committed s))) (clock s) (''rl:refresh:ip:'' @ client_host q) 60 1 = ((allowed, rest), m)"
    by (metis surj_pair)
  note run = assms [unfolded refresh_token_def transaction_run]
  show ?thesis
    using run lim
    apply (clarsimp simp: comp_simps decode_refresh_token_def Let_def split: if_splits sum.splits token_fault.splits option.splits)
    subgoal for c r u
      by (rule that [of c r u]) (auto simp: refresh_row_def user_row_def rotate_def [abs_def] new_refresh_def)
    done
qed


text \<open>A request that fails leaves the tables as they were.\<close>

definition untouched :: "auth_sess \<Rightarrow> auth_sess \<Rightarrow> bool" where
  "untouched s0 s \<longleftrightarrow> committed s = committed s0 \<and> next_uuid s0 \<le> next_uuid s \<and> clock s = clock s0"

lemma keeps_untouched_prims [simp]:
  "keeps (untouched s0) (redis_c f)" "keeps (untouched s0) (enqueue_outbox nm body)" "keeps (untouched s0) (publish_c m)"
  "keeps (untouched s0) uuid4" "keeps (untouched s0) (enforce_rate_limit k c r t)" "keeps (untouched s0) (save_user i g)"
  "keeps (untouched s0) (save_session i h)" "keeps (untouched s0) (db_insert upd tbl ck cl row)"
  "keeps (untouched s0) (modify_table upd2 tbl2 f2)" "keeps (untouched s0) (add_user u)" "keeps (untouched s0) (add_identity i2 p x)"
  "keeps (untouched s0) (\<lambda>s. (Inr (look s), s))"
  by (auto simp: keeps_def untouched_def comp_simps save_user_def add_user_def add_identity_def split: prod.splits)

lemma keeps_untouched_services [simp]:
  "keeps (untouched s0) (decode_refresh_token L2 token)" "keeps (untouched s0) (mint_refresh_token L2 u sid)"
  "keeps (untouched s0) (mint_access_token L2 u sid a b)" "keeps (untouched s0) (mark_jti_revoked jti ttl)"
  "keeps (untouched s0) (is_jti_revoked jti)" "keeps (untouched s0) (mark_session_revoked sid)"
  "keeps (untouched s0) (record_failed_login email ip)" "keeps (untouched s0) (check_login_locked email ip)"
  "keeps (untouched s0) (clear_failed_logins email ip)" "keeps (untouched s0) (send_phone_otp k phone ip)"
  "keeps (untouched s0) (verify_phone_otp phone code)" "keeps (untouched s0) (validate_password L2 pw addr)"
  "keeps (untouched s0) (send_mail to subject body)" "keeps (untouched s0) (consume_pending u p)" "keeps (untouched s0) (consume_link ml now)"
  "keeps (untouched s0) (add_link L2 d u p v)"
  unfolding mint_refresh_token_def mint_access_token_def decode_refresh_token_def mark_jti_revoked_def is_jti_revoked_def
    mark_session_revoked_def record_failed_login_def check_login_locked_def clear_failed_logins_def send_phone_otp_def
    verify_phone_otp_def validate_password_def send_mail_def lock_login_def delete_otp_def hincr_def send_sms_def Let_def
    consume_pending_def consume_link_def add_link_def
  by (auto intro!: keeps_intros split: option.split sum.split token_fault.split)

lemma keeps_untouched_parts [simp]:
  "keeps (untouched s0) (issue_token_pair L u ip agent)" "keeps (untouched s0) (record_legal_acceptances i ip v)"
  unfolding issue_token_pair_def record_legal_acceptances_def by (auto intro!: keeps_intros split: prod.split)

text \<open>A request takes no time, and when it fails every table is as it was.\<close>

definition tables_restored :: "auth_sess \<Rightarrow> auth_sess \<Rightarrow> bool" where
  "tables_restored s s1 \<longleftrightarrow> committed s1 = (committed s)\<lparr>redis_db := redis_db (committed s1)\<rparr> \<and> next_uuid s \<le> next_uuid s1 \<and> work s1 = committed s1"

definition atomic :: "'a auth_comp \<Rightarrow> bool" where
  "atomic h \<longleftrightarrow> (\<forall>s. clock (snd (h s)) = clock s \<and> (isl (fst (h s)) \<longrightarrow> tables_restored s (snd (h s))))"

lemma atomic_transaction:
  assumes "\<And>s0. keeps (untouched s0) m" shows "atomic (transaction m)"
  unfolding atomic_def
proof (intro allI conjI impI)
  fix s
  have kept: "untouched s (snd (m (s\<lparr>work := committed s\<rparr>)))" by (rule keepsD [OF assms]) (simp add: untouched_def)
  then show "clock (snd (transaction m s)) = clock s"
    by (auto simp: transaction_run untouched_def split: prod.splits sum.splits)
  assume "isl (fst (transaction m s))"
  with kept show "tables_restored s (snd (transaction m s))"
    by (auto simp: transaction_run untouched_def tables_restored_def split: prod.splits sum.splits)
qed

lemma tables_restored_good:
  assumes "tables_restored s s1" and "auth_state L s0 s"
  shows "auth_state L s0 s1"
proof -
  have "auth_good L s0 (committed s) (next_uuid s1)" using assms by (auto simp: auth_state_def tables_restored_def elim: auth_good_mono)
  then have "auth_good L s0 (committed s1) (next_uuid s1)" using assms(1) auth_good_extra(1) unfolding tables_restored_def by metis
  then show ?thesis using assms(1) by (simp add: auth_state_def tables_restored_def)
qed

lemma atomic_refresh: "atomic (refresh_token L q token)"
  unfolding refresh_token_def by (rule atomic_transaction) (auto intro!: keeps_intros split: option.split prod.split)

text \<open>A signed token whose hash a session holds names that session.\<close>

lemma refresh_claims:
  assumes lib: "library_ok L" and dec: "decode_token L now False token = Inr c"
    and ok: "session_ok L n r" and hash: "ss_refresh_hash r = sha256 L token"
  obtains iat e where "c = refresh_claims_of L r iat e" "token = jwt_encode L c"
proof -
  obtain iat e where "ss_refresh_hash r = sha256 L (jwt_encode L (refresh_claims_of L r iat e))" using ok by (auto simp: session_ok_def)
  then have "sha256 L token = sha256 L (jwt_encode L (refresh_claims_of L r iat e))" using hash by simp
  then have token: "token = jwt_encode L (refresh_claims_of L r iat e)" using lib unfolding library_ok_def by blast
  then have "jwt_open L token = Some (refresh_claims_of L r iat e)" using lib by (simp add: library_ok_def)
  then have "c = refresh_claims_of L r iat e" using dec by (auto simp: decode_token_def split: if_splits)
  with token that show ?thesis by blast
qed

lemma refresh_row_facts:
  "refresh_row L token db = Some r \<Longrightarrow> r \<in> set (login_sessions db) \<and> ss_refresh_hash r = sha256 L token \<and> ss_revoked_at r = None"
  unfolding refresh_row_def by (drule first_of_filter_Some) simp

lemma distinct_update_fresh:
  assumes "distinct (map key rs)" "distinct (map k rs)" "\<And>r. key (f r) = key r" "\<And>r. k (f r) = v" "\<And>r. r \<in> set rs \<Longrightarrow> k r \<noteq> v"
  shows "distinct (map k (update_where (\<lambda>x. key x = i) f rs))"
  using assms(1, 2, 5)
proof (induction rs)
  case (Cons r rs)
  show ?case
  proof (cases "key r = i")
    case True
    then have "update_where (\<lambda>x. key x = i) f rs = rs" using Cons.prems(1) by (intro update_where_none) (auto simp: image_iff)
    then show ?thesis using True Cons.prems assms(4) by auto
  next
    case False
    then show ?thesis using Cons assms(4) by (auto simp: set_update_where)
  qed
qed simp

lemma keeps_refresh:
  assumes lib: "library_ok L"
  shows "keeps (auth_state L s0) (refresh_token L q token)"
proof
  fix s assume good: "auth_state L s0 s"
  obtain x s1 where run: "refresh_token L q token s = (x, s1)" by fastforce
  have "auth_state L s0 s1"
  proof (cases x)
    case (Inl e)
    have "tables_restored s s1" using atomic_refresh [of L q token] run Inl unfolding atomic_def by (metis fst_conv isl_def snd_conv)
    then show ?thesis using good by (rule tables_restored_good)
  next
    case (Inr tp)
    from refresh_success [OF run [unfolded Inr]] obtain c r u where dec: "decode_token L (clock s) False token = Inr c"
      and row: "refresh_row L token (committed s) = Some r"
      and rows: "login_sessions (committed s1) = update_where (\<lambda>x. ss_sid x = ss_sid r) (rotate L c (next_uuid s) (clock s)) (login_sessions (committed s))"
      and n: "next_uuid s1 = next_uuid s + 2" and w: "work s1 = committed s1"
      and rest: "committed s1 = (committed s)\<lparr>login_sessions := login_sessions (committed s1), redis_db := redis_db (committed s1)\<rparr>"
      by metis
    have old: "auth_good L s0 (committed s) (next_uuid s + 2)" using good by (auto simp: auth_state_def elim: auth_good_mono)
    have good_rows: "sessions_good L (next_uuid s0) (login_sessions (committed s0)) (login_sessions (committed s)) (next_uuid s)"
      using good by (simp add: auth_state_def auth_good_def)
    note r = refresh_row_facts [OF row]
    then obtain iat e where c: "c = refresh_claims_of L r iat e"
      using refresh_claims [OF lib dec _ , of "next_uuid s" r] good_rows by (metis sessions_good_def)
    have only: "x = r" if "x \<in> set (login_sessions (committed s))" "ss_sid x = ss_sid r" for x
      using good_rows r that by (metis distinct_map inj_onD sessions_good_def)
    have "sessions_good L (next_uuid s0) (login_sessions (committed s0)) (login_sessions (committed s1)) (next_uuid s + 2)"
      unfolding rows
    proof (rule sessions_good_update)
      show "distinct (map ss_refresh_jti (update_where (\<lambda>x. ss_sid x = ss_sid r) (rotate L c (next_uuid s) (clock s)) (login_sessions (committed s))))"
        using good_rows by (intro distinct_update_fresh [where v = "next_uuid s"]) (auto simp: sessions_good_def session_ok_def rotate_def)
      show "session_step x (rotate L c (next_uuid s) (clock s) x) \<and> session_ok L (next_uuid s + 2) (rotate L c (next_uuid s) (clock s) x)
          \<and> token_origin (next_uuid s0) (login_sessions (committed s0)) (rotate L c (next_uuid s) (clock s) x)"
        if "x \<in> set (login_sessions (committed s))" "ss_sid x = ss_sid r" for x
        using only [OF that] r c good_rows
        by (auto simp: session_step_def session_ok_def rotate_def new_refresh_def refresh_claims_of_def token_origin_def sessions_good_def)
    qed (use old in \<open>simp add: auth_good_def\<close>)
    then have "auth_good L s0 (committed s1) (next_uuid s1)"
      using old by (subst rest) (simp add: auth_good_def n)
    with w show ?thesis by (simp add: auth_state_def)
  qed
  then show "auth_state L s0 (snd (refresh_token L q token s))" by (simp add: run)
qed

section \<open>Every request keeps the invariant\<close>

definition open_link :: "magic_link \<Rightarrow> auth_sess \<Rightarrow> bool" where
  "open_link m s \<longleftrightarrow> (\<forall>x \<in> set (magic_links (work s)). ml_token_hash x = ml_token_hash m \<longrightarrow> ml_consumed_at x = None)"

lemma keeps_open_link [simp]:
  "keeps (open_link m) (validate_password L pw addr)" "keeps (open_link m) (save_user i f)"
  by (auto simp: keeps_def open_link_def validate_password_def save_user_def comp_simps split: option.split)

lemma found_link:
  assumes "\<And>m. P m \<Longrightarrow> ml_consumed_at m = None"
  shows "runs_to (auth_state L s0) (db_scalar magic_links P)
    (\<lambda>found s. auth_state L s0 s \<and> (\<forall>m. found = Some m \<longrightarrow> open_link m s)) (auth_state L s0)"
proof (rule runs_toI)
  fix s found s1 assume good: "auth_state L s0 s" and run: "db_scalar magic_links P s = (Inr found, s1)"
  have "open_link m s" if "found = Some m" for m
  proof -
    have "first_of (filter P (magic_links (work s))) = Some m" using that run by (auto simp: db_scalar_run)
    then have "m \<in> set (magic_links (work s)) \<and> P m" by (rule first_of_filter_Some)
    moreover have "distinct (map ml_token_hash (magic_links (work s)))" using good by (simp add: auth_state_def auth_good_def links_good_def)
    ultimately show ?thesis using assms by (metis distinct_map inj_onD open_link_def)
  qed
  with good run show "auth_state L s0 s1 \<and> (\<forall>m. found = Some m \<longrightarrow> open_link m s1)" by (simp add: db_scalar_run)
qed (simp add: db_scalar_run)

lemma consume_open: "runs_to (\<lambda>s. auth_state L s0 s \<and> open_link m s) (consume_link m now) (\<lambda>_. auth_state L s0) (auth_state L s0)"
  using keeps_consume_link by (simp add: open_link_def)

text \<open>A computation that keeps two predicates, in front of one that needs both.\<close>

lemma runs_to_both:
  assumes "keeps I m" "keeps J m" "\<And>a. runs_to (\<lambda>s. I s \<and> J s) (f a) R I"
  shows "runs_to (\<lambda>s. I s \<and> J s) (bind_c m f) R I"
proof (rule runs_to_bind [OF _ assms(3)])
  show "runs_to (\<lambda>s. I s \<and> J s) m (\<lambda>_ s. I s \<and> J s) I"
  proof (rule runs_to_snd)
    fix s assume "I s \<and> J s"
    then show "I (snd (m s)) \<and> J (snd (m s))" using keepsD [OF assms(1)] keepsD [OF assms(2)] by blast
  qed simp
qed

lemma runs_to_both_seq:
  "keeps I m \<Longrightarrow> keeps J m \<Longrightarrow> runs_to (\<lambda>s. I s \<and> J s) k R I \<Longrightarrow> runs_to (\<lambda>s. I s \<and> J s) (seq_c m k) R I"
  unfolding seq_c_def by (rule runs_to_both)

lemma runs_to_weaken: "runs_to I m R E \<Longrightarrow> runs_to (\<lambda>s. I s \<and> J s) m R E"
  by (auto simp: runs_to_def)

lemma runs_to_kept: "keeps I m \<Longrightarrow> runs_to I m (\<lambda>_. I) I"
  by (rule runs_to_keeps)

lemma keeps_with_link:
  assumes "\<And>m. P m \<Longrightarrow> ml_consumed_at m = None" and "keeps (auth_state L s0) k"
    and some: "\<And>m. runs_to (\<lambda>s. auth_state L s0 s \<and> open_link m s) (f m) (\<lambda>_. auth_state L s0) (auth_state L s0)"
  shows "keeps (auth_state L s0) (bind_c (db_scalar magic_links P) (case_option k f))"
proof (rule keeps_runs_to, rule runs_to_bind [OF found_link [OF assms(1)]])
  fix found
  show "runs_to (\<lambda>s. auth_state L s0 s \<and> (\<forall>m. found = Some m \<longrightarrow> open_link m s)) (case_option k f found)
      (\<lambda>_. auth_state L s0) (auth_state L s0)"
  proof (cases found)
    case None
    then show ?thesis using runs_to_kept [OF assms(2)] by simp
  next
    case (Some m)
    with some [of m] show ?thesis by simp
  qed
qed

lemma keeps_verify_finish: "keeps (auth_state L s0) (verify_finish L2 tok code)"
proof -
  have finish: "keeps (auth_state L s0) (bind_c (get_user (ml_user m)) (\<lambda>u.
      case u of None \<Rightarrow> raise (NotFoundError ''User'')
      | Some u \<Rightarrow> seq_c (save_user (us_id u) (\<lambda>x. x\<lparr>us_email_verified_at := Some now\<rparr>))
          (enqueue_outbox ''user.email_verified'' [(''user_id'', JStr (str_uuid (us_id u))), (''email'', opt_str (us_email u))])))" for m now
    by (auto intro!: keeps_intros keeps_save_user split: option.split)
  show ?thesis
    unfolding verify_finish_def
    by (rule keeps_transaction)
      (auto intro!: keeps_with_link runs_to_both runs_to_seq [OF consume_open] runs_to_kept [OF finish] runs_to_raise)
qed

lemma keeps_reset_finish: "keeps (auth_state L s0) (reset_finish L2 salt tok pw)"
  unfolding reset_finish_def
  by (rule keeps_transaction)
    (auto intro!: keeps_with_link runs_to_both runs_to_both_seq consume_open runs_to_raise keeps_save_user split: option.split)

lemma keeps_email_change_finish: "keeps (auth_state L s0) (email_change_finish L2 me tok code)"
  unfolding email_change_finish_def
  by (rule keeps_transaction)
    (auto intro!: keeps_with_link runs_to_both runs_to_both_seq runs_to_seq [OF consume_open] runs_to_kept runs_to_raise keeps_save_user
      simp: pending_def split: option.split)

lemma keeps_starts:
  "keeps (auth_state L s0) (verify_start L2 app d email)" "keeps (auth_state L s0) (reset_start L2 app d email)"
  "keeps (auth_state L s0) (email_change_start L2 app d me email)"
proof -
  have fresh: "keeps (auth_state L s0) (seq_c (consume_pending u p) (seq_c (add_link L2 d u p v) k))"
    if "keeps (auth_state L s0) k" for u p v and k :: "'z auth_comp"
    by (rule keeps_runs_to, rule runs_to_seq [OF consume_pending_open], rule runs_to_seq [OF add_link_ok], rule runs_to_kept [OF that])
  show "keeps (auth_state L s0) (verify_start L2 app d email)" "keeps (auth_state L s0) (reset_start L2 app d email)"
    "keeps (auth_state L s0) (email_change_start L2 app d me email)"
    unfolding verify_start_def reset_start_def email_change_start_def send_email_verification_def send_password_reset_def
      send_email_change_verification_def
    by (auto intro!: keeps_transaction keeps_seq [OF keeps_enforce] keeps_bind [OF keeps_db_scalar] fresh keeps_intros split: option.split)
qed


lemma keeps_identity_login [simp]: "keeps (auth_state L s0) (identity_login L q p x msg)"
  unfolding identity_login_def by (auto intro!: keeps_intros split: option.split)

lemma keeps_logins:
  "keeps (auth_state L s0) (login_email L salt q email pw)" "keeps (auth_state L s0) (login_oauth L q p c)"
  "keeps (auth_state L s0) (login_phone_start k q phone)" "keeps (auth_state L s0) (login_phone_verify L q phone code)"
  unfolding login_email_def refuse_login_def login_oauth_def login_phone_start_def login_phone_verify_def Let_def
  by (auto intro!: keeps_transaction keeps_intros keeps_save_user split: option.split sum.split)

lemma keeps_session_routes:
  "keeps (auth_state L s0) (logout L2 token)" "keeps (auth_state L s0) (logout_all me)"
  "keeps (auth_state L s0) (list_sessions me)" "keeps (auth_state L s0) (revoke_session me sid)"
  unfolding logout_def logout_all_def list_sessions_def revoke_session_def sessions_of_def
  by (auto intro!: keeps_transaction keeps_intros split: option.split sum.split)

lemma keeps_phone_routes:
  "keeps (auth_state L s0) (signup_phone_start k q phone)" "keeps (auth_state L s0) (phone_change_start k q me phone)"
  "keeps (auth_state L s0) (phone_change_finish me phone code)"
  unfolding signup_phone_start_def phone_change_start_def phone_change_finish_def
  by (auto intro!: keeps_transaction keeps_intros keeps_save_user split: option.split)

text \<open>The sign-ups make a user under a fresh identifier.\<close>

lemma new_user_id [simp]: "us_id (new_user i e ev ph pv pw) = i"
  by (simp add: new_user_def)

lemma linkless_open: "linkless i s \<Longrightarrow> (i, p) \<notin> set (open_links (magic_links (work s)))"
  by (auto simp: linkless_def open_links_def)

lemma keeps_fresh_user:
  assumes "\<And>i. runs_to (\<lambda>s. auth_state L s0 s \<and> linkless i s) (f i) (\<lambda>_. auth_state L s0) (auth_state L s0)"
  shows "keeps (auth_state L s0) (bind_c uuid4 f)"
  by (rule keeps_runs_to, rule runs_to_bind [OF uuid4_fresh assms])

lemma add_user_then:
  assumes "us_id u = i" "runs_to (\<lambda>s. auth_state L s0 s \<and> linkless i s) k R (auth_state L s0)"
  shows "runs_to (\<lambda>s. auth_state L s0 s \<and> linkless i s) (seq_c (add_user u) k) R (auth_state L s0)"
  using runs_to_seq [OF add_user_fresh, of L s0 u k R] assms by simp

lemma runs_to_linkless: "keeps (auth_state L s0) m \<Longrightarrow> runs_to (\<lambda>s. auth_state L s0 s \<and> linkless i s) m (\<lambda>_. auth_state L s0) (auth_state L s0)"
  by (rule runs_to_keeps) auto

lemmas runs_to_last = runs_to_linkless [OF keeps_issue] runs_to_linkless [OF keeps_ret]

lemma keeps_signup_email: "keeps (auth_state L s0) (signup_email L app d q email pw v)"
proof -
  have link: "runs_to (\<lambda>s. auth_state L s0 s \<and> linkless i s) (seq_c (add_link L d i Email_Verify None) k) (\<lambda>_. auth_state L s0) (auth_state L s0)"
    if "keeps (auth_state L s0) k" for i and k :: "'z auth_comp"
  proof (rule runs_to_seq)
    show "runs_to (\<lambda>s. auth_state L s0 s \<and> linkless i s) (add_link L d i Email_Verify None) (\<lambda>_. auth_state L s0) (auth_state L s0)"
      using add_link_ok [of L s0 i Email_Verify L d None] linkless_open unfolding runs_to_def by blast
  qed (rule runs_to_kept [OF that])
  show ?thesis
    unfolding signup_email_def Let_def send_email_verification_def
    by (auto intro!: keeps_transaction keeps_seq [OF keeps_enforce] keeps_bind [OF keeps_db_scalar] keeps_seq [OF keeps_services(12)]
        keeps_fresh_user add_user_then runs_to_both runs_to_both_seq link keeps_intros)
qed

lemma keeps_signup_phone: "keeps (auth_state L s0) (signup_phone_verify L q phone code)"
  unfolding signup_phone_verify_def Let_def
  by (auto intro!: keeps_transaction keeps_bind [OF keeps_services(11)] keeps_fresh_user runs_to_both runs_to_both_seq add_user_then runs_to_last)

lemma keeps_signup_oauth: "keeps (auth_state L s0) (signup_oauth L q p c v)"
proof -
  have look: "keeps (auth_state L s0) (\<lambda>s. (Inr (g s), s))" for g :: "auth_sess \<Rightarrow> 'y" by (simp add: keeps_def)
  show ?thesis
    unfolding signup_oauth_def Let_def
    by (auto intro!: keeps_transaction keeps_seq keeps_bind look keeps_fresh_user runs_to_both runs_to_both_seq add_user_then runs_to_last
        split: sum.split option.split)
qed

lemma atomic_routes:
  "atomic (signup_email L app d q email pw v)" "atomic (signup_oauth L q p c v)" "atomic (signup_phone_start k q phone)"
  "atomic (signup_phone_verify L q phone code)" "atomic (login_email L salt q email pw)" "atomic (login_oauth L q p c)"
  "atomic (login_phone_start k q phone)" "atomic (login_phone_verify L q phone code)" "atomic (logout L token)" "atomic (logout_all me)"
  "atomic (list_sessions me)" "atomic (revoke_session me sid)" "atomic (verify_start L app d email)" "atomic (verify_finish L tok code2)"
  "atomic (reset_start L app d email)" "atomic (reset_finish L salt tk pw)" "atomic (email_change_start L app d me email)"
  "atomic (email_change_finish L me tok code2)" "atomic (phone_change_start k q me phone)" "atomic (phone_change_finish me phone code)"
  unfolding signup_email_def signup_oauth_def signup_phone_start_def signup_phone_verify_def login_email_def refuse_login_def login_oauth_def
    login_phone_start_def login_phone_verify_def logout_def logout_all_def list_sessions_def revoke_session_def sessions_of_def
    verify_start_def verify_finish_def reset_start_def reset_finish_def email_change_start_def email_change_finish_def
    phone_change_start_def phone_change_finish_def identity_login_def login_token_pair_def Let_def send_email_verification_def
    send_password_reset_def send_email_change_verification_def
  by (rule atomic_transaction; auto intro!: keeps_intros split: option.split sum.split prod.split)+

lemma auth_step_keeps:
  assumes "library_ok L" shows "auth_state L s0 s \<Longrightarrow> auth_state L s0 (auth_step L app q s)"
  by (cases q) (simp_all add: keepsD [OF keeps_signup_email] keepsD [OF keeps_signup_oauth] keepsD [OF keeps_signup_phone]
      keepsD [OF keeps_phone_routes(1)] keepsD [OF keeps_phone_routes(2)] keepsD [OF keeps_phone_routes(3)]
      keepsD [OF keeps_logins(1)] keepsD [OF keeps_logins(2)] keepsD [OF keeps_logins(3)] keepsD [OF keeps_logins(4)]
      keepsD [OF keeps_refresh [OF assms]] keepsD [OF keeps_session_routes(1)] keepsD [OF keeps_session_routes(2)]
      keepsD [OF keeps_session_routes(3)] keepsD [OF keeps_session_routes(4)] keepsD [OF keeps_starts(1)] keepsD [OF keeps_starts(2)]
      keepsD [OF keeps_starts(3)] keepsD [OF keeps_verify_finish] keepsD [OF keeps_reset_finish] keepsD [OF keeps_email_change_finish],
    simp add: auth_state_def)

lemma auth_all_keeps: "library_ok L \<Longrightarrow> auth_state L s0 s \<Longrightarrow> auth_state L s0 (auth_all L app reqs s)"
  unfolding auth_all_def by (induction reqs arbitrary: s) (simp_all add: auth_step_keeps)

lemma auth_start_good: "auth_state L (auth_start t n) (auth_start t n)"
  by (simp add: auth_state_def auth_start_def auth_good_def sessions_good_def links_good_def users_good_def grows_def open_links_def
      empty_auth_db_def)

end
