(* ===== verification/Auth_Claims.thy ===== *)
theory Auth_Claims
  imports Auth_Safety
begin

text \<open>
  What auth-svc guarantees over any sequence of requests: refresh tokens, links and revocations.
\<close>

section \<open>From one request to the next\<close>

definition at_rest :: "auth_sess \<Rightarrow> bool" where
  "at_rest s \<longleftrightarrow> work s = committed s"

lemma at_rest_transaction [simp]: "at_rest (snd (transaction m s))"
  by (simp add: transaction_run at_rest_def split: prod.split sum.split)

lemma at_rest_step: "at_rest s \<Longrightarrow> at_rest (auth_step L app q s)"
  by (cases q) (simp_all add: signup_email_def signup_oauth_def signup_phone_start_def signup_phone_verify_def login_email_def login_oauth_def
      login_phone_start_def login_phone_verify_def refresh_token_def logout_def logout_all_def list_sessions_def revoke_session_def
      verify_start_def verify_finish_def reset_start_def reset_finish_def email_change_start_def email_change_finish_def
      phone_change_start_def phone_change_finish_def Let_def, simp add: at_rest_def)

lemma at_rest_all: "at_rest s \<Longrightarrow> at_rest (auth_all L app reqs s)"
  unfolding auth_all_def by (induction reqs arbitrary: s) (simp_all add: at_rest_step)

lemma auth_good_self: "auth_good L s0 (committed s) (next_uuid s) \<Longrightarrow> auth_good L s (committed s) (next_uuid s)"
  by (auto simp: auth_good_def sessions_good_def links_good_def users_good_def token_origin_def intro: grows_refl)

lemma auth_state_self: "auth_state L s0 s \<Longrightarrow> at_rest s \<Longrightarrow> auth_state L s s"
  by (simp add: auth_state_def at_rest_def auth_good_self)

definition well :: "library \<Rightarrow> auth_sess \<Rightarrow> bool" where
  "well L s \<longleftrightarrow> auth_state L s s \<and> at_rest s"

lemma start_at_rest: "at_rest (auth_start t n)"
  by (simp add: at_rest_def auth_start_def)

lemma reached_well:
  assumes "library_ok L" shows "well L (auth_all L app reqs (auth_start t n))"
proof -
  have "at_rest (auth_all L app reqs (auth_start t n))" by (rule at_rest_all [OF start_at_rest])
  then show ?thesis using auth_state_self [OF auth_all_keeps [OF assms auth_start_good]] by (simp add: well_def)
qed

lemma start_well: "library_ok L \<Longrightarrow> well L (auth_start t n)"
  using reached_well [of L app "[]"] by (simp add: auth_all_def)

lemma well_step: "library_ok L \<Longrightarrow> well L s \<Longrightarrow> well L (auth_step L app q s)"
  unfolding well_def using auth_step_keeps auth_state_self at_rest_step by blast

lemma step_good: "library_ok L \<Longrightarrow> well L s \<Longrightarrow> auth_good L s (committed (auth_step L app q s)) (next_uuid (auth_step L app q s))"
  using auth_step_keeps [of L s s] unfolding well_def by (simp add: auth_state_def)

lemma all_good: "library_ok L \<Longrightarrow> well L s \<Longrightarrow> auth_good L s (committed (auth_all L app reqs s)) (next_uuid (auth_all L app reqs s))"
  using auth_all_keeps [of L s s] unfolding well_def by (simp add: auth_state_def)

section \<open>Credentials that work once\<close>

text \<open>What a sequence of requests uses, in order.\<close>

fun uses_over :: "('q \<Rightarrow> 's \<Rightarrow> 's) \<Rightarrow> ('q \<Rightarrow> 's \<Rightarrow> 'x list) \<Rightarrow> 'q list \<Rightarrow> 's \<Rightarrow> 'x list" where
  "uses_over step used [] s = []"
| "uses_over step used (q # qs) s = used q s @ uses_over step used qs (step q s)"

text \<open>
  Requests that use up credentials: a credential once used is spent, spent ones stay spent and are
  refused. So none is used twice.
\<close>

locale one_time =
  fixes step :: "'q \<Rightarrow> 's \<Rightarrow> 's" and ok :: "'s \<Rightarrow> bool" and used :: "'q \<Rightarrow> 's \<Rightarrow> 'x list" and gone :: "'x \<Rightarrow> 's \<Rightarrow> bool"
  assumes ok_step: "ok s \<Longrightarrow> ok (step q s)"
    and used_distinct: "ok s \<Longrightarrow> distinct (used q s)"
    and gone_step: "ok s \<Longrightarrow> gone x s \<Longrightarrow> gone x (step q s)"
    and gone_refused: "ok s \<Longrightarrow> gone x s \<Longrightarrow> x \<notin> set (used q s)"
    and used_gone: "ok s \<Longrightarrow> x \<in> set (used q s) \<Longrightarrow> gone x (step q s)"
begin

lemma gone_unused: "ok s \<Longrightarrow> gone x s \<Longrightarrow> x \<notin> set (uses_over step used qs s)"
  by (induction qs arbitrary: s) (simp_all add: ok_step gone_step gone_refused)

lemma used_once: "ok s \<Longrightarrow> distinct (uses_over step used qs s)"
  by (induction qs arbitrary: s) (auto simp: used_distinct ok_step dest: used_gone gone_unused [OF ok_step])

end

section \<open>Refresh tokens\<close>

text \<open>A token of which no live session knows the identifier.\<close>

definition spent :: "library \<Rightarrow> string \<Rightarrow> auth_sess \<Rightarrow> bool" where
  "spent L token s \<longleftrightarrow> (\<forall>c. jwt_open L token = Some c \<longrightarrow> cl_jti c < next_uuid s
     \<and> (\<forall>r \<in> set (login_sessions (committed s)). ss_refresh_jti r = cl_jti c \<longrightarrow> ss_revoked_at r \<noteq> None))"

lemma spent_stays:
  assumes lib: "library_ok L" and well: "well L s" and spent: "spent L token s"
  shows "spent L token (auth_step L app q s)"
  unfolding spent_def
proof (intro allI impI conjI ballI)
  fix c assume c: "jwt_open L token = Some c"
  have good: "sessions_good L (next_uuid s) (login_sessions (committed s)) (login_sessions (committed (auth_step L app q s)))
      (next_uuid (auth_step L app q s))"
    using step_good [OF lib well] by (simp add: auth_good_def)
  have jti: "cl_jti c < next_uuid s" using spent c by (simp add: spent_def)
  then show "cl_jti c < next_uuid (auth_step L app q s)" using good by (simp add: sessions_good_def)
  fix r assume r: "r \<in> set (login_sessions (committed (auth_step L app q s)))" "ss_refresh_jti r = cl_jti c"
  then have "token_origin (next_uuid s) (login_sessions (committed s)) r" using good by (simp add: sessions_good_def)
  then show "ss_revoked_at r \<noteq> None" using spent c r(2) jti unfolding token_origin_def spent_def by (metis not_le)
qed

lemma spent_refused:
  assumes lib: "library_ok L" and well: "well L s" and spent: "spent L token s"
  shows "isl (fst (refresh_token L q token s))"
proof (rule ccontr)
  assume "\<not> isl (fst (refresh_token L q token s))"
  then obtain tp s1 where "refresh_token L q token s = (Inr tp, s1)" by (cases "refresh_token L q token s", cases "fst (refresh_token L q token s)") auto
  from refresh_success [OF this] obtain c r where dec: "decode_token L (clock s) False token = Inr c"
    and row: "refresh_row L token (committed s) = Some r" by metis
  note r = refresh_row_facts [OF row]
  have "session_ok L (next_uuid s) r" using well r by (auto simp: well_def auth_state_def auth_good_def sessions_good_def)
  from refresh_claims [OF lib dec this] r obtain iat e where c: "c = refresh_claims_of L r iat e" by metis
  have "jwt_open L token = Some c" using dec by (auto simp: decode_token_def split: option.splits if_splits)
  then show False using spent r c by (auto simp: spent_def refresh_claims_of_def)
qed

lemma used_is_spent:
  assumes lib: "library_ok L" and well: "well L s" and run: "refresh_token L q token s = (Inr tp, s1)"
  shows "spent L token s1"
proof -
  from refresh_success [OF run] obtain c r where dec: "decode_token L (clock s) False token = Inr c"
    and row: "refresh_row L token (committed s) = Some r" and n: "next_uuid s1 = next_uuid s + 2"
    and rows: "login_sessions (committed s1) = update_where (\<lambda>x. ss_sid x = ss_sid r) (rotate L c (next_uuid s) (clock s)) (login_sessions (committed s))"
    by metis
  note r = refresh_row_facts [OF row]
  have good: "sessions_good L (next_uuid s) (login_sessions (committed s)) (login_sessions (committed s)) (next_uuid s)"
    using well by (simp add: well_def auth_state_def auth_good_def)
  then have ok: "session_ok L (next_uuid s) r" using r by (simp add: sessions_good_def)
  from refresh_claims [OF lib dec ok] r obtain iat e where c: "c = refresh_claims_of L r iat e" by metis
  have open_c: "jwt_open L token = Some c" using dec by (auto simp: decode_token_def split: option.splits if_splits)
  have jti: "cl_jti c = ss_refresh_jti r" "ss_refresh_jti r < next_uuid s" using c ok by (auto simp: refresh_claims_of_def session_ok_def)
  have "ss_refresh_jti x \<noteq> cl_jti c" if "x \<in> set (login_sessions (committed s1))" for x
  proof -
    have "\<exists>y \<in> set (login_sessions (committed s)). x = y \<and> ss_sid y \<noteq> ss_sid r \<or> ss_refresh_jti x = next_uuid s"
      using that unfolding rows by (auto simp: set_update_where rotate_def)
    moreover have "y = r" if "y \<in> set (login_sessions (committed s))" "ss_refresh_jti y = ss_refresh_jti r" for y
      using good r that by (metis distinct_map inj_onD sessions_good_def)
    ultimately show ?thesis using jti by auto
  qed
  then show ?thesis using open_c jti n by (auto simp: spent_def)
qed

definition token_use :: "library \<Rightarrow> auth_request \<Rightarrow> auth_sess \<Rightarrow> string list" where
  "token_use L q s = (case q of Refresh h token \<Rightarrow> if isl (fst (refresh_token L h token s)) then [] else [token] | _ \<Rightarrow> [])"

lemma accepted_uses: "accepted L app qs s = uses_over (auth_step L app) (token_use L) qs s"
  by (induction qs arbitrary: s) (simp_all add: token_use_def)

lemma token_use_spent:
  assumes "library_ok L" "well L s" "token \<in> set (token_use L q s)" shows "spent L token (auth_step L app q s)"
proof -
  obtain h where q: "q = Refresh h token" and ok: "\<not> isl (fst (refresh_token L h token s))"
    using assms(3) by (auto simp: token_use_def split: auth_request.splits if_splits)
  then obtain tp s1 where run: "refresh_token L h token s = (Inr tp, s1)"
    by (cases "refresh_token L h token s", cases "fst (refresh_token L h token s)") auto
  then show ?thesis using used_is_spent [OF assms(1, 2) run] q by simp
qed

interpretation tokens: one_time "auth_step L app" "\<lambda>s. library_ok L \<and> well L s" "token_use L" "spent L" for L app
proof
  fix s q x assume ok: "library_ok L \<and> well L s"
  show "library_ok L \<and> well L (auth_step L app q s)" using ok well_step by blast
  show "distinct (token_use L q s)" by (simp add: token_use_def split: auth_request.split)
  show "spent L x s \<Longrightarrow> spent L x (auth_step L app q s)" using ok spent_stays by blast
  show "spent L x s \<Longrightarrow> x \<notin> set (token_use L q s)" using ok spent_refused by (auto simp: token_use_def split: auth_request.split)
  show "x \<in> set (token_use L q s) \<Longrightarrow> spent L x (auth_step L app q s)" using ok token_use_spent by blast
qed

text \<open>C26. A refresh token is accepted at most once: whatever is asked of the service in whatever order and from whatever state it reached, no token appears twice among the accepted ones, even after the flag of its first use has expired.\<close>

theorem refresh_token_used_once:
  assumes "library_ok L"
  shows "distinct (accepted L app reqs (auth_start t n))"
  unfolding accepted_uses using tokens.used_once assms start_well by blast

text \<open>C28. A revoked session stays revoked: once a session is revoked, in no sequence of later requests the refresh token it holds is accepted, and its row never comes back to life.\<close>

theorem revoked_session_stays_dead:
  assumes lib: "library_ok L" and s: "s = auth_all L app before (auth_start t n)"
    and r: "r \<in> set (login_sessions (committed s))" "ss_revoked_at r \<noteq> None" and token: "ss_refresh_hash r = sha256 L token"
  shows "token \<notin> set (accepted L app later s)
    \<and> (\<exists>x \<in> set (login_sessions (committed (auth_all L app later s))). ss_sid x = ss_sid r \<and> ss_revoked_at x \<noteq> None)"
proof
  have well: "well L s" unfolding s by (rule reached_well [OF lib])
  then have good: "sessions_good L (next_uuid s) (login_sessions (committed s)) (login_sessions (committed s)) (next_uuid s)"
    by (simp add: well_def auth_state_def auth_good_def)
  then obtain iat e where hash: "ss_refresh_hash r = sha256 L (jwt_encode L (refresh_claims_of L r iat e))" and jti: "ss_refresh_jti r < next_uuid s"
    using r(1) by (auto simp: sessions_good_def session_ok_def)
  have "sha256 L token = sha256 L (jwt_encode L (refresh_claims_of L r iat e))" using hash token by simp
  then have "token = jwt_encode L (refresh_claims_of L r iat e)" using lib unfolding library_ok_def by blast
  then have "jwt_open L token = Some (refresh_claims_of L r iat e)" using lib by (simp add: library_ok_def)
  moreover have "x = r" if "x \<in> set (login_sessions (committed s))" "ss_refresh_jti x = ss_refresh_jti r" for x
    using good r that by (metis distinct_map inj_onD sessions_good_def)
  ultimately have "spent L token s" using jti r(2) by (auto simp: spent_def refresh_claims_of_def)
  then show "token \<notin> set (accepted L app later s)" unfolding accepted_uses using tokens.gone_unused lib well by blast
  have "grows session_step (login_sessions (committed s)) (login_sessions (committed (auth_all L app later s)))"
    using all_good [OF lib well] by (simp add: auth_good_def sessions_good_def)
  then obtain x where "x \<in> set (login_sessions (committed (auth_all L app later s)))" "session_step r x" by (rule grows_member [OF r(1)])
  then show "\<exists>x \<in> set (login_sessions (committed (auth_all L app later s))). ss_sid x = ss_sid r \<and> ss_revoked_at x \<noteq> None"
    using r(2) by (auto simp: session_step_def)
qed

section \<open>Links\<close>

text \<open>What using a link by its token comes down to.\<close>

definition link_taken :: "library \<Rightarrow> string \<Rightarrow> auth_sess \<Rightarrow> auth_sess \<Rightarrow> bool" where
  "link_taken L tok s s1 \<longleftrightarrow> (\<exists>m \<in> set (magic_links (committed s)). ml_token_hash m = sha256 L tok \<and> ml_consumed_at m = None
     \<and> clock s \<le> ml_expires_at m \<and> magic_links (committed s1) = update_where (\<lambda>x. ml_token_hash x = ml_token_hash m)
         (\<lambda>x. x\<lparr>ml_consumed_at := Some (clock s)\<rparr>) (magic_links (committed s)))"

lemma consume_link_run [comp_simps]:
  "consume_link m now s = (Inr (), s\<lparr>work := (work s)\<lparr>magic_links := update_where (\<lambda>x. ml_token_hash x = ml_token_hash m)
     (\<lambda>x. x\<lparr>ml_consumed_at := Some now\<rparr>) (magic_links (work s))\<rparr>\<rparr>)"
  by (simp add: consume_link_def comp_simps)

lemma save_user_run [comp_simps]:
  "save_user i f s =
     (if list_ex (\<lambda>x. us_id x = i \<and> list_ex (\<lambda>y. us_id y \<noteq> i \<and> user_clash (f x) y) (users (work s))) (users (work s))
      then (Inl IntegrityError, s)
      else (Inr (), s\<lparr>work := (work s)\<lparr>users := update_where (\<lambda>x. us_id x = i) f (users (work s))\<rparr>\<rparr>))"
  by (simp add: save_user_def comp_simps)

lemma validate_password_run:
  "validate_password L pw addr s = (x, s1) \<Longrightarrow> s1 = s"
  by (auto simp: validate_password_def comp_simps split: if_splits option.splits)

lemma verify_finish_taken:
  assumes "verify_finish L (Some tok) code s = (Inr (), s1)" and "tok \<noteq> []"
  shows "link_taken L tok s s1"
  using assms
  by (auto simp: verify_finish_def transaction_run comp_simps given_def named_link_def link_taken_def
      split: option.splits if_splits dest!: first_of_filter_Some)

lemma email_change_taken:
  assumes "email_change_finish L me (Some tok) code s = (Inr (), s1)" and "tok \<noteq> []"
  shows "link_taken L tok s s1"
  using assms
  by (auto simp: email_change_finish_def transaction_run comp_simps given_def named_link_def link_taken_def pending_def
      split: option.splits if_splits dest!: first_of_filter_Some)

lemma reset_finish_taken:
  assumes "reset_finish L salt tok pw s = (Inr (), s1)"
  shows "link_taken L tok s s1"
  using assms
  by (auto simp: reset_finish_def transaction_run comp_simps link_taken_def
      split: option.splits if_splits prod.splits sum.splits dest!: first_of_filter_Some validate_password_run)

definition spent_link :: "library \<Rightarrow> string \<Rightarrow> auth_sess \<Rightarrow> bool" where
  "spent_link L tok s \<longleftrightarrow> (\<exists>m \<in> set (magic_links (committed s)). ml_token_hash m = sha256 L tok
     \<and> (ml_consumed_at m \<noteq> None \<or> ml_expires_at m < clock s))"


lemma atomic_clock: "atomic h \<Longrightarrow> clock (snd (h s)) = clock s"
  by (simp add: atomic_def)

lemma step_clock: "clock s \<le> clock (auth_step L app q s)"
  by (cases q) (simp_all add: atomic_clock [OF atomic_refresh] atomic_clock [OF atomic_routes(1)] atomic_clock [OF atomic_routes(2)]
      atomic_clock [OF atomic_routes(3)] atomic_clock [OF atomic_routes(4)] atomic_clock [OF atomic_routes(5)]
      atomic_clock [OF atomic_routes(6)] atomic_clock [OF atomic_routes(7)] atomic_clock [OF atomic_routes(8)]
      atomic_clock [OF atomic_routes(9)] atomic_clock [OF atomic_routes(10)] atomic_clock [OF atomic_routes(11)]
      atomic_clock [OF atomic_routes(12)] atomic_clock [OF atomic_routes(13)] atomic_clock [OF atomic_routes(14)]
      atomic_clock [OF atomic_routes(15)] atomic_clock [OF atomic_routes(16)] atomic_clock [OF atomic_routes(17)]
      atomic_clock [OF atomic_routes(18)] atomic_clock [OF atomic_routes(19)] atomic_clock [OF atomic_routes(20)])

lemma link_grows_spent:
  assumes "grows link_step ms ms1" "t \<le> t1"
    and "\<exists>m \<in> set ms. ml_token_hash m = h \<and> (ml_consumed_at m \<noteq> None \<or> ml_expires_at m < t)"
  shows "\<exists>m \<in> set ms1. ml_token_hash m = h \<and> (ml_consumed_at m \<noteq> None \<or> ml_expires_at m < t1)"
proof -
  obtain m where m: "m \<in> set ms" "ml_token_hash m = h" "ml_consumed_at m \<noteq> None \<or> ml_expires_at m < t" using assms(3) by blast
  obtain x where x: "x \<in> set ms1" "link_step m x" by (rule grows_member [OF m(1) assms(1)])
  then have "x\<lparr>ml_consumed_at := None\<rparr> = m\<lparr>ml_consumed_at := None\<rparr>" by (simp add: link_step_def)
  then have same: "ml_token_hash x = ml_token_hash m" "ml_expires_at x = ml_expires_at m" by (cases x, cases m, simp)+
  have "ml_consumed_at m \<noteq> None \<Longrightarrow> ml_consumed_at x \<noteq> None" using x by (simp add: link_step_def)
  with x m same assms(2) show ?thesis by force
qed

lemma spent_link_stays:
  assumes "library_ok L" "well L s" "spent_link L tok s"
  shows "spent_link L tok (auth_step L app q s)"
  unfolding spent_link_def
proof (rule link_grows_spent [OF _ step_clock])
  show "grows link_step (magic_links (committed s)) (magic_links (committed (auth_step L app q s)))"
    using step_good [OF assms(1, 2)] by (simp add: auth_good_def links_good_def)
qed (use assms(3) in \<open>simp add: spent_link_def\<close>)

lemma links_distinct: "well L s \<Longrightarrow> distinct (map ml_token_hash (magic_links (committed s)))"
  by (simp add: well_def auth_state_def auth_good_def links_good_def)

lemma spent_link_untaken:
  assumes "well L s" "spent_link L tok s" shows "\<not> link_taken L tok s s1"
proof
  assume "link_taken L tok s s1"
  then obtain m where m: "m \<in> set (magic_links (committed s))" "ml_token_hash m = sha256 L tok" "ml_consumed_at m = None" "clock s \<le> ml_expires_at m"
    by (auto simp: link_taken_def)
  obtain x where x: "x \<in> set (magic_links (committed s))" "ml_token_hash x = sha256 L tok" "ml_consumed_at x \<noteq> None \<or> ml_expires_at x < clock s"
    using assms(2) by (auto simp: spent_link_def)
  have "x = m" using links_distinct [OF assms(1)] m x by (metis distinct_map inj_onD)
  with m x show False by auto
qed

lemma taken_is_spent:
  assumes "link_taken L tok s s1" shows "spent_link L tok s1"
proof -
  obtain m where m: "m \<in> set (magic_links (committed s))" "ml_token_hash m = sha256 L tok"
    and rows: "magic_links (committed s1) = update_where (\<lambda>x. ml_token_hash x = ml_token_hash m)
       (\<lambda>x. x\<lparr>ml_consumed_at := Some (clock s)\<rparr>) (magic_links (committed s))"
    using assms by (auto simp: link_taken_def)
  have "m\<lparr>ml_consumed_at := Some (clock s)\<rparr> \<in> set (magic_links (committed s1))"
    unfolding rows using m(1) by (simp add: set_update_where)
  then show ?thesis unfolding spent_link_def using m(2) by (intro bexI) auto
qed

text \<open>The token a request uses a link by, if it succeeds.\<close>

definition link_use :: "library \<Rightarrow> auth_request \<Rightarrow> auth_sess \<Rightarrow> string list" where
  "link_use L q s = (case q of
     Verify_Finish (Some tok) code \<Rightarrow> if tok = [] \<or> isl (fst (verify_finish L (Some tok) code s)) then [] else [tok]
   | Reset_Finish salt tok pw \<Rightarrow> if isl (fst (reset_finish L salt tok pw s)) then [] else [tok]
   | Email_Change_Finish me (Some tok) code \<Rightarrow> if tok = [] \<or> isl (fst (email_change_finish L me (Some tok) code s)) then [] else [tok]
   | _ \<Rightarrow> [])"

lemma used_links_uses: "used_links L app qs s = uses_over (auth_step L app) (link_use L) qs s"
  by (induction qs arbitrary: s) (simp_all add: link_use_def)

lemma link_use_one: "distinct (link_use L q s)"
  by (auto simp: link_use_def split: auth_request.split option.split)

lemma not_isl_unit: "\<not> isl (fst p) \<Longrightarrow> p = (Inr (), snd (p :: (exn + unit) \<times> auth_sess))"
  by (cases p; cases "fst p") auto

lemma link_use_taken:
  assumes "tok \<in> set (link_use L q s)" shows "link_taken L tok s (auth_step L app q s)"
proof (cases q)
  case (Verify_Finish t code)
  with assms have "t = Some tok" "tok \<noteq> []" "\<not> isl (fst (verify_finish L (Some tok) code s))"
    by (auto simp: link_use_def split: option.splits if_splits)
  with Verify_Finish show ?thesis using verify_finish_taken [OF not_isl_unit] by simp
next
  case (Reset_Finish salt t pw)
  with assms have "t = tok" "\<not> isl (fst (reset_finish L salt tok pw s))" by (auto simp: link_use_def split: if_splits)
  with Reset_Finish show ?thesis using reset_finish_taken [OF not_isl_unit] by simp
next
  case (Email_Change_Finish me t code)
  with assms have "t = Some tok" "tok \<noteq> []" "\<not> isl (fst (email_change_finish L me (Some tok) code s))"
    by (auto simp: link_use_def split: option.splits if_splits)
  with Email_Change_Finish show ?thesis using email_change_taken [OF not_isl_unit] by simp
qed (use assms in \<open>simp_all add: link_use_def\<close>)

interpretation mailed: one_time "auth_step L app" "\<lambda>s. library_ok L \<and> well L s" "link_use L" "spent_link L" for L app
proof
  fix s q x assume ok: "library_ok L \<and> well L s"
  show "library_ok L \<and> well L (auth_step L app q s)" using ok well_step by blast
  show "distinct (link_use L q s)" by (rule link_use_one)
  show "spent_link L x s \<Longrightarrow> spent_link L x (auth_step L app q s)" using ok spent_link_stays by blast
  show "spent_link L x s \<Longrightarrow> x \<notin> set (link_use L q s)" using ok link_use_taken spent_link_untaken by blast
  show "x \<in> set (link_use L q s) \<Longrightarrow> spent_link L x (auth_step L app q s)" using taken_is_spent link_use_taken by blast
qed

text \<open>C27. A link works once: in no sequence of requests is the token of a mailed link used with success twice, be it to verify an address, to reset a password or to change an address.\<close>

theorem link_works_once:
  assumes "library_ok L"
  shows "distinct (used_links L app reqs (auth_start t n))"
  unfolding used_links_uses using mailed.used_once assms start_well by blast

text \<open>A link that has run out never works again: from the moment its fifteen minutes are over, no later request uses its token with success.\<close>

theorem expired_link_is_dead:
  assumes lib: "library_ok L" and s: "s = auth_all L app before (auth_start t n)"
    and m: "m \<in> set (magic_links (committed s))" "ml_token_hash m = sha256 L tok" "ml_expires_at m < clock s"
  shows "tok \<notin> set (used_links L app later s)"
proof -
  have "well L s" unfolding s by (rule reached_well [OF lib])
  moreover have "spent_link L tok s" using m by (auto simp: spent_link_def)
  ultimately show ?thesis unfolding used_links_uses using mailed.gone_unused lib by blast
qed

text \<open>At most one link is open: at every moment a user has at most one link per purpose that is not consumed, however often he asks for a new one.\<close>

theorem one_open_link_per_purpose:
  assumes "library_ok L"
  shows "distinct (open_links (magic_links (committed (auth_all L app reqs (auth_start t n)))))"
  using reached_well [OF assms, of app reqs t n] by (simp add: well_def auth_state_def auth_good_def links_good_def)

text \<open>Two accounts never share an address, a number or a provider's identity.\<close>

theorem accounts_are_distinct:
  assumes "library_ok L"
  shows "let db = committed (auth_all L app reqs (auth_start t n)) in
     distinct (map us_id (users db)) \<and> distinct (present (map us_email (users db))) \<and> distinct (present (map us_phone (users db)))
     \<and> distinct (map (\<lambda>x. (id_provider x, id_subject x)) (identities db))"
  using reached_well [OF assms, of app reqs t n] by (simp add: well_def auth_state_def auth_good_def users_good_def Let_def)

end
