(* ===== verification/Auth_Effects.thy ===== *)
theory Auth_Effects
  imports Auth_Claims
begin

text \<open>
  What single requests of auth-svc do and fail to do: the alarm on a replayed token, the login
  counter, one-time codes, resets and changes of number.
\<close>

section \<open>A stolen token\<close>

lemma check_answer_cong: "m k = m2 k \<Longrightarrow> fst (check_rate_limit m t k c r) = fst (check_rate_limit m2 t k c r)"
  by (simp add: check_rate_limit_def split: prod.split)

text \<open>What a refresh that the limiter let in answers, as a function of what it reads.\<close>

definition refresh_answer :: "library \<Rightarrow> string \<Rightarrow> datetime \<Rightarrow> uuid \<Rightarrow> (uuid \<Rightarrow> datetime option) \<Rightarrow> user list \<Rightarrow> login_session list \<Rightarrow> exn + token_pair" where
  "refresh_answer L token now n revoked us rs =
     fst (refresh_token L \<lparr>rq_forwarded = [], rq_host = None, rq_user_agent = []\<rparr> token
       \<lparr>committed = \<lparr>users = us, identities = [], login_sessions = rs, acceptances = [], magic_links = [], event_outbox = [],
            redis_db = empty_auth_redis\<lparr>revoked_jtis := revoked\<rparr>\<rparr>,
         work = empty_auth_db, outbox = [], clock = now, next_uuid = n\<rparr>)"

lemma refresh_reads:
  "fst (refresh_token L q token s) =
     (if fst (fst (check_rate_limit (buckets (redis_db (committed s))) (clock s) (''rl:refresh:ip:'' @ client_host q) 60 1))
      then refresh_answer L token (clock s) (next_uuid s) (revoked_jtis (redis_db (committed s))) (users (committed s)) (login_sessions (committed s))
      else Inl (RateLimitError 60))"
proof -
  let ?q = "\<lparr>rq_forwarded = [], rq_host = None, rq_user_agent = []\<rparr>"
  obtain b m where free: "check_rate_limit Map.empty (clock s) (''rl:refresh:ip:'' @ client_host ?q) 60 1 = ((True, b), m)"
    using check_fresh [of Map.empty "''rl:refresh:ip:'' @ client_host ?q" 60 "clock s" 1]
    by (cases "check_rate_limit Map.empty (clock s) (''rl:refresh:ip:'' @ client_host ?q) 60 1") auto
  obtain allowed rest m1 where lim: "check_rate_limit (buckets (redis_db (committed s))) (clock s) (''rl:refresh:ip:'' @ client_host q) 60 1 = ((allowed, rest), m1)"
    by (metis surj_pair)
  show ?thesis
    using free lim
    by (auto simp: refresh_answer_def refresh_token_def transaction_run comp_simps decode_refresh_token_def empty_auth_redis_def
        split: sum.splits token_fault.splits option.splits)
qed

lemma check_others: "check_rate_limit m t k c r = (a, m1) \<Longrightarrow> k2 \<noteq> k \<Longrightarrow> m1 k2 = m k2"
  using check_other_key [of k2 k m t c r] by simp

lemma replay_run:
  assumes dec: "decode_token L (clock s) False old = Inr c" and used: "key_exists (clock s) (revoked_jtis (redis_db (committed s)) (cl_jti c))"
    and run: "refresh_token L q old s = (x, s1)"
  shows "isl x" "clock s1 = clock s" "next_uuid s1 = next_uuid s" "users (committed s1) = users (committed s)"
    "login_sessions (committed s1) = login_sessions (committed s)" "revoked_jtis (redis_db (committed s1)) = revoked_jtis (redis_db (committed s))"
    "k \<noteq> ''rl:refresh:ip:'' @ client_host q \<Longrightarrow> buckets (redis_db (committed s1)) k = buckets (redis_db (committed s)) k"
proof -
  obtain allowed rest m1 where lim: "check_rate_limit (buckets (redis_db (committed s))) (clock s) (''rl:refresh:ip:'' @ client_host q) 60 1 = ((allowed, rest), m1)"
    by (metis surj_pair)
  have others: "k \<noteq> ''rl:refresh:ip:'' @ client_host q \<Longrightarrow> m1 k = buckets (redis_db (committed s)) k" by (rule check_others [OF lim])
  note facts = run [unfolded refresh_token_def transaction_run] lim dec used
  show "isl x" "clock s1 = clock s" "next_uuid s1 = next_uuid s" "users (committed s1) = users (committed s)"
    "login_sessions (committed s1) = login_sessions (committed s)" "revoked_jtis (redis_db (committed s1)) = revoked_jtis (redis_db (committed s))"
    "k \<noteq> ''rl:refresh:ip:'' @ client_host q \<Longrightarrow> buckets (redis_db (committed s1)) k = buckets (redis_db (committed s)) k"
    using facts others by (auto simp: comp_simps decode_refresh_token_def split: if_splits)
qed

text \<open>The revocation after a stolen token was replayed is undone: presenting a token that was used before fails and changes no session, and every token then fares as it would have without the alarm, the thief's own included, as long as it comes from another address.\<close>

theorem replay_revokes_nothing:
  assumes "decode_token L (clock s) False old = Inr c" and "key_exists (clock s) (revoked_jtis (redis_db (committed s)) (cl_jti c))"
    and other: "client_host q2 \<noteq> client_host q"
  shows "case refresh_token L q old s of (x, s1) \<Rightarrow> isl x \<and> login_sessions (committed s1) = login_sessions (committed s)
    \<and> fst (refresh_token L q2 token s1) = fst (refresh_token L q2 token s)"
proof -
  obtain x s1 where run: "refresh_token L q old s = (x, s1)" by fastforce
  note same = replay_run [OF assms(1, 2) run]
  have "fst (check_rate_limit (buckets (redis_db (committed s1))) (clock s) (''rl:refresh:ip:'' @ client_host q2) 60 1)
      = fst (check_rate_limit (buckets (redis_db (committed s))) (clock s) (''rl:refresh:ip:'' @ client_host q2) 60 1)"
    by (rule check_answer_cong, rule same(7)) (use other in simp)
  then show ?thesis unfolding run prod.case refresh_reads [of L q2] using same(1-6) by simp
qed

section \<open>Failed logins\<close>

definition failed_answer :: "nat \<Rightarrow> exn" where
  "failed_answer k = (if 10 \<le> k then locked_error 15 else if 5 \<le> k then RateLimitError (min (2 ^ (k - 5)) 60) else invalid_login)"

text \<open>Attempts to log in to one account, each with its time, its request and its password.\<close>

fun login_series :: "library \<Rightarrow> string \<Rightarrow> (datetime \<times> request_head \<times> string) list \<Rightarrow> auth_sess \<Rightarrow> (exn + token_pair) list" where
  "login_series L email [] s = []"
| "login_series L email ((t, q, pw) # rest) s =
     (case login_email L [] q email pw (s\<lparr>clock := t\<rparr>) of (x, s1) \<Rightarrow> x # login_series L email rest s1)"

text \<open>The password opens no account under the address.\<close>

definition wrong_password :: "library \<Rightarrow> string \<Rightarrow> string \<Rightarrow> auth_db \<Rightarrow> bool" where
  "wrong_password L email pw db \<longleftrightarrow> (case first_of (filter (\<lambda>u. us_email u = Some email) (users db)) of None \<Rightarrow> True
     | Some u \<Rightarrow> (case us_password_hash u of None \<Rightarrow> True | Some h \<Rightarrow> us_is_active u \<and> \<not> argon2_verify L h pw))"

text \<open>A client with no failures, and one whose last of \<open>k\<close> failures was at \<open>t\<close>.\<close>

definition unheard :: "string \<Rightarrow> string \<Rightarrow> auth_redis \<Rightarrow> bool" where
  "unheard email ip r \<longleftrightarrow> login_attempts r (login_key email ip) = None \<and> login_locks r (login_key email ip) = None
     \<and> buckets r (''rl:login:ip:'' @ ip) = None"

definition failed_so_far :: "string \<Rightarrow> string \<Rightarrow> nat \<Rightarrow> datetime \<Rightarrow> auth_redis \<Rightarrow> bool" where
  "failed_so_far email ip k t r \<longleftrightarrow> (if k = 0 then unheard email ip r
     else login_attempts r (login_key email ip) = Some (k, t + seconds 900)
       \<and> (\<exists>b. buckets r (''rl:login:ip:'' @ ip) = Some b \<and> bucket_ok 10 (10 / 60) t b \<and> 10 - int k \<le> bk_tokens b)
       \<and> login_locks r (login_key email ip) = (if 10 \<le> k then Some (t + seconds 900) else None))"

lemma lua_keeps_tokens:
  assumes "bucket_ok c r t0 b" "t0 \<le> t" "1 \<le> c" "0 < r" "1 \<le> j" "j \<le> bk_tokens b" "j \<le> c"
  shows "fst (fst (token_bucket_lua c r t (live_bucket t (Some b))))"
    "j - 1 \<le> bk_tokens (snd (token_bucket_lua c r t (live_bucket t (Some b))))"
    "bucket_ok c r t (snd (token_bucket_lua c r t (live_bucket t (Some b))))"
proof -
  have live: "token_bucket_lua c r t (live_bucket t (Some b)) = token_bucket_lua c r t (Some b)"
    by (rule expiry_step) (use assms in auto)
  have "bk_last_refill b \<le> unix_seconds t" using assms(1, 2) unix_seconds_mono by (force simp: bucket_ok_def)
  then have "0 \<le> of_int (unix_seconds t - bk_last_refill b) * r" using assms(4) by simp
  then have "0 \<le> \<lfloor>of_int (unix_seconds t - bk_last_refill b) * r\<rfloor>" by simp
  then have "j \<le> bk_tokens b + \<lfloor>of_int (unix_seconds t - bk_last_refill b) * r\<rfloor>" using assms(6) by linarith
  then have "j \<le> refilled_tokens c r (unix_seconds t) (Some b)"
    using assms(7) by (simp only: refilled_tokens_def Let_def option.case min.bounded_iff)
  then show "fst (fst (token_bucket_lua c r t (live_bucket t (Some b))))"
    "j - 1 \<le> bk_tokens (snd (token_bucket_lua c r t (live_bucket t (Some b))))"
    using assms(5) unfolding live by (auto simp: token_bucket_lua_def Let_def)
  show "bucket_ok c r t (snd (token_bucket_lua c r t (live_bucket t (Some b))))"
    unfolding live by (rule lua_leaves_ok) (use assms in auto)
qed

lemma lua_fresh:
  assumes "1 \<le> c" "0 < r"
  shows "fst (fst (token_bucket_lua c r t (live_bucket t None)))" "bk_tokens (snd (token_bucket_lua c r t (live_bucket t None))) = c - 1"
    "bucket_ok c r t (snd (token_bucket_lua c r t (live_bucket t None)))"
  using assms lua_leaves_ok [of None c r t] by (simp_all add: live_bucket_def token_bucket_lua_def refilled_tokens_def Let_def)

lemma failed_bucket:
  assumes "failed_so_far email ip k t0 r" "k < 10" "k = 0 \<or> t0 \<le> t"
  obtains rest b where "check_rate_limit (buckets r) t (''rl:login:ip:'' @ ip) 10 (10 / 60) = ((True, rest), (buckets r)(''rl:login:ip:'' @ ip \<mapsto> b))"
    and "bucket_ok 10 (10 / 60) t b" and "10 - int (Suc k) \<le> bk_tokens b"
proof -
  let ?key = "''rl:login:ip:'' @ ip"
  let ?X = "token_bucket_lua 10 (10 / 60) t (live_bucket t (buckets r ?key))"
  have "fst (fst ?X) \<and> 10 - int (Suc k) \<le> bk_tokens (snd ?X) \<and> bucket_ok 10 (10 / 60) t (snd ?X)"
  proof (cases "k = 0")
    case True
    then have "buckets r ?key = None" using assms(1) by (simp add: failed_so_far_def unheard_def)
    then show ?thesis using lua_fresh [of 10 "10 / 60" t] True by simp
  next
    case False
    then obtain b where b: "buckets r ?key = Some b" "bucket_ok 10 (10 / 60) t0 b" "10 - int k \<le> bk_tokens b"
      using assms(1) by (auto simp: failed_so_far_def)
    have "t0 \<le> t" using False assms(3) by simp
    then show ?thesis using lua_keeps_tokens [of 10 "10 / 60" t0 b t "10 - int k"] b assms(2) by simp
  qed
  moreover have "check_rate_limit (buckets r) t ?key 10 (10 / 60) = (fst ?X, (buckets r)(?key \<mapsto> snd ?X))"
    by (simp only: check_rate_limit_def split_beta)
  moreover have "fst (fst ?X) \<Longrightarrow> fst ?X = (True, snd (fst ?X))" by (cases "fst ?X") simp
  ultimately show ?thesis using that [of "snd (fst ?X)" "snd ?X"] by simp
qed

lemma refuse_login_run:
  assumes "count_failure (login_key email ip) (clock s) (redis_db (work s)) = (n, r)"
  shows "refuse_login email ip s = (Inl (failed_answer n),
    s\<lparr>work := (work s)\<lparr>redis_db := if 10 \<le> n then r\<lparr>login_locks := (login_locks r)(login_key email ip \<mapsto> clock s + seconds 900)\<rparr> else r\<rparr>\<rparr>)"
  using assms by (simp add: refuse_login_def record_failed_login_def lock_login_def comp_simps failed_answer_def max_attempts_def
      lockout_seconds_def split: if_splits)

lemma wrong_login_run:
  assumes lim: "check_rate_limit (buckets (redis_db (committed s))) (clock s) (''rl:login:ip:'' @ client_ip q) 10 (10 / 60) = ((True, rest), m)"
    and unlocked: "login_locks (redis_db (committed s)) (login_key email (client_ip q)) = None"
    and wrong: "wrong_password L email pw (committed s)"
    and count: "count_failure (login_key email (client_ip q)) (clock s) ((redis_db (committed s))\<lparr>buckets := m\<rparr>) = (n, r)"
  shows "\<exists>s1. login_email L salt q email pw s = (Inl (failed_answer n), s1) \<and> users (committed s1) = users (committed s)
    \<and> redis_db (committed s1) =
      (if 10 \<le> n then r\<lparr>login_locks := (login_locks r)(login_key email (client_ip q) \<mapsto> clock s + seconds 900)\<rparr> else r)"
  using lim unlocked wrong count
  by (auto simp: login_email_def Let_def transaction_run comp_simps check_login_locked_def wrong_password_def refuse_login_run [where n = n and r = r]
      split: option.splits)

lemma failed_login_step:
  assumes so_far: "failed_so_far email ip k t0 (redis_db (committed s))" and k: "k < 10"
    and t: "k = 0 \<or> (t0 \<le> t \<and> t < t0 + seconds 900)" and q: "client_ip q = ip" and wrong: "wrong_password L email pw (committed s)"
  obtains s1 where "login_email L salt q email pw (s\<lparr>clock := t\<rparr>) = (Inl (failed_answer (Suc k)), s1)"
    and "failed_so_far email ip (Suc k) t (redis_db (committed s1))" and "users (committed s1) = users (committed s)"
    and "\<And>x. x \<noteq> ip \<Longrightarrow> unheard email x (redis_db (committed s)) \<Longrightarrow> unheard email x (redis_db (committed s1))"
proof -
  let ?r = "redis_db (committed s)" and ?s = "s\<lparr>clock := t\<rparr>" and ?key = "login_key email ip"
  obtain rest b where lim: "check_rate_limit (buckets ?r) t (''rl:login:ip:'' @ ip) 10 (10 / 60)
      = ((True, rest), (buckets ?r)(''rl:login:ip:'' @ ip \<mapsto> b))"
    and b: "bucket_ok 10 (10 / 60) t b" "10 - int (Suc k) \<le> bk_tokens b"
    using failed_bucket [OF so_far k, of t] t by blast
  let ?r1 = "?r\<lparr>buckets := (buckets ?r)(''rl:login:ip:'' @ ip \<mapsto> b)\<rparr>"
  let ?r2 = "?r1\<lparr>login_attempts := (login_attempts ?r)(?key \<mapsto> (Suc k, t + seconds 900))\<rparr>"
  have unlocked: "login_locks ?r ?key = None" using so_far k by (auto simp: failed_so_far_def unheard_def split: if_splits)
  have "(case live_value t (login_attempts ?r ?key) of None \<Rightarrow> 0 | Some m \<Rightarrow> m) = k"
    using so_far t by (cases "k = 0") (auto simp: failed_so_far_def unheard_def live_value_def)
  then have count: "count_failure ?key t ?r1 = (Suc k, ?r2)" by (simp add: count_failure_def window_seconds_def)
  obtain s1 where s1: "login_email L salt q email pw ?s = (Inl (failed_answer (Suc k)), s1)" "users (committed s1) = users (committed s)"
    "redis_db (committed s1) = (if 10 \<le> Suc k then ?r2\<lparr>login_locks := (login_locks ?r2)(?key \<mapsto> t + seconds 900)\<rparr> else ?r2)"
    using wrong_login_run [of ?s q rest "(buckets ?r)(''rl:login:ip:'' @ ip \<mapsto> b)" email L pw "Suc k" ?r2 salt] lim unlocked wrong count q
    by auto
  have "failed_so_far email ip (Suc k) t (redis_db (committed s1))"
    unfolding s1(3) using b so_far k unlocked by (auto simp: failed_so_far_def)
  moreover have "unheard email x (redis_db (committed s1))" if "x \<noteq> ip" "unheard email x ?r" for x
    using that unfolding s1(3) by (auto simp: unheard_def login_key_def)
  ultimately show ?thesis using that s1(1, 2) by blast
qed

text \<open>Attempts each less than fifteen minutes after the one before.\<close>

fun soon_after :: "datetime \<Rightarrow> (datetime \<times> request_head \<times> string) list \<Rightarrow> bool" where
  "soon_after t0 [] \<longleftrightarrow> True"
| "soon_after t0 ((t, q, pw) # ts) \<longleftrightarrow> t0 \<le> t \<and> t < t0 + seconds 900 \<and> soon_after t ts"

definition wrong_tries :: "library \<Rightarrow> string \<Rightarrow> auth_db \<Rightarrow> (datetime \<times> request_head \<times> string) list \<Rightarrow> bool" where
  "wrong_tries L email db ts \<longleftrightarrow> (\<forall>(t, q, pw) \<in> set ts. wrong_password L email pw db)"

lemma wrong_password_cong: "users db = users db2 \<Longrightarrow> wrong_password L email pw db = wrong_password L email pw db2"
  by (simp add: wrong_password_def)

lemma wrong_tries_cong: "users db = users db2 \<Longrightarrow> wrong_tries L email db ts = wrong_tries L email db2 ts"
  by (simp add: wrong_tries_def wrong_password_cong [of db db2])

lemma locked_login:
  assumes "failed_so_far email ip 10 t0 (redis_db (committed s))" "t < t0 + seconds 900" "client_ip q = ip"
  shows "isl (fst (login_email L [] q email pw (s\<lparr>clock := t\<rparr>)))"
  using assms by (auto simp: failed_so_far_def login_email_def Let_def transaction_run comp_simps check_login_locked_def
      split: prod.splits)

lemma failing_series:
  assumes "failed_so_far email ip k t0 (redis_db (committed s))" "k + length ts = 10" "soon_after t0 (ts @ [(t, q, pw)])"
    "wrong_tries L email (committed s) ts" "\<forall>(t, q, pw) \<in> set ts. client_ip q = ip" "client_ip q = ip"
  shows "\<exists>e. login_series L email (ts @ [(t, q, pw)]) s = map (\<lambda>i. Inl (failed_answer i)) [Suc k..<11] @ [Inl e]"
  using assms(1-5)
proof (induction ts arbitrary: k t0 s)
  case Nil
  then have "isl (fst (login_email L [] q email pw (s\<lparr>clock := t\<rparr>)))" using locked_login assms(6) by simp
  then show ?case using Nil by (auto simp: isl_def split: prod.splits)
next
  case (Cons x ts)
  obtain t1 q1 pw1 where x: "x = (t1, q1, pw1)" using prod_cases3 by blast
  have k: "k < 10" "k = 0 \<or> (t0 \<le> t1 \<and> t1 < t0 + seconds 900)" "client_ip q1 = ip" "wrong_password L email pw1 (committed s)"
    using Cons.prems x by (auto simp: wrong_tries_def)
  obtain s1 where s1: "login_email L [] q1 email pw1 (s\<lparr>clock := t1\<rparr>) = (Inl (failed_answer (Suc k)), s1)"
    "failed_so_far email ip (Suc k) t1 (redis_db (committed s1))" "users (committed s1) = users (committed s)"
    by (rule failed_login_step [OF Cons.prems(1) k]) blast
  have "wrong_tries L email (committed s1) ts"
    using Cons.prems(4) wrong_tries_cong [OF s1(3)] by (simp add: wrong_tries_def)
  then obtain e where e: "login_series L email (ts @ [(t, q, pw)]) s1 = map (\<lambda>i. Inl (failed_answer i)) [Suc (Suc k)..<11] @ [Inl e]"
    using Cons.IH [OF s1(2)] Cons.prems x by auto
  show ?case using s1(1) e k(1) by (simp add: x upt_rec [of "Suc k" 11])
qed

text \<open>C29. Ten failed logins lock an account for a client: the answers to ten wrong attempts of one client, each less than fifteen minutes after the one before, are four refusals, the delays of 1, 2, 4, 8 and 16 seconds, and the lock, and an eleventh attempt in the next fifteen minutes fails whatever its password.\<close>

theorem ten_failures_lock:
  assumes "unheard email ip (redis_db (committed s))" "length ts = 10" "soon_after t0 (ts @ [(t, q, pw)])"
    and "wrong_tries L email (committed s) ts" "\<forall>(t, q, pw) \<in> set ts. client_ip q = ip" "client_ip q = ip"
  shows "\<exists>e. login_series L email (ts @ [(t, q, pw)]) s =
    [Inl invalid_login, Inl invalid_login, Inl invalid_login, Inl invalid_login, Inl (RateLimitError 1), Inl (RateLimitError 2),
     Inl (RateLimitError 4), Inl (RateLimitError 8), Inl (RateLimitError 16), Inl (locked_error 15), Inl e]"
proof -
  obtain e where e: "login_series L email (ts @ [(t, q, pw)]) s = map (\<lambda>i. Inl (failed_answer i)) [1..<11] @ [Inl e]"
    using failing_series [of email ip 0 t0 s ts t q pw L] assms by (auto simp: failed_so_far_def)
  have "[1..<11] = [1, 2, 3, 4, 5, 6, 7, 8, 9, 10 :: nat]" by code_simp
  then show ?thesis unfolding e by (simp add: failed_answer_def)
qed

text \<open>The lock is per claimed address, and the address is what the first element of the client's own X-Forwarded-For says: wrong attempts that each name another address are all answered with the plain refusal, however many they are and however close together, with neither delay nor lock.\<close>

theorem forged_addresses_escape_the_lock:
  assumes "distinct (map (\<lambda>(t, q, pw). client_ip q) ts)" "wrong_tries L email (committed s) ts"
    and "\<forall>(t, q, pw) \<in> set ts. unheard email (client_ip q) (redis_db (committed s))"
  shows "login_series L email ts s = replicate (length ts) (Inl invalid_login)"
  using assms
proof (induction ts arbitrary: s)
  case Nil
  then show ?case by simp
next
  case (Cons x ts)
  obtain t1 q1 pw1 where x: "x = (t1, q1, pw1)" using prod_cases3 by blast
  have fresh: "unheard email (client_ip q1) (redis_db (committed s))" and wrong: "wrong_password L email pw1 (committed s)"
    using Cons.prems x by (auto simp: wrong_tries_def)
  obtain s1 where s1: "login_email L [] q1 email pw1 (s\<lparr>clock := t1\<rparr>) = (Inl (failed_answer (Suc 0)), s1)"
    "users (committed s1) = users (committed s)"
    "\<And>x. x \<noteq> client_ip q1 \<Longrightarrow> unheard email x (redis_db (committed s)) \<Longrightarrow> unheard email x (redis_db (committed s1))"
    by (rule failed_login_step [of email "client_ip q1" 0 0 s t1 q1 L pw1 "[]"]) (use fresh wrong in \<open>simp_all add: failed_so_far_def\<close>)
  have "wrong_tries L email (committed s1) ts"
    using Cons.prems(2) wrong_tries_cong [OF s1(2)] by (simp add: wrong_tries_def)
  moreover have "\<forall>(t, q, pw) \<in> set ts. unheard email (client_ip q) (redis_db (committed s1))"
    proof
    fix y assume "y \<in> set ts"
    obtain t2 q2 pw2 where y2: "y = (t2, q2, pw2)" using prod_cases3 by blast
    have "client_ip q2 \<in> set (map (\<lambda>(t, q, pw). client_ip q) ts)" using \<open>y \<in> set ts\<close> y2 by force
    moreover have "client_ip q1 \<notin> set (map (\<lambda>(t, q, pw). client_ip q) ts)" using Cons.prems(1) unfolding x by simp
    ultimately have "client_ip q2 \<noteq> client_ip q1" by metis
    moreover have "unheard email (client_ip q2) (redis_db (committed s))" using Cons.prems(3) \<open>y \<in> set ts\<close> y2 by force
    ultimately show "case y of (t, q, pw) \<Rightarrow> unheard email (client_ip q) (redis_db (committed s1))" using s1(3) y2 by simp
  qed
  ultimately have "login_series L email ts s1 = replicate (length ts) (Inl invalid_login)"
    using Cons.IH Cons.prems(1) x by simp
  then show ?case using s1(1) by (simp add: x failed_answer_def)
qed

section \<open>Codes, resets and numbers\<close>

text \<open>Wrong codes are not counted: a wrong code for a number whose code is live makes the handler fail on a missing client method and leaves the state exactly as it was, so that the limit of five attempts is never reached.\<close>

theorem wrong_code_is_not_counted:
  assumes "at_rest s" "phone_otps (redis_db (committed s)) phone = Some (o1, t)" "clock s < t"
    and "po_attempts o1 < otp_max_attempts" "po_code o1 \<noteq> code"
  shows "login_phone_verify L q phone code s = (Inl (AttributeError ''hincr''), s)"
  using assms
  by (simp add: login_phone_verify_def verify_phone_otp_def hincr_def transaction_run comp_simps live_value_def at_rest_def)

text \<open>A password reset ends no session: when it succeeds, every session row and every revocation flag is what it was.\<close>

theorem reset_ends_no_session:
  assumes "reset_finish L salt tok pw s = (Inr (), s1)"
  shows "login_sessions (committed s1) = login_sessions (committed s) \<and> redis_db (committed s1) = redis_db (committed s)"
  using assms
  by (auto simp: reset_finish_def transaction_run comp_simps
      split: option.splits if_splits prod.splits sum.splits dest!: validate_password_run)

text \<open>After a change of number the new number logs nobody in: a successful change leaves the identities alone, so a number that was nobody's identity before is refused at every login after it, whatever the code, while the old number still stands for the account.\<close>

theorem changed_number_cannot_log_in:
  assumes "phone_change_finish me new code s = (Inr (), s1)"
    and "\<forall>x \<in> set (identities (committed s)). id_provider x = By_Phone \<longrightarrow> id_subject x \<noteq> new"
  shows "identities (committed s1) = identities (committed s) \<and> isl (fst (login_phone_verify L q new code2 s1))"
proof
  have ids: "identities (committed s1) = identities (committed s)"
    using assms(1) by (auto simp: phone_change_finish_def verify_phone_otp_def delete_otp_def hincr_def transaction_run comp_simps
        split: option.splits if_splits prod.splits sum.splits)
  then show "identities (committed s1) = identities (committed s)" .
  have "filter (\<lambda>x. id_provider x = By_Phone \<and> id_subject x = new) (identities (committed s1)) = []"
    using assms(2) ids by (auto simp: filter_empty_conv)
  then show "isl (fst (login_phone_verify L q new code2 s1))"
    by (simp add: login_phone_verify_def identity_login_def verify_phone_otp_def delete_otp_def hincr_def transaction_run comp_simps
        first_of_def split: option.splits prod.splits sum.splits)
qed

text \<open>A request that fails changes no table: whichever handler raises, the database is what it was before the request, apart from what Redis keeps.\<close>

theorem failed_requests_change_no_table:
  "atomic (refresh_token L q token) \<and> atomic (signup_email L app d q email pw v) \<and> atomic (signup_oauth L q p c v)
    \<and> atomic (signup_phone_start k q phone) \<and> atomic (signup_phone_verify L q phone code)
    \<and> atomic (login_email L salt q email pw) \<and> atomic (login_oauth L q p c)
    \<and> atomic (login_phone_start k q phone) \<and> atomic (login_phone_verify L q phone code)
    \<and> atomic (logout L token) \<and> atomic (logout_all me) \<and> atomic (list_sessions me)
    \<and> atomic (revoke_session me sid) \<and> atomic (verify_start L app d email) \<and> atomic (verify_finish L tok code2)
    \<and> atomic (reset_start L app d email) \<and> atomic (reset_finish L salt tk pw)
    \<and> atomic (email_change_start L app d me email) \<and> atomic (email_change_finish L me tok code2)
    \<and> atomic (phone_change_start k q me phone) \<and> atomic (phone_change_finish me phone code)"
  by (intro conjI atomic_routes atomic_refresh)

end
