(* ===== verification/Auth_Demo.thy ===== *)
theory Auth_Demo
  imports Auth_Effects
begin

text \<open>
  A concrete library for auth-svc, and its theorems at concrete requests.
\<close>

section \<open>A concrete library\<close>

text \<open>
  SHA-256 as the identity, argon2 as the password itself, and a token as the binary digits of its
  claims: enough to run the handlers on concrete requests.
\<close>

fun digits2 :: "nat \<Rightarrow> string" where
  "digits2 n = (if n = 0 then [] else (if n mod 2 = 1 then CHR ''1'' else CHR ''0'') # digits2 (n div 2))"

declare digits2.simps [simp del]

fun number2 :: "string \<Rightarrow> nat" where
  "number2 [] = 0"
| "number2 (c # cs) = (if c = CHR ''1'' then 1 else 0) + 2 * number2 cs"

lemma number2_digits2: "number2 (digits2 n) = n"
proof (induction n rule: digits2.induct)
  case (1 n)
  show ?case
  proof (cases "n = 0")
    case True
    then show ?thesis by (simp add: digits2.simps [of 0])
  next
    case False
    then show ?thesis using 1 by (simp add: digits2.simps [of n]) presburger
  qed
qed

fun write_numbers :: "nat list \<Rightarrow> string" where
  "write_numbers [] = []"
| "write_numbers (n # ns) = digits2 n @ CHR '';'' # write_numbers ns"

fun read_numbers :: "string \<Rightarrow> string \<Rightarrow> nat list" where
  "read_numbers acc [] = []"
| "read_numbers acc (c # cs) = (if c = CHR '';'' then number2 (rev acc) # read_numbers [] cs else read_numbers (c # acc) cs)"

lemma digits2_plain: "c \<in> set (digits2 n) \<Longrightarrow> c \<noteq> CHR '';''"
proof (induction n rule: digits2.induct)
  case (1 n)
  then show ?case by (cases "n = 0") (auto simp: digits2.simps [of n] digits2.simps [of 0] split: if_splits)
qed

lemma read_digits: "\<forall>c \<in> set ds. c \<noteq> CHR '';'' \<Longrightarrow> read_numbers acc (ds @ CHR '';'' # cs) = number2 (rev acc @ ds) # read_numbers [] cs"
  by (induction ds arbitrary: acc) auto

lemma read_written: "read_numbers [] (write_numbers ns) = ns"
  by (induction ns) (simp_all add: read_digits digits2_plain number2_digits2)

definition nat_of_int :: "int \<Rightarrow> nat" where
  "nat_of_int i = (if 0 \<le> i then 2 * nat i else 2 * nat (- i) + 1)"

definition int_of_nat :: "nat \<Rightarrow> int" where
  "int_of_nat n = (if n mod 2 = 0 then int (n div 2) else - int (n div 2))"

lemma int_of_nat_of_int: "int_of_nat (nat_of_int i) = i"
  by (auto simp: int_of_nat_def nat_of_int_def)

fun claim_numbers :: "claims \<Rightarrow> nat list" where
  "claim_numbers (Access_Claims u j a b sid e v scopes) =
     [0, u, j, nat_of_int a, nat_of_int b, sid, of_bool e, of_bool v, length scopes] @ concat (map (\<lambda>x. length x # map of_char x) scopes)"
| "claim_numbers (Refresh_Claims u j a b sid) = [1, u, j, nat_of_int a, nat_of_int b, sid]"

fun read_texts :: "nat \<Rightarrow> nat list \<Rightarrow> string list" where
  "read_texts 0 ns = []"
| "read_texts (Suc k) [] = []"
| "read_texts (Suc k) (n # ns) = map char_of (take n ns) # read_texts k (drop n ns)"

lemma read_texts: "read_texts (length xs) (concat (map (\<lambda>x. length x # map of_char x) xs)) = xs"
  by (induction xs) (simp_all add: o_def)

fun claims_of :: "nat list \<Rightarrow> claims option" where
  "claims_of (k # u # j # a # b # sid # ns) =
     (if k = 1 then Some (Refresh_Claims u j (int_of_nat a) (int_of_nat b) sid)
      else case ns of e # v # n # ts \<Rightarrow> Some (Access_Claims u j (int_of_nat a) (int_of_nat b) sid (e = 1) (v = 1) (read_texts n ts))
        | _ \<Rightarrow> None)"
| "claims_of _ = None"

lemma claims_of_numbers: "claims_of (claim_numbers c) = Some c"
  by (cases c) (simp_all add: int_of_nat_of_int read_texts)

definition demo_library :: library where
  "demo_library = \<lparr>sha256 = (\<lambda>x. x), jwt_encode = (\<lambda>c. write_numbers (claim_numbers c)), jwt_open = (\<lambda>x. claims_of (read_numbers [] x)),
     argon2_hash = (\<lambda>salt p. p), argon2_verify = (\<lambda>h p. h = p), needs_rehash = (\<lambda>h. False), zxcvbn = (\<lambda>p. None)\<rparr>"

lemma demo_library_ok: "library_ok demo_library"
  by (auto simp: library_ok_def demo_library_def read_written claims_of_numbers)

definition demo_head :: request_head where
  "demo_head = \<lparr>rq_forwarded = [], rq_host = Some ''10.0.0.1'', rq_user_agent = []\<rparr>"

definition demo_versions :: legal_versions where
  "demo_versions = \<lparr>lv_tos = ''1'', lv_privacy = ''1'', lv_community = ''1''\<rparr>"

definition demo_claims :: oauth_claims where
  "demo_claims = \<lparr>oc_subject = ''g1'', oc_email = Some ''a@b.c'', oc_email_verified = JBool True\<rparr>"



lemma demo_library_sel [simp]:
  "sha256 demo_library x = x" "argon2_hash demo_library salt p = p" "argon2_verify demo_library h p \<longleftrightarrow> h = p"
  "needs_rehash demo_library h \<longleftrightarrow> False" "zxcvbn demo_library p = None" "jwt_open demo_library (jwt_encode demo_library c) = Some c"
  using demo_library_ok by (simp_all add: library_ok_def) (simp_all add: demo_library_def)

lemmas demo_simps = demo_head_def demo_claims_def demo_versions_def auth_start_def empty_auth_db_def empty_auth_redis_def
   transaction_run comp_simps Let_def check_rate_limit_def token_bucket_lua_def live_bucket_def refilled_tokens_def bucket_ttl_def
   client_ip_def client_host_def user_agent_of_def merge_target_def first_of_def new_user_def add_user_def add_identity_def
   record_legal_acceptances_def issue_token_pair_def new_session_def unix_seconds_def fits_def opt_str_def

section \<open>The theorems at concrete requests\<close>

definition demo_signup :: auth_request where
  "demo_signup = Signup_OAuth demo_head By_Google (Inr demo_claims) demo_versions"

definition demo_user :: user where
  "demo_user = new_user 0 (Some ''a@b.c'') (Some 0) None None None"

definition demo_session :: login_session where
  "demo_session = new_session demo_library 1 0 (jwt_encode demo_library (Refresh_Claims 0 2 0 refresh_ttl_seconds 1)) 2 ''10.0.0.1'' [] 0"

lemma demo_lower:
  "lower_char CHR ''a'' = CHR ''a''" "lower_char CHR ''@'' = CHR ''@''" "lower_char CHR ''b'' = CHR ''b''"
  "lower_char CHR ''.'' = CHR ''.''" "lower_char CHR ''c'' = CHR ''c''"
  "lower_char CHR ''o'' = CHR ''o''" "lower_char CHR ''r'' = CHR ''r''" "lower_char CHR ''e'' = CHR ''e''"
  "lower_char CHR ''t'' = CHR ''t''" "lower_char CHR ''h'' = CHR ''h''" "lower_char CHR ''s'' = CHR ''s''" "lower_char CHR '' '' = CHR '' ''"
  by code_simp+

lemma demo_signed_up:
  "\<exists>db. auth_step demo_library app demo_signup (auth_start 0 0) = \<lparr>committed = db, work = db, outbox = [], clock = 0, next_uuid = 4\<rparr>
     \<and> users db = [demo_user] \<and> login_sessions db = [demo_session] \<and> magic_links db = [] \<and> buckets (redis_db db) (''rl:pwd_reset:a@b.c'') = None"
  by (simp add: demo_signup_def signup_oauth_def demo_simps demo_user_def demo_session_def demo_lower truthy_def numeral_2_eq_2)

lemma refresh_token_used_once_witness:
  "distinct (accepted demo_library ''colab.app'' [demo_signup, Refresh demo_head ''t'', Refresh demo_head ''t''] (auth_start 0 0))"
  by (rule refresh_token_used_once [OF demo_library_ok])

definition demo_logged_out :: auth_sess where
  "demo_logged_out = auth_all demo_library ''colab.app'' [demo_signup, Logout_All \<lparr>au_user = 0, au_sid = 1\<rparr>] (auth_start 0 0)"

lemma demo_logged_out: "login_sessions (committed demo_logged_out) = [demo_session\<lparr>ss_revoked_at := Some 0\<rparr>]"
proof -
  obtain db where "auth_step demo_library ''colab.app'' demo_signup (auth_start 0 0) = \<lparr>committed = db, work = db, outbox = [], clock = 0, next_uuid = 4\<rparr>"
    "login_sessions db = [demo_session]" using demo_signed_up by blast
  then show ?thesis
    by (simp add: demo_logged_out_def auth_all_def logout_all_def active_of_def demo_session_def new_session_def transaction_run comp_simps)
qed

lemma revoked_session_stays_dead_witness:
  "ss_refresh_hash demo_session \<notin> set (accepted demo_library ''colab.app'' [Refresh demo_head (ss_refresh_hash demo_session)] demo_logged_out)"
  by (rule revoked_session_stays_dead [THEN conjunct1, OF demo_library_ok demo_logged_out_def, of "demo_session\<lparr>ss_revoked_at := Some 0\<rparr>"])
    (simp_all add: demo_logged_out)

lemma link_works_once_witness:
  "distinct (used_links demo_library ''colab.app'' [demo_signup, Verify_Finish (Some ''t'') None, Verify_Finish (Some ''t'') None] (auth_start 0 0))"
  by (rule link_works_once [OF demo_library_ok])

definition demo_draws :: draws where
  "demo_draws = \<lparr>dr_token = ''t'', dr_number = 1, dr_salt = []\<rparr>"

definition demo_waited :: auth_sess where
  "demo_waited = auth_all demo_library ''colab.app''
     [demo_signup, Reset_Start demo_draws ''a@b.c'', Pass_Time 901000000] (auth_start 0 0)"

lemma demo_waited:
  "\<exists>m \<in> set (magic_links (committed demo_waited)). ml_token_hash m = ''t'' \<and> ml_expires_at m < clock demo_waited"
proof -
  obtain db where "auth_step demo_library ''colab.app'' demo_signup (auth_start 0 0) = \<lparr>committed = db, work = db, outbox = [], clock = 0, next_uuid = 4\<rparr>"
    "users db = [demo_user]" "magic_links db = []" "buckets (redis_db db) (''rl:pwd_reset:a@b.c'') = None" using demo_signed_up by blast
  then show ?thesis
    by (simp add: demo_waited_def auth_all_def reset_start_def transaction_run comp_simps check_rate_limit_def token_bucket_lua_def
        live_bucket_def refilled_tokens_def unix_seconds_def demo_draws_def first_of_def demo_user_def new_user_def Let_def seconds_def
      send_password_reset_def send_mail_def add_link_def new_link_def magic_link_expiry_def magic_link_minutes_def consume_pending_def)
qed

lemma expired_link_is_dead_witness:
  "''t'' \<notin> set (used_links demo_library ''colab.app'' [Reset_Finish [] ''t'' ''correct horse''] demo_waited)"
proof -
  obtain m where "m \<in> set (magic_links (committed demo_waited))" "ml_token_hash m = sha256 demo_library ''t''" "ml_expires_at m < clock demo_waited"
    using demo_waited by auto
  then show ?thesis by (rule expired_link_is_dead [OF demo_library_ok demo_waited_def])
qed

lemma one_open_link_per_purpose_witness:
  "distinct (open_links (magic_links (committed (auth_all demo_library ''colab.app''
     [demo_signup, Reset_Start demo_draws ''a@b.c'', Reset_Start demo_draws ''a@b.c''] (auth_start 0 0)))))"
  by (rule one_open_link_per_purpose [OF demo_library_ok])

lemma accounts_are_distinct_witness:
  "distinct (map us_id (users (committed (auth_all demo_library ''colab.app'' [demo_signup, demo_signup] (auth_start 0 0)))))"
  using accounts_are_distinct [OF demo_library_ok, of "''colab.app''" "[demo_signup, demo_signup]" 0 0] by (simp only: Let_def)

definition demo_replay :: auth_sess where
  "demo_replay = (let db = empty_auth_db\<lparr>redis_db := empty_auth_redis\<lparr>revoked_jtis := [5 \<mapsto> 1000]\<rparr>\<rparr> in
     \<lparr>committed = db, work = db, outbox = [], clock = 0, next_uuid = 6\<rparr>)"

definition demo_old :: string where
  "demo_old = jwt_encode demo_library (Refresh_Claims 1 5 0 1000 2)"

lemma replay_revokes_nothing_witness:
  "case refresh_token demo_library demo_head demo_old demo_replay of (x, s1) \<Rightarrow>
     isl x \<and> login_sessions (committed s1) = login_sessions (committed demo_replay)
     \<and> fst (refresh_token demo_library (demo_head\<lparr>rq_host := Some ''10.0.0.2''\<rparr>) ''t'' s1)
       = fst (refresh_token demo_library (demo_head\<lparr>rq_host := Some ''10.0.0.2''\<rparr>) ''t'' demo_replay)"
  by (rule replay_revokes_nothing [where c = "Refresh_Claims 1 5 0 1000 2"])
    (simp_all add: demo_old_def demo_replay_def decode_token_def token_leeway_def seconds_def key_exists_def client_host_def demo_head_def Let_def)

lemma ten_failures_lock_witness:
  "\<exists>e. login_series demo_library ''a@b.c'' (replicate 10 (0, demo_head, ''x'') @ [(seconds 899, demo_head, ''y'')]) (auth_start 0 0) =
    [Inl invalid_login, Inl invalid_login, Inl invalid_login, Inl invalid_login, Inl (RateLimitError 1), Inl (RateLimitError 2),
     Inl (RateLimitError 4), Inl (RateLimitError 8), Inl (RateLimitError 16), Inl (locked_error 15), Inl e]"
  by (rule ten_failures_lock [where ip = "client_ip demo_head" and ?t0.0 = 0])
    (simp_all add: unheard_def auth_start_def empty_auth_db_def empty_auth_redis_def wrong_tries_def wrong_password_def first_of_def
      seconds_def eval_nat_numeral)

definition demo_from :: "string \<Rightarrow> request_head" where
  "demo_from a = \<lparr>rq_forwarded = a, rq_host = Some ''10.0.0.1'', rq_user_agent = []\<rparr>"

lemma forged_addresses_escape_the_lock_witness:
  "login_series demo_library ''a@b.c'' (map (\<lambda>a. (0, demo_from a, ''x'')) [''1'', ''2'', ''3'']) (auth_start 0 0)
     = [Inl invalid_login, Inl invalid_login, Inl invalid_login]"
proof -
  have ips: "map (\<lambda>a. client_ip (demo_from a)) [''1'', ''2'', ''3''] = [''1'', ''2'', ''3'']" by code_simp
  show ?thesis
    using forged_addresses_escape_the_lock [of "map (\<lambda>a. (0, demo_from a, ''x'')) [''1'', ''2'', ''3'']" demo_library "''a@b.c''" "auth_start 0 0"] ips
    by (simp add: unheard_def auth_start_def empty_auth_db_def empty_auth_redis_def wrong_tries_def wrong_password_def first_of_def
        del: login_series.simps)
qed

definition demo_state :: "user list \<Rightarrow> magic_link list \<Rightarrow> (string \<Rightarrow> (phone_otp \<times> datetime) option) \<Rightarrow> auth_sess" where
  "demo_state us ms otps = (let db = empty_auth_db\<lparr>users := us, magic_links := ms, redis_db := empty_auth_redis\<lparr>phone_otps := otps\<rparr>\<rparr> in
     \<lparr>committed = db, work = db, outbox = [], clock = 0, next_uuid = 6\<rparr>)"

definition demo_otps :: "string \<Rightarrow> (phone_otp \<times> datetime) option" where
  "demo_otps = [''+15550001111'' \<mapsto> (\<lparr>po_code = ''123456'', po_attempts = 0\<rparr>, seconds 300)]"

lemma wrong_code_is_not_counted_witness:
  "login_phone_verify demo_library demo_head ''+15550001111'' ''000000'' (demo_state [] [] demo_otps)
     = (Inl (AttributeError ''hincr''), demo_state [] [] demo_otps)"
  by (rule wrong_code_is_not_counted [where ?o1.0 = "\<lparr>po_code = ''123456'', po_attempts = 0\<rparr>" and t = "seconds 300"]) (simp_all add: demo_state_def demo_otps_def at_rest_def seconds_def otp_max_attempts_def Let_def)

lemma reset_ends_no_session_witness:
  "let s = demo_state [demo_user] [new_link demo_library demo_draws 0 0 Password_Reset None] Map.empty in
     login_sessions (committed (snd (reset_finish demo_library [] ''t'' ''correct horse'' s))) = login_sessions (committed s)"
proof -
  let ?s = "demo_state [demo_user] [new_link demo_library demo_draws 0 0 Password_Reset None] Map.empty"
  have "\<exists>s1. reset_finish demo_library [] ''t'' ''correct horse'' ?s = (Inr (), s1)"
    by (simp add: demo_state_def reset_finish_def transaction_run comp_simps new_link_def demo_draws_def magic_link_expiry_def
        magic_link_minutes_def seconds_def first_of_def demo_user_def new_user_def validate_password_def contains_def demo_lower Let_def)
  then obtain s1 where "reset_finish demo_library [] ''t'' ''correct horse'' ?s = (Inr (), s1)" by blast
  then show ?thesis using reset_ends_no_session [of demo_library "[]" "''t''" "''correct horse''" ?s s1] by (simp add: Let_def)
qed

lemma changed_number_cannot_log_in_witness:
  "let s1 = snd (phone_change_finish \<lparr>au_user = 0, au_sid = 1\<rparr> ''+15550001111'' ''123456'' (demo_state [demo_user] [] demo_otps)) in
     isl (fst (login_phone_verify demo_library demo_head ''+15550001111'' ''123456'' s1))"
proof -
  let ?s = "demo_state [demo_user] [] demo_otps" and ?me = "\<lparr>au_user = 0, au_sid = 1\<rparr>"
  have "\<exists>s1. phone_change_finish ?me ''+15550001111'' ''123456'' ?s = (Inr (), s1)"
    by (simp add: demo_state_def demo_otps_def phone_change_finish_def verify_phone_otp_def delete_otp_def otp_max_attempts_def transaction_run
        comp_simps live_value_def seconds_def first_of_def demo_user_def new_user_def Let_def)
  then obtain s1 where "phone_change_finish ?me ''+15550001111'' ''123456'' ?s = (Inr (), s1)" by blast
  then show ?thesis using changed_number_cannot_log_in [of ?me "''+15550001111''" "''123456''" ?s s1]
    by (simp add: Let_def demo_state_def empty_auth_db_def)
qed

end
