(* ===== verification/AI_Data.thy ===== *)
theory AI_Data
  imports Billing_Internal Colab_Text Complex_Main
begin

text \<open>
  The data of ai-orchestrator-svc: its tables (app/models.py), settings (app/config.py), what Redis
  holds, and billing-svc as a state of its own that its HTTP calls change. Scores are rationals. Whether the mapped
  classes can be configured at all is a field of the state, and the headers the calls to billing-svc carry are
  given with its answers: the service behaves as written only where both are as its authors meant.
\<close>

section \<open>Rows\<close>

datatype consent_status = Pending_B | Approved | Consent_Rejected | Consent_Expired | Generated

datatype generation_kind = Gen_Image | Gen_Audio | Gen_Both

datatype asset_kind = Image_Asset | Audio_Asset

datatype scan_verdict = Scan_Passed | Scan_Blocked

datatype ai_command = Mockup_Image | Mockup_Audio | Summarize_Chat | Brainstorm | Palette

datatype ai_status = Ai_Queued | Ai_Processing | Ai_Completed | Ai_Failed | Ai_Blocked | Ai_Refunded | Ai_Rejected

record mockup_consent =
  mk_id :: uuid
  mk_collab :: uuid
  mk_requested_by :: uuid
  mk_a_consented_at :: datetime
  mk_b_consented_at :: "datetime option"
  mk_lifespan :: int
  mk_brief :: string
  mk_status :: consent_status
  mk_kind :: generation_kind
  mk_created_at :: datetime
  mk_expires_at :: datetime

record mockup_asset =
  mu_id :: uuid
  mu_consent :: "uuid option"
  mu_prediction :: string
  mu_kind :: asset_kind
  mu_s3_key :: string
  mu_score :: "rat option"
  mu_verdict :: "scan_verdict option"
  mu_generated_at :: "datetime option"
  mu_expires_at :: "datetime option"
  mu_active :: bool
  mu_size :: "nat option"

record ai_interaction =
  in_id :: uuid
  in_user :: uuid
  in_collab :: "uuid option"
  in_room :: "uuid option"
  in_command :: ai_command
  in_args :: "(string \<times> json) list"
  in_tokens :: "(int \<times> int) option"
  in_cost :: int
  in_prediction :: "string option"
  in_asset :: "uuid option"
  in_reservation :: "uuid option"
  in_status :: ai_status
  in_failure :: "string option"
  in_completed_at :: "datetime option"

datatype platform = Ios | Android

record screenshot_audit =
  sa_asset :: uuid
  sa_user :: uuid
  sa_platform :: platform
  sa_detected_at :: datetime

text \<open>
  Beside its tables: the rate counters and the processed predictions in Redis, the state of
  billing-svc, and whether SQLAlchemy accepts the mapped classes.
\<close>

record ai_db =
  consents :: "mockup_consent list"
  assets :: "mockup_asset list"
  interactions :: "ai_interaction list"
  screenshots :: "screenshot_audit list"
  rates :: "uuid \<Rightarrow> (nat \<times> datetime) option"
  processed :: "string \<Rightarrow> datetime option"
  bill :: billing_sess
  ai_mapped :: bool

type_synonym ai_sess = "ai_db sess"
type_synonym 'a ai_comp = "(ai_db, 'a) comp"

text \<open>The two relationships between consents and assets; the models declare no foreign key.\<close>

definition ai_relationships :: "(string \<times> string) list" where
  "ai_relationships = [(''mockup_consent'', ''mockup_asset''), (''mockup_asset'', ''mockup_consent'')]"

definition ai_foreign_keys :: "(string \<times> string) list" where
  "ai_foreign_keys = []"

text \<open>Constraints of the migration: one open consent per collaboration, prediction ids of assets unique.\<close>

definition open_consent :: "mockup_consent \<Rightarrow> bool" where
  "open_consent c \<longleftrightarrow> mk_status c = Pending_B \<or> mk_status c = Approved"

definition consent_clash :: "mockup_consent \<Rightarrow> mockup_consent \<Rightarrow> bool" where
  "consent_clash a b \<longleftrightarrow> mk_id a = mk_id b \<or> (open_consent a \<and> open_consent b \<and> mk_collab a = mk_collab b)"

definition asset_clash :: "mockup_asset \<Rightarrow> mockup_asset \<Rightarrow> bool" where
  "asset_clash a b \<longleftrightarrow> mu_id a = mu_id b \<or> mu_prediction a = mu_prediction b"

section \<open>Settings\<close>

definition credit_mockup_image_basic :: int where "credit_mockup_image_basic = 20"
definition credit_mockup_image_pro :: int where "credit_mockup_image_pro = 50"
definition credit_mockup_audio_basic :: int where "credit_mockup_audio_basic = 15"
definition credit_mockup_audio_pro :: int where "credit_mockup_audio_pro = 40"
definition credit_summarize_chat :: int where "credit_summarize_chat = 5"
definition credit_brainstorm :: int where "credit_brainstorm = 5"
definition credit_palette :: int where "credit_palette = 2"
definition command_rate_per_minute :: nat where "command_rate_per_minute = 10"
definition moderation_block_threshold :: rat where "moderation_block_threshold = 7 / 10"
definition moderation_pre_gen_threshold :: rat where "moderation_pre_gen_threshold = 4 / 10"
definition idempotency_ttl :: int where "idempotency_ttl = 86400"

section \<open>What the world answers to a request\<close>

text \<open>
  billing-svc is reached, or something in between answers with an error status, or nothing answers.
  The entitlements endpoint has a tier to answer; the scan endpoints answer a status and
  the field \<open>score\<close>; collab-svc a status and the participants. The HTTP client all calls share is made without
  headers (main.py).
\<close>

datatype billing_link = Link_Up | Link_Status nat | Link_Down

datatype ent_reply = Ent_Down | Ent_Status nat | Ent_Up string

datatype ai_scan_reply = Scan_Down | Scan_Reply nat "rat option"

datatype participants_reply = Participants_Down | Participants_Reply nat "uuid list"

text \<open>One answer of the text model: content and tokens, or the exception it raises; for a palette also what \<open>json.loads\<close> makes of the content.\<close>

datatype completion = No_Completion string | Completion string int int

datatype palette_answer = No_Palette | Palette_Text string int int "json option"

definition shared_client_headers :: http_headers where
  "shared_client_headers = []"

record ai_net =
  nt_jwt :: jwt_library
  nt_headers :: http_headers
  nt_entitlement :: ent_reply
  nt_reserve :: billing_link
  nt_commit :: billing_link
  nt_release :: billing_link
  nt_prompt_score :: rat
  nt_completion :: completion
  nt_output_scan :: ai_scan_reply
  nt_palette :: "palette_answer list"
  nt_download :: bool
  nt_image_scan :: ai_scan_reply
  nt_watermark :: bool
  nt_upload :: "nat option"
  nt_error_text :: string

section \<open>Sessions\<close>

text \<open>
  A request: what it did not commit is lost when its session closes, except what other systems were
  told, Redis and billing-svc.
\<close>

definition outside :: "ai_db \<Rightarrow> ai_db \<Rightarrow> ai_db" where
  "outside db told = db\<lparr>rates := rates told, processed := processed told, bill := bill told\<rparr>"

definition ai_session :: "'a ai_comp \<Rightarrow> 'a ai_comp" where
  "ai_session m = (\<lambda>s. case m (s\<lparr>work := committed s\<rparr>) of
     (x, s1) \<Rightarrow> (x, s1\<lparr>committed := outside (committed s1) (work s1), work := outside (committed s1) (work s1)\<rparr>))"

text \<open>\<open>try: m except Exception as exc: h\<close>.\<close>

definition catch_any :: "'a ai_comp \<Rightarrow> (exn \<Rightarrow> 'a ai_comp) \<Rightarrow> 'a ai_comp" where
  "catch_any m h = (\<lambda>s. case m s of (Inl e, s1) \<Rightarrow> h e s1 | (Inr a, s1) \<Rightarrow> (Inr a, s1))"

definition first_row :: "(ai_db \<Rightarrow> 'r list) \<Rightarrow> ('r \<Rightarrow> bool) \<Rightarrow> 'r option ai_comp" where
  "first_row tbl P = orm ai_mapped (bind_c (select_all tbl P) (\<lambda>rows. ret (first_of rows)))"

definition save_interaction :: "uuid \<Rightarrow> (ai_interaction \<Rightarrow> ai_interaction) \<Rightarrow> unit ai_comp" where
  "save_interaction i f = modify_table interactions_update interactions (update_where (\<lambda>x. in_id x = i) f)"

definition save_asset :: "uuid \<Rightarrow> (mockup_asset \<Rightarrow> mockup_asset) \<Rightarrow> unit ai_comp" where
  "save_asset i f = modify_table assets_update assets (update_where (\<lambda>x. mu_id x = i) f)"

definition save_consent :: "uuid \<Rightarrow> (mockup_consent \<Rightarrow> mockup_consent) \<Rightarrow> unit ai_comp" where
  "save_consent i f = modify_table consents_update consents (update_where (\<lambda>x. mk_id x = i) f)"

definition add_interaction :: "ai_interaction \<Rightarrow> unit ai_comp" where
  "add_interaction x = orm ai_mapped (db_insert interactions_update interactions (\<lambda>_. True) (\<lambda>a b. in_id a = in_id b) x)"

definition add_asset :: "mockup_asset \<Rightarrow> unit ai_comp" where
  "add_asset x = orm ai_mapped (db_insert assets_update assets (\<lambda>_. True) asset_clash x)"

text \<open>\<open>except Exception as exc: raise self.retry(exc=exc)\<close> of the Celery tasks.\<close>

definition retried :: "'a ai_comp \<Rightarrow> 'a ai_comp" where
  "retried m = catch_any m (\<lambda>e. raise (LibraryError ''Retry''))"

section \<open>The client of billing-svc\<close>

text \<open>
  An HTTP call that billing-svc admits runs the endpoint on its state: a status of 400 or more, or the body. A call
  without a token of a service or an administrator is refused.
\<close>

definition call_billing :: "ai_net \<Rightarrow> billing_link \<Rightarrow> 'a billing \<Rightarrow> (nat + 'a) ai_comp" where
  "call_billing net link m = (case link of
     Link_Down \<Rightarrow> raise ConnectError
   | Link_Status k \<Rightarrow> ret (Inl k)
   | Link_Up \<Rightarrow> (case refused_with (nt_jwt net) (nt_headers net) of Some k \<Rightarrow> ret (Inl k) | None \<Rightarrow> \<lambda>s. case m ((bill (work s))\<lparr>clock := clock s\<rparr>) of (x, b) \<Rightarrow>
       (Inr (case x of Inr a \<Rightarrow> Inr a | Inl (HTTPException k d) \<Rightarrow> Inl k | Inl _ \<Rightarrow> Inl 500), s\<lparr>work := (work s)\<lparr>bill := b\<rparr>\<rparr>)))"

definition entitlement_error :: "nat \<Rightarrow> exn" where
  "entitlement_error k = (if k = 404 then EntitlementError else HTTPStatusError k)"

definition check_entitlement :: "ai_net \<Rightarrow> string ai_comp" where
  "check_entitlement net = (case nt_entitlement net of
     Ent_Down \<Rightarrow> raise ConnectError
   | Ent_Status k \<Rightarrow> raise (entitlement_error k)
   | Ent_Up tier \<Rightarrow> (case refused_with (nt_jwt net) (nt_headers net) of
         Some k \<Rightarrow> raise (entitlement_error k)
       | None \<Rightarrow> if tier \<noteq> ''premium'' \<and> tier \<noteq> ''pro'' then raise EntitlementError else ret tier))"

definition ai_reserve_key :: "uuid \<Rightarrow> string" where
  "ai_reserve_key i = ''ai-reserve:'' @ str_uuid i"

text \<open>The body of a 402 has its fields under \<open>detail\<close>, so \<open>balance\<close> falls back to 0.\<close>

definition ai_reserve :: "ai_net \<Rightarrow> uuid \<Rightarrow> int \<Rightarrow> uuid \<Rightarrow> uuid ai_comp" where
  "ai_reserve net u amount i =
     bind_c (call_billing net (nt_reserve net) (reserve_credits_endpoint u amount ''ai_interaction'' (str_uuid i) (Some (ai_reserve_key i)))) (\<lambda>r.
       case r of Inl k \<Rightarrow> raise (if k = 402 then InsufficientCreditsError 0 amount else HTTPStatusError k) | Inr rid \<Rightarrow> ret rid)"

definition ai_commit :: "ai_net \<Rightarrow> uuid \<Rightarrow> unit ai_comp" where
  "ai_commit net rid = bind_c (call_billing net (nt_commit net) (commit_credits_endpoint rid)) (\<lambda>r.
     case r of Inl k \<Rightarrow> raise (HTTPStatusError k) | Inr _ \<Rightarrow> ret ())"

text \<open>A release that fails is logged.\<close>

definition ai_release :: "ai_net \<Rightarrow> uuid \<Rightarrow> string \<Rightarrow> unit ai_comp" where
  "ai_release net rid reason = bind_c (call_billing net (nt_release net) (release_credits_endpoint rid reason)) (\<lambda>r. ret ())"

section \<open>The client of moderation-svc\<close>

text \<open>Any failure passes the content through with score 0.\<close>

definition scan_score :: "ai_scan_reply \<Rightarrow> rat" where
  "scan_score r = (case r of Scan_Down \<Rightarrow> 0 | Scan_Reply k score \<Rightarrow>
     if 400 \<le> k then 0 else case score of None \<Rightarrow> 0 | Some x \<Rightarrow> x)"

definition file_moderation_case :: "uuid \<Rightarrow> unit ai_comp" where
  "file_moderation_case subject = publish_c (Message ''moderation-svc:/internal/cases'' [(''subject_id'', JStr (str_uuid subject)),
     (''subject_type'', JStr ''mockup_asset''), (''kind'', JStr ''auto''), (''source'', JStr ''ai_orchestrator'')])"

definition get_collab_participants :: "participants_reply \<Rightarrow> uuid list" where
  "get_collab_participants r = (case r of Participants_Down \<Rightarrow> [] | Participants_Reply k ps \<Rightarrow> if 400 \<le> k then [] else ps)"

end
