(* ===== verification/AI_Service.thy ===== *)
theory AI_Service
  imports AI_Data
begin

text \<open>
  The operations of ai-orchestrator-svc: the chat commands (app/routers/commands.py), the consents
  of two partners and the list of mockups (routers/consent.py), Replicate's webhook
  (routers/webhooks.py, services/replicate_client.py) and the Celery tasks (workers/).
\<close>

section \<open>Commands\<close>

definition ai_caller :: "string \<Rightarrow> uuid ai_comp" where
  "ai_caller header = (case parse_uuid header of
     None \<Rightarrow> raise (HTTPException 401 ''Missing or invalid X-User-Id'') | Some u \<Rightarrow> ret u)"

text \<open>\<open>INCR\<close> and \<open>EXPIRE\<close>: every call renews the minute.\<close>

definition count_call :: "uuid \<Rightarrow> datetime \<Rightarrow> (uuid \<Rightarrow> (nat \<times> datetime) option) \<Rightarrow> nat" where
  "count_call u now r = (case r u of None \<Rightarrow> 1 | Some (n, t) \<Rightarrow> if now < t then Suc n else 1)"

definition rate_limit :: "uuid \<Rightarrow> nat \<Rightarrow> unit ai_comp" where
  "rate_limit u limit = (\<lambda>s. let n = count_call u (clock s) (rates (work s)) in
     (if limit < n then Inl (HTTPException 429 ''Rate limit exceeded: max 10 AI commands per minute'') else Inr (),
      s\<lparr>work := (work s)\<lparr>rates := (rates (work s))(u \<mapsto> (n, clock s + from_seconds 60))\<rparr>\<rparr>))"

definition credit_cost :: "ai_command \<Rightarrow> string \<Rightarrow> int" where
  "credit_cost c tier = (case c of
     Mockup_Image \<Rightarrow> if tier = ''pro'' then credit_mockup_image_pro else credit_mockup_image_basic
   | Mockup_Audio \<Rightarrow> if tier = ''pro'' then credit_mockup_audio_pro else credit_mockup_audio_basic
   | Summarize_Chat \<Rightarrow> credit_summarize_chat
   | Brainstorm \<Rightarrow> credit_brainstorm
   | Palette \<Rightarrow> credit_palette)"

definition new_interaction :: "uuid \<Rightarrow> uuid \<Rightarrow> uuid option \<Rightarrow> uuid option \<Rightarrow> ai_command \<Rightarrow> (string \<times> json) list \<Rightarrow> int \<Rightarrow> ai_status \<Rightarrow> ai_interaction" where
  "new_interaction i u collab room c args cost st = \<lparr>in_id = i, in_user = u, in_collab = collab, in_room = room, in_command = c,
     in_args = args, in_tokens = None, in_cost = cost, in_prediction = None, in_asset = None, in_reservation = None,
     in_status = st, in_failure = None, in_completed_at = None\<rparr>"

definition new_asset :: "uuid \<Rightarrow> uuid option \<Rightarrow> asset_kind \<Rightarrow> mockup_asset" where
  "new_asset i consent k = \<lparr>mu_id = i, mu_consent = consent, mu_prediction = ''pending'', mu_kind = k, mu_s3_key = [],
     mu_score = None, mu_verdict = None, mu_generated_at = None, mu_expires_at = None, mu_active = True, mu_size = None\<rparr>"

text \<open>The error branches: mark the interaction, commit, ask for the refund, fail.\<close>

definition fail_command :: "ai_net \<Rightarrow> uuid \<Rightarrow> uuid \<Rightarrow> ai_status \<Rightarrow> string option \<Rightarrow> string \<Rightarrow> exn \<Rightarrow> 'a ai_comp" where
  "fail_command net i rid st why reason e =
     seq_c (save_interaction i (\<lambda>x. x\<lparr>in_status := st, in_failure := (case why of None \<Rightarrow> in_failure x | Some w \<Rightarrow> Some w)\<rparr>))
    (seq_c commit_c (seq_c (ai_release net rid reason) (raise e)))"

definition complete_command :: "ai_net \<Rightarrow> uuid \<Rightarrow> uuid \<Rightarrow> int \<Rightarrow> int \<Rightarrow> unit ai_comp" where
  "complete_command net i rid n_in n_out = bind_c now_c (\<lambda>now.
     seq_c (save_interaction i (\<lambda>x. x\<lparr>in_status := Ai_Completed, in_tokens := Some (n_in, n_out), in_completed_at := Some now\<rparr>))
    (seq_c commit_c (ai_commit net rid)))"

text \<open>\<open>f"{score:.3f}"\<close>.\<close>

definition format3 :: "rat \<Rightarrow> string" where
  "format3 x = (let n = \<lfloor>1000 * x + 1 / 2\<rfloor> in str_int (n div 1000) @ ''.'' @ pad0 3 (str_int (n mod 1000)))"

text \<open>What the five commands answer.\<close>

datatype ai_answer =
    Ai_Text uuid ai_command string "(int \<times> int) option" int
  | Ai_Palette uuid "(string \<times> string \<times> string) list" int
  | Ai_Queued_Answer uuid uuid int

definition summarize_chat :: "ai_net \<Rightarrow> uuid \<Rightarrow> uuid \<Rightarrow> int \<Rightarrow> ai_answer ai_comp" where
  "summarize_chat net i rid cost = (case nt_completion net of
     No_Completion why \<Rightarrow>
       fail_command net i rid Ai_Failed (Some why) ''openai_error'' (HTTPException 500 ''Summary generation failed. Credits refunded.'')
   | Completion content n_in n_out \<Rightarrow>
       if moderation_block_threshold \<le> scan_score (nt_output_scan net)
       then fail_command net i rid Ai_Blocked None ''moderation_output'' (HTTPException 422 ''AI output blocked by moderation. Credits refunded.'')
       else seq_c (complete_command net i rid n_in n_out) (ret (Ai_Text i Summarize_Chat content (Some (n_in, n_out)) cost)))"

definition brainstorm :: "ai_net \<Rightarrow> uuid \<Rightarrow> uuid \<Rightarrow> int \<Rightarrow> string \<Rightarrow> ai_answer ai_comp" where
  "brainstorm net i rid cost prompt =
     (if length (strip_chars is_space prompt) < 3
      then fail_command net i rid Ai_Failed None ''invalid_input'' (HTTPException 400 ''Topic must be at least 3 characters'')
      else case nt_completion net of
        No_Completion why \<Rightarrow> fail_command net i rid Ai_Failed (Some why) ''openai_error'' (HTTPException 500 ''Brainstorm failed. Credits refunded.'')
      | Completion content n_in n_out \<Rightarrow>
          seq_c (complete_command net i rid n_in n_out) (ret (Ai_Text i Brainstorm content None cost)))"

text \<open>
  The two attempts at a palette: \<open>content\<close> and \<open>parsed\<close> of the last one, and whether an exception was
  noted, which nothing clears. An exception of the model itself is not caught.
\<close>

fun palette_attempts :: "palette_answer list \<Rightarrow> (string \<times> int \<times> int \<times> json option) \<Rightarrow> bool \<Rightarrow> (exn + (string \<times> int \<times> int \<times> json option) \<times> bool)" where
  "palette_attempts [] prev noted = Inr (prev, noted)"
| "palette_attempts (No_Palette # rest) prev noted = Inl (LibraryError ''openai'')"
| "palette_attempts (Palette_Text content n_in n_out parsed # rest) prev noted =
     (case parsed of
        Some (JList cs) \<Rightarrow> if length cs = 5 then Inr ((content, n_in, n_out, parsed), noted)
          else palette_attempts rest (content, n_in, n_out, parsed) True
      | _ \<Rightarrow> palette_attempts rest (content, n_in, n_out, parsed) True)"

definition colour_of :: "json \<Rightarrow> exn + (string \<times> string \<times> string)" where
  "colour_of v = (case v of
     JObj kvs \<Rightarrow> (case (map_of kvs ''name'', map_of kvs ''hex'', map_of kvs ''usage_note'') of
        (Some (JStr a), Some (JStr b), Some (JStr c)) \<Rightarrow> Inr (a, b, c)
      | _ \<Rightarrow> Inl (ValidationError ''AIPaletteColor''))
   | _ \<Rightarrow> Inl TypeError)"

fun colours_of :: "json list \<Rightarrow> exn + (string \<times> string \<times> string) list" where
  "colours_of [] = Inr []"
| "colours_of (v # vs) = (case colour_of v of Inl e \<Rightarrow> Inl e
     | Inr c \<Rightarrow> (case colours_of vs of Inl e \<Rightarrow> Inl e | Inr cs \<Rightarrow> Inr (c # cs)))"

definition palette :: "ai_net \<Rightarrow> uuid \<Rightarrow> uuid \<Rightarrow> int \<Rightarrow> string \<Rightarrow> ai_answer ai_comp" where
  "palette net i rid cost prompt =
     (if strip_chars is_space prompt = []
      then fail_command net i rid Ai_Failed None ''invalid_input'' (HTTPException 400 ''Description is required for /palette'')
      else case palette_attempts (take 2 (nt_palette net)) ([], 0, 0, None) False of
        Inl e \<Rightarrow> raise e
      | Inr ((content, n_in, n_out, parsed), noted) \<Rightarrow>
          if content = [] \<or> noted
          then fail_command net i rid Ai_Failed None ''palette_parse_error'' (HTTPException 500 ''Palette generation failed. Credits refunded.'')
          else seq_c (complete_command net i rid n_in n_out)
            (case colours_of (case parsed of Some (JList cs) \<Rightarrow> cs | _ \<Rightarrow> []) of
               Inl e \<Rightarrow> raise e | Inr cs \<Rightarrow> ret (Ai_Palette i cs cost)))"

definition enqueue_prediction :: "asset_kind \<Rightarrow> uuid \<Rightarrow> uuid \<Rightarrow> string \<Rightarrow> string \<Rightarrow> unit ai_comp" where
  "enqueue_prediction k i asset prompt tier = publish_c (Message
     (case k of Image_Asset \<Rightarrow> ''enqueue_image_prediction'' | Audio_Asset \<Rightarrow> ''enqueue_audio_prediction'')
     [(''interaction_id'', JStr (str_uuid i)), (''asset_id'', JStr (str_uuid asset)), (''prompt'', JStr prompt), (''tier'', JStr tier)])"

definition mockup_command :: "ai_net \<Rightarrow> asset_kind \<Rightarrow> uuid \<Rightarrow> uuid \<Rightarrow> string \<Rightarrow> string \<Rightarrow> ai_answer ai_comp" where
  "mockup_command net k i rid tier prompt =
     (if strip_chars is_space prompt = []
      then fail_command net i rid Ai_Failed None ''invalid_input'' (HTTPException 400 ''Please include a prompt after the command'')
      else bind_c uuid4 (\<lambda>asset.
        seq_c (add_asset (new_asset asset None k))
       (seq_c (save_interaction i (\<lambda>x. x\<lparr>in_asset := Some asset\<rparr>))
       (seq_c commit_c
       (seq_c (enqueue_prediction k i asset (strip_chars is_space prompt) tier)
         (ret (Ai_Queued_Answer i asset (case k of Image_Asset \<Rightarrow> 45 | Audio_Asset \<Rightarrow> 30))))))))"

definition dispatch_command :: "ai_net \<Rightarrow> ai_command \<Rightarrow> uuid \<Rightarrow> uuid \<Rightarrow> int \<Rightarrow> string \<Rightarrow> string \<Rightarrow> ai_answer ai_comp" where
  "dispatch_command net c i rid cost tier prompt = (case c of
     Summarize_Chat \<Rightarrow> summarize_chat net i rid cost
   | Brainstorm \<Rightarrow> brainstorm net i rid cost prompt
   | Palette \<Rightarrow> palette net i rid cost prompt
   | Mockup_Image \<Rightarrow> mockup_command net Image_Asset i rid tier prompt
   | Mockup_Audio \<Rightarrow> mockup_command net Audio_Asset i rid tier prompt)"

text \<open>What follows the reservation: the prompt is moderated, then the command runs.\<close>

definition insufficient :: exn where
  "insufficient = HTTPException 402 ''insufficient_credits''"

definition moderated_command :: "ai_net \<Rightarrow> ai_command \<Rightarrow> uuid \<Rightarrow> uuid \<Rightarrow> int \<Rightarrow> string \<Rightarrow> string \<Rightarrow> ai_answer ai_comp" where
  "moderated_command net c i rid cost tier prompt =
     (if prompt \<noteq> [] \<and> moderation_pre_gen_threshold \<le> nt_prompt_score net
      then fail_command net i rid Ai_Blocked (Some (''Pre-generation moderation score: '' @ format3 (nt_prompt_score net)))
             ''moderation_pre_gen'' (HTTPException 422 ''Prompt contains potentially unsafe content'')
      else dispatch_command net c i rid cost tier prompt)"

definition reserve_for :: "ai_net \<Rightarrow> uuid \<Rightarrow> int \<Rightarrow> uuid \<Rightarrow> uuid ai_comp" where
  "reserve_for net u cost i = (\<lambda>s. case ai_reserve net u cost i s of
     (Inr rid, s1) \<Rightarrow> seq_c (save_interaction i (\<lambda>x. x\<lparr>in_reservation := Some rid\<rparr>)) (seq_c commit_c (ret rid)) s1
   | (Inl (InsufficientCreditsError b k), s1) \<Rightarrow>
       seq_c (save_interaction i (\<lambda>x. x\<lparr>in_status := Ai_Rejected\<rparr>)) (seq_c commit_c (raise insufficient)) s1
   | (Inl e, s1) \<Rightarrow> (Inl e, s1))"

definition run_command :: "ai_net \<Rightarrow> string \<Rightarrow> uuid \<Rightarrow> ai_command \<Rightarrow> string option \<Rightarrow> (string \<times> json) list \<Rightarrow> ai_answer ai_comp" where
  "run_command net header room c prompt args = ai_session (
     bind_c (ai_caller header) (\<lambda>u.
     seq_c (rate_limit u command_rate_per_minute)
    (\<lambda>s. case check_entitlement net s of
        (Inl EntitlementError, s1) \<Rightarrow>
          bind_c uuid4 (\<lambda>i. seq_c (add_interaction (new_interaction i u None (Some room) c args 0 Ai_Rejected))
            (seq_c commit_c (raise insufficient))) s1
      | (Inl e, s1) \<Rightarrow> (Inl e, s1)
      | (Inr tier, s1) \<Rightarrow>
          bind_c uuid4 (\<lambda>i. let cost = credit_cost c tier in
            seq_c (add_interaction (new_interaction i u None (Some room) c args cost Ai_Queued))
           (bind_c (reserve_for net u cost i) (\<lambda>rid.
              moderated_command net c i rid cost tier (case prompt of None \<Rightarrow> [] | Some p \<Rightarrow> p)))) s1)))"

section \<open>Consents\<close>

datatype consent_answer =
    Consent_Created uuid
  | Consent_Approved uuid uuid int

definition open_for :: "uuid \<Rightarrow> mockup_consent \<Rightarrow> bool" where
  "open_for collab c \<longleftrightarrow> mk_collab c = collab \<and> open_consent c"

text \<open>An audio mockup costs what an image costs; a consent for both makes audio.\<close>

definition consent_cost :: "string \<Rightarrow> int" where
  "consent_cost tier = (if tier = ''pro'' then credit_mockup_image_pro else credit_mockup_image_basic)"

definition kind_json :: "generation_kind \<Rightarrow> json" where
  "kind_json k = JStr (case k of Gen_Image \<Rightarrow> ''image'' | Gen_Audio \<Rightarrow> ''audio'' | Gen_Both \<Rightarrow> ''both'')"

text \<open>What follows both partners' consent: the entitlement of the second, the charge, the asset and the prediction.\<close>

definition generate_mockup :: "ai_net \<Rightarrow> uuid \<Rightarrow> uuid \<Rightarrow> mockup_consent \<Rightarrow> consent_answer ai_comp" where
  "generate_mockup net u collab c = (\<lambda>s. case check_entitlement net s of
        (Inl e, s1) \<Rightarrow> (Inl (HTTPException 402 ''Premium required to generate mockups''), s1)
      | (Inr tier, s1) \<Rightarrow>
          bind_c uuid4 (\<lambda>i. let image = (mk_kind c = Gen_Image); cost = consent_cost tier; k = (if image then Image_Asset else Audio_Asset) in
            seq_c (add_interaction (new_interaction i u (Some collab) None (if image then Mockup_Image else Mockup_Audio)
                [(''brief'', JStr (mk_brief c)), (''kind'', kind_json (mk_kind c)), (''consent_id'', JStr (str_uuid (mk_id c)))] cost Ai_Queued))
           (\<lambda>s2. case ai_reserve net u cost i s2 of
              (Inl (InsufficientCreditsError b r), s3) \<Rightarrow>
                seq_c (save_interaction i (\<lambda>x. x\<lparr>in_status := Ai_Rejected\<rparr>))
               (seq_c commit_c (raise (HTTPException 402 ''Insufficient credits to generate mockup''))) s3
            | (Inl e, s3) \<Rightarrow> (Inl e, s3)
            | (Inr rid, s3) \<Rightarrow>
                seq_c (save_interaction i (\<lambda>x. x\<lparr>in_reservation := Some rid\<rparr>))
               (bind_c uuid4 (\<lambda>asset.
                seq_c (add_asset (new_asset asset (Some (mk_id c)) k))
               (seq_c (save_interaction i (\<lambda>x. x\<lparr>in_asset := Some asset\<rparr>))
               (seq_c commit_c
               (seq_c (enqueue_prediction k i asset (mk_brief c) tier)
                 (ret (Consent_Approved (mk_id c) i (if image then 60 else 45)))))))) s3)) s1)"

definition approved :: "datetime \<Rightarrow> mockup_consent \<Rightarrow> mockup_consent" where
  "approved now c = c\<lparr>mk_b_consented_at := Some now, mk_status := Approved\<rparr>"

definition approve_consent :: "ai_net \<Rightarrow> uuid \<Rightarrow> uuid \<Rightarrow> mockup_consent \<Rightarrow> consent_answer ai_comp" where
  "approve_consent net u collab c = bind_c now_c (\<lambda>now.
     seq_c (save_consent (mk_id c) (approved now)) (generate_mockup net u collab c))"

definition new_consent :: "uuid \<Rightarrow> uuid \<Rightarrow> uuid \<Rightarrow> int \<Rightarrow> string \<Rightarrow> generation_kind \<Rightarrow> datetime \<Rightarrow> mockup_consent" where
  "new_consent i collab u lifespan brief k now = \<lparr>mk_id = i, mk_collab = collab, mk_requested_by = u, mk_a_consented_at = now,
     mk_b_consented_at = None, mk_lifespan = lifespan, mk_brief = brief, mk_status = Pending_B, mk_kind = k,
     mk_created_at = now, mk_expires_at = now + from_seconds (48 * 3600)\<rparr>"

definition create_consent :: "uuid \<Rightarrow> uuid \<Rightarrow> int \<Rightarrow> string \<Rightarrow> generation_kind \<Rightarrow> consent_answer ai_comp" where
  "create_consent collab u lifespan brief k = bind_c now_c (\<lambda>now. bind_c uuid4 (\<lambda>i.
     seq_c (orm ai_mapped (db_insert consents_update consents (\<lambda>c. mk_lifespan c = 1 \<or> mk_lifespan c = 14) consent_clash (new_consent i collab u lifespan brief k now)))
    (seq_c commit_c (ret (Consent_Created i)))))"

definition require_participant :: "participants_reply \<Rightarrow> uuid \<Rightarrow> unit ai_comp" where
  "require_participant reply u = (let ps = get_collab_participants reply in
     when_c (ps \<noteq> [] \<and> u \<notin> set ps) (raise (HTTPException 404 ''Collab not found or user not a participant'')))"

definition mockup_consent_endpoint ::
  "ai_net \<Rightarrow> participants_reply \<Rightarrow> string \<Rightarrow> uuid \<Rightarrow> int \<Rightarrow> string \<Rightarrow> generation_kind \<Rightarrow> consent_answer ai_comp" where
  "mockup_consent_endpoint net reply header collab lifespan brief k = ai_session (
     bind_c (ai_caller header) (\<lambda>u.
     seq_c (require_participant reply u)
    (bind_c (first_row consents (open_for collab)) (\<lambda>existing. case existing of
        None \<Rightarrow> create_consent collab u lifespan brief k
      | Some c \<Rightarrow>
          if mk_status c = Pending_B \<and> mk_requested_by c \<noteq> u then approve_consent net u collab c
          else if mk_requested_by c = u then raise (HTTPException 409 ''Consent already exists'')
          else create_consent collab u lifespan brief k))))"

text \<open>The list of mockups with signed links, empty where signing fails.\<close>

definition list_mockups ::
  "(string \<Rightarrow> (string \<times> datetime) option) \<Rightarrow> participants_reply \<Rightarrow> string \<Rightarrow> uuid \<Rightarrow> bool \<Rightarrow> (mockup_asset \<times> string \<times> datetime) list ai_comp" where
  "list_mockups sign reply header collab include_expired = ai_session (
     bind_c (ai_caller header) (\<lambda>u.
     seq_c (require_participant reply u)
    (bind_c (orm ai_mapped (select_all consents (\<lambda>c. mk_collab c = collab))) (\<lambda>cs.
     bind_c (select_all assets (\<lambda>a. mu_consent a \<in> set (map (\<lambda>c. Some (mk_id c)) cs) \<and> (include_expired \<or> mu_active a))) (\<lambda>rows.
     bind_c now_c (\<lambda>now.
       ret (map (\<lambda>a. (a, case sign (mu_s3_key a) of Some (url, t) \<Rightarrow> (url, t) | None \<Rightarrow> ([], now))) rows)))))))"

definition screenshot_event :: "string \<Rightarrow> uuid \<Rightarrow> platform \<Rightarrow> datetime \<Rightarrow> unit ai_comp" where
  "screenshot_event header asset p t = ai_session (
     bind_c (ai_caller header) (\<lambda>u.
     bind_c (first_row assets (\<lambda>a. mu_id a = asset)) (\<lambda>found. case found of
        None \<Rightarrow> ret ()
      | Some _ \<Rightarrow> seq_c (modify_table screenshots_update screenshots (\<lambda>xs. xs @
            [\<lparr>sa_asset = asset, sa_user = u, sa_platform = p, sa_detected_at = t\<rparr>])) commit_c)))"

section \<open>Replicate's webhook\<close>

text \<open>\<open>mac\<close> is HMAC-SHA256 of the body under the configured secret, in hexadecimal.\<close>

definition verify_webhook_signature :: "(string \<Rightarrow> string) \<Rightarrow> string \<Rightarrow> string option \<Rightarrow> bool" where
  "verify_webhook_signature mac body header = (case header of None \<Rightarrow> False | Some h \<Rightarrow>
     h \<noteq> [] \<and> CHR ''='' \<in> set h \<and> takeWhile (\<lambda>c. c \<noteq> CHR ''='') h = ''sha256''
       \<and> mac body = tl (dropWhile (\<lambda>c. c \<noteq> CHR ''='') h))"

datatype prediction_output = No_Output | Output_Url string | Output_List "string list"

record prediction_event =
  pe_id :: string
  pe_status :: string
  pe_output :: prediction_output
  pe_error :: "string option"

definition artifact_url :: "prediction_output \<Rightarrow> string option" where
  "artifact_url out = (case out of No_Output \<Rightarrow> None | Output_Url u \<Rightarrow> if u = [] then None else Some u
     | Output_List us \<Rightarrow> (case us of [] \<Rightarrow> None | u # _ \<Rightarrow> Some u))"

definition release_of :: "ai_net \<Rightarrow> ai_interaction \<Rightarrow> string \<Rightarrow> unit ai_comp" where
  "release_of net x reason = (case in_reservation x of None \<Rightarrow> ret () | Some rid \<Rightarrow> ai_release net rid reason)"

definition handle_failure :: "ai_net \<Rightarrow> ai_interaction \<Rightarrow> mockup_asset option \<Rightarrow> string \<Rightarrow> unit ai_comp" where
  "handle_failure net x asset reason =
     seq_c (save_interaction (in_id x) (\<lambda>r. r\<lparr>in_status := Ai_Failed, in_failure := Some reason\<rparr>))
    (seq_c (case asset of None \<Rightarrow> ret () | Some a \<Rightarrow> save_asset (mu_id a) (\<lambda>r. r\<lparr>mu_active := False\<rparr>))
    (seq_c commit_c (release_of net x (take 100 reason))))"

definition artifact_kind :: "mockup_asset option \<Rightarrow> string \<Rightarrow> asset_kind" where
  "artifact_kind asset url = (case asset of Some a \<Rightarrow> mu_kind a
     | None \<Rightarrow> if contains ''audio'' url then Audio_Asset else Image_Asset)"

definition s3_key_of :: "uuid \<Rightarrow> uuid \<Rightarrow> asset_kind \<Rightarrow> string" where
  "s3_key_of collab asset k = ''mockups/'' @ str_uuid collab @ ''/'' @ str_uuid asset @ ''/''
     @ (case k of Image_Asset \<Rightarrow> ''image.jpg'' | Audio_Asset \<Rightarrow> ''audio.mp3'')"

definition or_new :: "uuid option \<Rightarrow> uuid ai_comp" where
  "or_new v = (case v of Some i \<Rightarrow> ret i | None \<Rightarrow> uuid4)"

definition block_mockup :: "ai_net \<Rightarrow> ai_interaction \<Rightarrow> mockup_asset option \<Rightarrow> rat \<Rightarrow> unit ai_comp" where
  "block_mockup net x asset score =
     seq_c (case asset of None \<Rightarrow> ret () | Some a \<Rightarrow>
         save_asset (mu_id a) (\<lambda>r. r\<lparr>mu_score := Some score, mu_verdict := Some Scan_Blocked, mu_active := False\<rparr>))
    (seq_c (save_interaction (in_id x) (\<lambda>r. r\<lparr>in_status := Ai_Blocked\<rparr>))
    (seq_c commit_c
    (seq_c (case asset of None \<Rightarrow> ret () | Some a \<Rightarrow> file_moderation_case (mu_id a))
      (release_of net x ''moderation_block''))))"

definition lifespan_of :: "mockup_asset option \<Rightarrow> int ai_comp" where
  "lifespan_of asset = (case asset of None \<Rightarrow> ret 1 | Some a \<Rightarrow> (case mu_consent a of None \<Rightarrow> ret 1
     | Some k \<Rightarrow> bind_c (first_row consents (\<lambda>c. mk_id c = k)) (\<lambda>c. ret (case c of None \<Rightarrow> 1 | Some c \<Rightarrow> mk_lifespan c))))"

definition deliver_mockup :: "ai_net \<Rightarrow> ai_interaction \<Rightarrow> mockup_asset option \<Rightarrow> asset_kind \<Rightarrow> rat \<Rightarrow> unit ai_comp" where
  "deliver_mockup net x asset k score = bind_c now_c (\<lambda>now.
     if \<not> nt_watermark net then raise (LibraryError ''watermark'')
     else bind_c (or_new (in_collab x)) (\<lambda>collab. bind_c (or_new (map_option mu_id asset)) (\<lambda>i.
       case nt_upload net of None \<Rightarrow> raise (LibraryError ''s3'')
       | Some n_bytes \<Rightarrow> bind_c (lifespan_of asset) (\<lambda>life.
           seq_c (case asset of None \<Rightarrow> ret () | Some a \<Rightarrow> save_asset (mu_id a) (\<lambda>r. r\<lparr>mu_s3_key := s3_key_of collab i k,
               mu_score := Some score, mu_verdict := Some Scan_Passed, mu_generated_at := Some now,
               mu_expires_at := Some (now + days life), mu_active := True, mu_size := Some n_bytes\<rparr>))
          (seq_c (save_interaction (in_id x) (\<lambda>r. r\<lparr>in_status := Ai_Completed, in_completed_at := Some now\<rparr>))
          (seq_c commit_c
            (case in_reservation x of None \<Rightarrow> ret () | Some rid \<Rightarrow> ai_commit net rid)))))))"

definition handle_success :: "ai_net \<Rightarrow> ai_interaction \<Rightarrow> mockup_asset option \<Rightarrow> string \<Rightarrow> unit ai_comp" where
  "handle_success net x asset url =
     (if \<not> nt_download net then raise (LibraryError ''httpx'')
      else let k = artifact_kind asset url; score = (case k of Image_Asset \<Rightarrow> scan_score (nt_image_scan net) | Audio_Asset \<Rightarrow> 0) in
        if k = Image_Asset \<and> moderation_block_threshold \<le> score then block_mockup net x asset score
        else deliver_mockup net x asset k score)"

definition mark_processed :: "string \<Rightarrow> unit ai_comp" where
  "mark_processed p = (\<lambda>s. (Inr (), s\<lparr>work := (work s)\<lparr>processed := (processed (work s))(p \<mapsto> clock s + from_seconds idempotency_ttl)\<rparr>\<rparr>))"

definition is_processed :: "string \<Rightarrow> bool ai_comp" where
  "is_processed p = (\<lambda>s. (Inr (case processed (work s) p of None \<Rightarrow> False | Some t \<Rightarrow> clock s < t), s))"

definition replicate_webhook :: "ai_net \<Rightarrow> (string \<Rightarrow> string) \<Rightarrow> string \<Rightarrow> string option \<Rightarrow> prediction_event \<Rightarrow> string ai_comp" where
  "replicate_webhook net mac body header ev = ai_session (
     if \<not> verify_webhook_signature mac body header then raise (HTTPException 403 ''Invalid signature'')
     else if pe_id ev = [] then raise (HTTPException 400 ''Missing prediction id'')
     else bind_c (is_processed (pe_id ev)) (\<lambda>done.
       if done then ret ''already_processed''
       else bind_c (first_row interactions (\<lambda>x. in_prediction x = Some (pe_id ev))) (\<lambda>found.
         bind_c (first_row assets (\<lambda>a. mu_prediction a = pe_id ev)) (\<lambda>asset.
         case found of
           None \<Rightarrow> seq_c (mark_processed (pe_id ev)) (ret ''unknown_prediction'')
         | Some x \<Rightarrow>
             if pe_status ev = ''failed''
             then seq_c (handle_failure net x asset (case pe_error ev of None \<Rightarrow> ''Replicate prediction failed'' | Some e \<Rightarrow> e))
                   (seq_c (mark_processed (pe_id ev)) (ret ''failure_handled''))
             else if pe_status ev = ''succeeded''
             then (case artifact_url (pe_output ev) of
                 None \<Rightarrow> seq_c (handle_failure net x asset ''No output in Replicate response'')
                   (seq_c (mark_processed (pe_id ev)) (ret ''failure_handled''))
               | Some url \<Rightarrow> seq_c (catch_any (handle_success net x asset url) (\<lambda>e. handle_failure net x asset (nt_error_text net)))
                   (seq_c (mark_processed (pe_id ev)) (ret ''ok'')))
             else seq_c (mark_processed (pe_id ev)) (ret ''ok'')))))"

section \<open>Tasks\<close>

text \<open>\<open>prediction\<close> is the id Replicate answered, or None where the call failed.\<close>

definition store_prediction :: "uuid \<Rightarrow> uuid \<Rightarrow> string option \<Rightarrow> unit ai_comp" where
  "store_prediction i asset prediction = ai_session (case prediction of
     None \<Rightarrow> raise (LibraryError ''Retry'')
   | Some p \<Rightarrow> retried (orm ai_mapped (\<lambda>s.
       if list_ex (\<lambda>a. mu_id a \<noteq> asset \<and> mu_prediction a = p) (assets (work s)) \<and> list_ex (\<lambda>a. mu_id a = asset) (assets (work s))
       then (Inl (LibraryError ''Retry''), s)
       else seq_c (save_interaction i (\<lambda>x. x\<lparr>in_prediction := Some p, in_status := Ai_Processing\<rparr>))
           (seq_c (save_asset asset (\<lambda>a. a\<lparr>mu_prediction := p\<rparr>)) commit_c) s)))"

definition expired_asset :: "datetime \<Rightarrow> mockup_asset \<Rightarrow> bool" where
  "expired_asset now a \<longleftrightarrow> mu_active a \<and> (case mu_expires_at a of None \<Rightarrow> False | Some t \<Rightarrow> t \<le> now)"

definition expire_mockup_assets :: "uuid list ai_comp" where
  "expire_mockup_assets = ai_session (retried (bind_c now_c (\<lambda>now. bind_c (orm ai_mapped (select_all assets (expired_asset now))) (\<lambda>rows.
     seq_c (modify_table assets_update assets (update_where (expired_asset now) (\<lambda>a. a\<lparr>mu_active := False\<rparr>)))
    (seq_c commit_c (ret (map mu_id rows)))))))"

definition stale_consent :: "datetime \<Rightarrow> mockup_consent \<Rightarrow> bool" where
  "stale_consent now c \<longleftrightarrow> mk_status c = Pending_B \<and> mk_created_at c \<le> now - from_seconds (48 * 3600)"

definition expire_pending_consents :: "nat ai_comp" where
  "expire_pending_consents = ai_session (retried (bind_c now_c (\<lambda>now. bind_c (orm ai_mapped (select_all consents (stale_consent now))) (\<lambda>rows.
     seq_c (modify_table consents_update consents (update_where (stale_consent now) (\<lambda>c. c\<lparr>mk_status := Consent_Expired\<rparr>)))
    (seq_c commit_c (ret (length rows)))))))"

end
