(* ===== verification/AI_Claims.thy ===== *)
theory AI_Claims
  imports AI_Service
begin

text \<open>
  What ai-orchestrator-svc does to the credits of a user, to the consents of a collaboration and to
  Replicate's deliveries.
\<close>

section \<open>Credits\<close>

text \<open>The ledger accepts a compensating row only under one of its own reasons; under any other the release fails.\<close>

definition refundable :: "string \<Rightarrow> bool" where
  "refundable reason \<longleftrightarrow> reason \<in> set [''purchase'', ''admin_grant'', ''subscription_grant'',
     ''consume'', ''reserve'', ''release'', ''refund'', ''expire'']"

lemma refused_release:
  assumes ok: "credits_ok b" and r: "\<not> refundable reason"
  shows "committed (snd (release_credits_endpoint rid reason b)) = committed b"
proof -
  have inv: "credits_inv (b\<lparr>work := committed b\<rparr>)" using ok by (rule credits_ok_start)
  show ?thesis
  proof (cases "pending_id (committed b) rid")
    case False
    then show ?thesis using not_pending_run(2) [OF inv] by (simp add: release_credits_endpoint_def committing_run)
  next
    case True
    then obtain tx where "tx \<in> set (transactions (committed b))" "ct_status tx = Reserved" "ct_id tx = rid"
      by (auto simp: pending_id_def list_ex_iff)
    then show ?thesis using release_run [OF inv, of tx reason] r
      by (simp add: release_credits_endpoint_def committing_run Let_def ct_reason_ok_def settled_tx_def refundable_def)
  qed
qed

lemma commit_keeps_available:
  assumes ok: "credits_ok b"
  shows "available_of (committed (snd (commit_credits_endpoint rid b))) u = available_of (committed b) u"
proof -
  have inv: "credits_inv (b\<lparr>work := committed b\<rparr>)" using ok by (rule credits_ok_start)
  show ?thesis
  proof (cases "pending_id (committed b) rid")
    case False
    then show ?thesis using not_pending_run(1) [OF inv] by (simp add: commit_credits_endpoint_def committing_run)
  next
    case True
    then obtain tx where tx: "tx \<in> set (transactions (committed b))" "ct_status tx = Reserved" "ct_id tx = rid"
      by (auto simp: pending_id_def list_ex_iff)
    then show ?thesis using commit_tx_run [OF inv, of tx] available_commit [OF _ tx(1,2)] ok
      by (simp add: commit_credits_endpoint_def committing_run credits_ok_def)
  qed
qed

text \<open>The credits a user has left while a request runs.\<close>

definition left_with :: "uuid \<Rightarrow> int \<Rightarrow> ai_sess \<Rightarrow> bool" where
  "left_with u a s \<longleftrightarrow> credits_ok (bill (work s)) \<and> available_of (committed (bill (work s))) u = a"

lemma credits_ok_tick: "credits_ok (b\<lparr>clock := t\<rparr>) = credits_ok b"
  by (simp add: credits_ok_def)

lemma keeps_left_call:
  assumes "\<And>b. credits_ok b \<Longrightarrow> credits_ok (snd (m b)) \<and> available_of (committed (snd (m b))) u = available_of (committed b) u"
  shows "keeps (left_with u a) (call_billing net link m)"
proof (rule keepsI)
  fix s :: ai_sess assume "left_with u a s"
  then have "credits_ok (bill (work s)\<lparr>clock := clock s\<rparr>)" "available_of (committed (bill (work s))) u = a"
    by (simp_all add: left_with_def credits_ok_tick)
  with assms [of "bill (work s)\<lparr>clock := clock s\<rparr>"] \<open>left_with u a s\<close>
  show "left_with u a (snd (call_billing net link m s))"
    by (auto simp: call_billing_def comp_simps left_with_def split: billing_link.split prod.split option.split)
qed

lemma keeps_left_client [simp]:
  "\<not> refundable reason \<Longrightarrow> keeps (left_with u a) (ai_release net rid reason)"
  "keeps (left_with u a) (ai_commit net rid)"
  using credits_ok_exec [of _ "Cr_Commit rid"] unfolding ai_release_def ai_commit_def
  by (auto intro!: keeps_bind keeps_left_call simp: refused_release credits_ok_release commit_keeps_available split: sum.split)

lemma left_with_upd [simp]:
  "left_with u a (s\<lparr>work := (work s)\<lparr>interactions := x1\<rparr>\<rparr>) = left_with u a s"
  "left_with u a (s\<lparr>work := (work s)\<lparr>assets := x2\<rparr>\<rparr>) = left_with u a s"
  "left_with u a (s\<lparr>outbox := x3\<rparr>) = left_with u a s" "left_with u a (s\<lparr>next_uuid := x4\<rparr>) = left_with u a s"
  "left_with u a (s\<lparr>committed := x5\<rparr>) = left_with u a s"
  by (simp_all add: left_with_def)

lemma keeps_left_prims [simp]:
  "keeps (left_with u a) (save_interaction i f)" "keeps (left_with u a) (add_asset x)"
  "keeps (left_with u a) (publish_c msg)" "keeps (left_with u a) uuid4" "keeps (left_with u a) commit_c"
  by (simp_all add: keeps_def comp_simps save_interaction_def add_asset_def)

lemma keeps_left_fail [simp]: "\<not> refundable reason \<Longrightarrow> keeps (left_with u a) (fail_command net i rid st why reason e)"
  "keeps (left_with u a) (complete_command net i rid n_in n_out)"
  by (auto simp: fail_command_def complete_command_def intro!: keeps_intros)

lemma refundable_simps [simp]:
  "\<not> refundable ''openai_error''" "\<not> refundable ''moderation_output''" "\<not> refundable ''moderation_pre_gen''"
  "\<not> refundable ''invalid_input''" "\<not> refundable ''palette_parse_error''" "\<not> refundable ''moderation_block''"
  by (simp_all add: refundable_def)

lemma keeps_left_parts [simp]:
  "keeps (left_with u a) (summarize_chat net i rid cost)" "keeps (left_with u a) (brainstorm net i rid cost prompt)"
  "keeps (left_with u a) (palette net i rid cost prompt)" "keeps (left_with u a) (mockup_command net k i rid tier prompt)"
  unfolding summarize_chat_def brainstorm_def palette_def mockup_command_def enqueue_prediction_def
  by (auto intro!: keeps_intros split: completion.split sum.split)

lemma keeps_left_commands: "keeps (left_with u a) (moderated_command net c i rid cost tier prompt)"
  by (simp add: moderated_command_def dispatch_command_def split: ai_command.split)

text \<open>What the reservation of a command does to billing-svc.\<close>

lemma reserve_runs:
  assumes reach: "credit_reach (\<lambda>_. True) (bill (work s))"
    and net: "nt_reserve net = Link_Up" "refused_with (nt_jwt net) (nt_headers net) = None" "ai_mapped (work s)" and cost: "0 < cost" "cost \<le> available_of (committed (bill (work s))) u"
    and fresh: "ai_reserve_key i \<notin> tx_keys (committed (bill (work s)))"
  shows "\<exists>b. reserve_for net u cost i s = (Inr (next_uuid (bill (work s))),
      s\<lparr>work := (work s)\<lparr>interactions := update_where (\<lambda>x. in_id x = i) (\<lambda>x. x\<lparr>in_reservation := Some (next_uuid (bill (work s)))\<rparr>) (interactions (work s)), bill := b\<rparr>,
        committed := (work s)\<lparr>interactions := update_where (\<lambda>x. in_id x = i) (\<lambda>x. x\<lparr>in_reservation := Some (next_uuid (bill (work s)))\<rparr>) (interactions (work s)), bill := b\<rparr>\<rparr>)
    \<and> credits_ok b \<and> available_of (committed b) u = available_of (committed (bill (work s))) u - cost
    \<and> pending_id (committed b) (next_uuid (bill (work s)))"
proof -
  let ?b = "(bill (work s))\<lparr>clock := clock s\<rparr>"
  let ?q = "reserve_credits_endpoint u cost ''ai_interaction'' (str_uuid i) (Some (ai_reserve_key i))"
  have r: "credit_reach (\<lambda>_. True) ?b" using credit_reach.request [OF reach, of "Cr_Tick (clock s)"] by simp
  have "ai_reserve_key i \<noteq> []" by (simp add: ai_reserve_key_def)
  from reserve_endpoint_effect [OF r cost(1) this, where kind = "''ai_interaction''" and ref = "str_uuid i" and u = u] fresh cost(2)
  obtain b where b: "?q ?b = (Inr (next_uuid (bill (work s))), b)"
    "available_of (committed b) u = available_of (committed (bill (work s))) u - cost"
    "pending_id (committed b) (next_uuid (bill (work s)))"
    by (auto split: prod.splits)
  have "credits_ok b" using credits_ok_reserve [OF credit_reach_ok [OF r], of u cost "''ai_interaction''" "str_uuid i" "Some (ai_reserve_key i)"] b(1) by simp
  with b net show ?thesis
    by (intro exI [of _ b]) (simp add: reserve_for_def ai_reserve_def call_billing_def comp_simps save_interaction_def)
qed

lemma credit_cost_pos: "0 < credit_cost c tier"
  by (cases c) (simp_all add: credit_cost_def credit_mockup_image_pro_def credit_mockup_image_basic_def
      credit_mockup_audio_pro_def credit_mockup_audio_basic_def credit_summarize_chat_def credit_brainstorm_def credit_palette_def)

text \<open>A command that billing-svc admits, that gets past the entitlement check with enough credits costs its price whatever becomes of it: blocked,
  invalid, failed by the model or answered, and whatever billing-svc answers to the commit or the refund, the
  credits the user has left are the price less. No branch gives a credit back.\<close>

theorem failed_commands_cost_their_price:
  assumes reach: "credit_reach (\<lambda>_. True) (bill (committed s))"
    and header: "parse_uuid header = Some u" "count_call u (clock s) (rates (committed s)) \<le> command_rate_per_minute"
    and mapped: "ai_mapped (committed s)" and admitted: "refused_with (nt_jwt net) (nt_headers net) = None"
    and tier: "nt_entitlement net = Ent_Up tier" "tier = ''premium'' \<or> tier = ''pro''"
    and reserve: "nt_reserve net = Link_Up" "credit_cost c tier \<le> available_of (committed (bill (committed s))) u"
    and fresh: "ai_reserve_key (next_uuid s) \<notin> tx_keys (committed (bill (committed s)))"
      "next_uuid s \<notin> in_id ` set (interactions (committed s))"
  shows "available_of (committed (bill (committed (snd (run_command net header room c prompt args s))))) u
    = available_of (committed (bill (committed s))) u - credit_cost c tier"
proof -
  let ?i = "next_uuid s" and ?cost = "credit_cost c tier"
  let ?p = "case prompt of None \<Rightarrow> [] | Some p \<Rightarrow> p"
  define w where "w = (committed s)\<lparr>rates := (rates (committed s))(u \<mapsto> (count_call u (clock s) (rates (committed s)), clock s + from_seconds 60)),
     interactions := interactions (committed s) @ [new_interaction ?i u None (Some room) c args ?cost Ai_Queued]\<rparr>"
  define s1 where "s1 = s\<lparr>next_uuid := Suc ?i, work := w\<rparr>"
  have nofault: "check_entitlement net s' = (Inr tier, s')" for s'
    using tier admitted by (auto simp: check_entitlement_def comp_simps)
  have clash: "\<not> list_ex (\<lambda>b. in_id (new_interaction ?i u None (Some room) c args ?cost Ai_Queued) = in_id b) (interactions (committed s))"
    using fresh(2) by (auto simp: list_ex_iff new_interaction_def)
  obtain s2 where s2: "reserve_for net u ?cost ?i s1 = (Inr (next_uuid (bill (committed s))), s2)"
    "left_with u (available_of (committed (bill (committed s))) u - ?cost) s2"
    using reserve_runs [of s1 net ?cost u ?i] reach reserve mapped admitted credit_cost_pos [of c tier] fresh(1)
    by (auto simp: s1_def w_def left_with_def)
  let ?rid = "next_uuid (bill (committed s))"
  have "snd (run_command net header room c prompt args s) = 
    (let s3 = snd (moderated_command net c ?i ?rid ?cost tier ?p s2) in s3\<lparr>committed := outside (committed s3) (work s3), work := outside (committed s3) (work s3)\<rparr>)"
    using header s2(1) clash nofault mapped
    by (simp add: run_command_def ai_session_def comp_simps ai_caller_def rate_limit_def Let_def add_interaction_def
        s1_def w_def split: prod.split)
  then show ?thesis
    using keepsD [OF keeps_left_commands s2(2), of net c ?i ?rid ?cost tier ?p]
    by (simp add: Let_def outside_def left_with_def)
qed

end
