(* ===== verification/AI_World.thy ===== *)
theory AI_World
  imports AI_Claims
begin

text \<open>
  The requests of ai-orchestrator-svc as one step function, the invariant of its consents, and what
  an approved consent does to its collaboration.
\<close>

section \<open>Requests\<close>

datatype ai_request =
    Ai_Command ai_net string uuid ai_command "string option" "(string \<times> json) list"
  | Ai_Consent ai_net participants_reply string uuid int string generation_kind
  | Ai_Screenshot string uuid platform datetime
  | Ai_Webhook ai_net "string \<Rightarrow> string" string "string option" prediction_event
  | Ai_Stored uuid uuid "string option"
  | Ai_Expire_Assets
  | Ai_Expire_Consents
  | Ai_Billing credit_request
  | Ai_Wait nat

fun ai_step :: "ai_request \<Rightarrow> ai_sess \<Rightarrow> ai_sess" where
  "ai_step (Ai_Command net header room c prompt args) s = snd (run_command net header room c prompt args s)"
| "ai_step (Ai_Consent net reply header collab lifespan brief k) s = snd (mockup_consent_endpoint net reply header collab lifespan brief k s)"
| "ai_step (Ai_Screenshot header asset p t) s = snd (screenshot_event header asset p t s)"
| "ai_step (Ai_Webhook net mac body header ev) s = snd (replicate_webhook net mac body header ev s)"
| "ai_step (Ai_Stored i asset p) s = snd (store_prediction i asset p s)"
| "ai_step Ai_Expire_Assets s = snd (expire_mockup_assets s)"
| "ai_step Ai_Expire_Consents s = snd (expire_pending_consents s)"
| "ai_step (Ai_Billing q) s = s\<lparr>committed := (committed s)\<lparr>bill := credit_exec q (bill (committed s))\<rparr>\<rparr>"
| "ai_step (Ai_Wait us) s = s\<lparr>clock := clock s + int us\<rparr>"

definition ai_run :: "ai_request list \<Rightarrow> ai_sess \<Rightarrow> ai_sess" where
  "ai_run qs s = fold ai_step qs s"

section \<open>What every operation may touch\<close>

lemma keeps_retried_aux: "keeps I m \<Longrightarrow> keeps I (catch_any m (\<lambda>e. raise e'))"
  by (fastforce simp: keeps_def catch_any_def raise_run split: prod.split sum.split)

lemma keeps_retried: "keeps I m \<Longrightarrow> keeps I (retried m)"
  by (simp add: retried_def keeps_retried_aux)

lemma keeps_catch_any: "keeps I m \<Longrightarrow> (\<And>e. keeps I (h e)) \<Longrightarrow> keeps I (catch_any m h)"
  by (fastforce simp: keeps_def catch_any_def split: prod.split sum.split)

text \<open>
  An invariant that does not look at what the operations outside the consents write, with the answers the world
  gives: the commands, the generation of a mockup and the webhook all keep it. The state of billing-svc changes
  only where billing-svc admits the caller.
\<close>

locale quiet_service =
  fixes I :: "ai_sess \<Rightarrow> bool" and net :: ai_net
  assumes quiet_interactions: "I s \<Longrightarrow> I (s\<lparr>work := (work s)\<lparr>interactions := xs\<rparr>\<rparr>)"
    and quiet_assets: "I s \<Longrightarrow> I (s\<lparr>work := (work s)\<lparr>assets := ys\<rparr>\<rparr>)"
    and quiet_screenshots: "I s \<Longrightarrow> I (s\<lparr>work := (work s)\<lparr>screenshots := zs\<rparr>\<rparr>)"
    and quiet_rates: "I s \<Longrightarrow> I (s\<lparr>work := (work s)\<lparr>rates := r\<rparr>\<rparr>)"
    and quiet_bill: "I s \<Longrightarrow> refused_with (nt_jwt net) (nt_headers net) = None \<Longrightarrow> I (s\<lparr>work := (work s)\<lparr>bill := b\<rparr>\<rparr>)"
    and quiet_processed: "I s \<Longrightarrow> I (s\<lparr>work := (work s)\<lparr>processed := (processed (work s))(p \<mapsto> clock s + from_seconds idempotency_ttl)\<rparr>\<rparr>)"
    and quiet_commit: "I s \<Longrightarrow> I (s\<lparr>committed := work s\<rparr>)"
    and quiet_uuid: "I s \<Longrightarrow> I (s\<lparr>next_uuid := Suc (next_uuid s)\<rparr>)"
    and quiet_outbox: "I s \<Longrightarrow> I (s\<lparr>outbox := ms\<rparr>)"
    and quiet_start: "I s \<Longrightarrow> I (s\<lparr>work := committed s\<rparr>)"
    and quiet_close: "I s \<Longrightarrow> I (s\<lparr>committed := outside (committed s) (work s), work := outside (committed s) (work s)\<rparr>)"
begin

lemmas quiet_laws = quiet_interactions quiet_assets quiet_screenshots quiet_rates quiet_bill quiet_processed quiet_commit quiet_uuid quiet_outbox

lemma quiet_prims [simp]:
  "keeps I (save_interaction i f)" "keeps I (add_asset x)" "keeps I (save_asset j g)"
  "keeps I (add_interaction y)" "keeps I (publish_c msg)" "keeps I uuid4"
  "keeps I commit_c" "keeps I (rate_limit u n)" "keeps I (mark_processed p)"
  "keeps I (is_processed p)" "keeps I (call_billing net link m)" "keeps I (ai_caller header)"
  "keeps I (first_row tbl P)" "keeps I (check_entitlement net)"
  by (auto simp: keeps_def comp_simps quiet_laws save_interaction_def add_asset_def save_asset_def add_interaction_def
      rate_limit_def mark_processed_def is_processed_def call_billing_def ai_caller_def first_row_def check_entitlement_def Let_def
      split: billing_link.split prod.split option.split ent_reply.split)

lemma quiet_client [simp]:
  "keeps I (ai_release net rid reason)" "keeps I (ai_commit net rid)"
  "keeps I (ai_reserve net u amount i)" "keeps I (release_of net x reason)"
  "keeps I (or_new v)" "keeps I (lifespan_of a)" "keeps I (file_moderation_case j)"
  unfolding ai_release_def ai_commit_def ai_reserve_def release_of_def or_new_def lifespan_of_def file_moderation_case_def
  by (auto intro!: keeps_intros split: sum.split option.split)

lemma quiet_saved: "I s \<Longrightarrow> I (s\<lparr>work := (work s)\<lparr>interactions := xs\<rparr>, committed := (work s)\<lparr>interactions := xs\<rparr>\<rparr>)"
  using quiet_commit [OF quiet_interactions, of s xs] by simp

lemma keeps_reserve_for [simp]: "keeps I (reserve_for net u cost i)"
proof (rule keepsI)
  fix s assume "I s"
  then have "I (snd (ai_reserve net u cost i s))" by (rule keepsD [OF quiet_client(3)])
  then show "I (snd (reserve_for net u cost i s))"
    by (auto simp: reserve_for_def comp_simps quiet_saved save_interaction_def split: prod.split sum.split exn.split)
qed

lemma keeps_ends [simp]:
  "keeps I (fail_command net i rid st why reason e)" "keeps I (complete_command net i rid n_in n_out)"
  by (auto simp: fail_command_def complete_command_def intro!: keeps_intros)

lemma keeps_commands [simp]:
  "keeps I (summarize_chat net i rid cost)" "keeps I (brainstorm net i rid cost prompt)"
  "keeps I (palette net i rid cost prompt)" "keeps I (mockup_command net k i rid tier prompt)"
  unfolding summarize_chat_def brainstorm_def palette_def mockup_command_def enqueue_prediction_def
  by (auto intro!: keeps_intros split: completion.split sum.split)

lemma keeps_moderated [simp]: "keeps I (moderated_command net c i rid cost tier prompt)"
  by (simp add: moderated_command_def dispatch_command_def split: ai_command.split)

lemma keeps_webhook [simp]:
  "keeps I (handle_failure net x asset reason)" "keeps I (block_mockup net x asset score)"
  "keeps I (deliver_mockup net x asset k score)" "keeps I (handle_success net x asset url)"
  unfolding handle_failure_def block_mockup_def deliver_mockup_def handle_success_def Let_def
  by (auto intro!: keeps_intros split: option.split)

lemma keeps_case:
  assumes "\<And>e. keeps I (f e)" "\<And>a. keeps I (g a)" "keeps I m"
  shows "keeps I (\<lambda>s. case m s of (Inl e, s1) \<Rightarrow> f e s1 | (Inr a, s1) \<Rightarrow> g a s1)"
  using assms by (fastforce simp: keeps_def split: prod.split sum.split)

lemma keeps_generate: "keeps I (generate_mockup net u collab c)"
proof -
  have step: "keeps I (\<lambda>s2. case ai_reserve net u cost i s2 of
              (Inl (InsufficientCreditsError b r), s3) \<Rightarrow> f s3
            | (Inl e, s3) \<Rightarrow> (Inl e, s3)
            | (Inr rid, s3) \<Rightarrow> g rid s3)"
    if "keeps I f" "\<And>rid. keeps I (g rid)"
    for cost i and f :: "consent_answer ai_comp" and g :: "uuid \<Rightarrow> consent_answer ai_comp"
  proof (rule keepsI)
    fix s assume "I s"
    from keepsD [OF quiet_client(3) this, of u cost i] keepsD [OF that(1)] keepsD [OF that(2)]
    show "I (snd (case ai_reserve net u cost i s of
              (Inl (InsufficientCreditsError b r), s3) \<Rightarrow> f s3
            | (Inl e, s3) \<Rightarrow> (Inl e, s3)
            | (Inr rid, s3) \<Rightarrow> g rid s3))"
      by (cases "ai_reserve net u cost i s") (simp split: sum.split exn.split)
  qed
  have top: "keeps I (\<lambda>s. case check_entitlement net s of (Inl e, s1) \<Rightarrow> (Inl e0, s1) | (Inr tier, s1) \<Rightarrow> g tier s1)"
    if "\<And>tier. keeps I (g tier)" for e0 and g :: "string \<Rightarrow> consent_answer ai_comp"
    by (rule keeps_case [where f = "\<lambda>_ s1. (Inl e0, s1)"]) (simp_all add: that, simp add: keeps_def)
  show ?thesis unfolding generate_mockup_def Let_def enqueue_prediction_def
    by (intro top keeps_intros step) simp_all
qed

lemma keeps_ai_session: "keeps I m \<Longrightarrow> keeps I (ai_session m)"
  by (auto simp: keeps_def ai_session_def split: prod.split intro: quiet_close)
    (metis quiet_start quiet_close snd_conv)

text \<open>The requests that leave the consents alone.\<close>

lemma keeps_command: "keeps I (run_command net header room c prompt args)"
proof -
  have entitled: "keeps I (\<lambda>s. case check_entitlement net s of
        (Inl EntitlementError, s1) \<Rightarrow> bind_c uuid4 (\<lambda>i. seq_c (add_interaction (x i)) (seq_c commit_c (raise insufficient))) s1
      | (Inl e, s1) \<Rightarrow> (Inl e, s1)
      | (Inr tier, s1) \<Rightarrow> g tier s1)" if "\<And>tier. keeps I (g tier)" for x and g :: "string \<Rightarrow> ai_answer ai_comp"
  proof (rule keepsI)
    fix s assume c: "I s"
    have "keeps I (bind_c uuid4 (\<lambda>i. seq_c (add_interaction (x i)) (seq_c commit_c (raise insufficient :: ai_answer ai_comp))))"
      by (intro keeps_intros) simp_all
    from keepsD [OF this c] keepsD [OF that c] c
    show "I (snd (case check_entitlement net s of
        (Inl EntitlementError, s1) \<Rightarrow> bind_c uuid4 (\<lambda>i. seq_c (add_interaction (x i)) (seq_c commit_c (raise insufficient))) s1
      | (Inl e, s1) \<Rightarrow> (Inl e, s1)
      | (Inr tier, s1) \<Rightarrow> g tier s1))"
      by (auto simp: check_entitlement_def entitlement_error_def comp_simps split: ent_reply.split option.split)
  qed
  show ?thesis unfolding run_command_def Let_def
    by (intro keeps_ai_session keeps_intros entitled) simp_all
qed

lemma keeps_replicate: "keeps I (replicate_webhook net mac body header ev)"
  unfolding replicate_webhook_def
  by (rule keeps_ai_session) (auto intro!: keeps_intros keeps_catch_any split: option.split)

lemma keeps_stored: "keeps I (store_prediction i asset p)"
proof -
  have "keeps I (\<lambda>s. if b s then (Inl e, s) else seq_c (save_interaction i f) (seq_c (save_asset asset g) commit_c) s)" for b e f g
  proof (rule keepsI)
    fix s assume c: "I s"
    have "keeps I (seq_c (save_interaction i f) (seq_c (save_asset asset g) commit_c))" by (intro keeps_intros) simp_all
    from keepsD [OF this c] c show "I (snd (if b s then (Inl e, s) else seq_c (save_interaction i f) (seq_c (save_asset asset g) commit_c) s))"
      by simp
  qed
  then show ?thesis unfolding store_prediction_def by (intro keeps_ai_session) (simp add: keeps_retried keeps_orm split: option.split)
qed

lemma keeps_screenshot_and_expiry:
  "keeps I (screenshot_event header asset p t)" "keeps I expire_mockup_assets"
  unfolding screenshot_event_def expire_mockup_assets_def
  by (auto intro!: keeps_ai_session keeps_retried keeps_intros keeps_orm quiet_laws split: option.split
      simp: keeps_def [of _ "modify_table _ _ _"] comp_simps)

end

text \<open>An invariant that does not look at the consents either is kept by every request.\<close>

locale quiet_endpoint = quiet_service +
  assumes silent_consents: "I s \<Longrightarrow> I (s\<lparr>work := (work s)\<lparr>consents := cs\<rparr>\<rparr>)"
begin

lemma keeps_consent_endpoint: "keeps I (mockup_consent_endpoint net reply header collab life brief k)"
  unfolding mockup_consent_endpoint_def create_consent_def approve_consent_def require_participant_def Let_def
  by (auto intro!: keeps_ai_session keeps_intros keeps_generate keeps_orm split: option.split
      simp: save_consent_def keeps_def [of _ "modify_table _ _ _"] keeps_def [of _ "db_insert _ _ _ _ _"] comp_simps silent_consents)

lemma keeps_expire_consents: "keeps I expire_pending_consents"
  unfolding expire_pending_consents_def
  by (auto intro!: keeps_ai_session keeps_retried keeps_intros keeps_orm simp: keeps_def [of _ "modify_table _ _ _"] comp_simps
      silent_consents quiet_commit)

end

text \<open>With the clock and the other requests to billing-svc, every step keeps it.\<close>

locale silent =
  fixes I :: "ai_sess \<Rightarrow> bool"
  assumes silent_quiet: "quiet_endpoint I net"
    and silent_wait: "I s \<Longrightarrow> I (s\<lparr>clock := clock s + int us\<rparr>)"
    and silent_billing: "I s \<Longrightarrow> I (s\<lparr>committed := (committed s)\<lparr>bill := b\<rparr>\<rparr>)"
begin

lemmas silent_service = quiet_endpoint.axioms(1) [OF silent_quiet]

lemma silent_step: "I s \<Longrightarrow> I (ai_step q s)"
  using keepsD [OF quiet_service.keeps_command [OF silent_service]] keepsD [OF quiet_endpoint.keeps_consent_endpoint [OF silent_quiet]]
    keepsD [OF quiet_service.keeps_replicate [OF silent_service]] keepsD [OF quiet_service.keeps_stored [OF silent_service]]
    keepsD [OF quiet_service.keeps_screenshot_and_expiry(1) [OF silent_service]]
    keepsD [OF quiet_service.keeps_screenshot_and_expiry(2) [OF silent_service]]
    keepsD [OF quiet_endpoint.keeps_expire_consents [OF silent_quiet]]
  by (cases q) (simp_all add: silent_wait silent_billing)

lemma silent_run: "I s \<Longrightarrow> I (ai_run qs s)"
  unfolding ai_run_def by (induction qs arbitrary: s) (simp_all add: silent_step)

end

section \<open>Requests that leave the consents alone\<close>

definition consents_in :: "mockup_consent list set \<Rightarrow> ai_sess \<Rightarrow> bool" where
  "consents_in P s \<longleftrightarrow> consents (work s) \<in> P \<and> consents (committed s) \<in> P"

interpretation kept: quiet_service "consents_in P" net for P net
  by unfold_locales (simp_all add: consents_in_def outside_def)


lemma consents_in_start: "consents_in {consents (committed s)} (s\<lparr>work := committed s\<rparr>)"
  by (simp add: consents_in_def)

lemma session_restart: "ai_session m (s\<lparr>work := committed s\<rparr>) = ai_session m s"
  by (simp add: ai_session_def)

lemma quiet_request:
  assumes "keeps (consents_in {consents (committed s)}) m" "m (s\<lparr>work := committed s\<rparr>) = m s"
  shows "consents (committed (snd (m s))) = consents (committed s)"
  using keepsD [OF assms(1) consents_in_start] assms(2) by (simp add: consents_in_def)

lemma quiet_requests:
  "consents (committed (snd (run_command net header room c prompt args s))) = consents (committed s)"
  "consents (committed (snd (replicate_webhook net mac body header2 ev s))) = consents (committed s)"
  "consents (committed (snd (store_prediction i asset p s))) = consents (committed s)"
  "consents (committed (snd (screenshot_event header asset2 pl t s))) = consents (committed s)"
  "consents (committed (snd (expire_mockup_assets s))) = consents (committed s)"
  by (rule quiet_request, rule kept.keeps_command kept.keeps_replicate kept.keeps_stored kept.keeps_screenshot_and_expiry,
      simp add: run_command_def replicate_webhook_def store_prediction_def screenshot_event_def expire_mockup_assets_def session_restart)+

section \<open>The consents of a collaboration\<close>

text \<open>The rows never clash: ids are unique and a collaboration has at most one open consent.\<close>

definition consents_ok :: "mockup_consent list \<Rightarrow> bool" where
  "consents_ok cs \<longleftrightarrow> sorted_wrt (\<lambda>a b. \<not> consent_clash a b) cs"

lemma consents_ok_append:
  "consents_ok (cs @ [c]) \<longleftrightarrow> consents_ok cs \<and> \<not> list_ex (consent_clash c) cs"
  by (auto simp: consents_ok_def sorted_wrt_append list_ex_iff consent_clash_def)

lemma consents_ok_update:
  assumes "consents_ok cs" and f: "\<And>c. c \<in> set cs \<Longrightarrow> P c \<Longrightarrow> mk_id (f c) = mk_id c \<and> mk_collab (f c) = mk_collab c \<and> (open_consent (f c) \<longrightarrow> open_consent c)"
  shows "consents_ok (update_where P f cs)"
proof -
  have "sorted_wrt (\<lambda>a b. \<not> consent_clash (if P a then f a else a) (if P b then f b else b)) cs"
    by (rule sorted_wrt_mono_rel [OF _ assms(1) [unfolded consents_ok_def]]) (use f in \<open>auto simp: consent_clash_def\<close>)
  then show ?thesis by (simp add: consents_ok_def update_where_def sorted_wrt_map)
qed

text \<open>Rows with the same id are the same row.\<close>

lemma consents_ok_same:
  assumes "consents_ok cs" "a \<in> set cs" "b \<in> set cs" "mk_id a = mk_id b \<or> (open_consent a \<and> open_consent b \<and> mk_collab a = mk_collab b)"
  shows "a = b"
  using assms by (induction cs) (auto simp: consents_ok_def consent_clash_def)

text \<open>What a consent request does to the consents: nothing, a new row that clashes with none, or the approval of the first open one.\<close>

definition approval :: "datetime \<Rightarrow> mockup_consent \<Rightarrow> mockup_consent list \<Rightarrow> mockup_consent list" where
  "approval now c cs = update_where (\<lambda>x. mk_id x = mk_id c) (approved now) cs"

lemma approve_effect:
  "consents (committed (snd (ai_session (approve_consent net u collab c) s)))
     \<in> {consents (committed s), approval (clock s) c (consents (committed s))}"
proof -
  let ?P = "{consents (committed s), approval (clock s) c (consents (committed s))}"
  have "consents_in ?P (s\<lparr>work := (committed s)\<lparr>consents := approval (clock s) c (consents (committed s))\<rparr>\<rparr>)"
    by (simp add: consents_in_def)
  from keepsD [OF kept.keeps_generate this, of net u collab c]
  show ?thesis by (auto simp: ai_session_def approve_consent_def comp_simps save_consent_def outside_def
      consents_in_def approval_def split: prod.split)
qed

definition expired_rows :: "datetime \<Rightarrow> mockup_consent list \<Rightarrow> mockup_consent list" where
  "expired_rows now = update_where (stale_consent now) (\<lambda>c. c\<lparr>mk_status := Consent_Expired\<rparr>)"

inductive consents_move :: "mockup_consent list \<Rightarrow> mockup_consent list \<Rightarrow> bool" where
  stays: "consents_move cs cs"
| asked: "\<not> list_ex (consent_clash c) cs \<Longrightarrow> consents_move cs (cs @ [c])"
| accepted: "c \<in> set cs \<Longrightarrow> mk_status c = Pending_B \<Longrightarrow> consents_move cs (approval now c cs)"
| lapsed: "consents_move cs (expired_rows now cs)"

lemma first_of_filter: "first_of (filter P xs) = Some x \<Longrightarrow> x \<in> set xs \<and> P x"
  by (auto simp: first_of_def filter_eq_Cons_iff split: list.splits)

lemma create_moves:
  "consents_move (consents (committed s)) (consents (committed (snd (ai_session (create_consent collab u life brief k) s))))"
  by (auto simp: ai_session_def create_consent_def comp_simps outside_def intro: consents_move.intros split: prod.split)

lemma endpoint_consents:
  "consents_move (consents (committed s)) (consents (committed (snd (mockup_consent_endpoint net reply header collab life brief k s))))"
proof (cases "parse_uuid header")
  case None
  then show ?thesis by (simp add: mockup_consent_endpoint_def ai_caller_def ai_session_def comp_simps outside_def stays)
next
  case (Some u)
  show ?thesis
  proof (cases "ai_mapped (committed s)")
    case False
    then show ?thesis
      by (auto simp: mockup_consent_endpoint_def ai_caller_def ai_session_def comp_simps outside_def require_participant_def Let_def
          first_row_def stays split: option.split)
  next
    case mapped: True
    let ?found = "first_of (filter (open_for collab) (consents (committed s)))"
    show ?thesis
    proof (cases "get_collab_participants reply \<noteq> [] \<and> u \<notin> set (get_collab_participants reply)")
      case True
      with Some show ?thesis
        by (simp add: mockup_consent_endpoint_def ai_caller_def ai_session_def comp_simps outside_def require_participant_def Let_def stays)
    next
      case False
      then have "snd (mockup_consent_endpoint net reply header collab life brief k s) = snd (ai_session (case ?found of
          None \<Rightarrow> create_consent collab u life brief k
        | Some c \<Rightarrow>
            if mk_status c = Pending_B \<and> mk_requested_by c \<noteq> u then approve_consent net u collab c
            else if mk_requested_by c = u then raise (HTTPException 409 ''Consent already exists'')
            else create_consent collab u life brief k) s)"
        using Some mapped by (auto simp: mockup_consent_endpoint_def ai_caller_def ai_session_def comp_simps require_participant_def first_row_def Let_def)
      moreover have "consents_move (consents (committed s)) (consents (committed (snd (ai_session (approve_consent net u collab c) s))))"
        if "?found = Some c" "mk_status c = Pending_B" for c
        using approve_effect [of net u collab c s] first_of_filter [OF that(1)] that(2) by (auto intro: consents_move.intros)
      ultimately show ?thesis
        by (auto simp: create_moves split: option.split) (simp_all add: ai_session_def comp_simps outside_def stays)
    qed
  qed
qed

lemma step_consents: "consents_move (consents (committed s)) (consents (committed (ai_step q s)))"
proof (cases q)
  case Ai_Expire_Consents
  then show ?thesis using lapsed
    by (auto simp: expire_pending_consents_def ai_session_def comp_simps retried_def catch_any_def outside_def expired_rows_def stays)
qed (simp_all add: endpoint_consents quiet_requests stays)

lemma move_ok: "consents_move cs cs' \<Longrightarrow> consents_ok cs \<Longrightarrow> consents_ok cs'"
proof (induction rule: consents_move.induct)
  case (accepted c cs now)
  have "open_consent x" if "x \<in> set cs" "mk_id x = mk_id c" for x
    using consents_ok_same [OF accepted.prems that(1) accepted.hyps(1)] that(2) accepted.hyps(2) by (simp add: open_consent_def)
  then show ?case unfolding approval_def by (intro consents_ok_update accepted.prems) (simp add: approved_def)
next
  case (lapsed cs now)
  then show ?case unfolding expired_rows_def by (rule consents_ok_update) (simp add: open_consent_def)
qed (simp_all add: consents_ok_append)

lemma move_approved:
  "consents_move cs cs' \<Longrightarrow> consents_ok cs \<Longrightarrow> x \<in> set cs \<Longrightarrow> mk_status x = Approved \<Longrightarrow> x \<in> set cs'"
proof (induction rule: consents_move.induct)
  case (accepted c cs now)
  then have "mk_id x \<noteq> mk_id c" using consents_ok_same [of cs x c] by auto
  with accepted.prems show ?case by (force simp: approval_def update_where_def)
next
  case (lapsed cs now)
  then show ?case by (force simp: expired_rows_def update_where_def stale_consent_def)
qed simp_all

lemma run_consents:
  assumes "consents_ok (consents (committed s))"
  shows "consents_ok (consents (committed (ai_run qs s)))"
    and "x \<in> set (consents (committed s)) \<Longrightarrow> mk_status x = Approved \<Longrightarrow> x \<in> set (consents (committed (ai_run qs s)))"
  unfolding ai_run_def using assms
proof (induction qs arbitrary: s)
  case (Cons q qs)
  case 1
  then show ?case using Cons.IH(1) move_ok [OF step_consents] by simp
next
  case (Cons q qs)
  case 2
  then show ?case using Cons.IH(2) move_ok [OF step_consents] move_approved [OF step_consents] by simp
qed simp_all

lemma approved_found:
  assumes ok: "consents_ok cs" and x: "x \<in> set cs" "mk_status x = Approved"
  shows "first_of (filter (open_for (mk_collab x)) cs) = Some x"
proof -
  have o: "open_for (mk_collab x) x" using x(2) by (simp add: open_for_def open_consent_def)
  then have "filter (open_for (mk_collab x)) cs \<noteq> []" using x(1) by (auto simp: filter_empty_conv)
  then obtain y ys where y: "filter (open_for (mk_collab x)) cs = y # ys" by (cases "filter (open_for (mk_collab x)) cs") auto
  then have "y \<in> set cs" "open_for (mk_collab x) y" by (auto simp: filter_eq_Cons_iff)
  with o have "y = x" by (intro consents_ok_same [OF ok _ x(1)]) (auto simp: open_for_def)
  with y show ?thesis by (simp add: first_of_def)
qed

section \<open>Replicate's deliveries\<close>

definition answered_until :: "string \<Rightarrow> datetime \<Rightarrow> ai_sess \<Rightarrow> bool" where
  "answered_until p t s \<longleftrightarrow> (\<exists>t1\<ge>t. processed (work s) p = Some t1) \<and> (\<exists>t2\<ge>t. processed (committed s) p = Some t2)
     \<and> t \<le> clock s + from_seconds idempotency_ttl"

interpretation told: silent "answered_until p t" for p t
proof (rule silent.intro)
  show "quiet_endpoint (answered_until p t) net" for net
    by unfold_locales (auto simp: answered_until_def outside_def from_seconds_def)
qed (auto simp: answered_until_def)

text \<open>Whether the mappers can be configured never changes.\<close>

definition mapping_is :: "bool \<Rightarrow> ai_sess \<Rightarrow> bool" where
  "mapping_is b s \<longleftrightarrow> ai_mapped (work s) = b \<and> ai_mapped (committed s) = b"

interpretation mapping: silent "mapping_is b" for b
proof (rule silent.intro)
  show "quiet_endpoint (mapping_is b) net" for net
    by unfold_locales (simp_all add: mapping_is_def outside_def)
qed (simp_all add: mapping_is_def)

interpretation timed: quiet_service "\<lambda>s. clock s = t" net for t net
  by unfold_locales simp_all

text \<open>A delivery that was answered is remembered for a day, whichever answer it got.\<close>

definition remembers :: "string \<Rightarrow> datetime \<Rightarrow> string ai_comp \<Rightarrow> bool" where
  "remembers p t m \<longleftrightarrow> (\<forall>s a s1. clock s = t \<longrightarrow> m s = (Inr a, s1) \<longrightarrow> a \<noteq> ''already_processed''
     \<longrightarrow> clock s1 = t \<and> processed (work s1) p = Some (t + from_seconds idempotency_ttl))"

lemma remembers_bind:
  assumes "keeps (\<lambda>s. clock s = t) m" "\<And>a. remembers p t (f a)"
  shows "remembers p t (bind_c m f)"
  unfolding remembers_def
proof (intro allI impI)
  fix s a s1 assume r: "clock s = t" "bind_c m f s = (Inr a, s1)" "a \<noteq> ''already_processed''"
  from r(2) obtain b s' where b: "m s = (Inr b, s')" "f b s' = (Inr a, s1)"
    by (auto simp: comp_simps split: prod.splits sum.splits)
  with keepsD [OF assms(1) r(1)] have "clock s' = t" by simp
  with assms(2) [of b] b(2) r(3) show "clock s1 = t \<and> processed (work s1) p = Some (t + from_seconds idempotency_ttl)"
    unfolding remembers_def by blast
qed

lemma remembers_seq: "keeps (\<lambda>s. clock s = t) m \<Longrightarrow> remembers p t k \<Longrightarrow> remembers p t (seq_c m k)"
  by (simp add: seq_c_def remembers_bind)

lemma remembers_ends:
  "remembers p t (seq_c (mark_processed p) (ret b))" "remembers p t (ret ''already_processed'')" "remembers p t (raise e)"
  by (simp_all add: remembers_def comp_simps mark_processed_def)

lemma answered_marks:
  assumes ran: "replicate_webhook net mac body header ev s = (Inr a, s1)" "a \<noteq> ''already_processed''"
  shows "answered_until (pe_id ev) (clock s + from_seconds idempotency_ttl) s1"
proof -
  have "\<exists>m. replicate_webhook net mac body header ev = ai_session m \<and> remembers (pe_id ev) (clock s) m"
    unfolding replicate_webhook_def
    by (rule exI, rule conjI, rule refl)
       (simp add: remembers_ends remembers_bind remembers_seq keeps_catch_any split: option.split)
  then obtain m where m: "replicate_webhook net mac body header ev = ai_session m" "remembers (pe_id ev) (clock s) m" by blast
  obtain b s0 where b: "m (s\<lparr>work := committed s\<rparr>) = (b, s0)" by fastforce
  with ran(1) m(1) have eq: "b = Inr a" "s1 = s0\<lparr>committed := outside (committed s0) (work s0), work := outside (committed s0) (work s0)\<rparr>"
    by (simp_all add: ai_session_def)
  have "clock s0 = clock s \<and> processed (work s0) (pe_id ev) = Some (clock s + from_seconds idempotency_ttl)"
    using m(2) [unfolded remembers_def, rule_format, of "s\<lparr>work := committed s\<rparr>" a s0] b eq(1) ran(2) by simp
  then show ?thesis by (simp add: eq answered_until_def outside_def)
qed

text \<open>A further delivery of the same prediction within the day changes nothing.\<close>

lemma answered_inert:
  assumes "answered_until p t s" "clock s < t" "pe_id ev = p" "p \<noteq> []" "verify_webhook_signature mac body header"
  shows "replicate_webhook net mac body header ev s = (Inr ''already_processed'', s\<lparr>work := committed s\<rparr>)"
  using assms by (auto simp: answered_until_def replicate_webhook_def ai_session_def comp_simps is_processed_def outside_def)

text \<open>A delivery that arrives before the worker has stored its prediction is lost: it is answered \<open>unknown_prediction\<close>,
  touches neither interaction nor asset nor credit, and once the prediction is stored and whatever else
  has happened, every further delivery of it within the day, however it ended, is answered
  \<open>already_processed\<close> and changes nothing: neither delivered nor refunded.\<close>

theorem early_delivery_is_lost:
  assumes mapped: "ai_mapped (committed s)"
    and early: "\<forall>x \<in> set (interactions (committed s)). in_prediction x \<noteq> Some (pe_id ev)" "processed (committed s) (pe_id ev) = None"
    and good: "pe_id ev \<noteq> []" "verify_webhook_signature mac body header"
    and again: "pe_id ev2 = pe_id ev" "verify_webhook_signature mac body2 header2"
    and s1: "s1 = snd (replicate_webhook net mac body header ev s)"
    and s2: "s2 = ai_run (Ai_Stored i asset (Some (pe_id ev)) # later) s1" "clock s2 < clock s + from_seconds 86400"
  shows "fst (replicate_webhook net mac body header ev s) = Inr ''unknown_prediction''
    \<and> committed s1 = (committed s)\<lparr>processed := (processed (committed s))(pe_id ev \<mapsto> clock s + from_seconds 86400)\<rparr>
    \<and> replicate_webhook net2 mac body2 header2 ev2 s2 = (Inr ''already_processed'', s2\<lparr>work := committed s2\<rparr>)"
proof -
  have none: "filter (\<lambda>x. in_prediction x = Some (pe_id ev)) (interactions (committed s)) = []"
    using early(1) by (simp add: filter_empty_conv)
  have run: "replicate_webhook net mac body header ev s = (Inr ''unknown_prediction'', s1)"
    and c1: "committed s1 = (committed s)\<lparr>processed := (processed (committed s))(pe_id ev \<mapsto> clock s + from_seconds 86400)\<rparr>"
    using early(2) good none mapped
    by (auto simp: s1 replicate_webhook_def ai_session_def comp_simps is_processed_def first_row_def first_of_def
        mark_processed_def outside_def idempotency_ttl_def)
  have "answered_until (pe_id ev) (clock s + from_seconds idempotency_ttl) s2"
    unfolding s2(1) by (rule told.silent_run [OF answered_marks [OF run]]) simp
  then have "replicate_webhook net2 mac body2 header2 ev2 s2 = (Inr ''already_processed'', s2\<lparr>work := committed s2\<rparr>)"
    using s2(2) again good(1) by (intro answered_inert) (simp_all add: idempotency_ttl_def)
  with run c1 show ?thesis by simp
qed

section \<open>The service as it is deployed\<close>

text \<open>Where the mappers cannot be configured a request changes nothing but a rate counter.\<close>

fun asked_billing :: "ai_request \<Rightarrow> credit_request list" where
  "asked_billing (Ai_Billing q) = [q]"
| "asked_billing q = []"

lemma entitlement_pure: "\<exists>x. \<forall>s. check_entitlement net s = (x, s)"
  by (auto simp: check_entitlement_def comp_simps split: ent_reply.split option.split)

lemma run_command_cases:
  assumes "\<And>s. check_entitlement net s = (x, s)"
  shows "run_command net header room c prompt args = ai_session (bind_c (ai_caller header) (\<lambda>u.
     seq_c (rate_limit u command_rate_per_minute) (case x of
       Inl e \<Rightarrow> if e = EntitlementError
         then bind_c uuid4 (\<lambda>i. seq_c (add_interaction (new_interaction i u None (Some room) c args 0 Ai_Rejected))
            (seq_c commit_c (raise insufficient)))
         else raise e
     | Inr tier \<Rightarrow> bind_c uuid4 (\<lambda>i. let cost = credit_cost c tier in
            seq_c (add_interaction (new_interaction i u None (Some room) c args cost Ai_Queued))
           (bind_c (reserve_for net u cost i) (\<lambda>rid.
              moderated_command net c i rid cost tier (case prompt of None \<Rightarrow> [] | Some p \<Rightarrow> p)))))))"
proof (cases x)
  case (Inl e)
  then show ?thesis unfolding run_command_def assms by (cases e) (simp_all add: raise_def)
qed (simp add: run_command_def assms)

lemma unmapped_command:
  assumes "\<not> ai_mapped (committed s)"
  shows "(\<exists>e. fst (run_command net header room c prompt args s) = Inl e)
    \<and> (\<exists>r. committed (snd (run_command net header room c prompt args s)) = (committed s)\<lparr>rates := r\<rparr>)"
proof -
  obtain x where x: "check_entitlement net s1 = (x, s1)" for s1 using entitlement_pure [of net] by blast
  show ?thesis
  proof (cases "parse_uuid header")
    case None
    then show ?thesis
      by (auto simp: run_command_cases [OF x] ai_session_def comp_simps ai_caller_def outside_def
          intro: exI [of _ "rates (committed s)"])
  next
    case (Some u)
    then show ?thesis using assms
      by (cases x) (auto simp: run_command_cases [OF x] ai_session_def comp_simps ai_caller_def rate_limit_def Let_def
          add_interaction_def outside_def)
  qed
qed

lemma unmapped_step:
  assumes "\<not> ai_mapped (committed s)"
  shows "\<exists>r. committed (ai_step q s) = (committed s)\<lparr>rates := r, bill := fold credit_exec (asked_billing q) (bill (committed s))\<rparr>"
proof (cases q)
  case (Ai_Command net header room c prompt args)
  then show ?thesis using unmapped_command [OF assms, of net header room c prompt args] by auto
next
  case (Ai_Stored i asset p)
  then show ?thesis using assms
    by (auto simp: store_prediction_def ai_session_def comp_simps retried_def catch_any_def outside_def intro: exI [of _ "rates (committed s)"]
        split: option.split)
qed (use assms in \<open>auto simp: mockup_consent_endpoint_def screenshot_event_def replicate_webhook_def expire_mockup_assets_def
    expire_pending_consents_def ai_session_def comp_simps ai_caller_def require_participant_def first_row_def is_processed_def
    retried_def catch_any_def Let_def outside_def intro: exI [of _ "rates (committed s)"] split: option.split\<close>)

lemma unmapped_run:
  assumes "\<not> ai_mapped (committed s)"
  shows "\<exists>r. committed (ai_run qs s) = (committed s)\<lparr>rates := r, bill := fold credit_exec (concat (map asked_billing qs)) (bill (committed s))\<rparr>"
  using assms
proof (induction qs arbitrary: s)
  case Nil
  show ?case by (auto simp: ai_run_def intro: exI [of _ "rates (committed s)"])
next
  case (Cons q qs)
  from unmapped_step [OF Cons.prems, of q] obtain r where
    r: "committed (ai_step q s) = (committed s)\<lparr>rates := r, bill := fold credit_exec (asked_billing q) (bill (committed s))\<rparr>" by blast
  with Cons.IH [of "ai_step q s"] Cons.prems show ?case by (auto simp: ai_run_def)
qed

lemma step_restart: "committed (ai_step q (s\<lparr>work := committed s\<rparr>)) = committed (ai_step q s)"
  by (cases q) (simp_all add: run_command_def mockup_consent_endpoint_def screenshot_event_def replicate_webhook_def store_prediction_def
      expire_mockup_assets_def expire_pending_consents_def session_restart)

lemma mapped_run: "ai_mapped (committed (ai_run qs s)) = ai_mapped (committed s)"
proof (induction qs arbitrary: s)
  case (Cons q qs)
  have "mapping_is (ai_mapped (committed s)) (ai_step q (s\<lparr>work := committed s\<rparr>))"
    by (rule mapping.silent_step) (simp add: mapping_is_def)
  then have "ai_mapped (committed (ai_step q s)) = ai_mapped (committed s)" by (simp add: mapping_is_def step_restart)
  with Cons.IH [of "ai_step q s"] show ?case by (simp add: ai_run_def)
qed (simp add: ai_run_def)

text \<open>C33. The orchestrator as deployed stores nothing. Its models relate consents and assets without a foreign
  key, so SQLAlchemy cannot configure them; whatever requests, deliveries and tasks arrive, no consent, asset,
  interaction, screenshot or processed delivery is ever recorded and the credits of billing-svc change only by
  other callers. Every command fails, and a delivery of Replicate with a good signature ends in the error of the
  mapping and is not remembered.\<close>

theorem orchestrator_is_inert:
  assumes deployed: "ai_mapped (committed s0) = mappers_configure ai_relationships ai_foreign_keys"
    and s: "s = ai_run qs s0"
    and good: "pe_id ev \<noteq> []" "verify_webhook_signature mac body sig" "processed (committed s0) = (\<lambda>_. None)"
  shows "(\<exists>r. committed s = (committed s0)\<lparr>rates := r, bill := fold credit_exec (concat (map asked_billing qs)) (bill (committed s0))\<rparr>)
    \<and> (\<exists>e. fst (run_command net header room c prompt args s) = Inl e)
    \<and> replicate_webhook net mac body sig ev s = (Inl (LibraryError ''NoForeignKeysError''), s\<lparr>work := committed s\<rparr>)"
proof -
  have unmapped: "\<not> ai_mapped (committed s0)"
    using deployed by (simp add: mappers_configure_def ai_relationships_def ai_foreign_keys_def)
  from unmapped_run [OF unmapped, of qs] s obtain r where
    r: "committed s = (committed s0)\<lparr>rates := r, bill := fold credit_exec (concat (map asked_billing qs)) (bill (committed s0))\<rparr>" by blast
  with unmapped have u: "\<not> ai_mapped (committed s)" by simp
  have "\<exists>e. fst (run_command net header room c prompt args s) = Inl e"
    using unmapped_command [OF u, of net header room c prompt args] by auto
  moreover have "replicate_webhook net mac body sig ev s = (Inl (LibraryError ''NoForeignKeysError''), s\<lparr>work := committed s\<rparr>)"
    using u good r by (simp add: replicate_webhook_def ai_session_def comp_simps is_processed_def first_row_def outside_def)
  ultimately show ?thesis using r by blast
qed

section \<open>Calls without a token\<close>

text \<open>The state of billing-svc through the requests of a caller it does not admit.\<close>

definition bill_is :: "billing_sess \<Rightarrow> ai_sess \<Rightarrow> bool" where
  "bill_is b s \<longleftrightarrow> bill (work s) = b \<and> bill (committed s) = b"

lemma refused_endpoint:
  assumes "nt_headers net = shared_client_headers"
  shows "quiet_endpoint (bill_is b) net" "refused_with (nt_jwt net) (nt_headers net) = Some 401"
proof -
  show r: "refused_with (nt_jwt net) (nt_headers net) = Some 401"
    using untokened_is_refused(1) assms by (simp add: shared_client_headers_def)
  show "quiet_endpoint (bill_is b) net"
    by unfold_locales (simp_all add: bill_is_def outside_def r)
qed

text \<open>The answers of the world a request comes with carry the headers of the shared client.\<close>

fun untokened :: "ai_request \<Rightarrow> bool" where
  "untokened (Ai_Command net header room c prompt args) = (nt_headers net = shared_client_headers)"
| "untokened (Ai_Consent net reply header collab lifespan brief k) = (nt_headers net = shared_client_headers)"
| "untokened (Ai_Webhook net mac body header ev) = (nt_headers net = shared_client_headers)"
| "untokened q = True"

lemma untokened_quiet:
  assumes "untokened q" "asked_billing q = []" "bill_is b s"
  shows "bill_is b (ai_step q s)"
proof -
  note e = refused_endpoint(1)
  note v = quiet_endpoint.axioms(1) [OF e]
  obtain n0 :: ai_net where n0: "nt_headers n0 = shared_client_headers" by (metis ai_net.select_convs(2))
  note quiet = keepsD [OF quiet_service.keeps_command [OF v]] keepsD [OF quiet_endpoint.keeps_consent_endpoint [OF e]]
    keepsD [OF quiet_service.keeps_replicate [OF v]] keepsD [OF quiet_service.keeps_stored [OF v, OF n0]]
    keepsD [OF quiet_service.keeps_screenshot_and_expiry(1) [OF v, OF n0]]
    keepsD [OF quiet_service.keeps_screenshot_and_expiry(2) [OF v, OF n0]]
    keepsD [OF quiet_endpoint.keeps_expire_consents [OF e, OF n0]]
  show ?thesis using assms by (cases q) (simp_all add: quiet, simp add: bill_is_def)
qed

lemma untokened_step:
  assumes "untokened q"
  shows "bill (committed (ai_step q s)) = fold credit_exec (asked_billing q) (bill (committed s))"
proof (cases "asked_billing q = []")
  case True
  with untokened_quiet [OF assms, of "bill (committed s)" "s\<lparr>work := committed s\<rparr>"] show ?thesis
    by (simp add: bill_is_def step_restart)
next
  case False
  then show ?thesis by (cases q) simp_all
qed

lemma refused_entitlement:
  assumes "nt_headers net = shared_client_headers"
  shows "\<exists>e. \<forall>s. check_entitlement net s = (Inl e, s)"
  using refused_endpoint(2) [OF assms] by (cases "nt_entitlement net") (auto simp: check_entitlement_def comp_simps)

text \<open>C31. Nobody is ever served or charged: ai-orchestrator-svc calls the role-protected endpoints of billing-svc
  without a token. Over any requests whose calls carry the headers of its HTTP client, the state of billing-svc
  changes only by what others ask of it; every command fails, whatever it is and whoever sends it, and no
  consent request is ever answered as an approved one, also where the mappers could be configured.\<close>

theorem unauthorised_commands_fail:
  assumes qs: "list_all untokened qs" and s: "s = ai_run qs s0" and net: "nt_headers net = shared_client_headers"
  shows "bill (committed s) = fold credit_exec (concat (map asked_billing qs)) (bill (committed s0))
    \<and> (\<exists>e. fst (run_command net header room c prompt args s) = Inl e)
    \<and> fst (mockup_consent_endpoint net reply header collab life brief k s) \<noteq> Inr (Consent_Approved i j secs)"
proof -
  have "bill (committed (ai_run qs t)) = fold credit_exec (concat (map asked_billing qs)) (bill (committed t))" for t
    using qs by (induction qs arbitrary: t) (simp_all add: ai_run_def untokened_step)
  moreover obtain e where e: "check_entitlement net t = (Inl e, t)" for t using refused_entitlement [OF net] by blast
  moreover have "\<exists>e'. fst (run_command net header room c prompt args s) = Inl e'"
    by (auto simp: run_command_cases [OF e] ai_session_def comp_simps ai_caller_def rate_limit_def Let_def add_interaction_def
        split: option.split)
  moreover have g: "generate_mockup net u collab x t = (Inl (HTTPException 402 ''Premium required to generate mockups''), t)" for u x t
    by (simp add: generate_mockup_def e)
  have "fst (mockup_consent_endpoint net reply header collab life brief k s) \<noteq> Inr (Consent_Approved i j secs)"
    by (auto simp: mockup_consent_endpoint_def ai_session_def comp_simps ai_caller_def require_participant_def Let_def first_row_def
        create_consent_def approve_consent_def save_consent_def g split: option.split prod.split sum.split)
  ultimately show ?thesis using s by blast
qed

section \<open>One mockup for a collaboration\<close>

text \<open>C32. Once a collaboration's mockup consent is approved it stays approved for ever, whatever requests follow (predictions failing,
  assets expiring, consents lapsing), and every later request for a mockup of that collaboration fails: a
  409 for the partner who asked first, an integrity error for anybody else. A collaboration gets one mockup.\<close>

theorem approved_consent_blocks_collab:
  assumes start: "consents (committed s0) = []"
    and approved: "x \<in> set (consents (committed (ai_run qs s0)))" "mk_status x = Approved"
    and header: "parse_uuid header = Some u" "get_collab_participants reply = [] \<or> u \<in> set (get_collab_participants reply)"
  shows "x \<in> set (consents (committed (ai_run later (ai_run qs s0))))
    \<and> fst (mockup_consent_endpoint net reply header (mk_collab x) life brief k (ai_run later (ai_run qs s0)))
      = Inl (if mk_requested_by x = u then HTTPException 409 ''Consent already exists'' else IntegrityError)"
proof -
  let ?s = "ai_run later (ai_run qs s0)"
  have "ai_mapped (committed s0)"
  proof (rule ccontr)
    assume "\<not> ai_mapped (committed s0)"
    from unmapped_run [OF this, of qs] start approved(1) show False by auto
  qed
  then have mapped: "ai_mapped (committed ?s)" by (simp add: mapped_run)
  have ok1: "consents_ok (consents (committed (ai_run qs s0)))"
    by (rule run_consents(1)) (simp add: start consents_ok_def)
  have ok: "consents_ok (consents (committed ?s))" and x: "x \<in> set (consents (committed ?s))"
    by (rule run_consents(1) [OF ok1], rule run_consents(2) [OF ok1 approved])
  have clash: "list_ex (consent_clash (new_consent i (mk_collab x) u life brief k now)) (consents (committed ?s))" for i now
    using x approved(2) by (auto simp: list_ex_iff consent_clash_def new_consent_def open_consent_def)
  show ?thesis
    using header approved(2) clash approved_found [OF ok x approved(2)] x mapped
    by (auto simp: mockup_consent_endpoint_def ai_session_def comp_simps ai_caller_def require_participant_def Let_def
        first_row_def create_consent_def split: prod.split)
qed

section \<open>Two more failures\<close>

text \<open>A mockup whose prediction is not stored yet makes every other mockup command fail after its credits are reserved.\<close>

lemma pending_mockup_blocks:
  assumes "ai_mapped (work s)" "a \<in> set (assets (work s))" "mu_prediction a = ''pending''" "strip_chars is_space prompt \<noteq> []"
  shows "mockup_command net k i rid tier prompt s = (Inl IntegrityError, s\<lparr>next_uuid := Suc (next_uuid s)\<rparr>)"
  using assms by (auto simp: mockup_command_def comp_simps add_asset_def new_asset_def asset_clash_def list_ex_iff)

text \<open>The second attempt at a palette never helps: an unusable first answer fails the command.\<close>

lemma second_palette_never_helps:
  assumes "nt_palette net = Palette_Text content n_in n_out parsed # others" "strip_chars is_space prompt \<noteq> []"
    and "\<And>cs. parsed = Some (JList cs) \<Longrightarrow> length cs \<noteq> 5"
  shows "\<exists>e. fst (palette net i rid cost prompt s) = Inl e"
proof -
  have noted: "snd r" if "palette_attempts qs prev True = Inr r" for qs prev r
    using that by (induction qs prev True rule: palette_attempts.induct) (auto split: option.splits json.splits if_splits)
  have fail: "\<exists>e'. fst (fail_command net i rid st why reason e s :: (exn + ai_answer) \<times> ai_sess) = Inl e'" for st why reason e
    by (auto simp: fail_command_def comp_simps save_interaction_def split: prod.split sum.split)
  have "palette_attempts (take 2 (nt_palette net)) ([], 0, 0, None) False = palette_attempts (take 1 others) (content, n_in, n_out, parsed) True"
    using assms(1,3) by (auto split: option.split json.split)
  then show ?thesis
    using assms(2) fail noted
    by (auto simp: palette_def comp_simps split: sum.split prod.split)
qed

section \<open>Witnesses\<close>

text \<open>A client that mints itself a token and a library that opens it.\<close>

definition demo_ai_net :: ai_net where
  "demo_ai_net = \<lparr>nt_jwt = (\<lambda>t. Jwt_Claims (service_claims ''ai-orchestrator-svc'' ''billing-svc'' 0 300)),
     nt_headers = [(''Authorization'', ''Bearer t'')], nt_entitlement = Ent_Up ''premium'', nt_reserve = Link_Up, nt_commit = Link_Up,
     nt_release = Link_Up, nt_prompt_score = 0, nt_completion = No_Completion ''timeout'', nt_output_scan = Scan_Down, nt_palette = [],
     nt_download = False, nt_image_scan = Scan_Down, nt_watermark = False, nt_upload = None, nt_error_text = ''boom''\<rparr>"

lemma demo_admitted: "refused_with (nt_jwt demo_ai_net) (nt_headers demo_ai_net) = None"
  using minted_token_admitted [of "nt_jwt demo_ai_net" "''t''" "''ai-orchestrator-svc''" "''billing-svc''" 0 300 "[''service'', ''admin'']" "[]"]
  by (auto simp: refused_with_def internal_caller_def demo_ai_net_def)

definition demo_ai_db :: ai_db where
  "demo_ai_db = \<lparr>consents = [], assets = [], interactions = [], screenshots = [], rates = (\<lambda>_. None), processed = (\<lambda>_. None), bill = demo_bought, ai_mapped = True\<rparr>"

definition demo_ai :: ai_sess where
  "demo_ai = \<lparr>committed = demo_ai_db, work = demo_ai_db, outbox = [], clock = 0, next_uuid = 1\<rparr>"

lemma failed_commands_cost_their_price_witness:
  "available_of (committed demo_bought) 7 = 10 \<and>
   available_of (committed (bill (committed (snd (run_command demo_ai_net (str_uuid 7) 3 Brainstorm (Some ''hi'') [] demo_ai))))) 7 = 5"
proof -
  have "credit_reach (\<lambda>_. True) demo_start" by (rule credit_reach.start) (simp add: demo_start_def)
  then have r: "credit_reach (\<lambda>_. True) (bill (committed demo_ai))"
    using credit_reach.request [of "\<lambda>_. True" demo_start "Cr_Purchase 7 10 ''ppi'' ''pi_1'' ''pk1''"]
    by (simp add: demo_ai_def demo_ai_db_def demo_bought_def)
  have a: "available_of (committed demo_bought) 7 = 10" "ai_reserve_key 1 \<notin> tx_keys (committed demo_bought)" by code_simp+
  show ?thesis
    using failed_commands_cost_their_price [OF r, where header = "str_uuid 7" and u = 7 and net = demo_ai_net and tier = "''premium''"
        and c = Brainstorm and room = 3 and prompt = "Some ''hi''" and args = "[]"] a demo_admitted
    by (simp add: parse_str_uuid demo_ai_def demo_ai_db_def count_call_def command_rate_per_minute_def demo_ai_net_def
        credit_cost_def credit_brainstorm_def)
qed

text \<open>The second partner cannot pay: the approval is committed all the same.\<close>

definition demo_consent_requests :: "ai_request list" where
  "demo_consent_requests = [Ai_Consent demo_ai_net Participants_Down (str_uuid 7) 3 14 ''cover'' Gen_Image,
     Ai_Consent (demo_ai_net\<lparr>nt_reserve := Link_Status 402\<rparr>) Participants_Down (str_uuid 8) 3 14 ''cover'' Gen_Image]"

lemma demo_consents:
  "consents (committed (ai_run demo_consent_requests demo_ai)) = [approved 0 (new_consent 1 3 7 14 ''cover'' Gen_Image 0)]"
  by (simp add: ai_run_def demo_consent_requests_def mockup_consent_endpoint_def ai_session_def comp_simps ai_caller_def parse_str_uuid
      require_participant_def get_collab_participants_def Let_def first_row_def first_of_def open_for_def open_consent_def
      create_consent_def new_consent_def approve_consent_def generate_mockup_def save_consent_def check_entitlement_def
      add_interaction_def new_interaction_def ai_reserve_def call_billing_def save_interaction_def outside_def approved_def
      demo_admitted [unfolded demo_ai_net_def, simplified] demo_ai_net_def demo_ai_def demo_ai_db_def)

lemma approved_consent_blocks_collab_witness:
  "fst (mockup_consent_endpoint demo_ai_net Participants_Down (str_uuid 8) 3 1 ''again'' Gen_Audio
     (ai_run [Ai_Expire_Consents] (ai_run demo_consent_requests demo_ai))) = Inl IntegrityError"
proof -
  let ?x = "approved 0 (new_consent 1 3 7 14 ''cover'' Gen_Image 0)"
  have "consents (committed demo_ai) = []" "mk_status ?x = Approved" "mk_collab ?x = 3" "mk_requested_by ?x = 7"
    by (simp_all add: demo_ai_def demo_ai_db_def approved_def new_consent_def)
  then show ?thesis
    using approved_consent_blocks_collab [of demo_ai ?x demo_consent_requests "str_uuid 8" 8 Participants_Down
        "[Ai_Expire_Consents]" demo_ai_net 1 "''again''" Gen_Audio]
    by (simp add: demo_consents parse_str_uuid get_collab_participants_def)
qed

definition demo_prediction :: prediction_event where
  "demo_prediction = \<lparr>pe_id = ''p1'', pe_status = ''failed'', pe_output = No_Output, pe_error = None\<rparr>"

text \<open>The orchestrator as it is deployed.\<close>

definition deployed_ai :: ai_sess where
  "deployed_ai = demo_ai\<lparr>committed := demo_ai_db\<lparr>ai_mapped := False\<rparr>\<rparr>"

lemma orchestrator_is_inert_witness:
  "interactions (committed (ai_run [Ai_Command demo_ai_net (str_uuid 7) 3 Brainstorm (Some ''hi'') [], Ai_Expire_Assets] deployed_ai)) = []
   \<and> fst (replicate_webhook demo_ai_net (\<lambda>_. ''m'') [] (Some ''sha256=m'') demo_prediction
       (ai_run [Ai_Command demo_ai_net (str_uuid 7) 3 Brainstorm (Some ''hi'') [], Ai_Expire_Assets] deployed_ai))
     = Inl (LibraryError ''NoForeignKeysError'')"
proof -
  have v: "verify_webhook_signature (\<lambda>_. ''m'') [] (Some ''sha256=m'')" by (simp add: verify_webhook_signature_def)
  have "ai_mapped (committed deployed_ai) = mappers_configure ai_relationships ai_foreign_keys"
    by (simp add: deployed_ai_def mappers_configure_def ai_relationships_def ai_foreign_keys_def)
  from orchestrator_is_inert [OF this refl _ v, of demo_prediction "[Ai_Command demo_ai_net (str_uuid 7) 3 Brainstorm (Some ''hi'') [], Ai_Expire_Assets]"
      demo_ai_net "[]" 3 Brainstorm None "[]"]
  have "\<exists>r b. committed (ai_run [Ai_Command demo_ai_net (str_uuid 7) 3 Brainstorm (Some ''hi'') [], Ai_Expire_Assets] deployed_ai)
      = (committed deployed_ai)\<lparr>rates := r, bill := b\<rparr>"
    and w: "fst (replicate_webhook demo_ai_net (\<lambda>_. ''m'') [] (Some ''sha256=m'') demo_prediction
       (ai_run [Ai_Command demo_ai_net (str_uuid 7) 3 Brainstorm (Some ''hi'') [], Ai_Expire_Assets] deployed_ai))
     = Inl (LibraryError ''NoForeignKeysError'')"
    by (auto simp: demo_prediction_def deployed_ai_def demo_ai_db_def)
  moreover have "interactions (committed deployed_ai) = []" by (simp add: deployed_ai_def demo_ai_db_def)
  ultimately show ?thesis by auto
qed

lemma unauthorised_commands_fail_witness:
  "bill (committed (ai_run [Ai_Command (demo_ai_net\<lparr>nt_headers := shared_client_headers\<rparr>) (str_uuid 7) 3 Brainstorm (Some ''hi'') [], Ai_Wait 5] demo_ai))
     = bill (committed demo_ai)"
  using unauthorised_commands_fail [of "[Ai_Command (demo_ai_net\<lparr>nt_headers := shared_client_headers\<rparr>) (str_uuid 7) 3 Brainstorm (Some ''hi'') [], Ai_Wait 5]"
      _ demo_ai "demo_ai_net\<lparr>nt_headers := shared_client_headers\<rparr>", OF _ refl] by simp

end
