(* ===== verification/Chat_Data.thy ===== *)
theory Chat_Data
  imports Colab_Text Colab_Paging Colab_Platform Complex_Main "HOL-Library.List_Lexorder" "HOL-Library.Char_ord"
begin

text \<open>
  The data of chat-svc: its tables (app/models.py), identifiers (app/uuidv7.py), settings
  (app/config.py), frames (app/schemas.py), what Redis holds (app/ws/presence.py) and the sockets of
  its pods (app/ws/connection_manager.py).
\<close>

unbundle bit_operations_syntax

section \<open>Identifiers\<close>

text \<open>\<open>generate_uuidv7\<close>: milliseconds, version, 12 random bits, variant, 62 random bits.\<close>

definition uuidv7 :: "datetime \<Rightarrow> nat \<times> nat \<Rightarrow> uuid" where
  "uuidv7 now draw = (let ts_ms = nat (now div 1000); rand_a = fst draw AND 0x0FFF; rand_b = snd draw AND 0x3FFFFFFFFFFFFFFF in
     push_bit 80 ts_ms OR push_bit 76 0x7 OR push_bit 64 rand_a OR push_bit 62 2 OR rand_b)"

section \<open>Rows\<close>

datatype room_state = Room_Open | Room_Read_Only | Room_Archived

datatype message_type = Msg_Text | Msg_Voice | Msg_Image | Msg_Video | Msg_Audio | Msg_Doc | Msg_Link | Msg_System

datatype msg_status = Ms_Pending | Ms_Allowed | Ms_Soft_Warn | Ms_Hidden | Ms_Auto_Hidden

record chat_room =
  cr_id :: uuid
  cr_collab :: uuid
  cr_participants :: "uuid list"
  cr_state :: room_state
  cr_created_at :: datetime

record chat_message =
  cm_id :: uuid
  cm_room :: uuid
  cm_sender :: uuid
  cm_type :: message_type
  cm_body :: "string option"
  cm_reply_to :: "uuid option"
  cm_nonce :: "uuid option"
  cm_edited_at :: "datetime option"
  cm_deleted_at :: "datetime option"
  cm_score :: "rat option"
  cm_status :: msg_status
  cm_created_at :: datetime

record message_revision =
  rv_msg :: uuid
  rv_version :: nat
  rv_body :: string
  rv_edited_at :: datetime

record read_receipt =
  rr_room :: uuid
  rr_profile :: uuid
  rr_msg :: "uuid option"
  rr_at :: "datetime option"

text \<open>Keys and constraints of the migration.\<close>

definition room_clash :: "chat_room \<Rightarrow> chat_room \<Rightarrow> bool" where
  "room_clash a b \<longleftrightarrow> cr_id a = cr_id b"

definition message_clash :: "chat_message \<Rightarrow> chat_message \<Rightarrow> bool" where
  "message_clash a b \<longleftrightarrow> cm_id a = cm_id b \<and> cm_created_at a = cm_created_at b"

definition revision_clash :: "message_revision \<Rightarrow> message_revision \<Rightarrow> bool" where
  "revision_clash a b \<longleftrightarrow> rv_msg a = rv_msg b \<and> rv_version a = rv_version b"

section \<open>Frames\<close>

text \<open>What a client sends: the fields of a payload are None where pydantic rejects their types.\<close>

record send_payload =
  sp_body :: string
  sp_reply_to :: "uuid option"
  sp_nonce :: uuid

datatype client_frame =
    Not_Json
  | Not_Object
  | Send_Frame "send_payload option" "string option"
  | Typing_Frame "bool option"
  | Read_Ack_Frame "uuid option"
  | Ping_Frame
  | Reconnect_Frame "uuid option"
  | Unknown_Frame string

record reply_preview =
  pv_id :: uuid
  pv_sender :: uuid
  pv_type :: message_type
  pv_body :: "string option"

record message_out =
  mo_id :: uuid
  mo_room :: uuid
  mo_sender :: uuid
  mo_type :: message_type
  mo_body :: "string option"
  mo_reply_to :: "uuid option"
  mo_preview :: "reply_preview option"
  mo_status :: msg_status
  mo_edited_at :: "datetime option"
  mo_created_at :: datetime

datatype server_frame =
    Ws_Message message_out
  | Ws_Message_Ack uuid uuid datetime
  | Ws_Soft_Warn_Ack message_out
  | Ws_Typing uuid bool
  | Ws_Read uuid uuid datetime
  | Ws_Replay "message_out list" bool
  | Ws_Room_State room_state
  | Ws_Error string string "string option"
  | Ws_Pong
  | Ws_Expiry_Warning int
  | Ws_Closed nat

section \<open>Settings\<close>

definition send_rate_per_minute :: nat where "send_rate_per_minute = 30"
definition typing_rate_seconds :: int where "typing_rate_seconds = 3"
definition read_ack_rate_per_minute :: nat where "read_ack_rate_per_minute = 60"
definition max_reconnect_frames :: nat where "max_reconnect_frames = 5"
definition max_body_length :: nat where "max_body_length = 4000"
definition replay_page_size :: nat where "replay_page_size = 200"
definition presence_ttl_seconds :: int where "presence_ttl_seconds = 90"
definition connection_expiry_seconds :: int where "connection_expiry_seconds = 7200"
definition expiry_warning_at_seconds :: int where "expiry_warning_at_seconds = 6900"

section \<open>State\<close>

text \<open>The counters of one connection; \<open>typing_last\<close> and the clock are read as one clock.\<close>

record rate_counter =
  rc_sends :: nat
  rc_read_acks :: nat
  rc_reconnects :: nat
  rc_typing_last :: datetime
  rc_minute :: int

text \<open>
  A connection lives on a pod and holds the room row as it last read it. \<open>sent_frames\<close> is what the
  sockets were sent, in order. \<open>chat_mapped\<close> tells whether SQLAlchemy can configure the mapped classes: if
  not, every statement of the ORM raises, while statements written as text still run.
\<close>

record connection =
  cn_ws :: nat
  cn_pod :: nat
  cn_room :: chat_room
  cn_profile :: uuid
  cn_counter :: rate_counter
  cn_since :: datetime
  cn_warned :: bool

record presence_hash =
  ph_online :: "bool option"
  ph_typing :: "bool option"
  ph_last_seen :: "datetime option"

record chat_db =
  chat_mapped :: bool
  chat_rooms :: "chat_room list"
  chat_messages :: "chat_message list"
  revisions :: "message_revision list"
  receipts :: "read_receipt list"
  presences :: "uuid \<times> uuid \<Rightarrow> (presence_hash \<times> datetime option) option"
  conns :: "connection list"
  sent_frames :: "(nat \<times> server_frame) list"

type_synonym chat_sess = "chat_db sess"
type_synonym 'a chatting = "(chat_db, 'a) comp"

text \<open>The relationships of app/models.py, as pairs of tables, and the foreign keys its columns declare.\<close>

definition chat_relationships :: "(string \<times> string) list" where
  "chat_relationships = [(''chat_room'', ''chat_message''), (''chat_room'', ''chat_read_receipt''), (''chat_message'', ''chat_room''),
     (''chat_message'', ''chat_message_revision''), (''chat_message'', ''chat_attachment''), (''chat_message_revision'', ''chat_message''),
     (''chat_attachment'', ''chat_message''), (''chat_read_receipt'', ''chat_room'')]"

definition chat_foreign_keys :: "(string \<times> string) list" where
  "chat_foreign_keys = [(''chat_read_receipt'', ''chat_room'')]"

lemma chat_mappers_fail: "\<not> mappers_configure chat_relationships chat_foreign_keys"
  by (simp add: mappers_configure_def chat_relationships_def chat_foreign_keys_def)

text \<open>What a session did not commit is lost when it closes; Redis, sockets and connections are not part of it.\<close>

definition off_table :: "chat_db \<Rightarrow> chat_db \<Rightarrow> chat_db" where
  "off_table db told = db\<lparr>presences := presences told, conns := conns told, sent_frames := sent_frames told\<rparr>"

definition chat_session :: "'a chatting \<Rightarrow> 'a chatting" where
  "chat_session m = (\<lambda>s. case m (s\<lparr>work := committed s\<rparr>) of
     (x, s1) \<Rightarrow> (x, s1\<lparr>committed := off_table (committed s1) (work s1), work := off_table (committed s1) (work s1)\<rparr>))"

section \<open>Sockets\<close>

definition send_to :: "nat \<Rightarrow> server_frame \<Rightarrow> unit chatting" where
  "send_to ws f = (\<lambda>s. (Inr (), s\<lparr>work := (work s)\<lparr>sent_frames := sent_frames (work s) @ [(ws, f)]\<rparr>\<rparr>))"

definition of_room :: "uuid \<Rightarrow> connection \<Rightarrow> bool" where
  "of_room room c \<longleftrightarrow> cr_id (cn_room c) = room"

definition local_broadcast :: "connection list \<Rightarrow> nat \<Rightarrow> uuid \<Rightarrow> server_frame \<Rightarrow> (nat \<times> server_frame) list" where
  "local_broadcast cs pod room f = map (\<lambda>d. (cn_ws d, f)) (filter (\<lambda>d. cn_pod d = pod \<and> of_room room d) cs)"

text \<open>Every connection listens to the channel of its room and hands each frame to all connections of the room on its pod.\<close>

definition fan_out :: "connection list \<Rightarrow> uuid \<Rightarrow> server_frame \<Rightarrow> (nat \<times> server_frame) list" where
  "fan_out cs room f = concat (map (\<lambda>c. local_broadcast cs (cn_pod c) room f) (filter (of_room room) cs))"

definition publish_room :: "uuid \<Rightarrow> server_frame \<Rightarrow> unit chatting" where
  "publish_room room f = (\<lambda>s. (Inr (), s\<lparr>work := (work s)\<lparr>sent_frames := sent_frames (work s) @ fan_out (conns (work s)) room f\<rparr>\<rparr>))"

definition set_conn :: "nat \<Rightarrow> (connection \<Rightarrow> connection) \<Rightarrow> unit chatting" where
  "set_conn ws g = modify_table conns_update conns (update_where (\<lambda>c. cn_ws c = ws) g)"

section \<open>Presence\<close>

definition live_presence :: "datetime \<Rightarrow> (presence_hash \<times> datetime option) option \<Rightarrow> (presence_hash \<times> datetime option) option" where
  "live_presence now v = (case v of Some (h, Some t) \<Rightarrow> if now < t then v else None | _ \<Rightarrow> v)"

text \<open>\<open>HSET\<close> keeps the expiry of a key and creates a missing one without any.\<close>

definition hset :: "datetime \<Rightarrow> (presence_hash \<Rightarrow> presence_hash) \<Rightarrow> (presence_hash \<times> datetime option) option \<Rightarrow> (presence_hash \<times> datetime option) option" where
  "hset now g v = (case live_presence now v of
     None \<Rightarrow> Some (g \<lparr>ph_online = None, ph_typing = None, ph_last_seen = None\<rparr>, None) | Some (h, t) \<Rightarrow> Some (g h, t))"

definition expire :: "datetime \<Rightarrow> (presence_hash \<times> datetime option) option \<Rightarrow> (presence_hash \<times> datetime option) option" where
  "expire now v = (case live_presence now v of None \<Rightarrow> None | Some (h, _) \<Rightarrow> Some (h, Some (now + from_seconds presence_ttl_seconds)))"

definition at_presence ::
  "uuid \<Rightarrow> uuid \<Rightarrow> (datetime \<Rightarrow> (presence_hash \<times> datetime option) option \<Rightarrow> (presence_hash \<times> datetime option) option) \<Rightarrow> unit chatting" where
  "at_presence room profile g = (\<lambda>s. (Inr (), s\<lparr>work := (work s)\<lparr>presences :=
     (presences (work s))((room, profile) := g (clock s) (presences (work s) (room, profile)))\<rparr>\<rparr>))"

definition set_online :: "uuid \<Rightarrow> uuid \<Rightarrow> bool \<Rightarrow> unit chatting" where
  "set_online room profile online = at_presence room profile (\<lambda>now v.
     let w = hset now (\<lambda>h. h\<lparr>ph_online := Some online, ph_last_seen := Some now\<rparr>) v in if online then expire now w else w)"

definition set_typing :: "uuid \<Rightarrow> uuid \<Rightarrow> bool \<Rightarrow> unit chatting" where
  "set_typing room profile typing = at_presence room profile (\<lambda>now v. expire now (hset now (\<lambda>h. h\<lparr>ph_typing := Some typing\<rparr>) v))"

definition refresh_ttl :: "uuid \<Rightarrow> uuid \<Rightarrow> unit chatting" where
  "refresh_ttl room profile = at_presence room profile expire"

definition get_presence :: "uuid \<Rightarrow> uuid \<Rightarrow> chat_sess \<Rightarrow> bool \<times> bool \<times> datetime option" where
  "get_presence room profile s = (case live_presence (clock s) (presences (work s) (room, profile)) of
     None \<Rightarrow> (False, False, None)
   | Some (h, _) \<Rightarrow> (ph_online h = Some True, ph_typing h = Some True, ph_last_seen h))"

end
