(* ===== verification/Chat_Service.thy ===== *)
theory Chat_Service
  imports Chat_Data
begin

text \<open>
  The operations of chat-svc: the frames of a socket (app/ws/handler.py), the REST endpoints
  (app/routers/rooms.py) and the consumers of other services' events (app/workers/event_consumers.py).
\<close>

section \<open>Rate limits of a connection\<close>

definition this_minute :: "datetime \<Rightarrow> rate_counter \<Rightarrow> rate_counter" where
  "this_minute now c = (let m = now div 60000000 in
     if rc_minute c = m then c else c\<lparr>rc_sends := 0, rc_read_acks := 0, rc_minute := m\<rparr>)"

definition rate_check_send :: "datetime \<Rightarrow> rate_counter \<Rightarrow> bool \<times> rate_counter" where
  "rate_check_send now c0 = (let c = this_minute now c0 in
     if send_rate_per_minute \<le> rc_sends c then (False, c) else (True, c\<lparr>rc_sends := rc_sends c + 1\<rparr>))"

definition rate_check_typing :: "datetime \<Rightarrow> rate_counter \<Rightarrow> bool \<times> rate_counter" where
  "rate_check_typing now c = (if now - rc_typing_last c < from_seconds typing_rate_seconds then (False, c)
     else (True, c\<lparr>rc_typing_last := now\<rparr>))"

definition rate_check_read_ack :: "datetime \<Rightarrow> rate_counter \<Rightarrow> bool \<times> rate_counter" where
  "rate_check_read_ack now c0 = (let c = this_minute now c0 in
     if read_ack_rate_per_minute \<le> rc_read_acks c then (False, c) else (True, c\<lparr>rc_read_acks := rc_read_acks c + 1\<rparr>))"

definition rate_check_reconnect :: "datetime \<Rightarrow> rate_counter \<Rightarrow> bool \<times> rate_counter" where
  "rate_check_reconnect now c = (if max_reconnect_frames \<le> rc_reconnects c then (False, c)
     else (True, c\<lparr>rc_reconnects := rc_reconnects c + 1\<rparr>))"

definition counted :: "(datetime \<Rightarrow> rate_counter \<Rightarrow> bool \<times> rate_counter) \<Rightarrow> connection \<Rightarrow> bool chatting" where
  "counted check c = bind_c now_c (\<lambda>now. case check now (cn_counter c) of
     (ok, k) \<Rightarrow> seq_c (set_conn (cn_ws c) (\<lambda>x. x\<lparr>cn_counter := k\<rparr>)) (ret ok))"

section \<open>Messages\<close>

text \<open>What the scan of a text brings back; a failed call or a timeout lets the text through.\<close>

datatype chat_scan = Scan_Failed | Scan_Result rat "string list"

definition call_moderation :: "chat_scan \<Rightarrow> rat \<times> string list" where
  "call_moderation r = (case r of Scan_Failed \<Rightarrow> (0, []) | Scan_Result score categories \<Rightarrow> (score, categories))"

definition row_out :: "chat_message \<Rightarrow> message_out" where
  "row_out m = \<lparr>mo_id = cm_id m, mo_room = cm_room m, mo_sender = cm_sender m, mo_type = cm_type m, mo_body = cm_body m,
     mo_reply_to = cm_reply_to m, mo_preview = None, mo_status = cm_status m, mo_edited_at = cm_edited_at m, mo_created_at = cm_created_at m\<rparr>"

definition preview_of :: "chat_message \<Rightarrow> reply_preview" where
  "preview_of p = \<lparr>pv_id = cm_id p, pv_sender = cm_sender p, pv_type = cm_type p, pv_body = cm_body p\<rparr>"

definition build_message_out :: "chat_message \<Rightarrow> message_out chatting" where
  "build_message_out m = (case cm_reply_to m of
     None \<Rightarrow> ret (row_out m)
   | Some r \<Rightarrow> bind_c (orm chat_mapped (scalar_one_or_none chat_messages (\<lambda>x. cm_id x = r))) (\<lambda>parent.
       ret ((row_out m)\<lparr>mo_preview := map_option preview_of parent\<rparr>)))"

definition new_message :: "uuid \<Rightarrow> uuid \<Rightarrow> uuid \<Rightarrow> string \<Rightarrow> uuid \<Rightarrow> uuid option \<Rightarrow> rat \<Rightarrow> msg_status \<Rightarrow> datetime \<Rightarrow> chat_message" where
  "new_message i room sender body nonce reply score st now = \<lparr>cm_id = i, cm_room = room, cm_sender = sender, cm_type = Msg_Text,
     cm_body = Some body, cm_reply_to = reply, cm_nonce = Some nonce, cm_edited_at = None, cm_deleted_at = None,
     cm_score = Some score, cm_status = st, cm_created_at = now\<rparr>"

text \<open>\<open>draw\<close> is what \<open>os.urandom\<close> gives the identifier. The constructor of a mapped class configures the mappers.\<close>

definition store_message :: "nat \<times> nat \<Rightarrow> uuid \<Rightarrow> uuid \<Rightarrow> string \<Rightarrow> uuid \<Rightarrow> uuid option \<Rightarrow> rat \<Rightarrow> msg_status \<Rightarrow> chat_message chatting" where
  "store_message draw room sender body nonce reply score st = bind_c now_c (\<lambda>now.
     let m = new_message (uuidv7 now draw) room sender body nonce reply score st now in
     seq_c (orm chat_mapped (db_insert chat_messages_update chat_messages (\<lambda>_. True) message_clash m)) (seq_c commit_c (ret m)))"

text \<open>The score beside these fields is left out of the message.\<close>

definition publish_moderation_event :: "uuid \<Rightarrow> uuid \<Rightarrow> uuid \<Rightarrow> string \<Rightarrow> unit chatting" where
  "publish_moderation_event room msg profile action = publish_c (Message ''moderation.action_taken''
     [(''event'', JStr ''moderation.action_taken''), (''room_id'', JStr (str_uuid room)), (''msg_id'', JStr (str_uuid msg)),
      (''profile_id'', JStr (str_uuid profile)), (''action'', JStr action)])"

definition publish_chat_event :: "uuid \<Rightarrow> message_out \<Rightarrow> unit chatting" where
  "publish_chat_event room m = publish_c (Message ''chat.message.sent''
     [(''event'', JStr ''chat.message.sent''), (''room_id'', JStr (str_uuid room)), (''msg_id'', JStr (str_uuid (mo_id m))),
      (''sender_profile_id'', JStr (str_uuid (mo_sender m))), (''type'', JStr ''text''), (''created_at'', JStr (iso_datetime (mo_created_at m)))])"

text \<open>pydantic already rejects a body that is too long.\<close>

definition parse_send :: "send_payload option \<Rightarrow> send_payload option" where
  "parse_send p = (case p of None \<Rightarrow> None | Some p \<Rightarrow> if length (sp_body p) \<le> 4000 then Some p else None)"

text \<open>A result that was read once is closed; reading it again raises.\<close>

definition dedup_check :: "uuid \<Rightarrow> unit chatting" where
  "dedup_check nonce = bind_c (orm chat_mapped (scalar_one_or_none chat_messages (\<lambda>m. cm_nonce m = Some nonce))) (\<lambda>existing.
     case existing of None \<Rightarrow> ret () | Some _ \<Rightarrow> raise (LibraryError ''ResourceClosedError''))"

definition escalates :: "string list \<Rightarrow> bool" where
  "escalates categories \<longleftrightarrow> ''harassment_threat'' \<in> set categories \<or> ''dmca'' \<in> set categories"

definition reject_message :: "nat \<times> nat \<Rightarrow> connection \<Rightarrow> send_payload \<Rightarrow> rat \<Rightarrow> msg_status \<Rightarrow> string \<Rightarrow> server_frame \<Rightarrow> unit chatting" where
  "reject_message draw c p score st action f =
     bind_c (store_message draw (cr_id (cn_room c)) (cn_profile c) (sp_body p) (sp_nonce p) (sp_reply_to p) score st) (\<lambda>m.
     seq_c (publish_moderation_event (cr_id (cn_room c)) (cm_id m) (cn_profile c) action)
           (send_to (cn_ws c) f))"

definition deliver_message :: "nat \<times> nat \<Rightarrow> connection \<Rightarrow> send_payload \<Rightarrow> rat \<Rightarrow> msg_status \<Rightarrow> unit chatting" where
  "deliver_message draw c p score st =
     bind_c (store_message draw (cr_id (cn_room c)) (cn_profile c) (sp_body p) (sp_nonce p) (sp_reply_to p) score st) (\<lambda>m.
     bind_c (build_message_out m) (\<lambda>out.
     seq_c (publish_room (cr_id (cn_room c)) (Ws_Message out))
    (seq_c (send_to (cn_ws c) (if st = Ms_Soft_Warn then Ws_Soft_Warn_Ack out else Ws_Message_Ack (sp_nonce p) (cm_id m) (cm_created_at m)))
           (publish_chat_event (cr_id (cn_room c)) out))))"

definition handle_send :: "chat_scan \<Rightarrow> nat \<times> nat \<Rightarrow> connection \<Rightarrow> send_payload option \<Rightarrow> string option \<Rightarrow> unit chatting" where
  "handle_send scan draw c body request = bind_c (counted rate_check_send c) (\<lambda>ok.
     if \<not> ok then send_to (cn_ws c) (Ws_Error ''RATE_LIMITED'' ''Too many messages'' request)
     else case parse_send body of
       None \<Rightarrow> send_to (cn_ws c) (Ws_Error ''INTERNAL_ERROR'' ''Invalid payload'' request)
     | Some p \<Rightarrow>
         if cr_state (cn_room c) \<noteq> Room_Open then send_to (cn_ws c) (Ws_Error ''ROOM_READ_ONLY'' ''Room is read-only'' request)
         else if max_body_length < length (sp_body p)
         then send_to (cn_ws c) (Ws_Error ''MESSAGE_TOO_LONG'' ''Body exceeds 4000 characters'' request)
         else seq_c (dedup_check (sp_nonce p))
           (case call_moderation scan of (score, categories) \<Rightarrow>
              if 9 / 10 \<le> score \<or> escalates categories
              then reject_message draw c p score Ms_Auto_Hidden ''auto_hide_temp_mute''
                     (Ws_Error ''MODERATION_REJECTED'' ''Message not delivered: community guidelines'' request)
              else if 7 / 10 \<le> score \<and> score < 9 / 10
              then reject_message draw c p score Ms_Hidden ''hold_for_review'' (Ws_Error ''MODERATION_HOLD'' ''Message held for review'' request)
              else deliver_message draw c p score (if 4 / 10 \<le> score \<and> score < 7 / 10 then Ms_Soft_Warn else Ms_Allowed)))"

section \<open>The other frames\<close>

definition handle_typing :: "connection \<Rightarrow> bool option \<Rightarrow> unit chatting" where
  "handle_typing c body = bind_c (counted rate_check_typing c) (\<lambda>ok.
     if \<not> ok then ret ()
     else case body of
       None \<Rightarrow> ret ()
     | Some start \<Rightarrow> seq_c (set_typing (cr_id (cn_room c)) (cn_profile c) start)
         (publish_room (cr_id (cn_room c)) (Ws_Typing (cn_profile c) start)))"

text \<open>The upsert of a read receipt: identifiers are compared as texts.\<close>

definition moves_forward :: "uuid \<Rightarrow> read_receipt \<Rightarrow> bool" where
  "moves_forward msg r \<longleftrightarrow> (case rr_msg r of None \<Rightarrow> True | Some old \<Rightarrow> str_uuid old < str_uuid msg)"

definition upsert_receipt :: "uuid \<Rightarrow> uuid \<Rightarrow> uuid \<Rightarrow> datetime \<Rightarrow> read_receipt list \<Rightarrow> read_receipt list" where
  "upsert_receipt room profile msg now rs =
     (if list_ex (\<lambda>r. rr_room r = room \<and> rr_profile r = profile) rs
      then update_where (\<lambda>r. rr_room r = room \<and> rr_profile r = profile \<and> moves_forward msg r) (\<lambda>r. r\<lparr>rr_msg := Some msg, rr_at := Some now\<rparr>) rs
      else rs @ [\<lparr>rr_room = room, rr_profile = profile, rr_msg = Some msg, rr_at = Some now\<rparr>])"

definition store_receipt :: "uuid \<Rightarrow> uuid \<Rightarrow> uuid \<Rightarrow> unit chatting" where
  "store_receipt room profile msg = bind_c now_c (\<lambda>now.
     seq_c (modify_table receipts_update receipts (upsert_receipt room profile msg now)) commit_c)"

definition handle_read_ack :: "connection \<Rightarrow> uuid option \<Rightarrow> unit chatting" where
  "handle_read_ack c body = bind_c (counted rate_check_read_ack c) (\<lambda>ok.
     if \<not> ok then ret ()
     else if cr_state (cn_room c) = Room_Read_Only then ret ()
     else case body of
       None \<Rightarrow> ret ()
     | Some msg \<Rightarrow> seq_c (store_receipt (cr_id (cn_room c)) (cn_profile c) msg)
         (bind_c now_c (\<lambda>now. publish_room (cr_id (cn_room c)) (Ws_Read (cn_profile c) msg now))))"

definition shown :: "uuid \<Rightarrow> chat_message \<Rightarrow> bool" where
  "shown room m \<longleftrightarrow> cm_room m = room \<and> (cm_status m = Ms_Allowed \<or> cm_status m = Ms_Soft_Warn) \<and> cm_deleted_at m = None"

definition handle_reconnect :: "connection \<Rightarrow> uuid option \<Rightarrow> unit chatting" where
  "handle_reconnect c body = bind_c (counted rate_check_reconnect c) (\<lambda>ok.
     if \<not> ok then send_to (cn_ws c) (Ws_Error ''RATE_LIMITED'' ''Too many reconnect frames'' None)
     else case body of
       None \<Rightarrow> ret ()
     | Some since \<Rightarrow> bind_c (select_all chat_messages (\<lambda>m. shown (cr_id (cn_room c)) m \<and> str_uuid since < str_uuid (cm_id m))) (\<lambda>found.
         let rows = take (replay_page_size + 1) (sort_key cm_id found) in
         send_to (cn_ws c) (Ws_Replay (map row_out (take replay_page_size rows)) (replay_page_size < length rows))))"

section \<open>A connection\<close>

definition participant_room :: "uuid \<Rightarrow> uuid \<Rightarrow> chat_room option chatting" where
  "participant_room room profile = bind_c (orm chat_mapped (scalar_one_or_none chat_rooms (\<lambda>r. cr_id r = room))) (\<lambda>found.
     ret (case found of None \<Rightarrow> None | Some r \<Rightarrow> if profile \<in> set (cr_participants r) then Some r else None))"

definition new_counter :: rate_counter where
  "new_counter = \<lparr>rc_sends = 0, rc_read_acks = 0, rc_reconnects = 0, rc_typing_last = 0, rc_minute = 0\<rparr>"

definition open_ws :: "nat \<Rightarrow> nat \<Rightarrow> uuid \<Rightarrow> uuid \<Rightarrow> unit chatting" where
  "open_ws ws pod room profile = chat_session (bind_c (participant_room room profile) (\<lambda>found. case found of
     None \<Rightarrow> seq_c (send_to ws (Ws_Error ''ROOM_NOT_FOUND'' ''Room not found or access denied'' None)) (send_to ws (Ws_Closed 4003))
   | Some r \<Rightarrow> bind_c now_c (\<lambda>now.
       seq_c (modify_table conns_update conns (\<lambda>cs. cs @ [\<lparr>cn_ws = ws, cn_pod = pod, cn_room = r, cn_profile = profile,
                cn_counter = new_counter, cn_since = now, cn_warned = False\<rparr>]))
             (set_online room profile True))))"

text \<open>\<open>ws_chat\<close> (app/main.py): the profile is the one the gateway names, or else the one the client names.\<close>

definition ws_chat :: "nat \<Rightarrow> nat \<Rightarrow> string option \<Rightarrow> string \<Rightarrow> uuid \<Rightarrow> unit chatting" where
  "ws_chat ws pod header query room = (let t = (case header of None \<Rightarrow> query | Some h \<Rightarrow> if h = [] then query else h) in
     if t = [] then chat_session (send_to ws (Ws_Closed 4001))
     else case parse_uuid t of None \<Rightarrow> chat_session (send_to ws (Ws_Closed 4001)) | Some profile \<Rightarrow> open_ws ws pod room profile)"

definition close_ws :: "connection \<Rightarrow> unit chatting" where
  "close_ws c = seq_c (modify_table conns_update conns (filter (\<lambda>x. cn_ws x \<noteq> cn_ws c)))
     (set_online (cr_id (cn_room c)) (cn_profile c) False)"

text \<open>\<open>db.refresh(room)\<close>: the row as the database has it now.\<close>

definition refresh_room :: "connection \<Rightarrow> unit chatting" where
  "refresh_room c = bind_c (scalar_one chat_rooms (\<lambda>r. cr_id r = cr_id (cn_room c))) (\<lambda>r.
     set_conn (cn_ws c) (\<lambda>x. x\<lparr>cn_room := r\<rparr>))"

definition dispatch_frame :: "chat_scan \<Rightarrow> nat \<times> nat \<Rightarrow> connection \<Rightarrow> client_frame \<Rightarrow> unit chatting" where
  "dispatch_frame scan draw c f = (case f of
     Not_Json \<Rightarrow> send_to (cn_ws c) (Ws_Error ''INTERNAL_ERROR'' ''Invalid JSON frame'' None)
   | Not_Object \<Rightarrow> raise (AttributeError ''get'')
   | Send_Frame body request \<Rightarrow> seq_c (handle_send scan draw c body request) (refresh_room c)
   | Typing_Frame body \<Rightarrow> seq_c (handle_typing c body) (refresh_room c)
   | Read_Ack_Frame body \<Rightarrow> seq_c (handle_read_ack c body) (refresh_room c)
   | Ping_Frame \<Rightarrow> seq_c (send_to (cn_ws c) Ws_Pong) (refresh_room c)
   | Reconnect_Frame body \<Rightarrow> seq_c (handle_reconnect c body) (refresh_room c)
   | Unknown_Frame t \<Rightarrow> seq_c (send_to (cn_ws c) (Ws_Error ''INTERNAL_ERROR'' (''Unknown frame type: '' @ t) None)) (refresh_room c))"

text \<open>One turn of the receive loop; an exception ends the connection.\<close>

definition receive :: "chat_scan \<Rightarrow> nat \<times> nat \<Rightarrow> nat \<Rightarrow> client_frame \<Rightarrow> unit chatting" where
  "receive scan draw ws f = (\<lambda>s. case first_of (filter (\<lambda>c. cn_ws c = ws) (conns (committed s))) of
     None \<Rightarrow> (Inr (), s)
   | Some c \<Rightarrow> (case chat_session (seq_c (refresh_ttl (cr_id (cn_room c)) (cn_profile c)) (dispatch_frame scan draw c f)) s of
       (Inr _, s1) \<Rightarrow> (Inr (), s1)
     | (Inl e, s1) \<Rightarrow> chat_session (close_ws c) s1))"

definition disconnect :: "nat \<Rightarrow> unit chatting" where
  "disconnect ws = (\<lambda>s. case first_of (filter (\<lambda>c. cn_ws c = ws) (conns (committed s))) of
     None \<Rightarrow> (Inr (), s) | Some c \<Rightarrow> chat_session (close_ws c) s)"

definition expiry_watcher :: "nat \<Rightarrow> unit chatting" where
  "expiry_watcher ws = chat_session (\<lambda>s. case first_of (filter (\<lambda>c. cn_ws c = ws) (conns (work s))) of
     None \<Rightarrow> (Inr (), s)
   | Some c \<Rightarrow> if cn_warned c \<or> clock s < cn_since c + from_seconds expiry_warning_at_seconds then (Inr (), s)
       else seq_c (send_to ws (Ws_Expiry_Warning (connection_expiry_seconds - expiry_warning_at_seconds)))
              (set_conn ws (\<lambda>x. x\<lparr>cn_warned := True\<rparr>)) s)"

section \<open>REST endpoints\<close>

definition get_profile_id :: "string option \<Rightarrow> uuid chatting" where
  "get_profile_id header = (case header of
     None \<Rightarrow> raise (HTTPException 401 ''Unauthorized'')
   | Some h \<Rightarrow> if h = [] then raise (HTTPException 401 ''Unauthorized'')
       else case parse_uuid h of None \<Rightarrow> raise (HTTPException 401 ''Invalid profile ID'') | Some u \<Rightarrow> ret u)"

definition require_room :: "uuid \<Rightarrow> uuid \<Rightarrow> chat_room chatting" where
  "require_room room profile = bind_c (participant_room room profile) (\<lambda>found. case found of
     None \<Rightarrow> raise (HTTPException 404 ''Room not found'') | Some r \<Rightarrow> ret r)"

text \<open>One entry of the list of rooms: the room, its last message, the messages of the other not read yet.\<close>

type_synonym room_summary = "chat_room \<times> message_out option \<times> nat"

definition since_text :: "read_receipt option \<Rightarrow> string" where
  "since_text r = (case r of Some r \<Rightarrow> (case rr_msg r of Some i \<Rightarrow> str_uuid i | None \<Rightarrow> ''00000000-0000-0000-0000-000000000000'')
     | None \<Rightarrow> ''00000000-0000-0000-0000-000000000000'')"

definition summarize_room :: "chat_db \<Rightarrow> uuid \<Rightarrow> chat_room \<Rightarrow> room_summary" where
  "summarize_room db profile r =
     (r, map_option row_out (first_of (rev (sort_key cm_id (filter (shown (cr_id r)) (chat_messages db))))),
      length (filter (\<lambda>m. shown (cr_id r) m \<and> cm_sender m \<noteq> profile
        \<and> since_text (first_of (filter (\<lambda>x. rr_room x = cr_id r \<and> rr_profile x = profile) (receipts db))) < str_uuid (cm_id m))
        (chat_messages db)))"

text \<open>The page of rooms: newest first, but the rooms after a cursor are those with a greater identifier.\<close>

definition rooms_page :: "uuid \<Rightarrow> nat \<Rightarrow> string option \<Rightarrow> chat_room list \<Rightarrow> chat_room list \<times> string option" where
  "rooms_page profile limit cursor rs =
     (let found = filter (\<lambda>r. profile \<in> set (cr_participants r) \<and> (case cursor of None \<Rightarrow> True | Some c \<Rightarrow> c < str_uuid (cr_id r))) rs;
          rows = take (limit + 1) (rev (sort_key cr_created_at found)); items = take limit rows in
      (items, if limit < length rows \<and> items \<noteq> [] then Some (str_uuid (cr_id (last items))) else None))"

text \<open>
  Both lists ask \<open>:cursor IS NULL OR id::text > :cursor\<close> of a parameter without a type. \<open>infers\<close> tells whether the
  database finds the type of such a parameter; PostgreSQL answers that it could not determine it.
\<close>

definition ask_cursor :: "bool \<Rightarrow> unit chatting" where
  "ask_cursor infers = (if infers then ret () else raise (LibraryError ''AmbiguousParameterError''))"

definition list_rooms :: "bool \<Rightarrow> string option \<Rightarrow> string option \<Rightarrow> nat \<Rightarrow> (room_summary list \<times> string option) chatting" where
  "list_rooms infers header cursor limit = chat_session (bind_c (get_profile_id header) (\<lambda>profile. seq_c (ask_cursor infers) (\<lambda>s.
     case rooms_page profile limit cursor (chat_rooms (work s)) of
       (items, next_cursor) \<Rightarrow> (Inr (map (summarize_room (work s) profile) items, next_cursor), s))))"

definition get_room :: "string option \<Rightarrow> uuid \<Rightarrow> (chat_room \<times> read_receipt list) chatting" where
  "get_room header room = chat_session (bind_c (get_profile_id header) (\<lambda>profile.
     bind_c (require_room room profile) (\<lambda>r.
     bind_c (orm chat_mapped (select_all receipts (\<lambda>x. rr_room x = room))) (\<lambda>rs. ret (r, rs)))))"

definition messages_page :: "uuid \<Rightarrow> bool \<Rightarrow> nat \<Rightarrow> string option \<Rightarrow> chat_message list \<Rightarrow> chat_message list \<times> string option" where
  "messages_page room after limit cursor ms =
     (let found = filter (\<lambda>m. shown room m \<and> (case cursor of None \<Rightarrow> True
            | Some c \<Rightarrow> if after then c < str_uuid (cm_id m) else str_uuid (cm_id m) < c)) ms;
          rows = take (limit + 1) (if after then sort_key cm_id found else rev (sort_key cm_id found)); items = take limit rows in
      (items, if limit < length rows \<and> items \<noteq> [] then Some (str_uuid (cm_id (last items))) else None))"

definition get_messages :: "bool \<Rightarrow> string option \<Rightarrow> uuid \<Rightarrow> string option \<Rightarrow> nat \<Rightarrow> string \<Rightarrow> (message_out list \<times> string option) chatting" where
  "get_messages infers header room cursor limit direction = chat_session (bind_c (get_profile_id header) (\<lambda>profile.
     seq_c (require_room room profile) (seq_c (ask_cursor infers) (\<lambda>s.
       case messages_page room (direction = ''after'') limit cursor (chat_messages (work s)) of
         (rows, next_cursor) \<Rightarrow> (Inr (map row_out rows, next_cursor), s)))))"

definition rest_status :: "rat \<Rightarrow> msg_status" where
  "rest_status score = (if 9 / 10 \<le> score then Ms_Auto_Hidden else if 7 / 10 \<le> score \<and> score < 9 / 10 then Ms_Hidden
     else if 4 / 10 \<le> score \<and> score < 7 / 10 then Ms_Soft_Warn else Ms_Allowed)"

definition send_message :: "chat_scan \<Rightarrow> nat \<times> nat \<Rightarrow> string option \<Rightarrow> uuid \<Rightarrow> send_payload \<Rightarrow> message_out chatting" where
  "send_message scan draw header room p = chat_session (bind_c (get_profile_id header) (\<lambda>profile.
     bind_c (require_room room profile) (\<lambda>r.
       if cr_state r \<noteq> Room_Open then raise (HTTPException 403 ''Room is read-only'')
       else let score = fst (call_moderation scan) in
         bind_c (store_message draw room profile (sp_body p) (sp_nonce p) (sp_reply_to p) score (rest_status score)) (\<lambda>m.
           ret ((row_out m)\<lparr>mo_reply_to := None\<rparr>)))))"

definition last_version :: "uuid \<Rightarrow> message_revision list \<Rightarrow> nat" where
  "last_version msg rvs = Max (set (0 # map rv_version (filter (\<lambda>r. rv_msg r = msg) rvs)))"

text \<open>\<open>version\<close> is a SMALLINT.\<close>

definition add_revision :: "message_revision \<Rightarrow> unit chatting" where
  "add_revision r = orm chat_mapped (if 32767 < rv_version r then raise (LibraryError ''DBAPIError'')
     else db_insert revisions_update revisions (\<lambda>_. True) revision_clash r)"

definition first_revision :: "chat_message \<Rightarrow> message_revision" where
  "first_revision m = \<lparr>rv_msg = cm_id m, rv_version = 1, rv_body = (case cm_body m of None \<Rightarrow> [] | Some b \<Rightarrow> b), rv_edited_at = cm_created_at m\<rparr>"

definition apply_edit :: "chat_message \<Rightarrow> string \<Rightarrow> message_out chatting" where
  "apply_edit m body = bind_c (\<lambda>s. (Inr (last_version (cm_id m) (revisions (work s))), s)) (\<lambda>max_ver.
     seq_c (when_c (max_ver = 0) (add_revision (first_revision m)))
    (bind_c now_c (\<lambda>now.
     seq_c (add_revision \<lparr>rv_msg = cm_id m, rv_version = max max_ver 1 + 1, rv_body = body, rv_edited_at = now\<rparr>)
    (seq_c (modify_table chat_messages_update chat_messages
             (update_where (\<lambda>x. cm_id x = cm_id m) (\<lambda>x. x\<lparr>cm_body := Some body, cm_edited_at := Some now\<rparr>)))
    (seq_c commit_c
      (ret ((row_out m)\<lparr>mo_body := Some body, mo_reply_to := None, mo_edited_at := Some now\<rparr>)))))))"

definition edit_message :: "string option \<Rightarrow> uuid \<Rightarrow> uuid \<Rightarrow> string \<Rightarrow> message_out chatting" where
  "edit_message header room msg body = chat_session (bind_c (get_profile_id header) (\<lambda>profile.
     bind_c (select_all chat_messages (\<lambda>m. cm_id m = msg \<and> cm_room m = room)) (\<lambda>found.
     case first_of found of
       None \<Rightarrow> raise (HTTPException 404 ''Message not found'')
     | Some m \<Rightarrow>
         if cm_sender m \<noteq> profile then raise (HTTPException 403 (''Cannot edit another user'' @ CHR 0x27 # ''s message''))
         else if cm_type m \<noteq> Msg_Text then raise (HTTPException 400 ''Only text messages can be edited'')
         else if cm_deleted_at m \<noteq> None then raise (HTTPException 410 ''Message deleted'')
         else apply_edit m body)))"

definition mark_read :: "string option \<Rightarrow> uuid \<Rightarrow> uuid \<Rightarrow> unit chatting" where
  "mark_read header room msg = chat_session (bind_c (get_profile_id header) (\<lambda>profile.
     seq_c (require_room room profile) (store_receipt room profile msg)))"

text \<open>\<open>env\<close> and the header \<open>X-Internal-Service\<close> guard the audit of a room.\<close>

definition audit_messages :: "string \<Rightarrow> string option \<Rightarrow> uuid \<Rightarrow> (chat_message \<times> message_revision list) list chatting" where
  "audit_messages env service room = chat_session (
     if (service = None \<or> service = Some []) \<and> env \<noteq> ''local'' \<and> env \<noteq> ''dev'' then raise (HTTPException 403 ''Internal endpoint'')
     else bind_c (select_all chat_messages (\<lambda>m. cm_room m = room)) (\<lambda>ms. \<lambda>s.
       (Inr (map (\<lambda>m. (m, sort_key rv_version (filter (\<lambda>r. rv_msg r = cm_id m) (revisions (work s))))) (sort_key cm_id ms)), s)))"

section \<open>Events of other services\<close>

definition payload_uuid :: "(string \<times> json) list \<Rightarrow> string \<Rightarrow> uuid chatting" where
  "payload_uuid body key = (case map_of body key of
     None \<Rightarrow> raise (KeyError key)
   | Some (JStr t) \<Rightarrow> (case parse_uuid t of None \<Rightarrow> raise ValueError | Some u \<Rightarrow> ret u)
   | Some _ \<Rightarrow> raise (AttributeError ''replace''))"

definition chat_match_created :: "nat \<times> nat \<Rightarrow> (string \<times> json) list \<Rightarrow> unit chatting" where
  "chat_match_created draw body = bind_c (payload_uuid body ''collaboration_id'') (\<lambda>collab.
     bind_c (payload_uuid body ''profile_id_a'') (\<lambda>a. bind_c (payload_uuid body ''profile_id_b'') (\<lambda>b.
     chat_session (bind_c (orm chat_mapped (scalar_one_or_none chat_rooms (\<lambda>r. cr_collab r = collab))) (\<lambda>existing. case existing of
       Some _ \<Rightarrow> ret ()
     | None \<Rightarrow> bind_c now_c (\<lambda>now. let room = \<lparr>cr_id = uuidv7 now draw, cr_collab = collab, cr_participants = [a, b],
           cr_state = Room_Open, cr_created_at = now\<rparr> in
         seq_c (orm chat_mapped (db_insert chat_rooms_update chat_rooms (\<lambda>_. True) room_clash room))
        (seq_c commit_c
          (publish_c (Message ''chat.room.created'' [(''event'', JStr ''chat.room.created''),
             (''collaboration_id'', JStr (str_uuid collab)), (''room_id'', JStr (str_uuid (cr_id room)))])))))))))"

definition room_of_pair :: "uuid \<Rightarrow> uuid \<Rightarrow> room_state \<Rightarrow> chat_room option chatting" where
  "room_of_pair a b st = bind_c (select_all chat_rooms (\<lambda>r. a \<in> set (cr_participants r) \<and> b \<in> set (cr_participants r) \<and> cr_state r = st))
     (\<lambda>rs. ret (first_of rs))"

definition put_room_state :: "uuid \<Rightarrow> room_state \<Rightarrow> unit chatting" where
  "put_room_state room st = seq_c (modify_table chat_rooms_update chat_rooms (update_where (\<lambda>r. cr_id r = room) (\<lambda>r. r\<lparr>cr_state := st\<rparr>)))
     (seq_c commit_c (publish_room room (Ws_Room_State st)))"

definition chat_block_created :: "(string \<times> json) list \<Rightarrow> unit chatting" where
  "chat_block_created body = bind_c (payload_uuid body ''blocker_profile_id'') (\<lambda>a. bind_c (payload_uuid body ''blocked_profile_id'') (\<lambda>b.
     chat_session (bind_c (room_of_pair a b Room_Open) (\<lambda>found. case found of
       None \<Rightarrow> ret () | Some r \<Rightarrow> put_room_state (cr_id r) Room_Read_Only))))"

definition chat_block_removed :: "(string \<times> json) list \<Rightarrow> unit chatting" where
  "chat_block_removed body = bind_c (payload_uuid body ''blocker_profile_id'') (\<lambda>a. bind_c (payload_uuid body ''blocked_profile_id'') (\<lambda>b.
     bind_c now_c (\<lambda>now. chat_session (bind_c (room_of_pair a b Room_Read_Only) (\<lambda>found. case found of
       None \<Rightarrow> ret ()
     | Some r \<Rightarrow> if now - days 30 \<le> cr_created_at r then put_room_state (cr_id r) Room_Open else ret ())))))"

end
