(* ===== verification/Chat_World.thy ===== *)
theory Chat_World
  imports Chat_Service
begin

text \<open>
  chat-svc as a whole: its requests as one step function, what a request does to the tables and the
  sockets as a sequence of effects, and the proof that every request is such a sequence.
\<close>

section \<open>Requests\<close>

datatype chat_request =
    Ch_Open nat nat "string option" string uuid
  | Ch_Frame chat_scan "nat \<times> nat" nat client_frame
  | Ch_Disconnect nat
  | Ch_Expiry nat
  | Ch_Send chat_scan "nat \<times> nat" "string option" uuid send_payload
  | Ch_Edit "string option" uuid uuid string
  | Ch_Read "string option" uuid uuid
  | Ch_Match "nat \<times> nat" "(string \<times> json) list"
  | Ch_Block "(string \<times> json) list"
  | Ch_Unblock "(string \<times> json) list"
  | Ch_Wait nat

fun chat_step :: "chat_request \<Rightarrow> chat_sess \<Rightarrow> chat_sess" where
  "chat_step (Ch_Open ws pod header query room) s = snd (ws_chat ws pod header query room s)"
| "chat_step (Ch_Frame scan draw ws f) s = snd (receive scan draw ws f s)"
| "chat_step (Ch_Disconnect ws) s = snd (disconnect ws s)"
| "chat_step (Ch_Expiry ws) s = snd (expiry_watcher ws s)"
| "chat_step (Ch_Send scan draw header room p) s = snd (send_message scan draw header room p s)"
| "chat_step (Ch_Edit header room msg body) s = snd (edit_message header room msg body s)"
| "chat_step (Ch_Read header room msg) s = snd (mark_read header room msg s)"
| "chat_step (Ch_Match draw body) s = snd (chat_match_created draw body s)"
| "chat_step (Ch_Block body) s = snd (chat_block_created body s)"
| "chat_step (Ch_Unblock body) s = snd (chat_block_removed body s)"
| "chat_step (Ch_Wait us) s = s\<lparr>clock := clock s + int us\<rparr>"

definition chat_run :: "chat_request list \<Rightarrow> chat_sess \<Rightarrow> chat_sess" where
  "chat_run qs s = fold chat_step qs s"

section \<open>Effects\<close>

definition same_tables :: "chat_db \<Rightarrow> chat_db \<Rightarrow> bool" where
  "same_tables a b \<longleftrightarrow> chat_mapped a = chat_mapped b \<and> chat_rooms a = chat_rooms b \<and> chat_messages a = chat_messages b \<and> revisions a = revisions b \<and> receipts a = receipts b"

text \<open>The messages a frame is about. The preview in a reply quotes another message and is none of them.\<close>

fun frame_messages :: "server_frame \<Rightarrow> message_out list" where
  "frame_messages (Ws_Message m) = [m]"
| "frame_messages (Ws_Soft_Warn_Ack m) = [m]"
| "frame_messages (Ws_Replay ms _) = ms"
| "frame_messages _ = []"

definition visible :: "chat_message \<Rightarrow> bool" where
  "visible m \<longleftrightarrow> cm_status m = Ms_Allowed \<or> cm_status m = Ms_Soft_Warn"

text \<open>A message shown on a socket is a stored one nobody hid.\<close>

definition vouched :: "chat_db \<Rightarrow> message_out \<Rightarrow> bool" where
  "vouched db o1 \<longleftrightarrow> (\<exists>x \<in> set (chat_messages db). cm_id x = mo_id o1 \<and> visible x)"

text \<open>A new message is hidden exactly when its score demands it (an escalated category may hide it too).\<close>

definition scored :: "chat_message \<Rightarrow> bool" where
  "scored m \<longleftrightarrow> (\<exists>q. cm_score m = Some q \<and> (7 / 10 \<le> q \<longrightarrow> \<not> visible m))"

definition edit_revisions :: "chat_message \<Rightarrow> string \<Rightarrow> datetime \<Rightarrow> message_revision list \<Rightarrow> message_revision list" where
  "edit_revisions m body now rvs = rvs @ (if last_version (cm_id m) rvs = 0 then [first_revision m] else [])
     @ [\<lparr>rv_msg = cm_id m, rv_version = max (last_version (cm_id m) rvs) 1 + 1, rv_body = body, rv_edited_at = now\<rparr>]"

definition edited :: "uuid \<Rightarrow> string \<Rightarrow> datetime \<Rightarrow> chat_message list \<Rightarrow> chat_message list" where
  "edited msg body now = update_where (\<lambda>x. cm_id x = msg) (\<lambda>x. x\<lparr>cm_body := Some body, cm_edited_at := Some now\<rparr>)"

inductive chat_effect :: "chat_db \<Rightarrow> chat_db \<Rightarrow> bool" where
  told: "same_tables db' db \<Longrightarrow> sent_frames db' = sent_frames db @ fs
    \<Longrightarrow> (\<And>ws f o1. (ws, f) \<in> set fs \<Longrightarrow> o1 \<in> set (frame_messages f) \<Longrightarrow> vouched db o1) \<Longrightarrow> chat_effect db db'"
| sent_in: "\<not> list_ex (message_clash m) (chat_messages db) \<Longrightarrow> scored m \<Longrightarrow> cm_edited_at m = None \<Longrightarrow> cm_body m \<noteq> None
    \<Longrightarrow> chat_effect db (db\<lparr>chat_messages := chat_messages db @ [m]\<rparr>)"
| edited_in: "m \<in> set (chat_messages db)
    \<Longrightarrow> chat_effect db (db\<lparr>revisions := edit_revisions m body now (revisions db), chat_messages := edited (cm_id m) body now (chat_messages db)\<rparr>)"
| read_in: "chat_effect db (db\<lparr>receipts := upsert_receipt room profile msg now (receipts db)\<rparr>)"
| room_in: "\<not> list_ex (room_clash r) (chat_rooms db) \<Longrightarrow> chat_effect db (db\<lparr>chat_rooms := chat_rooms db @ [r]\<rparr>)"
| room_changed: "chat_effect db (db\<lparr>chat_rooms := update_where (\<lambda>r. cr_id r = room) (\<lambda>r. r\<lparr>cr_state := st\<rparr>) (chat_rooms db)\<rparr>)"

abbreviation chat_effects :: "chat_db \<Rightarrow> chat_db \<Rightarrow> bool" where
  "chat_effects \<equiv> chat_effect\<^sup>*\<^sup>*"

definition reached :: "chat_db \<Rightarrow> chat_sess \<Rightarrow> bool" where
  "reached d s \<longleftrightarrow> chat_effects d (work s) \<and> same_tables (committed s) (work s)"

lemma same_tables_refl [simp]: "same_tables a a"
  by (simp add: same_tables_def)

lemma reached_told:
  assumes "reached d s" "same_tables w (work s)" "sent_frames w = sent_frames (work s) @ fs"
    and "\<And>ws f o1. (ws, f) \<in> set fs \<Longrightarrow> o1 \<in> set (frame_messages f) \<Longrightarrow> vouched (work s) o1"
  shows "reached d (s\<lparr>work := w\<rparr>)"
  using assms chat_effect.told [OF assms(2,3,4)] by (auto simp: reached_def same_tables_def intro: rtranclp.rtrancl_into_rtrancl)

lemma reached_quiet: "reached d s \<Longrightarrow> same_tables w (work s) \<Longrightarrow> sent_frames w = sent_frames (work s) \<Longrightarrow> reached d (s\<lparr>work := w\<rparr>)"
  using reached_told [where fs = "[]"] by simp

lemma reached_commit:
  assumes "reached d s" "chat_effect (work s) w" shows "reached d (s\<lparr>work := w, committed := w\<rparr>)"
  using assms by (auto simp: reached_def intro: rtranclp.rtrancl_into_rtrancl)

lemma reached_other [simp]:
  "reached d (s\<lparr>outbox := ms\<rparr>) = reached d s" "reached d (s\<lparr>next_uuid := i\<rparr>) = reached d s"
  by (simp_all add: reached_def)

lemma fan_out_frames: "(ws, g) \<in> set (fan_out cs room f) \<Longrightarrow> g = f"
  by (auto simp: fan_out_def local_broadcast_def)

lemma keeps_reached_prims [simp]:
  "keeps (reached d) (set_conn ws g)" "keeps (reached d) (modify_table conns_update conns h)"
  "keeps (reached d) (at_presence room profile k)" "keeps (reached d) (publish_c msg)"
  "frame_messages f = [] \<Longrightarrow> keeps (reached d) (send_to ws f)"
  "frame_messages f = [] \<Longrightarrow> keeps (reached d) (publish_room room f)"
proof -
  show "keeps (reached d) (set_conn ws g)" "keeps (reached d) (modify_table conns_update conns h)"
    "keeps (reached d) (at_presence room profile k)" "keeps (reached d) (publish_c msg)"
    by (auto simp: keeps_def comp_simps set_conn_def at_presence_def same_tables_def intro: reached_quiet)
  show "frame_messages f = [] \<Longrightarrow> keeps (reached d) (send_to ws f)"
    by (auto simp: keeps_def send_to_def same_tables_def intro: reached_told)
  show "keeps (reached d) (publish_room room f)" if "frame_messages f = []"
  proof (rule keepsI)
    fix s assume "reached d s"
    then show "reached d (snd (publish_room room f s))"
      unfolding publish_room_def snd_conv
      by (rule reached_told [where fs = "fan_out (conns (work s)) room f"]) (auto simp: same_tables_def that dest: fan_out_frames)
  qed
qed

lemma keeps_reached_redis [simp]:
  "keeps (reached d) (set_online room profile on1)" "keeps (reached d) (set_typing room profile on1)" "keeps (reached d) (refresh_ttl room profile)"
  by (simp_all add: set_online_def set_typing_def refresh_ttl_def)

lemma keeps_reached_parts [simp]:
  "keeps (reached d) (counted check c)" "keeps (reached d) (dedup_check nonce)" "keeps (reached d) (refresh_room c)"
  "keeps (reached d) (participant_room room profile)" "keeps (reached d) (get_profile_id header)"
  "keeps (reached d) (payload_uuid body key)" "keeps (reached d) (room_of_pair a b st)" "keeps (reached d) (build_message_out m)"
  "keeps (reached d) (close_ws c)" "keeps (reached d) (publish_moderation_event r2 m2 p2 act)" "keeps (reached d) (publish_chat_event r3 out)"
  by (simp_all add: counted_def dedup_check_def refresh_room_def participant_room_def get_profile_id_def payload_uuid_def
      room_of_pair_def build_message_out_def close_ws_def publish_moderation_event_def publish_chat_event_def keeps_bind keeps_seq keeps_orm
      split: option.split prod.split json.split)

lemma keeps_reached_require [simp]: "keeps (reached d) (require_room room profile)"
  by (simp add: require_room_def keeps_bind split: option.split)

section \<open>Every request is a sequence of effects\<close>

lemma keeps_reached_store:
  assumes "7 / 10 \<le> score \<longrightarrow> st \<noteq> Ms_Allowed \<and> st \<noteq> Ms_Soft_Warn"
  shows "keeps (reached d) (store_message draw room sender body nonce reply score st)"
proof (rule keepsI)
  fix s assume r: "reached d s"
  let ?m = "new_message (uuidv7 (clock s) draw) room sender body nonce reply score st (clock s)"
  have "scored ?m" "cm_edited_at ?m = None" "cm_body ?m \<noteq> None" using assms by (auto simp: scored_def new_message_def visible_def)
  with r show "reached d (snd (store_message draw room sender body nonce reply score st s))"
    by (auto simp: store_message_def comp_simps Let_def intro!: reached_commit chat_effect.sent_in)
qed

lemma store_message_out:
  "store_message draw room sender body nonce reply score st s = (Inr m, s1)
    \<Longrightarrow> m \<in> set (chat_messages (work s1)) \<and> cm_status m = st"
  by (auto simp: store_message_def comp_simps Let_def new_message_def split: if_splits)

lemma keeps_vouched:
  assumes "set (frame_messages f) \<subseteq> {o1}"
  shows "keeps (\<lambda>s. reached d s \<and> vouched (work s) o1) (send_to ws f)"
    and "keeps (\<lambda>s. reached d s \<and> vouched (work s) o1) (publish_room room f)"
    and "keeps (\<lambda>s. reached d s \<and> vouched (work s) o1) (publish_c msg)"
proof -
  have v: "vouched (w\<lparr>sent_frames := x\<rparr>) o2 = vouched w o2" for w x o2 by (simp add: vouched_def)
  show "keeps (\<lambda>s. reached d s \<and> vouched (work s) o1) (send_to ws f)"
    using assms by (auto simp: keeps_def send_to_def v same_tables_def intro!: reached_told [where fs = "[(ws, f)]"])
  show "keeps (\<lambda>s. reached d s \<and> vouched (work s) o1) (publish_room room f)"
    using assms by (auto simp: keeps_def publish_room_def v same_tables_def
        intro!: reached_told [where fs = "fan_out (conns (work s)) room f" for s] dest!: fan_out_frames)
  show "keeps (\<lambda>s. reached d s \<and> vouched (work s) o1) (publish_c msg)" by (simp add: keeps_def comp_simps)
qed

lemma build_message_out_id:
  "build_message_out m s = (x, s1) \<Longrightarrow> s1 = s \<and> (\<forall>out. x = Inr out \<longrightarrow> mo_id out = cm_id m)"
  by (auto simp: build_message_out_def comp_simps row_out_def split: option.splits sum.splits prod.splits if_splits list.splits)

lemma keeps_reached_deliver:
  assumes "score < 7 / 10" "st = Ms_Allowed \<or> st = Ms_Soft_Warn"
  shows "keeps (reached d) (deliver_message draw c p score st)"
proof (rule keepsI)
  fix s assume r: "reached d s"
  let ?store = "store_message draw (cr_id (cn_room c)) (cn_profile c) (sp_body p) (sp_nonce p) (sp_reply_to p) score st"
  have ks: "reached d (snd (?store s))" using assms r by (intro keepsD [OF keeps_reached_store]) auto
  show "reached d (snd (deliver_message draw c p score st s))"
  proof (cases "?store s")
    case (Pair x s1)
    show ?thesis
    proof (cases x)
      case (Inl e)
      then show ?thesis using Pair ks by (simp add: deliver_message_def comp_simps)
    next
      case (Inr m)
      with store_message_out Pair have m: "m \<in> set (chat_messages (work s1))" "cm_status m = st" by blast+
      obtain y s2 where b: "build_message_out m s1 = (y, s2)" by fastforce
      with build_message_out_id have s2: "s2 = s1" by blast
      show ?thesis
      proof (cases y)
        case (Inl e)
        then show ?thesis using Pair Inr b s2 ks by (simp add: deliver_message_def comp_simps)
      next
        case y: (Inr out)
        with b build_message_out_id have "mo_id out = cm_id m" by blast
        with m assms(2) have v: "vouched (work s1) out" by (auto simp: vouched_def visible_def)
        have "keeps (\<lambda>s. reached d s \<and> vouched (work s) out) (seq_c (publish_room (cr_id (cn_room c)) (Ws_Message out))
            (seq_c (send_to (cn_ws c) (if st = Ms_Soft_Warn then Ws_Soft_Warn_Ack out else Ws_Message_Ack (sp_nonce p) (cm_id m) (cm_created_at m)))
               (publish_chat_event (cr_id (cn_room c)) out)))"
          by (intro keeps_seq keeps_vouched) (auto simp: publish_chat_event_def intro: keeps_vouched(3) [where f = Ws_Pong])
        from keepsD [OF this] ks v Pair show ?thesis
          by (simp add: deliver_message_def comp_simps Inr b s2 y)
      qed
    qed
  qed
qed

lemma keeps_reached_send: "keeps (reached d) (handle_send scan draw c p request)"
proof -
  have "keeps (reached d) (reject_message draw c q score st action f)" if "st = Ms_Hidden \<or> st = Ms_Auto_Hidden" "frame_messages f = []" for q score st action f
    using that unfolding reject_message_def by (intro keeps_intros keeps_reached_store) auto
  then show ?thesis unfolding handle_send_def
    by (auto intro!: keeps_intros keeps_reached_deliver split: option.split prod.split simp: max_body_length_def)
qed

lemma keeps_reached_receipt: "keeps (reached d) (store_receipt room profile msg)"
  by (auto simp: keeps_def store_receipt_def comp_simps intro!: reached_commit chat_effect.read_in)

lemma keeps_reached_frames:
  "keeps (reached d) (handle_typing c t)" "keeps (reached d) (handle_read_ack c r)"
  unfolding handle_typing_def handle_read_ack_def
  by (auto intro!: keeps_intros keeps_reached_receipt split: option.split)

lemma keeps_reached_reconnect: "keeps (reached d) (handle_reconnect c since)"
proof -
  have "keeps (reached d) (bind_c (select_all chat_messages (\<lambda>m. shown room m \<and> P m)) (\<lambda>found.
         let rows = take n (sort_key cm_id found) in send_to ws (Ws_Replay (map row_out (take k rows)) (b rows))))" for room P n ws k b
  proof (rule keepsI)
    fix s assume r: "reached d s"
    have "vouched (work s) o1" if "o1 \<in> set (map row_out (take k (take n (sort_key cm_id (filter (\<lambda>m. shown room m \<and> P m) (chat_messages (work s)))))))" for o1
      using that by (auto simp: vouched_def visible_def shown_def row_out_def dest!: in_set_takeD)
    with r show "reached d (snd (bind_c (select_all chat_messages (\<lambda>m. shown room m \<and> P m)) (\<lambda>found.
         let rows = take n (sort_key cm_id found) in send_to ws (Ws_Replay (map row_out (take k rows)) (b rows))) s))"
      by (auto simp: comp_simps Let_def send_to_def same_tables_def intro!: reached_told)
  qed
  note replay = this
  show ?thesis unfolding handle_reconnect_def
  proof (rule keeps_bind)
    fix ok
    show "keeps (reached d) (if \<not> ok then send_to (cn_ws c) (Ws_Error ''RATE_LIMITED'' ''Too many reconnect frames'' None)
     else case since of None \<Rightarrow> ret () | Some since \<Rightarrow>
       bind_c (select_all chat_messages (\<lambda>m. shown (cr_id (cn_room c)) m \<and> str_uuid since < str_uuid (cm_id m))) (\<lambda>found.
         let rows = take (replay_page_size + 1) (sort_key cm_id found) in
         send_to (cn_ws c) (Ws_Replay (map row_out (take replay_page_size rows)) (replay_page_size < length rows))))"
      by (cases ok; cases since) (simp_all only: not_True_eq_False not_False_eq_True if_True if_False option.case replay keeps_ret
          keeps_reached_prims(5) [OF frame_messages.simps(8)])
  qed simp
qed

lemma keeps_reached_dispatch: "keeps (reached d) (dispatch_frame scan draw c f)"
  unfolding dispatch_frame_def
  by (auto intro!: keeps_intros keeps_reached_send keeps_reached_frames keeps_reached_reconnect split: client_frame.split)

lemma off_table_same: "same_tables a b \<Longrightarrow> off_table a b = b"
  by (simp add: off_table_def same_tables_def)

lemma session_effects:
  assumes "\<And>d. keeps (reached d) m"
  shows "chat_effects (committed s) (committed (snd (chat_session m s)))"
proof -
  have "reached (committed s) (s\<lparr>work := committed s\<rparr>)" by (simp add: reached_def)
  from keepsD [OF assms this] show ?thesis
    by (auto simp: chat_session_def reached_def off_table_same split: prod.split)
qed

lemma frame_effects: "chat_effects (committed s) (committed (snd (receive scan draw ws f s)))"
proof (cases "first_of (filter (\<lambda>c. cn_ws c = ws) (conns (committed s)))")
  case (Some c)
  obtain x s1 where run: "chat_session (seq_c (refresh_ttl (cr_id (cn_room c)) (cn_profile c)) (dispatch_frame scan draw c f)) s = (x, s1)"
    by fastforce
  have "chat_effects (committed s) (committed s1)"
    using session_effects [of "seq_c (refresh_ttl (cr_id (cn_room c)) (cn_profile c)) (dispatch_frame scan draw c f)" s] run
    by (simp add: keeps_seq keeps_reached_dispatch)
  moreover have "chat_effects (committed s1) (committed (snd (chat_session (close_ws c) s1)))" by (rule session_effects) simp
  ultimately show ?thesis using Some run by (auto simp: receive_def split: sum.split)
qed (simp add: receive_def)

lemma last_version_ge: "r \<in> set rvs \<Longrightarrow> rv_msg r = msg \<Longrightarrow> rv_version r \<le> last_version msg rvs"
  by (auto simp: last_version_def intro!: Max_ge)

text \<open>An edit that gets through; one more than a SMALLINT can number does nothing.\<close>

lemma apply_edit_refused:
  assumes "\<not> chat_mapped (work s) \<or> 32767 \<le> last_version (cm_id m) (revisions (work s))"
  shows "\<exists>e. apply_edit m body s = (Inl e, s)"
  using assms
  by (cases "last_version (cm_id m) (revisions (work s)) = 0") (auto simp: apply_edit_def comp_simps add_revision_def)

lemma apply_edit_run:
  assumes "chat_mapped (work s)" "last_version (cm_id m) (revisions (work s)) < 32767"
  shows "apply_edit m body s = (Inr ((row_out m)\<lparr>mo_body := Some body, mo_reply_to := None, mo_edited_at := Some (clock s)\<rparr>),
     let w = (work s)\<lparr>revisions := edit_revisions m body (clock s) (revisions (work s)),
                chat_messages := edited (cm_id m) body (clock s) (chat_messages (work s))\<rparr> in s\<lparr>work := w, committed := w\<rparr>)"
proof -
  have fresh: "\<not> list_ex (revision_clash \<lparr>rv_msg = cm_id m, rv_version = n, rv_body = b1, rv_edited_at = t\<rparr>) (revisions (work s))"
    if "last_version (cm_id m) (revisions (work s)) < n" for n b1 t
    using that last_version_ge by (fastforce simp: list_ex_iff revision_clash_def)
  show ?thesis using assms
    by (cases "last_version (cm_id m) (revisions (work s))")
       (simp_all add: apply_edit_def comp_simps add_revision_def edit_revisions_def edited_def Let_def fresh first_revision_def revision_clash_def)
qed

lemma keeps_reached_edit: "reached d s \<Longrightarrow> m \<in> set (chat_messages (work s)) \<Longrightarrow> reached d (snd (apply_edit m body s))"
  using apply_edit_refused [of s m body]
  by (cases "chat_mapped (work s) \<and> last_version (cm_id m) (revisions (work s)) < 32767")
     (auto simp: apply_edit_run Let_def not_less intro!: reached_commit chat_effect.edited_in)

lemma edit_effects: "chat_effects (committed s) (committed (snd (edit_message header room msg body s)))"
  unfolding edit_message_def
proof (rule session_effects, rule keeps_bind)
  fix d profile
  show "keeps (reached d) (bind_c (select_all chat_messages (\<lambda>m. cm_id m = msg \<and> cm_room m = room)) (\<lambda>found.
     case first_of found of
       None \<Rightarrow> raise (HTTPException 404 ''Message not found'')
     | Some m \<Rightarrow>
         if cm_sender m \<noteq> profile then raise (HTTPException 403 (''Cannot edit another user'' @ CHR 0x27 # ''s message''))
         else if cm_type m \<noteq> Msg_Text then raise (HTTPException 400 ''Only text messages can be edited'')
         else if cm_deleted_at m \<noteq> None then raise (HTTPException 410 ''Message deleted'')
         else apply_edit m body))"
    by (auto simp: keeps_def comp_simps first_of_def filter_eq_Cons_iff intro!: keeps_reached_edit split: option.split list.splits)
qed simp

lemma keeps_reached_state: "keeps (reached d) (put_room_state room st)"
proof (rule keepsI)
  fix s assume "reached d s"
  let ?w = "(work s)\<lparr>chat_rooms := update_where (\<lambda>r. cr_id r = room) (\<lambda>r. r\<lparr>cr_state := st\<rparr>) (chat_rooms (work s))\<rparr>"
  have "reached d (s\<lparr>work := ?w, committed := ?w\<rparr>)"
    by (rule reached_commit [OF \<open>reached d s\<close> chat_effect.room_changed])
  from keepsD [OF keeps_reached_prims(6) this, of "Ws_Room_State st" room]
  show "reached d (snd (put_room_state room st s))" by (simp add: put_room_state_def comp_simps)
qed

lemma via_payload:
  assumes "\<And>u. chat_effects (committed s) (committed (snd (f u s)))"
  shows "chat_effects (committed s) (committed (snd (bind_c (payload_uuid body key) f s)))"
  using assms by (cases "map_of body key") (simp_all add: payload_uuid_def comp_simps split: json.split option.split)

lemma match_effects: "chat_effects (committed s) (committed (snd (chat_match_created draw body s)))"
proof -
  have k: "keeps (reached d) (bind_c (orm chat_mapped (scalar_one_or_none chat_rooms (\<lambda>r. cr_collab r = collab))) (\<lambda>existing. case existing of
       Some _ \<Rightarrow> ret ()
     | None \<Rightarrow> bind_c now_c (\<lambda>now. let room = \<lparr>cr_id = uuidv7 now draw, cr_collab = collab, cr_participants = [a, b],
           cr_state = Room_Open, cr_created_at = now\<rparr> in
         seq_c (orm chat_mapped (db_insert chat_rooms_update chat_rooms (\<lambda>_. True) room_clash room))
        (seq_c commit_c
          (publish_c (Message ''chat.room.created'' [(''event'', JStr ''chat.room.created''),
             (''collaboration_id'', JStr (str_uuid collab)), (''room_id'', JStr (str_uuid (cr_id room)))]))))))" for d collab a b
  proof -
    have "keeps (reached d) (seq_c (orm chat_mapped (db_insert chat_rooms_update chat_rooms (\<lambda>_. True) room_clash room)) (seq_c commit_c (publish_c msg)))" for room msg
      by (auto simp: keeps_def comp_simps intro!: reached_commit chat_effect.room_in)
    then show ?thesis unfolding Let_def by (intro keeps_bind keeps_orm) (auto intro!: keeps_bind split: option.split)
  qed
  show ?thesis unfolding chat_match_created_def by (intro via_payload session_effects k)
qed

lemma block_effects:
  "chat_effects (committed s) (committed (snd (chat_block_created body s)))"
  "chat_effects (committed s) (committed (snd (chat_block_removed body s)))"
proof -
  have k: "keeps (reached d) (bind_c (room_of_pair a b st1) (\<lambda>found. case found of None \<Rightarrow> ret () | Some r \<Rightarrow> put_room_state (cr_id r) st2))"
    "keeps (reached d) (bind_c (room_of_pair a b st1) (\<lambda>found. case found of None \<Rightarrow> ret () | Some r \<Rightarrow>
        if t \<le> cr_created_at r then put_room_state (cr_id r) st2 else ret ()))" for d a b st1 st2 t
    by (auto intro!: keeps_bind keeps_reached_state split: option.split)
  show "chat_effects (committed s) (committed (snd (chat_block_created body s)))"
    unfolding chat_block_created_def by (intro via_payload session_effects k)
  show "chat_effects (committed s) (committed (snd (chat_block_removed body s)))"
    unfolding chat_block_removed_def
    by (intro via_payload) (simp only: bind_run [of now_c] now_run prod.case sum.case, intro session_effects k)
qed

text \<open>What one request does is a sequence of effects, and so is what a run does.\<close>

lemma step_effects: "chat_effects (committed s) (committed (chat_step q s))"
proof (cases q)
  case (Ch_Open ws pod header query room)
  have "chat_effects (committed s) (committed (snd (open_ws ws pod room profile s)))" for profile
    unfolding open_ws_def by (intro session_effects) (auto intro!: keeps_intros split: option.split)
  moreover have "chat_effects (committed s) (committed (snd (chat_session (send_to ws (Ws_Closed 4001)) s)))" by (rule session_effects) simp
  ultimately show ?thesis by (simp add: Ch_Open ws_chat_def Let_def split: option.split)
next
  case (Ch_Disconnect ws)
  then show ?thesis by (auto simp: disconnect_def intro!: session_effects split: option.split)
next
  case (Ch_Expiry ws)
  have "keeps (reached d) (\<lambda>s. case first_of (filter (\<lambda>c. cn_ws c = ws) (conns (work s))) of None \<Rightarrow> (Inr (), s)
      | Some c \<Rightarrow> if cn_warned c \<or> clock s < cn_since c + t then (Inr (), s) else seq_c (send_to ws (Ws_Expiry_Warning n)) (set_conn ws g) s)" for d t n g
  proof (rule keepsI)
    fix s assume r: "reached d s"
    have "keeps (reached d) (seq_c (send_to ws (Ws_Expiry_Warning n)) (set_conn ws g))" by (intro keeps_intros) simp_all
    from keepsD [OF this r] r show "reached d (snd (case first_of (filter (\<lambda>c. cn_ws c = ws) (conns (work s))) of None \<Rightarrow> (Inr (), s)
      | Some c \<Rightarrow> if cn_warned c \<or> clock s < cn_since c + t then (Inr (), s) else seq_c (send_to ws (Ws_Expiry_Warning n)) (set_conn ws g) s))"
      by (simp split: option.split)
  qed
  then show ?thesis unfolding Ch_Expiry chat_step.simps expiry_watcher_def by (intro session_effects)
next
  case (Ch_Send scan draw header room p)
  have "7 / 10 \<le> score \<longrightarrow> rest_status score \<noteq> Ms_Allowed \<and> rest_status score \<noteq> Ms_Soft_Warn" for score
    by (simp add: rest_status_def)
  then show ?thesis unfolding Ch_Send chat_step.simps send_message_def Let_def
    by (intro session_effects keeps_intros) (auto intro!: keeps_bind keeps_reached_store)
next
  case (Ch_Read header room msg)
  show ?thesis unfolding Ch_Read chat_step.simps mark_read_def
    by (intro session_effects keeps_intros keeps_reached_receipt) simp_all
qed (simp_all add: frame_effects edit_effects match_effects block_effects)

lemma run_effects: "chat_effects (committed s) (committed (chat_run qs s))"
  unfolding chat_run_def
proof (induction qs arbitrary: s)
  case (Cons q qs)
  then show ?case using step_effects [of s q] by (auto intro: rtranclp_trans)
qed simp

end
