(* ===== verification/Chat_Claims.thy ===== *)
theory Chat_Claims
  imports Chat_World
begin

text \<open>
  What holds for chat-svc over any sequence of requests, and what its lists and its sockets do.
\<close>

section \<open>What is shown\<close>

definition only_visible :: "chat_db \<Rightarrow> bool" where
  "only_visible db \<longleftrightarrow> (\<forall>m \<in> set (chat_messages db). scored m)
     \<and> (\<forall>(ws, f) \<in> set (sent_frames db). \<forall>o1 \<in> set (frame_messages f). vouched db o1)"

definition edit_one :: "uuid \<Rightarrow> string \<Rightarrow> datetime \<Rightarrow> chat_message \<Rightarrow> chat_message" where
  "edit_one i body now x = (if cm_id x = i then x\<lparr>cm_body := Some body, cm_edited_at := Some now\<rparr> else x)"

lemma edited_map: "edited i body now ms = map (edit_one i body now) ms"
  by (simp add: edited_def update_where_def edit_one_def)

lemma edit_one_facts [simp]:
  "cm_id (edit_one i body now x) = cm_id x" "visible (edit_one i body now x) = visible x" "scored (edit_one i body now x) = scored x"
  by (simp_all add: edit_one_def visible_def scored_def)

lemma vouched_mono:
  assumes "chat_effect a b" "vouched a o1" shows "vouched b o1"
  using assms
  by (induction rule: chat_effect.induct) (auto simp: vouched_def same_tables_def edited_map)

lemma only_visible_step: "chat_effect a b \<Longrightarrow> only_visible a \<Longrightarrow> only_visible b"
proof -
  assume eff: "chat_effect a b" and ok: "only_visible a"
  have kept: "vouched b o1" if "(ws, f) \<in> set (sent_frames a)" "o1 \<in> set (frame_messages f)" for ws f o1
    using ok that vouched_mono [OF eff] by (auto simp: only_visible_def)
  show "only_visible b" using eff
  proof cases
    case (told fs)
    then have "vouched b o1" if "(ws, f) \<in> set fs" "o1 \<in> set (frame_messages f)" for ws f o1
      using that vouched_mono [OF eff] by blast
    with told kept ok show ?thesis by (auto simp: only_visible_def same_tables_def)
  next
    case (edited_in m body now)
    with kept ok show ?thesis by (auto simp: only_visible_def edited_map)
  qed (use kept ok in \<open>auto simp: only_visible_def\<close>)
qed

lemma effects_keep: "chat_effects a b \<Longrightarrow> (\<And>x y. chat_effect x y \<Longrightarrow> P x \<Longrightarrow> P y) \<Longrightarrow> P a \<Longrightarrow> P b"
  by (induction rule: rtranclp_induct) auto

text \<open>C34. A message the moderation hid is never sent: over any sequence of requests, events and frames from an empty service, every
  message a socket is sent, as a new message, in an acknowledgement or in a replay, is a stored one that
  was scored below 0.7 and is marked allowed or soft_warn, and so is every message a page of the history
  endpoint holds, where the database accepts its query. Only messages are spoken of, not the preview a reply
  carries of the message it answers: \<open>hidden_text_is_quoted\<close> shows that a preview may quote a hidden one.\<close>

theorem hidden_messages_never_shown:
  assumes "chat_messages (committed s0) = []" "sent_frames (committed s0) = []" and db: "db = committed (chat_run qs s0)"
  shows "(\<forall>(ws, f) \<in> set (sent_frames db). \<forall>o1 \<in> set (frame_messages f).
      \<exists>x \<in> set (chat_messages db). cm_id x = mo_id o1 \<and> visible x \<and> (\<exists>q. cm_score x = Some q \<and> q < 7 / 10))
    \<and> (case fst (get_messages infers header room cursor limit direction (chat_run qs s0)) of Inl e \<Rightarrow> True | Inr (outs, next_cursor) \<Rightarrow>
      \<forall>o1 \<in> set outs. \<exists>x \<in> set (chat_messages db). row_out x = o1 \<and> visible x \<and> (\<exists>q. cm_score x = Some q \<and> q < 7 / 10))"
proof -
  have ok: "only_visible db"
    unfolding db by (rule effects_keep [OF run_effects only_visible_step]) (simp_all add: only_visible_def assms)
  have low: "\<exists>q. cm_score x = Some q \<and> q < 7 / 10" if "x \<in> set (chat_messages db)" "visible x" for x
    using ok that by (auto simp: only_visible_def scored_def not_le [symmetric])
  have sockets: "\<forall>(ws, f) \<in> set (sent_frames db). \<forall>o1 \<in> set (frame_messages f).
      \<exists>x \<in> set (chat_messages db). cm_id x = mo_id o1 \<and> visible x \<and> (\<exists>q. cm_score x = Some q \<and> q < 7 / 10)"
    using ok low by (fastforce simp: only_visible_def vouched_def)
  have page: "\<exists>x \<in> set (chat_messages db). row_out x = o1 \<and> visible x \<and> (\<exists>q. cm_score x = Some q \<and> q < 7 / 10)"
    if "o1 \<in> set (map row_out (fst (messages_page room after limit cursor (chat_messages db))))" for o1 after
  proof -
    from that obtain x where "x \<in> set (chat_messages db)" "shown room x" "row_out x = o1"
      by (auto simp: messages_page_def Let_def split: if_splits dest!: in_set_takeD)
    with low show ?thesis by (intro bexI [of _ x]) (auto simp: shown_def visible_def)
  qed
  have "case fst (get_messages infers header room cursor limit direction s1) of Inl e \<Rightarrow> True | Inr (outs, next_cursor) \<Rightarrow>
      outs = map row_out (fst (messages_page room (direction = ''after'') limit cursor (chat_messages (committed s1))))" for s1
    by (auto simp: get_messages_def chat_session_def comp_simps get_profile_id_def require_room_def participant_room_def
        ask_cursor_def split: option.split prod.split sum.split)
  from this [of "chat_run qs s0"] page sockets show ?thesis
    by (auto simp: db [symmetric] split: sum.split)
qed

text \<open>
  The preview of a reply shows the body of whatever message it names, hidden ones and those of other rooms
  included: the frame every socket of the room is handed quotes it.
\<close>

theorem hidden_text_is_quoted:
  assumes "chat_mapped (work s)" "filter (\<lambda>x. cm_id x = i) (chat_messages (work s)) = [parent]"
    and fresh: "uuidv7 (clock s) draw \<noteq> i" "\<not> list_ex (\<lambda>x. cm_id x = uuidv7 (clock s) draw) (chat_messages (work s))"
    and p: "sp_reply_to p = Some i"
    and run: "s1 = snd (deliver_message draw c p score st s)"
    and c: "d \<in> set (conns (work s))" "of_room (cr_id (cn_room c)) d"
  shows "\<exists>o1. (cn_ws d, Ws_Message o1) \<in> set (sent_frames (work s1)) \<and> map_option pv_body (mo_preview o1) = Some (cm_body parent)"
proof -
  let ?m = "new_message (uuidv7 (clock s) draw) (cr_id (cn_room c)) (cn_profile c) (sp_body p) (sp_nonce p) (Some i) score st (clock s)"
  let ?out = "(row_out ?m)\<lparr>mo_preview := Some (preview_of parent)\<rparr>"
  have new: "\<not> list_ex (message_clash ?m) (chat_messages (work s))" "cm_id ?m \<noteq> i"
    using fresh by (auto simp: list_ex_iff message_clash_def new_message_def)
  have "(cn_ws d, Ws_Message ?out) \<in> set (fan_out (conns (work s)) (cr_id (cn_room c)) (Ws_Message ?out))"
    using c by (auto simp: fan_out_def local_broadcast_def intro!: exI [of _ d] bexI [of _ d])
  moreover have "set (fan_out (conns (work s)) (cr_id (cn_room c)) (Ws_Message ?out)) \<subseteq> set (sent_frames (work s1))"
    unfolding run deliver_message_def store_message_def build_message_out_def publish_chat_event_def
    using assms(1,2) new by (auto simp: comp_simps p Let_def new_message_def publish_room_def send_to_def)
  ultimately show ?thesis by (intro exI [of _ ?out]) (auto simp: preview_of_def)
qed

section \<open>The history of a message\<close>

definition history :: "chat_db \<Rightarrow> uuid \<Rightarrow> message_revision list" where
  "history db i = filter (\<lambda>r. rv_msg r = i) (revisions db)"

lemma last_version_history: "last_version i (revisions db) = Max (set (0 # map rv_version (history db i)))"
  by (simp add: last_version_def history_def)

lemma history_edit:
  assumes "map rv_version (history db (cm_id m)) = [1..<n + 1]" "2 \<le> n"
  shows "filter (\<lambda>r. rv_msg r = cm_id m) (edit_revisions m body now (revisions db)) = history db (cm_id m) @
      [\<lparr>rv_msg = cm_id m, rv_version = n + 1, rv_body = body, rv_edited_at = now\<rparr>]"
proof -
  have "set (0 # map rv_version (history db (cm_id m))) = {0..n}" using assms by auto
  moreover have "Max {0..n} = n" by (rule Max_eqI) auto
  ultimately have "last_version (cm_id m) (revisions db) = n" unfolding last_version_history by simp
  with assms(2) show ?thesis by (simp add: edit_revisions_def history_def)
qed

lemma history_first_edit:
  assumes "history db (cm_id m) = []"
  shows "filter (\<lambda>r. rv_msg r = cm_id m) (edit_revisions m body now (revisions db)) =
      [first_revision m, \<lparr>rv_msg = cm_id m, rv_version = 2, rv_body = body, rv_edited_at = now\<rparr>]"
  using assms by (simp add: edit_revisions_def history_def last_version_def first_revision_def)

lemma history_other: "cm_id m \<noteq> i \<Longrightarrow> filter (\<lambda>r. rv_msg r = i) (edit_revisions m body now rvs) = filter (\<lambda>r. rv_msg r = i) rvs"
  by (simp add: edit_revisions_def first_revision_def)

definition ids :: "chat_db \<Rightarrow> uuid list" where
  "ids db = map cm_id (chat_messages db)"

lemma ids_grow: "chat_effect a b \<Longrightarrow> \<exists>tail. ids b = ids a @ tail"
  by (induction rule: chat_effect.induct) (auto simp: ids_def same_tables_def edited_map comp_def)

lemma effects_keep_distinct:
  assumes "chat_effects a b" "distinct (ids b)" "P a"
    and step: "\<And>x y. chat_effect x y \<Longrightarrow> distinct (ids y) \<Longrightarrow> P x \<Longrightarrow> P y"
  shows "P b"
  using assms(1,2)
proof (induction rule: rtranclp_induct)
  case (step y z)
  then have "distinct (ids y)" using ids_grow [OF step.hyps(2)] by auto
  with step assms(4) show ?case by blast
qed (rule assms(3))

definition unedited_clean :: "chat_db \<Rightarrow> bool" where
  "unedited_clean db \<longleftrightarrow> (\<forall>m \<in> set (chat_messages db). cm_edited_at m = None \<longrightarrow> history db (cm_id m) = [])
     \<and> (\<forall>r \<in> set (revisions db). rv_msg r \<in> set (ids db))"

lemma revision_owner: "r \<in> set (edit_revisions m body now rvs) \<Longrightarrow> r \<in> set rvs \<or> rv_msg r = cm_id m"
  by (auto simp: edit_revisions_def first_revision_def split: if_splits)

lemma unedited_step: "chat_effect a b \<Longrightarrow> distinct (ids b) \<Longrightarrow> unedited_clean a \<Longrightarrow> unedited_clean b"
proof (induction rule: chat_effect.induct)
  case (sent_in m db)
  then have "cm_id m \<notin> set (ids db)" "\<forall>r \<in> set (revisions db). rv_msg r \<in> set (ids db)"
    by (simp add: ids_def, simp add: unedited_clean_def)
  then have "history db (cm_id m) = []" by (auto simp: history_def filter_empty_conv)
  with sent_in show ?case by (auto simp: unedited_clean_def ids_def history_def)
next
  case (edited_in m db body now)
  then show ?case
    by (auto simp: unedited_clean_def ids_def history_def edited_map edit_one_def history_other comp_def dest!: revision_owner split: if_splits)
qed (auto simp: unedited_clean_def history_def ids_def same_tables_def)

text \<open>Where the message \<open>x\<close> of body \<open>b\<close> stands after edits.\<close>

definition traced :: "chat_message \<Rightarrow> string \<Rightarrow> chat_db \<Rightarrow> bool" where
  "traced x b db \<longleftrightarrow> (\<exists>m \<in> set (chat_messages db). cm_id m = cm_id x \<and>
     (m = x \<and> history db (cm_id x) = [] \<or>
      (\<exists>n\<ge>2. map rv_version (history db (cm_id x)) = [1..<n + 1] \<and> rv_body (hd (history db (cm_id x))) = b
         \<and> cm_body m = Some (rv_body (last (history db (cm_id x)))))))"

lemma traced_same:
  "chat_messages b1 = chat_messages a \<Longrightarrow> revisions b1 = revisions a \<Longrightarrow> traced x b b1 = traced x b a"
  by (simp add: traced_def history_def)

lemma tracedI:
  assumes "m \<in> set (chat_messages db)" "cm_id m = cm_id x" "2 \<le> n" "map rv_version (history db (cm_id x)) = [1..<n + 1]"
    "rv_body (hd (history db (cm_id x))) = b" "cm_body m = Some (rv_body (last (history db (cm_id x))))"
  shows "traced x b db"
  using assms unfolding traced_def by blast

lemma traced_grow:
  assumes t: "traced x b a" and h: "history c = history a" and sub: "set (chat_messages a) \<subseteq> set (chat_messages c)"
  shows "traced x b c"
proof -
  obtain y where y: "y \<in> set (chat_messages a)" "cm_id y = cm_id x"
    and or: "y = x \<and> history a (cm_id x) = [] \<or> (\<exists>n\<ge>2. map rv_version (history a (cm_id x)) = [1..<n + 1]
       \<and> rv_body (hd (history a (cm_id x))) = b \<and> cm_body y = Some (rv_body (last (history a (cm_id x)))))"
    using t unfolding traced_def by (elim bexE conjE)
  show ?thesis unfolding traced_def h by (rule bexI [where x = y], rule conjI [OF y(2) or], rule subsetD [OF sub y(1)])
qed

lemma traced_edit:
  assumes d: "distinct (ids db)" and t: "traced x b db" "cm_body x = Some b" and m: "m \<in> set (chat_messages db)"
  shows "traced x b (db\<lparr>revisions := edit_revisions m body now (revisions db), chat_messages := edited (cm_id m) body now (chat_messages db)\<rparr>)"
proof -
  let ?db = "db\<lparr>revisions := edit_revisions m body now (revisions db), chat_messages := edited (cm_id m) body now (chat_messages db)\<rparr>"
  obtain y where y: "y \<in> set (chat_messages db)" "cm_id y = cm_id x"
    "y = x \<and> history db (cm_id x) = [] \<or> (\<exists>n\<ge>2. map rv_version (history db (cm_id x)) = [1..<n + 1]
       \<and> rv_body (hd (history db (cm_id x))) = b \<and> cm_body y = Some (rv_body (last (history db (cm_id x)))))"
    using t(1) by (auto simp: traced_def)
  have in_new: "edit_one (cm_id m) body now y \<in> set (chat_messages ?db)" using y(1) by (simp add: edited_map)
  show ?thesis
  proof (cases "cm_id m = cm_id x")
    case False
    then have "history ?db (cm_id x) = history db (cm_id x)" "edit_one (cm_id m) body now y = y"
      using y(2) by (simp_all add: history_def history_other edit_one_def)
    with y in_new show ?thesis unfolding traced_def by (intro bexI [of _ y]) auto
  next
    case True
    have "y = m" using d y(1,2) m True by (auto simp: ids_def distinct_map inj_on_def)
    have new: "cm_body (edit_one (cm_id m) body now y) = Some body" "cm_id (edit_one (cm_id m) body now y) = cm_id x"
      using y(2) True by (simp_all add: edit_one_def)
    show ?thesis
    proof (cases "history db (cm_id x) = []")
      case empty: True
      with y(3) have "y = x" by auto
      with \<open>y = m\<close> have "m = x" by simp
      have upto: "[1..<2 + 1] = [1, 2::nat]" by code_simp
      have h: "history ?db (cm_id x) = [first_revision x, \<lparr>rv_msg = cm_id x, rv_version = 2, rv_body = body, rv_edited_at = now\<rparr>]"
        using history_first_edit [of db x body now] empty unfolding \<open>m = x\<close> by (simp add: history_def)
      show ?thesis
        by (rule tracedI [OF in_new new(2), where n = 2]) (simp_all only: h upto new(1), simp_all add: first_revision_def t(2))
    next
      case False
      with y(3) obtain n where n: "2 \<le> n" "map rv_version (history db (cm_id x)) = [1..<n + 1]" "rv_body (hd (history db (cm_id x))) = b" by auto
      have "history ?db (cm_id x) = history db (cm_id x) @ [\<lparr>rv_msg = cm_id m, rv_version = n + 1, rv_body = body, rv_edited_at = now\<rparr>]"
        using history_edit [of db m n body now] n True by (simp add: history_def)
      note h = this
      have v: "map rv_version (history db (cm_id x)) @ [n + 1] = [1..<n + 1 + 1]" using n(2) by simp
      show ?thesis
        by (rule tracedI [OF in_new new(2), where n = "n + 1"]) (simp_all only: h map_append list.map v [symmetric] new(1), use n False in simp_all)
    qed
  qed
qed

lemma traced_step:
  assumes "chat_effect a c" "distinct (ids c)" "traced x b a" "cm_body x = Some b"
  shows "traced x b c"
  using assms(1)
proof cases
  case (edited_in m body now)
  have "distinct (ids a)" using ids_grow [OF assms(1)] assms(2) by auto
  from traced_edit [OF this assms(3,4) edited_in(2)] show ?thesis by (simp only: edited_in(1))
next
  case (sent_in m)
  then have "revisions c = revisions a" "set (chat_messages a) \<subseteq> set (chat_messages c)" by auto
  then show ?thesis by (intro traced_grow [OF assms(3)]) (simp_all add: history_def fun_eq_iff)
next
  case (told fs)
  then have "chat_messages c = chat_messages a" "revisions c = revisions a" by (simp_all add: same_tables_def)
  from traced_same [OF this] assms(3) show ?thesis by blast
next
  case (read_in room profile msg now)
  then have "chat_messages c = chat_messages a" "revisions c = revisions a" by auto
  from traced_same [OF this] assms(3) show ?thesis by blast
next
  case (room_in r)
  then have "chat_messages c = chat_messages a" "revisions c = revisions a" by auto
  from traced_same [OF this] assms(3) show ?thesis by blast
next
  case (room_changed room st)
  then have "chat_messages c = chat_messages a" "revisions c = revisions a" by auto
  from traced_same [OF this] assms(3) show ?thesis by blast
qed

text \<open>C35. No edit loses anything: as long as identifiers do not collide, a message keeps its first text and every later one. After any
  sequence of requests a message sent before is either as it was, without revisions, or its revisions
  are numbered 1, 2, and so on without gap, the first holds the text it was sent with and the last the text
  it shows.\<close>

theorem edit_history_complete:
  assumes start: "chat_messages (committed s0) = []" "revisions (committed s0) = []"
    and x: "x \<in> set (chat_messages (committed (chat_run qs s0)))" "cm_edited_at x = None" "cm_body x = Some b"
    and db: "db = committed (chat_run later (chat_run qs s0))" "distinct (map cm_id (chat_messages db))"
  shows "\<exists>m \<in> set (chat_messages db). cm_id m = cm_id x \<and>
     (m = x \<and> history db (cm_id x) = [] \<or>
      (\<exists>n\<ge>2. map rv_version (history db (cm_id x)) = [1..<n + 1] \<and> rv_body (hd (history db (cm_id x))) = b
         \<and> cm_body m = Some (rv_body (last (history db (cm_id x))))))"
proof -
  let ?s = "chat_run qs s0"
  have eff: "chat_effects (committed ?s) db" unfolding db(1) by (rule run_effects)
  have "\<exists>tail. ids db = ids (committed ?s) @ tail"
    using eff by (induction rule: rtranclp_induct) (auto dest!: ids_grow)
  with db(2) have d: "distinct (ids (committed ?s))" "distinct (ids db)" by (auto simp: ids_def)
  have "unedited_clean (committed ?s)"
    by (rule effects_keep_distinct [OF run_effects d(1)])
       (simp add: unedited_clean_def start, rule unedited_step)
  with x have "traced x b (committed ?s)" by (auto simp: traced_def unedited_clean_def)
  then have "traced x b db"
    by (rule effects_keep_distinct [OF eff d(2)]) (rule traced_step [OF _ _ _ x(3)])
  then show ?thesis by (simp add: traced_def)
qed

end
