(* ===== verification/Chat_Lists.thy ===== *)
theory Chat_Lists
  imports Chat_Claims
begin

text \<open>
  The lists of chat-svc: identifiers order like their texts and like the time they were made at, the
  history of a room in pages (an interpretation of \<open>keyset_listing\<close>), and the list of rooms.
\<close>

section \<open>Identifiers and their texts\<close>

lemma append_less_iff:
  fixes xs ys s t :: "'a::linorder list"
  assumes "length xs = length ys"
  shows "xs @ s < ys @ t \<longleftrightarrow> xs < ys \<or> (xs = ys \<and> s < t)"
  using assms by (induction xs ys rule: list_induct2) auto

lemma hex_digit_less:
  assumes "d < 16" "e < 16"
  shows "hex_digit d < hex_digit e \<longleftrightarrow> d < e"
proof -
  have "of_char (hex_digit n) = (if n < 10 then 48 + n else 87 + n)" if "n < 16" for n
    using that by (simp add: hex_digit_def)
  with assms show ?thesis by (simp add: less_char_def)
qed

lemma hex_digits_inj: "n < 16 ^ k \<Longrightarrow> m < 16 ^ k \<Longrightarrow> hex_digits k n = hex_digits k m \<longleftrightarrow> n = m"
  using hex_number_digits [of k n] hex_number_digits [of k m] by (metis mod_less option.inject)

lemma hex_digits_less: "n < 16 ^ k \<Longrightarrow> m < 16 ^ k \<Longrightarrow> hex_digits k n < hex_digits k m \<longleftrightarrow> n < m"
proof (induction k arbitrary: n m)
  case (Suc k)
  have b: "n div 16 < 16 ^ k" "m div 16 < 16 ^ k" using Suc.prems by (simp_all add: less_mult_imp_div_less mult.commute)
  have "n = 16 * (n div 16) + n mod 16" "m = 16 * (m div 16) + m mod 16" "n mod 16 < 16" "m mod 16 < 16" by simp_all
  then have "n < m \<longleftrightarrow> n div 16 < m div 16 \<or> (n div 16 = m div 16 \<and> n mod 16 < m mod 16)" by linarith
  then show ?case
    using Suc.IH [OF b] hex_digits_inj [OF b] by (simp add: append_less_iff hex_digit_less)
qed simp

lemma str_uuid_less:
  assumes "u < 16 ^ 32" "v < 16 ^ 32"
  shows "str_uuid u < str_uuid v \<longleftrightarrow> u < v"
proof -
  let ?h = "hex_digits 32 u" and ?k = "hex_digits 32 v"
  have "?h < ?k \<longleftrightarrow> take 8 ?h @ take 4 (drop 8 ?h) @ take 4 (drop 12 ?h) @ take 4 (drop 16 ?h) @ drop 20 ?h
      < take 8 ?k @ take 4 (drop 8 ?k) @ take 4 (drop 12 ?k) @ take 4 (drop 16 ?k) @ drop 20 ?k"
    unfolding split_groups ..
  then have "str_uuid u < str_uuid v \<longleftrightarrow> ?h < ?k"
    by (simp add: str_uuid_def Let_def append_less_iff)
  with hex_digits_less [OF assms] show ?thesis by simp
qed

text \<open>An identifier made in a later millisecond is greater, whatever was drawn.\<close>

lemma uuidv7_time: "drop_bit 80 (uuidv7 now draw) = nat (now div 1000)"
proof -
  have m: "(0x0FFF::nat) = mask 12" "(0x3FFFFFFFFFFFFFFF::nat) = mask 62" by (simp_all add: mask_eq_exp_minus_1)
  have "drop_bit 80 (push_bit 76 (7::nat)) = 0" "drop_bit 80 (push_bit 62 (2::nat)) = 0" by (simp_all add: drop_bit_eq_div push_bit_eq_mult)
  moreover have "drop_bit 80 (push_bit 64 (take_bit 12 a :: nat)) = 0" for a
    by (simp add: drop_bit_push_bit drop_bit_take_bit)
  moreover have "drop_bit 80 (take_bit 62 b :: nat) = 0" for b by (simp add: drop_bit_take_bit)
  moreover have "drop_bit 80 (push_bit 80 c :: nat) = c" for c by (simp add: drop_bit_push_bit)
  ultimately show ?thesis unfolding uuidv7_def Let_def m take_bit_eq_mask [symmetric] drop_bit_or by simp
qed

lemma uuidv7_less:
  assumes "0 \<le> t" "t div 1000 < t' div 1000" shows "uuidv7 t draw < uuidv7 t' draw'"
proof (rule ccontr)
  assume "\<not> uuidv7 t draw < uuidv7 t' draw'"
  then have "drop_bit 80 (uuidv7 t' draw') \<le> drop_bit 80 (uuidv7 t draw)" by (simp add: drop_bit_eq_div div_le_mono)
  with assms show False by (simp add: uuidv7_time)
qed

section \<open>The history of a room in pages\<close>

definition cut_texts :: "('r \<Rightarrow> uuid) \<Rightarrow> nat \<Rightarrow> 'r list \<Rightarrow> 'r list \<times> string option" where
  "cut_texts key limit found = (let rows = take (limit + 1) found; items = take limit rows in
     (items, if limit < length rows \<and> items \<noteq> [] then Some (str_uuid (key (last items))) else None))"

lemma messages_page_before:
  "messages_page room False limit (Some c) ms = cut_texts cm_id limit (rev (sort_key cm_id (filter (\<lambda>m. shown room m \<and> str_uuid (cm_id m) < c) ms)))"
  by (simp only: messages_page_def cut_texts_def Let_def if_False option.case)

lemma messages_page_first: "messages_page room False limit None ms = cut_texts cm_id limit (rev (sort_key cm_id (filter (shown room) ms)))"
  by (simp only: messages_page_def cut_texts_def Let_def if_False option.case simp_thms)

text \<open>The page after row \<open>k\<close> of the newest-first history of a room holds the rows that follow it.\<close>

lemma history_page_after:
  fixes ms :: "chat_message list" and room :: uuid
  defines "l \<equiv> rev (sort_key cm_id (filter (shown room) ms))"
  assumes "distinct (map cm_id ms)" "\<forall>m \<in> set ms. cm_id m < 16 ^ 32" "k < length l"
  shows "messages_page room False limit (Some (str_uuid (cm_id (l ! k)))) ms = cut_texts cm_id limit (drop (Suc k) l)"
    and "messages_page room False limit None ms = cut_texts cm_id limit l"
proof -
  have rs: "rev (sort_key cm_id (filter P xs)) = filter P (rev (sort_key cm_id xs))" for P :: "chat_message \<Rightarrow> bool" and xs
    by (simp add: rev_filter [symmetric] filter_sort)
  have "distinct (map cm_id (filter (shown room) ms))" using assms(2) by (simp add: distinct_map inj_on_def)
  then have d: "distinct (map cm_id l)" by (simp add: l_def rev_map [symmetric] distinct_map)
  have "sorted_wrt (\<lambda>x y. cm_id y \<le> cm_id x) l"
    unfolding l_def sorted_wrt_rev using sorted_sort_key [of cm_id] by (simp add: sorted_wrt_map)
  then have st: "sorted_wrt (\<lambda>x y. cm_id y < cm_id x) l"
    using d
  proof (induction l)
    case (Cons a xs)
    then have "cm_id x \<noteq> cm_id a" if "x \<in> set xs" for x using that by (metis distinct.simps(2) image_eqI list.set_map list.simps(9))
    with Cons show ?case by (auto simp: order.strict_iff_order)
  qed simp
  have lk: "l ! k \<in> set ms" using nth_mem [OF assms(4)] by (simp add: l_def)
  have "filter (\<lambda>m. shown room m \<and> str_uuid (cm_id m) < str_uuid (cm_id (l ! k))) ms = filter (\<lambda>m. cm_id m < cm_id (l ! k)) (filter (shown room) ms)"
    using assms(3) lk by (auto intro!: filter_cong simp: str_uuid_less)
  moreover have "rev (sort_key cm_id (filter (\<lambda>m. cm_id m < cm_id (l ! k)) (filter (shown room) ms))) = filter (\<lambda>m. cm_id m < cm_id (l ! k)) l"
    unfolding l_def by (rule rs)
  ultimately show "messages_page room False limit (Some (str_uuid (cm_id (l ! k)))) ms = cut_texts cm_id limit (drop (Suc k) l)"
    using filter_below_nth [OF st assms(4)] by (simp only: messages_page_before)
  show "messages_page room False limit None ms = cut_texts cm_id limit l"
    by (simp only: messages_page_first l_def)
qed

section \<open>The list of rooms\<close>

fun follow_texts :: "nat \<Rightarrow> (string option \<Rightarrow> 'r list \<times> string option) \<Rightarrow> string option \<Rightarrow> 'r list list" where
  "follow_texts 0 fetch cursor = []"
| "follow_texts (Suc n) fetch cursor = (case fetch cursor of
     (items, None) \<Rightarrow> [items] | (items, Some c) \<Rightarrow> items # follow_texts n fetch (Some c))"

definition my_rooms :: "uuid \<Rightarrow> chat_room list \<Rightarrow> chat_room list" where
  "my_rooms profile rs = rev (sort_key cr_created_at (filter (\<lambda>r. profile \<in> set (cr_participants r)) rs))"

text \<open>Rooms made at different milliseconds: later ones have greater identifiers.\<close>

definition rooms_in_time :: "chat_room list \<Rightarrow> bool" where
  "rooms_in_time rs \<longleftrightarrow> (\<forall>a \<in> set rs. \<forall>b \<in> set rs. cr_created_at a < cr_created_at b \<longrightarrow> cr_id a < cr_id b)
     \<and> distinct (map cr_created_at rs) \<and> (\<forall>a \<in> set rs. cr_id a < 16 ^ 32)"

lemma newer_in_front:
  assumes t: "rooms_in_time rs" and a: "a \<in> set (take limit (my_rooms profile rs))"
    and b: "b \<in> set (my_rooms profile rs)" "cr_created_at a < cr_created_at b"
  shows "b \<in> set (take limit (my_rooms profile rs))"
proof -
  let ?l = "my_rooms profile rs"
  obtain i where i: "i < length ?l" "i < limit" "?l ! i = a" using a by (auto simp: in_set_conv_nth)
  obtain j where j: "j < length ?l" "?l ! j = b" using b(1) by (auto simp: in_set_conv_nth)
  have "sorted_wrt (\<lambda>x y. cr_created_at y \<le> cr_created_at x) ?l"
    unfolding my_rooms_def sorted_wrt_rev using sorted_sort_key [of cr_created_at] by (simp add: sorted_wrt_map)
  then have "cr_created_at (?l ! j) \<le> cr_created_at (?l ! i)" if "i < j"
    using that j(1) by (simp add: sorted_wrt_iff_nth_less)
  then have "\<not> i < j" using b(2) i(3) j(2) by auto
  then have "j < limit" using i(2) by simp
  with j show ?thesis by (auto simp: in_set_conv_nth intro!: exI [of _ j])
qed

lemma rooms_after:
  assumes t: "rooms_in_time rs" and a: "a \<in> set (take limit (my_rooms profile rs))"
    and c: "cursor = None \<or> cursor = Some (str_uuid (cr_id a))"
    and page: "rooms_page profile limit cursor rs = (items, next_cursor)"
  shows "set items \<subseteq> set (take limit (my_rooms profile rs))"
    and "next_cursor = None \<or> (\<exists>b \<in> set items. next_cursor = Some (str_uuid (cr_id b)))"
proof -
  show "set items \<subseteq> set (take limit (my_rooms profile rs))"
  proof
    fix b assume b: "b \<in> set items"
    show "b \<in> set (take limit (my_rooms profile rs))"
    proof (cases "cursor = None")
      case True
      with b page show ?thesis by (auto simp: rooms_page_def Let_def my_rooms_def min_def split: if_splits)
    next
      case False
      with c have cur: "cursor = Some (str_uuid (cr_id a))" by simp
      with b page have b1: "b \<in> set rs" "profile \<in> set (cr_participants b)" "str_uuid (cr_id a) < str_uuid (cr_id b)"
        by (auto simp: rooms_page_def Let_def split: if_splits dest!: in_set_takeD)
      have "a \<in> set rs" using a by (auto simp: my_rooms_def dest!: in_set_takeD)
      with b1 t have "cr_id a < cr_id b" by (simp add: rooms_in_time_def str_uuid_less)
      then have "\<not> cr_created_at b < cr_created_at a" "a \<noteq> b"
        using t b1(1) \<open>a \<in> set rs\<close> by (auto simp: rooms_in_time_def dest: order.strict_trans)
      moreover have "cr_created_at a \<noteq> cr_created_at b"
        using t b1(1) \<open>a \<in> set rs\<close> \<open>a \<noteq> b\<close> by (auto simp: rooms_in_time_def distinct_map inj_on_def)
      ultimately have "cr_created_at a < cr_created_at b" by simp
      moreover have "b \<in> set (my_rooms profile rs)" using b1 by (simp add: my_rooms_def)
      ultimately show ?thesis by (intro newer_in_front [OF t a])
    qed
  qed
  show "next_cursor = None \<or> (\<exists>b \<in> set items. next_cursor = Some (str_uuid (cr_id b)))"
    using page by (auto simp: rooms_page_def Let_def split: if_splits)
qed

text \<open>Paging through the rooms never gets past the first page: a cursor asks for greater identifiers while the list is newest first, so
  when rooms were made at different milliseconds every page a client reaches by following the cursors
  holds only rooms of the first one, and whoever has more rooms than the limit never sees the older ones.\<close>

theorem room_list_never_moves_on:
  assumes "rooms_in_time (chat_rooms (work s))"
  shows "set (concat (follow_texts n (\<lambda>cursor. rooms_page profile limit cursor (chat_rooms (work s))) None))
    \<subseteq> set (take limit (my_rooms profile (chat_rooms (work s))))"
proof -
  let ?rs = "chat_rooms (work s)"
  let ?fetch = "\<lambda>cursor. rooms_page profile limit cursor ?rs"
  let ?top = "set (take limit (my_rooms profile ?rs))"
  have later: "set (concat (follow_texts k ?fetch (Some (str_uuid (cr_id a))))) \<subseteq> ?top" if "a \<in> ?top" for a k
    using that
  proof (induction k arbitrary: a)
    case (Suc k)
    obtain items next_cursor where p: "?fetch (Some (str_uuid (cr_id a))) = (items, next_cursor)" by fastforce
    note facts = rooms_after [OF assms Suc.prems disjI2 [OF refl] p]
    show ?case
    proof (cases next_cursor)
      case None
      with p facts(1) show ?thesis by simp
    next
      case (Some c)
      with facts obtain b where "b \<in> ?top" "c = str_uuid (cr_id b)" by auto
      with Suc.IH [of b] p Some facts(1) show ?thesis by simp
    qed
  qed simp
  obtain items next_cursor where p: "?fetch None = (items, next_cursor)" by fastforce
  then have top: "set items \<subseteq> ?top" "next_cursor = None \<or> (\<exists>b \<in> set items. next_cursor = Some (str_uuid (cr_id b)))"
    by (auto simp: rooms_page_def Let_def my_rooms_def min_def split: if_splits)
  show ?thesis
  proof (cases n)
    case (Suc k)
    show ?thesis
    proof (cases next_cursor)
      case None
      with p top(1) Suc show ?thesis by simp
    next
      case (Some c)
      with top obtain b where "b \<in> ?top" "c = str_uuid (cr_id b)" by auto
      with later [of b k] p Some top(1) Suc show ?thesis by simp
    qed
  qed simp
qed

end
