(* ===== verification/Chat_Frames.thy ===== *)
theory Chat_Frames
  imports Chat_Lists
begin

text \<open>
  What frames do: how often a socket gets a frame, what a resent message leads to, how a block
  reaches a connection that is already open, and the read pointers.
\<close>

section \<open>Copies\<close>

lemma local_broadcast_count:
  assumes "distinct (map cn_ws cs)" "c \<in> set cs"
  shows "count_list (local_broadcast cs pod room f) (cn_ws c, f) = (if cn_pod c = pod \<and> of_room room c then 1 else 0)"
  using assms
proof (induction cs)
  case (Cons d cs)
  show ?case
  proof (cases "d = c")
    case True
    with Cons.prems(1) have "cn_ws x \<noteq> cn_ws c" if "x \<in> set cs" for x using that by (metis distinct.simps(2) image_eqI list.set_map list.simps(9))
    then have "count_list (local_broadcast cs pod room f) (cn_ws c, f) = 0"
      by (fastforce simp: local_broadcast_def count_list_0_iff)
    with True show ?thesis by (auto simp: local_broadcast_def)
  next
    case False
    with Cons.prems have "c \<in> set cs" "cn_ws d \<noteq> cn_ws c" by (auto simp: image_iff)
    with Cons show ?thesis by (auto simp: local_broadcast_def)
  qed
qed simp

lemma sum_list_indicator: "sum_list (map (\<lambda>d. if P d then 1 else 0) xs) = length (filter P xs)"
  by (induction xs) auto

lemma count_list_concat: "count_list (concat xss) x = sum_list (map (\<lambda>xs. count_list xs x) xss)"
  by (induction xss) auto

lemma fan_out_count:
  assumes "distinct (map cn_ws cs)" "c \<in> set cs"
  shows "count_list (fan_out cs room f) (cn_ws c, f) = (if of_room room c then length (filter (\<lambda>d. cn_pod d = cn_pod c \<and> of_room room d) cs) else 0)"
proof -
  have "count_list (fan_out cs room f) (cn_ws c, f)
      = sum_list (map (\<lambda>d. if cn_pod c = cn_pod d \<and> of_room room c then 1 else 0) (filter (of_room room) cs))"
    using local_broadcast_count [OF assms] by (simp add: fan_out_def count_list_concat comp_def)
  also have "\<dots> = length (filter (\<lambda>d. cn_pod c = cn_pod d \<and> of_room room c) (filter (of_room room) cs))" by (rule sum_list_indicator)
  finally show ?thesis by (auto simp: conj_commute eq_commute [of "cn_pod c"])
qed

text \<open>C39. Messages multiply: a frame for a room reaches every socket of the room and no other, but not once: each
  connection's listener hands it to all connections of the room on its pod, so a socket gets as many copies as its pod has connections
  of the room.\<close>

theorem frames_multiply:
  assumes "distinct (map cn_ws (conns (work s)))" "c \<in> set (conns (work s))"
  shows "count_list (sent_frames (work (snd (publish_room room f s)))) (cn_ws c, f)
    = count_list (sent_frames (work s)) (cn_ws c, f)
      + (if of_room room c then length (filter (\<lambda>d. cn_pod d = cn_pod c \<and> of_room room d) (conns (work s))) else 0)"
  using fan_out_count [OF assms] by (simp add: publish_room_def)

section \<open>Sending again\<close>

lemma dedup_raises:
  assumes "m \<in> set (chat_messages (work s))" "cm_nonce m = Some nonce"
  shows "\<exists>e. dedup_check nonce s = (Inl e, s)"
proof -
  have "filter (\<lambda>x. cm_nonce x = Some nonce) (chat_messages (work s)) \<noteq> []" using assms by (auto simp: filter_empty_conv)
  then obtain x xs where "filter (\<lambda>x. cm_nonce x = Some nonce) (chat_messages (work s)) = x # xs" by (cases "filter (\<lambda>x. cm_nonce x = Some nonce) (chat_messages (work s))") auto
  then show ?thesis by (cases xs) (auto simp: dedup_check_def comp_simps)
qed

lemma set_conn_run: "set_conn ws g s = (Inr (), s\<lparr>work := (work s)\<lparr>conns := update_where (\<lambda>c. cn_ws c = ws) g (conns (work s))\<rparr>\<rparr>)"
  by (simp add: set_conn_def comp_simps)

text \<open>The same connections up to their counters.\<close>

lemma filter_conns_update: "filter (\<lambda>x. cn_ws x \<noteq> ws) (update_where (\<lambda>c. cn_ws c = ws) (\<lambda>x. x\<lparr>cn_counter := k\<rparr>) cs) = filter (\<lambda>x. cn_ws x \<noteq> ws) cs"
  by (induction cs) auto

text \<open>C40. Sending a message again ends the connection: where the client nonce is known already, in whatever room and from
  whomever, the frame within the rate limit stores nothing and sends nothing, not even the acknowledgement the
  code means to repeat, and the connection is closed.\<close>

theorem resending_ends_connection:
  assumes c: "first_of (filter (\<lambda>c. cn_ws c = ws) (conns (committed s))) = Some c"
    and ok: "fst (rate_check_send (clock s) (cn_counter c))" "cr_state (cn_room c) = Room_Open" "length (sp_body p) \<le> 4000"
    and m: "m \<in> set (chat_messages (committed s))" "cm_nonce m = Some (sp_nonce p)"
    and db: "db = committed (snd (receive scan draw ws (Send_Frame (Some p) request) s))"
  shows "chat_messages db = chat_messages (committed s) \<and> sent_frames db = sent_frames (committed s)
    \<and> conns db = filter (\<lambda>x. cn_ws x \<noteq> ws) (conns (committed s))"
proof -
  have w: "cn_ws c = ws" using c by (auto simp: first_of_def filter_eq_Cons_iff split: list.splits)
  obtain k where k: "rate_check_send (clock s) (cn_counter c) = (True, k)" using ok(1) by (cases "rate_check_send (clock s) (cn_counter c)") auto
  obtain t where t: "refresh_ttl (cr_id (cn_room c)) (cn_profile c) (s\<lparr>work := committed s\<rparr>) = (Inr (), t)"
      "chat_messages (work t) = chat_messages (committed s)" "sent_frames (work t) = sent_frames (committed s)"
      "conns (work t) = conns (committed s)" "committed t = committed s" "clock t = clock s"
    by (simp add: refresh_ttl_def at_presence_def)
  let ?t = "t\<lparr>work := (work t)\<lparr>conns := update_where (\<lambda>c. cn_ws c = ws) (\<lambda>x. x\<lparr>cn_counter := k\<rparr>) (conns (work t))\<rparr>\<rparr>"
  obtain e where e: "dedup_check (sp_nonce p) ?t = (Inl e, ?t)" using dedup_raises [of m ?t "sp_nonce p"] m t(2) by auto
  have sent: "handle_send scan draw c (Some p) request t = (Inl e, ?t)"
    unfolding handle_send_def counted_def
    using ok(3) by (simp add: comp_simps t(6) k w set_conn_run parse_send_def ok(2) max_body_length_def e)
  have "chat_session (seq_c (refresh_ttl (cr_id (cn_room c)) (cn_profile c)) (dispatch_frame scan draw c (Send_Frame (Some p) request))) s
      = (Inl e, ?t\<lparr>committed := off_table (committed s) (work ?t), work := off_table (committed s) (work ?t)\<rparr>)"
    by (simp add: chat_session_def comp_simps t(1) dispatch_frame_def sent) (simp add: t(5))
  then have "receive scan draw ws (Send_Frame (Some p) request) s
      = chat_session (close_ws c) (?t\<lparr>committed := off_table (committed s) (work ?t), work := off_table (committed s) (work ?t)\<rparr>)"
    by (simp add: receive_def c)
  then show ?thesis unfolding db
    by (simp add: chat_session_def close_ws_def comp_simps set_online_def at_presence_def off_table_def t w filter_conns_update)
qed

section \<open>A block and an open connection\<close>

text \<open>Frames leave the rooms alone, and change the messages only in a room the connection holds as open.\<close>

definition rooms_are :: "chat_room list \<Rightarrow> chat_sess \<Rightarrow> bool" where
  "rooms_are rs s \<longleftrightarrow> chat_rooms (work s) = rs \<and> chat_rooms (committed s) = rs"

definition messages_are :: "chat_message list \<Rightarrow> chat_sess \<Rightarrow> bool" where
  "messages_are ms s \<longleftrightarrow> chat_messages (work s) = ms \<and> chat_messages (committed s) = ms"

lemma keeps_fixed_prims [simp]:
  "keeps (rooms_are rs) (set_conn ws g)" "keeps (rooms_are rs) (modify_table conns_update conns h)" "keeps (rooms_are rs) (at_presence room profile k)"
  "keeps (rooms_are rs) (publish_c msg)" "keeps (rooms_are rs) (send_to ws f)" "keeps (rooms_are rs) (publish_room room f)"
  "keeps (rooms_are rs) (store_receipt room profile m)" "keeps (rooms_are rs) (store_message draw room profile body nonce reply score st)"
  "keeps (messages_are ms) (set_conn ws g)" "keeps (messages_are ms) (modify_table conns_update conns h)" "keeps (messages_are ms) (at_presence room profile k)"
  "keeps (messages_are ms) (publish_c msg)" "keeps (messages_are ms) (send_to ws f)" "keeps (messages_are ms) (publish_room room f)"
  "keeps (messages_are ms) (store_receipt room profile m)"
  by (auto simp: keeps_def rooms_are_def messages_are_def comp_simps set_conn_run at_presence_def send_to_def publish_room_def
      store_receipt_def store_message_def Let_def)

lemma keeps_fixed_reads [simp]:
  "keeps (rooms_are rs) (dedup_check nonce)" "keeps (rooms_are rs) (build_message_out m)" "keeps (rooms_are rs) (participant_room room profile)"
  "keeps (messages_are ms) (build_message_out m)"
  by (simp_all add: dedup_check_def build_message_out_def participant_room_def keeps_bind keeps_orm split: option.split)

lemma keeps_fixed_redis [simp]:
  "keeps (rooms_are rs) (set_online room profile b)" "keeps (rooms_are rs) (set_typing room profile b)" "keeps (rooms_are rs) (refresh_ttl room profile)"
  "keeps (messages_are ms) (set_online room profile b)" "keeps (messages_are ms) (set_typing room profile b)" "keeps (messages_are ms) (refresh_ttl room profile)"
  by (simp_all add: set_online_def set_typing_def refresh_ttl_def)

lemma keeps_fixed_parts [simp]:
  "keeps (rooms_are rs) (counted check c)" "keeps (rooms_are rs) (refresh_room c)" "keeps (rooms_are rs) (close_ws c)"
  "keeps (messages_are ms) (counted check c)" "keeps (messages_are ms) (refresh_room c)" "keeps (messages_are ms) (close_ws c)"
  by (simp_all add: counted_def refresh_room_def close_ws_def keeps_bind keeps_seq split: prod.split)

lemma keeps_fixed_handlers [simp]:
  "keeps (rooms_are rs) (handle_send scan draw c p request)" "keeps (rooms_are rs) (handle_typing c b)"
  "keeps (rooms_are rs) (handle_read_ack c i)" "keeps (rooms_are rs) (handle_reconnect c i)"
  unfolding handle_send_def handle_typing_def handle_read_ack_def handle_reconnect_def reject_message_def deliver_message_def
    publish_moderation_event_def publish_chat_event_def Let_def
  by (auto intro!: keeps_intros split: option.split prod.split)

lemma dispatch_refreshes:
  assumes "f \<noteq> Not_Json" "f \<noteq> Not_Object"
  shows "\<exists>m :: unit chatting. dispatch_frame scan draw c f = seq_c m (refresh_room c) \<and> keeps (rooms_are rs) m"
proof -
  define m where "m = (case f of Send_Frame body request \<Rightarrow> handle_send scan draw c body request | Typing_Frame body \<Rightarrow> handle_typing c body
    | Read_Ack_Frame body \<Rightarrow> handle_read_ack c body | Ping_Frame \<Rightarrow> send_to (cn_ws c) Ws_Pong | Reconnect_Frame body \<Rightarrow> handle_reconnect c body
    | Unknown_Frame t \<Rightarrow> send_to (cn_ws c) (Ws_Error ''INTERNAL_ERROR'' (''Unknown frame type: '' @ t) None) | _ \<Rightarrow> ret ())"
  have "dispatch_frame scan draw c f = seq_c m (refresh_room c)" "keeps (rooms_are rs) m"
    using assms by (cases f; simp add: dispatch_frame_def m_def)+
  then show ?thesis by blast
qed

lemma frames_keep_rooms: "keeps (rooms_are rs) (dispatch_frame scan draw c f)"
  by (simp add: dispatch_frame_def keeps_seq split: client_frame.split)

lemma frames_keep_messages: "cr_state (cn_room c) \<noteq> Room_Open \<Longrightarrow> keeps (messages_are ms) (dispatch_frame scan draw c f)"
  unfolding dispatch_frame_def handle_send_def handle_typing_def handle_read_ack_def handle_reconnect_def Let_def
  by (auto intro!: keeps_intros split: client_frame.split option.split prod.split)

definition up_to_date :: "nat \<Rightarrow> chat_room \<Rightarrow> chat_sess \<Rightarrow> bool" where
  "up_to_date ws r s \<longleftrightarrow> filter (\<lambda>x. cr_id x = cr_id r) (chat_rooms (committed s)) = [r]
     \<and> (\<forall>c \<in> set (conns (committed s)). cn_ws c = ws \<longrightarrow> cn_room c = r)"

lemma refresh_room_run:
  assumes "rooms_are rs s" "filter (\<lambda>x. cr_id x = cr_id r) rs = [r]" "cr_id (cn_room c) = cr_id r"
  shows "refresh_room c s = set_conn (cn_ws c) (\<lambda>x. x\<lparr>cn_room := r\<rparr>) s"
  using assms by (simp add: refresh_room_def rooms_are_def comp_simps scalar_one_def)

lemma session_keeps:
  assumes "keeps (rooms_are rs) m" "chat_rooms (committed s) = rs"
  shows "chat_rooms (committed (snd (chat_session m s))) = rs"
  using keepsD [OF assms(1), of "s\<lparr>work := committed s\<rparr>"] assms(2)
  by (auto simp: rooms_are_def chat_session_def off_table_def split: prod.split)

lemma session_keeps_messages:
  assumes "keeps (messages_are ms) m" "chat_messages (committed s) = ms"
  shows "chat_messages (committed (snd (chat_session m s))) = ms"
  using keepsD [OF assms(1), of "s\<lparr>work := committed s\<rparr>"] assms(2)
  by (auto simp: messages_are_def chat_session_def off_table_def split: prod.split)

lemma receive_keeps_rooms: "chat_rooms (committed (snd (receive scan draw ws f s))) = chat_rooms (committed s)"
proof (cases "first_of (filter (\<lambda>c. cn_ws c = ws) (conns (committed s)))")
  case (Some c)
  obtain x s1 where run: "chat_session (seq_c (refresh_ttl (cr_id (cn_room c)) (cn_profile c)) (dispatch_frame scan draw c f)) s = (x, s1)"
    by fastforce
  have "chat_rooms (committed s1) = chat_rooms (committed s)"
    using session_keeps [OF _ refl, of s "seq_c (refresh_ttl (cr_id (cn_room c)) (cn_profile c)) (dispatch_frame scan draw c f)"] run
    by (simp add: keeps_seq frames_keep_rooms)
  with session_keeps [OF _ refl, of s1 "close_ws c"] show ?thesis by (auto simp: receive_def Some run split: sum.split)
qed (simp add: receive_def)

lemma closed_conns: "conns (committed (snd (chat_session (close_ws c) s))) = filter (\<lambda>x. cn_ws x \<noteq> cn_ws c) (conns (committed s))"
  by (simp add: chat_session_def close_ws_def comp_simps set_online_def at_presence_def off_table_def)

lemma in_refreshed: "x \<in> set (update_where (\<lambda>c. cn_ws c = ws) (\<lambda>x. x\<lparr>cn_room := r\<rparr>) cs) \<Longrightarrow> cn_ws x = ws \<Longrightarrow> cn_room x = r"
  by (induction cs) (simp_all, metis connection.select_convs(1) connection.surjective connection.update_convs(3) connection.select_convs(3))

lemma receive_refreshes:
  assumes r: "filter (\<lambda>x. cr_id x = cr_id r) (chat_rooms (committed s)) = [r]" and f: "f \<noteq> Not_Json"
    and c: "\<And>c. c \<in> set (conns (committed s)) \<Longrightarrow> cn_ws c = ws \<Longrightarrow> cr_id (cn_room c) = cr_id r"
  shows "up_to_date ws r (snd (receive scan draw ws f s))"
proof (cases "first_of (filter (\<lambda>c. cn_ws c = ws) (conns (committed s)))")
  case None
  then have "cn_ws c \<noteq> ws" if "c \<in> set (conns (committed s))" for c
    using that by (auto simp: first_of_def filter_empty_conv split: list.splits)
  with None r show ?thesis by (simp add: receive_def up_to_date_def)
next
  case (Some d)
  then have d: "d \<in> set (conns (committed s))" "cn_ws d = ws" by (auto simp: first_of_def filter_eq_Cons_iff split: list.splits)
  let ?frame = "seq_c (refresh_ttl (cr_id (cn_room d)) (cn_profile d)) (dispatch_frame scan draw d f)"
  obtain t where t: "refresh_ttl (cr_id (cn_room d)) (cn_profile d) (s\<lparr>work := committed s\<rparr>) = (Inr (), t)" "rooms_are (chat_rooms (committed s)) t"
    by (simp add: refresh_ttl_def at_presence_def rooms_are_def)
  obtain x u where u: "dispatch_frame scan draw d f t = (x, u)" by fastforce
  have run: "chat_session ?frame s = (x, u\<lparr>committed := off_table (committed u) (work u), work := off_table (committed u) (work u)\<rparr>)"
    by (simp add: chat_session_def comp_simps t u)
  show ?thesis
  proof (cases x)
    case (Inl e)
    with run receive_keeps_rooms [of scan draw ws f s] r show ?thesis by (auto simp: up_to_date_def receive_def Some closed_conns d)
  next
    case (Inr y)
    with u have "f \<noteq> Not_Object" by (auto simp: dispatch_frame_def comp_simps)
    with dispatch_refreshes [OF f] obtain m :: "unit chatting" where m: "dispatch_frame scan draw d f = seq_c m (refresh_room d)" "keeps (rooms_are (chat_rooms (committed s))) m"
      by blast
    obtain z v where v: "m t = (z, v)" by fastforce
    have "rooms_are (chat_rooms (committed s)) v" using keepsD [OF m(2) t(2)] v by simp
    from refresh_room_run [OF this r c [OF d]] u v m(1) Inr
    have "u = v\<lparr>work := (work v)\<lparr>conns := update_where (\<lambda>c. cn_ws c = ws) (\<lambda>x. x\<lparr>cn_room := r\<rparr>) (conns (work v))\<rparr>\<rparr>"
      by (auto simp: comp_simps set_conn_run d split: sum.splits)
    then have cs: "conns (work u) = update_where (\<lambda>c. cn_ws c = ws) (\<lambda>x. x\<lparr>cn_room := r\<rparr>) (conns (work v))" by simp
    have "cn_room x = r" if "x \<in> set (conns (work u))" "cn_ws x = ws" for x
      using that by (simp only: cs in_refreshed)
    moreover have "committed (snd (receive scan draw ws f s)) = off_table (committed u) (work u)"
      by (simp add: receive_def Some run Inr)
    ultimately show ?thesis
      using receive_keeps_rooms [of scan draw ws f s] r by (simp add: up_to_date_def off_table_def)
  qed
qed

lemma receive_in_closed_room:
  assumes "up_to_date ws r s" "cr_state r \<noteq> Room_Open"
  shows "chat_messages (committed (snd (receive scan draw ws f s))) = chat_messages (committed s)"
proof (cases "first_of (filter (\<lambda>c. cn_ws c = ws) (conns (committed s)))")
  case (Some c)
  then have "c \<in> set (conns (committed s))" "cn_ws c = ws" by (auto simp: first_of_def filter_eq_Cons_iff split: list.splits)
  with assms have "cr_state (cn_room c) \<noteq> Room_Open" by (auto simp: up_to_date_def)
  note keep = frames_keep_messages [OF this]
  obtain x s1 where run: "chat_session (seq_c (refresh_ttl (cr_id (cn_room c)) (cn_profile c)) (dispatch_frame scan draw c f)) s = (x, s1)"
    by fastforce
  have "chat_messages (committed s1) = chat_messages (committed s)"
    using session_keeps_messages [OF _ refl, of s "seq_c (refresh_ttl (cr_id (cn_room c)) (cn_profile c)) (dispatch_frame scan draw c f)"] run
    by (simp add: keeps_seq keep)
  with session_keeps_messages [OF _ refl, of s1 "close_ws c"] show ?thesis by (auto simp: receive_def Some run split: sum.split)
qed (simp add: receive_def)

type_synonym socket_frame = "chat_scan \<times> (nat \<times> nat) \<times> client_frame"

definition receive_frames :: "nat \<Rightarrow> socket_frame list \<Rightarrow> chat_sess \<Rightarrow> chat_sess" where
  "receive_frames ws fs s = fold (\<lambda>(scan, draw, f). \<lambda>s. snd (receive scan draw ws f s)) fs s"

lemma up_to_date_frames:
  assumes "up_to_date ws r s" "cr_state r \<noteq> Room_Open"
  shows "chat_messages (committed (receive_frames ws fs s)) = chat_messages (committed s)"
  using assms
proof (induction fs arbitrary: s)
  case (Cons q fs)
  obtain scan draw f where q: "q = (scan, draw, f)" by (cases q)
  let ?s = "snd (receive scan draw ws f s)"
  have "up_to_date ws r ?s"
  proof (cases "f = Not_Json")
    case True
    from Cons.prems(1) show ?thesis
      by (auto simp: True receive_def up_to_date_def dispatch_frame_def chat_session_def comp_simps send_to_def refresh_ttl_def at_presence_def
          off_table_def split: option.split)
  next
    case False
    with Cons.prems(1) show ?thesis by (intro receive_refreshes) (auto simp: up_to_date_def)
  qed
  with Cons q receive_in_closed_room [OF Cons.prems, of scan draw f] show ?case by (simp add: receive_frames_def)
qed (simp add: receive_frames_def)

text \<open>C37. A block reaches an open connection with its second frame: once a room is not open any more, a connection opened
  before may still send one message, because the row it holds is read again only after a frame; after one
  readable frame no sequence of frames on that socket stores a message.\<close>

theorem block_stops_second_frame:
  assumes "filter (\<lambda>x. cr_id x = cr_id r) (chat_rooms (committed s)) = [r]" "cr_state r \<noteq> Room_Open" "f \<noteq> Not_Json"
    and "\<And>c. c \<in> set (conns (committed s)) \<Longrightarrow> cn_ws c = ws \<Longrightarrow> cr_id (cn_room c) = cr_id r"
  shows "chat_messages (committed (receive_frames ws ((scan, draw, f) # fs) s)) = chat_messages (committed (snd (receive scan draw ws f s)))"
proof -
  have "receive_frames ws ((scan, draw, f) # fs) s = receive_frames ws fs (snd (receive scan draw ws f s))" by (simp add: receive_frames_def)
  with up_to_date_frames [OF receive_refreshes [OF assms(1,3,4)] assms(2)] show ?thesis by simp
qed

section \<open>Read pointers\<close>

definition read_pointer :: "uuid \<Rightarrow> uuid \<Rightarrow> chat_db \<Rightarrow> uuid option" where
  "read_pointer room profile db = (case first_of (filter (\<lambda>r. rr_room r = room \<and> rr_profile r = profile) (receipts db)) of
     None \<Rightarrow> None | Some r \<Rightarrow> rr_msg r)"

text \<open>Pointer \<open>b\<close> is not behind \<open>a\<close>.\<close>

definition not_behind :: "uuid option \<Rightarrow> uuid option \<Rightarrow> bool" where
  "not_behind a b \<longleftrightarrow> (case a of None \<Rightarrow> True | Some x \<Rightarrow> (case b of None \<Rightarrow> False | Some y \<Rightarrow> str_uuid x \<le> str_uuid y))"

lemma not_behind_refl [simp]: "not_behind a a"
  by (simp add: not_behind_def split: option.split)

lemma not_behind_trans: "not_behind a b \<Longrightarrow> not_behind b c \<Longrightarrow> not_behind a c"
  by (auto simp: not_behind_def split: option.splits)

abbreviation pointer_in :: "uuid \<Rightarrow> uuid \<Rightarrow> read_receipt list \<Rightarrow> uuid option" where
  "pointer_in room profile rs \<equiv> (case first_of (filter (\<lambda>r. rr_room r = room \<and> rr_profile r = profile) rs) of None \<Rightarrow> None | Some r \<Rightarrow> rr_msg r)"

lemma first_of_update:
  assumes "\<And>r. P (g r) = P r"
  shows "first_of (filter P (update_where (\<lambda>r. P r \<and> Q r) g rs)) = map_option (\<lambda>r. if Q r then g r else r) (first_of (filter P rs))"
  by (induction rs) (simp_all add: first_of_def assms)

lemma pointer_update:
  "pointer_in room profile (update_where (\<lambda>r. rr_room r = room \<and> rr_profile r = profile \<and> moves_forward msg r) (\<lambda>r. r\<lparr>rr_msg := Some msg, rr_at := Some now\<rparr>) rs)
    = (case first_of (filter (\<lambda>r. rr_room r = room \<and> rr_profile r = profile) rs) of None \<Rightarrow> None | Some r \<Rightarrow> if moves_forward msg r then Some msg else rr_msg r)"
  using first_of_update [of "\<lambda>r. rr_room r = room \<and> rr_profile r = profile" "\<lambda>r. r\<lparr>rr_msg := Some msg, rr_at := Some now\<rparr>" "moves_forward msg" rs]
  by (simp add: conj_assoc split: option.split)

lemma first_of_none: "first_of (filter P rs) = None \<longleftrightarrow> \<not> list_ex P rs"
  by (induction rs) (simp_all add: first_of_def)

lemma upsert_pointer_same:
  "pointer_in room profile (upsert_receipt room profile msg now rs)
    = (case first_of (filter (\<lambda>r. rr_room r = room \<and> rr_profile r = profile) rs) of None \<Rightarrow> Some msg | Some r \<Rightarrow> if moves_forward msg r then Some msg else rr_msg r)"
proof (cases "list_ex (\<lambda>r. rr_room r = room \<and> rr_profile r = profile) rs")
  case True
  then have "first_of (filter (\<lambda>r. rr_room r = room \<and> rr_profile r = profile) rs) \<noteq> None" by (simp only: first_of_none not_not)
  then show ?thesis using pointer_update [of room profile msg now rs] by (auto simp only: upsert_receipt_def True if_True split: option.split)
next
  case False
  then have "first_of (filter (\<lambda>r. rr_room r = room \<and> rr_profile r = profile) rs) = None" by (simp only: first_of_none not_False_eq_True)
  moreover from this have "filter (\<lambda>r. rr_room r = room \<and> rr_profile r = profile) rs = []" by (simp add: first_of_def split: list.splits)
  ultimately show ?thesis by (simp add: upsert_receipt_def False first_of_def)
qed

lemma upsert_pointer_other:
  assumes "\<not> (room2 = room \<and> profile2 = profile)"
  shows "pointer_in room profile (upsert_receipt room2 profile2 msg now rs) = pointer_in room profile rs"
proof -
  have "filter (\<lambda>r. rr_room r = room \<and> rr_profile r = profile) (update_where (\<lambda>r. rr_room r = room2 \<and> rr_profile r = profile2 \<and> Q r) (\<lambda>r. r\<lparr>rr_msg := a, rr_at := b\<rparr>) rs)
      = filter (\<lambda>r. rr_room r = room \<and> rr_profile r = profile) rs" for Q a b
    using assms by (intro filter_update_where_other) auto
  with assms show ?thesis by (auto simp: upsert_receipt_def)
qed

lemma upsert_pointer:
  "not_behind (pointer_in room profile rs) (pointer_in room profile (upsert_receipt room2 profile2 msg now rs))"
  "not_behind (Some msg) (pointer_in room profile (upsert_receipt room profile msg now rs))"
proof -
  show "not_behind (Some msg) (pointer_in room profile (upsert_receipt room profile msg now rs))"
    unfolding upsert_pointer_same by (auto simp: not_behind_def moves_forward_def split: option.splits)
  show "not_behind (pointer_in room profile rs) (pointer_in room profile (upsert_receipt room2 profile2 msg now rs))"
  proof (cases "room2 = room \<and> profile2 = profile")
    case True
    then show ?thesis
      by (simp only: upsert_pointer_same) (auto simp: not_behind_def moves_forward_def split: option.splits)
  next
    case False
    show ?thesis by (simp only: upsert_pointer_other [OF False] not_behind_refl)
  qed
qed

lemma pointer_step: "chat_effect a b \<Longrightarrow> not_behind (read_pointer room profile a) (read_pointer room profile b)"
  by (cases rule: chat_effect.cases, assumption) (simp_all add: read_pointer_def same_tables_def upsert_pointer)

lemma pointer_effects: "chat_effects a b \<Longrightarrow> not_behind (read_pointer room profile a) (read_pointer room profile b)"
  by (induction rule: rtranclp_induct) (auto dest: pointer_step intro: not_behind_trans)

text \<open>C38. A read pointer never moves back: whatever sequence of requests, frames and events follows, the pointer of a member
  stays where it was or moves to a message with a greater identifier, and an accepted request to mark a
  message as read leaves it at that message or behind it.\<close>

theorem read_pointer_never_moves_back:
  "not_behind (read_pointer room profile (committed s)) (read_pointer room profile (committed (chat_run qs s)))
   \<and> (fst (get_profile_id header s) = Inr profile \<and> fst (mark_read header room msg s) = Inr ()
      \<longrightarrow> not_behind (Some msg) (read_pointer room profile (committed (chat_run qs (snd (mark_read header room msg s))))))"
proof (intro conjI impI)
  show "not_behind (read_pointer room profile (committed s)) (read_pointer room profile (committed (chat_run qs s)))"
    by (rule pointer_effects [OF run_effects])
  assume a: "fst (get_profile_id header s) = Inr profile \<and> fst (mark_read header room msg s) = Inr ()"
  have h: "get_profile_id header t = (Inr profile, t)" for t
    using a by (auto simp: get_profile_id_def comp_simps split: option.splits if_splits)
  have "receipts (committed (snd (mark_read header room msg s))) = upsert_receipt room profile msg (clock s) (receipts (committed s))"
    using a by (auto simp: mark_read_def chat_session_def comp_simps h require_room_def participant_room_def store_receipt_def off_table_def
        split: option.splits prod.splits sum.splits if_splits)
  then have "not_behind (Some msg) (read_pointer room profile (committed (snd (mark_read header room msg s))))"
    by (simp add: read_pointer_def upsert_pointer)
  with pointer_effects [OF run_effects] show "not_behind (Some msg) (read_pointer room profile (committed (chat_run qs (snd (mark_read header room msg s)))))"
    by (blast intro: not_behind_trans)
qed

end
