(* ===== verification/Chat_Demo.thy ===== *)
theory Chat_Demo
  imports Chat_Frames
begin

text \<open>
  A concrete room, its connections and concrete requests: the properties of chat-svc at inputs where their
  conditions hold.
\<close>

definition demo_room :: chat_room where
  "demo_room = \<lparr>cr_id = 3, cr_collab = 9, cr_participants = [7, 8], cr_state = Room_Open, cr_created_at = 0\<rparr>"

definition demo_conn :: "nat \<Rightarrow> uuid \<Rightarrow> connection" where
  "demo_conn ws profile = \<lparr>cn_ws = ws, cn_pod = 0, cn_room = demo_room, cn_profile = profile, cn_counter = new_counter, cn_since = 0, cn_warned = False\<rparr>"

definition demo_db :: "chat_room list \<Rightarrow> chat_message list \<Rightarrow> chat_db" where
  "demo_db rooms ms = \<lparr>chat_mapped = True, chat_rooms = rooms, chat_messages = ms, revisions = [], receipts = [], presences = (\<lambda>_. None),
     conns = [demo_conn 11 7, demo_conn 12 8], sent_frames = []\<rparr>"

definition demo_chat :: "chat_room list \<Rightarrow> chat_message list \<Rightarrow> chat_sess" where
  "demo_chat rooms ms = \<lparr>committed = demo_db rooms ms, work = demo_db rooms ms, outbox = [], clock = 0, next_uuid = 6\<rparr>"

definition demo_payload :: send_payload where
  "demo_payload = \<lparr>sp_body = ''a'', sp_reply_to = None, sp_nonce = 5\<rparr>"

definition demo_message :: chat_message where
  "demo_message = new_message (uuidv7 0 (0, 0)) 3 7 ''a'' 5 None 0 Ms_Allowed 0"

definition demo_send :: chat_request where
  "demo_send = Ch_Send (Scan_Result 0 []) (0, 0) (Some (str_uuid 7)) 3 demo_payload"

lemmas chat_demo_defs = demo_room_def demo_conn_def demo_db_def demo_chat_def demo_payload_def demo_message_def

lemma header_profile [simp]: "get_profile_id (Some (str_uuid u)) s = (Inr (u mod 16 ^ 32), s)"
  by (simp add: get_profile_id_def comp_simps parse_str_uuid) (simp add: str_uuid_def Let_def)

lemma demo_chat_sent: "chat_run [demo_send] (demo_chat [demo_room] []) = demo_chat [demo_room] [demo_message]"
  by (simp add: chat_run_def demo_send_def send_message_def chat_session_def comp_simps require_room_def participant_room_def chat_demo_defs
      store_message_def call_moderation_def rest_status_def Let_def off_table_def)

lemma hidden_messages_never_shown_witness:
  "case fst (get_messages True (Some (str_uuid 8)) 3 None 10 ''before'' (chat_run [demo_send] (demo_chat [demo_room] []))) of
     Inl e \<Rightarrow> False
   | Inr (outs, next_cursor) \<Rightarrow> outs = [row_out demo_message] \<and> list_all (\<lambda>o1. \<exists>x \<in> {demo_message}. row_out x = o1 \<and> visible x \<and> (\<exists>q. cm_score x = Some q \<and> q < 7 / 10)) outs"
proof -
  have "fst (get_messages True (Some (str_uuid 8)) 3 None 10 ''before'' (chat_run [demo_send] (demo_chat [demo_room] []))) = Inr ([row_out demo_message], None)"
    unfolding demo_chat_sent by (simp add: get_messages_def chat_session_def comp_simps require_room_def participant_room_def ask_cursor_def messages_page_def shown_def Let_def
        new_message_def chat_demo_defs)
  with hidden_messages_never_shown [of "demo_chat [demo_room] []" _ "[demo_send]" True "Some (str_uuid 8)" 3 None 10 "''before''", OF _ _ refl]
  show ?thesis by (simp add: demo_chat_sent) (simp add: demo_chat_def demo_db_def)
qed

lemma edit_history_complete_witness:
  "let db = committed (chat_run [Ch_Edit (Some (str_uuid 7)) 3 (uuidv7 0 (0, 0)) ''b''] (demo_chat [demo_room] [demo_message])) in
     \<exists>n\<ge>2. map rv_version (history db (uuidv7 0 (0, 0))) = [1..<n + 1] \<and> rv_body (hd (history db (uuidv7 0 (0, 0)))) = ''a''
       \<and> Some ''b'' = Some (rv_body (last (history db (uuidv7 0 (0, 0)))))"
proof -
  let ?db = "committed (chat_run [Ch_Edit (Some (str_uuid 7)) 3 (uuidv7 0 (0, 0)) ''b''] (demo_chat [demo_room] [demo_message]))"
  have ms: "chat_messages ?db = [demo_message\<lparr>cm_body := Some ''b'', cm_edited_at := Some 0\<rparr>]"
    by (simp add: chat_run_def edit_message_def chat_session_def comp_simps chat_demo_defs new_message_def first_of_def apply_edit_run last_version_def edited_def off_table_def Let_def)
  then show ?thesis
    using edit_history_complete [of "demo_chat [demo_room] []" demo_message "[demo_send]" "''a''" ?db
        "[Ch_Edit (Some (str_uuid 7)) 3 (uuidv7 0 (0, 0)) ''b'']"]
    unfolding demo_chat_sent by (simp add: chat_demo_defs new_message_def Let_def)
qed

lemma frames_multiply_witness:
  "count_list (sent_frames (work (snd (publish_room 3 Ws_Pong (demo_chat [demo_room] []))))) (11, Ws_Pong) = 2"
  using frames_multiply [of "demo_chat [demo_room] []" "demo_conn 11 7" 3 Ws_Pong] by (simp add: chat_demo_defs of_room_def)

lemma resending_ends_connection_witness:
  "conns (committed (snd (receive (Scan_Result 0 []) (0, 0) 11 (Send_Frame (Some demo_payload) None) (demo_chat [demo_room] [demo_message])))) = [demo_conn 12 8]"
  using resending_ends_connection [of 11 "demo_chat [demo_room] [demo_message]" "demo_conn 11 7" demo_payload demo_message _ "Scan_Result 0 []" "(0, 0)" None]
  by (simp add: chat_demo_defs first_of_def rate_check_send_def this_minute_def new_counter_def send_rate_per_minute_def new_message_def Let_def)

lemma block_stops_second_frame_witness:
  "chat_messages (committed (receive_frames 11 [(Scan_Result 0 [], (0, 0), Send_Frame (Some demo_payload) None),
      (Scan_Result 0 [], (0, 1), Send_Frame (Some (demo_payload\<lparr>sp_nonce := 6\<rparr>)) None)] (demo_chat [demo_room\<lparr>cr_state := Room_Read_Only\<rparr>] []))) = [demo_message]"
proof -
  have "chat_messages (committed (snd (receive (Scan_Result 0 []) (0, 0) 11 (Send_Frame (Some demo_payload) None) (demo_chat [demo_room\<lparr>cr_state := Room_Read_Only\<rparr>] [])))) = [demo_message]"
    by (simp add: receive_def chat_demo_defs first_of_def chat_session_def comp_simps refresh_ttl_def at_presence_def dispatch_frame_def handle_send_def counted_def
        rate_check_send_def this_minute_def new_counter_def send_rate_per_minute_def set_conn_run parse_send_def max_body_length_def dedup_check_def
        call_moderation_def escalates_def deliver_message_def store_message_def build_message_out_def publish_room_def send_to_def publish_chat_event_def
        refresh_room_def scalar_one_def off_table_def new_message_def Let_def)
  moreover have "chat_messages (committed (receive_frames 11 [(Scan_Result 0 [], (0, 0), Send_Frame (Some demo_payload) None),
      (Scan_Result 0 [], (0, 1), Send_Frame (Some (demo_payload\<lparr>sp_nonce := 6\<rparr>)) None)] (demo_chat [demo_room\<lparr>cr_state := Room_Read_Only\<rparr>] [])))
    = chat_messages (committed (snd (receive (Scan_Result 0 []) (0, 0) 11 (Send_Frame (Some demo_payload) None) (demo_chat [demo_room\<lparr>cr_state := Room_Read_Only\<rparr>] []))))"
    by (rule block_stops_second_frame [where r = "demo_room\<lparr>cr_state := Room_Read_Only\<rparr>"]) (auto simp: chat_demo_defs)
  ultimately show ?thesis by (simp only:)
qed

lemma read_pointer_never_moves_back_witness:
  "not_behind (Some 5) (read_pointer 3 7 (committed (chat_run [Ch_Read (Some (str_uuid 7)) 3 2] (snd (mark_read (Some (str_uuid 7)) 3 5 (demo_chat [demo_room] []))))))"
proof -
  have "fst (mark_read (Some (str_uuid 7)) 3 5 (demo_chat [demo_room] [])) = Inr ()"
    by (simp add: mark_read_def chat_session_def comp_simps require_room_def participant_room_def chat_demo_defs store_receipt_def)
  then show ?thesis
    using read_pointer_never_moves_back [of 3 7 "demo_chat [demo_room] []" "[Ch_Read (Some (str_uuid 7)) 3 2]" "Some (str_uuid 7)" 5] by simp
qed

end
