(* ===== verification/Chat_Deployed.thy ===== *)
theory Chat_Deployed
  imports Chat_Demo
begin

text \<open>
  chat-svc with the mapped classes the repository has: SQLAlchemy cannot configure them, and what is left
  of the service then.
\<close>

section \<open>A service whose mappers do not configure\<close>

definition idle_db :: "chat_db \<Rightarrow> chat_db \<Rightarrow> bool" where
  "idle_db d w \<longleftrightarrow> \<not> chat_mapped w \<and> chat_messages w = chat_messages d \<and> revisions w = revisions d \<and> receipts w = receipts d
     \<and> map cr_id (chat_rooms w) = map cr_id (chat_rooms d) \<and> conns w = []
     \<and> (\<exists>sockets. sent_frames w = sent_frames d @ map (\<lambda>ws. (ws, Ws_Closed 4001)) sockets)"

definition idle :: "chat_db \<Rightarrow> message list \<Rightarrow> chat_sess \<Rightarrow> bool" where
  "idle d told s \<longleftrightarrow> idle_db d (work s) \<and> idle_db d (committed s) \<and> outbox s = told"

text \<open>Between two requests only what is committed counts.\<close>

definition rests :: "chat_db \<Rightarrow> message list \<Rightarrow> chat_sess \<Rightarrow> bool" where
  "rests d told s \<longleftrightarrow> idle_db d (committed s) \<and> outbox s = told"

lemma idle_off_table: "idle_db d a \<Longrightarrow> idle_db d b \<Longrightarrow> idle_db d (off_table a b)"
  by (auto simp: idle_db_def off_table_def)

lemma rests_session: "keeps (idle d told) m \<Longrightarrow> keeps (rests d told) (chat_session m)"
proof (rule keepsI)
  fix s assume k: "keeps (idle d told) m" and s: "rests d told s"
  from s have "idle d told (s\<lparr>work := committed s\<rparr>)" by (simp add: idle_def rests_def)
  from keepsD [OF k this] show "rests d told (snd (chat_session m s))"
    by (auto simp: chat_session_def idle_def rests_def idle_off_table split: prod.split)
qed

lemma idle_frame: "idle_db d w \<Longrightarrow> idle_db d (w\<lparr>sent_frames := sent_frames w @ [(ws, Ws_Closed 4001)]\<rparr>)"
  by (auto simp: idle_db_def intro: exI [of _ "sockets @ [ws]" for sockets])

text \<open>Whatever starts with a statement of the ORM stops there.\<close>

lemma idle_orm: "keeps (idle d told) (bind_c (orm chat_mapped m) f)" "keeps (idle d told) (seq_c (orm chat_mapped m) n)"
  by (auto simp: keeps_def comp_simps idle_def idle_db_def)

lemma idle_room: "keeps (idle d told) (bind_c (participant_room room profile) f)"
  by (auto simp: keeps_def participant_room_def comp_simps idle_def idle_db_def)

lemma idle_require: "keeps (idle d told) (bind_c (require_room room profile) f)" "keeps (idle d told) (seq_c (require_room room profile) n)"
  by (auto simp: keeps_def require_room_def participant_room_def comp_simps idle_def idle_db_def)

lemma idle_close [simp]: "keeps (idle d told) (send_to ws (Ws_Closed 4001))"
  by (auto simp: keeps_def send_to_def idle_def idle_frame)

lemma idle_reads [simp]:
  "keeps (idle d told) (get_profile_id header)" "keeps (idle d told) (payload_uuid body key)" "keeps (idle d told) (room_of_pair a b st)"
  by (simp_all add: get_profile_id_def payload_uuid_def room_of_pair_def keeps_bind split: option.split json.split)

lemma idle_edit: "keeps (idle d told) (apply_edit m body)"
proof (rule keepsI)
  fix s assume s: "idle d told s"
  then have "\<not> chat_mapped (work s)" by (simp add: idle_def idle_db_def)
  with apply_edit_refused [of s m body] s show "idle d told (snd (apply_edit m body s))" by auto
qed

lemma idle_state: "keeps (idle d told) (put_room_state room st)"
  by (auto simp: keeps_def put_room_state_def publish_room_def fan_out_def comp_simps idle_def idle_db_def map_update_where)

lemma rests_reads [simp]: "keeps (rests d told) (payload_uuid body key)" "keeps (rests d told) now_c"
  by (simp_all add: payload_uuid_def keeps_def comp_simps split: option.split json.split)

lemma rests_events:
  "keeps (rests d told) (chat_match_created draw body)" "keeps (rests d told) (chat_block_created body)" "keeps (rests d told) (chat_block_removed body)"
  unfolding chat_match_created_def chat_block_created_def chat_block_removed_def
  by (intro keeps_bind rests_session idle_orm rests_reads)
     (intro keeps_bind rests_session rests_reads; auto intro!: keeps_bind idle_state split: option.split)+

lemma rests_requests:
  "keeps (rests d told) (send_message scan draw header room p)" "keeps (rests d told) (mark_read header room msg)"
  "keeps (rests d told) (edit_message header room msg body)"
  unfolding send_message_def mark_read_def edit_message_def
  by (intro rests_session keeps_bind idle_require idle_reads)
     (intro rests_session keeps_bind idle_require idle_reads; auto intro!: keeps_intros idle_edit split: option.split)+

lemma rests_open: "keeps (rests d told) (ws_chat ws pod header query room)"
  unfolding ws_chat_def open_ws_def Let_def by (auto intro!: rests_session idle_room split: option.split)

lemma rests_expiry: "keeps (rests d told) (expiry_watcher ws)"
  unfolding expiry_watcher_def by (rule rests_session) (auto simp: keeps_def idle_def idle_db_def first_of_def)

lemma rests_sockets: "keeps (rests d told) (receive scan draw ws f)" "keeps (rests d told) (disconnect ws)"
  by (auto simp: keeps_def receive_def disconnect_def rests_def idle_db_def first_of_def)

lemma rests_step: "rests d told s \<Longrightarrow> rests d told (chat_step q s)"
  by (cases q) (simp_all add: keepsD [OF rests_open] keepsD [OF rests_sockets(1)] keepsD [OF rests_sockets(2)] keepsD [OF rests_expiry]
    keepsD [OF rests_requests(1)] keepsD [OF rests_requests(2)] keepsD [OF rests_requests(3)]
    keepsD [OF rests_events(1)] keepsD [OF rests_events(2)] keepsD [OF rests_events(3)], simp add: rests_def)

lemma rests_run: "rests d told s \<Longrightarrow> rests d told (chat_run qs s)"
  by (induction qs arbitrary: s) (simp_all add: chat_run_def rests_step)

text \<open>C36. The deployed chat takes no message and opens no connection: with the relationships and foreign keys app/models.py
  declares, over any sequence of requests, frames and events from a start without connections, no message,
  revision, read receipt or room is ever added, no event is published, no socket gets into a room, and the only
  thing a socket is ever sent is the code it is closed with for not naming a profile.\<close>

theorem deployed_chat_stays_idle:
  assumes deployed: "chat_mapped (committed s0) = mappers_configure chat_relationships chat_foreign_keys"
    and start: "conns (committed s0) = []" and s: "s = chat_run qs s0"
  shows "chat_messages (committed s) = chat_messages (committed s0) \<and> revisions (committed s) = revisions (committed s0)
    \<and> receipts (committed s) = receipts (committed s0) \<and> map cr_id (chat_rooms (committed s)) = map cr_id (chat_rooms (committed s0))
    \<and> conns (committed s) = [] \<and> outbox s = outbox s0
    \<and> (\<exists>sockets. sent_frames (committed s) = sent_frames (committed s0) @ map (\<lambda>ws. (ws, Ws_Closed 4001)) sockets)"
proof -
  have "rests (committed s0) (outbox s0) s0"
    using deployed start chat_mappers_fail by (auto simp: rests_def idle_db_def)
  from rests_run [OF this] show ?thesis by (auto simp: s rests_def idle_db_def)
qed

definition deployed_chat :: chat_sess where
  "deployed_chat = (demo_chat [demo_room] [])\<lparr>committed := (demo_db [demo_room] [])\<lparr>chat_mapped := False, conns := []\<rparr>\<rparr>"

lemma deployed_chat_stays_idle_witness:
  "chat_messages (committed (chat_run [Ch_Open 1 0 (Some (str_uuid 7)) [] 3, demo_send] deployed_chat)) = []
   \<and> conns (committed (chat_run [Ch_Open 1 0 (Some (str_uuid 7)) [] 3, demo_send] deployed_chat)) = []"
proof -
  have "chat_mapped (committed deployed_chat) = mappers_configure chat_relationships chat_foreign_keys" "conns (committed deployed_chat) = []"
    using chat_mappers_fail by (simp_all add: deployed_chat_def)
  from deployed_chat_stays_idle [OF this refl, of "[Ch_Open 1 0 (Some (str_uuid 7)) [] 3, demo_send]"]
  show ?thesis by (simp add: deployed_chat_def demo_chat_def demo_db_def)
qed

end
