(* ===== verification/Spec2Isabelle.thy ===== *)
theory Spec2Isabelle
  imports Billing_Deliveries Billing_Internal Invite_World Collab_Lists Collab_Tasks Collab_Whiteboard Collab_Export Mod_Claims Auth_Demo AI_World Chat_Deployed
begin

text \<open>
  Verification library of the Colab services (services under src/services, in Python with
  FastAPI, SQLAlchemy, Celery, Redis and RabbitMQ). Seven services are modelled: billing-svc
  (subscriptions, credits, entitlements, dunning, refunds, webhooks), invite-svc (invites, quota,
  blocks), collab-svc (collaborations, their project plan and whiteboard), moderation-svc (scans,
  reports, the review queue, DMCA notices, propagation of decisions), auth-svc (accounts, login,
  refresh tokens and sessions, mailed links, one-time codes), ai-orchestrator-svc (paid chat commands, mockups two
  partners consent to, deliveries of the image service) and chat-svc (rooms, messages and their edits, the socket
  protocol, read receipts, presence). They meet in messages and in
  entitlements: billing-svc resolves the limits invite-svc and collab-svc enforce, invite-svc
  announces matches and blocks to collab-svc, every service that stores text has it scanned, and the
  commands of ai-orchestrator-svc reserve and settle credits of billing-svc.

  How code becomes HOL. A service is a function on its state. The state of a request is a
  \<open>sess\<close> (Colab_Prelude): the tables as last committed, the tables as the transaction sees them,
  the messages published, the clock, a counter that stands for uuid4. A handler is a value of
  type \<open>comp\<close>, from a state to a result and a state; a result is \<open>Inl\<close> an exception of the
  datatype \<open>exn\<close> or \<open>Inr\<close> a value, so every raise and early return of the source is a branch.
  Tables are lists of records, one record per ORM class, one field per column the code uses; a
  unique constraint is a check at the insert, with IntegrityError as in the code. Redis is a map
  from keys to values with expiry. JSON payloads are association lists of the datatype \<open>json\<close>.
  Times are microseconds since 1970, identifiers natural numbers printed and parsed as UUID texts.

  Theories.
  \<^item> Colab_Prelude: exceptions, sessions, the laws of computations (\<open>comp_simps\<close>, \<open>keeps\<close>), table
    lemmas, tables that only grow. Colab_Platform: what decides at the edge of a service whether its
    code gets to work at all (colab_common/auth.py, the session maker of colab_common/db.py, the mappers of
    SQLAlchemy, the columns and constraints an insert names). Colab_Text: Python's text functions on input. Colab_Paging:
    keyset pagination, the locale \<open>keyset_listing\<close> and its client \<open>follow\<close>, who reads every row
    once; interpreted by the inbox and sent lists (Invite_Lists) and the collaboration list
    (Collab_Lists).
  \<^item> Billing_Data (app/models/billing.py), Billing_Credits and Billing_Wallet (services/credits.py
    and the endpoints of routers/internal.py; locale of the wallet, replays), Billing_Entitlements
    (services/entitlements.py: the resolver and its cache), Billing_Internal (who may call
    routers/internal.py, the entitlements as other services get them), Billing_Subscriptions
    (services/subscriptions.py), Billing_Dunning, Billing_Refunds, Billing_Webhooks (routers/webhooks.py,
    services/webhooks.py, both handler modules), Billing_Checkout (checkouts and cancellations of routers/billing.py, the
    grants of routers/admin.py), Billing_Frame (which tables each handler leaves
    alone), Billing_Deliveries (requests in any order, what deliveries do).
  \<^item> Invite_Data (models, schemas, events), Invite_Quota (the Lua script, the cached limit,
    idempotency), Invite_Lifecycle (routers/invites.py, moderation, workers/ttl_tasks.py), Invite_Lists
    (listings and blocks), Invite_World (requests in any order).
  \<^item> Collab_Data (models.py, models_tools.py, schemas, domain/state_machine.py), Collab_Service
    (services/collab_service.py, routers/collabs.py, event consumers, Celery tasks), Collab_World
    (requests in any order), Collab_Lists (the list in pages), Collab_Tasks (task_service.py and
    routers/tasks.py), Collab_Whiteboard (whiteboard_ws.py and the snapshots of
    whiteboard_service.py), Collab_Export (whiteboard exports).
  \<^item> Mod_Data (models.py, schemas.py, config.py of moderation-svc), Mod_Score (score.py, the scans of
    routers/internal.py and workers/scan_tasks.py), Mod_Service (routers/reports.py,
    routers/cases.py, workers/sla_tasks.py), Mod_Dmca (routers/dmca.py, workers/dmca_tasks.py),
    Mod_Propagation (workers/propagation_tasks.py and the state endpoint of the chat gate), Mod_World
    (requests in any order, the queue), Mod_Safety and Mod_Claims (invariants and what follows).
  \<^item> Colab_Rate_Limit (colab_common/rate_limit.py: the token bucket), Auth_Data (models/user.py,
    schemas/auth.py, the transaction of colab_common/db.py), Auth_Services (services/*.py of
    auth-svc), Auth_Routes (routers/*.py), Auth_World (requests in any order, the invariant),
    Auth_Safety (each request keeps it; a failing one changes no table), Auth_Claims (what holds over
    sequences of requests; the locale \<open>one_time\<close> of credentials that work once, interpreted for refresh
    tokens and for mailed links), Auth_Effects (single requests), Auth_Demo (a concrete library and
    concrete requests).
  \<^item> AI_Data (models.py, config.py of ai-orchestrator-svc, services/billing_client.py and
    moderation_client.py), AI_Service (routers/*.py, workers/*.py), AI_Claims (what a command would do to
    the credits), AI_World (requests in any order; the locales \<open>quiet_service\<close>, \<open>quiet_endpoint\<close> and \<open>silent\<close> of what the operations
    may touch, interpreted among others for the consents, for the tables and for the credits).
  \<^item> Chat_Data (models.py, schemas.py, uuidv7.py, config.py of chat-svc, ws/presence.py,
    ws/connection_manager.py), Chat_Service (ws/handler.py, routers/rooms.py,
    workers/event_consumers.py), Chat_World (requests in any order; every request as a sequence of the
    effects of the relation \<open>chat_effect\<close>), Chat_Claims (what is shown, the history of edits), Chat_Lists (identifiers and their
    texts, pages of messages and of rooms), Chat_Frames (copies, resent messages, blocks, read pointers),
    Chat_Demo (a concrete room), Chat_Deployed (the service with the mapped classes it has).
  \<^item> This theory: properties that span services.

  What the lemmas show. Invariants of all reachable states: wallets equal their ledgers and are
  never overdrawn, one open dunning case per subscription, well-formed invite, collaboration and
  task tables, the status history of a collaboration walks its state machine, ops of a board are
  numbered upwards, rows of the moderation queue agree with their status, accounts share no address,
  number or identity, revisions of a message are numbered without gap.  Safety: refresh tokens and mailed links work once, a revoked session stays
  dead, invites and collaborations are append-only once answered or shut, no
  invite passes a block or the weekly quota, recorded
  moderation actions and reports stay, a missed deadline is announced once. Functional
  behaviour and refinement: the entitlement resolver against the best value of the top source, the
  refund matrix, the Lua script against a sliding window over a log, order keys and rebalancing,
  what a joining whiteboard client is sent, scores and tiers of a scan (worse findings never route
  lower), what a moderator's decision does and where it is sent, what a token bucket lets through, how
  failed logins lead to the lock. Liveness and termination: dunning closes, due notices are hidden, every invite
  expires, an idle board is saved, the batched expiry loop ends. Errors: where the code does not
  do what it means to, the theorem states what it does (see the findings of the manifest).

  The deployment. Some parts of the repository cannot work as they stand, whatever the tables hold, and the model
  has the reason as a value instead of assuming it away. \<open>async_session_factory\<close> answers a session
  maker, which \<open>async with\<close> refuses: no webhook is ever applied (\<open>webhooks_never_land\<close>; \<open>process_webhook\<close> is what
  runs once a session is open). The fields \<open>ai_mapped\<close> and \<open>chat_mapped\<close> tell whether the mappers configure;
  with the relationships and foreign keys of the two model files they do not, so neither service stores
  anything (\<open>orchestrator_is_inert\<close>, \<open>deployed_chat_stays_idle\<close>). The field \<open>collab_schema\<close> holds the columns and
  constraints of the table of collaborations; the one the migration leaves takes no insert
  (\<open>no_match_makes_a_collab\<close>). The headers a client sends are arguments of the endpoints of billing-svc;
  with those of the three clients each call is refused (\<open>everybody_is_on_the_free_plan\<close>,
  \<open>unauthorised_commands_fail\<close>). The other theorems about these services hold for each value of these
  fields and arguments, so also for the services once they are repaired, or name the value they need.

  Bounds and fuel. The batched expiry loop (500 rows per batch) recurses on a measure, the number of
  stale invites, and needs no fuel. The client \<open>follow\<close> of a paged list has as fuel any number above
  the length of the listing; the theorems hold for each of them. Identifiers are below 16 ^ 32
  where a theorem parses their text.

  Decisions. One clock reading per request. Publishing succeeds. A message or a Celery task is its
  entry in the outbox; delivering it is a further request. Stripe, RevenueCat, billing-svc as seen
  over HTTP, sha256, datetime.fromisoformat, full-text search, the renderer, S3 failures and dead
  sockets are arguments. TIER_DEFAULTS is the argument \<open>td\<close> of the resolver, with the table of the
  source as \<open>tier_defaults\<close>. The counters behind the DMCA rate limit are given to each request, and the
  answers of OpenAI, Rekognition and the hashing libraries are arguments. Scores of the moderation service are rationals. In auth-svc the record \<open>library\<close> holds
  PyJWT, SHA-256, argon2 and zxcvbn, with \<open>library_ok\<close> for what is relied on (a token opens to its
  claims, hashes do not collide, a password verifies against its own hash alone); a token carries
  identifiers as values; random tokens, codes and salts are arguments; Redis keys are named by what
  their text is built from; mail and SMS are sent. What Redis was told stays when a transaction is
  rolled back. The state of ai-orchestrator-svc contains the state of billing-svc, on which its HTTP calls run the
  endpoints of Billing_Credits; what stands between (a status, no answer) and every other answer it gets
  is in the argument record \<open>ai_net\<close>. In chat-svc a frame published to Redis reaches the sockets at
  once; sockets, presence and connections stay as they are when a session is rolled back; wall clock and
  monotonic clock are one; the result of a scan and the random bits of an identifier are arguments; an
  exception in the receive loop ends the connection; a SQLAlchemy result that was read once is closed and raises
  when it is read again; the row a query with LIMIT 1 and no order finds is the first stored one; the score is
  left out of moderation.action_taken; lengths of bodies sent over REST are as pydantic accepts them. Text order is by
  character code, in Python and in ORDER BY (C collation), rows with equal sort keys come in the
  order they were stored. Cursors are the pairs their base64 texts encode. The generated columns of
  the full-text search are left out. The whiteboard handler is atomic per frame.

  Not modelled. Concurrency inside a request: row locks, isolation levels, the interleaving of
  workers on one row. The begin() wrapper of get_session for services that commit themselves. Of ai-orchestrator-svc the prompts, the transcript sent to the
  model, the pixels and samples of the watermarks, S3. Of auth-svc the loading of keys, the JWKS
  document and the fetch of Apple's keys. Of billing-svc the tier configuration an
  administrator edits in the memory of a process, the report on a user and plain reads; of collab-svc the chat export (PDF and zip generation) and the
  HTTP proxies; of moderation-svc the audio and video scans, which only queue a task of those
  libraries, and the stored raw answers. Of chat-svc the media columns and attachments, which no
  handler writes. The other services (profile, matching, support, notification,
  meeting, discovery, admin, media, geo and the gateway) are left out; they would come in that order, as far as they are more than calls to other systems; front ends and infrastructure
  are another language.
\<close>

section \<open>Billing and its callers\<close>

text \<open>
  The checks of one sender, each at its time, for its invite and with what billing-svc answers over HTTP at
  that moment; the answers of the checks.
\<close>

type_synonym send_check = "int \<times> uuid \<times> entitlements_api"

fun sender_run :: "uuid \<Rightarrow> send_check list \<Rightarrow> invite_redis \<Rightarrow> bool list" where
  "sender_run u [] redis = []"
| "sender_run u ((now, i, api) # as) redis =
     (case check_and_increment_quota redis now api u i of ((ok, _), redis1) \<Rightarrow> ok # sender_run u as redis1)"

definition deployed_billing :: "entitlements_api \<Rightarrow> bool" where
  "deployed_billing api \<longleftrightarrow> (\<exists>jwt td cache sb. api = entitlements_over_http jwt td cache sb)"

lemma deployed_refuses:
  assumes "deployed_billing api" "map_of headers ''Authorization'' = None"
  shows "api headers u = Billing_Reply 401 None"
  using assms untokened_is_refused(2) by (auto simp: deployed_billing_def)

lemma free_limit:
  assumes "deployed_billing api" "limit_keys redis (limit_key u) = None"
  shows "get_invite_limit redis now api u = (free_invite_quota_per_week, redis)"
  using deployed_refuses [OF assms(1), of invite_headers u] assms(2)
  by (simp add: get_invite_limit_def redis_get_def invite_headers_def)

lemma no_export_rights:
  assumes "deployed_billing api"
  shows "\<not> check_chat_export_entitlement api p" "\<not> check_whiteboard_export_entitlement api p"
  using deployed_refuses [OF assms, of service_headers p]
  by (simp_all add: check_chat_export_entitlement_def check_whiteboard_export_entitlement_def service_headers_def)

lemma sender_run_quota:
  assumes "\<forall>a \<in> set as. deployed_billing (snd (snd a))" "limit_keys redis (limit_key u) = None"
  shows "sender_run u as redis
    = quota_run (quota_key u) (quota_keys redis) (map (\<lambda>(now, i, _). (now, free_invite_quota_per_week, str_uuid i)) as)"
  using assms
proof (induction as arbitrary: redis)
  case (Cons a as)
  obtain now i api where a: "a = (now, i, api)" by (cases a)
  obtain ok n store where lua: "quota_lua (quota_keys redis) (quota_key u) now free_invite_quota_per_week (str_uuid i) = ((ok, n), store)"
    by (metis prod.exhaust)
  with Cons.prems a free_limit [of api redis u now]
  have "check_and_increment_quota redis now api u i = ((ok, if ok then (if free_invite_quota_per_week < premium_limit then max 0 (free_invite_quota_per_week - int n) else premium_limit) else 0),
      redis\<lparr>quota_keys := store\<rparr>)"
    by (simp add: check_and_increment_quota_def)
  with Cons.IH [of "redis\<lparr>quota_keys := store\<rparr>"] Cons.prems lua show ?case by (simp add: a)
qed simp

text \<open>C15. Everybody is on the free plan. invite-svc and collab-svc ask billing-svc for the entitlements of a user without the
  token of a service, which that endpoint demands, so the answer is 401 whatever the user paid for: over any
  sequence of send checks from an empty cache, whatever subscriptions, grants and cached entitlements
  billing-svc has at each, a check allows an invite exactly when fewer than five were allowed in the seven days
  before, no week ever holds more than five, and neither a chat export nor a high-resolution
  export of a whiteboard is allowed.\<close>

theorem everybody_is_on_the_free_plan:
  assumes deployed: "\<forall>a \<in> set as. deployed_billing (snd (snd a))"
    and start: "limit_keys redis (limit_key u) = None" "quota_keys redis = (\<lambda>_. None)"
    and order: "sorted (map fst as)" "distinct (map (\<lambda>(_, i, _). str_uuid i) as)"
  shows "sender_run u as redis = window_run [] (map (\<lambda>(now, _). (now, 5)) as)
    \<and> length (last_week t (granted (map fst as) (sender_run u as redis))) \<le> 5
    \<and> list_all (\<lambda>(_, _, api). \<not> check_chat_export_entitlement api p \<and> \<not> check_whiteboard_export_entitlement api p) as"
proof -
  let ?qs = "map (\<lambda>(now, i, _). (now, free_invite_quota_per_week, str_uuid i)) as"
  have run: "sender_run u as redis = quota_run (quota_key u) (\<lambda>_. None) ?qs"
    using sender_run_quota [OF deployed start(1)] start(2) by simp
  have times: "map fst ?qs = map fst as" and texts: "map (snd \<circ> snd) ?qs = map (\<lambda>(_, i, _). str_uuid i) as"
    and limits: "map (\<lambda>(now, limit, _). (now, limit)) ?qs = map (\<lambda>(now, _). (now, 5)) as"
    by (simp_all add: comp_def case_prod_unfold free_invite_quota_per_week_def)
  have qs: "sorted (map fst ?qs)" "distinct (map (snd \<circ> snd) ?qs)" using order by (simp_all only: times texts)
  have "\<forall>(now, limit, i) \<in> set ?qs. limit \<le> 5" by (auto simp: free_invite_quota_per_week_def)
  from quota_never_exceeded [OF qs this, of t "quota_key u"]
  have "int (length (last_week t (granted (map fst as) (sender_run u as redis)))) \<le> 5" by (simp only: run times)
  then have "length (last_week t (granted (map fst as) (sender_run u as redis))) \<le> 5" by linarith
  moreover have "list_all (\<lambda>(_, _, api). \<not> check_chat_export_entitlement api p \<and> \<not> check_whiteboard_export_entitlement api p) as"
    using deployed no_export_rights by (auto simp: list_all_iff)
  ultimately show ?thesis using quota_run_fresh [OF qs, of "quota_key u"] by (simp only: run limits simp_thms)
qed

lemma everybody_is_on_the_free_plan_witness:
  "let api = entitlements_over_http (\<lambda>_. Jwt_Expired) tier_defaults (\<lambda>_. None) demo_start_subs in
     sender_run 7 [(0, 20, api)] empty_invite_redis = [True] \<and> \<not> check_chat_export_entitlement api 7"
proof -
  let ?api = "entitlements_over_http (\<lambda>_. Jwt_Expired) tier_defaults (\<lambda>_. None) demo_start_subs"
  have "\<forall>a \<in> set [(0::int, 20::uuid, ?api)]. deployed_billing (snd (snd a))" by (auto simp: deployed_billing_def)
  from everybody_is_on_the_free_plan [OF this, of empty_invite_redis 7 0 7] show ?thesis
    by (simp add: empty_invite_redis_def in_window_def)
qed

text \<open>
  What would follow if invite-svc sent a token: the limit it would enforce is what \<open>invites_per_week\<close> holds in
  the axes billing-svc resolves, and a paid plan holds -1 there.
\<close>

lemma limit_from_axes:
  assumes "limit_keys redis (limit_key u) = None" and "map_of axes ''invites_per_week'' = Some (JInt n)"
  shows "fst (get_invite_limit redis now (\<lambda>_ _. Billing_Reply 200 (Some axes)) u) = n"
  using assms by (simp add: get_invite_limit_def redis_get_def axis_limit_def int_of_json_def)

lemma quota_refused:
  assumes "fst (get_invite_limit redis now api u) = n" and "n \<le> 0"
  shows "fst (check_and_increment_quota redis now api u i) = (False, 0)"
  using assms by (auto simp: check_and_increment_quota_def quota_lua_def Let_def split: prod.splits)

text \<open>
  Then a paying user could send no invite at all: a Premium or Pro subscription resolves invites_per_week to -1
  (unlimited), and invite-svc, which knows only null as unlimited, would take it as the limit.
\<close>

theorem paying_sender_is_refused:
  assumes own: "\<forall>x \<in> set (snapshots (work s)). es_user_id x = u \<longrightarrow> owned u sub (es_axis_key x) x \<and> es_axis_key x \<in> fst ` set axis_registry"
    and live: "t < current_period_end sub" and paying: "effective_tier sub \<noteq> Free"
    and uncached: "limit_keys redis (limit_key u) = None"
  shows "case apply_entitlements_for_user tier_defaults u sub s of (x, s1) \<Rightarrow>
    \<exists>r. resolve_entitlements tier_defaults u (Some t) s1 = (Inr r, s1)
      \<and> fst (check_and_increment_quota redis now (\<lambda>_ _. Billing_Reply 200 (Some (re_axes r))) u i) = (False, 0)"
proof -
  obtain meta where k: "map_of axis_registry ''invites_per_week'' = Some meta" by (simp add: axis_registry_def)
  have "map_of (tier_defaults (effective_tier sub)) ''invites_per_week'' = Some (JInt (-1))"
    using paying by (cases "effective_tier sub") simp_all
  with apply_resolves [OF tier_defaults_typed tier_defaults_complete own live k] show ?thesis
    by (auto intro!: quota_refused [OF limit_from_axes [OF uncached]] split: prod.splits)
qed

text \<open>The message billing-svc publishes when entitlements change carries no event name, so invite-svc ignores it: its cached limit is not dropped, for any user, axes and tier.\<close>

theorem invite_svc_ignores_billing_event:
  "case publish_entitlement_changed u axis_keys t s of (x, s1) \<Rightarrow>
     \<exists>m. outbox s1 = outbox s @ [m] \<and> routing_key m = ''entitlement.changed'' \<and> handle_message redis (payload m) = redis"
  by (auto simp: publish_entitlement_changed_def publish_run handle_message_def event_type_def split: option.split list.split)

section \<open>Invites and collaborations together\<close>

text \<open>C21. A match never becomes a collaboration and a block never reaches one: collab-svc cannot read the match.created and block.created messages invite-svc publishes, because it looks for other keys; every delivery raises and changes nothing, whatever the two profiles and the state.\<close>

theorem collab_svc_cannot_read_invite_events:
  "handle_match_created (payload (emit_match_created now a b ia ib)) s = (Inl (KeyError ''profile_id_a''), s)
   \<and> routing_key (hd (emit_block_created now a b)) = ''block.created''
   \<and> handle_block_created (payload (hd (emit_block_created now a b))) s = (Inl (KeyError ''blocker_profile_id''), s)"
  by (simp add: handle_match_created_def handle_block_created_def emit_match_created_def emit_block_created_def block_pair_def
      need_uuid_def lift_e_def bind_run raise_run Let_def)

text \<open>chat-svc looks for other keys as well, so a match opens no room and a block closes none.\<close>

theorem chat_svc_cannot_read_invite_events:
  "chat_match_created draw (payload (emit_match_created now a b ia ib)) s = (Inl (KeyError ''collaboration_id''), s)
   \<and> chat_block_created (payload (hd (emit_block_created now a b))) s = (Inl (KeyError ''blocker_profile_id''), s)"
  by (simp add: chat_match_created_def chat_block_created_def payload_uuid_def emit_match_created_def emit_block_created_def block_pair_def bind_run raise_run Let_def)

text \<open>The message chat-svc publishes for each chat message names no collaboration, so collab-svc records no activity.\<close>

theorem messages_are_no_activity:
  "case publish_chat_event room m s of (x, s1) \<Rightarrow>
     \<exists>msg. outbox s1 = outbox s @ [msg] \<and> handle_chat_message_sent fromiso (payload msg) c = (Inr (), c)"
  by (simp add: publish_chat_event_def publish_run handle_chat_message_sent_def either_text_def get_text_def ret_run)

end
